(* ===== verification/Prelude.thy ===== *)
theory Prelude
  imports Main "HOL-Library.Word" "HOL-Library.Monad_Syntax" "HOL-Library.AList"
begin

text \<open>
  What every component shares: the machine-integer types of the Go code, the outcome of a call
  (a value, a Go \<open>error\<close>, a run-time panic or a call that never returns because it locks a
  mutex it holds), int64 wrap-around, and the generic lemmas on association lists, lists and
  options that the component theories use through the collections declared here.
\<close>

unbundle bit_operations_syntax

section \<open>Machine integers\<close>

type_synonym u8 = "8 word"
type_synonym u16 = "16 word"
type_synonym u32 = "32 word"
type_synonym u64 = "64 word"
type_synonym bytes = "8 word list"

text \<open>Signed 64-bit values are integers; every int64 operation of the code is followed by
  \<open>wrap64\<close>, which keeps the low 64 bits in two's complement.\<close>

definition wrap64 :: "int \<Rightarrow> int" where
  "wrap64 x = (x + 2 ^ 63) mod 2 ^ 64 - 2 ^ 63"

lemma wrap64_id: "- (2 ^ 63) \<le> x \<Longrightarrow> x < 2 ^ 63 \<Longrightarrow> wrap64 x = x"
  by (simp add: wrap64_def)

lemma wrap64_range: "- (2 ^ 63) \<le> wrap64 x \<and> wrap64 x < 2 ^ 63"
  using pos_mod_bound [of "2 ^ 64" "x + 2 ^ 63"] pos_mod_sign [of "2 ^ 64" "x + 2 ^ 63"]
  by (simp add: wrap64_def)

section \<open>Outcomes of calls\<close>

datatype ('e, 'a) outcome = Ok 'a | Err 'e | Panic | Deadlock

fun is_Ok :: "('e, 'a) outcome \<Rightarrow> bool" where
  "is_Ok (Ok a) = True"
| "is_Ok (Err e) = False"
| "is_Ok Panic = False"
| "is_Ok Deadlock = False"

text \<open>A call returned control to its caller, with a value or with an error.\<close>

fun returned :: "('e, 'a) outcome \<Rightarrow> bool" where
  "returned (Ok a) = True"
| "returned (Err e) = True"
| "returned Panic = False"
| "returned Deadlock = False"

lemma is_Ok_iff: "is_Ok r \<longleftrightarrow> (\<exists>a. r = Ok a)"
  by (cases r) auto

lemma returned_iff: "returned r \<longleftrightarrow> (\<exists>a. r = Ok a) \<or> (\<exists>e. r = Err e)"
  by (cases r) auto

section \<open>Byte slices\<close>

text \<open>\<open>copy(dst[off:], src)\<close>; \<open>make([]byte, n)\<close> followed by \<open>copy(new, old)\<close>. \<open>make\<close>
  panics on a length the run time cannot address (48 bits on the 64-bit platforms).\<close>

definition copy_at :: "nat \<Rightarrow> 'a list \<Rightarrow> 'a list \<Rightarrow> 'a list" where
  "copy_at off src dst = take off dst @ take (length dst - off) src @ drop (off + length src) dst"

definition grow :: "nat \<Rightarrow> bytes \<Rightarrow> bytes" where
  "grow n old = take n old @ replicate (n - length old) 0"

definition max_alloc :: nat where
  "max_alloc = 2 ^ 48"

lemma length_copy_at [simp]: "length (copy_at off src dst) = length dst"
  by (auto simp: copy_at_def)

lemma length_grow [simp]: "length (grow n old) = n"
  by (simp add: grow_def)

lemma nth_grow: "i < n \<Longrightarrow> grow n old ! i = (if i < length old then old ! i else 0)"
  by (auto simp: grow_def nth_append)

lemma nth_copy_at:
  "off \<le> length dst \<Longrightarrow> i < length dst \<Longrightarrow>
   copy_at off src dst ! i = (if off \<le> i \<and> i < off + length src then src ! (i - off) else dst ! i)"
  by (auto simp: copy_at_def nth_append min_def)

lemma copy_at_window:
  "off + length src \<le> length dst \<Longrightarrow> take (length src) (drop off (copy_at off src dst)) = src"
  by (simp add: copy_at_def)

section \<open>Collections the component theories add to\<close>

named_theorems go_defs \<open>definitions of the Go run-time primitives, for evaluation\<close>
named_theorems fs_defs \<open>definitions of the file-system operations\<close>
named_theorems fs_frame \<open>what an operation leaves unchanged\<close>
named_theorems inv_intros \<open>an operation keeps the invariant of its component\<close>

section \<open>Lists, options and association lists\<close>

lemma map_of_filter_fst:
  "map_of (filter (\<lambda>p. P (fst p)) al) k = (if P k then map_of al k else None)"
  by (induction al) auto

lemma map_of_mem_distinct:
  "distinct (map fst al) \<Longrightarrow> (k, v) \<in> set al \<longleftrightarrow> map_of al k = Some v"
  by (simp add: map_of_eq_Some_iff)

lemma bind_Some_iff: "Option.bind x f = Some y \<longleftrightarrow> (\<exists>a. x = Some a \<and> f a = Some y)"
  by (cases x) auto

lemma alist_delete_filter: "AList.delete k al = filter (\<lambda>p. fst p \<noteq> k) al"
  by (induction al) (auto simp: AList.delete_eq)

lemma filter_key_absent: "k \<notin> fst ` set xs \<Longrightarrow> filter (\<lambda>p. fst p \<noteq> k) xs = xs"
  by (induction xs) auto

lemma sum_list_map_filter_split:
  "(\<Sum>x\<leftarrow>xs. f x) = (\<Sum>x\<leftarrow>filter P xs. f x) + (\<Sum>x\<leftarrow>filter (\<lambda>x. \<not> P x) xs. (f x :: int))"
  by (induction xs) auto

lemma sum_list_nonneg_int: "(\<And>x. x \<in> set xs \<Longrightarrow> 0 \<le> f x) \<Longrightarrow> 0 \<le> (\<Sum>x\<leftarrow>xs. (f x :: int))"
  by (induction xs) auto

lemma sum_list_member_le_int:
  "x \<in> set xs \<Longrightarrow> (\<And>y. y \<in> set xs \<Longrightarrow> 0 \<le> f y) \<Longrightarrow> (f x :: int) \<le> (\<Sum>y\<leftarrow>xs. f y)"
proof (induction xs)
  case Nil
  then show ?case by simp
next
  case (Cons y ys)
  then have "0 \<le> (\<Sum>y\<leftarrow>ys. f y)" and "0 \<le> f y"
    by (auto intro: sum_list_nonneg_int)
  with Cons show ?case by fastforce
qed

end
