(* ===== verification/VfsAttributes.thy ===== *)
theory VfsAttributes
  imports Prelude
begin

text \<open>
  The package \<open>vfs\<close>: \<open>Attributes\<close> (attributes.go) and \<open>FSAttributes\<close>
  (fs_attributes.go), records with a bit mask of the fields that are set, \<open>Permissions\<close>
  (permissions.go), the file types, and the context and callback types of vfs.go. A getter whose
  Go code panics when the field is absent returns \<open>None\<close> there; the other getters return the
  pair of the value and whether it is set. Times are nanoseconds since the epoch.
\<close>

section \<open>The mask of present fields\<close>

text \<open>The Go constants are \<open>1 << iota\<close>, so the n-th of them is the n-th bit.\<close>

definition mask_bit :: "nat \<Rightarrow> u32" where
  "mask_bit n = push_bit n 1"

definition AttributesMaskChangeID :: u32 where "AttributesMaskChangeID = mask_bit 0"
definition AttributesMaskDeviceNumber :: u32 where "AttributesMaskDeviceNumber = mask_bit 1"
definition AttributesMaskFileHandle :: u32 where "AttributesMaskFileHandle = mask_bit 2"
definition AttributesMaskFileType :: u32 where "AttributesMaskFileType = mask_bit 3"
definition AttributesMaskInodeNumber :: u32 where "AttributesMaskInodeNumber = mask_bit 4"
definition AttributesMaskLastDataModificationTime :: u32 where "AttributesMaskLastDataModificationTime = mask_bit 5"
definition AttributesMaskAccessTime :: u32 where "AttributesMaskAccessTime = mask_bit 6"
definition AttributesMaskLastStatusChangeTime :: u32 where "AttributesMaskLastStatusChangeTime = mask_bit 7"
definition AttributesMaskBirthTime :: u32 where "AttributesMaskBirthTime = mask_bit 8"
definition AttributesMaskLinkCount :: u32 where "AttributesMaskLinkCount = mask_bit 9"
definition AttributesMaskPermissions :: u32 where "AttributesMaskPermissions = mask_bit 10"
definition AttributesMaskSizeBytes :: u32 where "AttributesMaskSizeBytes = mask_bit 11"
definition AttributesMaskDiskSizeBytes :: u32 where "AttributesMaskDiskSizeBytes = mask_bit 12"
definition AttributesMaskUserID :: u32 where "AttributesMaskUserID = mask_bit 13"
definition AttributesMaskGroupID :: u32 where "AttributesMaskGroupID = mask_bit 14"
definition AttributesMaskUnixMode :: u32 where "AttributesMaskUnixMode = mask_bit 15"

lemmas attribute_masks = AttributesMaskChangeID_def
  AttributesMaskDeviceNumber_def
  AttributesMaskFileHandle_def
  AttributesMaskFileType_def
  AttributesMaskInodeNumber_def
  AttributesMaskLastDataModificationTime_def
  AttributesMaskAccessTime_def
  AttributesMaskLastStatusChangeTime_def
  AttributesMaskBirthTime_def
  AttributesMaskLinkCount_def
  AttributesMaskPermissions_def
  AttributesMaskSizeBytes_def
  AttributesMaskDiskSizeBytes_def
  AttributesMaskUserID_def
  AttributesMaskGroupID_def
  AttributesMaskUnixMode_def

definition has_mask :: "u32 \<Rightarrow> u32 \<Rightarrow> bool" where
  "has_mask present m \<longleftrightarrow> present AND m \<noteq> 0"

lemma has_mask_bit: "has_mask w (mask_bit n) \<longleftrightarrow> bit w n"
  by (simp add: has_mask_def mask_bit_def bit_iff_and_push_bit_not_eq_0)

lemma bit_or_mask_bit: "n < 32 \<Longrightarrow> bit (w OR mask_bit n) k \<longleftrightarrow> bit w k \<or> k = n"
  by (auto simp: mask_bit_def bit_or_iff bit_exp_iff)

lemma has_mask_or:
  "n < 32 \<Longrightarrow> has_mask (w OR mask_bit n) (mask_bit k) \<longleftrightarrow> has_mask w (mask_bit k) \<or> k = n"
  by (simp add: has_mask_bit bit_or_mask_bit)

section \<open>File types and permissions\<close>

datatype FileType = FileTypeRegularFile | FileTypeDirectory | FileTypeSymlink
  | FileTypeBlockDevice | FileTypeCharacterDevice | FileTypeFIFO | FileTypeSocket
  | FileTypeNamedAttributeDir | FileTypeNamedAttribute | FileTypeOther

definition PermissionsRead :: u8 where "PermissionsRead = 1"
definition PermissionsWrite :: u8 where "PermissionsWrite = 2"
definition PermissionsExecute :: u8 where "PermissionsExecute = 4"

definition NewPermissionsFromMode :: "u32 \<Rightarrow> u8" where
  "NewPermissionsFromMode m =
     (if m AND 0x124 \<noteq> 0 then PermissionsRead else 0)
     OR (if m AND 0x92 \<noteq> 0 then PermissionsWrite else 0)
     OR (if m AND 0x49 \<noteq> 0 then PermissionsExecute else 0)"

definition ToMode :: "u8 \<Rightarrow> u32" where
  "ToMode p =
     (if p AND PermissionsRead \<noteq> 0 then 0x124 else 0)
     OR (if p AND PermissionsWrite \<noteq> 0 then 0x80 else 0)
     OR (if p AND PermissionsExecute \<noteq> 0 then 0x49 else 0)"

text \<open>A permission set survives the trip through a mode: the bits \<open>ToMode\<close> writes are
  the ones \<open>NewPermissionsFromMode\<close> reads.\<close>

lemma permissions_of_ToMode:
  assumes "p < 8"
  shows "NewPermissionsFromMode (ToMode p) = p"
proof -
  have le: "unat p < 8" using assms by (simp add: word_less_nat_alt)
  have all: "list_all (\<lambda>n. NewPermissionsFromMode (ToMode (of_nat n)) = of_nat n) [0, 1, 2, 3, 4, 5, 6, 7]"
    by (simp add: NewPermissionsFromMode_def ToMode_def PermissionsRead_def PermissionsWrite_def
        PermissionsExecute_def)
  have "unat p \<in> set [0, 1, 2, 3, 4, 5, 6, 7]" using le by auto
  with all have "NewPermissionsFromMode (ToMode (of_nat (unat p))) = of_nat (unat p)"
    unfolding list_all_iff by blast
  then show ?thesis by simp
qed

section \<open>Attributes\<close>

record Attributes =
  at_fieldsPresent :: u32
  at_changeID :: u64
  at_deviceNumber :: u64
  at_fileHandle :: u64
  at_fileType :: FileType
  at_inodeNumber :: u64
  at_mTime :: int
  at_aTime :: int
  at_cTime :: int
  at_bTime :: int
  at_linkCount :: u32
  at_permissions :: u8
  at_sizeBytes :: u64
  at_diskSize :: u64
  at_uid :: u32
  at_gid :: u32
  at_unixMode :: u32

text \<open>The zero value of the struct, \<open>vfs.Attributes{}\<close>.\<close>

definition empty_Attributes :: Attributes where
  "empty_Attributes =
     \<lparr>at_fieldsPresent = 0, at_changeID = 0, at_deviceNumber = 0, at_fileHandle = 0,
      at_fileType = FileTypeRegularFile, at_inodeNumber = 0, at_mTime = 0, at_aTime = 0,
      at_cTime = 0, at_bTime = 0, at_linkCount = 0, at_permissions = 0, at_sizeBytes = 0,
      at_diskSize = 0, at_uid = 0, at_gid = 0, at_unixMode = 0\<rparr>"

definition GetChangeID :: "Attributes \<Rightarrow> u64 option" where
  "GetChangeID a =
     (if has_mask (at_fieldsPresent a) AttributesMaskChangeID then Some (at_changeID a) else None)"

definition SetChangeID :: "u64 \<Rightarrow> Attributes \<Rightarrow> Attributes" where
  "SetChangeID v a =
     a\<lparr>at_changeID := v, at_fieldsPresent := at_fieldsPresent a OR AttributesMaskChangeID\<rparr>"

definition GetDeviceNumber :: "Attributes \<Rightarrow> u64 \<times> bool" where
  "GetDeviceNumber a = (at_deviceNumber a, has_mask (at_fieldsPresent a) AttributesMaskDeviceNumber)"

definition SetDeviceNumber :: "u64 \<Rightarrow> Attributes \<Rightarrow> Attributes" where
  "SetDeviceNumber v a =
     a\<lparr>at_deviceNumber := v, at_fieldsPresent := at_fieldsPresent a OR AttributesMaskDeviceNumber\<rparr>"

definition GetFileHandle :: "Attributes \<Rightarrow> u64 option" where
  "GetFileHandle a =
     (if has_mask (at_fieldsPresent a) AttributesMaskFileHandle then Some (at_fileHandle a) else None)"

definition SetFileHandle :: "u64 \<Rightarrow> Attributes \<Rightarrow> Attributes" where
  "SetFileHandle v a =
     a\<lparr>at_fileHandle := v, at_fieldsPresent := at_fieldsPresent a OR AttributesMaskFileHandle\<rparr>"

definition GetFileType :: "Attributes \<Rightarrow> FileType option" where
  "GetFileType a =
     (if has_mask (at_fieldsPresent a) AttributesMaskFileType then Some (at_fileType a) else None)"

definition SetFileType :: "FileType \<Rightarrow> Attributes \<Rightarrow> Attributes" where
  "SetFileType v a =
     a\<lparr>at_fileType := v, at_fieldsPresent := at_fieldsPresent a OR AttributesMaskFileType\<rparr>"

definition GetInodeNumber :: "Attributes \<Rightarrow> u64 option" where
  "GetInodeNumber a =
     (if has_mask (at_fieldsPresent a) AttributesMaskInodeNumber then Some (at_inodeNumber a) else None)"

definition SetInodeNumber :: "u64 \<Rightarrow> Attributes \<Rightarrow> Attributes" where
  "SetInodeNumber v a =
     a\<lparr>at_inodeNumber := v, at_fieldsPresent := at_fieldsPresent a OR AttributesMaskInodeNumber\<rparr>"

definition GetLastDataModificationTime :: "Attributes \<Rightarrow> int \<times> bool" where
  "GetLastDataModificationTime a = (at_mTime a, has_mask (at_fieldsPresent a) AttributesMaskLastDataModificationTime)"

definition SetLastDataModificationTime :: "int \<Rightarrow> Attributes \<Rightarrow> Attributes" where
  "SetLastDataModificationTime v a =
     a\<lparr>at_mTime := v, at_fieldsPresent := at_fieldsPresent a OR AttributesMaskLastDataModificationTime\<rparr>"

definition GetLastStatusChangeTime :: "Attributes \<Rightarrow> int \<times> bool" where
  "GetLastStatusChangeTime a = (at_cTime a, has_mask (at_fieldsPresent a) AttributesMaskLastStatusChangeTime)"

definition SetLastStatusChangeTime :: "int \<Rightarrow> Attributes \<Rightarrow> Attributes" where
  "SetLastStatusChangeTime v a =
     a\<lparr>at_cTime := v, at_fieldsPresent := at_fieldsPresent a OR AttributesMaskLastStatusChangeTime\<rparr>"

definition GetAccessTime :: "Attributes \<Rightarrow> int \<times> bool" where
  "GetAccessTime a = (at_aTime a, has_mask (at_fieldsPresent a) AttributesMaskAccessTime)"

definition SetAccessTime :: "int \<Rightarrow> Attributes \<Rightarrow> Attributes" where
  "SetAccessTime v a =
     a\<lparr>at_aTime := v, at_fieldsPresent := at_fieldsPresent a OR AttributesMaskAccessTime\<rparr>"

definition GetBirthTime :: "Attributes \<Rightarrow> int \<times> bool" where
  "GetBirthTime a = (at_bTime a, has_mask (at_fieldsPresent a) AttributesMaskBirthTime)"

definition SetBirthTime :: "int \<Rightarrow> Attributes \<Rightarrow> Attributes" where
  "SetBirthTime v a =
     a\<lparr>at_bTime := v, at_fieldsPresent := at_fieldsPresent a OR AttributesMaskBirthTime\<rparr>"

definition GetLinkCount :: "Attributes \<Rightarrow> u32 option" where
  "GetLinkCount a =
     (if has_mask (at_fieldsPresent a) AttributesMaskLinkCount then Some (at_linkCount a) else None)"

definition SetLinkCount :: "u32 \<Rightarrow> Attributes \<Rightarrow> Attributes" where
  "SetLinkCount v a =
     a\<lparr>at_linkCount := v, at_fieldsPresent := at_fieldsPresent a OR AttributesMaskLinkCount\<rparr>"

definition GetPermissions :: "Attributes \<Rightarrow> u8 \<times> bool" where
  "GetPermissions a = (at_permissions a, has_mask (at_fieldsPresent a) AttributesMaskPermissions)"

definition SetPermissions :: "u8 \<Rightarrow> Attributes \<Rightarrow> Attributes" where
  "SetPermissions v a =
     a\<lparr>at_permissions := v, at_fieldsPresent := at_fieldsPresent a OR AttributesMaskPermissions\<rparr>"

definition GetUnixMode :: "Attributes \<Rightarrow> u32 \<times> bool" where
  "GetUnixMode a = (at_unixMode a, has_mask (at_fieldsPresent a) AttributesMaskUnixMode)"

definition SetUnixMode :: "u32 \<Rightarrow> Attributes \<Rightarrow> Attributes" where
  "SetUnixMode v a =
     a\<lparr>at_unixMode := v AND 0x1FF, at_fieldsPresent := at_fieldsPresent a OR AttributesMaskUnixMode\<rparr>"

definition GetSizeBytes :: "Attributes \<Rightarrow> u64 \<times> bool" where
  "GetSizeBytes a = (at_sizeBytes a, has_mask (at_fieldsPresent a) AttributesMaskSizeBytes)"

definition SetSizeBytes :: "u64 \<Rightarrow> Attributes \<Rightarrow> Attributes" where
  "SetSizeBytes v a =
     a\<lparr>at_sizeBytes := v, at_fieldsPresent := at_fieldsPresent a OR AttributesMaskSizeBytes\<rparr>"

definition GetDiskSizeBytes :: "Attributes \<Rightarrow> u64 \<times> bool" where
  "GetDiskSizeBytes a = (at_diskSize a, has_mask (at_fieldsPresent a) AttributesMaskDiskSizeBytes)"

definition SetDiskSizeBytes :: "u64 \<Rightarrow> Attributes \<Rightarrow> Attributes" where
  "SetDiskSizeBytes v a =
     a\<lparr>at_diskSize := v, at_fieldsPresent := at_fieldsPresent a OR AttributesMaskDiskSizeBytes\<rparr>"

definition GetUID :: "Attributes \<Rightarrow> u32 \<times> bool" where
  "GetUID a = (at_uid a, has_mask (at_fieldsPresent a) AttributesMaskUserID)"

definition SetUID :: "u32 \<Rightarrow> Attributes \<Rightarrow> Attributes" where
  "SetUID v a =
     a\<lparr>at_uid := v, at_fieldsPresent := at_fieldsPresent a OR AttributesMaskUserID\<rparr>"

definition GetGID :: "Attributes \<Rightarrow> u32 \<times> bool" where
  "GetGID a = (at_gid a, has_mask (at_fieldsPresent a) AttributesMaskGroupID)"

definition SetGID :: "u32 \<Rightarrow> Attributes \<Rightarrow> Attributes" where
  "SetGID v a =
     a\<lparr>at_gid := v, at_fieldsPresent := at_fieldsPresent a OR AttributesMaskGroupID\<rparr>"

lemmas attribute_setters = SetChangeID_def
  SetDeviceNumber_def
  SetFileHandle_def
  SetFileType_def
  SetInodeNumber_def
  SetLastDataModificationTime_def
  SetLastStatusChangeTime_def
  SetAccessTime_def
  SetBirthTime_def
  SetLinkCount_def
  SetPermissions_def
  SetUnixMode_def
  SetSizeBytes_def
  SetDiskSizeBytes_def
  SetUID_def
  SetGID_def

lemmas attribute_getters = GetChangeID_def
  GetDeviceNumber_def
  GetFileHandle_def
  GetFileType_def
  GetInodeNumber_def
  GetLastDataModificationTime_def
  GetLastStatusChangeTime_def
  GetAccessTime_def
  GetBirthTime_def
  GetLinkCount_def
  GetPermissions_def
  GetUnixMode_def
  GetSizeBytes_def
  GetDiskSizeBytes_def
  GetUID_def
  GetGID_def

lemma has_mask_empty [simp]: "has_mask 0 m \<longleftrightarrow> False"
  by (simp add: has_mask_def)

lemma has_mask_or_attribute:
  "has_mask (w OR mask_bit n) (mask_bit k) \<longleftrightarrow> has_mask w (mask_bit k) \<or> (k = n \<and> n < 32)"
proof (cases "n < 32")
  case True
  then show ?thesis by (simp add: has_mask_or)
next
  case False
  then have "mask_bit n = 0" by (auto simp: mask_bit_def intro!: bit_word_eqI simp: bit_exp_iff)
  with False show ?thesis by simp
qed

lemma Get_Set_ChangeID [simp]: "GetChangeID (SetChangeID v a) = Some v"
  by (simp add: GetChangeID_def SetChangeID_def attribute_masks has_mask_or_attribute)

lemma Get_Set_DeviceNumber [simp]: "GetDeviceNumber (SetDeviceNumber v a) = (v, True)"
  by (simp add: GetDeviceNumber_def SetDeviceNumber_def attribute_masks has_mask_or_attribute)

lemma Get_Set_FileHandle [simp]: "GetFileHandle (SetFileHandle v a) = Some v"
  by (simp add: GetFileHandle_def SetFileHandle_def attribute_masks has_mask_or_attribute)

lemma Get_Set_FileType [simp]: "GetFileType (SetFileType v a) = Some v"
  by (simp add: GetFileType_def SetFileType_def attribute_masks has_mask_or_attribute)

lemma Get_Set_InodeNumber [simp]: "GetInodeNumber (SetInodeNumber v a) = Some v"
  by (simp add: GetInodeNumber_def SetInodeNumber_def attribute_masks has_mask_or_attribute)

lemma Get_Set_LastDataModificationTime [simp]: "GetLastDataModificationTime (SetLastDataModificationTime v a) = (v, True)"
  by (simp add: GetLastDataModificationTime_def SetLastDataModificationTime_def attribute_masks has_mask_or_attribute)

lemma Get_Set_LastStatusChangeTime [simp]: "GetLastStatusChangeTime (SetLastStatusChangeTime v a) = (v, True)"
  by (simp add: GetLastStatusChangeTime_def SetLastStatusChangeTime_def attribute_masks has_mask_or_attribute)

lemma Get_Set_AccessTime [simp]: "GetAccessTime (SetAccessTime v a) = (v, True)"
  by (simp add: GetAccessTime_def SetAccessTime_def attribute_masks has_mask_or_attribute)

lemma Get_Set_BirthTime [simp]: "GetBirthTime (SetBirthTime v a) = (v, True)"
  by (simp add: GetBirthTime_def SetBirthTime_def attribute_masks has_mask_or_attribute)

lemma Get_Set_LinkCount [simp]: "GetLinkCount (SetLinkCount v a) = Some v"
  by (simp add: GetLinkCount_def SetLinkCount_def attribute_masks has_mask_or_attribute)

lemma Get_Set_Permissions [simp]: "GetPermissions (SetPermissions v a) = (v, True)"
  by (simp add: GetPermissions_def SetPermissions_def attribute_masks has_mask_or_attribute)

lemma Get_Set_UnixMode [simp]: "GetUnixMode (SetUnixMode v a) = (v AND 0x1FF, True)"
  by (simp add: GetUnixMode_def SetUnixMode_def attribute_masks has_mask_or_attribute)

lemma Get_Set_SizeBytes [simp]: "GetSizeBytes (SetSizeBytes v a) = (v, True)"
  by (simp add: GetSizeBytes_def SetSizeBytes_def attribute_masks has_mask_or_attribute)

lemma Get_Set_DiskSizeBytes [simp]: "GetDiskSizeBytes (SetDiskSizeBytes v a) = (v, True)"
  by (simp add: GetDiskSizeBytes_def SetDiskSizeBytes_def attribute_masks has_mask_or_attribute)

lemma Get_Set_UID [simp]: "GetUID (SetUID v a) = (v, True)"
  by (simp add: GetUID_def SetUID_def attribute_masks has_mask_or_attribute)

lemma Get_Set_GID [simp]: "GetGID (SetGID v a) = (v, True)"
  by (simp add: GetGID_def SetGID_def attribute_masks has_mask_or_attribute)

text \<open>A setter leaves every other attribute as it was: same value, same presence.\<close>

lemma attribute_frame [simp]:
  "GetDeviceNumber (SetChangeID v_ChangeID a) = GetDeviceNumber a"
  "GetFileHandle (SetChangeID v_ChangeID a) = GetFileHandle a"
  "GetFileType (SetChangeID v_ChangeID a) = GetFileType a"
  "GetInodeNumber (SetChangeID v_ChangeID a) = GetInodeNumber a"
  "GetLastDataModificationTime (SetChangeID v_ChangeID a) = GetLastDataModificationTime a"
  "GetLastStatusChangeTime (SetChangeID v_ChangeID a) = GetLastStatusChangeTime a"
  "GetAccessTime (SetChangeID v_ChangeID a) = GetAccessTime a"
  "GetBirthTime (SetChangeID v_ChangeID a) = GetBirthTime a"
  "GetLinkCount (SetChangeID v_ChangeID a) = GetLinkCount a"
  "GetPermissions (SetChangeID v_ChangeID a) = GetPermissions a"
  "GetUnixMode (SetChangeID v_ChangeID a) = GetUnixMode a"
  "GetSizeBytes (SetChangeID v_ChangeID a) = GetSizeBytes a"
  "GetDiskSizeBytes (SetChangeID v_ChangeID a) = GetDiskSizeBytes a"
  "GetUID (SetChangeID v_ChangeID a) = GetUID a"
  "GetGID (SetChangeID v_ChangeID a) = GetGID a"
  "GetChangeID (SetDeviceNumber v_DeviceNumber a) = GetChangeID a"
  "GetFileHandle (SetDeviceNumber v_DeviceNumber a) = GetFileHandle a"
  "GetFileType (SetDeviceNumber v_DeviceNumber a) = GetFileType a"
  "GetInodeNumber (SetDeviceNumber v_DeviceNumber a) = GetInodeNumber a"
  "GetLastDataModificationTime (SetDeviceNumber v_DeviceNumber a) = GetLastDataModificationTime a"
  "GetLastStatusChangeTime (SetDeviceNumber v_DeviceNumber a) = GetLastStatusChangeTime a"
  "GetAccessTime (SetDeviceNumber v_DeviceNumber a) = GetAccessTime a"
  "GetBirthTime (SetDeviceNumber v_DeviceNumber a) = GetBirthTime a"
  "GetLinkCount (SetDeviceNumber v_DeviceNumber a) = GetLinkCount a"
  "GetPermissions (SetDeviceNumber v_DeviceNumber a) = GetPermissions a"
  "GetUnixMode (SetDeviceNumber v_DeviceNumber a) = GetUnixMode a"
  "GetSizeBytes (SetDeviceNumber v_DeviceNumber a) = GetSizeBytes a"
  "GetDiskSizeBytes (SetDeviceNumber v_DeviceNumber a) = GetDiskSizeBytes a"
  "GetUID (SetDeviceNumber v_DeviceNumber a) = GetUID a"
  "GetGID (SetDeviceNumber v_DeviceNumber a) = GetGID a"
  "GetChangeID (SetFileHandle v_FileHandle a) = GetChangeID a"
  "GetDeviceNumber (SetFileHandle v_FileHandle a) = GetDeviceNumber a"
  "GetFileType (SetFileHandle v_FileHandle a) = GetFileType a"
  "GetInodeNumber (SetFileHandle v_FileHandle a) = GetInodeNumber a"
  "GetLastDataModificationTime (SetFileHandle v_FileHandle a) = GetLastDataModificationTime a"
  "GetLastStatusChangeTime (SetFileHandle v_FileHandle a) = GetLastStatusChangeTime a"
  "GetAccessTime (SetFileHandle v_FileHandle a) = GetAccessTime a"
  "GetBirthTime (SetFileHandle v_FileHandle a) = GetBirthTime a"
  "GetLinkCount (SetFileHandle v_FileHandle a) = GetLinkCount a"
  "GetPermissions (SetFileHandle v_FileHandle a) = GetPermissions a"
  "GetUnixMode (SetFileHandle v_FileHandle a) = GetUnixMode a"
  "GetSizeBytes (SetFileHandle v_FileHandle a) = GetSizeBytes a"
  "GetDiskSizeBytes (SetFileHandle v_FileHandle a) = GetDiskSizeBytes a"
  "GetUID (SetFileHandle v_FileHandle a) = GetUID a"
  "GetGID (SetFileHandle v_FileHandle a) = GetGID a"
  "GetChangeID (SetFileType v_FileType a) = GetChangeID a"
  "GetDeviceNumber (SetFileType v_FileType a) = GetDeviceNumber a"
  "GetFileHandle (SetFileType v_FileType a) = GetFileHandle a"
  "GetInodeNumber (SetFileType v_FileType a) = GetInodeNumber a"
  "GetLastDataModificationTime (SetFileType v_FileType a) = GetLastDataModificationTime a"
  "GetLastStatusChangeTime (SetFileType v_FileType a) = GetLastStatusChangeTime a"
  "GetAccessTime (SetFileType v_FileType a) = GetAccessTime a"
  "GetBirthTime (SetFileType v_FileType a) = GetBirthTime a"
  "GetLinkCount (SetFileType v_FileType a) = GetLinkCount a"
  "GetPermissions (SetFileType v_FileType a) = GetPermissions a"
  "GetUnixMode (SetFileType v_FileType a) = GetUnixMode a"
  "GetSizeBytes (SetFileType v_FileType a) = GetSizeBytes a"
  "GetDiskSizeBytes (SetFileType v_FileType a) = GetDiskSizeBytes a"
  "GetUID (SetFileType v_FileType a) = GetUID a"
  "GetGID (SetFileType v_FileType a) = GetGID a"
  "GetChangeID (SetInodeNumber v_InodeNumber a) = GetChangeID a"
  "GetDeviceNumber (SetInodeNumber v_InodeNumber a) = GetDeviceNumber a"
  "GetFileHandle (SetInodeNumber v_InodeNumber a) = GetFileHandle a"
  "GetFileType (SetInodeNumber v_InodeNumber a) = GetFileType a"
  "GetLastDataModificationTime (SetInodeNumber v_InodeNumber a) = GetLastDataModificationTime a"
  "GetLastStatusChangeTime (SetInodeNumber v_InodeNumber a) = GetLastStatusChangeTime a"
  "GetAccessTime (SetInodeNumber v_InodeNumber a) = GetAccessTime a"
  "GetBirthTime (SetInodeNumber v_InodeNumber a) = GetBirthTime a"
  "GetLinkCount (SetInodeNumber v_InodeNumber a) = GetLinkCount a"
  "GetPermissions (SetInodeNumber v_InodeNumber a) = GetPermissions a"
  "GetUnixMode (SetInodeNumber v_InodeNumber a) = GetUnixMode a"
  "GetSizeBytes (SetInodeNumber v_InodeNumber a) = GetSizeBytes a"
  "GetDiskSizeBytes (SetInodeNumber v_InodeNumber a) = GetDiskSizeBytes a"
  "GetUID (SetInodeNumber v_InodeNumber a) = GetUID a"
  "GetGID (SetInodeNumber v_InodeNumber a) = GetGID a"
  "GetChangeID (SetLastDataModificationTime v_LastDataModificationTime a) = GetChangeID a"
  "GetDeviceNumber (SetLastDataModificationTime v_LastDataModificationTime a) = GetDeviceNumber a"
  "GetFileHandle (SetLastDataModificationTime v_LastDataModificationTime a) = GetFileHandle a"
  "GetFileType (SetLastDataModificationTime v_LastDataModificationTime a) = GetFileType a"
  "GetInodeNumber (SetLastDataModificationTime v_LastDataModificationTime a) = GetInodeNumber a"
  "GetLastStatusChangeTime (SetLastDataModificationTime v_LastDataModificationTime a) = GetLastStatusChangeTime a"
  "GetAccessTime (SetLastDataModificationTime v_LastDataModificationTime a) = GetAccessTime a"
  "GetBirthTime (SetLastDataModificationTime v_LastDataModificationTime a) = GetBirthTime a"
  "GetLinkCount (SetLastDataModificationTime v_LastDataModificationTime a) = GetLinkCount a"
  "GetPermissions (SetLastDataModificationTime v_LastDataModificationTime a) = GetPermissions a"
  "GetUnixMode (SetLastDataModificationTime v_LastDataModificationTime a) = GetUnixMode a"
  "GetSizeBytes (SetLastDataModificationTime v_LastDataModificationTime a) = GetSizeBytes a"
  "GetDiskSizeBytes (SetLastDataModificationTime v_LastDataModificationTime a) = GetDiskSizeBytes a"
  "GetUID (SetLastDataModificationTime v_LastDataModificationTime a) = GetUID a"
  "GetGID (SetLastDataModificationTime v_LastDataModificationTime a) = GetGID a"
  "GetChangeID (SetLastStatusChangeTime v_LastStatusChangeTime a) = GetChangeID a"
  "GetDeviceNumber (SetLastStatusChangeTime v_LastStatusChangeTime a) = GetDeviceNumber a"
  "GetFileHandle (SetLastStatusChangeTime v_LastStatusChangeTime a) = GetFileHandle a"
  "GetFileType (SetLastStatusChangeTime v_LastStatusChangeTime a) = GetFileType a"
  "GetInodeNumber (SetLastStatusChangeTime v_LastStatusChangeTime a) = GetInodeNumber a"
  "GetLastDataModificationTime (SetLastStatusChangeTime v_LastStatusChangeTime a) = GetLastDataModificationTime a"
  "GetAccessTime (SetLastStatusChangeTime v_LastStatusChangeTime a) = GetAccessTime a"
  "GetBirthTime (SetLastStatusChangeTime v_LastStatusChangeTime a) = GetBirthTime a"
  "GetLinkCount (SetLastStatusChangeTime v_LastStatusChangeTime a) = GetLinkCount a"
  "GetPermissions (SetLastStatusChangeTime v_LastStatusChangeTime a) = GetPermissions a"
  "GetUnixMode (SetLastStatusChangeTime v_LastStatusChangeTime a) = GetUnixMode a"
  "GetSizeBytes (SetLastStatusChangeTime v_LastStatusChangeTime a) = GetSizeBytes a"
  "GetDiskSizeBytes (SetLastStatusChangeTime v_LastStatusChangeTime a) = GetDiskSizeBytes a"
  "GetUID (SetLastStatusChangeTime v_LastStatusChangeTime a) = GetUID a"
  "GetGID (SetLastStatusChangeTime v_LastStatusChangeTime a) = GetGID a"
  "GetChangeID (SetAccessTime v_AccessTime a) = GetChangeID a"
  "GetDeviceNumber (SetAccessTime v_AccessTime a) = GetDeviceNumber a"
  "GetFileHandle (SetAccessTime v_AccessTime a) = GetFileHandle a"
  "GetFileType (SetAccessTime v_AccessTime a) = GetFileType a"
  "GetInodeNumber (SetAccessTime v_AccessTime a) = GetInodeNumber a"
  "GetLastDataModificationTime (SetAccessTime v_AccessTime a) = GetLastDataModificationTime a"
  "GetLastStatusChangeTime (SetAccessTime v_AccessTime a) = GetLastStatusChangeTime a"
  "GetBirthTime (SetAccessTime v_AccessTime a) = GetBirthTime a"
  "GetLinkCount (SetAccessTime v_AccessTime a) = GetLinkCount a"
  "GetPermissions (SetAccessTime v_AccessTime a) = GetPermissions a"
  "GetUnixMode (SetAccessTime v_AccessTime a) = GetUnixMode a"
  "GetSizeBytes (SetAccessTime v_AccessTime a) = GetSizeBytes a"
  "GetDiskSizeBytes (SetAccessTime v_AccessTime a) = GetDiskSizeBytes a"
  "GetUID (SetAccessTime v_AccessTime a) = GetUID a"
  "GetGID (SetAccessTime v_AccessTime a) = GetGID a"
  "GetChangeID (SetBirthTime v_BirthTime a) = GetChangeID a"
  "GetDeviceNumber (SetBirthTime v_BirthTime a) = GetDeviceNumber a"
  "GetFileHandle (SetBirthTime v_BirthTime a) = GetFileHandle a"
  "GetFileType (SetBirthTime v_BirthTime a) = GetFileType a"
  "GetInodeNumber (SetBirthTime v_BirthTime a) = GetInodeNumber a"
  "GetLastDataModificationTime (SetBirthTime v_BirthTime a) = GetLastDataModificationTime a"
  "GetLastStatusChangeTime (SetBirthTime v_BirthTime a) = GetLastStatusChangeTime a"
  "GetAccessTime (SetBirthTime v_BirthTime a) = GetAccessTime a"
  "GetLinkCount (SetBirthTime v_BirthTime a) = GetLinkCount a"
  "GetPermissions (SetBirthTime v_BirthTime a) = GetPermissions a"
  "GetUnixMode (SetBirthTime v_BirthTime a) = GetUnixMode a"
  "GetSizeBytes (SetBirthTime v_BirthTime a) = GetSizeBytes a"
  "GetDiskSizeBytes (SetBirthTime v_BirthTime a) = GetDiskSizeBytes a"
  "GetUID (SetBirthTime v_BirthTime a) = GetUID a"
  "GetGID (SetBirthTime v_BirthTime a) = GetGID a"
  "GetChangeID (SetLinkCount v_LinkCount a) = GetChangeID a"
  "GetDeviceNumber (SetLinkCount v_LinkCount a) = GetDeviceNumber a"
  "GetFileHandle (SetLinkCount v_LinkCount a) = GetFileHandle a"
  "GetFileType (SetLinkCount v_LinkCount a) = GetFileType a"
  "GetInodeNumber (SetLinkCount v_LinkCount a) = GetInodeNumber a"
  "GetLastDataModificationTime (SetLinkCount v_LinkCount a) = GetLastDataModificationTime a"
  "GetLastStatusChangeTime (SetLinkCount v_LinkCount a) = GetLastStatusChangeTime a"
  "GetAccessTime (SetLinkCount v_LinkCount a) = GetAccessTime a"
  "GetBirthTime (SetLinkCount v_LinkCount a) = GetBirthTime a"
  "GetPermissions (SetLinkCount v_LinkCount a) = GetPermissions a"
  "GetUnixMode (SetLinkCount v_LinkCount a) = GetUnixMode a"
  "GetSizeBytes (SetLinkCount v_LinkCount a) = GetSizeBytes a"
  "GetDiskSizeBytes (SetLinkCount v_LinkCount a) = GetDiskSizeBytes a"
  "GetUID (SetLinkCount v_LinkCount a) = GetUID a"
  "GetGID (SetLinkCount v_LinkCount a) = GetGID a"
  "GetChangeID (SetPermissions v_Permissions a) = GetChangeID a"
  "GetDeviceNumber (SetPermissions v_Permissions a) = GetDeviceNumber a"
  "GetFileHandle (SetPermissions v_Permissions a) = GetFileHandle a"
  "GetFileType (SetPermissions v_Permissions a) = GetFileType a"
  "GetInodeNumber (SetPermissions v_Permissions a) = GetInodeNumber a"
  "GetLastDataModificationTime (SetPermissions v_Permissions a) = GetLastDataModificationTime a"
  "GetLastStatusChangeTime (SetPermissions v_Permissions a) = GetLastStatusChangeTime a"
  "GetAccessTime (SetPermissions v_Permissions a) = GetAccessTime a"
  "GetBirthTime (SetPermissions v_Permissions a) = GetBirthTime a"
  "GetLinkCount (SetPermissions v_Permissions a) = GetLinkCount a"
  "GetUnixMode (SetPermissions v_Permissions a) = GetUnixMode a"
  "GetSizeBytes (SetPermissions v_Permissions a) = GetSizeBytes a"
  "GetDiskSizeBytes (SetPermissions v_Permissions a) = GetDiskSizeBytes a"
  "GetUID (SetPermissions v_Permissions a) = GetUID a"
  "GetGID (SetPermissions v_Permissions a) = GetGID a"
  "GetChangeID (SetUnixMode v_UnixMode a) = GetChangeID a"
  "GetDeviceNumber (SetUnixMode v_UnixMode a) = GetDeviceNumber a"
  "GetFileHandle (SetUnixMode v_UnixMode a) = GetFileHandle a"
  "GetFileType (SetUnixMode v_UnixMode a) = GetFileType a"
  "GetInodeNumber (SetUnixMode v_UnixMode a) = GetInodeNumber a"
  "GetLastDataModificationTime (SetUnixMode v_UnixMode a) = GetLastDataModificationTime a"
  "GetLastStatusChangeTime (SetUnixMode v_UnixMode a) = GetLastStatusChangeTime a"
  "GetAccessTime (SetUnixMode v_UnixMode a) = GetAccessTime a"
  "GetBirthTime (SetUnixMode v_UnixMode a) = GetBirthTime a"
  "GetLinkCount (SetUnixMode v_UnixMode a) = GetLinkCount a"
  "GetPermissions (SetUnixMode v_UnixMode a) = GetPermissions a"
  "GetSizeBytes (SetUnixMode v_UnixMode a) = GetSizeBytes a"
  "GetDiskSizeBytes (SetUnixMode v_UnixMode a) = GetDiskSizeBytes a"
  "GetUID (SetUnixMode v_UnixMode a) = GetUID a"
  "GetGID (SetUnixMode v_UnixMode a) = GetGID a"
  "GetChangeID (SetSizeBytes v_SizeBytes a) = GetChangeID a"
  "GetDeviceNumber (SetSizeBytes v_SizeBytes a) = GetDeviceNumber a"
  "GetFileHandle (SetSizeBytes v_SizeBytes a) = GetFileHandle a"
  "GetFileType (SetSizeBytes v_SizeBytes a) = GetFileType a"
  "GetInodeNumber (SetSizeBytes v_SizeBytes a) = GetInodeNumber a"
  "GetLastDataModificationTime (SetSizeBytes v_SizeBytes a) = GetLastDataModificationTime a"
  "GetLastStatusChangeTime (SetSizeBytes v_SizeBytes a) = GetLastStatusChangeTime a"
  "GetAccessTime (SetSizeBytes v_SizeBytes a) = GetAccessTime a"
  "GetBirthTime (SetSizeBytes v_SizeBytes a) = GetBirthTime a"
  "GetLinkCount (SetSizeBytes v_SizeBytes a) = GetLinkCount a"
  "GetPermissions (SetSizeBytes v_SizeBytes a) = GetPermissions a"
  "GetUnixMode (SetSizeBytes v_SizeBytes a) = GetUnixMode a"
  "GetDiskSizeBytes (SetSizeBytes v_SizeBytes a) = GetDiskSizeBytes a"
  "GetUID (SetSizeBytes v_SizeBytes a) = GetUID a"
  "GetGID (SetSizeBytes v_SizeBytes a) = GetGID a"
  "GetChangeID (SetDiskSizeBytes v_DiskSizeBytes a) = GetChangeID a"
  "GetDeviceNumber (SetDiskSizeBytes v_DiskSizeBytes a) = GetDeviceNumber a"
  "GetFileHandle (SetDiskSizeBytes v_DiskSizeBytes a) = GetFileHandle a"
  "GetFileType (SetDiskSizeBytes v_DiskSizeBytes a) = GetFileType a"
  "GetInodeNumber (SetDiskSizeBytes v_DiskSizeBytes a) = GetInodeNumber a"
  "GetLastDataModificationTime (SetDiskSizeBytes v_DiskSizeBytes a) = GetLastDataModificationTime a"
  "GetLastStatusChangeTime (SetDiskSizeBytes v_DiskSizeBytes a) = GetLastStatusChangeTime a"
  "GetAccessTime (SetDiskSizeBytes v_DiskSizeBytes a) = GetAccessTime a"
  "GetBirthTime (SetDiskSizeBytes v_DiskSizeBytes a) = GetBirthTime a"
  "GetLinkCount (SetDiskSizeBytes v_DiskSizeBytes a) = GetLinkCount a"
  "GetPermissions (SetDiskSizeBytes v_DiskSizeBytes a) = GetPermissions a"
  "GetUnixMode (SetDiskSizeBytes v_DiskSizeBytes a) = GetUnixMode a"
  "GetSizeBytes (SetDiskSizeBytes v_DiskSizeBytes a) = GetSizeBytes a"
  "GetUID (SetDiskSizeBytes v_DiskSizeBytes a) = GetUID a"
  "GetGID (SetDiskSizeBytes v_DiskSizeBytes a) = GetGID a"
  "GetChangeID (SetUID v_UID a) = GetChangeID a"
  "GetDeviceNumber (SetUID v_UID a) = GetDeviceNumber a"
  "GetFileHandle (SetUID v_UID a) = GetFileHandle a"
  "GetFileType (SetUID v_UID a) = GetFileType a"
  "GetInodeNumber (SetUID v_UID a) = GetInodeNumber a"
  "GetLastDataModificationTime (SetUID v_UID a) = GetLastDataModificationTime a"
  "GetLastStatusChangeTime (SetUID v_UID a) = GetLastStatusChangeTime a"
  "GetAccessTime (SetUID v_UID a) = GetAccessTime a"
  "GetBirthTime (SetUID v_UID a) = GetBirthTime a"
  "GetLinkCount (SetUID v_UID a) = GetLinkCount a"
  "GetPermissions (SetUID v_UID a) = GetPermissions a"
  "GetUnixMode (SetUID v_UID a) = GetUnixMode a"
  "GetSizeBytes (SetUID v_UID a) = GetSizeBytes a"
  "GetDiskSizeBytes (SetUID v_UID a) = GetDiskSizeBytes a"
  "GetGID (SetUID v_UID a) = GetGID a"
  "GetChangeID (SetGID v_GID a) = GetChangeID a"
  "GetDeviceNumber (SetGID v_GID a) = GetDeviceNumber a"
  "GetFileHandle (SetGID v_GID a) = GetFileHandle a"
  "GetFileType (SetGID v_GID a) = GetFileType a"
  "GetInodeNumber (SetGID v_GID a) = GetInodeNumber a"
  "GetLastDataModificationTime (SetGID v_GID a) = GetLastDataModificationTime a"
  "GetLastStatusChangeTime (SetGID v_GID a) = GetLastStatusChangeTime a"
  "GetAccessTime (SetGID v_GID a) = GetAccessTime a"
  "GetBirthTime (SetGID v_GID a) = GetBirthTime a"
  "GetLinkCount (SetGID v_GID a) = GetLinkCount a"
  "GetPermissions (SetGID v_GID a) = GetPermissions a"
  "GetUnixMode (SetGID v_GID a) = GetUnixMode a"
  "GetSizeBytes (SetGID v_GID a) = GetSizeBytes a"
  "GetDiskSizeBytes (SetGID v_GID a) = GetDiskSizeBytes a"
  "GetUID (SetGID v_GID a) = GetUID a"
  by (simp_all add: attribute_getters attribute_setters attribute_masks has_mask_or_attribute)

section \<open>FSAttributes\<close>

record FSAttributes =
  fa_fieldsPresent :: u32
  fa_bsize :: u64
  fa_iosize :: u64
  fa_blocks :: u64
  fa_bfree :: u64
  fa_bavail :: u64
  fa_files :: u64
  fa_ffree :: u64

definition empty_FSAttributes :: FSAttributes where
  "empty_FSAttributes =
     \<lparr>fa_fieldsPresent = 0, fa_bsize = 0, fa_iosize = 0, fa_blocks = 0, fa_bfree = 0,
      fa_bavail = 0, fa_files = 0, fa_ffree = 0\<rparr>"

definition FSAttributesMaskBlockSize :: u32 where "FSAttributesMaskBlockSize = mask_bit 0"
definition FSAttributesMaskIOSize :: u32 where "FSAttributesMaskIOSize = mask_bit 1"
definition FSAttributesMaskBlocks :: u32 where "FSAttributesMaskBlocks = mask_bit 2"
definition FSAttributesMaskFreeBlocks :: u32 where "FSAttributesMaskFreeBlocks = mask_bit 3"
definition FSAttributesMaskAvailableBlocks :: u32 where "FSAttributesMaskAvailableBlocks = mask_bit 4"
definition FSAttributesMaskFileNodes :: u32 where "FSAttributesMaskFileNodes = mask_bit 5"
definition FSAttributesMaskFreeFileNodes :: u32 where "FSAttributesMaskFreeFileNodes = mask_bit 6"

definition GetBlockSize :: "FSAttributes \<Rightarrow> u64 \<times> bool" where
  "GetBlockSize a = (fa_bsize a, has_mask (fa_fieldsPresent a) FSAttributesMaskBlockSize)"

definition SetBlockSize :: "u64 \<Rightarrow> FSAttributes \<Rightarrow> FSAttributes" where
  "SetBlockSize v a =
     a\<lparr>fa_bsize := v, fa_fieldsPresent := fa_fieldsPresent a OR FSAttributesMaskBlockSize\<rparr>"

definition GetIOkSize :: "FSAttributes \<Rightarrow> u64 \<times> bool" where
  "GetIOkSize a = (fa_iosize a, has_mask (fa_fieldsPresent a) FSAttributesMaskIOSize)"

definition SetIOSize :: "u64 \<Rightarrow> FSAttributes \<Rightarrow> FSAttributes" where
  "SetIOSize v a =
     a\<lparr>fa_iosize := v, fa_fieldsPresent := fa_fieldsPresent a OR FSAttributesMaskIOSize\<rparr>"

definition GetBlocks :: "FSAttributes \<Rightarrow> u64 \<times> bool" where
  "GetBlocks a = (fa_blocks a, has_mask (fa_fieldsPresent a) FSAttributesMaskBlocks)"

definition SetBlocks :: "u64 \<Rightarrow> FSAttributes \<Rightarrow> FSAttributes" where
  "SetBlocks v a =
     a\<lparr>fa_blocks := v, fa_fieldsPresent := fa_fieldsPresent a OR FSAttributesMaskBlocks\<rparr>"

definition GetFreeBlocks :: "FSAttributes \<Rightarrow> u64 \<times> bool" where
  "GetFreeBlocks a = (fa_bfree a, has_mask (fa_fieldsPresent a) FSAttributesMaskFreeBlocks)"

definition SetFreeBlocks :: "u64 \<Rightarrow> FSAttributes \<Rightarrow> FSAttributes" where
  "SetFreeBlocks v a =
     a\<lparr>fa_bfree := v, fa_fieldsPresent := fa_fieldsPresent a OR FSAttributesMaskFreeBlocks\<rparr>"

definition GetAvailableBlocks :: "FSAttributes \<Rightarrow> u64 \<times> bool" where
  "GetAvailableBlocks a = (fa_bavail a, has_mask (fa_fieldsPresent a) FSAttributesMaskAvailableBlocks)"

definition SetAvailableBlocks :: "u64 \<Rightarrow> FSAttributes \<Rightarrow> FSAttributes" where
  "SetAvailableBlocks v a =
     a\<lparr>fa_bavail := v, fa_fieldsPresent := fa_fieldsPresent a OR FSAttributesMaskAvailableBlocks\<rparr>"

definition GetFiles :: "FSAttributes \<Rightarrow> u64 \<times> bool" where
  "GetFiles a = (fa_files a, has_mask (fa_fieldsPresent a) FSAttributesMaskFileNodes)"

definition SetFiles :: "u64 \<Rightarrow> FSAttributes \<Rightarrow> FSAttributes" where
  "SetFiles v a =
     a\<lparr>fa_files := v, fa_fieldsPresent := fa_fieldsPresent a OR FSAttributesMaskFileNodes\<rparr>"

definition GetFreeFiles :: "FSAttributes \<Rightarrow> u64 \<times> bool" where
  "GetFreeFiles a = (fa_ffree a, has_mask (fa_fieldsPresent a) FSAttributesMaskFreeFileNodes)"

definition SetFreeFiles :: "u64 \<Rightarrow> FSAttributes \<Rightarrow> FSAttributes" where
  "SetFreeFiles v a =
     a\<lparr>fa_ffree := v, fa_fieldsPresent := fa_fieldsPresent a OR FSAttributesMaskFreeFileNodes\<rparr>"

lemmas fs_attribute_defs = GetBlockSize_def SetBlockSize_def
  GetIOkSize_def SetIOSize_def
  GetBlocks_def SetBlocks_def
  GetFreeBlocks_def SetFreeBlocks_def
  GetAvailableBlocks_def SetAvailableBlocks_def
  GetFiles_def SetFiles_def
  GetFreeFiles_def SetFreeFiles_def
  FSAttributesMaskBlockSize_def FSAttributesMaskIOSize_def FSAttributesMaskBlocks_def FSAttributesMaskFreeBlocks_def FSAttributesMaskAvailableBlocks_def FSAttributesMaskFileNodes_def FSAttributesMaskFreeFileNodes_def

lemma fs_attribute_frame [simp]:
  "GetBlockSize (SetBlockSize v_BlockSize a) = (v_BlockSize, True)"
  "GetIOkSize (SetBlockSize v_BlockSize a) = GetIOkSize a"
  "GetBlocks (SetBlockSize v_BlockSize a) = GetBlocks a"
  "GetFreeBlocks (SetBlockSize v_BlockSize a) = GetFreeBlocks a"
  "GetAvailableBlocks (SetBlockSize v_BlockSize a) = GetAvailableBlocks a"
  "GetFiles (SetBlockSize v_BlockSize a) = GetFiles a"
  "GetFreeFiles (SetBlockSize v_BlockSize a) = GetFreeFiles a"
  "GetBlockSize (SetIOSize v_IOSize a) = GetBlockSize a"
  "GetIOkSize (SetIOSize v_IOSize a) = (v_IOSize, True)"
  "GetBlocks (SetIOSize v_IOSize a) = GetBlocks a"
  "GetFreeBlocks (SetIOSize v_IOSize a) = GetFreeBlocks a"
  "GetAvailableBlocks (SetIOSize v_IOSize a) = GetAvailableBlocks a"
  "GetFiles (SetIOSize v_IOSize a) = GetFiles a"
  "GetFreeFiles (SetIOSize v_IOSize a) = GetFreeFiles a"
  "GetBlockSize (SetBlocks v_Blocks a) = GetBlockSize a"
  "GetIOkSize (SetBlocks v_Blocks a) = GetIOkSize a"
  "GetBlocks (SetBlocks v_Blocks a) = (v_Blocks, True)"
  "GetFreeBlocks (SetBlocks v_Blocks a) = GetFreeBlocks a"
  "GetAvailableBlocks (SetBlocks v_Blocks a) = GetAvailableBlocks a"
  "GetFiles (SetBlocks v_Blocks a) = GetFiles a"
  "GetFreeFiles (SetBlocks v_Blocks a) = GetFreeFiles a"
  "GetBlockSize (SetFreeBlocks v_FreeBlocks a) = GetBlockSize a"
  "GetIOkSize (SetFreeBlocks v_FreeBlocks a) = GetIOkSize a"
  "GetBlocks (SetFreeBlocks v_FreeBlocks a) = GetBlocks a"
  "GetFreeBlocks (SetFreeBlocks v_FreeBlocks a) = (v_FreeBlocks, True)"
  "GetAvailableBlocks (SetFreeBlocks v_FreeBlocks a) = GetAvailableBlocks a"
  "GetFiles (SetFreeBlocks v_FreeBlocks a) = GetFiles a"
  "GetFreeFiles (SetFreeBlocks v_FreeBlocks a) = GetFreeFiles a"
  "GetBlockSize (SetAvailableBlocks v_AvailableBlocks a) = GetBlockSize a"
  "GetIOkSize (SetAvailableBlocks v_AvailableBlocks a) = GetIOkSize a"
  "GetBlocks (SetAvailableBlocks v_AvailableBlocks a) = GetBlocks a"
  "GetFreeBlocks (SetAvailableBlocks v_AvailableBlocks a) = GetFreeBlocks a"
  "GetAvailableBlocks (SetAvailableBlocks v_AvailableBlocks a) = (v_AvailableBlocks, True)"
  "GetFiles (SetAvailableBlocks v_AvailableBlocks a) = GetFiles a"
  "GetFreeFiles (SetAvailableBlocks v_AvailableBlocks a) = GetFreeFiles a"
  "GetBlockSize (SetFiles v_Files a) = GetBlockSize a"
  "GetIOkSize (SetFiles v_Files a) = GetIOkSize a"
  "GetBlocks (SetFiles v_Files a) = GetBlocks a"
  "GetFreeBlocks (SetFiles v_Files a) = GetFreeBlocks a"
  "GetAvailableBlocks (SetFiles v_Files a) = GetAvailableBlocks a"
  "GetFiles (SetFiles v_Files a) = (v_Files, True)"
  "GetFreeFiles (SetFiles v_Files a) = GetFreeFiles a"
  "GetBlockSize (SetFreeFiles v_FreeFiles a) = GetBlockSize a"
  "GetIOkSize (SetFreeFiles v_FreeFiles a) = GetIOkSize a"
  "GetBlocks (SetFreeFiles v_FreeFiles a) = GetBlocks a"
  "GetFreeBlocks (SetFreeFiles v_FreeFiles a) = GetFreeBlocks a"
  "GetAvailableBlocks (SetFreeFiles v_FreeFiles a) = GetAvailableBlocks a"
  "GetFiles (SetFreeFiles v_FreeFiles a) = GetFiles a"
  "GetFreeFiles (SetFreeFiles v_FreeFiles a) = (v_FreeFiles, True)"
  by (simp_all add: fs_attribute_defs has_mask_or_attribute)

section \<open>Operation contexts and intercept results\<close>

record OperationContext =
  oc_RemoteAddr :: string
  oc_LocalAddr :: string
  oc_SessionID :: u64
  oc_Username :: string

text \<open>\<open>WriteInterceptResult\<close>, \<open>CreateInterceptResult\<close> and \<open>RenameInterceptResult\<close> have
  the same two fields.\<close>

record InterceptResult =
  ir_Block :: bool
  ir_Error :: "string option"

text \<open>The callbacks are the user's functions; the context pointer may be nil.\<close>

type_synonym WriteCallback =
  "OperationContext option \<Rightarrow> u64 \<Rightarrow> string \<Rightarrow> bytes \<Rightarrow> u64 \<Rightarrow> InterceptResult"
type_synonym CreateCallback =
  "OperationContext option \<Rightarrow> string \<Rightarrow> bool \<Rightarrow> int \<Rightarrow> InterceptResult"
type_synonym RenameCallback =
  "OperationContext option \<Rightarrow> string \<Rightarrow> string \<Rightarrow> InterceptResult"

end
