(* ===== verification/GhostFiles.thy ===== *)
theory GhostFiles
  imports VfsAttributes
begin

text \<open>
  The ghost-file registry of honeypot mode (memoryshare/memory_fs.go, \<open>addGhostFile\<close> to
  \<open>GetGhostFileStats\<close>). The fields of \<open>MemoryFS\<close> that only these functions use are the record
  \<open>GhostState\<close>: the registry (a \<open>sync.Map\<close>, here an association list whose order is the
  order \<open>Range\<close> visits the entries), the bytes charged to each session, the atomic
  global counter and the three limits. A call takes the operation context of its goroutine
  (\<open>None\<close> for nil) and the value of \<open>time.Now()\<close>. Go pointers to a \<open>GhostFile\<close> are the keys of
  the registry: an entry is never stored under two keys. int64 arithmetic wraps.
\<close>

section \<open>State\<close>

record GhostFile =
  gf_node :: nat
  gf_path :: string
  gf_sessionID :: u64
  gf_size :: int
  gf_lastAccess :: int

record GhostState =
  gs_files :: "(string \<times> GhostFile) list"
  gs_usage :: "u64 \<Rightarrow> int option"
  gs_global :: int
  gs_maxFiles :: int
  gs_maxMemory :: int
  gs_maxGlobal :: int

section \<open>Keys\<close>

text \<open>\<open>fmt.Sprintf\<close> with \<open>%d\<close> on an unsigned integer: its decimal digits.\<close>

definition digit_char :: "nat \<Rightarrow> char" where
  "digit_char d = char_of (48 + d)"

fun decimal :: "nat \<Rightarrow> string" where
  "decimal n = (if n < 10 then [digit_char n] else decimal (n div 10) @ [digit_char (n mod 10)])"

declare decimal.simps [simp del]

definition makeGhostKey :: "u64 \<Rightarrow> string \<Rightarrow> string" where
  "makeGhostKey sessionID path = decimal (unat sessionID) @ CHR '':'' # path"

text \<open>\<open>getGhostFile\<close>: the entry of this session and path, its access time renewed through
  the pointer.\<close>

definition touch :: "string \<Rightarrow> int \<Rightarrow> (string \<times> GhostFile) list \<Rightarrow> (string \<times> GhostFile) list" where
  "touch key now xs =
     map (\<lambda>(k, g). (k, if k = key then g\<lparr>gf_lastAccess := now\<rparr> else g)) xs"

definition getGhostFile ::
  "OperationContext option \<Rightarrow> int \<Rightarrow> string \<Rightarrow> GhostState \<Rightarrow> GhostFile option \<times> GhostState" where
  "getGhostFile ctx now filepath gs =
     (case ctx of
        None \<Rightarrow> (None, gs)
      | Some c \<Rightarrow>
          (let key = makeGhostKey (oc_SessionID c) filepath in
           case map_of (gs_files gs) key of
             None \<Rightarrow> (None, gs)
           | Some g \<Rightarrow> (Some (g\<lparr>gf_lastAccess := now\<rparr>),
                        gs\<lparr>gs_files := touch key now (gs_files gs)\<rparr>)))"

section \<open>Removal and eviction\<close>

text \<open>\<open>removeGhostFile\<close>: the entry goes, and its size is taken off the session's bytes (whose
  entry is deleted when nothing is left) and off the global counter.\<close>

definition removeGhostFile :: "u64 \<Rightarrow> string \<Rightarrow> GhostState \<Rightarrow> GhostState" where
  "removeGhostFile sessionID filepath gs =
     (let key = makeGhostKey sessionID filepath;
          gs1 = (case map_of (gs_files gs) key of
                   None \<Rightarrow> gs
                 | Some ghost \<Rightarrow>
                     gs\<lparr>gs_usage :=
                          (case gs_usage gs sessionID of
                             None \<Rightarrow> gs_usage gs
                           | Some currentMem \<Rightarrow>
                               (let newMem = wrap64 (currentMem - gf_size ghost) in
                                (gs_usage gs)(sessionID :=
                                   (if newMem \<le> 0 then None else Some newMem)))),
                        gs_global := wrap64 (gs_global gs + wrap64 (- gf_size ghost))\<rparr>)
      in gs1\<lparr>gs_files := AList.delete key (gs_files gs1)\<rparr>)"

text \<open>The two loops over a slice of entries that keep the one with the earliest access; the
  first of several equals wins.\<close>

fun oldest_from ::
  "(string \<times> GhostFile) option \<Rightarrow> (string \<times> GhostFile) list \<Rightarrow> (string \<times> GhostFile) option" where
  "oldest_from acc [] = acc"
| "oldest_from acc (x # xs) =
     oldest_from (case acc of None \<Rightarrow> Some x
                  | Some y \<Rightarrow> if gf_lastAccess (snd x) < gf_lastAccess (snd y) then Some x
                              else Some y) xs"

definition oldest :: "(string \<times> GhostFile) list \<Rightarrow> (string \<times> GhostFile) option" where
  "oldest xs = oldest_from None xs"

lemma oldest_from_Some:
  "oldest_from acc xs = Some z \<Longrightarrow> z \<in> set xs \<or> acc = Some z"
proof (induction xs arbitrary: acc)
  case Nil
  then show ?case by simp
next
  case (Cons x xs)
  from Cons.IH [OF Cons.prems [unfolded oldest_from.simps]] show ?case
    by (auto split: option.splits if_splits)
qed

lemma oldest_mem: "oldest xs = Some z \<Longrightarrow> z \<in> set xs"
  using oldest_from_Some [of None xs z] by (simp add: oldest_def)

text \<open>STEP 1 of \<open>addGhostFile\<close>: while this session is at one of its limits, evict its least
  recently used entry; the loop keeps the session's slice and its byte count beside the
  registry.\<close>

function evictSession ::
  "int \<Rightarrow> GhostState \<Rightarrow> int \<Rightarrow> (string \<times> GhostFile) list \<Rightarrow>
   GhostState \<times> int \<times> (string \<times> GhostFile) list" where
  "evictSession fileSize gs currentMemory l =
     (if gs_maxFiles gs \<le> int (length l) \<or>
         (gs_maxMemory gs < wrap64 (currentMemory + fileSize) \<and> l \<noteq> [])
      then (case oldest l of
              None \<Rightarrow> (gs, currentMemory, l)
            | Some (k, g) \<Rightarrow>
                evictSession fileSize (removeGhostFile (gf_sessionID g) (gf_path g) gs)
                  (wrap64 (currentMemory - gf_size g)) (remove1 (k, g) l))
      else (gs, currentMemory, l))"
  by pat_completeness auto
termination
proof (relation "measure (\<lambda>(fs, gs, cm, l). length l)", goal_cases)
  case 1
  then show ?case by simp
next
  case (2 fs gs cm l x k g)
  then have "(k, g) \<in> set l" using oldest_mem [of l "(k, g)"] by simp
  then have "length l \<noteq> 0" by auto
  then show ?case using \<open>(k, g) \<in> set l\<close> by (simp add: length_remove1)
qed

declare evictSession.simps [simp del]

text \<open>STEP 2: while the global counter is over its limit, evict the least recently used entry
  of any session. The loop reads the registry afresh each time; whether it ends depends on
  the registry being consistent, so its result is an option.\<close>

partial_function (option) evictGlobal ::
  "int \<Rightarrow> u64 \<Rightarrow> GhostState \<Rightarrow> int \<Rightarrow> (string \<times> GhostFile) list \<Rightarrow> int \<Rightarrow>
   (GhostState \<times> int \<times> (string \<times> GhostFile) list) option" where
  "evictGlobal fileSize sid gs currentMemory l globalMemory =
     (if gs_maxGlobal gs < wrap64 (globalMemory + fileSize) \<and> 0 < globalMemory
      then (case oldest (gs_files gs) of
              None \<Rightarrow> Some (gs, currentMemory, l)
            | Some kg \<Rightarrow>
                evictGlobal fileSize sid
                  (removeGhostFile (gf_sessionID (snd kg)) (gf_path (snd kg)) gs)
                  (if gf_sessionID (snd kg) = sid then wrap64 (currentMemory - gf_size (snd kg))
                   else currentMemory)
                  (if gf_sessionID (snd kg) = sid then remove1 kg l else l)
                  (gs_global (removeGhostFile (gf_sessionID (snd kg)) (gf_path (snd kg)) gs)))
      else Some (gs, currentMemory, l))"

declare evictGlobal.simps [code]

definition sessionFiles :: "u64 \<Rightarrow> (string \<times> GhostFile) list \<Rightarrow> (string \<times> GhostFile) list" where
  "sessionFiles sid xs = filter (\<lambda>(k, g). gf_sessionID g = sid) xs"

definition storeGhost ::
  "OperationContext \<Rightarrow> int \<Rightarrow> string \<Rightarrow> nat \<Rightarrow> int \<Rightarrow> int \<Rightarrow> GhostState \<Rightarrow> GhostState" where
  "storeGhost c now filepath node fileSize currentMemory gs =
     gs\<lparr>gs_files := AList.update (makeGhostKey (oc_SessionID c) filepath)
                     \<lparr>gf_node = node, gf_path = filepath, gf_sessionID = oc_SessionID c,
                      gf_size = fileSize, gf_lastAccess = now\<rparr> (gs_files gs),
        gs_usage := (gs_usage gs)(oc_SessionID c \<mapsto> wrap64 (currentMemory + fileSize)),
        gs_global := wrap64 (gs_global gs + fileSize)\<rparr>"

text \<open>\<open>addGhostFile\<close>: without a context nothing happens. \<open>None\<close> is a call that never returns.\<close>

definition addGhostFile ::
  "OperationContext option \<Rightarrow> int \<Rightarrow> string \<Rightarrow> nat \<Rightarrow> u64 \<Rightarrow> GhostState \<Rightarrow> GhostState option" where
  "addGhostFile ctx now filepath node nodeSize gs =
     (case ctx of
        None \<Rightarrow> Some gs
      | Some c \<Rightarrow>
          (let fileSize = sint nodeSize;
               currentMemory = (case gs_usage gs (oc_SessionID c) of None \<Rightarrow> 0 | Some v \<Rightarrow> v);
               (gs1, cm1, l1) = evictSession fileSize gs currentMemory
                                  (sessionFiles (oc_SessionID c) (gs_files gs))
           in case evictGlobal fileSize (oc_SessionID c) gs1 cm1 l1 (gs_global gs1) of
                None \<Rightarrow> None
              | Some (gs2, cm2, l2) \<Rightarrow> Some (storeGhost c now filepath node fileSize cm2 gs2)))"

text \<open>One tick of \<open>cleanupGhostFiles\<close>: every entry idle for more than three minutes goes.\<close>

definition expirationTime :: int where
  "expirationTime = 3 * 60 * 1000000000"

definition cleanupGhostFiles :: "int \<Rightarrow> GhostState \<Rightarrow> GhostState" where
  "cleanupGhostFiles now gs =
     foldl (\<lambda>s (k, g). if expirationTime < now - gf_lastAccess g
                       then removeGhostFile (gf_sessionID g) (gf_path g) s else s)
       gs (gs_files gs)"

definition SetGhostFileLimits :: "int \<Rightarrow> int \<Rightarrow> int \<Rightarrow> GhostState \<Rightarrow> GhostState" where
  "SetGhostFileLimits maxFilesPerSession maxMemoryPerSession maxMemoryGlobal gs =
     gs\<lparr>gs_maxFiles := maxFilesPerSession, gs_maxMemory := maxMemoryPerSession,
        gs_maxGlobal := maxMemoryGlobal\<rparr>"

record GhostFileStats =
  st_TotalFiles :: int
  st_ActiveSessions :: int
  st_VirtualMemoryTotal :: int
  st_VirtualMemoryLimit :: int
  st_RealMemoryEstimate :: int
  st_SessionFileCounts :: "u64 \<Rightarrow> int option"
  st_SessionVirtualMemory :: "u64 \<Rightarrow> int option"

definition GetGhostFileStats :: "GhostState \<Rightarrow> GhostFileStats" where
  "GetGhostFileStats gs =
     \<lparr>st_TotalFiles = int (length (gs_files gs)),
      st_ActiveSessions = int (length (remdups (map (gf_sessionID \<circ> snd) (gs_files gs)))),
      st_VirtualMemoryTotal = gs_global gs,
      st_VirtualMemoryLimit = gs_maxGlobal gs,
      st_RealMemoryEstimate = wrap64 (int (length (gs_files gs)) * 330),
      st_SessionFileCounts =
        (\<lambda>sid. if sessionFiles sid (gs_files gs) = [] then None
               else Some (int (length (sessionFiles sid (gs_files gs))))),
      st_SessionVirtualMemory = gs_usage gs\<rparr>"

definition initGhostState :: GhostState where
  "initGhostState =
     \<lparr>gs_files = [], gs_usage = (\<lambda>_. None), gs_global = 0, gs_maxFiles = 3,
      gs_maxMemory = 10 * 1024 * 1024, gs_maxGlobal = 1024 * 1024 * 1024\<rparr>"

section \<open>Keys are unambiguous\<close>

lemma digit_char_inj: "d < 10 \<Longrightarrow> e < 10 \<Longrightarrow> digit_char d = digit_char e \<longleftrightarrow> d = e"
  by (simp add: digit_char_def)

lemma digit_char_not_colon: "d < 10 \<Longrightarrow> digit_char d \<noteq> CHR '':''"
proof -
  have "CHR '':'' = (char_of (58 :: nat))" by (simp add: char_of_def bit_Suc_0_iff)
  moreover assume "d < 10"
  ultimately show ?thesis by (simp add: digit_char_def)
qed

lemma decimal_nonempty: "decimal n \<noteq> []"
  by (subst decimal.simps) simp

lemma decimal_no_colon: "CHR '':'' \<notin> set (decimal n)"
proof (induction n rule: decimal.induct)
  case (1 n)
  show ?case
  proof (cases "n < 10")
    case True
    with digit_char_not_colon [of n] show ?thesis by (subst decimal.simps) auto
  next
    case False
    with 1 digit_char_not_colon [of "n mod 10"] show ?thesis by (subst decimal.simps) auto
  qed
qed

lemma decimal_inj: "decimal m = decimal n \<Longrightarrow> m = n"
proof (induction m arbitrary: n rule: decimal.induct)
  case (1 m)
  have m: "decimal m = (if m < 10 then [digit_char m] else decimal (m div 10) @ [digit_char (m mod 10)])"
    by (rule decimal.simps)
  have n: "decimal n = (if n < 10 then [digit_char n] else decimal (n div 10) @ [digit_char (n mod 10)])"
    by (rule decimal.simps)
  show ?case
  proof (cases "m < 10")
    case True
    then show ?thesis using 1(2) m n digit_char_inj [of m n] decimal_nonempty [of "n div 10"]
      by (auto split: if_splits)
  next
    case False
    then have "\<not> n < 10" using 1(2) m n decimal_nonempty [of "m div 10"] by (auto split: if_splits)
    with False 1(2) m n have "decimal (m div 10) = decimal (n div 10)"
      and "digit_char (m mod 10) = digit_char (n mod 10)" by auto
    with 1(1) [OF False] digit_char_inj have "m div 10 = n div 10" "m mod 10 = n mod 10" by auto
    then show ?thesis by (metis div_mult_mod_eq)
  qed
qed

lemma append_sep_inj:
  "xs @ c # ys = xs' @ c # ys' \<Longrightarrow> c \<notin> set xs \<Longrightarrow> c \<notin> set xs' \<Longrightarrow> xs = xs' \<and> ys = ys'"
proof (induction xs arbitrary: xs')
  case Nil
  then show ?case by (cases xs') auto
next
  case (Cons x xs)
  then show ?case by (cases xs') auto
qed

text \<open>Two sessions never share a key, and neither do two paths of one session, whatever
  characters the path has.\<close>

lemma makeGhostKey_inj:
  "makeGhostKey s p = makeGhostKey s' p' \<longleftrightarrow> s = s' \<and> p = p'"
  using append_sep_inj [of "decimal (unat s)" "CHR '':''" p "decimal (unat s')" p']
  by (auto simp: makeGhostKey_def decimal_no_colon word_unat_eq_iff dest: decimal_inj)

end
