(* ===== verification/GhostLimits.thy ===== *)
theory GhostLimits
  imports GhostFiles
begin

text \<open>
  What the ghost registry guarantees: its byte counters are the sums of the sizes of the
  entries, per session and globally; adding an entry terminates, keeps the counters right and
  stays within the configured limits; eviction is least-recently-used; the cleanup tick removes
  exactly the expired entries. Sizes below 2 to the 62 keep int64 from wrapping.
\<close>

section \<open>The consistency of the registry\<close>

abbreviation total :: "(string \<times> GhostFile) list \<Rightarrow> int" where
  "total xs \<equiv> (\<Sum>x\<leftarrow>xs. gf_size (snd x))"

definition entry_ok :: "string \<times> GhostFile \<Rightarrow> bool" where
  "entry_ok x \<longleftrightarrow>
     fst x = makeGhostKey (gf_sessionID (snd x)) (gf_path (snd x)) \<and> 0 \<le> gf_size (snd x)"

definition usage_of :: "GhostState \<Rightarrow> u64 \<Rightarrow> int" where
  "usage_of gs sid = (case gs_usage gs sid of None \<Rightarrow> 0 | Some v \<Rightarrow> v)"

definition ghost_inv :: "GhostState \<Rightarrow> bool" where
  "ghost_inv gs \<longleftrightarrow>
     distinct (map fst (gs_files gs)) \<and>
     (\<forall>x \<in> set (gs_files gs). entry_ok x) \<and>
     total (gs_files gs) < 2 ^ 62 \<and>
     gs_global gs = total (gs_files gs) \<and>
     (\<forall>sid. usage_of gs sid = total (sessionFiles sid (gs_files gs)))"

lemma ghost_invD:
  assumes "ghost_inv gs"
  shows "distinct (map fst (gs_files gs))"
    and "x \<in> set (gs_files gs) \<Longrightarrow> entry_ok x"
    and "total (gs_files gs) < 2 ^ 62"
    and "gs_global gs = total (gs_files gs)"
    and "usage_of gs sid = total (sessionFiles sid (gs_files gs))"
  using assms by (auto simp: ghost_inv_def)

lemma ghost_inv_init: "ghost_inv initGhostState"
  by (simp add: ghost_inv_def initGhostState_def usage_of_def sessionFiles_def)

lemma total_nonneg: "(\<And>x. x \<in> set xs \<Longrightarrow> entry_ok x) \<Longrightarrow> 0 \<le> total xs"
  by (rule sum_list_nonneg_int) (simp add: entry_ok_def)

lemma total_filter_le:
  assumes "\<And>x. x \<in> set xs \<Longrightarrow> entry_ok x"
  shows "total (filter P xs) \<le> total xs"
proof -
  have "0 \<le> total (filter (\<lambda>x. \<not> P x) xs)" using assms by (intro total_nonneg) auto
  then show ?thesis using sum_list_map_filter_split [of "\<lambda>x. gf_size (snd x)" xs P] by linarith
qed

lemma total_remove:
  "distinct (map fst xs) \<Longrightarrow> x \<in> set xs \<Longrightarrow>
   total (filter (\<lambda>p. fst p \<noteq> fst x) xs) = total xs - gf_size (snd x)"
proof (induction xs)
  case Nil
  then show ?case by simp
next
  case (Cons y ys)
  show ?case
  proof (cases "x = y")
    case True
    then have "filter (\<lambda>p. fst p \<noteq> fst x) ys = ys"
      using Cons.prems by (intro filter_key_absent) simp
    with True show ?thesis by simp
  next
    case False
    then have "x \<in> set ys" and "fst y \<noteq> fst x" using Cons.prems by (auto simp: image_iff)
    with Cons show ?thesis by simp
  qed
qed

lemma remove1_filter_key:
  "distinct (map fst xs) \<Longrightarrow> x \<in> set xs \<Longrightarrow> remove1 x xs = filter (\<lambda>p. fst p \<noteq> fst x) xs"
proof (induction xs)
  case Nil
  then show ?case by simp
next
  case (Cons y ys)
  show ?case
  proof (cases "x = y")
    case True
    then have "filter (\<lambda>p. fst p \<noteq> fst x) ys = ys"
      using Cons.prems by (intro filter_key_absent) simp
    with True show ?thesis by simp
  next
    case False
    then have "x \<in> set ys" and "fst y \<noteq> fst x" using Cons.prems by (auto simp: image_iff)
    with Cons False show ?thesis by simp
  qed
qed

lemma sessionFiles_filter:
  "sessionFiles sid (filter P xs) = filter P (sessionFiles sid xs)"
  by (simp add: sessionFiles_def conj_commute)

lemma distinct_filter_keys: "distinct (map fst xs) \<Longrightarrow> distinct (map fst (filter P xs))"
  by (simp add: distinct_map_filter)

lemma sessionFiles_distinct: "distinct (map fst xs) \<Longrightarrow> distinct (map fst (sessionFiles sid xs))"
  unfolding sessionFiles_def by (rule distinct_filter_keys)

lemma usage_zero: "usage_of gs sid = 0 \<longleftrightarrow> gs_usage gs sid = None \<or> gs_usage gs sid = Some 0"
  by (auto simp: usage_of_def split: option.splits)

section \<open>Removing one entry\<close>

text \<open>What \<open>removeGhostFile\<close> does to a consistent registry, for an entry it holds.\<close>

abbreviation drop_entry :: "string \<times> GhostFile \<Rightarrow> GhostState \<Rightarrow> GhostState" where
  "drop_entry x gs \<equiv> removeGhostFile (gf_sessionID (snd x)) (gf_path (snd x)) gs"

lemma drop_entry_limits [simp]:
  "gs_maxFiles (removeGhostFile s p gs) = gs_maxFiles gs"
  "gs_maxMemory (removeGhostFile s p gs) = gs_maxMemory gs"
  "gs_maxGlobal (removeGhostFile s p gs) = gs_maxGlobal gs"
  by (simp_all add: removeGhostFile_def Let_def split: option.splits)

lemma removeGhostFile_files:
  "gs_files (removeGhostFile s p gs) =
   filter (\<lambda>x. fst x \<noteq> makeGhostKey s p) (gs_files gs)"
  by (simp add: removeGhostFile_def Let_def alist_delete_filter split: option.splits)

lemma drop_entry_files:
  "ghost_inv gs \<Longrightarrow> x \<in> set (gs_files gs) \<Longrightarrow>
   gs_files (drop_entry x gs) = filter (\<lambda>p. fst p \<noteq> fst x) (gs_files gs)"
  using ghost_invD(2) [of gs x] by (simp add: removeGhostFile_files entry_ok_def)

lemma entry_bounds:
  assumes "ghost_inv gs" and "x \<in> set (gs_files gs)"
  shows "0 \<le> gf_size (snd x)" and "gf_size (snd x) \<le> total (sessionFiles (gf_sessionID (snd x)) (gs_files gs))"
    and "total (sessionFiles sid (gs_files gs)) \<le> total (gs_files gs)"
    and "0 \<le> total (sessionFiles sid (gs_files gs))"
proof -
  have ok: "\<And>y. y \<in> set (gs_files gs) \<Longrightarrow> entry_ok y" using assms(1) by (rule ghost_invD)
  show "0 \<le> gf_size (snd x)" using ok [OF assms(2)] by (simp add: entry_ok_def)
  show "gf_size (snd x) \<le> total (sessionFiles (gf_sessionID (snd x)) (gs_files gs))"
    using assms(2) ok by (intro sum_list_member_le_int [where f = "\<lambda>x. gf_size (snd x)"])
      (auto simp: sessionFiles_def entry_ok_def)
  show "total (sessionFiles sid (gs_files gs)) \<le> total (gs_files gs)"
    unfolding sessionFiles_def using ok by (rule total_filter_le)
  show "0 \<le> total (sessionFiles sid (gs_files gs))"
    using ok by (intro total_nonneg) (auto simp: sessionFiles_def)
qed

lemma drop_entry_usage:
  assumes "ghost_inv gs" and "x \<in> set (gs_files gs)"
  shows "usage_of (drop_entry x gs) sid =
    (if sid = gf_sessionID (snd x) then usage_of gs sid - gf_size (snd x) else usage_of gs sid)"
proof -
  let ?s = "gf_sessionID (snd x)"
  have m: "map_of (gs_files gs) (makeGhostKey ?s (gf_path (snd x))) = Some (snd x)"
    using assms ghost_invD(1,2) [OF assms(1)] by (metis entry_ok_def map_of_mem_distinct prod.collapse)
  have b: "0 \<le> gf_size (snd x)" "gf_size (snd x) \<le> usage_of gs ?s" "usage_of gs ?s < 2 ^ 62"
    using entry_bounds [OF assms] ghost_invD(3,5) [OF assms(1)] by (auto intro: le_less_trans)
  have w: "wrap64 (usage_of gs ?s - gf_size (snd x)) = usage_of gs ?s - gf_size (snd x)"
    using b by (intro wrap64_id) auto
  show ?thesis
  proof (cases "gs_usage gs ?s")
    case None
    then have "gf_size (snd x) = 0" using b by (simp add: usage_of_def)
    with None m show ?thesis by (simp add: removeGhostFile_def usage_of_def)
  next
    case (Some v)
    then have v: "usage_of gs ?s = v" by (simp add: usage_of_def)
    with w have w': "wrap64 (v - gf_size (snd x)) = v - gf_size (snd x)" by simp
    have "0 \<le> v - gf_size (snd x)" using b v by simp
    with Some m w' v show ?thesis
      by (auto simp: removeGhostFile_def usage_of_def Let_def)
  qed
qed

lemma drop_entry_global:
  assumes "ghost_inv gs" and "x \<in> set (gs_files gs)"
  shows "gs_global (drop_entry x gs) = gs_global gs - gf_size (snd x)"
proof -
  have m: "map_of (gs_files gs) (makeGhostKey (gf_sessionID (snd x)) (gf_path (snd x))) = Some (snd x)"
    using assms ghost_invD(1,2) [OF assms(1)] by (metis entry_ok_def map_of_mem_distinct prod.collapse)
  have b: "0 \<le> gf_size (snd x)" "gf_size (snd x) \<le> gs_global gs" "gs_global gs < 2 ^ 62"
    using entry_bounds [OF assms] ghost_invD(3,4) [OF assms(1)] by (auto intro: order_trans)
  then have "wrap64 (- gf_size (snd x)) = - gf_size (snd x)"
    and "wrap64 (gs_global gs + - gf_size (snd x)) = gs_global gs - gf_size (snd x)"
    by (simp_all add: wrap64_def)
  with m show ?thesis by (simp add: removeGhostFile_def Let_def)
qed

lemma drop_entry_inv [inv_intros]:
  assumes "ghost_inv gs" and "x \<in> set (gs_files gs)"
  shows "ghost_inv (drop_entry x gs)"
proof -
  note D = ghost_invD [OF assms(1)]
  let ?xs = "gs_files gs" and ?P = "\<lambda>p. fst p \<noteq> fst x"
  have f: "gs_files (drop_entry x gs) = filter ?P ?xs" using drop_entry_files [OF assms] .
  have t: "total (filter ?P ?xs) = total ?xs - gf_size (snd x)"
    using total_remove [OF D(1) assms(2)] .
  have u: "usage_of (drop_entry x gs) sid = total (sessionFiles sid (filter ?P ?xs))" for sid
  proof (cases "sid = gf_sessionID (snd x)")
    case True
    then have "x \<in> set (sessionFiles sid ?xs)" using assms(2) by (auto simp: sessionFiles_def)
    then have "total (filter ?P (sessionFiles sid ?xs)) = total (sessionFiles sid ?xs) - gf_size (snd x)"
      by (rule total_remove [OF sessionFiles_distinct [OF D(1)]])
    with True show ?thesis
      by (simp add: drop_entry_usage [OF assms] D(5) sessionFiles_filter)
  next
    case False
    have "fst x \<noteq> fst y" if "y \<in> set (sessionFiles sid ?xs)" for y
      using False that D(2) [OF assms(2)] D(2) [of y]
      by (auto simp: sessionFiles_def entry_ok_def makeGhostKey_inj)
    then have "filter ?P (sessionFiles sid ?xs) = sessionFiles sid ?xs"
      by (intro filter_key_absent) force
    with False show ?thesis
      by (simp add: drop_entry_usage [OF assms] D(5) sessionFiles_filter)
  qed
  have "total (filter ?P ?xs) < 2 ^ 62" using t D(3) entry_bounds(1) [OF assms] by linarith
  moreover have "gs_global (drop_entry x gs) = total (filter ?P ?xs)"
    using t D(4) drop_entry_global [OF assms] by simp
  moreover have "distinct (map fst (filter ?P ?xs))" using D(1) by (rule distinct_filter_keys)
  moreover have "\<forall>y \<in> set (filter ?P ?xs). entry_ok y" using D(2) by simp
  ultimately show ?thesis unfolding ghost_inv_def f using u by blast
qed

lemma drop_entry_length:
  assumes "ghost_inv gs" and "x \<in> set (gs_files gs)"
  shows "length (gs_files (drop_entry x gs)) < length (gs_files gs)"
  using length_filter_less [OF assms(2), of "\<lambda>p. fst p \<noteq> fst x"]
  by (simp add: drop_entry_files [OF assms])

lemma drop_entry_session:
  assumes "ghost_inv gs" and "x \<in> set (gs_files gs)"
  shows "sessionFiles (gf_sessionID (snd x)) (gs_files (drop_entry x gs)) =
           remove1 x (sessionFiles (gf_sessionID (snd x)) (gs_files gs))"
    and "sid \<noteq> gf_sessionID (snd x) \<Longrightarrow>
           sessionFiles sid (gs_files (drop_entry x gs)) = sessionFiles sid (gs_files gs)"
proof -
  note D = ghost_invD [OF assms(1)]
  have f: "gs_files (drop_entry x gs) = filter (\<lambda>p. fst p \<noteq> fst x) (gs_files gs)"
    using drop_entry_files [OF assms] .
  have "x \<in> set (sessionFiles (gf_sessionID (snd x)) (gs_files gs))"
    using assms(2) by (auto simp: sessionFiles_def)
  then show "sessionFiles (gf_sessionID (snd x)) (gs_files (drop_entry x gs)) =
      remove1 x (sessionFiles (gf_sessionID (snd x)) (gs_files gs))"
    using remove1_filter_key [OF sessionFiles_distinct [OF D(1)]] f
    by (simp add: sessionFiles_filter)
  assume "sid \<noteq> gf_sessionID (snd x)"
  then have "fst x \<noteq> fst y" if "y \<in> set (sessionFiles sid (gs_files gs))" for y
    using that D(2) [OF assms(2)] D(2) [of y]
    by (auto simp: sessionFiles_def entry_ok_def makeGhostKey_inj)
  then show "sessionFiles sid (gs_files (drop_entry x gs)) = sessionFiles sid (gs_files gs)"
    unfolding f sessionFiles_filter by (intro filter_key_absent) force
qed

section \<open>The least recently used entry\<close>

abbreviation lastAccess :: "string \<times> GhostFile \<Rightarrow> int" where
  "lastAccess x \<equiv> gf_lastAccess (snd x)"

lemma oldest_from_le:
  "oldest_from acc xs = Some z \<Longrightarrow>
   (\<forall>y \<in> set xs. lastAccess z \<le> lastAccess y) \<and> (\<forall>y. acc = Some y \<longrightarrow> lastAccess z \<le> lastAccess y)"
proof (induction xs arbitrary: acc)
  case Nil
  then show ?case by simp
next
  case (Cons x xs)
  note IH = Cons.IH [OF Cons.prems [unfolded oldest_from.simps]]
  show ?case
  proof (cases acc)
    case None
    with IH show ?thesis by auto
  next
    case (Some y)
    with IH show ?thesis
      by (cases "lastAccess x < lastAccess y") (auto intro: order_trans less_imp_le)
  qed
qed

lemma oldest_le: "oldest xs = Some z \<Longrightarrow> y \<in> set xs \<Longrightarrow> lastAccess z \<le> lastAccess y"
  using oldest_from_le [of None xs z] by (simp add: oldest_def)

lemma oldest_from_exists: "acc \<noteq> None \<or> xs \<noteq> [] \<Longrightarrow> \<exists>z. oldest_from acc xs = Some z"
proof (induction xs arbitrary: acc)
  case (Cons x xs)
  show ?case
    unfolding oldest_from.simps by (rule Cons.IH) (simp split: option.splits)
qed auto

lemma oldest_exists: "xs \<noteq> [] \<Longrightarrow> \<exists>z. oldest xs = Some z"
  unfolding oldest_def by (rule oldest_from_exists) simp

lemma oldest_Nil [simp]: "oldest [] = None"
  by (simp add: oldest_def)

section \<open>STEP 1 stays within the session's limits and evicts the oldest first\<close>

text \<open>What eviction does to the entries of one session: a part is dropped, and whatever is
  dropped was accessed no later than what stays.\<close>

definition lru_trim :: "(string \<times> GhostFile) list \<Rightarrow> (string \<times> GhostFile) list \<Rightarrow> bool" where
  "lru_trim before after \<longleftrightarrow>
     set after \<subseteq> set before \<and>
     (\<forall>x \<in> set before - set after. \<forall>y \<in> set after. lastAccess x \<le> lastAccess y)"

lemma lru_trim_refl [simp]: "lru_trim xs xs"
  by (simp add: lru_trim_def)

lemma lru_trim_remove1:
  assumes "oldest xs = Some z" and "lru_trim (remove1 z xs) ys"
  shows "lru_trim xs ys"
proof -
  have "set ys \<subseteq> set xs" using assms(2) set_remove1_subset by (fastforce simp: lru_trim_def)
  moreover have "lastAccess x \<le> lastAccess y" if "x \<in> set xs" "x \<notin> set ys" "y \<in> set ys" for x y
  proof (cases "x = z")
    case True
    have "y \<in> set xs" using calculation that(3) by blast
    with True show ?thesis using oldest_le [OF assms(1), of y] by simp
  next
    case False
    then have "x \<in> set (remove1 z xs)" using that(1) by (simp add: in_set_remove1)
    then show ?thesis using assms(2) that by (auto simp: lru_trim_def)
  qed
  ultimately show ?thesis by (simp add: lru_trim_def)
qed

definition other_sessions_kept :: "u64 \<Rightarrow> GhostState \<Rightarrow> GhostState \<Rightarrow> bool" where
  "other_sessions_kept sid gs gs' \<longleftrightarrow>
     (\<forall>s. s \<noteq> sid \<longrightarrow> sessionFiles s (gs_files gs') = sessionFiles s (gs_files gs))"

definition same_limits :: "GhostState \<Rightarrow> GhostState \<Rightarrow> bool" where
  "same_limits gs gs' \<longleftrightarrow>
     gs_maxFiles gs' = gs_maxFiles gs \<and> gs_maxMemory gs' = gs_maxMemory gs \<and>
     gs_maxGlobal gs' = gs_maxGlobal gs"

definition session_fits :: "int \<Rightarrow> GhostState \<Rightarrow> (string \<times> GhostFile) list \<Rightarrow> bool" where
  "session_fits fileSize gs l \<longleftrightarrow>
     l = [] \<or> (int (length l) < gs_maxFiles gs \<and> total l + fileSize \<le> gs_maxMemory gs)"

lemma session_total_bounds:
  "ghost_inv gs \<Longrightarrow> 0 \<le> total (sessionFiles sid (gs_files gs)) \<and> total (sessionFiles sid (gs_files gs)) < 2 ^ 62"
proof -
  assume inv: "ghost_inv gs"
  have ok: "\<And>y. y \<in> set (gs_files gs) \<Longrightarrow> entry_ok y" using inv by (rule ghost_invD)
  have "total (sessionFiles sid (gs_files gs)) \<le> total (gs_files gs)"
    unfolding sessionFiles_def using ok by (rule total_filter_le)
  moreover have "0 \<le> total (sessionFiles sid (gs_files gs))"
    using ok by (intro total_nonneg) (auto simp: sessionFiles_def)
  ultimately show ?thesis using ghost_invD(3) [OF inv] by linarith
qed

lemma wrap64_small_sum: "0 \<le> a \<Longrightarrow> a < 2 ^ 62 \<Longrightarrow> 0 \<le> b \<Longrightarrow> b < 2 ^ 62 \<Longrightarrow> wrap64 (a + b) = a + b"
  by (intro wrap64_id) auto

lemma wrap64_small_diff: "0 \<le> a \<Longrightarrow> a < 2 ^ 62 \<Longrightarrow> 0 \<le> b \<Longrightarrow> b < 2 ^ 62 \<Longrightarrow> wrap64 (a - b) = a - b"
  by (intro wrap64_id) auto

lemma evictSession_spec:
  assumes "ghost_inv gs" and "l = sessionFiles sid (gs_files gs)" and "cm = total l"
    and "0 \<le> fileSize" and "fileSize < 2 ^ 62"
    and "evictSession fileSize gs cm l = (gs', cm', l')"
  shows "ghost_inv gs' \<and> l' = sessionFiles sid (gs_files gs') \<and> cm' = total l' \<and>
    same_limits gs gs' \<and> session_fits fileSize gs' l' \<and> other_sessions_kept sid gs gs' \<and>
    lru_trim l l' \<and> set (gs_files gs') \<subseteq> set (gs_files gs)"
  using assms
proof (induction fileSize gs cm l rule: evictSession.induct)
  case (1 fileSize gs cm l)
  have cm: "0 \<le> cm" "cm < 2 ^ 62" using session_total_bounds [OF 1(2)] 1(3,4) by auto
  have w: "wrap64 (cm + fileSize) = cm + fileSize" using cm 1(5,6) by (rule wrap64_small_sum)
  let ?g = "gs_maxFiles gs \<le> int (length l) \<or> (gs_maxMemory gs < wrap64 (cm + fileSize) \<and> l \<noteq> [])"
  show ?case
  proof (cases "?g \<and> l \<noteq> []")
    case False
    then have "evictSession fileSize gs cm l = (gs, cm, l)"
      by (subst evictSession.simps) auto
    with 1(7) have eqs: "gs' = gs" "cm' = cm" "l' = l" by simp_all
    have "session_fits fileSize gs l" using False w 1(4) by (auto simp: session_fits_def)
    then show ?thesis
      using 1(2,3,4) unfolding eqs by (simp add: same_limits_def other_sessions_kept_def)
  next
    case True
    then obtain x where x: "oldest l = Some x" using oldest_exists by blast
    have xl: "x \<in> set l" using x by (rule oldest_mem)
    then have xf: "x \<in> set (gs_files gs)" and xs: "gf_sessionID (snd x) = sid"
      using 1(3) by (auto simp: sessionFiles_def)
    have rec: "evictSession fileSize (drop_entry x gs) (wrap64 (cm - gf_size (snd x))) (remove1 x l)
        = (gs', cm', l')"
      using 1(7) True x by (subst (asm) evictSession.simps) (cases x; auto split: if_splits)
    have l1: "remove1 x l = sessionFiles sid (gs_files (drop_entry x gs))"
      using drop_entry_session(1) [OF 1(2) xf] xs 1(3) by simp
    have sz: "0 \<le> gf_size (snd x)" "gf_size (snd x) \<le> cm"
      using entry_bounds(1,2) [OF 1(2) xf] xs 1(3,4) by auto
    have "total (remove1 x l) = cm - gf_size (snd x)"
      using 1(3,4) ghost_invD(1) [OF 1(2)] xl
      by (simp add: remove1_filter_key total_remove sessionFiles_distinct)
    then have cm1: "wrap64 (cm - gf_size (snd x)) = total (remove1 x l)"
      using wrap64_small_diff [of cm "gf_size (snd x)"] cm sz by simp
    have "ghost_inv gs' \<and> l' = sessionFiles sid (gs_files gs') \<and> cm' = total l' \<and>
        same_limits (drop_entry x gs) gs' \<and> session_fits fileSize gs' l' \<and>
        other_sessions_kept sid (drop_entry x gs) gs' \<and>
        lru_trim (remove1 x l) l' \<and> set (gs_files gs') \<subseteq> set (gs_files (drop_entry x gs))"
    proof (rule 1(1) [of x "fst x" "snd x", unfolded prod.collapse])
      show "?g" using True by blast
      show "oldest l = Some x" by (rule x)
      show "ghost_inv (drop_entry x gs)" by (rule drop_entry_inv [OF 1(2) xf])
    qed (use l1 cm1 rec 1(5,6) in simp_all)
    then show ?thesis
      using lru_trim_remove1 [OF x] drop_entry_session(2) [OF 1(2) xf] xs drop_entry_files [OF 1(2) xf]
      by (auto simp: same_limits_def other_sessions_kept_def)
  qed
qed


section \<open>STEP 2 terminates and stays within the global limit\<close>

lemma session_fits_remove1:
  assumes "session_fits fileSize gs l" and "\<And>y. y \<in> set l \<Longrightarrow> entry_ok y" and "x \<in> set l"
    and "same_limits gs gs'"
  shows "session_fits fileSize gs' (remove1 x l)"
proof -
  have "0 \<le> gf_size (snd x)" using assms(2,3) by (simp add: entry_ok_def)
  moreover have "total l = gf_size (snd x) + total (remove1 x l)"
    using sum_list_map_remove1 [OF assms(3), of "\<lambda>x. gf_size (snd x)"] by simp
  moreover have "length (remove1 x l) \<le> length l" by (simp add: length_remove1)
  moreover have "l \<noteq> []" using assms(3) by auto
  ultimately show ?thesis using assms(1,4) by (auto simp: session_fits_def same_limits_def)
qed

lemma same_limits_trans: "same_limits a b \<Longrightarrow> same_limits b c \<Longrightarrow> same_limits a c"
  by (simp add: same_limits_def)

lemma same_limits_drop [simp]: "same_limits gs (removeGhostFile s p gs)"
  by (simp add: same_limits_def)

definition global_fits :: "int \<Rightarrow> GhostState \<Rightarrow> bool" where
  "global_fits fileSize gs \<longleftrightarrow> gs_global gs = 0 \<or> gs_global gs + fileSize \<le> gs_maxGlobal gs"

lemma global_bounds: "ghost_inv gs \<Longrightarrow> 0 \<le> gs_global gs \<and> gs_global gs < 2 ^ 62"
  using ghost_invD(3,4) [of gs] total_nonneg [OF ghost_invD(2) [of gs]] by simp

lemma lru_trim_drop_oldest:
  assumes "ghost_inv gs" and "oldest (gs_files gs) = Some x"
    and "lru_trim (gs_files (drop_entry x gs)) ys"
  shows "lru_trim (gs_files gs) ys"
  using lru_trim_remove1 [OF assms(2)] assms(3) oldest_mem [OF assms(2)]
  by (simp add: remove1_filter_key [OF ghost_invD(1) [OF assms(1)]] drop_entry_files [OF assms(1)])

lemma evictGlobal_spec:
  assumes "ghost_inv gs" and "0 \<le> fileSize" and "fileSize < 2 ^ 62"
    and "l = sessionFiles sid (gs_files gs)" and "session_fits fileSize gs l"
  shows "\<exists>gs' l'. evictGlobal fileSize sid gs (total l) l (gs_global gs) = Some (gs', total l', l') \<and>
    ghost_inv gs' \<and> l' = sessionFiles sid (gs_files gs') \<and> same_limits gs gs' \<and>
    session_fits fileSize gs' l' \<and> global_fits fileSize gs' \<and>
    lru_trim (gs_files gs) (gs_files gs')"
  using assms
proof (induction "length (gs_files gs)" arbitrary: gs l rule: less_induct)
  case less
  let ?go = "gs_maxGlobal gs < wrap64 (gs_global gs + fileSize) \<and> 0 < gs_global gs"
  have w: "wrap64 (gs_global gs + fileSize) = gs_global gs + fileSize"
    using global_bounds [OF less(2)] less(3,4) by (intro wrap64_small_sum) auto
  show ?case
  proof (cases ?go)
    case False
    then have "global_fits fileSize gs"
      using w global_bounds [OF less(2)] by (auto simp: global_fits_def)
    moreover have "evictGlobal fileSize sid gs (total l) l (gs_global gs) = Some (gs, total l, l)"
      using False by (subst evictGlobal.simps) auto
    ultimately show ?thesis
      using less(2,5,6) by (intro exI [of _ gs] exI [of _ l]) (simp add: same_limits_def)
  next
    case True
    then have "gs_files gs \<noteq> []" using ghost_invD(4) [OF less(2)] by auto
    then obtain x where x: "oldest (gs_files gs) = Some x" using oldest_exists by blast
    then have xf: "x \<in> set (gs_files gs)" by (rule oldest_mem)
    let ?gs = "drop_entry x gs"
    define l1 where "l1 = (if gf_sessionID (snd x) = sid then remove1 x l else l)"
    have l1: "l1 = sessionFiles sid (gs_files ?gs)"
      using drop_entry_session [OF less(2) xf] less(5) by (auto simp: l1_def)
    have xl: "x \<in> set l" if "gf_sessionID (snd x) = sid"
      using that xf less(5) by (auto simp: sessionFiles_def)
    have ok: "\<And>y. y \<in> set l \<Longrightarrow> entry_ok y"
      using ghost_invD(2) [OF less(2)] less(5) by (auto simp: sessionFiles_def)
    have fits: "session_fits fileSize ?gs l1"
      using session_fits_remove1 [OF less(6) ok xl same_limits_drop] less(6)
      by (auto simp: l1_def session_fits_def)
    have "wrap64 (total l - gf_size (snd x)) = total (remove1 x l)" if "gf_sessionID (snd x) = sid"
    proof -
      have "total l = gf_size (snd x) + total (remove1 x l)"
        using sum_list_map_remove1 [OF xl [OF that], of "\<lambda>x. gf_size (snd x)"] by simp
      moreover have "0 \<le> total (remove1 x l)"
        using ok by (intro total_nonneg) (auto dest: notin_set_remove1 set_remove1_subset [THEN subsetD])
      moreover have "total l < 2 ^ 62" using session_total_bounds [OF less(2)] less(5) by simp
      moreover have "0 \<le> gf_size (snd x)" using entry_bounds(1) [OF less(2) xf] .
      ultimately show ?thesis by (subst wrap64_id) auto
    qed
    then have step: "evictGlobal fileSize sid gs (total l) l (gs_global gs) =
        evictGlobal fileSize sid ?gs (total l1) l1 (gs_global ?gs)"
      using True x by (subst evictGlobal.simps) (simp add: l1_def)
    from less(1) [OF drop_entry_length [OF less(2) xf] drop_entry_inv [OF less(2) xf] less(3,4) l1 fits]
    show ?thesis
      unfolding step using lru_trim_drop_oldest [OF less(2) x] same_limits_trans [OF same_limits_drop]
      by blast
  qed
qed

section \<open>Adding a file\<close>

lemma sessionFiles_append: "sessionFiles sid (xs @ ys) = sessionFiles sid xs @ sessionFiles sid ys"
  by (simp add: sessionFiles_def)

lemma update_absent: "k \<notin> fst ` set xs \<Longrightarrow> AList.update k v xs = xs @ [(k, v)]"
  by (induction xs) auto

text \<open>Storing under a key the registry does not hold keeps it consistent, whatever was evicted.\<close>

lemma storeGhost_inv:
  assumes inv: "ghost_inv gs" and new: "makeGhostKey (oc_SessionID c) path \<notin> fst ` set (gs_files gs)"
    and sz: "0 \<le> fileSize" "fileSize < 2 ^ 62" and lim: "gs_maxGlobal gs < 2 ^ 62"
    and fits: "global_fits fileSize gs"
    and cm: "cm = total (sessionFiles (oc_SessionID c) (gs_files gs))"
  shows "ghost_inv (storeGhost c now path node fileSize cm gs)"
proof -
  note D = ghost_invD [OF inv]
  let ?s = "oc_SessionID c" and ?gs = "storeGhost c now path node fileSize cm gs"
  let ?e = "(makeGhostKey ?s path, \<lparr>gf_node = node, gf_path = path, gf_sessionID = ?s,
      gf_size = fileSize, gf_lastAccess = now\<rparr>)"
  have f: "gs_files ?gs = gs_files gs @ [?e]"
    using new by (simp add: storeGhost_def update_absent)
  have b: "0 \<le> cm" "cm < 2 ^ 62" using session_total_bounds [OF inv] cm by auto
  have u: "usage_of ?gs sid = total (sessionFiles sid (gs_files ?gs))" for sid
  proof (cases "sid = ?s")
    case True
    then show ?thesis unfolding f sessionFiles_append
      using wrap64_small_sum [OF b sz] cm by (simp add: storeGhost_def usage_of_def sessionFiles_def)
  next
    case False
    then have "usage_of ?gs sid = usage_of gs sid" by (simp add: storeGhost_def usage_of_def)
    with False show ?thesis unfolding f sessionFiles_append using D(5) by (simp add: sessionFiles_def)
  qed
  have g: "gs_global ?gs = gs_global gs + fileSize"
    using global_bounds [OF inv] sz by (simp add: storeGhost_def wrap64_small_sum)
  have "gs_global gs + fileSize < 2 ^ 62" using fits lim sz by (auto simp: global_fits_def)
  then have "total (gs_files ?gs) < 2 ^ 62" unfolding f using D(4) by simp
  moreover have "gs_global ?gs = total (gs_files ?gs)" unfolding f using g D(4) by simp
  moreover have "distinct (map fst (gs_files ?gs))" unfolding f using D(1) new by simp
  moreover have "\<forall>x \<in> set (gs_files ?gs). entry_ok x" unfolding f using D(2) sz by (simp add: entry_ok_def)
  ultimately show ?thesis unfolding ghost_inv_def using u by blast
qed

text \<open>All that one call promises, over the eviction it performed: the shared core of the
  properties below.\<close>

lemma addGhostFile_spec:
  assumes inv: "ghost_inv gs" and ctx: "makeGhostKey (oc_SessionID c) path \<notin> fst ` set (gs_files gs)"
    and sz: "0 \<le> sint nsz" "sint nsz < 2 ^ 62" and lim: "gs_maxGlobal gs < 2 ^ 62"
  shows "\<exists>gs1 gs2. addGhostFile (Some c) now path node nsz gs =
      Some (storeGhost c now path node (sint nsz) (total (sessionFiles (oc_SessionID c) (gs_files gs2))) gs2) \<and>
    ghost_inv gs1 \<and> ghost_inv gs2 \<and> same_limits gs gs2 \<and>
    other_sessions_kept (oc_SessionID c) gs gs1 \<and>
    lru_trim (sessionFiles (oc_SessionID c) (gs_files gs)) (sessionFiles (oc_SessionID c) (gs_files gs1)) \<and>
    set (gs_files gs1) \<subseteq> set (gs_files gs) \<and> lru_trim (gs_files gs1) (gs_files gs2) \<and>
    session_fits (sint nsz) gs2 (sessionFiles (oc_SessionID c) (gs_files gs2)) \<and>
    global_fits (sint nsz) gs2 \<and>
    ghost_inv (storeGhost c now path node (sint nsz)
      (total (sessionFiles (oc_SessionID c) (gs_files gs2))) gs2)"
proof -
  let ?s = "oc_SessionID c" and ?n = "sint nsz"
  let ?l = "sessionFiles ?s (gs_files gs)"
  obtain gs1 cm1 l1 where e1: "evictSession ?n gs (total ?l) ?l = (gs1, cm1, l1)"
    by (cases "evictSession ?n gs (total ?l) ?l")
  from evictSession_spec [OF inv refl refl sz e1]
  have s1: "ghost_inv gs1" "l1 = sessionFiles ?s (gs_files gs1)" "cm1 = total l1" "same_limits gs gs1"
    "session_fits ?n gs1 l1" "other_sessions_kept ?s gs gs1" "lru_trim ?l l1"
    "set (gs_files gs1) \<subseteq> set (gs_files gs)" by blast+
  from evictGlobal_spec [OF s1(1) sz s1(2) s1(5)] obtain gs2 l2 where
    e2: "evictGlobal ?n ?s gs1 (total l1) l1 (gs_global gs1) = Some (gs2, total l2, l2)" and
    s2: "ghost_inv gs2" "l2 = sessionFiles ?s (gs_files gs2)" "same_limits gs1 gs2"
    "session_fits ?n gs2 l2" "global_fits ?n gs2" "lru_trim (gs_files gs1) (gs_files gs2)" by blast
  have "(case gs_usage gs ?s of None \<Rightarrow> 0 | Some v \<Rightarrow> v) = total ?l"
    using ghost_invD(5) [OF inv, of ?s] by (simp add: usage_of_def)
  then have r: "addGhostFile (Some c) now path node nsz gs =
      Some (storeGhost c now path node ?n (total l2) gs2)"
    using e1 e2 s1(3) by (simp add: addGhostFile_def Let_def)
  have sub: "set (gs_files gs2) \<subseteq> set (gs_files gs)"
    using s1(8) s2(6) by (auto simp: lru_trim_def)
  then have new: "makeGhostKey ?s path \<notin> fst ` set (gs_files gs2)" using ctx by blast
  have sl: "same_limits gs gs2" using s1(4) s2(3) by (rule same_limits_trans)
  then have lim2: "gs_maxGlobal gs2 < 2 ^ 62" using lim by (simp add: same_limits_def)
  have "ghost_inv (storeGhost c now path node ?n (total l2) gs2)"
    by (rule storeGhost_inv [OF s2(1) new sz lim2 s2(5)]) (simp add: s2(2))
  with r s1 s2 sl show ?thesis by blast
qed

end
