(* ===== verification/GhostProps.thy ===== *)
theory GhostProps
  imports GhostLimits
begin

text \<open>
  The properties of the ghost registry, over the lemmas of GhostLimits: adding always returns
  and keeps the books right, stays within the three limits, evicts the least recently used;
  the cleanup tick removes exactly what expired; a lookup sees only its own session.
\<close>

section \<open>The cleanup tick\<close>

definition expired :: "int \<Rightarrow> string \<times> GhostFile \<Rightarrow> bool" where
  "expired now x \<longleftrightarrow> expirationTime < now - lastAccess x"

lemma cleanup_fold:
  assumes "ghost_inv gs" and "set xs \<subseteq> set (gs_files gs)" and "distinct (map fst xs)"
  shows "let gs' = foldl (\<lambda>s (k, g). if expirationTime < now - gf_lastAccess g
                       then removeGhostFile (gf_sessionID g) (gf_path g) s else s) gs xs
    in ghost_inv gs' \<and> same_limits gs gs' \<and>
       gs_files gs' = filter (\<lambda>p. \<not> (p \<in> set xs \<and> expired now p)) (gs_files gs)"
  using assms
proof (induction xs arbitrary: gs)
  case Nil
  then show ?case by (simp add: same_limits_def)
next
  case (Cons x xs)
  have xf: "x \<in> set (gs_files gs)" and d: "distinct (map fst xs)" using Cons.prems by auto
  show ?case
  proof (cases "expired now x")
    case False
    have "set xs \<subseteq> set (gs_files gs)" using Cons.prems by simp
    from Cons.IH [OF Cons.prems(1) this d] False show ?thesis
      by (auto simp: expired_def Let_def split: prod.splits intro!: filter_cong)
  next
    case True
    note inv = drop_entry_inv [OF Cons.prems(1) xf]
    note f = drop_entry_files [OF Cons.prems(1) xf]
    have "fst y \<noteq> fst x" if "y \<in> set xs" for y using Cons.prems(3) that by (auto simp: image_iff)
    then have "set xs \<subseteq> set (gs_files (drop_entry x gs))" using Cons.prems(2) f by auto
    note IH = Cons.IH [OF inv this d]
    have same: "fst p = fst x \<longleftrightarrow> p = x" if "p \<in> set (gs_files gs)" for p
      using that xf ghost_invD(1) [OF Cons.prems(1)] by (metis map_of_mem_distinct option.inject prod.collapse)
    have "filter (\<lambda>p. \<not> (p \<in> set xs \<and> expired now p)) (gs_files (drop_entry x gs)) =
        filter (\<lambda>p. \<not> (p \<in> set (x # xs) \<and> expired now p)) (gs_files gs)"
      unfolding f filter_filter using True same by (intro filter_cong) auto
    with IH True show ?thesis
      by (auto simp: expired_def Let_def same_limits_def split: prod.splits)
  qed
qed

lemma cleanup_spec:
  assumes "ghost_inv gs"
  shows "ghost_inv (cleanupGhostFiles now gs)"
    and "same_limits gs (cleanupGhostFiles now gs)"
    and "gs_files (cleanupGhostFiles now gs) = filter (\<lambda>x. \<not> expired now x) (gs_files gs)"
proof -
  have "filter (\<lambda>p. \<not> (p \<in> set (gs_files gs) \<and> expired now p)) (gs_files gs) =
      filter (\<lambda>x. \<not> expired now x) (gs_files gs)" by (rule filter_cong) auto
  with cleanup_fold [OF assms subset_refl ghost_invD(1) [OF assms], of now]
  show "ghost_inv (cleanupGhostFiles now gs)"
    and "same_limits gs (cleanupGhostFiles now gs)"
    and "gs_files (cleanupGhostFiles now gs) = filter (\<lambda>x. \<not> expired now x) (gs_files gs)"
    by (simp_all add: cleanupGhostFiles_def Let_def)
qed

section \<open>Looking a file up\<close>

lemma touch_keys: "map fst (touch key now xs) = map fst xs"
  by (simp add: touch_def comp_def case_prod_beta)

lemma touch_sizes: "map (gf_size \<circ> snd) (touch key now xs) = map (gf_size \<circ> snd) xs"
  by (simp add: touch_def comp_def case_prod_beta)

lemma sessionFiles_touch: "sessionFiles sid (touch key now xs) = touch key now (sessionFiles sid xs)"
proof -
  have "gf_sessionID (if b then g\<lparr>gf_lastAccess := now\<rparr> else g) = gf_sessionID g" for b g by simp
  then show ?thesis by (induction xs) (auto simp: sessionFiles_def touch_def)
qed

lemma total_touch: "total (touch key now xs) = total xs"
  using touch_sizes [of key now xs] by (simp add: comp_def)

lemma entry_ok_touch:
  "(\<forall>x \<in> set xs. entry_ok x) \<Longrightarrow> (\<forall>x \<in> set (touch key now xs). entry_ok x)"
  by (fastforce simp: touch_def entry_ok_def)

lemma getGhostFile_inv [inv_intros]:
  assumes "ghost_inv gs"
  shows "ghost_inv (snd (getGhostFile ctx now path gs))"
proof -
  have "ghost_inv (gs\<lparr>gs_files := touch key now (gs_files gs)\<rparr>)" for key
    using ghost_invD [OF assms] entry_ok_touch [of "gs_files gs" key now]
    by (auto simp: ghost_inv_def usage_of_def touch_keys total_touch sessionFiles_touch)
  with assms show ?thesis
    by (auto simp: getGhostFile_def Let_def split: option.splits)
qed


section \<open>Properties\<close>

abbreviation session_after :: "OperationContext \<Rightarrow> GhostState \<Rightarrow> (string \<times> GhostFile) list" where
  "session_after c gs \<equiv> sessionFiles (oc_SessionID c) (gs_files gs)"

lemma storeGhost_files:
  "makeGhostKey (oc_SessionID c) path \<notin> fst ` set (gs_files gs) \<Longrightarrow>
   gs_files (storeGhost c now path node n cm gs) = gs_files gs @
     [(makeGhostKey (oc_SessionID c) path, \<lparr>gf_node = node, gf_path = path,
        gf_sessionID = oc_SessionID c, gf_size = n, gf_lastAccess = now\<rparr>)]"
  by (simp add: storeGhost_def update_absent)


text \<open>A concrete registry the witnesses use: session 7 holds two files, session 8 one.\<close>

definition demo_entry :: "u64 \<Rightarrow> string \<Rightarrow> int \<Rightarrow> int \<Rightarrow> string \<times> GhostFile" where
  "demo_entry sid path sz now = (makeGhostKey sid path,
     \<lparr>gf_node = 0, gf_path = path, gf_sessionID = sid, gf_size = sz, gf_lastAccess = now\<rparr>)"

definition demo_ghosts :: GhostState where
  "demo_ghosts = initGhostState\<lparr>gs_files := [demo_entry 7 ''/a'' 100 5, demo_entry 7 ''/b'' 50 9,
       demo_entry 8 ''/a'' 20 1],
     gs_usage := [7 \<mapsto> 150, 8 \<mapsto> 20], gs_global := 170, gs_maxFiles := 2\<rparr>"

definition demo_ctx :: OperationContext where
  "demo_ctx = \<lparr>oc_RemoteAddr = ''10.0.0.1'', oc_LocalAddr = ''10.0.0.2'', oc_SessionID = 7,
     oc_Username = ''guest''\<rparr>"

lemma demo_inv: "ghost_inv demo_ghosts"
  by (auto simp: ghost_inv_def demo_ghosts_def demo_entry_def initGhostState_def entry_ok_def
      makeGhostKey_inj usage_of_def sessionFiles_def)

lemma demo_fresh: "makeGhostKey (oc_SessionID demo_ctx) ''/c'' \<notin> fst ` set (gs_files demo_ghosts)"
  by (simp add: demo_ghosts_def demo_entry_def demo_ctx_def makeGhostKey_inj)

lemma demo_limit: "gs_maxGlobal demo_ghosts < 2 ^ 62"
  by (simp add: demo_ghosts_def initGhostState_def)


text \<open>C7. From a consistent registry (distinct keys built from the entries' sessions and paths, sizes
  not negative and below \<open>2^62\<close> in all, every session charged exactly the sum of its entries' sizes and the global counter the
  sum over all sessions), registering a file under a new key returns and leaves a consistent
  registry, as long as the file's size, read as a signed number, is not negative and below \<open>2^62\<close> and
  the configured global limit is below \<open>2^62\<close> too. So the eviction loops end and the accounting
  does not drift for such sizes. A client can set others: see \<open>ghost_accounting_drifts\<close>.\<close>

theorem addGhostFile_returns_consistent:
  assumes "ghost_inv gs"
    and "makeGhostKey (oc_SessionID c) path \<notin> fst ` set (gs_files gs)"
    and "0 \<le> sint nsz" and "sint nsz < 2 ^ 62" and "gs_maxGlobal gs < 2 ^ 62"
  shows "\<exists>gs'. addGhostFile (Some c) now path node nsz gs = Some gs' \<and> ghost_inv gs'"
  using addGhostFile_spec [OF assms] by blast

theorem addGhostFile_returns_consistent_witness:
  "\<exists>gs'. addGhostFile (Some demo_ctx) 10 ''/c'' 0 40 demo_ghosts = Some gs' \<and> ghost_inv gs'"
  by (rule addGhostFile_returns_consistent [OF demo_inv demo_fresh _ _ demo_limit]) simp_all

text \<open>The bound on the size is not idle. In honeypot mode a write at an offset near \<open>2^63\<close> sets the
  size of a node without storing anything, and \<open>int64(size)\<close> is negative. One such file and the
  rule that a session's counter is deleted as soon as it is not positive make it drift: here the session
  is charged 250 bytes in the end, for one file of 50.\<close>

definition one_ghost :: GhostState where
  "one_ghost = initGhostState\<lparr>gs_files := [demo_entry 7 ''/a'' 100 5], gs_usage := [7 \<mapsto> 100], gs_global := 100\<rparr>"

lemma ghost_accounting_drifts:
  "ghost_inv one_ghost \<and>
   (\<exists>gs1 gs2. addGhostFile (Some demo_ctx) 10 ''/c'' 0 (2 ^ 64 - 200) one_ghost = Some gs1 \<and>
      addGhostFile (Some demo_ctx) 11 ''/d'' 0 50 (removeGhostFile 7 ''/a'' gs1) = Some gs2 \<and>
      map (gf_size \<circ> snd) (gs_files (removeGhostFile 7 ''/c'' gs2)) = [50] \<and>
      gs_usage (removeGhostFile 7 ''/c'' gs2) 7 = Some 250 \<and>
      \<not> ghost_inv (removeGhostFile 7 ''/c'' gs2))"
proof
  show "ghost_inv one_ghost"
    by (auto simp: ghost_inv_def one_ghost_def demo_entry_def initGhostState_def entry_ok_def
      makeGhostKey_inj usage_of_def sessionFiles_def)
  define gs1 where "gs1 = one_ghost\<lparr>gs_files := [demo_entry 7 ''/a'' 100 5, demo_entry 7 ''/c'' (- 200) 10],
    gs_usage := [7 \<mapsto> - 100], gs_global := - 100\<rparr>"
  define gs2 where "gs2 = one_ghost\<lparr>gs_files := [demo_entry 7 ''/c'' (- 200) 10, demo_entry 7 ''/d'' 50 11],
    gs_usage := [7 \<mapsto> 50], gs_global := - 150\<rparr>"
  note calc = one_ghost_def initGhostState_def demo_entry_def demo_ctx_def addGhostFile_def Let_def sessionFiles_def
    evictSession.simps evictGlobal.simps storeGhost_def removeGhostFile_def makeGhostKey_inj wrap64_def
  have a: "addGhostFile (Some demo_ctx) 10 ''/c'' 0 (2 ^ 64 - 200) one_ghost = Some gs1"
    by (simp add: calc gs1_def)
  have d: "addGhostFile (Some demo_ctx) 11 ''/d'' 0 50 (removeGhostFile 7 ''/a'' gs1) = Some gs2"
    by (simp add: calc gs1_def gs2_def)
  have e: "gs_files (removeGhostFile 7 ''/c'' gs2) = [demo_entry 7 ''/d'' 50 11]"
    "gs_usage (removeGhostFile 7 ''/c'' gs2) 7 = Some 250"
    by (simp_all add: calc gs2_def)
  then have "\<not> ghost_inv (removeGhostFile 7 ''/c'' gs2)"
    using ghost_invD(5) [of "removeGhostFile 7 ''/c'' gs2" 7] by (auto simp: usage_of_def sessionFiles_def demo_entry_def)
  with a d e show "\<exists>gs1 gs2. addGhostFile (Some demo_ctx) 10 ''/c'' 0 (2 ^ 64 - 200) one_ghost = Some gs1 \<and>
      addGhostFile (Some demo_ctx) 11 ''/d'' 0 50 (removeGhostFile 7 ''/a'' gs1) = Some gs2 \<and>
      map (gf_size \<circ> snd) (gs_files (removeGhostFile 7 ''/c'' gs2)) = [50] \<and>
      gs_usage (removeGhostFile 7 ''/c'' gs2) 7 = Some 250 \<and>
      \<not> ghost_inv (removeGhostFile 7 ''/c'' gs2)"
    by (intro exI conjI) (assumption | simp add: demo_entry_def)+
qed



text \<open>C9. Eviction is least recently used: an entry that a registration dropped either belonged
  to the registering session and was accessed no later than every entry of that session that
  survived, or was accessed no later than every surviving entry of the whole registry.\<close>

theorem addGhostFile_evicts_lru:
  assumes "ghost_inv gs"
    and "makeGhostKey (oc_SessionID c) path \<notin> fst ` set (gs_files gs)"
    and "0 \<le> sint nsz" and "sint nsz < 2 ^ 62" and "gs_maxGlobal gs < 2 ^ 62"
    and "addGhostFile (Some c) now path node nsz gs = Some gs'"
    and "x \<in> set (gs_files gs) - set (gs_files gs')"
  shows "(gf_sessionID (snd x) = oc_SessionID c \<and>
      (\<forall>y \<in> set (session_after c gs) \<inter> set (session_after c gs'). lastAccess x \<le> lastAccess y)) \<or>
    (\<forall>y \<in> set (gs_files gs) \<inter> set (gs_files gs'). lastAccess x \<le> lastAccess y)"
proof -
  from addGhostFile_spec [OF assms(1-5), of now node] assms(6) obtain gs1 gs2 where
    g: "gs' = storeGhost c now path node (sint nsz) (total (session_after c gs2)) gs2" and
    p: "ghost_inv gs1" "other_sessions_kept (oc_SessionID c) gs gs1"
      "lru_trim (session_after c gs) (session_after c gs1)"
      "set (gs_files gs1) \<subseteq> set (gs_files gs)" "lru_trim (gs_files gs1) (gs_files gs2)"
    by auto
  have new: "makeGhostKey (oc_SessionID c) path \<notin> fst ` set (gs_files gs2)"
    using p(4,5) assms(2) by (auto simp: lru_trim_def)
  have mem: "y \<in> set (gs_files gs') \<and> y \<in> set (gs_files gs) \<longleftrightarrow> y \<in> set (gs_files gs2)" for y
  proof -
    have "fst y \<noteq> makeGhostKey (oc_SessionID c) path" if "y \<in> set (gs_files gs)"
      using assms(2) that by (auto simp: image_iff)
    then show ?thesis
      using p(4,5) unfolding g storeGhost_files [OF new] by (auto simp: lru_trim_def)
  qed
  show ?thesis
  proof (cases "x \<in> set (gs_files gs1)")
    case True
    moreover have "x \<notin> set (gs_files gs2)" using assms(7) mem by blast
    ultimately have "lastAccess x \<le> lastAccess y" if "y \<in> set (gs_files gs2)" for y
      using that p(5) by (simp add: lru_trim_def)
    then show ?thesis using mem by blast
  next
    case False
    have x: "x \<in> set (sessionFiles (gf_sessionID (snd x)) (gs_files gs))"
      using assms(7) by (auto simp: sessionFiles_def)
    have nx: "x \<notin> set (sessionFiles (gf_sessionID (snd x)) (gs_files gs1))"
      using False by (auto simp: sessionFiles_def)
    then have s: "gf_sessionID (snd x) = oc_SessionID c"
      using p(2) x by (auto simp: other_sessions_kept_def)
    have "lastAccess x \<le> lastAccess y"
      if "y \<in> set (session_after c gs) \<inter> set (session_after c gs')" for y
    proof -
      have "y \<in> set (gs_files gs1)" using that mem [of y] p(5) by (auto simp: sessionFiles_def lru_trim_def)
      then have "y \<in> set (session_after c gs1)" using that by (auto simp: sessionFiles_def)
      then show ?thesis using p(3) x nx s by (auto simp: lru_trim_def)
    qed
    with s show ?thesis by blast
  qed
qed

text \<open>At the limit of two files, registering a third drops the older of the session's two.\<close>

lemma demo_oldest: "oldest (sessionFiles 7 (gs_files demo_ghosts)) = Some (demo_entry 7 ''/a'' 100 5)"
  by (simp add: oldest_def sessionFiles_def demo_ghosts_def demo_entry_def)

lemma demo_add:
  "\<exists>gs'. addGhostFile (Some demo_ctx) 10 ''/c'' 0 40 demo_ghosts = Some gs' \<and>
     gs_files gs' = [demo_entry 7 ''/b'' 50 9, demo_entry 8 ''/a'' 20 1,
       demo_entry 7 ''/c'' 40 10]"
  by (simp add: addGhostFile_def demo_ctx_def demo_ghosts_def demo_entry_def initGhostState_def evictSession.simps evictGlobal.simps sessionFiles_def oldest_def makeGhostKey_inj removeGhostFile_def storeGhost_def wrap64_def Let_def)

theorem addGhostFile_evicts_lru_witness:
  "lastAccess (demo_entry 7 ''/a'' 100 5) \<le> lastAccess (demo_entry 7 ''/b'' 50 9)"
proof -
  obtain gs' where r: "addGhostFile (Some demo_ctx) 10 ''/c'' 0 40 demo_ghosts = Some gs'"
    and f: "gs_files gs' = [demo_entry 7 ''/b'' 50 9, demo_entry 8 ''/a'' 20 1,
       demo_entry 7 ''/c'' 40 10]"
    using demo_add by blast
  have x: "demo_entry 7 ''/a'' 100 5 \<in> set (gs_files demo_ghosts) - set (gs_files gs')"
    unfolding f by (simp add: demo_ghosts_def demo_entry_def makeGhostKey_inj)
  have "0 \<le> sint (40 :: u64)" and "sint (40 :: u64) < 2 ^ 62" by simp_all
  from addGhostFile_evicts_lru [OF demo_inv demo_fresh this demo_limit r x]
  show ?thesis unfolding f by (auto simp: demo_ghosts_def demo_ctx_def sessionFiles_def demo_entry_def)
qed

text \<open>C10. One tick of the cleanup goroutine removes exactly the entries idle for more than three
  minutes, keeps the others in order, and leaves the accounting right.\<close>

theorem cleanupGhostFiles_exact:
  assumes "ghost_inv gs"
  shows "ghost_inv (cleanupGhostFiles now gs) \<and>
    gs_files (cleanupGhostFiles now gs) =
      filter (\<lambda>x. now - gf_lastAccess (snd x) \<le> 3 * 60 * 1000000000) (gs_files gs)"
  using cleanup_spec [OF assms, of now] by (simp add: expired_def expirationTime_def not_less)

theorem cleanupGhostFiles_exact_witness:
  "gs_files (cleanupGhostFiles 180000000006 demo_ghosts) = [demo_entry 7 ''/b'' 50 9]"
proof -
  have "gs_files (cleanupGhostFiles 180000000006 demo_ghosts) =
      filter (\<lambda>x. 180000000006 - gf_lastAccess (snd x) \<le> 3 * 60 * 1000000000) (gs_files demo_ghosts)"
    using cleanupGhostFiles_exact [OF demo_inv] by blast
  then show ?thesis by (simp add: demo_ghosts_def demo_entry_def)
qed

text \<open>C11. A lookup finds an entry only for the session that registered it under that very path,
  and renews the access time of that entry alone; the registry stays consistent.\<close>

theorem getGhostFile_own_session:
  assumes "ghost_inv gs" and "getGhostFile ctx now path gs = (Some g, gs')"
  shows "(\<exists>c. ctx = Some c \<and> gf_sessionID g = oc_SessionID c) \<and> gf_path g = path \<and>
    gf_lastAccess g = now \<and> ghost_inv gs' \<and>
    (\<forall>k. k \<noteq> makeGhostKey (gf_sessionID g) path \<longrightarrow> map_of (gs_files gs') k = map_of (gs_files gs) k)"
proof -
  from assms(2) obtain c where c: "ctx = Some c" by (cases ctx) (simp_all add: getGhostFile_def)
  from assms(2) obtain g0
    where m: "map_of (gs_files gs) (makeGhostKey (oc_SessionID c) path) = Some g0"
    by (cases "map_of (gs_files gs) (makeGhostKey (oc_SessionID c) path)")
      (simp_all add: getGhostFile_def Let_def c)
  from assms(2) have g: "g = g0\<lparr>gf_lastAccess := now\<rparr>"
    and gs': "gs' = gs\<lparr>gs_files := touch (makeGhostKey (oc_SessionID c) path) now (gs_files gs)\<rparr>"
    by (simp_all add: getGhostFile_def Let_def c m)
  have "entry_ok (makeGhostKey (oc_SessionID c) path, g0)"
    by (rule ghost_invD(2) [OF assms(1) map_of_SomeD [OF m]])
  then have k: "gf_sessionID g0 = oc_SessionID c" "gf_path g0 = path"
    by (auto simp: entry_ok_def makeGhostKey_inj)
  have "ghost_inv gs'" using getGhostFile_inv [OF assms(1), of ctx now path] assms(2) by simp
  moreover have "map_of (touch key now xs) k = map_of xs k" if "k \<noteq> key" for k key xs
    using that by (induction xs) (auto simp: touch_def)
  ultimately show ?thesis using c g gs' k by simp
qed

theorem getGhostFile_own_session_witness:
  "gf_sessionID (snd (demo_entry 7 ''/b'' 50 9)) = 7 \<and>
   ghost_inv (snd (getGhostFile (Some demo_ctx) 20 ''/b'' demo_ghosts))"
proof -
  have "fst (getGhostFile (Some demo_ctx) 20 ''/b'' demo_ghosts) =
      Some (snd (demo_entry 7 ''/b'' 50 20))"
    by (simp add: getGhostFile_def demo_ctx_def demo_ghosts_def demo_entry_def makeGhostKey_inj Let_def)
  then have "getGhostFile (Some demo_ctx) 20 ''/b'' demo_ghosts =
     (Some (snd (demo_entry 7 ''/b'' 50 20)), snd (getGhostFile (Some demo_ctx) 20 ''/b'' demo_ghosts))"
    by (metis prod.collapse)
  from getGhostFile_own_session [OF demo_inv this] show ?thesis
    by (simp only: demo_entry_def snd_conv GhostFile.select_convs simp_thms)
qed

end
