(* ===== verification/GoPath.thy ===== *)
theory GoPath
  imports Prelude
begin

text \<open>
  The functions of Go's standard library on slash-separated paths that the in-memory file
  system calls: \<open>strings.Split\<close>, \<open>strings.Trim\<close>, \<open>path.Clean\<close>, \<open>path.Split\<close>, \<open>path.Dir\<close>,
  \<open>path.Base\<close> and \<open>path.Join\<close>. \<open>Clean\<close> is written on the list of path elements, where
  the library walks a byte buffer. The lemmas say what the file system relies on: a cleaned
  rooted path has no \<open>..\<close> element, \<open>Clean\<close> is idempotent, and the elements of a cleaned
  path are those of its \<open>Dir\<close> followed by its \<open>Base\<close>.
\<close>

abbreviation slash :: char where "slash \<equiv> CHR ''/''"

section \<open>strings\<close>

text \<open>\<open>strings.Split(s, sep)\<close> for a one-byte separator: always at least one element.\<close>

fun split_on :: "char \<Rightarrow> string \<Rightarrow> string list" where
  "split_on c [] = [[]]"
| "split_on c (x # xs) =
     (if x = c then [] # split_on c xs
      else (case split_on c xs of [] \<Rightarrow> [[x]] | y # ys \<Rightarrow> (x # y) # ys))"

fun join_with :: "char \<Rightarrow> string list \<Rightarrow> string" where
  "join_with c [] = []"
| "join_with c [x] = x"
| "join_with c (x # y # ys) = x @ c # join_with c (y # ys)"

definition trim_char :: "char \<Rightarrow> string \<Rightarrow> string" where
  "trim_char c s = rev (dropWhile (\<lambda>x. x = c) (rev (dropWhile (\<lambda>x. x = c) s)))"

lemma split_on_not_Nil [simp]: "split_on c s \<noteq> []"
  by (induction s) (auto split: list.splits)

lemma split_on_no_sep: "c \<notin> set s \<Longrightarrow> split_on c s = [s]"
  by (induction s) auto

lemma split_on_elem_no_sep: "x \<in> set (split_on c s) \<Longrightarrow> c \<notin> set x"
proof (induction s arbitrary: x)
  case Nil
  then show ?case by simp
next
  case (Cons a s)
  then show ?case
    by (cases "split_on c s") (auto split: if_splits)
qed

lemma split_on_append_sep:
  "split_on c (s @ c # t) = split_on c s @ split_on c t"
proof (induction s)
  case Nil
  then show ?case by simp
next
  case (Cons a s)
  then show ?case
    by (cases "split_on c s") auto
qed

lemma split_on_join:
  "xs \<noteq> [] \<Longrightarrow> (\<And>x. x \<in> set xs \<Longrightarrow> c \<notin> set x) \<Longrightarrow> split_on c (join_with c xs) = xs"
proof (induction c xs rule: join_with.induct)
  case (3 c x y ys)
  then show ?case by (simp add: split_on_append_sep split_on_no_sep)
qed (auto simp: split_on_no_sep)

lemma join_with_snoc:
  "xs \<noteq> [] \<Longrightarrow> join_with c (xs @ [x]) = join_with c xs @ c # x"
  by (induction c xs rule: join_with.induct) auto

lemma join_split: "join_with c (split_on c s) = s"
proof (induction s)
  case Nil
  then show ?case by simp
next
  case (Cons a s)
  show ?case
  proof (cases "split_on c s")
    case Nil
    then show ?thesis by simp
  next
    case (Cons y ys)
    with Cons.IH show ?thesis by (cases ys) auto
  qed
qed

section \<open>path.Clean\<close>

text \<open>One element of the path against the elements kept so far: empty and \<open>.\<close> elements are
  dropped, \<open>..\<close> removes the last kept element if that is a name, is dropped at the root,
  and is kept in front of a relative path.\<close>

definition clean_step :: "bool \<Rightarrow> string list \<Rightarrow> string \<Rightarrow> string list" where
  "clean_step rooted kept x =
     (if x = [] \<or> x = ''.'' then kept
      else if x = ''..'' then
        (if kept \<noteq> [] \<and> last kept \<noteq> ''..'' then butlast kept
         else if rooted then kept else kept @ [''..''])
      else kept @ [x])"

definition clean_elems :: "bool \<Rightarrow> string list \<Rightarrow> string list" where
  "clean_elems rooted xs = foldl (clean_step rooted) [] xs"

definition render :: "bool \<Rightarrow> string list \<Rightarrow> string" where
  "render rooted xs =
     (if rooted then slash # join_with slash xs
      else if xs = [] then ''.'' else join_with slash xs)"

definition is_rooted :: "string \<Rightarrow> bool" where
  "is_rooted p = (case p of [] \<Rightarrow> False | c # _ \<Rightarrow> c = slash)"

definition path_Clean :: "string \<Rightarrow> string" where
  "path_Clean p = render (is_rooted p) (clean_elems (is_rooted p) (split_on slash p))"

definition path_Split :: "string \<Rightarrow> string \<times> string" where
  "path_Split p =
     (let file = rev (takeWhile (\<lambda>c. c \<noteq> slash) (rev p));
          d = rev (dropWhile (\<lambda>c. c \<noteq> slash) (rev p)) in (d, file))"

definition path_Dir :: "string \<Rightarrow> string" where
  "path_Dir p = path_Clean (fst (path_Split p))"

definition path_Base :: "string \<Rightarrow> string" where
  "path_Base p =
     (if p = [] then ''.''
      else (let q = rev (dropWhile (\<lambda>c. c = slash) (rev p));
                f = snd (path_Split q)
            in if f = [] then [slash] else f))"

definition path_Join :: "string list \<Rightarrow> string" where
  "path_Join xs =
     (let ys = filter (\<lambda>x. x \<noteq> []) xs
      in if ys = [] then [] else path_Clean (join_with slash ys))"

section \<open>Normal element lists\<close>

definition name_ok :: "string \<Rightarrow> bool" where
  "name_ok x \<longleftrightarrow> x \<noteq> [] \<and> x \<noteq> ''.'' \<and> x \<noteq> ''..'' \<and> slash \<notin> set x"

definition normal_elems :: "bool \<Rightarrow> string list \<Rightarrow> bool" where
  "normal_elems rooted xs \<longleftrightarrow>
     (\<exists>k ys. xs = replicate k ''..'' @ ys \<and> (rooted \<longrightarrow> k = 0) \<and> (\<forall>y \<in> set ys. name_ok y))"

lemma normal_elemsI:
  "xs = replicate k ''..'' @ ys \<Longrightarrow> (r \<Longrightarrow> k = 0) \<Longrightarrow> (\<And>y. y \<in> set ys \<Longrightarrow> name_ok y) \<Longrightarrow>
   normal_elems r xs"
  unfolding normal_elems_def by blast

lemma normal_elems_Nil [simp]: "normal_elems r []"
  by (rule normal_elemsI [of _ 0 "[]"]) auto

lemma normal_elems_no_slash: "normal_elems r xs \<Longrightarrow> x \<in> set xs \<Longrightarrow> slash \<notin> set x \<and> x \<noteq> [] \<and> x \<noteq> ''.''"
proof -
  assume "normal_elems r xs" and x: "x \<in> set xs"
  then obtain k ys where "xs = replicate k ''..'' @ ys" "\<forall>y \<in> set ys. name_ok y"
    by (auto simp: normal_elems_def)
  with x consider "x = ''..''" | "name_ok x" by (auto simp: set_replicate_conv_if split: if_splits)
  then show ?thesis by cases (simp_all add: name_ok_def)
qed

lemma normal_elems_snoc_name: "normal_elems r xs \<Longrightarrow> name_ok x \<Longrightarrow> normal_elems r (xs @ [x])"
proof -
  assume "normal_elems r xs" and x: "name_ok x"
  then obtain k ys where "xs = replicate k ''..'' @ ys" "r \<longrightarrow> k = 0" "\<forall>y \<in> set ys. name_ok y"
    by (auto simp: normal_elems_def)
  with x show ?thesis by (intro normal_elemsI [of _ k "ys @ [x]"]) auto
qed

lemma normal_elems_butlast: "normal_elems r xs \<Longrightarrow> normal_elems r (butlast xs)"
proof -
  assume "normal_elems r xs"
  then obtain k ys where xs: "xs = replicate k ''..'' @ ys" "r \<longrightarrow> k = 0" "\<forall>y \<in> set ys. name_ok y"
    by (auto simp: normal_elems_def)
  show ?thesis
  proof (cases ys rule: rev_cases)
    case Nil
    then have "butlast xs = replicate (k - 1) ''..'' @ []"
      using xs by (cases k) (simp_all add: butlast_append replicate_append_same [symmetric])
    then show ?thesis using xs(2) by (intro normal_elemsI [of _ "k - 1" "[]"]) auto
  next
    case (snoc zs z)
    then have "butlast xs = replicate k ''..'' @ zs" using xs by (simp add: butlast_append)
    then show ?thesis using xs(2,3) snoc by (intro normal_elemsI [of _ k zs]) auto
  qed
qed

lemma normal_elems_snoc_dotdot:
  assumes "normal_elems False xs" and "xs = [] \<or> last xs = ''..''"
  shows "normal_elems False (xs @ [''..''])"
proof -
  from assms(1) obtain k ys where xs: "xs = replicate k ''..'' @ ys" "\<forall>y \<in> set ys. name_ok y"
    by (auto simp: normal_elems_def)
  have "ys = []"
    using assms(2) xs by (cases ys rule: rev_cases) (auto simp: name_ok_def)
  then have "xs @ [''..''] = replicate (Suc k) ''..'' @ []"
    using xs by (simp add: replicate_append_same)
  then show ?thesis by (intro normal_elemsI [of _ "Suc k" "[]"]) auto
qed

lemma clean_step_normal:
  assumes "normal_elems r kept" and "slash \<notin> set x"
  shows "normal_elems r (clean_step r kept x)"
proof (cases "x = [] \<or> x = ''.'' \<or> x = ''..''")
  case False
  then have "name_ok x" using assms(2) by (simp add: name_ok_def)
  with False assms(1) show ?thesis by (simp add: clean_step_def normal_elems_snoc_name)
next
  case True
  then show ?thesis
    using assms(1) normal_elems_butlast [of r kept] normal_elems_snoc_dotdot [of kept]
    by (cases r) (auto simp: clean_step_def)
qed

lemma clean_fold_normal:
  "normal_elems r kept \<Longrightarrow> (\<And>x. x \<in> set xs \<Longrightarrow> slash \<notin> set x) \<Longrightarrow>
   normal_elems r (foldl (clean_step r) kept xs)"
  by (induction xs arbitrary: kept) (auto simp: clean_step_normal)

lemma clean_elems_normal: "normal_elems r (clean_elems r (split_on slash p))"
  unfolding clean_elems_def by (rule clean_fold_normal) (auto dest: split_on_elem_no_sep)

text \<open>A rooted path has no way up: the elements of its cleaned form are proper names.\<close>

lemma rooted_elems_names: "x \<in> set (clean_elems True (split_on slash p)) \<Longrightarrow> name_ok x"
  using clean_elems_normal [of True p] by (auto simp: normal_elems_def)

lemma clean_fold_names:
  "(\<forall>y \<in> set ys. name_ok y) \<Longrightarrow> foldl (clean_step r) kept ys = kept @ ys"
  by (induction ys arbitrary: kept) (auto simp: clean_step_def name_ok_def)

lemma clean_fold_dotdots:
  "foldl (clean_step False) (replicate j ''..'') (replicate k ''..'') = replicate (j + k) ''..''"
proof (induction k arbitrary: j)
  case 0
  then show ?case by simp
next
  case (Suc k)
  have "clean_step False (replicate j ''..'') ''..'' = replicate (Suc j) ''..''"
    by (cases j) (auto simp: clean_step_def replicate_append_same)
  then show ?case using Suc.IH [of "Suc j"] by simp
qed

lemma clean_elems_id: "normal_elems r xs \<Longrightarrow> clean_elems r xs = xs"
proof -
  assume "normal_elems r xs"
  then obtain k ys where xs: "xs = replicate k ''..'' @ ys" "r \<longrightarrow> k = 0" "\<forall>y \<in> set ys. name_ok y"
    by (auto simp: normal_elems_def)
  show ?thesis
  proof (cases r)
    case True
    with xs show ?thesis by (simp add: clean_elems_def clean_fold_names)
  next
    case False
    with xs clean_fold_dotdots [of 0 k] show ?thesis
      by (simp add: clean_elems_def clean_fold_names)
  qed
qed

section \<open>The elements of a path, as the file system walks them\<close>

text \<open>\<open>strings.Split(strings.Trim(p, "/"), "/")\<close> without the empty elements, which the
  walks skip; the root and \<open>.\<close> have none.\<close>

definition walk_elems :: "string \<Rightarrow> string list" where
  "walk_elems p =
     (if p = [slash] \<or> p = ''.'' then []
      else filter (\<lambda>x. x \<noteq> []) (split_on slash (trim_char slash p)))"

lemma dropWhile_join_head:
  "xs \<noteq> [] \<Longrightarrow> hd xs \<noteq> [] \<Longrightarrow> c \<notin> set (hd xs) \<Longrightarrow>
   dropWhile (\<lambda>x. x = c) (join_with c xs) = join_with c xs"
  by (cases "(c, xs)" rule: join_with.cases; cases "hd xs") auto

lemma last_join:
  "xs \<noteq> [] \<Longrightarrow> last xs \<noteq> [] \<Longrightarrow> join_with c xs \<noteq> [] \<and> last (join_with c xs) = last (last xs)"
  by (induction c xs rule: join_with.induct) (auto split: if_splits)

lemma trim_join:
  assumes "xs \<noteq> []" and "\<And>x. x \<in> set xs \<Longrightarrow> x \<noteq> [] \<and> c \<notin> set x"
  shows "trim_char c (join_with c xs) = join_with c xs"
    and "trim_char c (c # join_with c xs) = join_with c xs"
proof -
  have h: "dropWhile (\<lambda>x. x = c) (join_with c xs) = join_with c xs"
    using assms by (intro dropWhile_join_head) auto
  have l: "join_with c xs \<noteq> []" "last (join_with c xs) = last (last xs)"
    using assms last_join [of xs c] by auto
  have "last (last xs) \<noteq> c" using assms by (metis last_in_set)
  then have "hd (rev (join_with c xs)) \<noteq> c" using l by (simp add: hd_rev)
  then have r: "dropWhile (\<lambda>x. x = c) (rev (join_with c xs)) = rev (join_with c xs)"
    using l(1) by (cases "rev (join_with c xs)") auto
  show "trim_char c (join_with c xs) = join_with c xs" using h r by (simp add: trim_char_def)
  show "trim_char c (c # join_with c xs) = join_with c xs" using h r by (simp add: trim_char_def)
qed

lemma join_eq_dot:
  "join_with slash xs = ''.'' \<Longrightarrow> (\<And>x. x \<in> set xs \<Longrightarrow> x \<noteq> [] \<and> x \<noteq> ''.'') \<Longrightarrow> False"
  by (cases "(slash, xs)" rule: join_with.cases) (auto simp: append_eq_Cons_conv)

lemma walk_elems_render:
  assumes "normal_elems r xs"
  shows "walk_elems (render r xs) = xs"
proof (cases "xs = []")
  case True
  then show ?thesis by (simp add: walk_elems_def render_def)
next
  case False
  have el: "\<And>x. x \<in> set xs \<Longrightarrow> x \<noteq> [] \<and> slash \<notin> set x" and el': "\<And>x. x \<in> set xs \<Longrightarrow> x \<noteq> [] \<and> x \<noteq> ''.''"
    using normal_elems_no_slash [OF assms] by auto
  have ne: "join_with slash xs \<noteq> []" using False el last_join [of xs slash] by auto
  have nd: "join_with slash xs \<noteq> ''.''" using join_eq_dot el' by blast
  have ns: "join_with slash xs \<noteq> [slash]"
    using trim_join(1) [OF False el] by (auto simp: trim_char_def)
  have sp: "split_on slash (join_with slash xs) = xs"
    using False el by (intro split_on_join) auto
  have fl: "filter (\<lambda>x. x \<noteq> []) xs = xs" using el by (simp add: filter_id_conv)
  show ?thesis
    using False ne nd ns sp fl trim_join [OF False el] by (simp add: walk_elems_def render_def)
qed

definition path_elems :: "string \<Rightarrow> string list" where
  "path_elems p = clean_elems (is_rooted p) (split_on slash p)"

lemma path_elems_simps:
  "path_elems [] = []" "path_elems [slash] = []" "path_elems ''.'' = []"
  by (simp_all add: path_elems_def is_rooted_def clean_elems_def clean_step_def)

lemma path_elems_normal: "normal_elems (is_rooted p) (path_elems p)"
  by (simp add: path_elems_def clean_elems_normal)

lemma walk_elems_Clean [simp]: "walk_elems (path_Clean p) = path_elems p"
  using walk_elems_render [OF path_elems_normal] by (simp add: path_Clean_def path_elems_def)

lemma is_rooted_render: "normal_elems r xs \<Longrightarrow> is_rooted (render r xs) = r"
proof -
  assume n: "normal_elems r xs"
  show ?thesis
  proof (cases "r \<or> xs = []")
    case True
    then show ?thesis by (auto simp: render_def is_rooted_def)
  next
    case False
    then obtain y ys where xs: "xs = y # ys" by (cases xs) auto
    then have "y \<noteq> []" "slash \<notin> set y" using normal_elems_no_slash [OF n] by auto
    then obtain c cs where y: "y = c # cs" "c \<noteq> slash" by (cases y) auto
    have "\<exists>t. join_with slash xs = c # t" using xs y by (cases ys) auto
    with False y show ?thesis by (auto simp: render_def is_rooted_def)
  qed
qed

lemma path_elems_render:
  assumes "normal_elems r xs"
  shows "path_elems (render r xs) = xs"
proof (cases "xs = []")
  case True
  then show ?thesis by (auto simp: path_elems_def render_def is_rooted_def clean_elems_def clean_step_def)
next
  case False
  have el: "\<And>x. x \<in> set xs \<Longrightarrow> slash \<notin> set x" using normal_elems_no_slash [OF assms] by auto
  have sp: "split_on slash (join_with slash xs) = xs" using False el by (intro split_on_join) auto
  have "clean_elems r (split_on slash (render r xs)) = clean_elems r xs"
    using False sp by (auto simp: render_def clean_elems_def clean_step_def)
  then show ?thesis
    using clean_elems_id [OF assms] is_rooted_render [OF assms] by (simp add: path_elems_def)
qed

text \<open>\<open>Clean\<close> is idempotent.\<close>

lemma Clean_render: "normal_elems r xs \<Longrightarrow> path_Clean (render r xs) = render r xs"
  using path_elems_render [of r xs] is_rooted_render [of r xs]
  by (simp add: path_Clean_def path_elems_def)

lemma Clean_Clean: "path_Clean (path_Clean p) = path_Clean p"
  using Clean_render [OF path_elems_normal [of p]] by (simp add: path_Clean_def path_elems_def)

lemma path_elems_Clean [simp]: "path_elems (path_Clean p) = path_elems p"
  using path_elems_render [OF path_elems_normal [of p]] by (simp add: path_Clean_def path_elems_def)

section \<open>Dir and Base of a cleaned path\<close>

lemma takeWhile_rev_join:
  "slash \<notin> set x \<Longrightarrow> takeWhile (\<lambda>c. c \<noteq> slash) (rev (s @ slash # x)) = rev x"
  by (simp add: takeWhile_append)

lemma path_Split_snoc:
  "slash \<notin> set x \<Longrightarrow> path_Split (s @ slash # x) = (s @ [slash], x)"
  by (auto simp: path_Split_def Let_def takeWhile_append dropWhile_append)

lemma path_Split_plain: "slash \<notin> set x \<Longrightarrow> path_Split x = ([], x)"
proof -
  assume "slash \<notin> set x"
  then have "\<forall>c \<in> set (rev x). c \<noteq> slash" by auto
  then have "takeWhile (\<lambda>c. c \<noteq> slash) (rev x) = rev x" "dropWhile (\<lambda>c. c \<noteq> slash) (rev x) = []"
    by (simp_all only: takeWhile_eq_all_conv dropWhile_eq_Nil_conv)
  then show ?thesis by (simp only: path_Split_def Let_def rev_rev_ident rev.simps(1))
qed

lemma render_snoc:
  assumes "slash \<notin> set x"
  shows "path_Split (render r (xs @ [x])) =
    (if xs = [] then (if r then [slash] else []) else render r xs @ [slash], x)"
proof (cases "xs = []")
  case True
  show ?thesis
  proof (cases r)
    case True
    with \<open>xs = []\<close> path_Split_snoc [OF assms, of "[]"] show ?thesis by (simp add: render_def)
  next
    case False
    with \<open>xs = []\<close> path_Split_plain [OF assms] show ?thesis by (simp add: render_def)
  qed
next
  case False
  then have "render r (xs @ [x]) = render r xs @ slash # x"
    by (simp add: render_def join_with_snoc)
  with False path_Split_snoc [OF assms, of "render r xs"] show ?thesis by simp
qed

lemma path_elems_trailing_slash:
  assumes "normal_elems r xs" and "xs \<noteq> []"
  shows "path_elems (render r xs @ [slash]) = xs"
proof -
  have el: "\<And>x. x \<in> set xs \<Longrightarrow> slash \<notin> set x" using normal_elems_no_slash [OF assms(1)] by auto
  have sp: "split_on slash (join_with slash xs @ [slash]) = xs @ [[]]"
    using split_on_append_sep [of slash "join_with slash xs" "[]"] split_on_join [OF assms(2) el]
    by simp
  have r: "is_rooted (render r xs @ [slash]) = r"
  proof -
    have "render r xs \<noteq> []" using assms(2) last_join [of xs slash] normal_elems_no_slash [OF assms(1)]
      by (auto simp: render_def)
    then have "is_rooted (render r xs @ [slash]) = is_rooted (render r xs)"
      by (cases "render r xs") (auto simp: is_rooted_def)
    with is_rooted_render [OF assms(1)] show ?thesis by simp
  qed
  have "clean_elems r (split_on slash (render r xs @ [slash])) = clean_elems r xs"
    using assms(2) sp by (auto simp: render_def clean_elems_def clean_step_def)
  with r clean_elems_id [OF assms(1)] show ?thesis by (simp add: path_elems_def)
qed

lemma Dir_Base_elems:
  assumes "path_elems p \<noteq> []"
  shows "path_elems p = path_elems (path_Dir (path_Clean p)) @ [path_Base (path_Clean p)]"
proof -
  define r where "r = is_rooted p"
  obtain xs x where px: "path_elems p = xs @ [x]" using assms by (cases "path_elems p" rule: rev_cases) auto
  have n: "normal_elems r (xs @ [x])" using path_elems_normal [of p] px r_def by simp
  have nx: "normal_elems r xs" using normal_elems_butlast [OF n] by simp
  have x: "slash \<notin> set x" "x \<noteq> []" using normal_elems_no_slash [OF n] by auto
  have c: "path_Clean p = render r (xs @ [x])" using px by (simp add: path_Clean_def path_elems_def r_def)
  have d: "path_elems (path_Dir (path_Clean p)) = xs"
  proof (cases "xs = []")
    case True
    then have "fst (path_Split (path_Clean p)) = (if r then [slash] else [])"
      using c render_snoc [OF x(1), of r xs] by simp
    moreover have "path_elems [] = []" "path_elems [slash] = []" by (simp_all add: path_elems_simps)
    ultimately show ?thesis
      using True by (simp add: path_Dir_def split: if_splits)
  next
    case False
    then have "fst (path_Split (path_Clean p)) = render r xs @ [slash]"
      using c render_snoc [OF x(1), of r xs] by simp
    then show ?thesis using path_elems_trailing_slash [OF nx False] by (simp add: path_Dir_def)
  qed
  have ne: "render r (xs @ [x]) \<noteq> []" and lst: "last (render r (xs @ [x])) = last x"
    using x last_join [of "xs @ [x]" slash] by (auto simp: render_def)
  have "last x \<noteq> slash" using x by (metis last_in_set)
  then have "dropWhile (\<lambda>c. c = slash) (rev (render r (xs @ [x]))) = rev (render r (xs @ [x]))"
    using ne lst by (cases "rev (render r (xs @ [x]))") (auto simp: hd_rev [symmetric])
  then have "path_Base (path_Clean p) = x"
    using c ne x render_snoc [OF x(1), of r xs] by (simp add: path_Base_def)
  with px d show ?thesis by simp
qed

lemma Clean_eq_root_or_dot:
  "path_Clean p = [slash] \<or> path_Clean p = ''.'' \<longleftrightarrow> path_elems p = []"
proof
  assume "path_Clean p = [slash] \<or> path_Clean p = ''.''"
  then have "walk_elems (path_Clean p) = []" by (auto simp: walk_elems_def)
  then show "path_elems p = []" by simp
next
  assume "path_elems p = []"
  then show "path_Clean p = [slash] \<or> path_Clean p = ''.''"
    by (auto simp: path_Clean_def path_elems_def render_def)
qed

end
