(* ===== verification/MemoryTree.thy ===== *)
theory MemoryTree
  imports GoPath GhostFiles
begin

text \<open>
  The node tree of the in-memory file system (memoryshare/memory_fs.go, lines 19 to 345): its
  records, path resolution and the two construction functions. Nodes live in a store indexed by
  addresses, so that a handle, a parent link and a directory entry can name the same node; the
  addresses from \<open>fs_next\<close> on are not allocated. \<open>mn_children\<close> is \<open>None\<close> for a nil map: reading
  it finds nothing, writing to it panics. \<open>mn_spare\<close> holds the bytes of the content's backing
  array past its length, which a re-slice can expose. Each call reads the clock once.
\<close>

section \<open>State\<close>

record MemoryNode =
  mn_name :: string
  mn_isDir :: bool
  mn_content :: bytes
  mn_spare :: bytes
  mn_size :: u64
  mn_children :: "(string \<times> nat) list option"
  mn_parent :: "nat option"
  mn_inode :: u64
  mn_mode :: u32
  mn_uid :: u32
  mn_gid :: u32
  mn_atime :: int
  mn_mtime :: int
  mn_ctime :: int
  mn_btime :: int
  mn_xattrs :: "(string \<times> bytes) list"
  mn_symlinkTo :: string
  mn_isSymlink :: bool

record OpenMemoryFile =
  of_node :: nat
  of_handle :: u64
  of_path :: string
  of_isDir :: bool
  of_dirPos :: int

record MemoryFS =
  fs_heap :: "nat \<Rightarrow> MemoryNode"
  fs_next :: nat
  fs_root :: nat
  fs_openFiles :: "u64 \<Rightarrow> OpenMemoryFile option"
  fs_nextInode :: u64
  fs_writeCallback :: "WriteCallback option"
  fs_createCallback :: "CreateCallback option"
  fs_renameCallback :: "RenameCallback option"
  fs_contextMap :: "u64 \<Rightarrow> OperationContext option"
  fs_discardWrites :: bool
  fs_ghosts :: GhostState

text \<open>What a call takes from its surroundings: the goroutine it runs on, the clock and the
  random bytes a new handle is made of.\<close>

record env =
  e_gid :: u64
  e_now :: int
  e_rand :: u64

datatype fs_error =
    InvalidHandle | PathNotFound string | FileAtRoot | ComponentNotDirectory string
  | CannotReadDirectory | EndOfFile | CannotWriteDirectory | NotADirectory | CannotDeleteRoot
  | CannotTruncateDirectory | DestinationExists | DirectoryExists | NotASymlink
  | AttributeNotFound | HardLinksNotSupported | CallbackError string

type_synonym 'a call = "(fs_error, 'a) outcome \<times> MemoryFS"

section \<open>The store\<close>

abbreviation node :: "MemoryFS \<Rightarrow> nat \<Rightarrow> MemoryNode" where
  "node fs a \<equiv> fs_heap fs a"

definition set_node :: "nat \<Rightarrow> MemoryNode \<Rightarrow> MemoryFS \<Rightarrow> MemoryFS" where
  "set_node a n fs = fs\<lparr>fs_heap := (fs_heap fs)(a := n)\<rparr>"

text \<open>A composite literal: a fresh address.\<close>

definition alloc :: "MemoryNode \<Rightarrow> MemoryFS \<Rightarrow> nat \<times> MemoryFS" where
  "alloc n fs = (fs_next fs, fs\<lparr>fs_heap := (fs_heap fs)(fs_next fs := n), fs_next := Suc (fs_next fs)\<rparr>)"

text \<open>\<open>n.children[k]\<close>, \<open>n.children[k] = c\<close> and \<open>delete(n.children, k)\<close>.\<close>

definition child_of :: "MemoryFS \<Rightarrow> nat \<Rightarrow> string \<Rightarrow> nat option" where
  "child_of fs a k = (case mn_children (node fs a) of None \<Rightarrow> None | Some cs \<Rightarrow> map_of cs k)"

definition put_child :: "nat \<Rightarrow> string \<Rightarrow> nat \<Rightarrow> MemoryFS \<Rightarrow> MemoryFS option" where
  "put_child a k c fs =
     (case mn_children (node fs a) of
        None \<Rightarrow> None
      | Some cs \<Rightarrow> Some (set_node a ((node fs a)\<lparr>mn_children := Some (AList.update k c cs)\<rparr>) fs))"

definition del_child :: "nat \<Rightarrow> string \<Rightarrow> MemoryFS \<Rightarrow> MemoryFS" where
  "del_child a k fs =
     set_node a ((node fs a)\<lparr>mn_children := map_option (AList.delete k) (mn_children (node fs a))\<rparr>) fs"

text \<open>The literals: unset fields hold their zero values. A directory literal makes its map, a
  file literal leaves it nil.\<close>

definition dir_node :: "string \<Rightarrow> nat option \<Rightarrow> u64 \<Rightarrow> u32 \<Rightarrow> int \<Rightarrow> MemoryNode" where
  "dir_node name parent inode mode now =
     \<lparr>mn_name = name, mn_isDir = True, mn_content = [], mn_spare = [], mn_size = 0,
      mn_children = Some [], mn_parent = parent, mn_inode = inode, mn_mode = mode,
      mn_uid = 0, mn_gid = 0, mn_atime = now, mn_mtime = now, mn_ctime = now, mn_btime = now,
      mn_xattrs = [], mn_symlinkTo = [], mn_isSymlink = False\<rparr>"

definition file_node :: "string \<Rightarrow> bytes \<Rightarrow> nat option \<Rightarrow> u64 \<Rightarrow> u32 \<Rightarrow> int \<Rightarrow> MemoryNode" where
  "file_node name content parent inode mode now =
     \<lparr>mn_name = name, mn_isDir = False, mn_content = content, mn_spare = [],
      mn_size = of_nat (length content),
      mn_children = None, mn_parent = parent, mn_inode = inode, mn_mode = mode,
      mn_uid = 0, mn_gid = 0, mn_atime = now, mn_mtime = now, mn_ctime = now, mn_btime = now,
      mn_xattrs = [], mn_symlinkTo = [], mn_isSymlink = False\<rparr>"

definition NewMemoryFS :: "env \<Rightarrow> MemoryFS" where
  "NewMemoryFS e =
     \<lparr>fs_heap = (\<lambda>_. dir_node ''/'' None 1 0x1ED (e_now e)), fs_next = 1, fs_root = 0,
      fs_openFiles = (\<lambda>_. None), fs_nextInode = 2, fs_writeCallback = None,
      fs_createCallback = None, fs_renameCallback = None, fs_contextMap = (\<lambda>_. None),
      fs_discardWrites = False, fs_ghosts = initGhostState\<rparr>"

section \<open>Resolving paths\<close>

fun walk :: "(nat \<Rightarrow> string \<Rightarrow> nat option) \<Rightarrow> nat \<Rightarrow> string list \<Rightarrow> nat option" where
  "walk ch a [] = Some a"
| "walk ch a (k # ks) = (case ch a k of None \<Rightarrow> None | Some c \<Rightarrow> walk ch c ks)"

definition resolvePath :: "string \<Rightarrow> MemoryFS \<Rightarrow> (fs_error, nat) outcome" where
  "resolvePath filepath fs =
     (let p = path_Clean filepath in
      if p = ''/'' \<or> p = ''.'' then Ok (fs_root fs)
      else (case walk (child_of fs) (fs_root fs)
                   (filter (\<lambda>x. x \<noteq> []) (split_on CHR ''/'' (trim_char CHR ''/'' p))) of
              None \<Rightarrow> Err (PathNotFound p)
            | Some a \<Rightarrow> Ok a))"

section \<open>Creating directories and files\<close>

text \<open>The loop of \<open>getOrCreateDirPath\<close> over the path's parts.\<close>

fun mkdirs :: "int \<Rightarrow> nat \<Rightarrow> string list \<Rightarrow> MemoryFS \<Rightarrow> nat call" where
  "mkdirs now current [] fs = (Ok current, fs)"
| "mkdirs now current (part # parts) fs =
     (case child_of fs current part of
        Some child \<Rightarrow>
          if mn_isDir (node fs child) then mkdirs now child parts fs
          else (Err (ComponentNotDirectory part), fs)
      | None \<Rightarrow>
          (let (child, fs1) = alloc (dir_node part (Some current) (fs_nextInode fs) 0x1ED now) fs;
               fs2 = fs1\<lparr>fs_nextInode := fs_nextInode fs1 + 1\<rparr>
           in case put_child current part child fs2 of
                None \<Rightarrow> (Panic, fs2)
              | Some fs3 \<Rightarrow> mkdirs now child parts fs3))"

definition getOrCreateDirPath :: "env \<Rightarrow> string \<Rightarrow> MemoryFS \<Rightarrow> nat call" where
  "getOrCreateDirPath e dirpath fs =
     (let p = path_Clean dirpath in
      if p = ''/'' \<or> p = ''.'' then (Ok (fs_root fs), fs)
      else mkdirs (e_now e) (fs_root fs)
             (filter (\<lambda>x. x \<noteq> []) (split_on CHR ''/'' (trim_char CHR ''/'' p))) fs)"

text \<open>\<open>if err != nil { return ..., err }\<close> after a call.\<close>

definition and_then :: "'a call \<Rightarrow> ('a \<Rightarrow> MemoryFS \<Rightarrow> 'b call) \<Rightarrow> 'b call" where
  "and_then r f = (case r of
      (Ok a, fs) \<Rightarrow> f a fs | (Err err, fs) \<Rightarrow> (Err err, fs)
    | (Panic, fs) \<Rightarrow> (Panic, fs) | (Deadlock, fs) \<Rightarrow> (Deadlock, fs))"

lemma and_then_simps [simp]:
  "and_then (Ok a, fs) f = f a fs"
  "and_then (Err err, fs) f = (Err err, fs)"
  "and_then (Panic, fs) f = (Panic, fs)"
  "and_then (Deadlock, fs) f = (Deadlock, fs)"
  by (simp_all add: and_then_def)

definition AddFile :: "env \<Rightarrow> string \<Rightarrow> bytes \<Rightarrow> u32 \<Rightarrow> MemoryFS \<Rightarrow> unit call" where
  "AddFile e filepath content mode fs =
     (let p = path_Clean filepath in
      if p = ''/'' then (Err FileAtRoot, fs)
      else and_then (getOrCreateDirPath e (path_Dir p) fs) (\<lambda>parentNode fs1.
        (let (n, fs2) = alloc (file_node (path_Base p) content (Some parentNode)
                                 (fs_nextInode fs1) mode (e_now e)) fs1;
             fs3 = fs2\<lparr>fs_nextInode := fs_nextInode fs2 + 1\<rparr>
         in case put_child parentNode (path_Base p) n fs3 of
              None \<Rightarrow> (Panic, fs3)
            | Some fs4 \<Rightarrow> (Ok (), fs4))))"

definition AddDirectory :: "env \<Rightarrow> string \<Rightarrow> MemoryFS \<Rightarrow> unit call" where
  "AddDirectory e dirpath fs =
     (let p = path_Clean dirpath in
      if p = ''/'' then (Ok (), fs)
      else and_then (getOrCreateDirPath e p fs) (\<lambda>a fs1. (Ok (), fs1)))"

section \<open>Attributes of a node\<close>

definition nodeToAttributes :: "MemoryNode \<Rightarrow> Attributes" where
  "nodeToAttributes n =
     SetFileType (if mn_isSymlink n then FileTypeSymlink
                  else if mn_isDir n then FileTypeDirectory else FileTypeRegularFile)
    (SetGID (mn_gid n) (SetUID (mn_uid n)
    (SetLastStatusChangeTime (mn_ctime n) (SetBirthTime (mn_btime n)
    (SetLastDataModificationTime (mn_mtime n) (SetAccessTime (mn_atime n)
    (SetPermissions (NewPermissionsFromMode (mn_mode n AND 0x1FF)) (SetUnixMode (mn_mode n)
    (SetDiskSizeBytes ((mn_size n + 511) div 512 * 512) (SetSizeBytes (mn_size n)
    (SetInodeNumber (mn_inode n) empty_Attributes)))))))))))"

end
