(* ===== verification/MemoryOps.thy ===== *)
theory MemoryOps
  imports MemoryTree
begin

text \<open>
  The operations of \<open>MemoryFS\<close> that the server calls (memoryshare/memory_fs.go, lines 332 to
  1246), one definition each. A call returns its outcome and the file system it leaves; the
  environment gives it the goroutine, the clock and the random handle. The logger's output
  is not modelled, but the nil dereference of \<open>ctx.RemoteAddr\<close> among its arguments is.
\<close>

section \<open>Handles and contexts\<close>

definition with_open :: "u64 \<Rightarrow> MemoryFS \<Rightarrow> (OpenMemoryFile \<Rightarrow> 'a call) \<Rightarrow> 'a call" where
  "with_open handle fs k =
     (case fs_openFiles fs handle of None \<Rightarrow> (Err InvalidHandle, fs) | Some f \<Rightarrow> k f)"

definition store_open :: "u64 \<Rightarrow> OpenMemoryFile \<Rightarrow> MemoryFS \<Rightarrow> MemoryFS" where
  "store_open h f fs = fs\<lparr>fs_openFiles := (fs_openFiles fs)(h \<mapsto> f)\<rparr>"

definition getOperationContext :: "env \<Rightarrow> MemoryFS \<Rightarrow> OperationContext option" where
  "getOperationContext e fs = fs_contextMap fs (e_gid e)"

definition SetOperationContext :: "env \<Rightarrow> OperationContext option \<Rightarrow> MemoryFS \<Rightarrow> MemoryFS" where
  "SetOperationContext e ctx fs = fs\<lparr>fs_contextMap := (fs_contextMap fs)(e_gid e := ctx)\<rparr>"

definition SetWriteCallback :: "WriteCallback option \<Rightarrow> MemoryFS \<Rightarrow> MemoryFS" where
  "SetWriteCallback callback fs = fs\<lparr>fs_writeCallback := callback\<rparr>"

definition SetCreateCallback :: "CreateCallback option \<Rightarrow> MemoryFS \<Rightarrow> MemoryFS" where
  "SetCreateCallback callback fs = fs\<lparr>fs_createCallback := callback\<rparr>"

definition SetRenameCallback :: "RenameCallback option \<Rightarrow> MemoryFS \<Rightarrow> MemoryFS" where
  "SetRenameCallback callback fs = fs\<lparr>fs_renameCallback := callback\<rparr>"

definition SetDiscardWrites :: "bool \<Rightarrow> MemoryFS \<Rightarrow> MemoryFS" where
  "SetDiscardWrites discard fs = fs\<lparr>fs_discardWrites := discard\<rparr>"

text \<open>What follows a callback's answer: an error is returned, a block gives the fake success;
  both log the remote address through the context, a nil dereference without one.\<close>

definition intercept ::
  "OperationContext option \<Rightarrow> InterceptResult \<Rightarrow> 'a call \<Rightarrow> 'a call \<Rightarrow> MemoryFS \<Rightarrow> 'a call" where
  "intercept ctx result blocked continue fs =
     (case ir_Error result of
        Some err \<Rightarrow> if ctx = None then (Panic, fs) else (Err (CallbackError err), fs)
      | None \<Rightarrow>
          if ir_Block result then (if ctx = None then (Panic, fs) else blocked) else continue)"

section \<open>Attributes\<close>

definition GetAttr :: "u64 \<Rightarrow> MemoryFS \<Rightarrow> Attributes call" where
  "GetAttr handle fs =
     (if handle = 0 then (Ok (nodeToAttributes (node fs (fs_root fs))), fs)
      else with_open handle fs (\<lambda>f. (Ok (nodeToAttributes (node fs (of_node f))), fs)))"

definition set_if :: "'v \<times> bool \<Rightarrow> ('v \<Rightarrow> MemoryNode \<Rightarrow> MemoryNode) \<Rightarrow> MemoryNode \<Rightarrow> MemoryNode" where
  "set_if r upd n = (if snd r then upd (fst r) n else n)"

definition apply_attributes :: "Attributes \<Rightarrow> MemoryNode \<Rightarrow> MemoryNode" where
  "apply_attributes a n =
     set_if (GetUnixMode a) (\<lambda>v n. n\<lparr>mn_mode := v\<rparr>)
    (set_if (GetBirthTime a) (\<lambda>v n. n\<lparr>mn_btime := v\<rparr>)
    (set_if (GetLastStatusChangeTime a) (\<lambda>v n. n\<lparr>mn_ctime := v\<rparr>)
    (set_if (GetLastDataModificationTime a) (\<lambda>v n. n\<lparr>mn_mtime := v\<rparr>)
    (set_if (GetAccessTime a) (\<lambda>v n. n\<lparr>mn_atime := v\<rparr>) n))))"

definition SetAttr :: "u64 \<Rightarrow> Attributes \<Rightarrow> MemoryFS \<Rightarrow> Attributes call" where
  "SetAttr handle a fs =
     (if handle = 0 then (Err InvalidHandle, fs)
      else with_open handle fs (\<lambda>f.
        let n = apply_attributes a (node fs (of_node f))
        in (Ok (nodeToAttributes n), set_node (of_node f) n fs)))"

definition StatFS :: "u64 \<Rightarrow> MemoryFS \<Rightarrow> FSAttributes call" where
  "StatFS handle fs =
     (let blockSize = 4096;
          totalBlocks = 1024 * 1024 * 1024 div 4096;
          freeBlocks = 900 * 1024 * 1024 div 4096
      in (Ok (SetIOSize blockSize (SetFreeFiles 999999 (SetFreeBlocks freeBlocks
             (SetFiles 1000000 (SetBlocks totalBlocks (SetBlockSize blockSize
             (SetAvailableBlocks freeBlocks empty_FSAttributes))))))), fs))"

definition FSync :: "u64 \<Rightarrow> MemoryFS \<Rightarrow> unit call" where
  "FSync handle fs = (Ok (), fs)"

definition Flush :: "u64 \<Rightarrow> MemoryFS \<Rightarrow> unit call" where
  "Flush handle fs = (Ok (), fs)"

section \<open>Opening and closing\<close>

definition open_handle :: "env \<Rightarrow> nat \<Rightarrow> string \<Rightarrow> bool \<Rightarrow> MemoryFS \<Rightarrow> u64 call" where
  "open_handle e a filepath isDir fs =
     (Ok (e_rand e), store_open (e_rand e)
        \<lparr>of_node = a, of_handle = e_rand e, of_path = filepath, of_isDir = isDir, of_dirPos = 0\<rparr> fs)"

text \<open>The fake success of a blocked or discarded creation: a handle on a node outside the tree.\<close>

definition open_dummy :: "env \<Rightarrow> string \<Rightarrow> int \<Rightarrow> MemoryFS \<Rightarrow> u64 call" where
  "open_dummy e filepath mode fs =
     (let (a, fs1) = alloc (file_node (path_Base filepath) [] None 999999 (word_of_int mode) (e_now e)) fs
      in open_handle e a filepath False fs1)"

definition create_and_open :: "env \<Rightarrow> string \<Rightarrow> int \<Rightarrow> MemoryFS \<Rightarrow> u64 call" where
  "create_and_open e filepath mode fs =
     and_then (AddFile e filepath [] (word_of_int mode) fs) (\<lambda>_ fs1.
       (case resolvePath filepath fs1 of
          Ok a \<Rightarrow> open_handle e a filepath (mn_isDir (node fs1 a)) fs1
        | Err err \<Rightarrow> (Err err, fs1) | Panic \<Rightarrow> (Panic, fs1) | Deadlock \<Rightarrow> (Deadlock, fs1)))"

definition Open :: "env \<Rightarrow> string \<Rightarrow> int \<Rightarrow> int \<Rightarrow> MemoryFS \<Rightarrow> u64 call" where
  "Open e filepath flags mode fs =
     (let ctx = getOperationContext e fs in
      case resolvePath filepath fs of
        Ok a \<Rightarrow> open_handle e a filepath (mn_isDir (node fs a)) fs
      | Err err \<Rightarrow>
          if flags AND 0x40 \<noteq> 0 then
            (let create = (if fs_discardWrites fs then open_dummy e filepath mode fs
                           else create_and_open e filepath mode fs)
             in case fs_createCallback fs of
                  None \<Rightarrow> create
                | Some callback \<Rightarrow>
                    intercept ctx (callback ctx filepath False mode)
                      (open_dummy e filepath mode fs) create fs)
          else
            (case getGhostFile ctx (e_now e) filepath (fs_ghosts fs) of
               (None, gs) \<Rightarrow> (Err err, fs)
             | (Some g, gs) \<Rightarrow>
                 open_handle e (gf_node g) filepath (mn_isDir (node fs (gf_node g)))
                   (fs\<lparr>fs_ghosts := gs\<rparr>))
      | Panic \<Rightarrow> (Panic, fs)
      | Deadlock \<Rightarrow> (Deadlock, fs))"

definition delete_open :: "u64 \<Rightarrow> MemoryFS \<Rightarrow> MemoryFS" where
  "delete_open h fs = fs\<lparr>fs_openFiles := (fs_openFiles fs)(h := None)\<rparr>"

definition Close :: "env \<Rightarrow> u64 \<Rightarrow> MemoryFS \<Rightarrow> unit call" where
  "Close e handle fs =
     with_open handle fs (\<lambda>f.
       if fs_discardWrites fs then
         (case getGhostFile (getOperationContext e fs) (e_now e) (of_path f) (fs_ghosts fs) of
            (Some g, gs) \<Rightarrow> (Ok (), delete_open handle (fs\<lparr>fs_ghosts := gs\<rparr>))
          | (None, gs) \<Rightarrow>
              (case addGhostFile (getOperationContext e fs) (e_now e) (of_path f) (of_node f)
                      (mn_size (node fs (of_node f))) gs of
                 None \<Rightarrow> (Deadlock, fs)
               | Some gs1 \<Rightarrow> (Ok (), delete_open handle (fs\<lparr>fs_ghosts := gs1\<rparr>))))
       else (Ok (), delete_open handle fs))"

definition Lookup :: "u64 \<Rightarrow> string \<Rightarrow> MemoryFS \<Rightarrow> Attributes call" where
  "Lookup handle name fs =
     (let look = (\<lambda>basePath.
            (case resolvePath (path_Join [basePath, name]) fs of
               Ok a \<Rightarrow> (Ok (nodeToAttributes (node fs a)), fs)
             | Err err \<Rightarrow> (Err err, fs) | Panic \<Rightarrow> (Panic, fs) | Deadlock \<Rightarrow> (Deadlock, fs)))
      in if handle = 0 then look ''/'' else with_open handle fs (\<lambda>f. look (of_path f)))"

section \<open>Creating a directory\<close>

definition dummy_dir_attributes :: "int \<Rightarrow> int \<Rightarrow> Attributes" where
  "dummy_dir_attributes mode now =
     SetLastStatusChangeTime now (SetBirthTime now (SetLastDataModificationTime now
     (SetAccessTime now (SetUnixMode (word_of_int mode) (SetInodeNumber 999999
     (SetFileType FileTypeDirectory empty_Attributes))))))"

definition make_directory :: "env \<Rightarrow> string \<Rightarrow> int \<Rightarrow> MemoryFS \<Rightarrow> Attributes call" where
  "make_directory e filepath mode fs =
     (let p = path_Clean filepath;
          dirname = path_Base p
      in case resolvePath (path_Dir p) fs of
           Ok parentNode \<Rightarrow>
             if child_of fs parentNode dirname \<noteq> None then (Err DirectoryExists, fs)
             else (let n = dir_node dirname (Some parentNode) (fs_nextInode fs) (word_of_int mode) (e_now e);
                       (a, fs1) = alloc n fs;
                       fs2 = fs1\<lparr>fs_nextInode := fs_nextInode fs1 + 1\<rparr>
                   in case put_child parentNode dirname a fs2 of
                        None \<Rightarrow> (Panic, fs2)
                      | Some fs3 \<Rightarrow> (Ok (nodeToAttributes n), fs3))
         | Err err \<Rightarrow> (Err err, fs) | Panic \<Rightarrow> (Panic, fs) | Deadlock \<Rightarrow> (Deadlock, fs))"

definition Mkdir :: "env \<Rightarrow> string \<Rightarrow> int \<Rightarrow> MemoryFS \<Rightarrow> Attributes call" where
  "Mkdir e filepath mode fs =
     (let dummy = (Ok (dummy_dir_attributes mode (e_now e)), fs);
          create = (if fs_discardWrites fs then dummy else make_directory e filepath mode fs);
          ctx = getOperationContext e fs
      in case fs_createCallback fs of
           None \<Rightarrow> create
         | Some callback \<Rightarrow> intercept ctx (callback ctx filepath True mode) dummy create fs)"

section \<open>Reading and writing\<close>

text \<open>\<open>Read\<close> returns the bytes it copies into the first places of a buffer of length \<open>buflen\<close>.\<close>

definition Read :: "u64 \<Rightarrow> nat \<Rightarrow> u64 \<Rightarrow> int \<Rightarrow> MemoryFS \<Rightarrow> bytes call" where
  "Read handle buflen offset flags fs =
     with_open handle fs (\<lambda>f.
       let n = node fs (of_node f) in
       if mn_isDir n then (Err CannotReadDirectory, fs)
       else if mn_size n \<le> offset then (Err EndOfFile, fs)
       else if length (mn_content n) < unat offset then (Panic, fs)
       else (let got = take buflen (drop (unat offset) (mn_content n))
             in if got = [] then (Err EndOfFile, fs) else (Ok got, fs)))"

text \<open>The write itself; \<open>endOffset\<close> is a uint64 and wraps.\<close>

definition write_node :: "env \<Rightarrow> nat \<Rightarrow> bytes \<Rightarrow> u64 \<Rightarrow> MemoryFS \<Rightarrow> nat call" where
  "write_node e a buf offset fs =
     (let n = node fs a;
          endOffset = offset + of_nat (length buf) in
      if mn_isDir n then (Err CannotWriteDirectory, fs)
      else if mn_size n < endOffset \<and> max_alloc < unat endOffset then (Panic, fs)
      else
        (let n1 = (if mn_size n < endOffset
                   then n\<lparr>mn_content := grow (unat endOffset) (mn_content n), mn_spare := [],
                          mn_size := endOffset\<rparr>
                   else n)
         in if length (mn_content n1) < unat offset then (Panic, set_node a n1 fs)
            else (Ok (min (length (mn_content n1) - unat offset) (length buf)),
                  set_node a (n1\<lparr>mn_content := copy_at (unat offset) buf (mn_content n1),
                                 mn_mtime := e_now e\<rparr>) fs)))"

definition discard_write :: "env \<Rightarrow> nat \<Rightarrow> bytes \<Rightarrow> u64 \<Rightarrow> MemoryFS \<Rightarrow> nat call" where
  "discard_write e a buf offset fs =
     (let n = node fs a;
          endOffset = offset + of_nat (length buf)
      in (Ok (length buf),
          set_node a (n\<lparr>mn_size := (if mn_size n < endOffset then endOffset else mn_size n),
                        mn_mtime := e_now e\<rparr>) fs))"

definition Write :: "env \<Rightarrow> u64 \<Rightarrow> bytes \<Rightarrow> u64 \<Rightarrow> int \<Rightarrow> MemoryFS \<Rightarrow> nat call" where
  "Write e handle buf offset flags fs =
     with_open handle fs (\<lambda>f.
       let go = (if fs_discardWrites fs then discard_write e (of_node f) buf offset fs
                 else write_node e (of_node f) buf offset fs);
           ctx = getOperationContext e fs
       in case fs_writeCallback fs of
            None \<Rightarrow> go
          | Some callback \<Rightarrow>
              intercept ctx (callback ctx handle (of_path f) buf offset) (Ok (length buf), fs) go fs)"

definition truncate_node :: "env \<Rightarrow> nat \<Rightarrow> u64 \<Rightarrow> MemoryFS \<Rightarrow> unit call" where
  "truncate_node e a sz fs =
     (let n = node fs a;
          backing = mn_content n @ mn_spare n in
      if mn_isDir n then (Err CannotTruncateDirectory, fs)
      else if sz < mn_size n then
        (if length backing < unat sz then (Panic, fs)
         else (Ok (), set_node a (n\<lparr>mn_content := take (unat sz) backing,
                 mn_spare := drop (unat sz) backing, mn_size := sz, mn_mtime := e_now e\<rparr>) fs))
      else if mn_size n < sz then
        (if max_alloc < unat sz then (Panic, fs)
         else (Ok (), set_node a (n\<lparr>mn_content := grow (unat sz) (mn_content n), mn_spare := [],
                 mn_size := sz, mn_mtime := e_now e\<rparr>) fs))
      else (Ok (), set_node a (n\<lparr>mn_size := sz, mn_mtime := e_now e\<rparr>) fs))"

definition Truncate :: "env \<Rightarrow> u64 \<Rightarrow> u64 \<Rightarrow> MemoryFS \<Rightarrow> unit call" where
  "Truncate e handle sz fs =
     (if fs_discardWrites fs then (Ok (), fs)
      else with_open handle fs (\<lambda>f. truncate_node e (of_node f) sz fs))"

section \<open>Directories\<close>

definition OpenDir :: "env \<Rightarrow> string \<Rightarrow> MemoryFS \<Rightarrow> u64 call" where
  "OpenDir e filepath fs =
     (case resolvePath filepath fs of
        Ok a \<Rightarrow> if mn_isDir (node fs a) then open_handle e a filepath True fs
                else (Err NotADirectory, fs)
      | Err err \<Rightarrow> (Err err, fs) | Panic \<Rightarrow> (Panic, fs) | Deadlock \<Rightarrow> (Deadlock, fs))"

text \<open>A Go map is visited in an order of the run time's choice: \<open>order\<close>.\<close>

definition ReadDir ::
  "((string \<times> nat) list \<Rightarrow> (string \<times> nat) list) \<Rightarrow> u64 \<Rightarrow> int \<Rightarrow> int \<Rightarrow> MemoryFS \<Rightarrow>
   (string \<times> Attributes) list call" where
  "ReadDir order handle pos maxEntries fs =
     (if handle = 0 then (Err InvalidHandle, fs)
      else with_open handle fs (\<lambda>f.
        let n = node fs (of_node f) in
        if \<not> mn_isDir n then (Err NotADirectory, fs)
        else if 0 < of_dirPos f then (Err EndOfFile, fs)
        else
          (let cs = (case mn_children n of None \<Rightarrow> [] | Some cs \<Rightarrow> order cs);
               shown = (if 0 < maxEntries then take (nat (maxEntries - 2)) cs else cs)
           in (Ok ((''.'', nodeToAttributes n) # (''..'', nodeToAttributes n) #
                    map (\<lambda>(k, c). (k, nodeToAttributes (node fs c))) shown),
               store_open handle (f\<lparr>of_dirPos := 1\<rparr>) fs))))"

definition Readlink :: "u64 \<Rightarrow> MemoryFS \<Rightarrow> string call" where
  "Readlink handle fs =
     with_open handle fs (\<lambda>f.
       if mn_isSymlink (node fs (of_node f)) then (Ok (mn_symlinkTo (node fs (of_node f))), fs)
       else (Err NotASymlink, fs))"

section \<open>Removing and moving\<close>

definition Unlink :: "u64 \<Rightarrow> MemoryFS \<Rightarrow> unit call" where
  "Unlink handle fs =
     (if fs_discardWrites fs then (Ok (), fs)
      else with_open handle fs (\<lambda>f.
        case mn_parent (node fs (of_node f)) of
          None \<Rightarrow> (Err CannotDeleteRoot, fs)
        | Some p \<Rightarrow> (Ok (), del_child p (mn_name (node fs (of_node f))) fs)))"

definition move_node :: "nat \<Rightarrow> string \<Rightarrow> int \<Rightarrow> MemoryFS \<Rightarrow> unit call" where
  "move_node a toPath flags fs =
     (let p = path_Clean toPath;
          toName = path_Base p
      in case resolvePath (path_Dir p) fs of
           Ok toParentNode \<Rightarrow>
             if child_of fs toParentNode toName \<noteq> None \<and> flags = 0 then (Err DestinationExists, fs)
             else
               (let fs1 = (case mn_parent (node fs a) of
                             None \<Rightarrow> fs
                           | Some old \<Rightarrow> del_child old (mn_name (node fs a)) fs);
                    fs2 = set_node a ((node fs1 a)\<lparr>mn_name := toName,
                                        mn_parent := Some toParentNode\<rparr>) fs1
                in case put_child toParentNode toName a fs2 of
                     None \<Rightarrow> (Panic, fs2)
                   | Some fs3 \<Rightarrow> (Ok (), fs3))
         | Err err \<Rightarrow> (Err err, fs) | Panic \<Rightarrow> (Panic, fs) | Deadlock \<Rightarrow> (Deadlock, fs))"

definition Rename :: "env \<Rightarrow> u64 \<Rightarrow> string \<Rightarrow> int \<Rightarrow> MemoryFS \<Rightarrow> unit call" where
  "Rename e fromHandle toPath flags fs =
     with_open fromHandle fs (\<lambda>f.
       let go = (if fs_discardWrites fs then (Ok (), fs) else move_node (of_node f) toPath flags fs);
           ctx = getOperationContext e fs
       in case fs_renameCallback fs of
            None \<Rightarrow> go
          | Some callback \<Rightarrow> intercept ctx (callback ctx (of_path f) toPath) (Ok (), fs) go fs)"

text \<open>\<open>Symlink\<close> holds the node's lock for writing when \<open>nodeToAttributes\<close> asks to read it:
  the call waits for itself. That the lock stays taken is in \<open>MemoryLocks\<close>, and what it does to later
  calls in \<open>VfsInterface\<close>.\<close>

definition Symlink :: "u64 \<Rightarrow> string \<Rightarrow> int \<Rightarrow> MemoryFS \<Rightarrow> Attributes call" where
  "Symlink targetHandle source flag fs =
     with_open targetHandle fs (\<lambda>f.
       (Deadlock, set_node (of_node f)
          ((node fs (of_node f))\<lparr>mn_isSymlink := True, mn_symlinkTo := source\<rparr>) fs))"

definition Link :: "u64 \<Rightarrow> u64 \<Rightarrow> string \<Rightarrow> MemoryFS \<Rightarrow> Attributes call" where
  "Link oldNode newNode name fs = (Err HardLinksNotSupported, fs)"

section \<open>Extended attributes\<close>

definition Listxattr :: "((string \<times> bytes) list \<Rightarrow> (string \<times> bytes) list) \<Rightarrow> u64 \<Rightarrow> MemoryFS \<Rightarrow>
    string list call" where
  "Listxattr order handle fs =
     with_open handle fs (\<lambda>f. (Ok (map fst (order (mn_xattrs (node fs (of_node f))))), fs))"

text \<open>With a nil buffer the length of the value, otherwise the bytes that fit the buffer.\<close>

definition Getxattr :: "u64 \<Rightarrow> string \<Rightarrow> nat option \<Rightarrow> MemoryFS \<Rightarrow> (nat \<times> bytes) call" where
  "Getxattr handle key buf fs =
     with_open handle fs (\<lambda>f.
       case map_of (mn_xattrs (node fs (of_node f))) key of
         None \<Rightarrow> (Err AttributeNotFound, fs)
       | Some data \<Rightarrow>
           (case buf of
              None \<Rightarrow> (Ok (length data, []), fs)
            | Some n \<Rightarrow> (Ok (min n (length data), take n data), fs)))"

definition Setxattr :: "u64 \<Rightarrow> string \<Rightarrow> bytes option \<Rightarrow> MemoryFS \<Rightarrow> unit call" where
  "Setxattr handle key val fs =
     (if fs_discardWrites fs then (Ok (), fs)
      else with_open handle fs (\<lambda>f.
        let n = node fs (of_node f)
        in (Ok (), set_node (of_node f)
              (n\<lparr>mn_xattrs := AList.update key (case val of None \<Rightarrow> [] | Some v \<Rightarrow> v) (mn_xattrs n)\<rparr>) fs)))"

definition Removexattr :: "u64 \<Rightarrow> string \<Rightarrow> MemoryFS \<Rightarrow> unit call" where
  "Removexattr handle key fs =
     with_open handle fs (\<lambda>f.
       let n = node fs (of_node f)
       in (Ok (), set_node (of_node f) (n\<lparr>mn_xattrs := AList.delete key (mn_xattrs n)\<rparr>) fs))"

end
