(* ===== verification/TreeView.thy ===== *)
theory TreeView
  imports MemoryOps "HOL-Library.Sublist"
begin

text \<open>
  Walking a tree whose nodes know their parent. The locale states the interface between the
  store of nodes and everything said about paths: each child's up link names its parent and
  its name there, and the root has no up link. From these two laws: a node is reached by one
  path at most, and what adding, dropping or moving one edge does to every path.
\<close>

section \<open>Walking\<close>

lemma walk_append:
  "walk ch a (ps @ qs) = (case walk ch a ps of None \<Rightarrow> None | Some b \<Rightarrow> walk ch b qs)"
  by (induction ps arbitrary: a) (auto split: option.splits)

lemma walk_snoc:
  "walk ch a (ps @ [k]) = (case walk ch a ps of None \<Rightarrow> None | Some b \<Rightarrow> ch b k)"
  by (simp add: walk_append split: option.splits)

lemma walk_agree:
  assumes "\<And>mid b. prefix mid qs \<Longrightarrow> walk ch a mid = Some b \<Longrightarrow> ch' b = ch b"
  shows "walk ch' a qs = walk ch a qs"
  using assms
proof (induction qs rule: rev_induct)
  case Nil
  then show ?case by simp
next
  case (snoc x xs)
  have "walk ch' a xs = walk ch a xs"
  proof (rule snoc.IH)
    fix mid b
    assume "prefix mid xs" "walk ch a mid = Some b"
    then show "ch' b = ch b" using snoc.prems by (meson prefix_prefix)
  qed
  moreover have "ch' b = ch b" if "walk ch a xs = Some b" for b
    using snoc.prems [of xs b] that by simp
  ultimately show ?case by (simp add: walk_snoc split: option.splits)
qed

section \<open>The interface\<close>

locale linked_tree =
  fixes ok :: "'s \<Rightarrow> bool"
    and root :: "'s \<Rightarrow> nat"
    and ch :: "'s \<Rightarrow> nat \<Rightarrow> string \<Rightarrow> nat option"
    and up :: "'s \<Rightarrow> nat \<Rightarrow> (nat \<times> string) option"
  assumes root_up: "ok s \<Longrightarrow> up s (root s) = None"
    and child_up: "ok s \<Longrightarrow> ch s a k = Some c \<Longrightarrow> up s c = Some (a, k)"
begin

text \<open>A node is reached by one path at most.\<close>

lemma path_unique:
  "ok s \<Longrightarrow> walk (ch s) (root s) ps = Some a \<Longrightarrow> walk (ch s) (root s) qs = Some a \<Longrightarrow> ps = qs"
proof (induction ps arbitrary: a qs rule: rev_induct)
  case Nil
  then have "a = root s" by simp
  with Nil show ?case
  proof (cases qs rule: rev_cases)
    case (snoc ys y)
    with Nil(3) \<open>a = root s\<close> obtain b where "ch s b y = Some (root s)"
      by (auto simp: walk_snoc split: option.splits)
    with child_up [OF Nil(1)] root_up [OF Nil(1)] show ?thesis by fastforce
  qed simp
next
  case (snoc x xs)
  from snoc(3) obtain b where b: "walk (ch s) (root s) xs = Some b" "ch s b x = Some a"
    by (auto simp: walk_snoc split: option.splits)
  show ?case
  proof (cases qs rule: rev_cases)
    case Nil
    then have "a = root s" using snoc(4) by simp
    with b(2) child_up [OF snoc(2)] root_up [OF snoc(2)] show ?thesis by fastforce
  next
    fix ys y
    assume qs: "qs = ys @ [y]"
    with snoc(4) obtain d where d: "walk (ch s) (root s) ys = Some d" "ch s d y = Some a"
      by (auto simp: walk_snoc split: option.splits)
    from child_up [OF snoc(2) b(2)] child_up [OF snoc(2) d(2)] have "b = d" "x = y" by auto
    with snoc(1) [OF snoc(2) b(1)] d(1) qs show ?thesis by simp
  qed
qed

text \<open>Changing one edge leaves every path alone that does not pass it, and the paths that do
  pass it continue from its new target.\<close>

lemma edge_frame:
  assumes "ok s" and "walk (ch s) (root s) ps = Some a" and "\<not> prefix (ps @ [k]) qs"
  shows "walk ((ch s)(a := (ch s a)(k := v))) (root s) qs = walk (ch s) (root s) qs"
  using assms(3)
proof (induction qs rule: rev_induct)
  case Nil
  then show ?case by simp
next
  case (snoc x xs)
  have IH: "walk ((ch s)(a := (ch s a)(k := v))) (root s) xs = walk (ch s) (root s) xs"
    by (rule snoc.IH) (use snoc.prems in simp)
  show ?case
  proof (cases "walk (ch s) (root s) xs")
    case None
    show ?thesis unfolding walk_snoc IH None by simp
  next
    case (Some b)
    have "b = a \<Longrightarrow> x \<noteq> k"
      using path_unique [OF assms(1) assms(2)] Some snoc.prems by auto
    then show ?thesis unfolding walk_snoc IH Some by simp
  qed
qed

lemma edge_hit:
  assumes "ok s" and "walk (ch s) (root s) ps = Some a"
  shows "walk ((ch s)(a := (ch s a)(k := v))) (root s) (ps @ k # rest) =
    (case v of None \<Rightarrow> None
     | Some c \<Rightarrow> walk ((ch s)(a := (ch s a)(k := v))) c rest)"
proof -
  have "\<not> prefix (ps @ [k]) ps" by (auto simp: prefix_def)
  from edge_frame [OF assms this, of v] assms(2) show ?thesis by (simp add: walk_append)
qed

text \<open>Attaching a leaf, and dropping an entry.\<close>

lemma walk_attach:
  assumes "ok s" and "walk (ch s) (root s) ps = Some a"
    and "\<And>x. ((ch s)(a := (ch s a)(k := Some c))) c x = None"
  shows "walk ((ch s)(a := (ch s a)(k := Some c))) (root s) qs =
    (if qs = ps @ [k] then Some c
     else if prefix (ps @ [k]) qs then None else walk (ch s) (root s) qs)"
proof (cases "prefix (ps @ [k]) qs")
  case False
  then show ?thesis using edge_frame [OF assms(1,2) False] by auto
next
  case True
  then obtain rest where qs: "qs = ps @ k # rest" by (auto simp: prefix_def)
  have leaf: "walk ((ch s)(a := (ch s a)(k := Some c))) c rest = (if rest = [] then Some c else None)"
    using assms(3) by (cases rest) simp_all
  show ?thesis
    unfolding qs edge_hit [OF assms(1,2)] using leaf by simp
qed

lemma walk_detach:
  assumes "ok s" and "walk (ch s) (root s) ps = Some a"
  shows "walk ((ch s)(a := (ch s a)(k := None))) (root s) qs =
    (if prefix (ps @ [k]) qs then None else walk (ch s) (root s) qs)"
proof (cases "prefix (ps @ [k]) qs")
  case False
  then show ?thesis using edge_frame [OF assms False] by simp
next
  case True
  then obtain rest where qs: "qs = ps @ k # rest" by (auto simp: prefix_def)
  then show ?thesis using True edge_hit [OF assms, of k None rest] by simp
qed

text \<open>Moving a subtree: the edge \<open>(p, j)\<close> to \<open>v\<close> is dropped and \<open>(t, k)\<close> to \<open>v\<close> added, the
  new place being outside the moved subtree and free.\<close>

lemma walk_move:
  assumes ok: "ok s"
    and old: "walk (ch s) (root s) ps = Some p" "ch s p j = Some v"
    and new: "walk (ch s) (root s) ts = Some t" "\<not> prefix (ps @ [j]) ts"
    and s1: "ok s1" "root s1 = root s" "ch s1 = (ch s)(p := (ch s p)(j := None))"
  shows "walk ((ch s1)(t := (ch s1 t)(k := Some v))) (root s) qs =
    (if prefix (ts @ [k]) qs then walk (ch s) (root s) (ps @ [j] @ drop (Suc (length ts)) qs)
     else if prefix (ps @ [j]) qs then None
     else walk (ch s) (root s) qs)"
proof -
  let ?ch2 = "(ch s1)(t := (ch s1 t)(k := Some v))"
  have t1: "walk (ch s1) (root s1) ts = Some t"
    using walk_detach [OF ok old(1), of j ts] new s1(2,3) by simp
  have v: "walk (ch s) (root s) (ps @ [j]) = Some v" using old by (simp add: walk_snoc)
  show ?thesis
  proof (cases "prefix (ts @ [k]) qs")
    case False
    have "walk ?ch2 (root s1) qs = walk (ch s1) (root s1) qs"
      by (rule edge_frame [OF s1(1) t1 False])
    then show ?thesis using walk_detach [OF ok old(1), of j qs] False s1(2,3) by simp
  next
    case True
    then obtain rest where qs: "qs = ts @ k # rest" by (auto simp: prefix_def)
    have hit: "walk ?ch2 (root s) qs = walk ?ch2 v rest"
      unfolding qs using edge_hit [OF s1(1) t1, of k "Some v" rest] s1(2) by simp
    have "walk ?ch2 v rest = walk (ch s) v rest"
    proof (rule walk_agree)
      fix mid b
      assume "walk (ch s) v mid = Some b"
      then have b: "walk (ch s) (root s) ((ps @ [j]) @ mid) = Some b"
        using v by (subst walk_append) simp
      have "b \<noteq> p" using path_unique [OF ok old(1)] b by force
      moreover have "b \<noteq> t" using path_unique [OF ok new(1)] b new(2) by (auto simp: prefix_def)
      ultimately show "?ch2 b = ch s b" using s1(3) by simp
    qed
    also have "\<dots> = walk (ch s) (root s) ((ps @ [j]) @ rest)"
      using v by (subst walk_append) simp
    finally show ?thesis using hit True unfolding qs by simp
  qed
qed

end

end
