(* ===== verification/MemoryInv.thy ===== *)
theory MemoryInv
  imports TreeView
begin

text \<open>
  The well-formedness of the node store, the interpretation of the tree interface on it, and
  the proof that the operations keep it. The exception the code really has is a \<open>Rename\<close>
  through a handle on the root, which puts the root below itself.
\<close>

section \<open>The invariant\<close>

definition edge_ok :: "MemoryFS \<Rightarrow> nat \<Rightarrow> string \<Rightarrow> nat \<Rightarrow> bool" where
  "edge_ok fs a k c \<longleftrightarrow>
     c < fs_next fs \<and> mn_parent (node fs c) = Some a \<and> mn_name (node fs c) = k"

definition dir_ok :: "MemoryNode \<Rightarrow> bool" where
  "dir_ok n \<longleftrightarrow> (mn_isDir n \<longleftrightarrow> mn_children n \<noteq> None) \<and>
     (\<forall>cs. mn_children n = Some cs \<longrightarrow> distinct (map fst cs))"

definition node_ok :: "MemoryFS \<Rightarrow> nat \<Rightarrow> bool" where
  "node_ok fs a \<longleftrightarrow>
     dir_ok (node fs a) \<and>
     (\<forall>k c. child_of fs a k = Some c \<longrightarrow> edge_ok fs a k c) \<and>
     (\<forall>p. mn_parent (node fs a) = Some p \<longrightarrow> p < fs_next fs)"

definition wf_fs :: "MemoryFS \<Rightarrow> bool" where
  "wf_fs fs \<longleftrightarrow>
     fs_root fs < fs_next fs \<and> mn_isDir (node fs (fs_root fs)) \<and>
     mn_parent (node fs (fs_root fs)) = None \<and>
     (\<forall>a. node_ok fs a) \<and>
     (\<forall>h f. fs_openFiles fs h = Some f \<longrightarrow> of_node f < fs_next fs) \<and>
     (\<forall>x \<in> set (gs_files (fs_ghosts fs)). gf_node (snd x) < fs_next fs)"

definition up_link :: "MemoryFS \<Rightarrow> nat \<Rightarrow> (nat \<times> string) option" where
  "up_link fs c = (case mn_parent (node fs c) of None \<Rightarrow> None | Some a \<Rightarrow> Some (a, mn_name (node fs c)))"

interpretation mem: linked_tree wf_fs fs_root child_of up_link
proof unfold_locales
  fix fs
  assume "wf_fs fs"
  then show "up_link fs (fs_root fs) = None" by (simp add: wf_fs_def up_link_def)
next
  fix fs a k c
  assume "wf_fs fs" and "child_of fs a k = Some c"
  then have "edge_ok fs a k c" by (simp add: wf_fs_def node_ok_def)
  then show "up_link fs c = Some (a, k)" by (simp add: edge_ok_def up_link_def)
qed

lemma wf_fsD:
  assumes "wf_fs fs"
  shows "fs_root fs < fs_next fs" and "mn_isDir (node fs (fs_root fs))"
    and "mn_parent (node fs (fs_root fs)) = None"
    and "child_of fs a k = Some c \<Longrightarrow> edge_ok fs a k c"
    and "mn_isDir (node fs a) \<longleftrightarrow> mn_children (node fs a) \<noteq> None"
    and "mn_parent (node fs a) = Some p \<Longrightarrow> p < fs_next fs"
    and "mn_children (node fs a) = Some cs \<Longrightarrow> distinct (map fst cs)"
    and "fs_openFiles fs h = Some f \<Longrightarrow> of_node f < fs_next fs"
  using assms unfolding wf_fs_def node_ok_def dir_ok_def by blast+

lemma wf_dir_ok: "wf_fs fs \<Longrightarrow> dir_ok (node fs a)"
  by (simp add: wf_fs_def node_ok_def)

lemma wf_child:
  assumes "wf_fs fs" and "child_of fs a k = Some c"
  shows "c < fs_next fs" and "a < fs_next fs" and "mn_isDir (node fs a)"
    and "mn_parent (node fs c) = Some a" and "mn_name (node fs c) = k"
  using wf_fsD(4) [OF assms] wf_fsD(5) [OF assms(1), of a] wf_fsD(6) [OF assms(1), of c a] assms(2)
  by (auto simp: edge_ok_def child_of_def split: option.splits)

lemma walk_alloc: "wf_fs fs \<Longrightarrow> a < fs_next fs \<Longrightarrow> walk (child_of fs) a ps = Some b \<Longrightarrow> b < fs_next fs"
  by (induction ps arbitrary: a) (auto split: option.splits dest: wf_child)

lemma NewMemoryFS_wf [inv_intros]: "wf_fs (NewMemoryFS e)"
  by (auto simp: wf_fs_def NewMemoryFS_def node_ok_def dir_ok_def child_of_def dir_node_def initGhostState_def)

section \<open>Children after a change\<close>

lemma set_node_sel [simp]:
  "fs_heap (set_node a n fs) = (fs_heap fs)(a := n)"
  "fs_next (set_node a n fs) = fs_next fs" "fs_root (set_node a n fs) = fs_root fs"
  "fs_openFiles (set_node a n fs) = fs_openFiles fs"
  "fs_discardWrites (set_node a n fs) = fs_discardWrites fs"
  "fs_ghosts (set_node a n fs) = fs_ghosts fs"
  "fs_nextInode (set_node a n fs) = fs_nextInode fs"
  by (simp_all add: set_node_def)

lemma child_of_del [simp]:
  "child_of (del_child a k fs) = (child_of fs)(a := (child_of fs a)(k := None))"
  by (intro ext) (auto simp: del_child_def child_of_def AList.delete_conv' split: option.splits)

lemma child_of_put:
  "put_child a k c fs = Some fs' \<Longrightarrow> child_of fs' = (child_of fs)(a := (child_of fs a)(k := Some c))"
  by (intro ext) (auto simp: put_child_def child_of_def AList.update_conv' split: option.splits)

lemma put_child_sel:
  assumes "put_child a k c fs = Some fs'"
  shows "fs_root fs' = fs_root fs" "fs_next fs' = fs_next fs" "fs_openFiles fs' = fs_openFiles fs"
    "fs_discardWrites fs' = fs_discardWrites fs" "fs_ghosts fs' = fs_ghosts fs"
    "mn_isDir (node fs' b) = mn_isDir (node fs b)"
    "mn_content (node fs' b) = mn_content (node fs b)" "mn_size (node fs' b) = mn_size (node fs b)"
    "mn_parent (node fs' b) = mn_parent (node fs b)" "mn_name (node fs' b) = mn_name (node fs b)"
  using assms by (auto simp: put_child_def split: option.splits if_splits)

text \<open>Two nodes that agree on what the tree is made of.\<close>

definition same_links :: "MemoryNode \<Rightarrow> MemoryNode \<Rightarrow> bool" where
  "same_links n n' \<longleftrightarrow> mn_name n' = mn_name n \<and> mn_isDir n' = mn_isDir n \<and>
     mn_children n' = mn_children n \<and> mn_parent n' = mn_parent n"

lemma child_of_same_links:
  "same_links (node fs a) n \<Longrightarrow> child_of (set_node a n fs) = child_of fs"
  by (intro ext) (auto simp: child_of_def same_links_def)

lemma set_node_wf [inv_intros]:
  assumes "wf_fs fs" and "same_links (node fs a) n"
  shows "wf_fs (set_node a n fs)"
proof -
  have "mn_isDir (node (set_node a n fs) b) = mn_isDir (node fs b)"
    and "mn_children (node (set_node a n fs) b) = mn_children (node fs b)"
    and "mn_parent (node (set_node a n fs) b) = mn_parent (node fs b)"
    and "mn_name (node (set_node a n fs) b) = mn_name (node fs b)"
    and "dir_ok (node (set_node a n fs) b) = dir_ok (node fs b)" for b
    using assms(2) by (simp_all add: same_links_def dir_ok_def)
  then show ?thesis
    using assms(1) child_of_same_links [OF assms(2)]
    unfolding wf_fs_def node_ok_def edge_ok_def by simp
qed

text \<open>A fresh node without entries, and the inode counter.\<close>

lemma alloc_eqs:
  assumes "alloc n fs = (a, fs')"
  shows "a = fs_next fs" and "fs_next fs' = Suc (fs_next fs)" and "fs_root fs' = fs_root fs"
    and "fs_heap fs' = (fs_heap fs)(a := n)" and "fs_openFiles fs' = fs_openFiles fs"
    and "fs_ghosts fs' = fs_ghosts fs" and "fs_discardWrites fs' = fs_discardWrites fs"
    and "fs_nextInode fs' = fs_nextInode fs"
  using assms by (auto simp: alloc_def)

lemma unallocated_no_child: "wf_fs fs \<Longrightarrow> child_of fs (fs_next fs) k = None"
  using wf_child(2) [of fs "fs_next fs" k] by (cases "child_of fs (fs_next fs) k") auto

definition leaf_node :: "MemoryNode \<Rightarrow> bool" where
  "leaf_node n \<longleftrightarrow> (mn_isDir n \<and> mn_children n = Some []) \<or> (\<not> mn_isDir n \<and> mn_children n = None)"

lemma leaf_dir_node [simp]: "leaf_node (dir_node name p i m now)"
  and leaf_file_node [simp]: "leaf_node (file_node name c p i m now)"
  by (simp_all add: leaf_node_def dir_node_def file_node_def)

lemma child_of_alloc:
  assumes "wf_fs fs" and "leaf_node n" and "alloc n fs = (a, fs')"
  shows "child_of fs' = child_of fs"
proof (intro ext)
  fix b k
  show "child_of fs' b k = child_of fs b k"
    using assms(2) unallocated_no_child [OF assms(1), of k] alloc_eqs(1,4) [OF assms(3)]
    by (auto simp: child_of_def leaf_node_def)
qed

lemma alloc_wf [inv_intros]:
  assumes "wf_fs fs" and "leaf_node n" and "alloc n fs = (a, fs')"
    and "\<And>p. mn_parent n = Some p \<Longrightarrow> p < fs_next fs"
  shows "wf_fs fs'"
proof -
  note A = alloc_eqs [OF assms(3)] and ch = child_of_alloc [OF assms(1-3)]
  have old: "node fs' b = node fs b" if "b < fs_next fs" for b using that A(1,4) by simp
  have "node_ok fs' b" for b
  proof -
    have "edge_ok fs' b k c" if "child_of fs b k = Some c" for k c
      using wf_child(1,4,5) [OF assms(1) that] A(2) old by (simp add: edge_ok_def)
    moreover have "p < fs_next fs'" if "mn_parent (node fs' b) = Some p" for p
      using that assms(4) [of p] wf_fsD(6) [OF assms(1), of b p] A(2,4) by (auto split: if_splits)
    moreover have "dir_ok n" using assms(2) by (auto simp: leaf_node_def dir_ok_def)
    then have "dir_ok (node fs' b)" using wf_dir_ok [OF assms(1), of b] A(4) by simp
    ultimately show ?thesis unfolding node_ok_def ch by blast
  qed
  moreover have "fs_root fs' < fs_next fs'" "mn_isDir (node fs' (fs_root fs'))"
    "mn_parent (node fs' (fs_root fs')) = None"
    using wf_fsD(1-3) [OF assms(1)] old A(2,3) by simp_all
  moreover have "\<forall>h f. fs_openFiles fs' h = Some f \<longrightarrow> of_node f < fs_next fs'"
    using wf_fsD(8) [OF assms(1)] A(2,5) by (metis less_SucI)
  moreover have "\<forall>x \<in> set (gs_files (fs_ghosts fs')). gf_node (snd x) < fs_next fs'"
    using assms(1) A(2,6) by (simp add: wf_fs_def less_SucI)
  ultimately show ?thesis unfolding wf_fs_def by blast
qed

lemma inode_wf [inv_intros]: "wf_fs fs \<Longrightarrow> wf_fs (fs\<lparr>fs_nextInode := i\<rparr>)"
  and child_of_inode [simp]: "child_of (fs\<lparr>fs_nextInode := i\<rparr>) = child_of fs"
proof -
  show ch: "child_of (fs\<lparr>fs_nextInode := i\<rparr>) = child_of fs" by (intro ext) (simp add: child_of_def)
  assume "wf_fs fs"
  then show "wf_fs (fs\<lparr>fs_nextInode := i\<rparr>)"
    unfolding wf_fs_def node_ok_def edge_ok_def ch by simp
qed

text \<open>An entry goes; an entry comes whose node already points back at it.\<close>

lemma del_child_wf [inv_intros]:
  assumes "wf_fs fs"
  shows "wf_fs (del_child a k fs)"
proof -
  have s: "fs_next (del_child a k fs) = fs_next fs" "fs_root (del_child a k fs) = fs_root fs"
    "fs_openFiles (del_child a k fs) = fs_openFiles fs" "fs_ghosts (del_child a k fs) = fs_ghosts fs"
    "\<And>b. mn_isDir (node (del_child a k fs) b) = mn_isDir (node fs b)"
    "\<And>b. mn_parent (node (del_child a k fs) b) = mn_parent (node fs b)"
    "\<And>b. mn_name (node (del_child a k fs) b) = mn_name (node fs b)"
    by (simp_all add: del_child_def)
  have "node_ok (del_child a k fs) b" for b
  proof -
    have "dir_ok (node (del_child a k fs) b)"
      using wf_dir_ok [OF assms, of b]
      by (auto simp: dir_ok_def del_child_def alist_delete_filter distinct_map_filter split: if_splits)
    then show ?thesis
      using assms unfolding node_ok_def edge_ok_def wf_fs_def s by (auto split: if_splits)
  qed
  then show ?thesis using assms unfolding wf_fs_def s by blast
qed

lemma put_child_wf [inv_intros]:
  assumes "wf_fs fs" and "put_child a k c fs = Some fs'" and "edge_ok fs a k c"
  shows "wf_fs fs'"
proof -
  obtain cs where cs: "mn_children (node fs a) = Some cs"
    and fs': "fs' = set_node a ((node fs a)\<lparr>mn_children := Some (AList.update k c cs)\<rparr>) fs"
    using assms(2) by (auto simp: put_child_def split: option.splits)
  have s: "fs_next fs' = fs_next fs" "fs_root fs' = fs_root fs"
    "fs_openFiles fs' = fs_openFiles fs" "fs_ghosts fs' = fs_ghosts fs"
    "\<And>b. mn_isDir (node fs' b) = mn_isDir (node fs b)"
    "\<And>b. mn_parent (node fs' b) = mn_parent (node fs b)"
    "\<And>b. mn_name (node fs' b) = mn_name (node fs b)"
    using cs unfolding fs' by simp_all
  have "node_ok fs' b" for b
  proof -
    have "dir_ok (node fs' b)"
      using wf_dir_ok [OF assms(1), of b] cs unfolding fs'
      by (auto simp: dir_ok_def distinct_update split: if_splits)
    then show ?thesis
      using assms(1,3) child_of_put [OF assms(2)]
      unfolding node_ok_def edge_ok_def wf_fs_def s by (auto split: if_splits)
  qed
  then show ?thesis using assms(1) unfolding wf_fs_def s by blast
qed

lemma put_child_defined:
  "wf_fs fs \<Longrightarrow> mn_isDir (node fs a) \<Longrightarrow> \<exists>fs'. put_child a k c fs = Some fs'"
  using wf_fsD(5) [of fs a] by (auto simp: put_child_def)

text \<open>The opens and the ghost registry.\<close>

lemma store_open_wf [inv_intros]:
  assumes "wf_fs fs" and "of_node f < fs_next fs"
  shows "wf_fs (store_open h f fs)"
proof -
  have "child_of (store_open h f fs) = child_of fs"
    by (intro ext) (simp add: child_of_def store_open_def)
  with assms show ?thesis
    unfolding wf_fs_def node_ok_def edge_ok_def by (simp add: store_open_def)
qed

lemma child_of_delete_open [simp]: "child_of (delete_open h fs) = child_of fs"
  by (intro ext) (simp add: child_of_def delete_open_def)

lemma delete_open_wf [inv_intros]: "wf_fs fs \<Longrightarrow> wf_fs (delete_open h fs)"
  unfolding wf_fs_def node_ok_def edge_ok_def child_of_delete_open by (simp add: delete_open_def)

lemma child_of_ghosts [simp]: "child_of (fs\<lparr>fs_ghosts := gs\<rparr>) = child_of fs"
  by (intro ext) (simp add: child_of_def)

lemma ghosts_wf [inv_intros]:
  "wf_fs fs \<Longrightarrow> (\<forall>x \<in> set (gs_files gs). gf_node (snd x) < fs_next fs) \<Longrightarrow> wf_fs (fs\<lparr>fs_ghosts := gs\<rparr>)"
  unfolding wf_fs_def node_ok_def edge_ok_def child_of_ghosts by simp

end
