(* ===== verification/MemoryRefine.thy ===== *)
theory MemoryRefine
  imports MemoryInv
begin

text \<open>
  The contract of the file system, over paths: \<open>view\<close> maps the elements of a path to what is
  there. The abstract operations are maps on views; each operation of the node store is shown
  to implement one, with the invariant of MemoryInv as the data-type invariant.
\<close>

section \<open>The abstract file system\<close>

datatype entry = ADir | AFile bytes

type_synonym tree = "string list \<Rightarrow> entry option"

text \<open>What a view shows of a node is whether it is a directory, and the bytes of a file. Its mode,
  times, size, extended attributes and symlink mark are not part of it.\<close>

definition entry_of :: "MemoryNode \<Rightarrow> entry" where
  "entry_of n = (if mn_isDir n then ADir else AFile (mn_content n))"

definition locate :: "MemoryFS \<Rightarrow> string list \<Rightarrow> nat option" where
  "locate fs qs = walk (child_of fs) (fs_root fs) qs"

definition view :: "MemoryFS \<Rightarrow> tree" where
  "view fs qs = map_option (\<lambda>a. entry_of (node fs a)) (locate fs qs)"

definition a_mkdirs :: "string list \<Rightarrow> tree \<Rightarrow> tree" where
  "a_mkdirs ps t = (\<lambda>qs. if prefix qs ps \<and> t qs = None then Some ADir else t qs)"

definition a_put :: "string list \<Rightarrow> entry \<Rightarrow> tree \<Rightarrow> tree" where
  "a_put ps x t = (\<lambda>qs. if qs = ps then Some x else if prefix ps qs then None else t qs)"

definition a_remove :: "string list \<Rightarrow> tree \<Rightarrow> tree" where
  "a_remove ps t = (\<lambda>qs. if prefix ps qs then None else t qs)"

definition a_move :: "string list \<Rightarrow> string list \<Rightarrow> tree \<Rightarrow> tree" where
  "a_move old new t = (\<lambda>qs.
     if prefix new qs then t (old @ drop (length new) qs)
     else if prefix old qs then None else t qs)"

section \<open>Locating\<close>

lemma resolvePath_locate:
  "resolvePath p fs = (case locate fs (path_elems p) of
     None \<Rightarrow> Err (PathNotFound (path_Clean p)) | Some a \<Rightarrow> Ok a)"
proof -
  have "path_elems p = walk_elems (path_Clean p)" by simp
  then show ?thesis
    by (auto simp: resolvePath_def Let_def locate_def walk_elems_def split: option.splits)
qed

lemma locate_root [simp]: "locate fs [] = Some (fs_root fs)"
  by (simp add: locate_def)

lemma locate_snoc:
  "locate fs (ps @ [k]) = (case locate fs ps of None \<Rightarrow> None | Some a \<Rightarrow> child_of fs a k)"
  by (simp add: locate_def walk_snoc)

lemma locate_unique: "wf_fs fs \<Longrightarrow> locate fs ps = Some a \<Longrightarrow> locate fs qs = Some a \<Longrightarrow> ps = qs"
  unfolding locate_def by (rule mem.path_unique)

lemma locate_alloc: "wf_fs fs \<Longrightarrow> locate fs ps = Some a \<Longrightarrow> a < fs_next fs"
  unfolding locate_def using walk_alloc wf_fsD(1) by blast

lemma locate_prefix: "locate fs (ps @ qs) = Some a \<Longrightarrow> \<exists>b. locate fs ps = Some b"
  by (auto simp: locate_def walk_append split: option.splits)

lemma locate_parent_dir:
  assumes "wf_fs fs" and "locate fs (ps @ k # rest) = Some a" and "locate fs ps = Some b"
  shows "mn_isDir (node fs b)"
proof -
  have "child_of fs b k \<noteq> None"
    using assms(2,3) by (auto simp: locate_def walk_append split: option.splits)
  then show ?thesis using wf_child(3) [OF assms(1)] by blast
qed

lemma view_None_iff: "view fs qs = None \<longleftrightarrow> locate fs qs = None"
  by (simp add: view_def)

lemma view_root [simp]: "wf_fs fs \<Longrightarrow> view fs [] = Some ADir"
  by (simp add: view_def entry_of_def wf_fsD(2))

text \<open>Changes the view cannot see.\<close>

lemma view_cong:
  assumes "child_of fs' = child_of fs" and "fs_root fs' = fs_root fs"
    and "\<And>a qs. locate fs qs = Some a \<Longrightarrow> entry_of (node fs' a) = entry_of (node fs a)"
  shows "view fs' = view fs"
proof
  fix qs
  have "locate fs' qs = locate fs qs" using assms(1,2) by (simp add: locate_def)
  then show "view fs' qs = view fs qs"
    using assms(3) by (cases "locate fs qs") (simp_all add: view_def)
qed

lemma view_set_content:
  assumes "wf_fs fs" and "same_links (node fs a) n" and "locate fs ps = Some a"
  shows "view (set_node a n fs) = (view fs)(ps \<mapsto> entry_of n)"
proof
  fix qs
  have l: "locate (set_node a n fs) qs = locate fs qs"
    using child_of_same_links [OF assms(2)] by (simp add: locate_def)
  show "view (set_node a n fs) qs = ((view fs)(ps \<mapsto> entry_of n)) qs"
    using locate_unique [OF assms(1) assms(3), of qs] assms(3)
    by (cases "locate fs qs") (auto simp: view_def l)
qed

section \<open>Adding one entry\<close>

text \<open>A fresh leaf node, put under a directory that the path \<open>ps\<close> reaches.\<close>

lemma add_leaf:
  assumes wf: "wf_fs fs" and ps: "locate fs ps = Some p" and dir: "mn_isDir (node fs p)"
    and n: "leaf_node n" "mn_parent n = Some p" "mn_name n = k"
    and al: "alloc n fs = (a, fs1)" and put: "put_child p k a (fs1\<lparr>fs_nextInode := i\<rparr>) = Some fs2"
  shows "wf_fs fs2" and "view fs2 = a_put (ps @ [k]) (entry_of n) (view fs)"
    and "locate fs2 (ps @ [k]) = Some a" and "node fs2 a = n"
    and "locate fs qs = Some b \<Longrightarrow> \<not> prefix (ps @ [k]) qs \<Longrightarrow> locate fs2 qs = Some b"
    and "fs_root fs2 = fs_root fs" and "fs_next fs2 = Suc (fs_next fs)"
    and "fs_openFiles fs2 = fs_openFiles fs" and "fs_ghosts fs2 = fs_ghosts fs"
    and "fs_discardWrites fs2 = fs_discardWrites fs"
    and "c < fs_next fs \<Longrightarrow> entry_of (node fs2 c) = entry_of (node fs c)"
proof -
  note A = alloc_eqs [OF al]
  let ?fs1 = "fs1\<lparr>fs_nextInode := i\<rparr>"
  have p: "p < fs_next fs" using locate_alloc [OF wf ps] .
  have wf1: "wf_fs fs1" using n(2) p by (intro alloc_wf [OF wf n(1) al]) auto
  then have wf1': "wf_fs ?fs1" by (rule inode_wf)
  have ch1: "child_of ?fs1 = child_of fs" using child_of_alloc [OF wf n(1) al] by simp
  have e: "edge_ok ?fs1 p k a" using A n by (simp add: edge_ok_def)
  show wf2: "wf_fs fs2" by (rule put_child_wf [OF wf1' put e])
  have ch2: "child_of fs2 = (child_of fs)(p := (child_of fs p)(k := Some a))"
    using child_of_put [OF put] ch1 by simp
  have put': "\<exists>cs. fs2 = set_node p ((node fs1 p)\<lparr>mn_children := Some cs\<rparr>) ?fs1"
    using put by (auto simp: put_child_def split: option.splits)
  then show sel: "fs_root fs2 = fs_root fs" "fs_next fs2 = Suc (fs_next fs)"
    "fs_openFiles fs2 = fs_openFiles fs" "fs_ghosts fs2 = fs_ghosts fs"
    "fs_discardWrites fs2 = fs_discardWrites fs"
    using A by auto
  have ent: "entry_of (node fs2 b) = entry_of (node fs b)" if "b < fs_next fs" for b
    using put' that p A(1,4) by (auto simp: entry_of_def split: if_splits)
  then show "c < fs_next fs \<Longrightarrow> entry_of (node fs2 c) = entry_of (node fs c)" .
  show na: "node fs2 a = n" using put' A(1,4) p by auto
  have leaf: "((child_of fs)(p := (child_of fs p)(k := Some a))) a x = None" for x
    using unallocated_no_child [OF wf] A(1) p by simp
  have loc: "locate fs2 qs = (if qs = ps @ [k] then Some a
      else if prefix (ps @ [k]) qs then None else locate fs qs)" for qs
    using mem.walk_attach [OF wf _ leaf, of ps qs] ps ch2 sel(1) by (simp add: locate_def)
  then show "locate fs2 (ps @ [k]) = Some a" by simp
  show "locate fs qs = Some b \<Longrightarrow> \<not> prefix (ps @ [k]) qs \<Longrightarrow> locate fs2 qs = Some b"
    using loc [of qs] by auto
  show "view fs2 = a_put (ps @ [k]) (entry_of n) (view fs)"
  proof
    fix qs
    show "view fs2 qs = a_put (ps @ [k]) (entry_of n) (view fs) qs"
      using loc [of qs] na ent locate_alloc [OF wf, of qs]
      by (cases "locate fs qs") (auto simp: view_def a_put_def)
  qed
qed

section \<open>Directories along a path\<close>

text \<open>What every construction leaves alone.\<close>

definition same_frame :: "MemoryFS \<Rightarrow> MemoryFS \<Rightarrow> bool" where
  "same_frame fs fs' \<longleftrightarrow>
     fs_root fs' = fs_root fs \<and> fs_next fs \<le> fs_next fs' \<and>
     fs_openFiles fs' = fs_openFiles fs \<and> fs_ghosts fs' = fs_ghosts fs \<and>
     fs_discardWrites fs' = fs_discardWrites fs"

lemma same_frame_refl [simp]: "same_frame fs fs"
  by (simp add: same_frame_def)

lemma same_frame_trans: "same_frame a b \<Longrightarrow> same_frame b c \<Longrightarrow> same_frame a c"
  by (auto simp: same_frame_def)

lemma put_child_after_alloc:
  assumes "wf_fs fs" and "mn_isDir (node fs p)" and "p < fs_next fs" and "alloc n fs = (a, fs1)"
  shows "\<exists>fs2. put_child p k a (fs1\<lparr>fs_nextInode := i\<rparr>) = Some fs2"
proof -
  have "mn_children (node fs p) \<noteq> None" using assms(1,2) by (simp add: wf_fsD(5))
  then show ?thesis
    using alloc_eqs(1,4) [OF assms(4)] assms(3) by (auto simp: put_child_def)
qed

lemma a_mkdirs_Some: "t qs = Some x \<Longrightarrow> a_mkdirs ps t qs = Some x"
  by (simp add: a_mkdirs_def)

text \<open>The loop either makes all missing directories, or fails on a file in the way with nothing
  changed; it never panics.\<close>

lemma mkdirs_spec:
  assumes "wf_fs fs" and "locate fs ps = Some cur" and "mn_isDir (node fs cur)"
  shows "(\<exists>d fs'. mkdirs now cur parts fs = (Ok d, fs') \<and> wf_fs fs' \<and> same_frame fs fs' \<and>
      locate fs' (ps @ parts) = Some d \<and> mn_isDir (node fs' d) \<and>
      (\<forall>b < fs_next fs. entry_of (node fs' b) = entry_of (node fs b)) \<and>
      (\<forall>qs b. locate fs qs = Some b \<longrightarrow> locate fs' qs = Some b) \<and>
      view fs' = a_mkdirs (ps @ parts) (view fs)) \<or>
    (\<exists>k pre bs. mkdirs now cur parts fs = (Err (ComponentNotDirectory k), fs) \<and>
      prefix pre (ps @ parts) \<and> view fs pre = Some (AFile bs))"
  using assms
proof (induction parts arbitrary: ps cur fs)
  case Nil
  have "view fs qs = None \<Longrightarrow> \<not> prefix qs ps" for qs
    using Nil.prems(2) locate_prefix by (fastforce simp: view_None_iff prefix_def)
  then have "view fs = a_mkdirs ps (view fs)" by (intro ext) (auto simp: a_mkdirs_def)
  with Nil show ?case by auto
next
  case (Cons k ks)
  show ?case
  proof (cases "child_of fs cur k")
    case (Some c)
    then have l: "locate fs (ps @ [k]) = Some c" using Cons.prems(2) by (simp add: locate_snoc)
    show ?thesis
    proof (cases "mn_isDir (node fs c)")
      case True
      from Cons.IH [OF Cons.prems(1) l True] Some True show ?thesis by simp
    next
      case False
      with l have "view fs (ps @ [k]) = Some (AFile (mn_content (node fs c)))"
        by (simp add: view_def entry_of_def)
      moreover have "prefix (ps @ [k]) (ps @ k # ks)" by simp
      moreover have "mkdirs now cur (k # ks) fs = (Err (ComponentNotDirectory k), fs)"
        using Some False by simp
      ultimately show ?thesis by blast
    qed
  next
    case None
    let ?n = "dir_node k (Some cur) (fs_nextInode fs) 0x1ED now"
    obtain c fs1 where al: "alloc ?n fs = (c, fs1)" by (cases "alloc ?n fs")
    have cur: "cur < fs_next fs" using locate_alloc [OF Cons.prems(1,2)] .
    obtain fs2 where put: "put_child cur k c (fs1\<lparr>fs_nextInode := fs_nextInode fs1 + 1\<rparr>) = Some fs2"
      using put_child_after_alloc [OF Cons.prems(1,3) cur al] by blast
    have n: "leaf_node ?n" "mn_parent ?n = Some cur" "mn_name ?n = k" "mn_isDir ?n" "entry_of ?n = ADir"
      by (simp_all add: dir_node_def entry_of_def leaf_node_def)
    note L = add_leaf [OF Cons.prems n(1,2,3) al put]
    have none: "locate fs (ps @ k # rest) = None" for rest
      using None Cons.prems(2) by (simp add: locate_def walk_append)
    have "mn_isDir (node fs2 c)" using L(4) n(4) by simp
    note IH = Cons.IH [OF L(1,3) this]
    have v2: "view fs2 qs = (if qs = ps @ [k] then Some ADir else view fs qs)" for qs
    proof -
      have "prefix (ps @ [k]) qs \<Longrightarrow> view fs qs = None"
        using none by (auto simp: prefix_def view_None_iff)
      then show ?thesis using L(2) n(5) by (simp add: a_put_def)
    qed
    have step: "mkdirs now cur (k # ks) fs = mkdirs now c ks fs2" using None al put by simp
    have keep: "locate fs2 qs = Some b" if "locate fs qs = Some b" for qs b
    proof (rule L(5) [OF that])
      show "\<not> prefix (ps @ [k]) qs" using that none by (auto simp: prefix_def)
    qed
    have ent: "entry_of (node fs2 b) = entry_of (node fs b)" if "b < fs_next fs" for b
      using L(11) [OF that] .
    have fr: "same_frame fs fs2" using L(6-10) by (simp add: same_frame_def)
    show ?thesis
      using IH
    proof (elim disjE exE conjE, goal_cases)
      case (1 d fs')
      have "view fs' = a_mkdirs (ps @ k # ks) (view fs)"
        using 1(8) v2 none [of "[]"] by (intro ext) (auto simp: a_mkdirs_def view_None_iff)
      moreover have "\<forall>b < fs_next fs. entry_of (node fs' b) = entry_of (node fs b)"
        using 1(6) ent fr by (simp add: same_frame_def)
      ultimately show ?case
        using 1 step same_frame_trans [OF fr] keep by auto
    next
      case (2 j pre bs)
      have "prefix pre (ps @ k # ks)" using 2(2) by simp
      moreover have "view fs pre = Some (AFile bs)" using 2(3) v2 [of pre] by (auto split: if_splits)
      moreover have False
      proof -
        have "pre = ps @ k # rest \<Longrightarrow> False" for rest using none 2(3) v2 [of pre]
          by (auto simp: view_def split: if_splits)
        then have "prefix pre ps" using \<open>prefix pre (ps @ k # ks)\<close>
          unfolding prefix_append [of pre ps "k # ks"] prefix_Cons by auto
        then obtain rest where "ps = pre @ rest" by (auto simp: prefix_def)
        with Cons.prems \<open>view fs pre = Some (AFile bs)\<close> show False
          using locate_parent_dir [OF Cons.prems(1), of pre "hd rest" "tl rest"]
          by (cases rest) (auto simp: view_def entry_of_def split: if_splits)
      qed
      ultimately show ?case by blast
    qed
  qed
qed

lemma getOrCreateDirPath_mkdirs:
  "getOrCreateDirPath e p fs = mkdirs (e_now e) (fs_root fs) (path_elems p) fs"
proof -
  have "path_elems p = walk_elems (path_Clean p)" by simp
  then show ?thesis by (auto simp: getOrCreateDirPath_def Let_def walk_elems_def)
qed

lemma mkdirs_root_spec:
  assumes "wf_fs fs"
  shows "(\<exists>d fs'. mkdirs now (fs_root fs) parts fs = (Ok d, fs') \<and> wf_fs fs' \<and> same_frame fs fs' \<and>
      locate fs' parts = Some d \<and> mn_isDir (node fs' d) \<and>
      (\<forall>b < fs_next fs. entry_of (node fs' b) = entry_of (node fs b)) \<and>
      (\<forall>qs b. locate fs qs = Some b \<longrightarrow> locate fs' qs = Some b) \<and>
      view fs' = a_mkdirs parts (view fs)) \<or>
    (\<exists>k pre bs. mkdirs now (fs_root fs) parts fs = (Err (ComponentNotDirectory k), fs) \<and>
      prefix pre parts \<and> view fs pre = Some (AFile bs))"
  using mkdirs_spec [OF assms locate_root wf_fsD(2) [OF assms], of now parts] by simp

text \<open>\<open>AddFile\<close>: parents made, then the file put in place, whatever was there.\<close>

lemma AddFile_spec:
  assumes wf: "wf_fs fs" and p: "path_elems p \<noteq> []"
  shows "(\<exists>a fs'. AddFile e p content mode fs = (Ok (), fs') \<and> wf_fs fs' \<and> same_frame fs fs' \<and>
      view fs' = a_put (path_elems p) (AFile content) (a_mkdirs (butlast (path_elems p)) (view fs)) \<and>
      locate fs' (path_elems p) = Some a \<and> \<not> mn_isDir (node fs' a) \<and>
      mn_content (node fs' a) = content \<and> mn_size (node fs' a) = of_nat (length content) \<and>
      (\<forall>qs b. locate fs qs = Some b \<longrightarrow> \<not> prefix (path_elems p) qs \<longrightarrow> locate fs' qs = Some b)) \<or>
    (\<exists>k pre bs. AddFile e p content mode fs = (Err (ComponentNotDirectory k), fs) \<and>
      prefix pre (butlast (path_elems p)) \<and> view fs pre = Some (AFile bs))"
proof -
  let ?q = "path_Clean p" and ?ds = "path_elems (path_Dir (path_Clean p))"
  have el: "path_elems p = ?ds @ [path_Base ?q]" using Dir_Base_elems [OF p] .
  have nr: "?q \<noteq> ''/''" using p Clean_eq_root_or_dot [of p] by auto
  have add: "AddFile e p content mode fs = and_then (mkdirs (e_now e) (fs_root fs) ?ds fs)
     (\<lambda>parentNode fs1.
        (let (n, fs2) = alloc (file_node (path_Base ?q) content (Some parentNode)
                                 (fs_nextInode fs1) mode (e_now e)) fs1;
             fs3 = fs2\<lparr>fs_nextInode := fs_nextInode fs2 + 1\<rparr>
         in case put_child parentNode (path_Base ?q) n fs3 of
              None \<Rightarrow> (Panic, fs3)
            | Some fs4 \<Rightarrow> (Ok (), fs4)))"
    using nr by (simp add: AddFile_def Let_def getOrCreateDirPath_mkdirs)
  from mkdirs_root_spec [OF wf, of "e_now e" ?ds] show ?thesis
  proof (elim disjE exE conjE, goal_cases)
    case (1 d fs1)
    let ?n = "file_node (path_Base ?q) content (Some d) (fs_nextInode fs1) mode (e_now e)"
    obtain a fs2 where al: "alloc ?n fs1 = (a, fs2)" by (cases "alloc ?n fs1")
    obtain fs4 where put: "put_child d (path_Base ?q) a (fs2\<lparr>fs_nextInode := fs_nextInode fs2 + 1\<rparr>) = Some fs4"
      using put_child_after_alloc [OF 1(2,5) locate_alloc [OF 1(2,4)] al] by blast
    have n: "leaf_node ?n" "mn_parent ?n = Some d" "mn_name ?n = path_Base ?q" "\<not> mn_isDir ?n"
      "mn_content ?n = content" "mn_size ?n = of_nat (length content)" "entry_of ?n = AFile content"
      by (simp_all add: file_node_def entry_of_def leaf_node_def)
    note L = add_leaf [OF 1(2,4,5) n(1,2,3) al put]
    have res: "AddFile e p content mode fs = (Ok (), fs4)" using 1(1) al put by (simp add: add)
    have fr: "same_frame fs fs4"
      by (rule same_frame_trans [OF 1(3)]) (use L(6-10) in \<open>simp add: same_frame_def\<close>)
    have v: "view fs4 = a_put (path_elems p) (AFile content) (a_mkdirs (butlast (path_elems p)) (view fs))"
      using L(2) 1(8) n(7) el by simp
    have k: "\<forall>qs b. locate fs qs = Some b \<longrightarrow> \<not> prefix (path_elems p) qs \<longrightarrow> locate fs4 qs = Some b"
      using L(5) 1(7) el by simp
    show ?case
      using res L(1) fr v k L(3,4) n el by (intro disjI1 exI [of _ a] exI [of _ fs4]) simp
  next
    case (2 k pre bs)
    then have "AddFile e p content mode fs = (Err (ComponentNotDirectory k), fs)" by (simp add: add)
    with 2 el show ?case by (intro disjI2 exI) auto
  qed
qed

lemma AddDirectory_spec:
  assumes "wf_fs fs"
  shows "(\<exists>fs'. AddDirectory e p fs = (Ok (), fs') \<and> wf_fs fs' \<and> same_frame fs fs' \<and>
      view fs' = a_mkdirs (path_elems p) (view fs)) \<or>
    (\<exists>k pre bs. AddDirectory e p fs = (Err (ComponentNotDirectory k), fs) \<and>
      prefix pre (path_elems p) \<and> view fs pre = Some (AFile bs))"
proof (cases "path_Clean p = ''/''")
  case True
  then have "path_elems p = []" using Clean_eq_root_or_dot by auto
  moreover have "view fs = a_mkdirs [] (view fs)"
    using assms by (intro ext) (auto simp: a_mkdirs_def)
  ultimately show ?thesis using True assms by (simp add: AddDirectory_def)
next
  case False
  have "AddDirectory e p fs =
      and_then (mkdirs (e_now e) (fs_root fs) (path_elems p) fs) (\<lambda>a fs1. (Ok (), fs1))"
    using False by (simp add: AddDirectory_def getOrCreateDirPath_mkdirs)
  with mkdirs_root_spec [OF assms, of "e_now e" "path_elems p"] show ?thesis by auto
qed

end
