(* ===== verification/MemorySpec.thy ===== *)
theory MemorySpec
  imports MemoryRefine
begin

text \<open>
  Each operation against its abstract counterpart, on every branch: \<open>Mkdir\<close>, \<open>Open\<close>,
  \<open>Read\<close>, \<open>Write\<close>, \<open>Truncate\<close>, \<open>Unlink\<close> and \<open>Rename\<close>. \<open>linked fs h ps a\<close> is a handle whose
  node is where the path \<open>ps\<close> leads; \<open>sizes_ok\<close> is what the size field promises while writes
  are not discarded.
\<close>

definition linked :: "MemoryFS \<Rightarrow> u64 \<Rightarrow> string list \<Rightarrow> nat \<Rightarrow> bool" where
  "linked fs h ps a \<longleftrightarrow>
     (\<exists>f. fs_openFiles fs h = Some f \<and> of_node f = a) \<and> locate fs ps = Some a"

definition size_ok :: "MemoryNode \<Rightarrow> bool" where
  "size_ok n \<longleftrightarrow> unat (mn_size n) = length (mn_content n)"

definition sizes_ok :: "MemoryFS \<Rightarrow> bool" where
  "sizes_ok fs \<longleftrightarrow> (\<forall>a. size_ok (node fs a))"

lemma linkedD:
  "linked fs h ps a \<Longrightarrow> \<exists>f. fs_openFiles fs h = Some f \<and> of_node f = a"
  "linked fs h ps a \<Longrightarrow> locate fs ps = Some a"
  by (auto simp: linked_def)

lemma view_at: "locate fs ps = Some a \<Longrightarrow> view fs ps = Some (entry_of (node fs a))"
  by (simp add: view_def)

lemma view_dirE: "view fs ps = Some ADir \<Longrightarrow> \<exists>a. locate fs ps = Some a \<and> mn_isDir (node fs a)"
  by (auto simp: view_def entry_of_def split: if_splits)

lemma view_fileE:
  "view fs ps = Some (AFile c) \<Longrightarrow> \<exists>a. locate fs ps = Some a \<and> \<not> mn_isDir (node fs a) \<and> mn_content (node fs a) = c"
  by (auto simp: view_def entry_of_def split: if_splits)

section \<open>Mkdir\<close>

lemma a_put_free: "wf_fs fs \<Longrightarrow> view fs ps = None \<Longrightarrow> a_put ps x (view fs) = (view fs)(ps \<mapsto> x)"
proof (intro ext)
  fix qs
  assume "wf_fs fs" and n: "view fs ps = None"
  have "view fs qs = None" if "prefix ps qs"
    using that n locate_prefix [of fs ps] by (fastforce simp: view_None_iff prefix_def)
  then show "a_put ps x (view fs) qs = ((view fs)(ps \<mapsto> x)) qs" by (simp add: a_put_def)
qed

text \<open>All four branches: no parent, a file as the parent (the write to its nil map panics), a
  name that exists, and success.\<close>

lemma make_directory_spec:
  assumes wf: "wf_fs fs" and p: "path_elems p \<noteq> []"
  shows "view fs (butlast (path_elems p)) = None \<Longrightarrow>
      make_directory e p mode fs = (Err (PathNotFound (path_Clean (path_Dir (path_Clean p)))), fs)"
    and "view fs (butlast (path_elems p)) = Some (AFile c) \<Longrightarrow>
      fst (make_directory e p mode fs) = Panic"
    and "view fs (path_elems p) \<noteq> None \<Longrightarrow> make_directory e p mode fs = (Err DirectoryExists, fs)"
    and "view fs (butlast (path_elems p)) = Some ADir \<Longrightarrow> view fs (path_elems p) = None \<Longrightarrow>
      \<exists>attrs fs'. make_directory e p mode fs = (Ok attrs, fs') \<and> wf_fs fs' \<and> same_frame fs fs' \<and>
        view fs' = (view fs)(path_elems p \<mapsto> ADir) \<and> GetFileType attrs = Some FileTypeDirectory \<and>
        (\<forall>qs b. locate fs qs = Some b \<longrightarrow> locate fs' qs = Some b)"
proof -
  let ?q = "path_Clean p" and ?ds = "path_elems (path_Dir (path_Clean p))"
  have el: "path_elems p = ?ds @ [path_Base ?q]" using Dir_Base_elems [OF p] .
  then have bl: "butlast (path_elems p) = ?ds" by simp
  let ?n = "\<lambda>d. dir_node (path_Base ?q) (Some d) (fs_nextInode fs) (word_of_int mode) (e_now e)"
  have res: "make_directory e p mode fs =
      (if child_of fs d (path_Base ?q) \<noteq> None then (Err DirectoryExists, fs)
       else (let (a, fs1) = alloc (?n d) fs; fs2 = fs1\<lparr>fs_nextInode := fs_nextInode fs1 + 1\<rparr>
             in case put_child d (path_Base ?q) a fs2 of
                  None \<Rightarrow> (Panic, fs2) | Some fs3 \<Rightarrow> (Ok (nodeToAttributes (?n d)), fs3)))"
    if "locate fs ?ds = Some d" for d
    using that by (simp add: make_directory_def Let_def resolvePath_locate)
  show "view fs (butlast (path_elems p)) = None \<Longrightarrow>
      make_directory e p mode fs = (Err (PathNotFound (path_Clean (path_Dir ?q))), fs)"
    unfolding bl by (simp add: make_directory_def Let_def resolvePath_locate view_None_iff)
  {
    assume "view fs (butlast (path_elems p)) = Some (AFile c)"
    then obtain d where d: "locate fs ?ds = Some d" "\<not> mn_isDir (node fs d)"
      unfolding bl using view_fileE by blast
    then have n: "mn_children (node fs d) = None" using wf_fsD(5) [OF wf] by simp
    have "d \<noteq> fs_next fs" using locate_alloc [OF wf d(1)] by simp
    with n have "put_child d k a (fs1\<lparr>fs_nextInode := i\<rparr>) = None" if "alloc m fs = (a, fs1)" for k a fs1 i m
      using alloc_eqs(1,4) [OF that] by (simp add: put_child_def)
    then show "fst (make_directory e p mode fs) = Panic"
      using res [OF d(1)] n by (simp add: child_of_def Let_def split: prod.splits)
  }
  {
    assume "view fs (path_elems p) \<noteq> None"
    then obtain a where "locate fs (?ds @ [path_Base ?q]) = Some a"
      using el by (auto simp: view_None_iff)
    then obtain d where "locate fs ?ds = Some d" "child_of fs d (path_Base ?q) = Some a"
      by (auto simp: locate_snoc split: option.splits)
    with res show "make_directory e p mode fs = (Err DirectoryExists, fs)" by simp
  }
  assume "view fs (butlast (path_elems p)) = Some ADir" and free: "view fs (path_elems p) = None"
  then obtain d where d: "locate fs ?ds = Some d" "mn_isDir (node fs d)"
    unfolding bl using view_dirE by blast
  have c: "child_of fs d (path_Base ?q) = None"
    using free d(1) el by (simp add: view_None_iff locate_snoc)
  obtain a fs1 where al: "alloc (?n d) fs = (a, fs1)" by (cases "alloc (?n d) fs")
  obtain fs3 where put: "put_child d (path_Base ?q) a (fs1\<lparr>fs_nextInode := fs_nextInode fs1 + 1\<rparr>) = Some fs3"
    using put_child_after_alloc [OF wf d(2) locate_alloc [OF wf d(1)] al] by blast
  have n: "leaf_node (?n d)" "mn_parent (?n d) = Some d" "mn_name (?n d) = path_Base ?q"
    "entry_of (?n d) = ADir" by (simp_all add: dir_node_def entry_of_def leaf_node_def)
  note L = add_leaf [OF wf d n(1,2,3) al put]
  have r: "make_directory e p mode fs = (Ok (nodeToAttributes (?n d)), fs3)"
    using res [OF d(1)] c al put by simp
  have v: "view fs3 = (view fs)(path_elems p \<mapsto> ADir)"
    using L(2) n(4) el a_put_free [OF wf free] by simp
  have ft: "GetFileType (nodeToAttributes (?n d)) = Some FileTypeDirectory"
    by (simp add: nodeToAttributes_def dir_node_def)
  have k: "\<forall>qs b. locate fs qs = Some b \<longrightarrow> locate fs3 qs = Some b"
  proof (intro allI impI)
    fix qs b
    assume lq: "locate fs qs = Some b"
    have "\<not> prefix (?ds @ [path_Base ?q]) qs"
      using lq free el locate_prefix [of fs "path_elems p"] by (auto simp: prefix_def view_None_iff)
    with L(5) lq show "locate fs3 qs = Some b" by blast
  qed
  show "\<exists>attrs fs'. make_directory e p mode fs = (Ok attrs, fs') \<and> wf_fs fs' \<and> same_frame fs fs' \<and>
      view fs' = (view fs)(path_elems p \<mapsto> ADir) \<and> GetFileType attrs = Some FileTypeDirectory \<and>
      (\<forall>qs b. locate fs qs = Some b \<longrightarrow> locate fs' qs = Some b)"
    using r L(1) v ft k L(6-10) by (auto simp: same_frame_def)
qed

section \<open>Reading and writing\<close>

definition write_bytes :: "nat \<Rightarrow> bytes \<Rightarrow> bytes \<Rightarrow> bytes" where
  "write_bytes off buf old = copy_at off buf (grow (max (off + length buf) (length old)) old)"

lemma grow_id: "n = length old \<Longrightarrow> grow n old = old"
  by (simp add: grow_def)

lemma length_write_bytes [simp]: "length (write_bytes off buf old) = max (off + length buf) (length old)"
  by (simp add: write_bytes_def)

lemma write_bytes_nth:
  "i < max (off + length buf) (length old) \<Longrightarrow> write_bytes off buf old ! i =
     (if off \<le> i \<and> i < off + length buf then buf ! (i - off)
      else if i < length old then old ! i else 0)"
  by (simp add: write_bytes_def nth_copy_at nth_grow)

lemma write_bytes_window: "take (length buf) (drop off (write_bytes off buf old)) = buf"
  unfolding write_bytes_def by (rule copy_at_window) simp

lemma unat_add_len:
  assumes "unat (off :: u64) + n \<le> max_alloc"
  shows "unat (off + of_nat n) = unat off + n"
proof -
  have "unat off + n < 2 ^ 64" using assms by (simp add: max_alloc_def)
  moreover have "n < 2 ^ 64" using assms by (simp add: max_alloc_def)
  ultimately show ?thesis by (simp add: unat_word_ariths unat_of_nat)
qed

lemma write_node_spec:
  assumes "\<not> mn_isDir (node fs a)" and "size_ok (node fs a)"
    and "unat off + length buf \<le> max_alloc"
  shows "\<exists>n. write_node e a buf off fs = (Ok (length buf), set_node a n fs) \<and>
    same_links (node fs a) n \<and> size_ok n \<and>
    mn_content n = write_bytes (unat off) buf (mn_content (node fs a))"
proof -
  let ?n = "node fs a" and ?last = "off + of_nat (length buf)"
  have e: "unat ?last = unat off + length buf" using unat_add_len [OF assms(3)] .
  have sz: "unat (mn_size ?n) = length (mn_content ?n)" using assms(2) by (simp add: size_ok_def)
  have lt: "mn_size ?n < ?last \<longleftrightarrow> length (mn_content ?n) < unat off + length buf"
    using e sz by (simp add: word_less_nat_alt)
  show ?thesis
  proof (cases "mn_size ?n < ?last")
    case True
    then have m: "max (unat off + length buf) (length (mn_content ?n)) = unat off + length buf"
      using lt by simp
    let ?m = "?n\<lparr>mn_spare := [], mn_size := ?last,
        mn_content := write_bytes (unat off) buf (mn_content ?n), mn_mtime := e_now e\<rparr>"
    have "write_node e a buf off fs = (Ok (length buf), set_node a ?m fs)"
      using True assms(1,3) e by (simp add: write_node_def Let_def write_bytes_def m)
    then show ?thesis using e m by (intro exI [of _ ?m]) (simp add: same_links_def size_ok_def)
  next
    case False
    then have m: "max (unat off + length buf) (length (mn_content ?n)) = length (mn_content ?n)"
      and le: "unat off + length buf \<le> length (mn_content ?n)" using lt by auto
    let ?m = "?n\<lparr>mn_content := write_bytes (unat off) buf (mn_content ?n), mn_mtime := e_now e\<rparr>"
    have "write_node e a buf off fs = (Ok (length buf), set_node a ?m fs)"
      using False assms(1) le by (simp add: write_node_def Let_def write_bytes_def m grow_id)
    then show ?thesis using sz m by (intro exI [of _ ?m]) (simp add: same_links_def size_ok_def)
  qed
qed

lemma truncate_node_spec:
  assumes "\<not> mn_isDir (node fs a)" and "size_ok (node fs a)" and "unat sz \<le> max_alloc"
  shows "\<exists>n. truncate_node e a sz fs = (Ok (), set_node a n fs) \<and>
    same_links (node fs a) n \<and> size_ok n \<and> mn_content n = grow (unat sz) (mn_content (node fs a))"
proof -
  let ?n = "node fs a"
  have s: "unat (mn_size ?n) = length (mn_content ?n)" using assms(2) by (simp add: size_ok_def)
  consider (less) "sz < mn_size ?n" | (more) "mn_size ?n < sz" | (eq) "sz = mn_size ?n" by force
  then show ?thesis
  proof cases
    case less
    then have "unat sz \<le> length (mn_content ?n)" using s by (simp add: word_less_nat_alt)
    then have g: "take (unat sz) (mn_content ?n @ mn_spare ?n) = grow (unat sz) (mn_content ?n)"
      by (simp add: grow_def)
    let ?m = "?n\<lparr>mn_content := grow (unat sz) (mn_content ?n),
        mn_spare := drop (unat sz) (mn_content ?n @ mn_spare ?n), mn_size := sz, mn_mtime := e_now e\<rparr>"
    have "truncate_node e a sz fs = (Ok (), set_node a ?m fs)"
      using less assms(1) \<open>unat sz \<le> length (mn_content ?n)\<close>
      by (simp add: truncate_node_def Let_def g [symmetric])
    then show ?thesis by (intro exI [of _ ?m]) (simp add: same_links_def size_ok_def)
  next
    case more
    then have "\<not> sz < mn_size ?n" by auto
    let ?m = "?n\<lparr>mn_content := grow (unat sz) (mn_content ?n), mn_spare := [],
        mn_size := sz, mn_mtime := e_now e\<rparr>"
    have "truncate_node e a sz fs = (Ok (), set_node a ?m fs)"
      using more \<open>\<not> sz < mn_size ?n\<close> assms(1,3) by (simp add: truncate_node_def Let_def)
    then show ?thesis by (intro exI [of _ ?m]) (simp add: same_links_def size_ok_def)
  next
    case eq
    let ?m = "?n\<lparr>mn_size := sz, mn_mtime := e_now e\<rparr>"
    have "truncate_node e a sz fs = (Ok (), set_node a ?m fs)"
      using eq assms(1) by (simp add: truncate_node_def Let_def)
    then show ?thesis using s eq
      by (intro exI [of _ ?m]) (simp add: same_links_def size_ok_def grow_id)
  qed
qed

lemma Read_spec:
  assumes "linked fs h ps a" and "\<not> mn_isDir (node fs a)" and "size_ok (node fs a)"
  shows "Read h n off flags fs =
    (let got = take n (drop (unat off) (mn_content (node fs a)))
     in if got = [] then (Err EndOfFile, fs) else (Ok got, fs))"
proof -
  obtain f where f: "fs_openFiles fs h = Some f" "of_node f = a" using linkedD(1) [OF assms(1)] by blast
  have sz: "mn_size (node fs a) \<le> off \<longleftrightarrow> length (mn_content (node fs a)) \<le> unat off"
    using assms(3) by (simp add: word_le_nat_alt size_ok_def)
  show ?thesis
    using f assms(2) sz by (auto simp: Read_def with_open_def Let_def)
qed

section \<open>Removing and moving\<close>

lemma linked_edge:
  assumes "wf_fs fs" and "locate fs (ps @ [k]) = Some a"
  shows "\<exists>p. locate fs ps = Some p \<and> child_of fs p k = Some a \<and> mn_parent (node fs a) = Some p \<and>
    mn_name (node fs a) = k"
proof -
  from assms(2) obtain p where p: "locate fs ps = Some p" "child_of fs p k = Some a"
    by (auto simp: locate_snoc split: option.splits)
  with wf_child(4,5) [OF assms(1) p(2)] show ?thesis by blast
qed

lemma del_child_sel [simp]:
  "fs_root (del_child a k fs) = fs_root fs" "fs_next (del_child a k fs) = fs_next fs"
  "fs_openFiles (del_child a k fs) = fs_openFiles fs" "fs_ghosts (del_child a k fs) = fs_ghosts fs"
  "fs_discardWrites (del_child a k fs) = fs_discardWrites fs"
  "mn_isDir (node (del_child a k fs) b) = mn_isDir (node fs b)"
  "mn_content (node (del_child a k fs) b) = mn_content (node fs b)"
  "mn_size (node (del_child a k fs) b) = mn_size (node fs b)"
  "mn_parent (node (del_child a k fs) b) = mn_parent (node fs b)"
  "mn_name (node (del_child a k fs) b) = mn_name (node fs b)"
  by (simp_all add: del_child_def)

lemma unlink_view:
  assumes "wf_fs fs" and "locate fs ps = Some p"
  shows "view (del_child p k fs) = a_remove (ps @ [k]) (view fs)"
proof
  fix qs
  have "locate (del_child p k fs) qs = (if prefix (ps @ [k]) qs then None else locate fs qs)"
    using mem.walk_detach [OF assms(1), of ps p k qs] assms(2) by (simp add: locate_def)
  moreover have "entry_of (node (del_child p k fs) b) = entry_of (node fs b)" for b
    by (simp add: entry_of_def)
  ultimately show "view (del_child p k fs) qs = a_remove (ps @ [k]) (view fs) qs"
    by (simp add: view_def a_remove_def)
qed

lemma Unlink_spec:
  assumes wf: "wf_fs fs" and l: "linked fs h (ps @ [k]) a" and d: "\<not> fs_discardWrites fs"
  shows "\<exists>fs'. Unlink h fs = (Ok (), fs') \<and> wf_fs fs' \<and> view fs' = a_remove (ps @ [k]) (view fs)"
proof -
  obtain f where f: "fs_openFiles fs h = Some f" "of_node f = a" using linkedD(1) [OF l] by blast
  obtain p where p: "locate fs ps = Some p" "mn_parent (node fs a) = Some p" "mn_name (node fs a) = k"
    using linked_edge [OF wf linkedD(2) [OF l]] by blast
  have "Unlink h fs = (Ok (), del_child p k fs)"
    using f p d by (simp add: Unlink_def with_open_def)
  with del_child_wf [OF wf] unlink_view [OF wf p(1)] show ?thesis by auto
qed

text \<open>Repointing the up link of a node nothing leads to.\<close>

lemma relink_wf:
  assumes wf: "wf_fs fs" and in_: "\<And>b k. child_of fs b k \<noteq> Some a" and r: "a \<noteq> fs_root fs"
    and t: "t < fs_next fs"
  shows "wf_fs (set_node a ((node fs a)\<lparr>mn_name := k, mn_parent := Some t\<rparr>) fs)" (is "wf_fs ?fs")
    and "child_of (set_node a ((node fs a)\<lparr>mn_name := k, mn_parent := Some t\<rparr>) fs) = child_of fs"
proof -
  show ch: "child_of ?fs = child_of fs" by (intro ext) (simp add: child_of_def)
  have "node_ok ?fs b" for b
  proof -
    have "edge_ok ?fs b j c" if "child_of fs b j = Some c" for j c
      using wf_child(1,4,5) [OF wf that] in_ [of b j] that by (auto simp: edge_ok_def)
    moreover have "dir_ok (node ?fs b)"
      using wf_dir_ok [OF wf, of b] wf_dir_ok [OF wf, of a] by (auto simp: dir_ok_def)
    ultimately show ?thesis
      using wf_fsD(6) [OF wf, of b] t unfolding node_ok_def ch by auto
  qed
  then show "wf_fs ?fs" using wf r unfolding wf_fs_def by auto
qed

lemma no_edge_to:
  assumes wf: "wf_fs fs"
  shows "mn_parent (node fs a) = None \<Longrightarrow> child_of fs b k \<noteq> Some a"
    and "mn_parent (node fs a) = Some p \<Longrightarrow>
      child_of (del_child p (mn_name (node fs a)) fs) b k \<noteq> Some a"
  using wf_child(4,5) [OF wf, of b k a] by (auto split: if_splits)

text \<open>The two states \<open>move_node\<close> passes through before it writes the new entry.\<close>

definition detached :: "nat \<Rightarrow> MemoryFS \<Rightarrow> MemoryFS" where
  "detached a fs = (case mn_parent (node fs a) of None \<Rightarrow> fs
     | Some old \<Rightarrow> del_child old (mn_name (node fs a)) fs)"

definition relinked :: "nat \<Rightarrow> string \<Rightarrow> nat \<Rightarrow> MemoryFS \<Rightarrow> MemoryFS" where
  "relinked a k t fs = set_node a ((node fs a)\<lparr>mn_name := k, mn_parent := Some t\<rparr>) fs"

lemma move_node_steps:
  "resolvePath (path_Dir (path_Clean toPath)) fs = Ok t \<Longrightarrow>
   move_node a toPath flags fs =
     (if child_of fs t (path_Base (path_Clean toPath)) \<noteq> None \<and> flags = 0
      then (Err DestinationExists, fs)
      else case put_child t (path_Base (path_Clean toPath)) a
                  (relinked a (path_Base (path_Clean toPath)) t (detached a fs)) of
             None \<Rightarrow> (Panic, relinked a (path_Base (path_Clean toPath)) t (detached a fs))
           | Some fs3 \<Rightarrow> (Ok (), fs3))"
  unfolding move_node_def Let_def detached_def relinked_def by simp

lemma detached_wf: "wf_fs fs \<Longrightarrow> wf_fs (detached a fs)"
  by (simp add: detached_def del_child_wf split: option.split)

lemma detached_sel [simp]:
  "fs_root (detached a fs) = fs_root fs" "fs_next (detached a fs) = fs_next fs"
  "fs_openFiles (detached a fs) = fs_openFiles fs" "fs_discardWrites (detached a fs) = fs_discardWrites fs"
  "mn_isDir (node (detached a fs) b) = mn_isDir (node fs b)"
  "mn_content (node (detached a fs) b) = mn_content (node fs b)"
  "mn_size (node (detached a fs) b) = mn_size (node fs b)"
  by (simp_all add: detached_def split: option.split)

lemma relinked_sel [simp]:
  "fs_root (relinked a k t fs) = fs_root fs" "fs_next (relinked a k t fs) = fs_next fs"
  "fs_openFiles (relinked a k t fs) = fs_openFiles fs"
  "fs_discardWrites (relinked a k t fs) = fs_discardWrites fs"
  "mn_isDir (node (relinked a k t fs) b) = mn_isDir (node fs b)"
  "mn_content (node (relinked a k t fs) b) = mn_content (node fs b)"
  "mn_size (node (relinked a k t fs) b) = mn_size (node fs b)"
  by (simp_all add: relinked_def)

lemma relinked_wf:
  assumes "wf_fs fs" and "a \<noteq> fs_root fs" and "t < fs_next fs"
  shows "wf_fs (relinked a k t (detached a fs))"
    and "child_of (relinked a k t (detached a fs)) = child_of (detached a fs)"
proof -
  have ne: "child_of (detached a fs) b j \<noteq> Some a" for b j
    using no_edge_to [OF assms(1), of a] by (cases "mn_parent (node fs a)") (simp_all add: detached_def)
  show "wf_fs (relinked a k t (detached a fs))"
    and "child_of (relinked a k t (detached a fs)) = child_of (detached a fs)"
    unfolding relinked_def by (rule relink_wf [OF detached_wf [OF assms(1)] ne]; use assms in simp)+
qed

lemma move_node_wf:
  assumes wf: "wf_fs fs" and a: "a \<noteq> fs_root fs" "a < fs_next fs"
  shows "wf_fs (snd (move_node a toPath flags fs))"
proof (cases "resolvePath (path_Dir (path_Clean toPath)) fs")
  case (Ok t)
  then have "\<exists>qs. locate fs qs = Some t"
    by (auto simp: resolvePath_locate split: option.splits)
  then have t: "t < fs_next fs" using locate_alloc [OF wf] by blast
  let ?k = "path_Base (path_Clean toPath)"
  have "edge_ok (relinked a ?k t (detached a fs)) t ?k a"
    using a(2) by (simp add: relinked_def edge_ok_def)
  with relinked_wf(1) [OF wf a(1) t] have "wf_fs fs3"
    if "put_child t ?k a (relinked a ?k t (detached a fs)) = Some fs3" for fs3
    using put_child_wf that by blast
  with relinked_wf(1) [OF wf a(1) t] wf show ?thesis
    unfolding move_node_steps [OF Ok] by (auto split: option.splits)
qed (use wf in \<open>simp_all add: move_node_def Let_def\<close>)

text \<open>A successful move of a linked node to a place outside it.\<close>

lemma move_node_spec:
  assumes wf: "wf_fs fs" and l: "locate fs (ps @ [j]) = Some a"
    and to: "path_elems toPath = ts @ [k]" and dir: "view fs ts = Some ADir"
    and out: "\<not> prefix (ps @ [j]) ts" and free: "view fs (ts @ [k]) = None \<or> flags \<noteq> 0"
  shows "\<exists>fs'. move_node a toPath flags fs = (Ok (), fs') \<and> wf_fs fs' \<and>
    view fs' = a_move (ps @ [j]) (ts @ [k]) (view fs) \<and> locate fs' (ts @ [k]) = Some a"
proof -
  let ?q = "path_Clean toPath"
  have "path_elems toPath = path_elems (path_Dir ?q) @ [path_Base ?q]"
    using Dir_Base_elems to by (metis append_is_Nil_conv not_Cons_self2)
  with to have el: "path_elems (path_Dir ?q) = ts" "path_Base ?q = k" by simp_all
  obtain t where t: "locate fs ts = Some t" "mn_isDir (node fs t)" using view_dirE [OF dir] by blast
  obtain p where p: "locate fs ps = Some p" "child_of fs p j = Some a"
      "mn_parent (node fs a) = Some p" "mn_name (node fs a) = j"
    using linked_edge [OF wf l] by blast
  have tl: "t < fs_next fs" using locate_alloc [OF wf t(1)] .
  have ar: "a \<noteq> fs_root fs" using p(3) wf_fsD(3) [OF wf] by auto
  have al: "a < fs_next fs" using locate_alloc [OF wf l] .
  have det: "detached a fs = del_child p j fs" using p(3,4) by (simp add: detached_def)
  let ?fs2 = "relinked a k t (detached a fs)"
  have wf2: "wf_fs ?fs2" and ch2: "child_of ?fs2 = child_of (del_child p j fs)"
    using relinked_wf [OF wf ar tl, of k] det by simp_all
  have "mn_isDir (node ?fs2 t)" using t(2) by simp
  then obtain fs3 where put: "put_child t k a ?fs2 = Some fs3"
    using put_child_defined [OF wf2] by blast
  have "child_of fs t k = None \<or> flags \<noteq> 0"
    using free t(1) by (auto simp: view_None_iff locate_snoc)
  moreover have rp: "resolvePath (path_Dir ?q) fs = Ok t" using t(1) el by (simp add: resolvePath_locate)
  ultimately have res: "move_node a toPath flags fs = (Ok (), fs3)"
    using put el move_node_steps [OF rp, of a flags] by auto
  have e: "edge_ok ?fs2 t k a" using al by (simp add: relinked_def edge_ok_def)
  have wf3: "wf_fs fs3" by (rule put_child_wf [OF wf2 put e])
  have sel: "fs_root fs3 = fs_root fs" "\<And>b. entry_of (node fs3 b) = entry_of (node fs b)"
    using put_child_sel [OF put] by (simp_all add: entry_of_def)
  have ch3: "child_of fs3 = (child_of (del_child p j fs))(t := (child_of (del_child p j fs) t)(k := Some a))"
    using child_of_put [OF put] ch2 by simp
  have loc: "locate fs3 qs = (if prefix (ts @ [k]) qs then locate fs (ps @ [j] @ drop (Suc (length ts)) qs)
      else if prefix (ps @ [j]) qs then None else locate fs qs)" for qs
    using mem.walk_move [OF wf _ p(2) _ out del_child_wf [OF wf] _ child_of_del, of t k qs]
      p(1) t(1) ch3 sel(1) by (simp add: locate_def)
  have v: "view fs3 = a_move (ps @ [j]) (ts @ [k]) (view fs)"
    by (intro ext) (simp add: view_def loc sel(2) a_move_def)
  have "locate fs3 (ts @ [k]) = Some a" using loc [of "ts @ [k]"] l by simp
  with res wf3 v show ?thesis by blast
qed

end
