(* ===== verification/Honeypot.thy ===== *)
theory Honeypot
  imports MemorySpec GhostLimits
begin

text \<open>
  Runs of the file system: every operation as a request, the state it leaves, and the step
  relation. The invariant holds in every state a run reaches as long as no client renames the
  root; in honeypot mode no client request changes the names, the directories or any stored bytes.
\<close>

section \<open>Requests and steps\<close>

datatype request =
    ROpen string int int | RClose u64 | RLookup u64 string | RGetAttr u64
  | RSetAttr u64 Attributes | RMkdir string int | RRead u64 nat u64 | RWrite u64 bytes u64
  | ROpenDir string | RReadDir u64 int int | RReadlink u64 | RUnlink u64 | RTruncate u64 u64
  | RRename u64 string int | RSymlink u64 string int | RLink u64 u64 string
  | RListxattr u64 | RGetxattr u64 string "nat option" | RSetxattr u64 string "bytes option"
  | RRemovexattr u64 string | RStatFS u64 | RFSync u64 | RFlush u64
  | RSetContext "OperationContext option"
  | HAddFile string bytes u32 | HAddDirectory string u32 | HSetDiscard bool
  | HCleanup | HGhostLimits int int int

fun exec :: "env \<Rightarrow> request \<Rightarrow> MemoryFS \<Rightarrow> MemoryFS" where
  "exec e (ROpen p flags mode) fs = snd (Open e p flags mode fs)"
| "exec e (RClose h) fs = snd (Close e h fs)"
| "exec e (RLookup h name) fs = snd (Lookup h name fs)"
| "exec e (RGetAttr h) fs = snd (GetAttr h fs)"
| "exec e (RSetAttr h a) fs = snd (SetAttr h a fs)"
| "exec e (RMkdir p mode) fs = snd (Mkdir e p mode fs)"
| "exec e (RRead h n off) fs = snd (Read h n off 0 fs)"
| "exec e (RWrite h buf off) fs = snd (Write e h buf off 0 fs)"
| "exec e (ROpenDir p) fs = snd (OpenDir e p fs)"
| "exec e (RReadDir h pos n) fs = snd (ReadDir id h pos n fs)"
| "exec e (RReadlink h) fs = snd (Readlink h fs)"
| "exec e (RUnlink h) fs = snd (Unlink h fs)"
| "exec e (RTruncate h sz) fs = snd (Truncate e h sz fs)"
| "exec e (RRename h p flags) fs = snd (Rename e h p flags fs)"
| "exec e (RSymlink h src flag) fs = snd (Symlink h src flag fs)"
| "exec e (RLink a b name) fs = snd (Link a b name fs)"
| "exec e (RListxattr h) fs = snd (Listxattr id h fs)"
| "exec e (RGetxattr h k buf) fs = snd (Getxattr h k buf fs)"
| "exec e (RSetxattr h k v) fs = snd (Setxattr h k v fs)"
| "exec e (RRemovexattr h k) fs = snd (Removexattr h k fs)"
| "exec e (RStatFS h) fs = snd (StatFS h fs)"
| "exec e (RFSync h) fs = snd (FSync h fs)"
| "exec e (RFlush h) fs = snd (Flush h fs)"
| "exec e (RSetContext c) fs = SetOperationContext e c fs"
| "exec e (HAddFile p content mode) fs = snd (AddFile e p content mode fs)"
| "exec e (HAddDirectory p mode) fs = snd (AddDirectory e p fs)"
| "exec e (HSetDiscard b) fs = SetDiscardWrites b fs"
| "exec e HCleanup fs = fs\<lparr>fs_ghosts := cleanupGhostFiles (e_now e) (fs_ghosts fs)\<rparr>"
| "exec e (HGhostLimits a b c) fs = fs\<lparr>fs_ghosts := SetGhostFileLimits a b c (fs_ghosts fs)\<rparr>"

text \<open>A client speaks through a handle or a path; the others are calls of the host program.\<close>

fun from_client :: "request \<Rightarrow> bool" where
  "from_client (HAddFile p content mode) = False"
| "from_client (HAddDirectory p mode) = False"
| "from_client (HSetDiscard b) = False"
| "from_client r = True"

text \<open>The request does not rename the root, and a host's path has an element.\<close>

definition keeps_root :: "request \<Rightarrow> MemoryFS \<Rightarrow> bool" where
  "keeps_root r fs = (case r of
     RRename h p flags \<Rightarrow>
       (case fs_openFiles fs h of None \<Rightarrow> True | Some f \<Rightarrow> of_node f \<noteq> fs_root fs)
   | _ \<Rightarrow> True)"

inductive fs_step :: "MemoryFS \<Rightarrow> MemoryFS \<Rightarrow> bool" where
  step: "keeps_root r fs \<Longrightarrow> fs_step fs (exec e r fs)"

inductive_cases fs_stepE: "fs_step fs fs'"

section \<open>The ghost registry only holds nodes it was given\<close>

lemma removeGhostFile_subset: "set (gs_files (removeGhostFile s p gs)) \<subseteq> set (gs_files gs)"
  by (auto simp: removeGhostFile_files)

lemma evictSession_subset:
  "evictSession n gs cm l = (gs', cm', l') \<Longrightarrow> set (gs_files gs') \<subseteq> set (gs_files gs)"
proof (induction n gs cm l rule: evictSession.induct)
  case (1 n gs cm l)
  show ?case
  proof (cases "(gs_maxFiles gs \<le> int (length l) \<or>
      (gs_maxMemory gs < wrap64 (cm + n) \<and> l \<noteq> [])) \<and> oldest l \<noteq> None")
    case False
    then have "evictSession n gs cm l = (gs, cm, l)"
      by (subst evictSession.simps) (auto split: option.splits)
    with 1(2) show ?thesis by simp
  next
    case True
    then obtain k g where o: "oldest l = Some (k, g)" by auto
    have "evictSession n (removeGhostFile (gf_sessionID g) (gf_path g) gs)
        (wrap64 (cm - gf_size g)) (remove1 (k, g) l) = (gs', cm', l')"
      using 1(2) True o by (subst (asm) evictSession.simps) (auto split: if_splits)
    from 1(1) [OF _ o refl this] True have
      "set (gs_files gs') \<subseteq> set (gs_files (removeGhostFile (gf_sessionID g) (gf_path g) gs))" by blast
    with removeGhostFile_subset show ?thesis by blast
  qed
qed

lemma evictGlobal_subset:
  assumes "evictGlobal n sid gs cm l g = Some r"
  shows "set (gs_files (fst r)) \<subseteq> set (gs_files gs)"
proof (rule evictGlobal.raw_induct [OF _ assms, where P = "\<lambda>n sid gs cm l g r.
    set (gs_files (fst r)) \<subseteq> set (gs_files gs)"], goal_cases)
  case (1 ev n sid gs cm l g r)
  show ?case
  proof (cases "gs_maxGlobal gs < wrap64 (g + n) \<and> 0 < g")
    case False
    then show ?thesis using 1(2) by auto
  next
    case True
    show ?thesis
    proof (cases "oldest (gs_files gs)")
      case None
      with 1(2) True show ?thesis by auto
    next
      case (Some kg)
      have "set (gs_files (fst r)) \<subseteq>
          set (gs_files (removeGhostFile (gf_sessionID (snd kg)) (gf_path (snd kg)) gs))"
        by (rule 1(1)) (use 1(2) True Some in simp)
      with removeGhostFile_subset show ?thesis by blast
    qed
  qed
qed

lemma set_update: "set (AList.update k v xs) \<subseteq> insert (k, v) (set xs)"
  by (induction xs) auto

lemma addGhostFile_nodes:
  assumes "addGhostFile ctx now path n sz gs = Some gs'" and "x \<in> set (gs_files gs')"
  shows "x \<in> set (gs_files gs) \<or> gf_node (snd x) = n"
proof (cases ctx)
  case None
  with assms show ?thesis by (simp add: addGhostFile_def)
next
  case (Some c)
  let ?cm = "case gs_usage gs (oc_SessionID c) of None \<Rightarrow> 0 | Some v \<Rightarrow> v"
  let ?l = "sessionFiles (oc_SessionID c) (gs_files gs)"
  obtain gs1 cm1 l1 where e1: "evictSession (sint sz) gs ?cm ?l = (gs1, cm1, l1)"
    by (cases "evictSession (sint sz) gs ?cm ?l")
  with assms(1) Some obtain gs2 cm2 l2 where
    e2: "evictGlobal (sint sz) (oc_SessionID c) gs1 cm1 l1 (gs_global gs1) = Some (gs2, cm2, l2)" and
    g: "gs' = storeGhost c now path n (sint sz) cm2 gs2"
    by (auto simp: addGhostFile_def Let_def split: option.splits)
  have "set (gs_files gs2) \<subseteq> set (gs_files gs)"
    using evictSession_subset [OF e1] evictGlobal_subset [OF e2] by auto
  moreover have "x \<in> set (gs_files gs2) \<or> gf_node (snd x) = n"
    using assms(2) set_update unfolding g storeGhost_def by fastforce
  ultimately show ?thesis by blast
qed

lemma cleanup_subset: "set (gs_files (cleanupGhostFiles now gs)) \<subseteq> set (gs_files gs)"
proof -
  have "set (gs_files (foldl (\<lambda>s (k, g). if expirationTime < now - gf_lastAccess g
      then removeGhostFile (gf_sessionID g) (gf_path g) s else s) gs xs)) \<subseteq> set (gs_files gs)" for xs
  proof (induction xs rule: rev_induct)
    case (snoc x xs)
    then show ?case
      by (cases x) (auto dest: removeGhostFile_subset [THEN subsetD])
  qed simp
  then show ?thesis by (simp add: cleanupGhostFiles_def)
qed

lemma touch_nodes: "x \<in> set (touch key now xs) \<Longrightarrow> \<exists>y \<in> set xs. gf_node (snd x) = gf_node (snd y)"
proof -
  assume "x \<in> set (touch key now xs)"
  then obtain k g where "(k, g) \<in> set xs" "gf_node (snd x) = gf_node g"
    by (auto simp: touch_def split: if_splits)
  then show ?thesis by (intro bexI [of _ "(k, g)"]) simp_all
qed

definition ghost_nodes_below :: "nat \<Rightarrow> GhostState \<Rightarrow> bool" where
  "ghost_nodes_below n gs \<longleftrightarrow> (\<forall>x \<in> set (gs_files gs). gf_node (snd x) < n)"

lemma getGhostFile_nodes:
  assumes "getGhostFile ctx now path gs = (r, gs')" and "ghost_nodes_below n gs"
  shows "ghost_nodes_below n gs'" and "\<And>g. r = Some g \<Longrightarrow> gf_node g < n"
proof -
  have "ghost_nodes_below n (gs\<lparr>gs_files := touch key now (gs_files gs)\<rparr>)" for key
    using assms(2) touch_nodes by (fastforce simp: ghost_nodes_below_def)
  then show "ghost_nodes_below n gs'"
    using assms by (auto simp: getGhostFile_def Let_def split: option.splits)
  fix g
  assume "r = Some g"
  then obtain k h where "map_of (gs_files gs) k = Some h" "gf_node g = gf_node h"
    using assms(1) by (auto simp: getGhostFile_def Let_def split: option.splits)
  then show "gf_node g < n"
    using assms(2) map_of_SomeD [of "gs_files gs" k h] by (fastforce simp: ghost_nodes_below_def)
qed

lemma wf_ghosts: "wf_fs fs \<Longrightarrow> ghost_nodes_below (fs_next fs) (fs_ghosts fs)"
  by (simp add: wf_fs_def ghost_nodes_below_def)

section \<open>Every step keeps the node store well formed\<close>

lemma attach_wf:
  assumes "wf_fs fs" and "p < fs_next fs" and "leaf_node n" "mn_parent n = Some p" "mn_name n = k"
    and "alloc n fs = (a, fs1)"
  shows "wf_fs (fs1\<lparr>fs_nextInode := i\<rparr>)"
    and "put_child p k a (fs1\<lparr>fs_nextInode := i\<rparr>) = Some fs2 \<Longrightarrow> wf_fs fs2"
proof -
  show wf1: "wf_fs (fs1\<lparr>fs_nextInode := i\<rparr>)"
    by (rule inode_wf, rule alloc_wf [OF assms(1,3,6)]) (use assms(2,4) in simp)
  have "edge_ok (fs1\<lparr>fs_nextInode := i\<rparr>) p k a"
    using alloc_eqs [OF assms(6)] assms(4,5) by (simp add: edge_ok_def)
  then show "put_child p k a (fs1\<lparr>fs_nextInode := i\<rparr>) = Some fs2 \<Longrightarrow> wf_fs fs2"
    using put_child_wf [OF wf1] by blast
qed

lemma getOrCreate_wf:
  assumes "wf_fs fs" and "getOrCreateDirPath e p fs = (r, fs')"
  shows "wf_fs fs'" and "r = Ok d \<Longrightarrow> d < fs_next fs'" and "r \<noteq> Panic" and "r \<noteq> Deadlock"
  using mkdirs_root_spec [OF assms(1), of "e_now e" "path_elems p"] assms locate_alloc
  by (auto simp: getOrCreateDirPath_mkdirs)

lemma AddFile_wf [inv_intros]:
  assumes "wf_fs fs"
  shows "wf_fs (snd (AddFile e p content mode fs))"
proof (cases "path_Clean p = ''/''")
  case True
  with assms show ?thesis by (simp add: AddFile_def)
next
  case False
  let ?q = "path_Clean p"
  obtain r fs1 where g: "getOrCreateDirPath e (path_Dir ?q) fs = (r, fs1)"
    by (cases "getOrCreateDirPath e (path_Dir ?q) fs")
  note G = getOrCreate_wf [OF assms g]
  show ?thesis
  proof (cases r)
    case (Ok d)
    let ?n = "file_node (path_Base ?q) content (Some d) (fs_nextInode fs1) mode (e_now e)"
    obtain a fs2 where al: "alloc ?n fs1 = (a, fs2)" by (cases "alloc ?n fs1")
    have n: "leaf_node ?n" "mn_parent ?n = Some d" "mn_name ?n = path_Base ?q"
      by (simp_all add: file_node_def leaf_node_def)
    from attach_wf [OF G(1) G(2) [OF Ok] n al] False g Ok al show ?thesis
      by (simp add: AddFile_def Let_def split: option.split)
  qed (use False g G in \<open>simp_all add: AddFile_def\<close>)
qed

lemma AddDirectory_wf [inv_intros]: "wf_fs fs \<Longrightarrow> wf_fs (snd (AddDirectory e p fs))"
  using AddDirectory_spec [of fs e p] by auto

lemma resolve_alloc: "wf_fs fs \<Longrightarrow> resolvePath p fs = Ok a \<Longrightarrow> a < fs_next fs"
  using locate_alloc by (auto simp: resolvePath_locate split: option.splits)

lemma make_directory_wf [inv_intros]:
  assumes "wf_fs fs"
  shows "wf_fs (snd (make_directory e p mode fs))"
proof (cases "resolvePath (path_Dir (path_Clean p)) fs")
  case (Ok d)
  let ?k = "path_Base (path_Clean p)"
  let ?n = "dir_node ?k (Some d) (fs_nextInode fs) (word_of_int mode) (e_now e)"
  obtain a fs1 where al: "alloc ?n fs = (a, fs1)" by (cases "alloc ?n fs")
  have n: "leaf_node ?n" "mn_parent ?n = Some d" "mn_name ?n = ?k"
    by (simp_all add: dir_node_def leaf_node_def)
  from attach_wf [OF assms resolve_alloc [OF assms Ok] n al] Ok al assms show ?thesis
    by (simp add: make_directory_def Let_def split: option.split)
qed (use assms in \<open>simp_all add: make_directory_def Let_def\<close>)

lemma open_handle_wf [inv_intros]:
  "wf_fs fs \<Longrightarrow> a < fs_next fs \<Longrightarrow> wf_fs (snd (open_handle e a p d fs))"
  by (simp add: open_handle_def store_open_wf)

lemma open_dummy_wf [inv_intros]: "wf_fs fs \<Longrightarrow> wf_fs (snd (open_dummy e p mode fs))"
proof -
  assume wf: "wf_fs fs"
  let ?n = "file_node (path_Base p) [] None 999999 (word_of_int mode) (e_now e)"
  obtain a fs1 where al: "alloc ?n fs = (a, fs1)" by (cases "alloc ?n fs")
  have "wf_fs fs1" by (rule alloc_wf [OF wf _ al]) (simp_all add: file_node_def leaf_node_def)
  moreover have "a < fs_next fs1" using alloc_eqs [OF al] by simp
  ultimately show ?thesis using al by (simp add: open_dummy_def open_handle_wf)
qed

lemma intercept_snd:
  "snd (intercept ctx r blocked go fs) \<in> {fs, snd blocked, snd go}"
  by (simp add: intercept_def split: option.split)

lemma intercept_keeps: "P fs \<Longrightarrow> P (snd blocked) \<Longrightarrow> P (snd go) \<Longrightarrow> P (snd (intercept ctx r blocked go fs))"
  using intercept_snd [of ctx r blocked go fs] by auto

lemma with_open_keeps:
  "P fs \<Longrightarrow> (\<And>f. fs_openFiles fs h = Some f \<Longrightarrow> P (snd (k f))) \<Longrightarrow> P (snd (with_open h fs k))"
  by (simp add: with_open_def split: option.split)

lemma create_and_open_wf [inv_intros]: "wf_fs fs \<Longrightarrow> wf_fs (snd (create_and_open e p mode fs))"
proof -
  assume "wf_fs fs"
  then have wf1: "wf_fs (snd (AddFile e p [] (word_of_int mode) fs))" by (rule AddFile_wf)
  obtain r fs1 where a: "AddFile e p [] (word_of_int mode) fs = (r, fs1)"
    by (cases "AddFile e p [] (word_of_int mode) fs")
  show ?thesis
  proof (cases r)
    case (Ok u)
    with a wf1 resolve_alloc [of fs1 p] show ?thesis
      by (auto simp: create_and_open_def intro!: open_handle_wf split: outcome.split)
  qed (use a wf1 in \<open>simp_all add: create_and_open_def\<close>)
qed

lemma Open_wf [inv_intros]:
  assumes wf: "wf_fs fs"
  shows "wf_fs (snd (Open e p flags mode fs))"
proof (cases "resolvePath p fs")
  case (Ok a)
  with open_handle_wf [OF wf resolve_alloc [OF wf Ok]] show ?thesis by (simp add: Open_def Let_def)
next
  case (Err err)
  show ?thesis
  proof (cases "flags AND 0x40 \<noteq> 0")
    case True
    then show ?thesis
      using Err open_dummy_wf [OF wf, of e p mode] create_and_open_wf [OF wf, of e p mode] wf
      by (auto simp: Open_def Let_def intro!: intercept_keeps [where P = wf_fs] split: option.split)
  next
    case False
    obtain r gs where g: "getGhostFile (getOperationContext e fs) (e_now e) p (fs_ghosts fs) = (r, gs)"
      by (cases "getGhostFile (getOperationContext e fs) (e_now e) p (fs_ghosts fs)")
    note G = getGhostFile_nodes [OF g wf_ghosts [OF wf]]
    show ?thesis
    proof (cases r)
      case None
      with False Err g wf show ?thesis by (simp add: Open_def Let_def)
    next
      case (Some h)
      have "wf_fs (fs\<lparr>fs_ghosts := gs\<rparr>)" using ghosts_wf [OF wf] G(1) by (simp add: ghost_nodes_below_def)
      from open_handle_wf [OF this, of "gf_node h" e p] G(2) [OF Some] False Err g Some
      show ?thesis by (simp add: Open_def Let_def)
    qed
  qed
qed (use wf in \<open>simp_all add: Open_def Let_def\<close>)

lemma Close_wf [inv_intros]:
  assumes wf: "wf_fs fs"
  shows "wf_fs (snd (Close e h fs))"
  unfolding Close_def
proof (rule with_open_keeps [where P = wf_fs, OF wf])
  fix f
  assume f: "fs_openFiles fs h = Some f"
  let ?ctx = "getOperationContext e fs"
  obtain r gs where g: "getGhostFile ?ctx (e_now e) (of_path f) (fs_ghosts fs) = (r, gs)"
    by (cases "getGhostFile ?ctx (e_now e) (of_path f) (fs_ghosts fs)")
  have b: "ghost_nodes_below (fs_next fs) gs" using getGhostFile_nodes(1) [OF g wf_ghosts [OF wf]] .
  have "wf_fs (delete_open h (fs\<lparr>fs_ghosts := gs\<rparr>))"
    using b by (intro delete_open_wf ghosts_wf [OF wf]) (simp add: ghost_nodes_below_def)
  moreover have "wf_fs (delete_open h (fs\<lparr>fs_ghosts := gs1\<rparr>))"
    if "addGhostFile ?ctx (e_now e) (of_path f) (of_node f) (mn_size (node fs (of_node f))) gs = Some gs1" for gs1
  proof (intro delete_open_wf ghosts_wf [OF wf] ballI)
    fix x
    assume "x \<in> set (gs_files gs1)"
    from addGhostFile_nodes [OF that this] b wf_fsD(8) [OF wf f]
    show "gf_node (snd x) < fs_next fs" by (auto simp: ghost_nodes_below_def)
  qed
  moreover have "wf_fs (delete_open h fs)" using wf by (rule delete_open_wf)
  ultimately show "wf_fs (snd (if fs_discardWrites fs
     then case getGhostFile ?ctx (e_now e) (of_path f) (fs_ghosts fs) of
        (None, gs) \<Rightarrow> (case addGhostFile ?ctx (e_now e) (of_path f) (of_node f)
                      (mn_size (node fs (of_node f))) gs of
             None \<Rightarrow> (Deadlock, fs)
           | Some gs1 \<Rightarrow> (Ok (), delete_open h (fs\<lparr>fs_ghosts := gs1\<rparr>)))
      | (Some g, gs) \<Rightarrow> (Ok (), delete_open h (fs\<lparr>fs_ghosts := gs\<rparr>))
     else (Ok (), delete_open h fs)))"
    using g wf by (simp split: option.split)
qed

text \<open>The operations that only write fields of a node other than its links.\<close>

lemma same_links_refl [simp]: "same_links n n"
  by (simp add: same_links_def)

lemma same_links_updates [simp]:
  "same_links n (n\<lparr>mn_size := s, mn_mtime := t\<rparr>)"
  "same_links n (n\<lparr>mn_spare := sp, mn_size := s, mn_content := c, mn_mtime := t\<rparr>)"
  "same_links n (n\<lparr>mn_content := c, mn_mtime := t\<rparr>)"
  "same_links n (n\<lparr>mn_content := c, mn_spare := sp, mn_size := s, mn_mtime := t\<rparr>)"
  "same_links n (n\<lparr>mn_isSymlink := b, mn_symlinkTo := src\<rparr>)"
  "same_links n (n\<lparr>mn_xattrs := xs\<rparr>)"
  "same_links n (apply_attributes a n)"
  by (simp_all add: same_links_def apply_attributes_def set_if_def)

text \<open>A call that stores a node with the same links, or nothing.\<close>

definition field_call :: "nat \<Rightarrow> MemoryFS \<Rightarrow> MemoryFS \<Rightarrow> bool" where
  "field_call a fs fs' \<longleftrightarrow> fs' = fs \<or> (\<exists>n. fs' = set_node a n fs \<and> same_links (node fs a) n)"

lemma field_call_wf: "wf_fs fs \<Longrightarrow> field_call a fs fs' \<Longrightarrow> wf_fs fs'"
  by (auto simp: field_call_def intro: set_node_wf)

lemma field_calls:
  "field_call a fs (snd (write_node e a buf off fs))"
  "field_call a fs (snd (discard_write e a buf off fs))"
  "field_call a fs (snd (truncate_node e a sz fs))"
proof -
  show "field_call a fs (snd (write_node e a buf off fs))"
    unfolding write_node_def Let_def field_call_def by (auto simp: same_links_def)
  show "field_call a fs (snd (discard_write e a buf off fs))"
    unfolding discard_write_def Let_def field_call_def by (auto simp: same_links_def)
  show "field_call a fs (snd (truncate_node e a sz fs))"
    unfolding truncate_node_def Let_def field_call_def by (auto simp: same_links_def)
qed

lemma context_wf [inv_intros]: "wf_fs fs \<Longrightarrow> wf_fs (SetOperationContext e c fs)"
  and discard_wf [inv_intros]: "wf_fs fs \<Longrightarrow> wf_fs (SetDiscardWrites b fs)"
proof -
  have c1: "child_of (fs\<lparr>fs_contextMap := m\<rparr>) = child_of fs" for m by (intro ext) (simp add: child_of_def)
  have c2: "child_of (fs\<lparr>fs_discardWrites := b\<rparr>) = child_of fs" by (intro ext) (simp add: child_of_def)
  show "wf_fs fs \<Longrightarrow> wf_fs (SetOperationContext e c fs)"
    unfolding SetOperationContext_def wf_fs_def node_ok_def edge_ok_def c1 by simp
  show "wf_fs fs \<Longrightarrow> wf_fs (SetDiscardWrites b fs)"
    unfolding SetDiscardWrites_def wf_fs_def node_ok_def edge_ok_def c2 by simp
qed

lemma field_request_wf:
  assumes wf: "wf_fs fs"
  shows "wf_fs (snd (SetAttr h a fs))" "wf_fs (snd (Write e h buf off flags fs))"
    "wf_fs (snd (Truncate e h sz fs))" "wf_fs (snd (Symlink h src flag fs))"
    "wf_fs (snd (Setxattr h k v fs))" "wf_fs (snd (Removexattr h k fs))"
proof -
  note F = field_call_wf [OF wf] set_node_wf [OF wf]
  show "wf_fs (snd (SetAttr h a fs))"
    using wf by (auto simp: SetAttr_def Let_def intro!: with_open_keeps [where P = wf_fs] F(2))
  show "wf_fs (snd (Write e h buf off flags fs))"
    using wf F(1) [OF field_calls(1)] F(1) [OF field_calls(2)]
    by (auto simp: Write_def Let_def intro!: with_open_keeps [where P = wf_fs]
        intercept_keeps [where P = wf_fs] split: option.split)
  show "wf_fs (snd (Truncate e h sz fs))"
    using wf F(1) [OF field_calls(3)]
    by (auto simp: Truncate_def intro!: with_open_keeps [where P = wf_fs])
  show "wf_fs (snd (Symlink h src flag fs))"
    using wf by (auto simp: Symlink_def intro!: with_open_keeps [where P = wf_fs] F(2))
  show "wf_fs (snd (Setxattr h k v fs))"
    using wf by (auto simp: Setxattr_def Let_def intro!: with_open_keeps [where P = wf_fs] F(2))
  show "wf_fs (snd (Removexattr h k fs))"
    using wf by (auto simp: Removexattr_def Let_def intro!: with_open_keeps [where P = wf_fs] F(2))
qed

text \<open>The operations that read, and those that store an open.\<close>

lemma read_only:
  "snd (Lookup h name fs) = fs" "snd (GetAttr h fs) = fs" "snd (Read h n off flags fs) = fs"
  "snd (Readlink h fs) = fs" "snd (Link a b name fs) = fs" "snd (Listxattr order h fs) = fs"
  "snd (Getxattr h k buf fs) = fs" "snd (StatFS h fs) = fs" "snd (FSync h fs) = fs"
  "snd (Flush h fs) = fs"
  by (auto simp: Lookup_def GetAttr_def Read_def Readlink_def Link_def Listxattr_def Getxattr_def
      StatFS_def FSync_def Flush_def with_open_def Let_def split: option.split outcome.split)

lemma open_request_wf:
  assumes wf: "wf_fs fs"
  shows "wf_fs (snd (OpenDir e p fs))" "wf_fs (snd (ReadDir order h pos n fs))"
    "wf_fs (snd (Mkdir e p mode fs))" "wf_fs (snd (Unlink h fs))"
proof -
  show "wf_fs (snd (OpenDir e p fs))"
  proof (cases "resolvePath p fs")
    case (Ok a)
    with open_handle_wf [OF wf resolve_alloc [OF wf Ok]] wf show ?thesis by (simp add: OpenDir_def)
  qed (use wf in \<open>simp_all add: OpenDir_def\<close>)
  show "wf_fs (snd (ReadDir order h pos n fs))"
    using wf wf_fsD(8) [OF wf]
    by (auto simp: ReadDir_def Let_def intro!: with_open_keeps [where P = wf_fs] store_open_wf)
  show "wf_fs (snd (Mkdir e p mode fs))"
    using wf make_directory_wf [OF wf]
    by (auto simp: Mkdir_def Let_def intro!: intercept_keeps [where P = wf_fs] split: option.split)
  show "wf_fs (snd (Unlink h fs))"
    using wf del_child_wf [OF wf]
    by (auto simp: Unlink_def intro!: with_open_keeps [where P = wf_fs] split: option.split)
qed

lemma Rename_wf:
  assumes wf: "wf_fs fs" and "keeps_root (RRename h p flags) fs"
  shows "wf_fs (snd (Rename e h p flags fs))"
  unfolding Rename_def
proof (rule with_open_keeps [where P = wf_fs, OF wf])
  fix f
  assume f: "fs_openFiles fs h = Some f"
  then have "of_node f \<noteq> fs_root fs" using assms(2) by (simp add: keeps_root_def)
  then have "wf_fs (snd (move_node (of_node f) p flags fs))"
    using move_node_wf [OF wf] wf_fsD(8) [OF wf f] by blast
  with wf show "wf_fs (snd (let go = if fs_discardWrites fs then (Ok (), fs)
                 else move_node (of_node f) p flags fs; ctx = getOperationContext e fs
        in case fs_renameCallback fs of None \<Rightarrow> go
           | Some callback \<Rightarrow> intercept ctx (callback ctx (of_path f) p) (Ok (), fs) go fs))"
    by (auto simp: Let_def intro!: intercept_keeps [where P = wf_fs] split: option.split)
qed

lemma ghost_requests_wf:
  assumes wf: "wf_fs fs"
  shows "wf_fs (fs\<lparr>fs_ghosts := cleanupGhostFiles now (fs_ghosts fs)\<rparr>)"
    and "wf_fs (fs\<lparr>fs_ghosts := SetGhostFileLimits a b c (fs_ghosts fs)\<rparr>)"
proof -
  have "ghost_nodes_below (fs_next fs) (fs_ghosts fs)" using wf_ghosts [OF wf] .
  then show "wf_fs (fs\<lparr>fs_ghosts := cleanupGhostFiles now (fs_ghosts fs)\<rparr>)"
    and "wf_fs (fs\<lparr>fs_ghosts := SetGhostFileLimits a b c (fs_ghosts fs)\<rparr>)"
    using cleanup_subset by (auto simp: ghost_nodes_below_def SetGhostFileLimits_def intro!: ghosts_wf [OF wf])
qed

lemma exec_wf:
  assumes "wf_fs fs" and "keeps_root r fs"
  shows "wf_fs (exec e r fs)"
  using assms Open_wf Close_wf field_request_wf open_request_wf Rename_wf AddFile_wf
    AddDirectory_wf context_wf discard_wf ghost_requests_wf
  by (cases r) (simp_all add: read_only)

section \<open>Honeypot mode leaves the tree and the contents alone\<close>

text \<open>Everything a path shows, the links and the contents of all nodes allocated so far.\<close>

definition frozen :: "MemoryFS \<Rightarrow> MemoryFS \<Rightarrow> bool" where
  "frozen fs fs' \<longleftrightarrow> child_of fs' = child_of fs \<and> fs_root fs' = fs_root fs \<and>
     fs_next fs \<le> fs_next fs' \<and> fs_discardWrites fs' = fs_discardWrites fs \<and>
     (\<forall>a < fs_next fs. entry_of (node fs' a) = entry_of (node fs a))"

lemma frozen_refl [simp]: "frozen fs fs"
  by (simp add: frozen_def)

lemma frozen_trans: "frozen a b \<Longrightarrow> frozen b c \<Longrightarrow> frozen a c"
  unfolding frozen_def by (metis order_less_le_trans order_trans)

lemma frozen_view: "wf_fs fs \<Longrightarrow> frozen fs fs' \<Longrightarrow> view fs' = view fs"
  using locate_alloc by (intro view_cong) (auto simp: frozen_def)

lemma frozen_set_node:
  "same_links (node fs a) n \<Longrightarrow> mn_content n = mn_content (node fs a) \<Longrightarrow> frozen fs (set_node a n fs)"
  using child_of_same_links [of fs a n] by (simp add: frozen_def entry_of_def same_links_def)

lemma child_of_store_open [simp]: "child_of (store_open h f fs) = child_of fs"
  by (intro ext) (simp add: child_of_def store_open_def)

lemma frozen_open_handle: "frozen fs (snd (open_handle e a p d fs))"
  by (simp add: open_handle_def frozen_def) (simp add: store_open_def)

lemma frozen_dummy:
  assumes "wf_fs fs"
  shows "frozen fs (snd (open_dummy e p mode fs))"
proof -
  let ?n = "file_node (path_Base p) [] None 999999 (word_of_int mode) (e_now e)"
  obtain a fs1 where al: "alloc ?n fs = (a, fs1)" by (cases "alloc ?n fs")
  have "frozen fs fs1"
    using child_of_alloc [OF assms _ al] alloc_eqs [OF al] by (simp add: frozen_def)
  then show ?thesis
    using al frozen_trans [OF _ frozen_open_handle] by (simp add: open_dummy_def)
qed

lemma frozen_ghosts: "frozen fs (fs\<lparr>fs_ghosts := gs\<rparr>)"
  by (simp add: frozen_def)

lemma frozen_delete_open: "frozen fs (delete_open h (fs\<lparr>fs_ghosts := gs\<rparr>))"
  by (simp add: frozen_def) (simp add: delete_open_def)

lemma frozen_Open: "wf_fs fs \<Longrightarrow> fs_discardWrites fs \<Longrightarrow> frozen fs (snd (Open e p flags mode fs))"
  using frozen_dummy [of fs e p mode] frozen_open_handle frozen_trans [OF frozen_ghosts frozen_open_handle]
  by (auto simp: Open_def Let_def intro!: intercept_keeps [where P = "frozen fs"]
      split: outcome.split option.split prod.split)

lemma frozen_Close: "fs_discardWrites fs \<Longrightarrow> frozen fs (snd (Close e h fs))"
  using frozen_delete_open
  by (auto simp: Close_def intro!: with_open_keeps [where P = "frozen fs"] split: option.split prod.split)

lemma frozen_writes:
  assumes "fs_discardWrites fs"
  shows "frozen fs (snd (Write e h buf off flags fs))" "frozen fs (snd (Mkdir e p mode fs))"
    "frozen fs (snd (Unlink h fs))" "frozen fs (snd (Truncate e h sz fs))"
    "frozen fs (snd (Rename e h p fl fs))" "frozen fs (snd (Setxattr h k v fs))"
proof -
  have "frozen fs (snd (discard_write e a buf off fs))" for a
    by (auto simp: discard_write_def Let_def same_links_def intro!: frozen_set_node)
  with assms show "frozen fs (snd (Write e h buf off flags fs))"
    by (auto simp: Write_def Let_def intro!: with_open_keeps [where P = "frozen fs"]
        intercept_keeps [where P = "frozen fs"] split: option.split)
  show "frozen fs (snd (Mkdir e p mode fs))" "frozen fs (snd (Unlink h fs))"
    "frozen fs (snd (Truncate e h sz fs))" "frozen fs (snd (Rename e h p fl fs))"
    "frozen fs (snd (Setxattr h k v fs))"
    using assms
    by (auto simp: Mkdir_def Unlink_def Truncate_def Rename_def Setxattr_def Let_def
        intro!: with_open_keeps [where P = "frozen fs"] intercept_keeps [where P = "frozen fs"]
        split: option.split)
qed

lemma frozen_fields:
  "frozen fs (snd (SetAttr h a fs))" "frozen fs (snd (Removexattr h k fs))"
  "frozen fs (snd (Symlink h src flag fs))" "frozen fs (snd (ReadDir order h pos n fs))"
  "frozen fs (snd (OpenDir e p fs))" "frozen fs (SetOperationContext e c fs)"
proof -
  show "frozen fs (snd (SetAttr h a fs))"
    by (auto simp: SetAttr_def Let_def intro!: with_open_keeps [where P = "frozen fs"] frozen_set_node)
      (simp add: apply_attributes_def set_if_def)
  show "frozen fs (snd (Removexattr h k fs))"
    by (auto simp: Removexattr_def Let_def intro!: with_open_keeps [where P = "frozen fs"] frozen_set_node)
  show "frozen fs (snd (Symlink h src flag fs))"
    by (auto simp: Symlink_def intro!: with_open_keeps [where P = "frozen fs"] frozen_set_node)
  have "frozen fs (store_open h f fs)" for f by (simp add: frozen_def) (simp add: store_open_def)
  then show "frozen fs (snd (ReadDir order h pos n fs))"
    by (auto simp: ReadDir_def Let_def intro!: with_open_keeps [where P = "frozen fs"])
  show "frozen fs (snd (OpenDir e p fs))"
    using frozen_open_handle by (auto simp: OpenDir_def split: outcome.split)
  have "child_of (SetOperationContext e c fs) = child_of fs"
    by (intro ext) (simp add: child_of_def SetOperationContext_def)
  then show "frozen fs (SetOperationContext e c fs)"
    by (simp add: frozen_def) (simp add: SetOperationContext_def)
qed

lemma exec_frozen:
  assumes "wf_fs fs" and "fs_discardWrites fs" and "from_client r"
  shows "frozen fs (exec e r fs)"
  using assms frozen_Open frozen_Close frozen_writes frozen_fields frozen_ghosts
  by (cases r) (simp_all add: read_only)

text \<open>In honeypot mode \<open>Rename\<close> only answers, so the invariant needs no side condition.\<close>

lemma exec_discard_wf:
  assumes "wf_fs fs" and "fs_discardWrites fs" and "from_client r"
  shows "wf_fs (exec e r fs)"
proof (cases "\<exists>h p flags. r = RRename h p flags")
  case True
  then obtain h p flags where r: "r = RRename h p flags" by blast
  have "snd (Rename e h p flags fs) = fs"
    using assms(2) intercept_snd [of _ _ "(Ok (), fs)" "(Ok (), fs)" fs]
    by (auto simp: Rename_def with_open_def Let_def split: option.split)
  with r assms(1) show ?thesis by simp
next
  case False
  then have "keeps_root r fs" by (auto simp: keeps_root_def split: request.split)
  with assms(1) show ?thesis by (rule exec_wf)
qed

end
