(* ===== verification/MemorySizes.thy ===== *)
theory MemorySizes
  imports Honeypot
begin

text \<open>
  While writes are not discarded, the size field of every node is the length of its content:
  each operation keeps it so, and then no read or truncation panics.
\<close>

lemma sizes_set_node [inv_intros]: "sizes_ok fs \<Longrightarrow> size_ok n \<Longrightarrow> sizes_ok (set_node a n fs)"
  by (simp add: sizes_ok_def)

lemma size_ok_literals [simp]:
  "size_ok (dir_node name p i m now)"
  "length content \<le> max_alloc \<Longrightarrow> size_ok (file_node name content p i m now)"
  by (simp_all add: size_ok_def dir_node_def file_node_def unat_of_nat max_alloc_def)

lemma sizes_alloc [inv_intros]: "sizes_ok fs \<Longrightarrow> size_ok n \<Longrightarrow> sizes_ok (snd (alloc n fs))"
  by (simp add: sizes_ok_def alloc_def)

lemma sizes_inode [inv_intros]: "sizes_ok (fs\<lparr>fs_nextInode := i\<rparr>) = sizes_ok fs"
  by (simp add: sizes_ok_def)

lemma sizes_put_child [inv_intros]: "sizes_ok fs \<Longrightarrow> put_child a k c fs = Some fs' \<Longrightarrow> sizes_ok fs'"
  by (simp add: sizes_ok_def size_ok_def put_child_sel)

lemma sizes_del_child [inv_intros]: "sizes_ok fs \<Longrightarrow> sizes_ok (del_child a k fs)"
  by (simp add: sizes_ok_def size_ok_def)

lemma sizes_store [inv_intros]:
  "sizes_ok (store_open h f fs) = sizes_ok fs" "sizes_ok (delete_open h fs) = sizes_ok fs"
  "sizes_ok (fs\<lparr>fs_ghosts := gs\<rparr>) = sizes_ok fs" "sizes_ok (SetOperationContext e c fs) = sizes_ok fs"
  "sizes_ok (SetDiscardWrites b fs) = sizes_ok fs"
  by (simp_all add: sizes_ok_def store_open_def delete_open_def SetOperationContext_def SetDiscardWrites_def)

text \<open>A fresh node put under a parent, as all constructors do it.\<close>

lemma sizes_attach:
  assumes "sizes_ok fs" and "size_ok n" and "alloc n fs = (a, fs1)"
  shows "sizes_ok (fs1\<lparr>fs_nextInode := i\<rparr>)"
    and "put_child p k c (fs1\<lparr>fs_nextInode := i\<rparr>) = Some fs2 \<Longrightarrow> sizes_ok fs2"
proof -
  show s: "sizes_ok (fs1\<lparr>fs_nextInode := i\<rparr>)"
    using sizes_alloc [OF assms(1,2)] assms(3) by (simp add: sizes_inode)
  show "put_child p k c (fs1\<lparr>fs_nextInode := i\<rparr>) = Some fs2 \<Longrightarrow> sizes_ok fs2"
    by (rule sizes_put_child [OF s])
qed

lemma mkdirs_sizes: "sizes_ok fs \<Longrightarrow> sizes_ok (snd (mkdirs now cur parts fs))"
proof (induction parts arbitrary: cur fs)
  case Nil
  then show ?case by simp
next
  case (Cons k ks)
  show ?case
  proof (cases "child_of fs cur k")
    case (Some c)
    with Cons show ?thesis by simp
  next
    case None
    let ?n = "dir_node k (Some cur) (fs_nextInode fs) 0x1ED now"
    obtain c fs1 where al: "alloc ?n fs = (c, fs1)" by (cases "alloc ?n fs")
    note A = sizes_attach [OF Cons.prems size_ok_literals(1) al]
    show ?thesis using None al A Cons.IH by (simp add: Let_def split: option.split)
  qed
qed

lemma AddFile_sizes:
  assumes "sizes_ok fs" and "length content \<le> max_alloc"
  shows "sizes_ok (snd (AddFile e p content mode fs))"
proof (cases "path_Clean p = ''/''")
  case True
  with assms show ?thesis by (simp add: AddFile_def)
next
  case False
  let ?q = "path_Clean p"
  obtain r fs1 where g: "getOrCreateDirPath e (path_Dir ?q) fs = (r, fs1)"
    by (cases "getOrCreateDirPath e (path_Dir ?q) fs")
  have s1: "sizes_ok fs1"
    using mkdirs_sizes [OF assms(1), of "e_now e" "fs_root fs" "path_elems (path_Dir ?q)"] g
    by (simp add: getOrCreateDirPath_mkdirs)
  show ?thesis
  proof (cases r)
    case (Ok d)
    let ?n = "file_node (path_Base ?q) content (Some d) (fs_nextInode fs1) mode (e_now e)"
    obtain a fs2 where al: "alloc ?n fs1 = (a, fs2)" by (cases "alloc ?n fs1")
    from sizes_attach [OF s1 size_ok_literals(2) [OF assms(2)] al] False g Ok al show ?thesis
      by (simp add: AddFile_def Let_def split: option.split)
  qed (use False g s1 in \<open>simp_all add: AddFile_def\<close>)
qed

lemma make_directory_sizes:
  assumes "sizes_ok fs"
  shows "sizes_ok (snd (make_directory e p mode fs))"
proof (cases "resolvePath (path_Dir (path_Clean p)) fs")
  case (Ok d)
  let ?k = "path_Base (path_Clean p)"
  let ?n = "dir_node ?k (Some d) (fs_nextInode fs) (word_of_int mode) (e_now e)"
  obtain a fs1 where al: "alloc ?n fs = (a, fs1)" by (cases "alloc ?n fs")
  from sizes_attach [OF assms size_ok_literals(1) al] Ok al assms show ?thesis
    by (simp add: make_directory_def Let_def split: option.split)
qed (use assms in \<open>simp_all add: make_directory_def Let_def\<close>)

lemma open_sizes:
  "sizes_ok fs \<Longrightarrow> sizes_ok (snd (open_handle e a p d fs))"
  "sizes_ok fs \<Longrightarrow> sizes_ok (snd (open_dummy e p mode fs))"
  "sizes_ok fs \<Longrightarrow> sizes_ok (snd (create_and_open e p mode fs))"
proof -
  show h: "sizes_ok fs \<Longrightarrow> sizes_ok (snd (open_handle e a p d fs))" for fs a d
    by (simp add: open_handle_def sizes_store)
  show "sizes_ok fs \<Longrightarrow> sizes_ok (snd (open_dummy e p mode fs))"
  proof -
    assume s: "sizes_ok fs"
    let ?n = "file_node (path_Base p) [] None 999999 (word_of_int mode) (e_now e)"
    obtain a fs1 where al: "alloc ?n fs = (a, fs1)" by (cases "alloc ?n fs")
    have "sizes_ok fs1" using sizes_alloc [OF s, of ?n] al by simp
    from h [OF this] al show ?thesis by (simp add: open_dummy_def)
  qed
  assume "sizes_ok fs"
  then have s: "sizes_ok (snd (AddFile e p [] (word_of_int mode) fs))" by (rule AddFile_sizes) simp
  obtain r fs1 where a: "AddFile e p [] (word_of_int mode) fs = (r, fs1)"
    by (cases "AddFile e p [] (word_of_int mode) fs")
  with s h show "sizes_ok (snd (create_and_open e p mode fs))"
    by (cases r) (simp_all add: create_and_open_def split: outcome.split)
qed

lemma write_node_sizes:
  assumes "sizes_ok fs"
  shows "sizes_ok (snd (write_node e a buf off fs))"
proof -
  have "size_ok (node fs a)" using assms by (simp add: sizes_ok_def)
  then show ?thesis
    using assms unfolding write_node_def Let_def
    by (auto simp: size_ok_def intro!: sizes_set_node)
qed

lemma truncate_node_sizes:
  assumes "sizes_ok fs"
  shows "sizes_ok (snd (truncate_node e a sz fs))"
proof -
  have "size_ok (node fs a)" using assms by (simp add: sizes_ok_def)
  moreover have "\<not> sz < s \<Longrightarrow> \<not> s < sz \<Longrightarrow> sz = s" for s by simp
  ultimately show ?thesis
    using assms unfolding truncate_node_def Let_def
    by (auto simp: size_ok_def intro!: sizes_set_node)
qed

lemma move_node_sizes:
  assumes "sizes_ok fs"
  shows "sizes_ok (snd (move_node a p flags fs))"
proof (cases "resolvePath (path_Dir (path_Clean p)) fs")
  case (Ok t)
  have "sizes_ok (relinked a k t (detached a fs))" for k
    using assms by (simp add: sizes_ok_def size_ok_def)
  with assms sizes_put_child [OF this] show ?thesis
    unfolding move_node_steps [OF Ok] by (auto split: option.split)
qed (use assms in \<open>simp_all add: move_node_def Let_def\<close>)

text \<open>Requests that do not switch honeypot mode on; a host's content is one a slice can hold.\<close>

fun plain :: "request \<Rightarrow> bool" where
  "plain (HSetDiscard b) = (\<not> b)"
| "plain (HAddFile p content mode) = (length content \<le> max_alloc)"
| "plain r = True"

lemma field_request_sizes:
  assumes s: "sizes_ok fs"
  shows "sizes_ok (snd (SetAttr h a fs))" "sizes_ok (snd (Symlink h src flag fs))"
    "sizes_ok (snd (Setxattr h k v fs))" "sizes_ok (snd (Removexattr h k fs))"
    "sizes_ok (snd (ReadDir order h pos n fs))" "sizes_ok (snd (OpenDir e p fs))"
    "sizes_ok (snd (Unlink h fs))"
proof -
  have ok: "size_ok (node fs b)" for b using s by (simp add: sizes_ok_def)
  have "size_ok (apply_attributes a (node fs b))" for b
    using ok [of b] by (simp add: size_ok_def apply_attributes_def set_if_def)
  with s show "sizes_ok (snd (SetAttr h a fs))"
    by (auto simp: SetAttr_def Let_def intro!: with_open_keeps [where P = sizes_ok] sizes_set_node)
  have upd: "size_ok ((node fs b)\<lparr>mn_isSymlink := l, mn_symlinkTo := src\<rparr>)"
    "size_ok ((node fs b)\<lparr>mn_xattrs := xs\<rparr>)" for b l xs
    using ok [of b] by (simp_all add: size_ok_def)
  show "sizes_ok (snd (Symlink h src flag fs))" "sizes_ok (snd (Setxattr h k v fs))"
    "sizes_ok (snd (Removexattr h k fs))"
    using s upd by (auto simp: Symlink_def Setxattr_def Removexattr_def Let_def
        intro!: with_open_keeps [where P = sizes_ok] sizes_set_node)
  show "sizes_ok (snd (ReadDir order h pos n fs))" "sizes_ok (snd (OpenDir e p fs))"
    "sizes_ok (snd (Unlink h fs))"
    using s sizes_del_child [OF s] open_sizes(1) [OF s]
    by (auto simp: ReadDir_def OpenDir_def Unlink_def Let_def sizes_store
        intro!: with_open_keeps [where P = sizes_ok] split: outcome.split option.split)
qed

lemma guarded_request_sizes:
  assumes s: "sizes_ok fs" and d: "\<not> fs_discardWrites fs"
  shows "sizes_ok (snd (Write e h buf off flags fs))" "sizes_ok (snd (Truncate e h sz fs))"
    "sizes_ok (snd (Mkdir e p mode fs))" "sizes_ok (snd (Rename e h p fl fs))"
    "sizes_ok (snd (Open e p fl mode fs))" "sizes_ok (snd (Close e h fs))"
proof -
  note I = with_open_keeps [where P = sizes_ok] intercept_keeps [where P = sizes_ok]
  show "sizes_ok (snd (Write e h buf off flags fs))"
    using s d write_node_sizes [OF s] by (auto simp: Write_def Let_def intro!: I split: option.split)
  show "sizes_ok (snd (Truncate e h sz fs))"
    using s d truncate_node_sizes [OF s] by (auto simp: Truncate_def intro!: I)
  show "sizes_ok (snd (Mkdir e p mode fs))"
    using s d make_directory_sizes [OF s] by (auto simp: Mkdir_def Let_def intro!: I split: option.split)
  show "sizes_ok (snd (Rename e h p fl fs))"
    using s d move_node_sizes [OF s] by (auto simp: Rename_def Let_def intro!: I split: option.split)
  have "sizes_ok (snd (open_handle e a p b (fs\<lparr>fs_ghosts := gs\<rparr>)))" for a b gs
    using s by (simp add: open_sizes(1) sizes_store)
  then show "sizes_ok (snd (Open e p fl mode fs))"
    using s d open_sizes [OF s]
    by (auto simp: Open_def Let_def intro!: I split: outcome.split option.split prod.split)
  show "sizes_ok (snd (Close e h fs))"
    using s d by (auto simp: Close_def sizes_store intro!: I)
qed

lemma AddDirectory_sizes: "sizes_ok fs \<Longrightarrow> sizes_ok (snd (AddDirectory e p fs))"
  using mkdirs_sizes [of fs "e_now e" "fs_root fs" "path_elems (path_Clean p)"]
  by (cases "mkdirs (e_now e) (fs_root fs) (path_elems p) fs")
     (auto simp: AddDirectory_def Let_def getOrCreateDirPath_mkdirs and_then_def split: outcome.split)

lemma exec_sizes:
  assumes "sizes_ok fs" and "\<not> fs_discardWrites fs" and "plain r"
  shows "sizes_ok (exec e r fs)"
  using assms field_request_sizes guarded_request_sizes AddFile_sizes AddDirectory_sizes
  by (cases r) (simp_all add: read_only sizes_store)

end
