(* ===== verification/MemoryProps.thy ===== *)
theory MemoryProps
  imports MemorySizes
begin

text \<open>
  The properties of the file system over the lemmas of MemorySpec, Honeypot and MemorySizes:
  what each operation does to the view, the invariant of every run, and honeypot mode. The
  examples are a file system with one directory holding one file, opened as handle 9.
\<close>

section \<open>Examples\<close>

definition demo_env :: env where
  "demo_env = \<lparr>e_gid = 1, e_now = 100, e_rand = 9\<rparr>"

definition demo_fs :: MemoryFS where
  "demo_fs = snd (AddFile demo_env ''/d/f'' [1, 2, 3] 0x1A4 (NewMemoryFS demo_env))"

definition demo_opened :: MemoryFS where
  "demo_opened = snd (Open demo_env ''/d/f'' 0 0 demo_fs)"

lemma demo_elems:
  "path_elems ''/d/f'' = [''d'', ''f'']" "path_elems ''/d/g'' = [''d'', ''g'']"
  "path_elems ''/m'' = [''m'']"
  by (simp_all add: path_elems_def is_rooted_def clean_elems_def clean_step_def)

lemma view_New: "view (NewMemoryFS e) = (\<lambda>qs. if qs = [] then Some ADir else None)"
proof
  fix qs
  show "view (NewMemoryFS e) qs = (if qs = [] then Some ADir else None)"
    by (cases qs) (simp_all add: view_def locate_def NewMemoryFS_def child_of_def dir_node_def entry_of_def)
qed

lemma New_sel:
  "fs_discardWrites (NewMemoryFS e) = False" "fs_createCallback (NewMemoryFS e) = None"
  "fs_writeCallback (NewMemoryFS e) = None" "fs_renameCallback (NewMemoryFS e) = None"
  "sizes_ok (NewMemoryFS e)"
  by (simp_all add: NewMemoryFS_def sizes_ok_def)

lemma demo_fs_facts:
  "wf_fs demo_fs" "sizes_ok demo_fs" "\<not> fs_discardWrites demo_fs" "fs_root demo_fs = 0"
  "view demo_fs = (\<lambda>qs. if qs = [] \<or> qs = [''d''] then Some ADir
     else if qs = [''d'', ''f''] then Some (AFile [1, 2, 3]) else None)"
proof -
  have ne: "path_elems ''/d/f'' \<noteq> []" by (simp add: demo_elems)
  from AddFile_spec [OF NewMemoryFS_wf [of demo_env] ne, of demo_env "[1, 2, 3]" "0x1A4"]
  obtain fs' where r: "AddFile demo_env ''/d/f'' [1, 2, 3] 0x1A4 (NewMemoryFS demo_env) = (Ok (), fs')"
    and w: "wf_fs fs'" and s: "same_frame (NewMemoryFS demo_env) fs'"
    and v: "view fs' = a_put [''d'', ''f''] (AFile [1, 2, 3]) (a_mkdirs [''d''] (view (NewMemoryFS demo_env)))"
    by (auto simp: demo_elems view_New split: if_splits)
  have e: "demo_fs = fs'" by (simp add: demo_fs_def r)
  show "wf_fs demo_fs" using w e by simp
  show "sizes_ok demo_fs" unfolding demo_fs_def
    by (rule AddFile_sizes) (simp_all add: New_sel max_alloc_def)
  show "\<not> fs_discardWrites demo_fs" "fs_root demo_fs = 0"
    using s e by (simp_all add: same_frame_def New_sel) (simp add: NewMemoryFS_def)
  show "view demo_fs = (\<lambda>qs. if qs = [] \<or> qs = [''d''] then Some ADir
     else if qs = [''d'', ''f''] then Some (AFile [1, 2, 3]) else None)"
    unfolding e v view_New
    by (intro ext) (auto simp: a_put_def a_mkdirs_def prefix_Cons prefix_def Cons_eq_append_conv)
qed

lemma open_existing:
  assumes "wf_fs fs" and "locate fs (path_elems p) = Some a"
  shows "\<exists>fs'. Open e p flags mode fs = (Ok (e_rand e), fs') \<and> wf_fs fs' \<and> view fs' = view fs \<and>
    linked fs' (e_rand e) (path_elems p) a \<and> fs_heap fs' = fs_heap fs \<and>
    fs_discardWrites fs' = fs_discardWrites fs \<and> fs_root fs' = fs_root fs"
proof -
  have r: "resolvePath p fs = Ok a" using assms(2) by (simp add: resolvePath_locate)
  let ?fs = "snd (open_handle e a p (mn_isDir (node fs a)) fs)"
  have o: "Open e p flags mode fs = (Ok (e_rand e), ?fs)"
    using r by (simp add: Open_def Let_def open_handle_def)
  have s: "child_of ?fs = child_of fs" "fs_root ?fs = fs_root fs" "fs_heap ?fs = fs_heap fs"
    "fs_discardWrites ?fs = fs_discardWrites fs"
    using child_of_store_open by (simp_all add: open_handle_def) (simp_all add: store_open_def)
  have "linked ?fs (e_rand e) (path_elems p) a"
    using assms(2) s(1,2) by (simp add: linked_def locate_def) (simp add: open_handle_def store_open_def)
  moreover have "view ?fs = view fs" using s by (intro view_cong) simp_all
  moreover have "wf_fs ?fs" using open_handle_wf [OF assms(1)] locate_alloc [OF assms] by blast
  ultimately show ?thesis using o s by blast
qed

lemma demo_opened_facts:
  "\<exists>a. wf_fs demo_opened \<and> linked demo_opened 9 [''d'', ''f''] a \<and> \<not> mn_isDir (node demo_opened a) \<and>
     mn_content (node demo_opened a) = [1, 2, 3] \<and> size_ok (node demo_opened a) \<and>
     \<not> fs_discardWrites demo_opened \<and> view demo_opened = view demo_fs"
proof -
  have "view demo_fs [''d'', ''f''] = Some (AFile [1, 2, 3])" by (simp add: demo_fs_facts(5))
  then obtain a where a: "locate demo_fs [''d'', ''f''] = Some a" "\<not> mn_isDir (node demo_fs a)"
      "mn_content (node demo_fs a) = [1, 2, 3]" using view_fileE by blast
  have "locate demo_fs (path_elems ''/d/f'') = Some a" using a(1) by (simp add: demo_elems)
  from open_existing [OF demo_fs_facts(1) this, of demo_env 0 0]
  have "wf_fs demo_opened \<and> view demo_opened = view demo_fs \<and>
    linked demo_opened 9 [''d'', ''f''] a \<and> fs_heap demo_opened = fs_heap demo_fs \<and>
    fs_discardWrites demo_opened = fs_discardWrites demo_fs"
    by (auto simp: demo_opened_def demo_env_def demo_elems)
  with a demo_fs_facts(2,3) show ?thesis by (auto simp: sizes_ok_def)
qed

lemma demo_callbacks:
  "fs_createCallback demo_fs = None" "fs_writeCallback demo_opened = None"
  "fs_renameCallback demo_opened = None"
proof -
  have "Option.is_none (fs_createCallback demo_fs)" by code_simp
  then show "fs_createCallback demo_fs = None" by (simp add: Option.is_none_def)
  have "Option.is_none (fs_writeCallback demo_opened)" by code_simp
  then show "fs_writeCallback demo_opened = None" by (simp add: Option.is_none_def)
  have "Option.is_none (fs_renameCallback demo_opened)" by code_simp
  then show "fs_renameCallback demo_opened = None" by (simp add: Option.is_none_def)
qed

section \<open>What each operation does to the tree\<close>

text \<open>C12. \<open>AddFile\<close> implements its contract: the missing parent directories appear, the path
  holds the content, and whatever the path held before is replaced with all below it; nothing
  else changes. It fails only when a proper prefix of the path is a file, and then nothing at all
  changes. It never panics and keeps the store well formed.\<close>

theorem AddFile_implements:
  assumes "wf_fs fs" and "path_elems p \<noteq> []"
  shows "wf_fs (snd (AddFile e p content mode fs)) \<and>
    ((fst (AddFile e p content mode fs) = Ok () \<and>
      view (snd (AddFile e p content mode fs)) =
        a_put (path_elems p) (AFile content) (a_mkdirs (butlast (path_elems p)) (view fs))) \<or>
     (\<exists>k pre bs. AddFile e p content mode fs = (Err (ComponentNotDirectory k), fs) \<and>
       prefix pre (butlast (path_elems p)) \<and> view fs pre = Some (AFile bs)))"
  using AddFile_spec [OF assms, of e content mode] assms(1) by auto

theorem AddFile_implements_witness:
  "view (snd (AddFile demo_env ''/d/g'' [7] 0x1A4 demo_fs)) [''d'', ''g''] = Some (AFile [7]) \<and>
   view (snd (AddFile demo_env ''/d/g'' [7] 0x1A4 demo_fs)) [''d'', ''f''] = Some (AFile [1, 2, 3])"
proof -
  have "path_elems ''/d/g'' \<noteq> []" by (simp add: demo_elems)
  from AddFile_implements [OF demo_fs_facts(1) this, of demo_env "[7]" "0x1A4"]
  show ?thesis
    by (auto simp: demo_elems demo_fs_facts(5) a_put_def a_mkdirs_def prefix_Cons split: if_splits)
qed

text \<open>C13. \<open>Mkdir\<close> on every branch, outside honeypot mode and with no callback: a missing parent
  and an existing name are errors that change nothing; a parent that is a file makes the server
  panic on its nil child map; otherwise exactly one empty directory appears and the attributes
  returned are a directory's.\<close>

theorem Mkdir_implements:
  assumes "wf_fs fs" and "path_elems p \<noteq> []"
    and "\<not> fs_discardWrites fs" and "fs_createCallback fs = None"
  shows "case view fs (butlast (path_elems p)) of
      None \<Rightarrow> Mkdir e p mode fs = (Err (PathNotFound (path_Clean (path_Dir (path_Clean p)))), fs)
    | Some (AFile c) \<Rightarrow> fst (Mkdir e p mode fs) = Panic
    | Some ADir \<Rightarrow>
        if view fs (path_elems p) \<noteq> None then Mkdir e p mode fs = (Err DirectoryExists, fs)
        else \<exists>attrs fs'. Mkdir e p mode fs = (Ok attrs, fs') \<and> wf_fs fs' \<and>
          view fs' = (view fs)(path_elems p \<mapsto> ADir) \<and> GetFileType attrs = Some FileTypeDirectory"
proof -
  have m: "Mkdir e p mode fs = make_directory e p mode fs"
    using assms(3,4) by (simp add: Mkdir_def Let_def)
  note S = make_directory_spec [OF assms(1,2), where e = e and mode = mode]
  show ?thesis
  proof (cases "view fs (butlast (path_elems p))")
    case None
    with S(1) show ?thesis by (simp add: m)
  next
    case (Some x)
    show ?thesis
    proof (cases x)
      case ADir
      with Some S(3) S(4) show ?thesis by (auto simp: m)
    next
      case (AFile c)
      with Some S(2) show ?thesis by (simp add: m)
    qed
  qed
qed

theorem Mkdir_implements_witness:
  "\<exists>attrs fs'. Mkdir demo_env ''/m'' 0x1FF demo_fs = (Ok attrs, fs') \<and> view fs' [''m''] = Some ADir"
proof -
  have "path_elems ''/m'' \<noteq> []" by (simp add: demo_elems)
  from Mkdir_implements [OF demo_fs_facts(1) this demo_fs_facts(3) demo_callbacks(1), of demo_env "0x1FF"]
  show ?thesis by (auto simp: demo_elems demo_fs_facts(5))
qed

text \<open>C14. \<open>Open\<close> of a path that leads nowhere, with the create flag, outside honeypot mode: the
  file is created empty with its missing parents and the handle returned is linked to it;
  only a file in the way of the path makes it fail, changing nothing.\<close>

theorem Open_creates_file:
  assumes "wf_fs fs" and "path_elems p \<noteq> []" and "view fs (path_elems p) = None"
    and "flags AND 0x40 \<noteq> 0" and "\<not> fs_discardWrites fs" and "fs_createCallback fs = None"
  shows "(\<exists>a fs'. Open e p flags mode fs = (Ok (e_rand e), fs') \<and> wf_fs fs' \<and>
      linked fs' (e_rand e) (path_elems p) a \<and> size_ok (node fs' a) \<and>
      view fs' = a_put (path_elems p) (AFile []) (a_mkdirs (butlast (path_elems p)) (view fs))) \<or>
    (\<exists>k pre bs. Open e p flags mode fs = (Err (ComponentNotDirectory k), fs) \<and>
      prefix pre (butlast (path_elems p)) \<and> view fs pre = Some (AFile bs))"
proof -
  have "resolvePath p fs = Err (PathNotFound (path_Clean p))"
    using assms(3) by (simp add: resolvePath_locate view_None_iff)
  then have o: "Open e p flags mode fs = create_and_open e p mode fs"
    using assms(4-6) by (simp add: Open_def Let_def)
  from AddFile_spec [OF assms(1,2), of e "[]" "word_of_int mode"] show ?thesis
  proof (elim disjE exE conjE, goal_cases)
    case (1 a fs1)
    let ?fs = "snd (open_handle e a p (mn_isDir (node fs1 a)) fs1)"
    have "create_and_open e p mode fs = (Ok (e_rand e), ?fs)"
      using 1(1,5) by (simp add: create_and_open_def resolvePath_locate open_handle_def)
    moreover have "wf_fs ?fs" using open_handle_wf [OF 1(2) locate_alloc [OF 1(2,5)]] .
    moreover have sel: "child_of ?fs = child_of fs1" "fs_root ?fs = fs_root fs1" "fs_heap ?fs = fs_heap fs1"
      using child_of_store_open by (simp_all add: open_handle_def) (simp_all add: store_open_def)
    then have "linked ?fs (e_rand e) (path_elems p) a"
      using 1(5) by (simp add: linked_def locate_def) (simp add: open_handle_def store_open_def)
    moreover have "view ?fs = view fs1" using sel by (intro view_cong) simp_all
    moreover have "size_ok (node ?fs a)" using 1(7,8) sel(3) by (simp add: size_ok_def)
    ultimately show ?case using o 1(4) by auto
  next
    case (2 k pre bs)
    then have "create_and_open e p mode fs = (Err (ComponentNotDirectory k), fs)"
      by (simp add: create_and_open_def)
    with o 2 show ?case by auto
  qed
qed

theorem Open_creates_file_witness:
  "\<exists>fs'. Open demo_env ''/d/g'' 0x40 0x1A4 demo_fs = (Ok 9, fs') \<and> view fs' [''d'', ''g''] = Some (AFile [])"
proof -
  have p: "path_elems ''/d/g'' \<noteq> []" "view demo_fs (path_elems ''/d/g'') = None"
    by (simp_all add: demo_elems demo_fs_facts(5))
  from Open_creates_file [OF demo_fs_facts(1) p, of "0x40" demo_env "0x1A4"] show ?thesis
    by (auto simp: demo_elems demo_fs_facts demo_callbacks a_put_def demo_env_def prefix_Cons split: if_splits)
qed

text \<open>C15. \<open>Write\<close> then \<open>Read\<close>: a write through a handle on a file stores the bytes at the offset,
  filling any gap after the old end with zeros, changes no other path, and a read at that
  offset returns exactly the bytes written.\<close>

theorem Write_then_Read:
  assumes "wf_fs fs" and "linked fs h ps a" and "\<not> mn_isDir (node fs a)" and "size_ok (node fs a)"
    and "unat off + length buf \<le> max_alloc" and "buf \<noteq> []"
    and "\<not> fs_discardWrites fs" and "fs_writeCallback fs = None"
  shows "\<exists>fs'. Write e h buf off flags fs = (Ok (length buf), fs') \<and> wf_fs fs' \<and>
    view fs' = (view fs)(ps \<mapsto> AFile (write_bytes (unat off) buf (mn_content (node fs a)))) \<and>
    Read h (length buf) off flags fs' = (Ok buf, fs')"
proof -
  obtain n where w: "write_node e a buf off fs = (Ok (length buf), set_node a n fs)"
    and n: "same_links (node fs a) n" "size_ok n"
      "mn_content n = write_bytes (unat off) buf (mn_content (node fs a))"
    using write_node_spec [OF assms(3,4,5)] by blast
  let ?fs = "set_node a n fs"
  have wr: "Write e h buf off flags fs = (Ok (length buf), ?fs)"
    using w assms(2,7,8) by (auto simp: Write_def with_open_def linked_def Let_def)
  have nd: "\<not> mn_isDir n" using n(1) assms(3) by (simp add: same_links_def)
  have l: "linked ?fs h ps a"
    using assms(2) child_of_same_links [OF n(1)] by (simp add: linked_def locate_def)
  have v: "view ?fs = (view fs)(ps \<mapsto> AFile (write_bytes (unat off) buf (mn_content (node fs a))))"
    using view_set_content [OF assms(1) n(1) linkedD(2) [OF assms(2)]] nd n(3) by (simp add: entry_of_def)
  have "Read h (length buf) off flags ?fs = (Ok buf, ?fs)"
    using Read_spec [OF l, of "length buf" off flags] nd n(2,3) write_bytes_window [of buf "unat off"] assms(6)
    by simp
  with wr v set_node_wf [OF assms(1) n(1)] show ?thesis by blast
qed

theorem Write_then_Read_witness:
  "\<exists>fs'. Write demo_env 9 [8, 9] 4 0 demo_opened = (Ok 2, fs') \<and>
    view fs' [''d'', ''f''] = Some (AFile [1, 2, 3, 0, 8, 9]) \<and> Read 9 2 4 0 fs' = (Ok [8, 9], fs')"
proof -
  obtain a where a: "wf_fs demo_opened" "linked demo_opened 9 [''d'', ''f''] a"
    "\<not> mn_isDir (node demo_opened a)" "mn_content (node demo_opened a) = [1, 2, 3]"
    "size_ok (node demo_opened a)" "\<not> fs_discardWrites demo_opened" using demo_opened_facts by blast
  have s: "unat (4 :: u64) + length [8 :: u8, 9] \<le> max_alloc" "[8 :: u8, 9] \<noteq> []"
    by (simp_all add: max_alloc_def)
  have l: "length [8 :: u8, 9] = 2" by simp
  from Write_then_Read [OF a(1,2,3,5) s a(6) demo_callbacks(2), of demo_env 0, unfolded l] a(4)
  show ?thesis by (auto simp: write_bytes_def copy_at_def grow_def)
qed

text \<open>C16. \<open>Truncate\<close> cuts the content to the size or extends it with zeros, and changes no other
  path.\<close>

theorem Truncate_implements:
  assumes "wf_fs fs" and "linked fs h ps a" and "\<not> mn_isDir (node fs a)" and "size_ok (node fs a)"
    and "unat sz \<le> max_alloc" and "\<not> fs_discardWrites fs"
  shows "\<exists>fs'. Truncate e h sz fs = (Ok (), fs') \<and> wf_fs fs' \<and> size_ok (node fs' a) \<and>
    view fs' = (view fs)(ps \<mapsto> AFile (grow (unat sz) (mn_content (node fs a))))"
proof -
  obtain n where t: "truncate_node e a sz fs = (Ok (), set_node a n fs)"
    and n: "same_links (node fs a) n" "size_ok n" "mn_content n = grow (unat sz) (mn_content (node fs a))"
    using truncate_node_spec [OF assms(3,4,5)] by blast
  have "Truncate e h sz fs = (Ok (), set_node a n fs)"
    using t assms(2,6) by (auto simp: Truncate_def with_open_def linked_def)
  moreover have "\<not> mn_isDir n" using n(1) assms(3) by (simp add: same_links_def)
  ultimately show ?thesis
    using n set_node_wf [OF assms(1) n(1)] view_set_content [OF assms(1) n(1) linkedD(2) [OF assms(2)]]
    by (simp add: entry_of_def)
qed

theorem Truncate_implements_witness:
  "\<exists>fs'. Truncate demo_env 9 2 demo_opened = (Ok (), fs') \<and> view fs' [''d'', ''f''] = Some (AFile [1, 2])"
proof -
  obtain a where a: "wf_fs demo_opened" "linked demo_opened 9 [''d'', ''f''] a"
    "\<not> mn_isDir (node demo_opened a)" "mn_content (node demo_opened a) = [1, 2, 3]"
    "size_ok (node demo_opened a)" "\<not> fs_discardWrites demo_opened" using demo_opened_facts by blast
  have s: "unat (2 :: u64) \<le> max_alloc" by (simp add: max_alloc_def)
  from Truncate_implements [OF a(1,2,3,5) s a(6), of demo_env] a(4)
  show ?thesis by (auto simp: grow_def)
qed

text \<open>C17. \<open>Unlink\<close> through a linked handle removes its path and everything below it, and
  nothing else.\<close>

theorem Unlink_implements:
  assumes "wf_fs fs" and "linked fs h (ps @ [k]) a" and "\<not> fs_discardWrites fs"
  shows "\<exists>fs'. Unlink h fs = (Ok (), fs') \<and> wf_fs fs' \<and> view fs' = a_remove (ps @ [k]) (view fs)"
  using Unlink_spec [OF assms] .

theorem Unlink_implements_witness:
  "\<exists>fs'. Unlink 9 demo_opened = (Ok (), fs') \<and> view fs' [''d'', ''f''] = None \<and> view fs' [''d''] = Some ADir"
proof -
  obtain a where a: "wf_fs demo_opened" "linked demo_opened 9 ([''d''] @ [''f'']) a"
    "\<not> fs_discardWrites demo_opened" "view demo_opened = view demo_fs" using demo_opened_facts by auto
  from Unlink_implements [OF a(1,2,3)] a(4) show ?thesis
    by (auto simp: a_remove_def demo_fs_facts(5))
qed

text \<open>C18. \<open>Rename\<close> through a linked handle to a free name in an existing directory outside the
  moved node (or to a taken name when flags are given): the whole subtree is found under the
  new path, the old path is gone, every other path is unchanged, and the same node is reached.\<close>

theorem Rename_implements:
  assumes "wf_fs fs" and "linked fs h (ps @ [j]) a" and "path_elems toPath = ts @ [k]"
    and "view fs ts = Some ADir" and "\<not> prefix (ps @ [j]) ts"
    and "view fs (ts @ [k]) = None \<or> flags \<noteq> 0"
    and "\<not> fs_discardWrites fs" and "fs_renameCallback fs = None"
  shows "\<exists>fs'. Rename e h toPath flags fs = (Ok (), fs') \<and> wf_fs fs' \<and>
    view fs' = a_move (ps @ [j]) (ts @ [k]) (view fs) \<and> locate fs' (ts @ [k]) = Some a"
proof -
  have "Rename e h toPath flags fs = move_node a toPath flags fs"
    using assms(2,7,8) by (auto simp: Rename_def with_open_def linked_def Let_def)
  with move_node_spec [OF assms(1) linkedD(2) [OF assms(2)] assms(3-6)] show ?thesis by simp
qed

theorem Rename_implements_witness:
  "\<exists>fs'. Rename demo_env 9 ''/m'' 0 demo_opened = (Ok (), fs') \<and>
    view fs' [''m''] = Some (AFile [1, 2, 3]) \<and> view fs' [''d'', ''f''] = None"
proof -
  obtain a where a: "wf_fs demo_opened" "linked demo_opened 9 ([''d''] @ [''f'']) a"
    "\<not> fs_discardWrites demo_opened" "view demo_opened = view demo_fs" using demo_opened_facts by auto
  have p: "path_elems ''/m'' = [] @ [''m'']" "view demo_opened [] = Some ADir"
    "\<not> prefix ([''d''] @ [''f'']) []" "view demo_opened ([] @ [''m'']) = None \<or> (0 :: int) \<noteq> 0"
    using a(4) by (simp_all add: demo_elems demo_fs_facts(5))
  from Rename_implements [OF a(1,2) p a(3) demo_callbacks(3), of demo_env] obtain fs'
    where r: "Rename demo_env 9 ''/m'' 0 demo_opened = (Ok (), fs')"
      and v: "view fs' = a_move [''d'', ''f''] [''m''] (view demo_fs)" using a(4) by auto
  from v have "view fs' [''m''] = Some (AFile [1, 2, 3]) \<and> view fs' [''d'', ''f''] = None"
    by (simp add: a_move_def demo_fs_facts(5))
  with r show ?thesis by blast
qed

section \<open>Runs\<close>

text \<open>C19. In every state that any sequence of requests reaches from a new file system, as long as
  none renames the root through a handle on it, the node store is a tree with consistent up
  links, entries and handles: each child names its parent and its own entry, no parent,
  entry, open handle or ghost points at a node that does not exist.\<close>

theorem reachable_well_formed:
  assumes "fs_step\<^sup>*\<^sup>* (NewMemoryFS e) fs"
  shows "wf_fs fs"
  using assms
proof (induction rule: rtranclp_induct)
  case base
  show ?case by (rule NewMemoryFS_wf)
next
  case (step fs fs')
  then show ?case by (auto elim: fs_stepE intro: exec_wf)
qed

theorem reachable_well_formed_witness:
  "wf_fs (exec demo_env (RMkdir ''/m'' 0x1FF) (NewMemoryFS demo_env))"
proof (rule reachable_well_formed [of demo_env])
  have "fs_step (NewMemoryFS demo_env) (exec demo_env (RMkdir ''/m'' 0x1FF) (NewMemoryFS demo_env))"
    by (rule fs_step.step) (simp add: keeps_root_def)
  then show "fs_step\<^sup>*\<^sup>* (NewMemoryFS demo_env) (exec demo_env (RMkdir ''/m'' 0x1FF) (NewMemoryFS demo_env))"
    by blast
qed

text \<open>A run of requests, each with its own environment.\<close>

fun run :: "(env \<times> request) list \<Rightarrow> MemoryFS \<Rightarrow> MemoryFS" where
  "run [] fs = fs"
| "run ((e, r) # rs) fs = run rs (exec e r fs)"

lemma run_frozen:
  "wf_fs fs \<Longrightarrow> fs_discardWrites fs \<Longrightarrow> (\<forall>x \<in> set rs. from_client (snd x)) \<Longrightarrow>
   frozen fs (run rs fs) \<and> wf_fs (run rs fs)"
proof (induction rs arbitrary: fs)
  case (Cons x rs)
  obtain e r where x: "x = (e, r)" by (cases x)
  with Cons.prems have f: "frozen fs (exec e r fs)" and w: "wf_fs (exec e r fs)"
    using exec_frozen exec_discard_wf by simp_all
  moreover have "fs_discardWrites (exec e r fs)" using f Cons.prems(2) by (simp add: frozen_def)
  ultimately show ?case using Cons.IH [of "exec e r fs"] Cons.prems(3) x frozen_trans [OF f] by simp
qed simp

text \<open>C6. In honeypot mode no sequence of client requests, whatever handles and paths it uses and
  whatever the callbacks answer, changes what any path shows: no file or directory appears,
  moves or vanishes and no stored bytes change (modes, times, sizes and symlink marks are not part
  of what a path shows). The honeypot mode stays on, and the store stays well formed.\<close>

theorem honeypot_changes_nothing:
  assumes "wf_fs fs" and "fs_discardWrites fs" and "\<forall>x \<in> set rs. from_client (snd x)"
  shows "view (run rs fs) = view fs \<and> fs_discardWrites (run rs fs) \<and> wf_fs (run rs fs)"
proof -
  have f: "frozen fs (run rs fs)" and w: "wf_fs (run rs fs)" using run_frozen [OF assms] by auto
  have "fs_discardWrites (run rs fs)" using f assms(2) unfolding frozen_def by simp
  with w frozen_view [OF assms(1) f] show ?thesis by blast
qed

theorem honeypot_changes_nothing_witness:
  "view (run [(demo_env, ROpen ''/evil'' 0x40 0), (demo_env, RWrite 9 [1] 0), (demo_env, RUnlink 9)]
      (SetDiscardWrites True demo_opened)) = view (SetDiscardWrites True demo_opened)"
proof -
  have "wf_fs demo_opened" using demo_opened_facts by blast
  then have "wf_fs (SetDiscardWrites True demo_opened)" by (rule discard_wf)
  moreover have "fs_discardWrites (SetDiscardWrites True demo_opened)" by (simp add: SetDiscardWrites_def)
  moreover have "\<forall>x \<in> set [(demo_env, ROpen ''/evil'' 0x40 0), (demo_env, RWrite 9 [1] 0), (demo_env, RUnlink 9)].
      from_client (snd x)" by simp
  ultimately show ?thesis using honeypot_changes_nothing by blast
qed





text \<open>Three operations do not look at honeypot mode: a client changes modes, the symlink mark and
  extended attributes in it as well.\<close>

lemma honeypot_still_changes:
  assumes "fs_openFiles fs h = Some f"
  shows "h \<noteq> 0 \<Longrightarrow> mn_mode (node (snd (SetAttr h (SetUnixMode m empty_Attributes) fs)) (of_node f)) = m AND 0x1FF"
    and "mn_isSymlink (node (snd (Symlink h src flag fs)) (of_node f))"
    and "mn_xattrs (node (snd (Removexattr h key fs)) (of_node f)) = AList.delete key (mn_xattrs (node fs (of_node f)))"
  using assms
  by (simp_all add: SetAttr_def Symlink_def Removexattr_def with_open_def Let_def set_node_def apply_attributes_def
      set_if_def SetUnixMode_def GetUnixMode_def has_mask_def AttributesMaskUnixMode_def mask_bit_def)

lemma write_callback_transparent:
  "write_node e a buf off (SetWriteCallback cb fs) =
     (let (r, fs') = write_node e a buf off fs in (r, SetWriteCallback cb fs'))"
  "discard_write e a buf off (SetWriteCallback cb fs) =
     (let (r, fs') = discard_write e a buf off fs in (r, SetWriteCallback cb fs'))"
  by (simp_all add: write_node_def discard_write_def SetWriteCallback_def set_node_def Let_def split del: if_split cong: if_cong)
    (simp split: if_split)

text \<open>C21. The write callback decides, whatever it answers. When it neither gives an error nor
  blocks, the call is the write of the same file system without a callback, in its answer and in its
  effect: in honeypot mode that one discards the bytes, otherwise it stores them. An error or a block leaves the
  file system exactly as it was, and with an operation context set the client gets the callback's
  error or the full count. Without a context (the server sets none for a request without a session) an
  error or a block dereferences a nil pointer and panics.\<close>

theorem write_callback_decides:
  assumes "fs_openFiles fs h = Some f" and "fs_writeCallback fs = Some callback"
    and "result = callback (getOperationContext e fs) h (of_path f) buf off"
  shows "Write e h buf off flags fs =
    (case (ir_Error result, ir_Block result) of
       (None, False) \<Rightarrow>
         (let (r, fs') = Write e h buf off flags (SetWriteCallback None fs) in (r, SetWriteCallback (Some callback) fs'))
     | (Some err, _) \<Rightarrow>
         (if getOperationContext e fs = None then Panic else Err (CallbackError err), fs)
     | (None, True) \<Rightarrow>
         (if getOperationContext e fs = None then Panic else Ok (length buf), fs)) \<and>
    Write e h buf off flags (SetWriteCallback None fs) =
      (if fs_discardWrites fs then discard_write else write_node) e (of_node f) buf off (SetWriteCallback None fs)"
proof -
  have again: "SetWriteCallback (Some callback) (SetWriteCallback None fs) = fs"
    using assms(2) by (simp add: SetWriteCallback_def)
  have none: "Write e h buf off flags (SetWriteCallback None fs) =
      (if fs_discardWrites fs then discard_write else write_node) e (of_node f) buf off (SetWriteCallback None fs)"
    using assms(1) by (simp add: Write_def with_open_def SetWriteCallback_def)
  have go: "(if fs_discardWrites fs then discard_write else write_node) e (of_node f) buf off fs =
      (let (r, fs') = Write e h buf off flags (SetWriteCallback None fs) in (r, SetWriteCallback (Some callback) fs'))"
    unfolding none using write_callback_transparent [of e "of_node f" buf off "Some callback" "SetWriteCallback None fs"] again by simp
  have "Write e h buf off flags fs = intercept (getOperationContext e fs) result (Ok (length buf), fs)
      ((if fs_discardWrites fs then discard_write else write_node) e (of_node f) buf off fs) fs"
    using assms by (simp add: Write_def with_open_def Let_def)
  then show ?thesis
    unfolding go using none by (cases "ir_Error result"; cases "ir_Block result") (simp_all add: intercept_def)
qed

definition demo_peer :: OperationContext where
  "demo_peer = \<lparr>oc_RemoteAddr = ''10.0.0.1'', oc_LocalAddr = ''10.0.0.2'', oc_SessionID = 7,
     oc_Username = ''guest''\<rparr>"

definition answer_writes :: "InterceptResult \<Rightarrow> WriteCallback" where
  "answer_writes result ctx h path data off = result"

definition intercepted :: "InterceptResult \<Rightarrow> OperationContext option \<Rightarrow> MemoryFS" where
  "intercepted result ctx = SetOperationContext demo_env ctx (SetWriteCallback (Some (answer_writes result)) demo_opened)"

lemma intercepted_facts:
  "fs_openFiles (intercepted result ctx) = fs_openFiles demo_opened"
  "fs_writeCallback (intercepted result ctx) = Some (answer_writes result)"
  "getOperationContext demo_env (intercepted result ctx) = ctx"
  by (simp_all add: intercepted_def SetOperationContext_def SetWriteCallback_def getOperationContext_def)

theorem write_callback_decides_witness:
  "fst (Write demo_env 9 [1] 0 0 (intercepted \<lparr>ir_Block = False, ir_Error = Some ''denied''\<rparr> (Some demo_peer))) =
     Err (CallbackError ''denied'') \<and>
   Write demo_env 9 [1] 0 0 (intercepted \<lparr>ir_Block = True, ir_Error = None\<rparr> (Some demo_peer)) =
     (Ok 1, intercepted \<lparr>ir_Block = True, ir_Error = None\<rparr> (Some demo_peer)) \<and>
   fst (Write demo_env 9 [1] 0 0 (intercepted \<lparr>ir_Block = True, ir_Error = None\<rparr> None)) = Panic \<and>
   (\<exists>a fs'. Write demo_env 9 [9] 1 0 (intercepted \<lparr>ir_Block = False, ir_Error = None\<rparr> None) = (Ok 1, fs') \<and>
      mn_content (node fs' a) = [1, 9, 3])"
  (is "?error \<and> ?block \<and> ?panic \<and> ?pass")
proof -
  obtain a where a: "linked demo_opened 9 [''d'', ''f''] a" "\<not> mn_isDir (node demo_opened a)"
      "mn_content (node demo_opened a) = [1, 2, 3]" "size_ok (node demo_opened a)" "\<not> fs_discardWrites demo_opened"
    using demo_opened_facts by blast
  obtain f where f: "fs_openFiles demo_opened 9 = Some f" "of_node f = a" using linkedD(1) [OF a(1)] by auto
  then have o: "fs_openFiles (intercepted result ctx) 9 = Some f" for result ctx by (simp add: intercepted_facts)
  have decides: "Write demo_env 9 buf off 0 (intercepted result ctx) =
      (case (ir_Error result, ir_Block result) of
         (None, False) \<Rightarrow>
           (let (r, fs') = (if fs_discardWrites (intercepted result ctx) then discard_write else write_node) demo_env a buf off
                (SetWriteCallback None (intercepted result ctx))
            in (r, SetWriteCallback (Some (answer_writes result)) fs'))
       | (Some err, _) \<Rightarrow> (if ctx = None then Panic else Err (CallbackError err), intercepted result ctx)
       | (None, True) \<Rightarrow> (if ctx = None then Panic else Ok (length buf), intercepted result ctx))" for result ctx buf off
    using write_callback_decides [OF o [of result ctx] intercepted_facts(2) refl, of demo_env buf off 0] f(2)
    by (cases "ir_Error result"; cases "ir_Block result")
      (simp_all only: intercepted_facts answer_writes_def prod.case option.case bool.case Let_def)
  have ?error ?block ?panic by (simp_all add: decides)
  moreover have ?pass
  proof -
    let ?fs = "SetWriteCallback None (intercepted \<lparr>ir_Block = False, ir_Error = None\<rparr> None)"
    have n: "node ?fs = node demo_opened" "\<not> fs_discardWrites ?fs"
      using a(5) by (simp_all add: intercepted_def SetOperationContext_def SetWriteCallback_def)
    have "mn_size (node demo_opened a) = 3" using a(3,4) by (simp add: size_ok_def word_unat_eq_iff)
    then have "\<exists>fs'. write_node demo_env a [9] 1 ?fs = (Ok 1, fs') \<and> mn_content (node fs' a) = [1, 9, 3]"
      using n a(2,3) by (simp add: write_node_def copy_at_def set_node_def)
    then show ?thesis
      using n(2) by (auto simp: decides SetWriteCallback_def intro!: exI [of _ a])
  qed
  ultimately show ?thesis by simp
qed

end
