(* ===== verification/GoBytes.thy ===== *)
theory GoBytes
  imports Prelude
begin

text \<open>
  Byte slices as the codecs of internal/smb2 use them. A received buffer is a \<open>slice\<close>: the
  bytes from its start to the end of its capacity, and its length. An index checks the
  length, \<open>r[a:b]\<close> checks the capacity and \<open>r[a:]\<close> the length; a failed check panics, which is
  \<open>None\<close>. A buffer an encoder fills was made for it, so its length is its capacity and it is a
  plain list. encoding/binary's little-endian accessors are written out.
\<close>

section \<open>Received buffers\<close>

datatype slice = Slice (sl_arr: bytes) (slen: nat)

fun slice_ok :: "slice \<Rightarrow> bool" where
  "slice_ok (Slice xs n) = (n \<le> length xs)"

fun sidx :: "nat \<Rightarrow> slice \<Rightarrow> u8 option" where
  "sidx i (Slice xs n) = (if i < n then Some (xs ! i) else None)"

fun ssub :: "nat \<Rightarrow> nat \<Rightarrow> slice \<Rightarrow> slice option" where
  "ssub a b (Slice xs n) =
     (if a \<le> b \<and> b \<le> length xs then Some (Slice (drop a xs) (b - a)) else None)"

fun sfrom :: "nat \<Rightarrow> slice \<Rightarrow> slice option" where
  "sfrom a (Slice xs n) = (if a \<le> n then Some (Slice (drop a xs) (n - a)) else None)"

fun sbytes :: "slice \<Rightarrow> bytes" where
  "sbytes (Slice xs n) = take n xs"

definition of_bytes :: "bytes \<Rightarrow> slice" where
  "of_bytes bs = Slice bs (length bs)"

section \<open>Little-endian numbers\<close>

fun le_nat :: "bytes \<Rightarrow> nat" where
  "le_nat [] = 0"
| "le_nat (b # bs) = unat b + 256 * le_nat bs"

fun le_bytes :: "nat \<Rightarrow> nat \<Rightarrow> bytes" where
  "le_bytes 0 n = []"
| "le_bytes (Suc k) n = of_nat (n mod 256) # le_bytes k (n div 256)"

lemma length_le_bytes [simp]: "length (le_bytes k n) = k"
  by (induction k arbitrary: n) simp_all

lemma le_nat_bytes: "le_nat (le_bytes k n) = n mod 256 ^ k"
proof (induction k arbitrary: n)
  case 0
  then show ?case by simp
next
  case (Suc k)
  have "unat (of_nat (n mod 256) :: u8) = n mod 256" by (simp add: unat_of_nat)
  then show ?case by (simp add: Suc mod_mult2_eq)
qed

lemma le_nat_less: "le_nat bs < 256 ^ length bs"
proof (induction bs)
  case Nil
  then show ?case by simp
next
  case (Cons b bs)
  have "unat b < 256" using unsigned_less [where 'a = nat, of b] by simp
  with Cons show ?case by simp
qed

lemma le_bytes_nat: "le_bytes (length bs) (le_nat bs) = bs"
proof (induction bs)
  case Nil
  then show ?case by simp
next
  case (Cons b bs)
  have "unat b < 256" using unsigned_less [where 'a = nat, of b] by simp
  then show ?case by (simp add: Cons)
qed

text \<open>\<open>le.UintN(s)\<close> reads the first bytes of its argument and panics on a shorter one.\<close>

definition le_read :: "nat \<Rightarrow> slice \<Rightarrow> nat option" where
  "le_read k s = (if slen s < k then None else Some (le_nat (take k (sl_arr s))))"

definition le_u16 :: "slice \<Rightarrow> u16 option" where "le_u16 s = map_option of_nat (le_read 2 s)"
definition le_u32 :: "slice \<Rightarrow> u32 option" where "le_u32 s = map_option of_nat (le_read 4 s)"
definition le_u64 :: "slice \<Rightarrow> u64 option" where "le_u64 s = map_option of_nat (le_read 8 s)"

text \<open>\<open>le.UintN(r[a : a+N/8])\<close>, the accessors' usual form.\<close>

definition get16 :: "nat \<Rightarrow> slice \<Rightarrow> u16 option" where "get16 a r = Option.bind (ssub a (a + 2) r) le_u16"
definition get32 :: "nat \<Rightarrow> slice \<Rightarrow> u32 option" where "get32 a r = Option.bind (ssub a (a + 4) r) le_u32"
definition get64 :: "nat \<Rightarrow> slice \<Rightarrow> u64 option" where "get64 a r = Option.bind (ssub a (a + 8) r) le_u64"

definition window :: "nat \<Rightarrow> nat \<Rightarrow> 'a list \<Rightarrow> 'a list" where
  "window a n bs = take n (drop a bs)"

lemma get_eqs:
  "get16 a (Slice xs n) = (if a + 2 \<le> length xs then Some (of_nat (le_nat (window a 2 xs))) else None)"
  "get32 a (Slice xs n) = (if a + 4 \<le> length xs then Some (of_nat (le_nat (window a 4 xs))) else None)"
  "get64 a (Slice xs n) = (if a + 8 \<le> length xs then Some (of_nat (le_nat (window a 8 xs))) else None)"
  by (simp_all add: get16_def get32_def get64_def le_u16_def le_u32_def le_u64_def le_read_def window_def)

lemma get_defined:
  "slice_ok r \<Longrightarrow> a + 2 \<le> slen r \<Longrightarrow> \<exists>v. get16 a r = Some v"
  "slice_ok r \<Longrightarrow> a + 4 \<le> slen r \<Longrightarrow> \<exists>v. get32 a r = Some v"
  "slice_ok r \<Longrightarrow> a + 8 \<le> slen r \<Longrightarrow> \<exists>v. get64 a r = Some v"
  "i < slen r \<Longrightarrow> \<exists>v. sidx i r = Some v"
  by (cases r; simp add: get_eqs)+

lemma ssub_defined: "slice_ok r \<Longrightarrow> a \<le> b \<Longrightarrow> b \<le> slen r \<Longrightarrow> \<exists>s. ssub a b r = Some s \<and> slen s = b - a \<and> slice_ok s"
  by (cases r) auto

lemma sfrom_defined: "slice_ok r \<Longrightarrow> a \<le> slen r \<Longrightarrow> \<exists>s. sfrom a r = Some s \<and> slen s = slen r - a \<and> slice_ok s"
  by (cases r) auto

lemma of_nat_le_word:
  "(of_nat (le_nat (le_bytes 2 (unat w))) :: u16) = w"
  "(of_nat (le_nat (le_bytes 4 (unat d))) :: u32) = d"
  "(of_nat (le_nat (le_bytes 8 (unat q))) :: u64) = q"
proof -
  have "unat w < 256 ^ 2" "unat d < 256 ^ 4" "unat q < 256 ^ 8"
    using unsigned_less [where 'a = nat, of w] unsigned_less [where 'a = nat, of d] unsigned_less [where 'a = nat, of q] by simp_all
  then show "(of_nat (le_nat (le_bytes 2 (unat w))) :: u16) = w"
    "(of_nat (le_nat (le_bytes 4 (unat d))) :: u32) = d"
    "(of_nat (le_nat (le_bytes 8 (unat q))) :: u64) = q"
    by (simp_all add: le_nat_bytes)
qed

section \<open>Buffers an encoder fills\<close>

text \<open>A write into \<open>p[a : a + length xs]\<close>; \<open>copy(p[a:], xs)\<close>, which stops at the end of \<open>p\<close>.\<close>

definition put :: "nat \<Rightarrow> bytes \<Rightarrow> bytes \<Rightarrow> bytes option" where
  "put a xs p = (if a + length xs \<le> length p then Some (copy_at a xs p) else None)"

definition copy_from :: "nat \<Rightarrow> bytes \<Rightarrow> bytes \<Rightarrow> bytes option" where
  "copy_from a xs p = (if a \<le> length p then Some (copy_at a xs p) else None)"

definition put8 :: "nat \<Rightarrow> u8 \<Rightarrow> bytes \<Rightarrow> bytes option" where "put8 a v = put a [v]"
definition put16 :: "nat \<Rightarrow> u16 \<Rightarrow> bytes \<Rightarrow> bytes option" where "put16 a v = put a (le_bytes 2 (unat v))"
definition put32 :: "nat \<Rightarrow> u32 \<Rightarrow> bytes \<Rightarrow> bytes option" where "put32 a v = put a (le_bytes 4 (unat v))"
definition put64 :: "nat \<Rightarrow> u64 \<Rightarrow> bytes \<Rightarrow> bytes option" where "put64 a v = put a (le_bytes 8 (unat v))"

text \<open>Statements in sequence, and a callee that is given \<open>p[off:]\<close> or \<open>p[a:b]\<close>.\<close>

fun seqw :: "(bytes \<Rightarrow> bytes option) list \<Rightarrow> bytes \<Rightarrow> bytes option" where
  "seqw [] p = Some p"
| "seqw (w # ws) p = Option.bind (w p) (seqw ws)"

definition at_off :: "nat \<Rightarrow> (bytes \<Rightarrow> bytes option) \<Rightarrow> bytes \<Rightarrow> bytes option" where
  "at_off off f p =
     (if off \<le> length p then map_option (\<lambda>t. take off p @ t) (f (drop off p)) else None)"

definition at_range :: "nat \<Rightarrow> nat \<Rightarrow> (bytes \<Rightarrow> bytes option) \<Rightarrow> bytes \<Rightarrow> bytes option" where
  "at_range a b f p =
     (if a \<le> b \<and> b \<le> length p
      then map_option (\<lambda>t. take a p @ t @ drop b p) (f (window a (b - a) p)) else None)"

lemma window_copy_at_same:
  "a + length xs \<le> length p \<Longrightarrow> n = length xs \<Longrightarrow> window a n (copy_at a xs p) = xs"
  unfolding window_def by (simp add: copy_at_window)

lemma window_copy_at_other:
  "a + n \<le> b \<or> b + length xs \<le> a \<Longrightarrow> window a n (copy_at b xs p) = window a n p"
proof (cases "b \<le> length p")
  case True
  assume d: "a + n \<le> b \<or> b + length xs \<le> a"
  show "window a n (copy_at b xs p) = window a n p"
  proof (rule nth_equalityI)
    show "length (window a n (copy_at b xs p)) = length (window a n p)" by (simp add: window_def)
    fix i
    assume "i < length (window a n (copy_at b xs p))"
    then have "i < n" "a + i < length p" by (auto simp: window_def)
    then show "window a n (copy_at b xs p) ! i = window a n p ! i"
      using d True nth_copy_at [of b p "a + i" xs] by (auto simp: window_def)
  qed
qed (simp add: copy_at_def)

lemma window_before: "a + n \<le> b \<Longrightarrow> window a n (copy_at b xs p) = window a n p"
  and window_after: "b + length xs \<le> a \<Longrightarrow> window a n (copy_at b xs p) = window a n p"
  by (simp_all add: window_copy_at_other)

lemmas windows = window_copy_at_same window_before window_after

lemma put_ok [simp]: "a + length xs \<le> length p \<Longrightarrow> put a xs p = Some (copy_at a xs p)"
  by (simp add: put_def)

lemmas puts = put8_def put16_def put32_def put64_def

lemma length_put: "put a xs p = Some p' \<Longrightarrow> length p' = length p"
  by (auto simp: put_def split: if_splits)

section \<open>What an encoder may do to its buffer\<close>

text \<open>On a buffer of at least \<open>n\<close> bytes: no panic, the length stays, bytes from \<open>n\<close> on stay.\<close>

definition fits :: "nat \<Rightarrow> (bytes \<Rightarrow> bytes option) \<Rightarrow> bool" where
  "fits n w \<longleftrightarrow> (\<forall>p. n \<le> length p \<longrightarrow>
     (\<exists>p'. w p = Some p' \<and> length p' = length p \<and> drop n p' = drop n p))"

named_theorems fit \<open>closure of fits under the ways encoders are built\<close>

lemma fitsD:
  "fits n w \<Longrightarrow> n \<le> length p \<Longrightarrow> \<exists>p'. w p = Some p' \<and> length p' = length p \<and> drop n p' = drop n p"
  by (simp add: fits_def)

lemma drop_copy_at: "a + length xs \<le> n \<Longrightarrow> n \<le> length p \<Longrightarrow> drop n (copy_at a xs p) = drop n p"
proof -
  assume l: "a + length xs \<le> n" "n \<le> length p"
  then have "drop n (copy_at a xs p) = drop (n - (a + length xs)) (drop (a + length xs) p)"
    by (simp add: copy_at_def)
  then show ?thesis using l by simp
qed

lemma fits_put [fit]: "a + length xs \<le> n \<Longrightarrow> fits n (put a xs)"
  by (simp add: fits_def drop_copy_at)

lemma fits_puts [fit]:
  "a + 1 \<le> n \<Longrightarrow> fits n (put8 a b)" "a + 2 \<le> n \<Longrightarrow> fits n (put16 a w)"
  "a + 4 \<le> n \<Longrightarrow> fits n (put32 a d)" "a + 8 \<le> n \<Longrightarrow> fits n (put64 a q)"
  by (auto simp: puts intro!: fits_put)

lemma fits_copy_from [fit]: "a + length xs \<le> n \<Longrightarrow> fits n (copy_from a xs)"
  by (simp add: fits_def copy_from_def drop_copy_at)

lemma fits_Nil [fit]: "fits n (seqw [])"
  by (simp add: fits_def)

lemma fits_Cons [fit]: "fits n w \<Longrightarrow> fits n (seqw ws) \<Longrightarrow> fits n (seqw (w # ws))"
  unfolding fits_def by (metis (no_types, lifting) bind.bind_lunit seqw.simps(2))

lemma seqw_append: "seqw (ws @ vs) p = Option.bind (seqw ws p) (seqw vs)"
  by (induction ws arbitrary: p) (auto simp: bind_eq_Some_conv split: Option.bind_splits)

lemma fits_seqw: "(\<And>w. w \<in> set ws \<Longrightarrow> fits n w) \<Longrightarrow> fits n (seqw ws)"
  by (induction ws) (auto intro: fit)

lemma fits_append [fit]: "fits n (seqw ws) \<Longrightarrow> fits n (seqw vs) \<Longrightarrow> fits n (seqw (ws @ vs))"
  unfolding fits_def seqw_append by (metis bind.bind_lunit)

lemma fits_mono: "fits m w \<Longrightarrow> m \<le> n \<Longrightarrow> fits n w"
  unfolding fits_def
proof (intro allI impI)
  fix p :: bytes
  assume a: "\<forall>p. m \<le> length p \<longrightarrow> (\<exists>p'. w p = Some p' \<and> length p' = length p \<and> drop m p' = drop m p)"
    and "m \<le> n" "n \<le> length p"
  then obtain p' where "w p = Some p'" "length p' = length p" "drop m p' = drop m p" by force
  moreover have "drop n p' = drop (n - m) (drop m p')" using \<open>m \<le> n\<close> by simp
  ultimately show "\<exists>p'. w p = Some p' \<and> length p' = length p \<and> drop n p' = drop n p"
    using \<open>m \<le> n\<close> by simp
qed

lemma fits_at_off [fit]: "off \<le> n \<Longrightarrow> fits (n - off) f \<Longrightarrow> fits n (at_off off f)"
  unfolding fits_def
proof (intro allI impI)
  fix p :: bytes
  assume o: "off \<le> n" and n: "n \<le> length p"
    and f: "\<forall>p. n - off \<le> length p \<longrightarrow>
      (\<exists>p'. f p = Some p' \<and> length p' = length p \<and> drop (n - off) p' = drop (n - off) p)"
  then obtain t where t: "f (drop off p) = Some t" "length t = length p - off"
    "drop (n - off) t = drop (n - off) (drop off p)" by (auto dest: spec [of _ "drop off p"])
  have l: "off \<le> length p" using o n by simp
  then have "drop n (take off p @ t) = drop (n - off) t" using o by simp
  with t o l show "\<exists>p'. at_off off f p = Some p' \<and> length p' = length p \<and> drop n p' = drop n p"
    by (simp add: at_off_def)
qed

lemma fits_at_range [fit]: "a \<le> b \<Longrightarrow> b \<le> n \<Longrightarrow> fits (b - a) f \<Longrightarrow> fits n (at_range a b f)"
  unfolding fits_def
proof (intro allI impI)
  fix p :: bytes
  assume ab: "a \<le> b" "b \<le> n" and n: "n \<le> length p"
    and f: "\<forall>p. b - a \<le> length p \<longrightarrow>
      (\<exists>p'. f p = Some p' \<and> length p' = length p \<and> drop (b - a) p' = drop (b - a) p)"
  have w: "length (window a (b - a) p) = b - a" using ab n by (simp add: window_def)
  with f [rule_format, of "window a (b - a) p"]
  obtain t where t: "f (window a (b - a) p) = Some t" "length t = b - a" by auto
  have "drop n (take a p @ t @ drop b p) = drop n p" using t(2) ab n by simp
  with t ab n show "\<exists>p'. at_range a b f p = Some p' \<and> length p' = length p \<and> drop n p' = drop n p"
    by (simp add: at_range_def)
qed

text \<open>A loop that writes the items of a list one after the other writes their concatenation.\<close>

lemma copy_at_Nil [simp]: "copy_at a [] p = p"
  by (simp add: copy_at_def)

lemma copy_at_append:
  "a + length xs + length ys \<le> length p \<Longrightarrow>
   copy_at (a + length xs) ys (copy_at a xs p) = copy_at a (xs @ ys) p"
proof -
  assume l: "a + length xs + length ys \<le> length p"
  then have "take (a + length xs) (copy_at a xs p) = take a p @ xs" by (simp add: copy_at_def)
  moreover have "drop (a + length xs + length ys) (copy_at a xs p) = drop (a + length xs + length ys) p"
    using l by (intro drop_copy_at) simp_all
  ultimately show ?thesis using l by (simp add: copy_at_def add.assoc)
qed

lemma seqw_series:
  assumes "\<And>x. length (f x) = k" and "b + k * (i + length xs) \<le> length p"
  shows "seqw (map (\<lambda>(j, x). put (b + k * j) (f x)) (enumerate i xs)) p =
    Some (copy_at (b + k * i) (concat (map f xs)) p)"
  using assms(2)
proof (induction xs arbitrary: i p)
  case Nil
  then show ?case by simp
next
  case (Cons x xs)
  have l: "b + k * i + k + k * length xs \<le> length p" using Cons.prems by (simp add: algebra_simps)
  have c: "length (concat (map f xs)) = k * length xs"
    using assms(1) by (induction xs) auto
  have "seqw (map (\<lambda>(j, x). put (b + k * j) (f x)) (enumerate (Suc i) xs)) (copy_at (b + k * i) (f x) p)
    = Some (copy_at (b + k * Suc i) (concat (map f xs)) (copy_at (b + k * i) (f x) p))"
    by (rule Cons.IH) (use l assms(1) in \<open>simp add: algebra_simps\<close>)
  also have "copy_at (b + k * Suc i) (concat (map f xs)) (copy_at (b + k * i) (f x) p) =
      copy_at (b + k * i) (f x @ concat (map f xs)) p"
    using copy_at_append [of "b + k * i" "f x" "concat (map f xs)" p] l c assms(1)
    by (simp add: algebra_simps)
  finally show ?case using l assms(1) by simp
qed

lemma fits_series:
  "(\<And>x. length (f x) = k) \<Longrightarrow> b + k * length xs \<le> n \<Longrightarrow>
   fits n (seqw (map (\<lambda>(j, x). put (b + k * j) (f x)) (enumerate 0 xs)))"
proof -
  assume f: "\<And>x. length (f x) = k" and n: "b + k * length xs \<le> n"
  have c: "length (concat (map f xs)) = k * length xs" using f by (induction xs) auto
  show ?thesis unfolding fits_def
  proof (intro allI impI)
    fix p :: bytes
    assume "n \<le> length p"
    with n c f show "\<exists>p'. seqw (map (\<lambda>(j, x). put (b + k * j) (f x)) (enumerate 0 xs)) p = Some p' \<and>
        length p' = length p \<and> drop n p' = drop n p"
      by (subst seqw_series [OF f]) (auto simp: drop_copy_at)
  qed
qed

end
