(* ===== verification/Dtyp.thy ===== *)
theory Dtyp
  imports GoBytes
begin

text \<open>
  The small wire types of internal/smb2: \<open>Filetime\<close> and \<open>Sid\<close> (dtyp.go), \<open>FileId\<close> (smb2.go and
  util.go), and the UTF-16 strings of internal/utf16le. A Go string is the list of the runes
  that ranging over it yields. Each encoder is an interpretation of the interface at the end.
\<close>

section \<open>The Encoder interface\<close>

text \<open>\<open>Encoder\<close> of iface.go: \<open>Encode\<close> fills a buffer of at least \<open>Size\<close> bytes without
  panicking, and touches no byte after those.\<close>

locale encoder =
  fixes size_of :: "'a \<Rightarrow> nat" and encode :: "'a \<Rightarrow> bytes \<Rightarrow> bytes option" and ok :: "'a \<Rightarrow> bool"
  assumes encode_fits: "ok c \<Longrightarrow> fits (size_of c) (encode c)"
begin

lemma encode_exact: "ok c \<Longrightarrow> \<exists>p'. encode c (replicate (size_of c) 0) = Some p' \<and> length p' = size_of c"
  using fitsD [OF encode_fits, of c "replicate (size_of c) 0"] by auto

text \<open>An item encoded inside a larger buffer leaves what is around it alone.\<close>

lemma encode_at:
  assumes "ok c" and "off + size_of c \<le> length p"
  shows "\<exists>p'. at_off off (encode c) p = Some p' \<and> length p' = length p \<and>
    take off p' = take off p \<and> drop (off + size_of c) p' = drop (off + size_of c) p"
proof -
  have "size_of c \<le> length (drop off p)" using assms(2) by simp
  from fitsD [OF encode_fits [OF assms(1)] this] obtain t where t: "encode c (drop off p) = Some t"
    "length t = length p - off" "drop (size_of c) t = drop (size_of c) (drop off p)" by auto
  have l: "off \<le> length p" using assms(2) by simp
  let ?p = "take off p @ t"
  have "drop (off + size_of c) ?p = drop (size_of c) t" using l by simp
  then have "drop (off + size_of c) ?p = drop (off + size_of c) p" using t(3) by (simp add: add.commute)
  with t(1,2) l show ?thesis by (simp add: at_off_def)
qed

text \<open>A series of items, one after the other.\<close>

fun encode_series :: "nat \<Rightarrow> 'a list \<Rightarrow> bytes \<Rightarrow> bytes option" where
  "encode_series off [] p = Some p"
| "encode_series off (c # cs) p =
     Option.bind (at_off off (encode c) p) (encode_series (off + size_of c) cs)"

lemma encode_series_fits:
  assumes "\<And>c. c \<in> set cs \<Longrightarrow> ok c" and "off + sum_list (map size_of cs) \<le> length p"
  shows "\<exists>p'. encode_series off cs p = Some p' \<and> length p' = length p \<and> take off p' = take off p"
  using assms
proof (induction cs arbitrary: off p)
  case Nil
  then show ?case by simp
next
  case (Cons c cs)
  obtain q where q: "at_off off (encode c) p = Some q" "length q = length p" "take off q = take off p"
    using encode_at [of c off p] Cons.prems by auto
  have "off + size_of c + sum_list (map size_of cs) \<le> length q" using Cons.prems q by simp
  then obtain r where r: "encode_series (off + size_of c) cs q = Some r" "length r = length q"
    "take (off + size_of c) r = take (off + size_of c) q" using Cons.IH Cons.prems(1) by force
  have "take off r = take off q"
    using arg_cong [OF r(3), of "take off"] by (simp add: min_def)
  with q r show ?case by simp
qed

end

section \<open>FILETIME\<close>

record Filetime =
  ft_LowDateTime :: u32
  ft_HighDateTime :: u32

definition Filetime_Size :: "Filetime \<Rightarrow> nat" where "Filetime_Size ft = 8"

definition Filetime_Encode :: "Filetime \<Rightarrow> bytes \<Rightarrow> bytes option" where
  "Filetime_Encode ft = seqw [put32 0 (ft_LowDateTime ft), put32 4 (ft_HighDateTime ft)]"

text \<open>int64 arithmetic: every step wraps.\<close>

definition filetime_nanoseconds :: "u32 \<Rightarrow> u32 \<Rightarrow> int" where
  "filetime_nanoseconds low high =
     (let nsec = wrap64 (wrap64 (uint high * 2 ^ 32) + uint low) in
      if nsec = 0 then 0
      else wrap64 (wrap64 (nsec - 116444736000000000) * 100))"

definition Filetime_Nanoseconds :: "Filetime \<Rightarrow> int" where
  "Filetime_Nanoseconds ft = filetime_nanoseconds (ft_LowDateTime ft) (ft_HighDateTime ft)"

text \<open>Go's division truncates towards zero.\<close>

definition div_trunc :: "int \<Rightarrow> int \<Rightarrow> int" where
  "div_trunc a b = (if a < 0 then - ((- a) div b) else a div b)"

definition NsecToFiletime :: "int \<Rightarrow> Filetime" where
  "NsecToFiletime nsec =
     (let n = wrap64 (div_trunc nsec 100 + 116444736000000000)
      in \<lparr>ft_LowDateTime = word_of_int n, ft_HighDateTime = word_of_int (n div 2 ^ 32)\<rparr>)"

definition FiletimeDecoder_LowDateTime :: "slice \<Rightarrow> u32 option" where "FiletimeDecoder_LowDateTime r = get32 0 r"
definition FiletimeDecoder_HighDateTime :: "slice \<Rightarrow> u32 option" where "FiletimeDecoder_HighDateTime r = get32 4 r"

definition FiletimeDecoder_Nanoseconds :: "slice \<Rightarrow> int option" where
  "FiletimeDecoder_Nanoseconds r =
     do { high \<leftarrow> FiletimeDecoder_HighDateTime r;
          low \<leftarrow> FiletimeDecoder_LowDateTime r;
          Some (filetime_nanoseconds low high) }"

definition FiletimeDecoder_Decode :: "slice \<Rightarrow> Filetime option" where
  "FiletimeDecoder_Decode r =
     do { low \<leftarrow> FiletimeDecoder_LowDateTime r;
          high \<leftarrow> FiletimeDecoder_HighDateTime r;
          Some \<lparr>ft_LowDateTime = low, ft_HighDateTime = high\<rparr> }"

section \<open>SID\<close>

record Sid =
  sid_Revision :: u8
  sid_IdentifierAuthority :: u64
  sid_SubAuthority :: "u32 list"

definition Sid_Size :: "Sid \<Rightarrow> nat" where
  "Sid_Size sid = 8 + length (sid_SubAuthority sid) * 4"

text \<open>The authority is shifted by \<open>8*(6-j)\<close> bits for the byte at \<open>2+j\<close>.\<close>

definition Sid_Encode :: "Sid \<Rightarrow> bytes \<Rightarrow> bytes option" where
  "Sid_Encode sid = seqw
     ([put8 0 (sid_Revision sid), put8 1 (of_nat (length (sid_SubAuthority sid)))] @
      map (\<lambda>j. put8 (2 + j) (ucast (drop_bit (8 * (6 - j)) (sid_IdentifierAuthority sid)))) [0..<6] @
      map (\<lambda>(i, u). put32 (8 + 4 * i) u) (enumerate 0 (sid_SubAuthority sid)))"

definition SidDecoder_Revision :: "slice \<Rightarrow> u8 option" where "SidDecoder_Revision r = sidx 0 r"
definition SidDecoder_SubAuthorityCount :: "slice \<Rightarrow> u8 option" where "SidDecoder_SubAuthorityCount r = sidx 1 r"

definition SidDecoder_IsInvalid :: "slice \<Rightarrow> bool option" where
  "SidDecoder_IsInvalid c =
     (if slen c < 8 then Some True
      else do { n \<leftarrow> SidDecoder_SubAuthorityCount c; Some (slen c < 8 + unat n * 4) })"

definition SidDecoder_IdentifierAuthority :: "slice \<Rightarrow> u64 option" where
  "SidDecoder_IdentifierAuthority c =
     foldr (\<lambda>j acc. do { b \<leftarrow> sidx (7 - j) c; u \<leftarrow> acc; Some (push_bit (8 * j) (ucast b) + u) })
       [0..<6] (Some 0)"

definition SidDecoder_SubAuthority :: "slice \<Rightarrow> u32 list option" where
  "SidDecoder_SubAuthority c =
     do { count \<leftarrow> SidDecoder_SubAuthorityCount c;
          those (map (\<lambda>i. get32 (8 + 4 * i) c) [0..<unat count]) }"

definition SidDecoder_Decode :: "slice \<Rightarrow> Sid option" where
  "SidDecoder_Decode c =
     do { rv \<leftarrow> SidDecoder_Revision c;
          ia \<leftarrow> SidDecoder_IdentifierAuthority c;
          sa \<leftarrow> SidDecoder_SubAuthority c;
          Some \<lparr>sid_Revision = rv, sid_IdentifierAuthority = ia, sid_SubAuthority = sa\<rparr> }"

section \<open>FILEID\<close>

record FileId =
  fid_Persistent :: bytes
  fid_Volatile :: bytes

text \<open>The two fields are arrays of eight bytes.\<close>

definition fid_ok :: "FileId \<Rightarrow> bool" where
  "fid_ok fd \<longleftrightarrow> length (fid_Persistent fd) = 8 \<and> length (fid_Volatile fd) = 8"

text \<open>\<open>ToUUID\<close> copies out of the fresh \<open>uuid\<close> into the file id: the id becomes zero, and so is
  the result.\<close>

definition FileId_ToUUID :: "FileId \<Rightarrow> bytes \<times> FileId" where
  "FileId_ToUUID fd =
     (let uuid = replicate 16 0
      in (uuid, fd\<lparr>fid_Persistent := copy_at 0 uuid (fid_Persistent fd),
                   fid_Volatile := copy_at 0 (drop 8 uuid) (fid_Volatile fd)\<rparr>))"

definition FileId_IsZero :: "FileId option \<Rightarrow> bool" where
  "FileId_IsZero f =
     (case f of None \<Rightarrow> True
      | Some fd \<Rightarrow> list_all (\<lambda>b. b = 0) (fid_Persistent fd) \<and> list_all (\<lambda>b. b = 0) (fid_Volatile fd))"

definition FileId_Size :: "FileId option \<Rightarrow> nat" where "FileId_Size fd = 16"

text \<open>\<open>Encode\<close> on a nil pointer writes zeros.\<close>

definition FileId_Encode :: "FileId option \<Rightarrow> bytes \<Rightarrow> bytes option" where
  "FileId_Encode f =
     (case f of
        None \<Rightarrow> put 0 (replicate 16 0)
      | Some fd \<Rightarrow> seqw [put 0 (fid_Persistent fd), put 8 (fid_Volatile fd)])"

definition FileIdDecoder_Persistent :: "slice \<Rightarrow> slice option" where "FileIdDecoder_Persistent r = ssub 0 8 r"
definition FileIdDecoder_Volatile :: "slice \<Rightarrow> slice option" where "FileIdDecoder_Volatile r = ssub 8 16 r"

definition FileIdDecoder_Decode :: "slice \<Rightarrow> FileId option" where
  "FileIdDecoder_Decode fd =
     do { p \<leftarrow> ssub 0 8 fd; v \<leftarrow> ssub 8 16 fd;
          Some \<lparr>fid_Persistent = sbytes p, fid_Volatile = sbytes v\<rparr> }"

definition HandleId :: "FileId \<Rightarrow> u64" where "HandleId f = of_nat (le_nat (fid_Volatile f))"

definition SetHandleId :: "u64 \<Rightarrow> FileId \<Rightarrow> FileId" where
  "SetHandleId n f = f\<lparr>fid_Volatile := le_bytes 8 (unat n)\<rparr>"

definition NodeId :: "FileId \<Rightarrow> u64" where "NodeId f = of_nat (le_nat (fid_Persistent f))"

definition SetNodeId :: "u64 \<Rightarrow> FileId \<Rightarrow> FileId" where
  "SetNodeId n f = f\<lparr>fid_Persistent := le_bytes 8 (unat n)\<rparr>"

definition IsInvalidFileId :: "FileId option \<Rightarrow> bool" where
  "IsInvalidFileId f =
     (case f of None \<Rightarrow> True
      | Some fd \<Rightarrow> fid_Persistent fd = replicate 8 0xFF \<and> fid_Volatile fd = replicate 8 0xFF)"

section \<open>UTF-16 strings\<close>

type_synonym rune = nat

text \<open>utf16.Encode on the runes of a string, and utf16.Decode; an invalid rune or a lone
  surrogate becomes U+FFFD.\<close>

definition is_surrogate :: "nat \<Rightarrow> bool" where
  "is_surrogate r \<longleftrightarrow> 0xD800 \<le> r \<and> r < 0xE000"

fun utf16_units :: "rune list \<Rightarrow> u16 list" where
  "utf16_units [] = []"
| "utf16_units (r # rs) =
     (if r < 0x10000 then (if is_surrogate r then 0xFFFD else of_nat r) # utf16_units rs
      else if r \<le> 0x10FFFF then
        of_nat (0xD800 + (r - 0x10000) div 0x400) # of_nat (0xDC00 + (r - 0x10000) mod 0x400) # utf16_units rs
      else 0xFFFD # utf16_units rs)"

fun utf16_runes :: "u16 list \<Rightarrow> rune list" where
  "utf16_runes [] = []"
| "utf16_runes [w] = [if is_surrogate (unat w) then 0xFFFD else unat w]"
| "utf16_runes (w # v # ws) =
     (if \<not> is_surrogate (unat w) then unat w # utf16_runes (v # ws)
      else if unat w < 0xDC00 \<and> 0xDC00 \<le> unat v \<and> unat v < 0xE000
      then (0x10000 + (unat w - 0xD800) * 0x400 + (unat v - 0xDC00)) # utf16_runes ws
      else 0xFFFD # utf16_runes (v # ws))"

definition EncodedStringLen :: "rune list \<Rightarrow> nat" where
  "EncodedStringLen s = (\<Sum>r\<leftarrow>s. if 0x10000 \<le> r \<and> r \<le> 0x10FFFF then 4 else 2)"

definition EncodeString :: "rune list \<Rightarrow> bytes \<Rightarrow> bytes option" where
  "EncodeString src = seqw (map (\<lambda>(i, w). put16 (2 * i) w) (enumerate 0 (utf16_units src)))"

text \<open>What \<open>EncodeString\<close> returns.\<close>

definition EncodeString_len :: "rune list \<Rightarrow> nat" where
  "EncodeString_len src = length (utf16_units src) * 2"

definition EncodeStringToBytes :: "rune list \<Rightarrow> bytes" where
  "EncodeStringToBytes s = concat (map (\<lambda>w. le_bytes 2 (unat w)) (utf16_units s))"

fun utf16_words :: "bytes \<Rightarrow> u16 list" where
  "utf16_words (a # b # bs) = of_nat (le_nat [a, b]) # utf16_words bs"
| "utf16_words bs = []"

definition DecodeToString :: "bytes \<Rightarrow> rune list" where
  "DecodeToString bs =
     (let ws = utf16_words bs
      in utf16_runes (if ws \<noteq> [] \<and> last ws = 0 then butlast ws else ws))"

end
