(* ===== verification/Packet.thy ===== *)
theory Packet
  imports Dtyp
begin

text \<open>
  The SMB2 packet header and the SMB3 transform header (internal/smb2/packet.go): the header
  record and its encoder, the codec's accessors and setters, and the checks a received packet
  passes before it is dispatched. Accessors panic (\<open>None\<close>) on a packet too short for them.
\<close>

section \<open>Constants\<close>

definition MAGIC :: bytes where "MAGIC = [0xFE, 0x53, 0x4D, 0x42]"
definition MAGIC2 :: bytes where "MAGIC2 = [0xFD, 0x53, 0x4D, 0x42]"
definition SMB2_NEGOTIATE :: u16 where "SMB2_NEGOTIATE = 0"
definition SMB2_SESSION_SETUP :: u16 where "SMB2_SESSION_SETUP = 1"
definition SMB2_LOGOFF :: u16 where "SMB2_LOGOFF = 2"
definition SMB2_TREE_CONNECT :: u16 where "SMB2_TREE_CONNECT = 3"
definition SMB2_TREE_DISCONNECT :: u16 where "SMB2_TREE_DISCONNECT = 4"
definition SMB2_CREATE :: u16 where "SMB2_CREATE = 5"
definition SMB2_CLOSE :: u16 where "SMB2_CLOSE = 6"
definition SMB2_FLUSH :: u16 where "SMB2_FLUSH = 7"
definition SMB2_READ :: u16 where "SMB2_READ = 8"
definition SMB2_WRITE :: u16 where "SMB2_WRITE = 9"
definition SMB2_LOCK :: u16 where "SMB2_LOCK = 10"
definition SMB2_IOCTL :: u16 where "SMB2_IOCTL = 11"
definition SMB2_CANCEL :: u16 where "SMB2_CANCEL = 12"
definition SMB2_ECHO :: u16 where "SMB2_ECHO = 13"
definition SMB2_QUERY_DIRECTORY :: u16 where "SMB2_QUERY_DIRECTORY = 14"
definition SMB2_CHANGE_NOTIFY :: u16 where "SMB2_CHANGE_NOTIFY = 15"
definition SMB2_QUERY_INFO :: u16 where "SMB2_QUERY_INFO = 16"
definition SMB2_SET_INFO :: u16 where "SMB2_SET_INFO = 17"
definition SMB_COM_NEGOTIATE :: u16 where "SMB_COM_NEGOTIATE = 0x72"
definition SMB2_FLAGS_RELATED_OPERATIONS :: u32 where "SMB2_FLAGS_RELATED_OPERATIONS = 4"

lemmas smb2_commands = SMB2_NEGOTIATE_def SMB2_SESSION_SETUP_def SMB2_LOGOFF_def
  SMB2_TREE_CONNECT_def SMB2_TREE_DISCONNECT_def SMB2_CREATE_def SMB2_CLOSE_def SMB2_FLUSH_def
  SMB2_READ_def SMB2_WRITE_def SMB2_IOCTL_def SMB2_CANCEL_def SMB2_QUERY_DIRECTORY_def
  SMB2_QUERY_INFO_def SMB2_SET_INFO_def

section \<open>The codec\<close>

definition PacketCodec_ProtocolId :: "slice \<Rightarrow> slice option" where "PacketCodec_ProtocolId r = ssub 0 4 r"
definition PacketCodec_StructureSize :: "slice \<Rightarrow> u16 option" where "PacketCodec_StructureSize r = get16 4 r"
definition PacketCodec_SetStructureSize :: "bytes \<Rightarrow> bytes option" where "PacketCodec_SetStructureSize = put16 4 64"
definition PacketCodec_CreditCharge :: "slice \<Rightarrow> u16 option" where "PacketCodec_CreditCharge r = get16 6 r"
definition PacketCodec_SetCreditCharge :: "u16 \<Rightarrow> bytes \<Rightarrow> bytes option" where "PacketCodec_SetCreditCharge u = put16 6 u"
definition PacketCodec_Status :: "slice \<Rightarrow> u32 option" where "PacketCodec_Status r = get32 8 r"
definition PacketCodec_SetStatus :: "u32 \<Rightarrow> bytes \<Rightarrow> bytes option" where "PacketCodec_SetStatus u = put32 8 u"
definition PacketCodec_SetCommand :: "u16 \<Rightarrow> bytes \<Rightarrow> bytes option" where "PacketCodec_SetCommand u = put16 12 u"
definition PacketCodec_CreditRequest :: "slice \<Rightarrow> u16 option" where "PacketCodec_CreditRequest r = get16 14 r"
definition PacketCodec_SetCreditRequest :: "u16 \<Rightarrow> bytes \<Rightarrow> bytes option" where "PacketCodec_SetCreditRequest u = put16 14 u"
definition PacketCodec_CreditResponse :: "slice \<Rightarrow> u16 option" where "PacketCodec_CreditResponse r = get16 14 r"
definition PacketCodec_SetCreditResponse :: "u16 \<Rightarrow> bytes \<Rightarrow> bytes option" where "PacketCodec_SetCreditResponse u = put16 14 u"
definition PacketCodec_Flags :: "slice \<Rightarrow> u32 option" where "PacketCodec_Flags r = get32 16 r"
definition PacketCodec_SetFlags :: "u32 \<Rightarrow> bytes \<Rightarrow> bytes option" where "PacketCodec_SetFlags u = put32 16 u"
definition PacketCodec_NextCommand :: "slice \<Rightarrow> u32 option" where "PacketCodec_NextCommand r = get32 20 r"
definition PacketCodec_SetNextCommand :: "u32 \<Rightarrow> bytes \<Rightarrow> bytes option" where "PacketCodec_SetNextCommand u = put32 20 u"
definition PacketCodec_SetMessageId :: "u64 \<Rightarrow> bytes \<Rightarrow> bytes option" where "PacketCodec_SetMessageId u = put64 24 u"
definition PacketCodec_AsyncId :: "slice \<Rightarrow> u64 option" where "PacketCodec_AsyncId r = get64 32 r"
definition PacketCodec_SetAsyncId :: "u64 \<Rightarrow> bytes \<Rightarrow> bytes option" where "PacketCodec_SetAsyncId u = put64 32 u"
definition PacketCodec_TreeId :: "slice \<Rightarrow> u32 option" where "PacketCodec_TreeId r = get32 36 r"
definition PacketCodec_SetTreeId :: "u32 \<Rightarrow> bytes \<Rightarrow> bytes option" where "PacketCodec_SetTreeId u = put32 36 u"
definition PacketCodec_SessionId :: "slice \<Rightarrow> u64 option" where "PacketCodec_SessionId r = get64 40 r"
definition PacketCodec_SetSessionId :: "u64 \<Rightarrow> bytes \<Rightarrow> bytes option" where "PacketCodec_SetSessionId u = put64 40 u"
definition PacketCodec_Signature :: "slice \<Rightarrow> slice option" where "PacketCodec_Signature r = ssub 48 64 r"
definition PacketCodec_Data :: "slice \<Rightarrow> slice option" where "PacketCodec_Data r = sfrom 64 r"
definition PacketCodec_ChannelSequence :: "slice \<Rightarrow> u16 option" where "PacketCodec_ChannelSequence r = get16 8 r"
definition PacketCodec_SetChannelSequence :: "u16 \<Rightarrow> bytes \<Rightarrow> bytes option" where "PacketCodec_SetChannelSequence u = put16 8 u"

text \<open>\<open>copy(p, MAGIC)\<close> and \<open>copy(p[48:64], bs)\<close>.\<close>

definition PacketCodec_SetProtocolId :: "bytes \<Rightarrow> bytes option" where
  "PacketCodec_SetProtocolId = copy_from 0 MAGIC"

definition PacketCodec_SetSignature :: "bytes \<Rightarrow> bytes \<Rightarrow> bytes option" where
  "PacketCodec_SetSignature bs = at_range 48 64 (copy_from 0 bs)"

definition PacketCodec_IsSmb1 :: "slice \<Rightarrow> bool option" where
  "PacketCodec_IsSmb1 p =
     do { magic \<leftarrow> PacketCodec_ProtocolId p;
          m0 \<leftarrow> sidx 0 magic;
          if m0 \<noteq> 0xFF then Some False
          else do { m1 \<leftarrow> sidx 1 magic;
          if m1 \<noteq> 0x53 then Some False
          else do { m2 \<leftarrow> sidx 2 magic;
          if m2 \<noteq> 0x4D then Some False
          else do { m3 \<leftarrow> sidx 3 magic; Some (m3 = 0x42) }}}}"

definition PacketCodec_Command :: "slice \<Rightarrow> u16 option" where
  "PacketCodec_Command p =
     do { smb1 \<leftarrow> PacketCodec_IsSmb1 p;
          if smb1 then map_option ucast (sidx 4 p) else get16 12 p }"

definition PacketCodec_MessageId :: "slice \<Rightarrow> u64 option" where
  "PacketCodec_MessageId p =
     do { smb1 \<leftarrow> PacketCodec_IsSmb1 p;
          if smb1 then Some 0xFFFFFFFFFFFFFFFF else get64 24 p }"

definition PacketCodec_IsInvalid :: "slice \<Rightarrow> bool option" where
  "PacketCodec_IsInvalid p =
     do { smb1 \<leftarrow> PacketCodec_IsSmb1 p;
          nego \<leftarrow> (if smb1 then map_option (\<lambda>c. c = SMB_COM_NEGOTIATE) (PacketCodec_Command p)
                   else Some False);
          if nego then Some False
          else if slen p < 64 then Some True
          else do { magic \<leftarrow> PacketCodec_ProtocolId p;
          m0 \<leftarrow> sidx 0 magic; m1 \<leftarrow> sidx 1 magic; m2 \<leftarrow> sidx 2 magic; m3 \<leftarrow> sidx 3 magic;
          if m0 \<noteq> 0xFE \<or> m1 \<noteq> 0x53 \<or> m2 \<noteq> 0x4D \<or> m3 \<noteq> 0x42 then Some True
          else do { ssz \<leftarrow> PacketCodec_StructureSize p;
          if ssz \<noteq> 64 then Some True
          else do { next \<leftarrow> PacketCodec_NextCommand p;
          Some (next AND 7 \<noteq> 0 \<or> slen p \<le> unat next) }}}}"

definition PacketCodec_IsCompound :: "slice \<Rightarrow> bool option" where
  "PacketCodec_IsCompound p =
     do { flags \<leftarrow> PacketCodec_Flags p;
          if flags AND SMB2_FLAGS_RELATED_OPERATIONS = SMB2_FLAGS_RELATED_OPERATIONS then Some True
          else map_option (\<lambda>n. n \<noteq> 0) (PacketCodec_NextCommand p) }"

definition PacketCodec_IsCompoundFirst :: "slice \<Rightarrow> bool option" where
  "PacketCodec_IsCompoundFirst p =
     do { flags \<leftarrow> PacketCodec_Flags p;
          if flags AND SMB2_FLAGS_RELATED_OPERATIONS = 0
          then map_option (\<lambda>n. n \<noteq> 0) (PacketCodec_NextCommand p) else Some False }"

definition PacketCodec_IsCompoundLast :: "slice \<Rightarrow> bool option" where
  "PacketCodec_IsCompoundLast p =
     do { flags \<leftarrow> PacketCodec_Flags p;
          if flags AND SMB2_FLAGS_RELATED_OPERATIONS = SMB2_FLAGS_RELATED_OPERATIONS
          then map_option (\<lambda>n. n = 0) (PacketCodec_NextCommand p) else Some False }"

section \<open>The header and its encoder\<close>

record PacketHeader =
  ph_CreditCharge :: u16
  ph_ChannelSequence :: u16
  ph_Status :: u32
  ph_Command :: u16
  ph_CreditRequestResponse :: u16
  ph_Flags :: u32
  ph_MessageId :: u64
  ph_AsyncId :: u64
  ph_TreeId :: u32
  ph_SessionId :: u64

definition encodeHeader :: "PacketHeader \<Rightarrow> bytes \<Rightarrow> bytes option" where
  "encodeHeader hdr = seqw
     ([PacketCodec_SetProtocolId,
       PacketCodec_SetStructureSize,
       PacketCodec_SetCreditCharge (ph_CreditCharge hdr)] @
      (if ph_ChannelSequence hdr \<noteq> 0 then [PacketCodec_SetChannelSequence (ph_ChannelSequence hdr)]
       else if ph_Status hdr \<noteq> 0 then [PacketCodec_SetStatus (ph_Status hdr)] else []) @
      [PacketCodec_SetCommand (ph_Command hdr),
       PacketCodec_SetCreditRequest (ph_CreditRequestResponse hdr),
       PacketCodec_SetFlags (ph_Flags hdr),
       PacketCodec_SetMessageId (ph_MessageId hdr)] @
      (if ph_TreeId hdr \<noteq> 0 then [PacketCodec_SetTreeId (ph_TreeId hdr)]
       else if ph_AsyncId hdr \<noteq> 0 then [PacketCodec_SetAsyncId (ph_AsyncId hdr)] else []) @
      [PacketCodec_SetSessionId (ph_SessionId hdr)])"

section \<open>The transform header\<close>

definition TransformCodec_ProtocolId :: "slice \<Rightarrow> slice option" where "TransformCodec_ProtocolId r = ssub 0 4 r"
definition TransformCodec_Signature :: "slice \<Rightarrow> slice option" where "TransformCodec_Signature r = ssub 4 20 r"
definition TransformCodec_Nonce :: "slice \<Rightarrow> slice option" where "TransformCodec_Nonce r = ssub 20 36 r"
definition TransformCodec_OriginalMessageSize :: "slice \<Rightarrow> u32 option" where "TransformCodec_OriginalMessageSize r = get32 36 r"
definition TransformCodec_SetOriginalMessageSize :: "u32 \<Rightarrow> bytes \<Rightarrow> bytes option" where "TransformCodec_SetOriginalMessageSize u = put32 36 u"
definition TransformCodec_EncryptionAlgorithm :: "slice \<Rightarrow> u16 option" where "TransformCodec_EncryptionAlgorithm r = get16 42 r"
definition TransformCodec_SetEncryptionAlgorithm :: "u16 \<Rightarrow> bytes \<Rightarrow> bytes option" where "TransformCodec_SetEncryptionAlgorithm u = put16 42 u"
definition TransformCodec_SessionId :: "slice \<Rightarrow> u64 option" where "TransformCodec_SessionId r = get64 44 r"
definition TransformCodec_SetSessionId :: "u64 \<Rightarrow> bytes \<Rightarrow> bytes option" where "TransformCodec_SetSessionId u = put64 44 u"
definition TransformCodec_AssociatedData :: "slice \<Rightarrow> slice option" where "TransformCodec_AssociatedData r = ssub 20 52 r"
definition TransformCodec_EncryptedData :: "slice \<Rightarrow> slice option" where "TransformCodec_EncryptedData r = sfrom 52 r"
definition TransformCodec_Flags :: "slice \<Rightarrow> u16 option" where "TransformCodec_Flags r = get16 42 r"
definition TransformCodec_SetFlags :: "u16 \<Rightarrow> bytes \<Rightarrow> bytes option" where "TransformCodec_SetFlags u = put16 42 u"

definition TransformCodec_IsInvalid :: "slice \<Rightarrow> bool option" where
  "TransformCodec_IsInvalid p =
     (if slen p < 52 then Some True
      else do { magic \<leftarrow> TransformCodec_ProtocolId p;
                m0 \<leftarrow> sidx 0 magic; m1 \<leftarrow> sidx 1 magic; m2 \<leftarrow> sidx 2 magic; m3 \<leftarrow> sidx 3 magic;
                Some (m0 \<noteq> 0xFD \<or> m1 \<noteq> 0x53 \<or> m2 \<noteq> 0x4D \<or> m3 \<noteq> 0x42) })"

definition TransformCodec_SetProtocolId :: "bytes \<Rightarrow> bytes option" where
  "TransformCodec_SetProtocolId = at_range 0 4 (copy_from 0 MAGIC2)"

definition TransformCodec_SetSignature :: "bytes \<Rightarrow> bytes \<Rightarrow> bytes option" where
  "TransformCodec_SetSignature bs = at_range 4 20 (copy_from 0 bs)"

definition TransformCodec_SetNonce :: "bytes \<Rightarrow> bytes \<Rightarrow> bytes option" where
  "TransformCodec_SetNonce bs = at_range 20 36 (copy_from 0 bs)"

end
