(* ===== verification/NegotiateContexts.thy ===== *)
theory NegotiateContexts
  imports Packet
begin

text \<open>
  The SMB 3.1.1 negotiate contexts (internal/smb2/smb2.go, lines 69 to 258) and the quota query
  (lines 260 to 305): encoders and decoders.
\<close>

section \<open>Decoders\<close>

definition NegotiateContextDecoder_ContextType :: "slice \<Rightarrow> u16 option" where "NegotiateContextDecoder_ContextType r = get16 0 r"
definition NegotiateContextDecoder_DataLength :: "slice \<Rightarrow> u16 option" where "NegotiateContextDecoder_DataLength r = get16 2 r"

definition Roundup :: "int \<Rightarrow> int \<Rightarrow> int" where
  "Roundup x align = (x + (align - 1)) AND NOT (align - 1)"

definition NegotiateContextDecoder_IsInvalid :: "slice \<Rightarrow> bool option" where
  "NegotiateContextDecoder_IsInvalid ctx =
     (if slen ctx < 8 then Some True
      else do { len \<leftarrow> NegotiateContextDecoder_DataLength ctx; Some (slen ctx < 8 + unat len) })"

text \<open>\<open>8+len\<close> is a 16-bit sum.\<close>

definition NegotiateContextDecoder_Data :: "slice \<Rightarrow> slice option" where
  "NegotiateContextDecoder_Data ctx =
     do { len \<leftarrow> NegotiateContextDecoder_DataLength ctx; ssub 8 (unat (8 + len)) ctx }"

definition NegotiateContextDecoder_Next :: "slice \<Rightarrow> int option" where
  "NegotiateContextDecoder_Next ctx =
     do { len \<leftarrow> NegotiateContextDecoder_DataLength ctx; Some (Roundup (8 + uint len) 8) }"

definition HashContextDataDecoder_HashAlgorithmCount :: "slice \<Rightarrow> u16 option" where "HashContextDataDecoder_HashAlgorithmCount r = get16 0 r"
definition HashContextDataDecoder_SaltLength :: "slice \<Rightarrow> u16 option" where "HashContextDataDecoder_SaltLength r = get16 2 r"

definition HashContextDataDecoder_IsInvalid :: "slice \<Rightarrow> bool option" where
  "HashContextDataDecoder_IsInvalid h =
     (if slen h < 4 then Some True
      else do { count \<leftarrow> HashContextDataDecoder_HashAlgorithmCount h;
                salt \<leftarrow> HashContextDataDecoder_SaltLength h;
                Some (slen h < 4 + unat count * 2 + unat salt) })"

definition HashContextDataDecoder_HashAlgorithms :: "slice \<Rightarrow> u16 list option" where
  "HashContextDataDecoder_HashAlgorithms h =
     do { bs \<leftarrow> sfrom 4 h;
          count \<leftarrow> HashContextDataDecoder_HashAlgorithmCount h;
          those (map (\<lambda>i. get16 (2 * i) bs) [0..<unat count]) }"

definition HashContextDataDecoder_Salt :: "slice \<Rightarrow> slice option" where
  "HashContextDataDecoder_Salt h =
     do { count \<leftarrow> HashContextDataDecoder_HashAlgorithmCount h;
          len \<leftarrow> HashContextDataDecoder_SaltLength h;
          ssub (unat (4 + count * 2)) (unat (4 + count * 2 + len)) h }"

definition CipherContextDataDecoder_CipherCount :: "slice \<Rightarrow> u16 option" where "CipherContextDataDecoder_CipherCount r = get16 0 r"

definition CipherContextDataDecoder_IsInvalid :: "slice \<Rightarrow> bool option" where
  "CipherContextDataDecoder_IsInvalid c =
     (if slen c < 2 then Some True
      else do { count \<leftarrow> CipherContextDataDecoder_CipherCount c; Some (slen c < 2 + unat count * 2) })"

definition CipherContextDataDecoder_Ciphers :: "slice \<Rightarrow> u16 list option" where
  "CipherContextDataDecoder_Ciphers c =
     do { bs \<leftarrow> sfrom 2 c;
          count \<leftarrow> CipherContextDataDecoder_CipherCount c;
          those (map (\<lambda>i. get16 (2 * i) bs) [0..<unat count]) }"

section \<open>Encoders\<close>

text \<open>A loop writing 16-bit values from \<open>b\<close> on; a check that panics; and
  \<open>d := NegotiateContextDecoder(p).Data()\<close>, which re-reads the length just written. \<open>d\<close> starts at
  8 and has \<open>data_len len\<close> bytes; a slice of \<open>d\<close> with explicit bounds may go past those, up to
  the end of the buffer, one without an upper bound may not.\<close>

definition put_words :: "nat \<Rightarrow> u16 list \<Rightarrow> bytes \<Rightarrow> bytes option" where
  "put_words b ws = seqw (map (\<lambda>(i, w). put (b + 2 * i) (le_bytes 2 (unat w))) (enumerate 0 ws))"

definition need :: "bool \<Rightarrow> bytes \<Rightarrow> bytes option" where
  "need b p = (if b then Some p else None)"

definition data_len :: "u16 \<Rightarrow> nat" where
  "data_len len = unat (8 + len) - 8"

definition need_data :: "u16 \<Rightarrow> bytes \<Rightarrow> bytes option" where
  "need_data len p = need (8 \<le> unat (8 + len) \<and> unat (8 + len) \<le> length p) p"

record HashContext =
  hc_HashAlgorithms :: "u16 list"
  hc_HashSalt :: bytes

definition HashContext_Size :: "HashContext \<Rightarrow> nat" where
  "HashContext_Size c = 8 + 4 + length (hc_HashAlgorithms c) * 2 + length (hc_HashSalt c)"

definition HashContext_Encode :: "HashContext \<Rightarrow> bytes \<Rightarrow> bytes option" where
  "HashContext_Encode c =
     (let len = of_nat (4 + length (hc_HashAlgorithms c) * 2 + length (hc_HashSalt c));
          off = 4 + length (hc_HashAlgorithms c) * 2 in
      seqw [put16 0 1, put16 2 len,
        need_data len, need (4 \<le> data_len len),
        put_words (8 + 4) (hc_HashAlgorithms c),
        put16 8 (of_nat (length (hc_HashAlgorithms c))),
        need (off \<le> data_len len),
        at_range (8 + off) (8 + data_len len) (copy_from 0 (hc_HashSalt c)),
        put16 (8 + 2) (of_nat (length (hc_HashSalt c)))])"

record CipherContext =
  cc_Ciphers :: "u16 list"

definition CipherContext_Size :: "CipherContext \<Rightarrow> nat" where
  "CipherContext_Size c = 8 + 2 + length (cc_Ciphers c) * 2"

definition CipherContext_Encode :: "CipherContext \<Rightarrow> bytes \<Rightarrow> bytes option" where
  "CipherContext_Encode c =
     (let len = of_nat (2 + length (cc_Ciphers c) * 2) in
      seqw [put16 0 2, put16 2 len,
        need_data len, need (2 \<le> data_len len),
        put_words (8 + 2) (cc_Ciphers c), put16 8 (of_nat (length (cc_Ciphers c)))])"

record CompressionContext =
  cm_Compressions :: "u16 list"
  cm_Flags :: u32

definition CompressionContext_Size :: "CompressionContext \<Rightarrow> nat" where
  "CompressionContext_Size c = 16 + length (cm_Compressions c) * 2"

definition CompressionContext_Encode :: "CompressionContext \<Rightarrow> bytes \<Rightarrow> bytes option" where
  "CompressionContext_Encode c =
     (let len = of_nat (8 + length (cm_Compressions c) * 2) in
      seqw [put16 0 3, put16 2 len,
        need_data len, need (8 \<le> data_len len),
        put_words (8 + 8) (cm_Compressions c),
        need (2 \<le> data_len len), put16 8 (of_nat (length (cm_Compressions c))),
        need (8 \<le> data_len len), put32 (8 + 4) (cm_Flags c)])"

section \<open>Quota queries\<close>

record QueryQuotaInfo =
  qq_ReturnSingle :: bool
  qq_RestartScan :: bool
  qq_Sids :: "Sid list"

definition QueryQuotaInfo_Size :: "QueryQuotaInfo \<Rightarrow> nat" where
  "QueryQuotaInfo_Size q =
     (case qq_Sids q of [] \<Rightarrow> 16 | [sid] \<Rightarrow> 16 + Sid_Size sid
      | _ \<Rightarrow> 16 + (\<Sum>sid\<leftarrow>qq_Sids q. 8 + Sid_Size sid))"

text \<open>The loop over several SIDs.\<close>

fun quota_sids :: "nat \<Rightarrow> Sid list \<Rightarrow> bytes \<Rightarrow> bytes option" where
  "quota_sids off [] p = Some p"
| "quota_sids off (sid # sids) p =
     Option.bind
       (seqw [at_off (off + 8) (Sid_Encode sid),
              put32 off (of_nat (off + Sid_Size sid)),
              put32 (off + 4) (of_nat (Sid_Size sid))] p)
       (quota_sids (off + 8 + Sid_Size sid) sids)"

definition QueryQuotaInfo_Encode :: "QueryQuotaInfo \<Rightarrow> bytes \<Rightarrow> bytes option" where
  "QueryQuotaInfo_Encode q = seqw
     ((if qq_ReturnSingle q then [put8 0 1] else []) @
      (if qq_RestartScan q then [put8 1 1] else []) @
      (case qq_Sids q of
         [] \<Rightarrow> []
       | [sid] \<Rightarrow> [at_off 16 (Sid_Encode sid), put32 8 (of_nat (Sid_Size sid)), put32 12 0]
       | _ \<Rightarrow> [put32 4 1, quota_sids 16 (qq_Sids q)]))"

end
