(* ===== verification/RequestDecoders.thy ===== *)
theory RequestDecoders
  imports Packet
begin

text \<open>
  The decoders of the request bodies (internal/smb2/request.go), which read the bytes a client
  sent. Each body has a check, \<open>IsInvalid\<close>, and accessors; offsets and lengths are added at
  the width the code adds them, so a sum can wrap below the bound it is compared with. \<open>None\<close>
  is a panic; a nil slice is the empty slice.
\<close>

definition nil_slice :: slice where "nil_slice = Slice [] 0"

text \<open>\<open>r[off : off+len]\<close> with 16-bit and 32-bit operands.\<close>

definition sub16 :: "u16 \<Rightarrow> u16 \<Rightarrow> slice \<Rightarrow> slice option" where
  "sub16 off len r = ssub (unat off) (unat (off + len)) r"

definition sub32 :: "u32 \<Rightarrow> u32 \<Rightarrow> slice \<Rightarrow> slice option" where
  "sub32 off len r = ssub (unat off) (unat (off + len)) r"

text \<open>The common start of the checks: a minimal length and the structure size.\<close>

definition check_body ::
  "nat \<Rightarrow> u16 \<Rightarrow> (slice \<Rightarrow> u16 option) \<Rightarrow> slice \<Rightarrow> bool option \<Rightarrow> bool option" where
  "check_body minimum ssz StructureSize r rest =
     (if slen r < minimum then Some True
      else do { s \<leftarrow> StructureSize r; if s \<noteq> ssz then Some True else rest })"

section \<open>NEGOTIATE\<close>

definition NegotiateRequestDecoder_StructureSize :: "slice \<Rightarrow> u16 option" where "NegotiateRequestDecoder_StructureSize r = get16 0 r"
definition NegotiateRequestDecoder_DialectCount :: "slice \<Rightarrow> u16 option" where "NegotiateRequestDecoder_DialectCount r = get16 2 r"
definition NegotiateRequestDecoder_SecurityMode :: "slice \<Rightarrow> u16 option" where "NegotiateRequestDecoder_SecurityMode r = get16 4 r"
definition NegotiateRequestDecoder_Capabilities :: "slice \<Rightarrow> u32 option" where "NegotiateRequestDecoder_Capabilities r = get32 8 r"
definition NegotiateRequestDecoder_ClientGuid :: "slice \<Rightarrow> slice option" where "NegotiateRequestDecoder_ClientGuid r = ssub 12 28 r"
definition NegotiateRequestDecoder_ClientStartTime :: "slice \<Rightarrow> slice option" where "NegotiateRequestDecoder_ClientStartTime r = ssub 28 36 r"
definition NegotiateRequestDecoder_NegotiateContextOffset :: "slice \<Rightarrow> u32 option" where "NegotiateRequestDecoder_NegotiateContextOffset r = get32 28 r"
definition NegotiateRequestDecoder_NegotiateContextCount :: "slice \<Rightarrow> u16 option" where "NegotiateRequestDecoder_NegotiateContextCount r = get16 32 r"

definition NegotiateRequestDecoder_IsInvalid :: "slice \<Rightarrow> bool option" where
  "NegotiateRequestDecoder_IsInvalid r =
     check_body 36 36 NegotiateRequestDecoder_StructureSize r
       (do { noff \<leftarrow> NegotiateRequestDecoder_NegotiateContextOffset r;
             Some (noff AND 7 \<noteq> 0 \<or> int (slen r) < uint noff - 36) })"

definition NegotiateRequestDecoder_Dialects :: "slice \<Rightarrow> u16 list option" where
  "NegotiateRequestDecoder_Dialects r =
     do { count \<leftarrow> NegotiateRequestDecoder_DialectCount r;
          bs \<leftarrow> ssub 36 (unat (36 + 2 * count)) r;
          those (map (\<lambda>i. get16 (2 * i) bs) [0..<slen bs div 2]) }"

definition NegotiateRequestDecoder_NegotiateContextList :: "slice \<Rightarrow> slice option" where
  "NegotiateRequestDecoder_NegotiateContextList r =
     do { off \<leftarrow> NegotiateRequestDecoder_NegotiateContextOffset r;
          if off < 64 then Some nil_slice else sfrom (unat (off - 64)) r }"

section \<open>SESSION_SETUP\<close>

definition SessionSetupRequestDecoder_StructureSize :: "slice \<Rightarrow> u16 option" where "SessionSetupRequestDecoder_StructureSize r = get16 0 r"
definition SessionSetupRequestDecoder_Flags :: "slice \<Rightarrow> u8 option" where "SessionSetupRequestDecoder_Flags r = sidx 2 r"
definition SessionSetupRequestDecoder_SecurityMode :: "slice \<Rightarrow> u8 option" where "SessionSetupRequestDecoder_SecurityMode r = sidx 3 r"
definition SessionSetupRequestDecoder_Capabilities :: "slice \<Rightarrow> u32 option" where "SessionSetupRequestDecoder_Capabilities r = get32 4 r"
definition SessionSetupRequestDecoder_Channel :: "slice \<Rightarrow> u32 option" where "SessionSetupRequestDecoder_Channel r = get32 8 r"
definition SessionSetupRequestDecoder_PreviousSessionId :: "slice \<Rightarrow> u64 option" where "SessionSetupRequestDecoder_PreviousSessionId r = get64 16 r"
definition SessionSetupRequestDecoder_SecurityBufferOffset :: "slice \<Rightarrow> u16 option" where "SessionSetupRequestDecoder_SecurityBufferOffset r = get16 12 r"
definition SessionSetupRequestDecoder_SecurityBufferLength :: "slice \<Rightarrow> u16 option" where "SessionSetupRequestDecoder_SecurityBufferLength r = get16 14 r"

definition SessionSetupRequestDecoder_IsInvalid :: "slice \<Rightarrow> bool option" where
  "SessionSetupRequestDecoder_IsInvalid r =
     check_body 24 25 SessionSetupRequestDecoder_StructureSize r
       (do { off \<leftarrow> SessionSetupRequestDecoder_SecurityBufferOffset r;
             len \<leftarrow> SessionSetupRequestDecoder_SecurityBufferLength r;
             Some (int (slen r) < uint (off + len) - 64) })"

definition SessionSetupRequestDecoder_SecurityBuffer :: "slice \<Rightarrow> slice option" where
  "SessionSetupRequestDecoder_SecurityBuffer r =
     do { off \<leftarrow> SessionSetupRequestDecoder_SecurityBufferOffset r;
          if off < 64 + 24 then Some nil_slice
          else do { len \<leftarrow> SessionSetupRequestDecoder_SecurityBufferLength r;
                    sub16 (off - 64) len r } }"

section \<open>LOGOFF\<close>

definition LogoffRequestDecoder_StructureSize :: "slice \<Rightarrow> u16 option" where "LogoffRequestDecoder_StructureSize r = get16 0 r"

definition LogoffRequestDecoder_IsInvalid :: "slice \<Rightarrow> bool option" where
  "LogoffRequestDecoder_IsInvalid r =
     check_body 4 4 LogoffRequestDecoder_StructureSize r (Some False)"

section \<open>TREE_CONNECT and TREE_DISCONNECT\<close>

definition TreeConnectRequestDecoder_StructureSize :: "slice \<Rightarrow> u16 option" where "TreeConnectRequestDecoder_StructureSize r = get16 0 r"
definition TreeConnectRequestDecoder_Flags :: "slice \<Rightarrow> u16 option" where "TreeConnectRequestDecoder_Flags r = get16 2 r"
definition TreeConnectRequestDecoder_PathOffset :: "slice \<Rightarrow> u16 option" where "TreeConnectRequestDecoder_PathOffset r = get16 4 r"
definition TreeConnectRequestDecoder_PathLength :: "slice \<Rightarrow> u16 option" where "TreeConnectRequestDecoder_PathLength r = get16 6 r"

definition TreeConnectRequestDecoder_IsInvalid :: "slice \<Rightarrow> bool option" where
  "TreeConnectRequestDecoder_IsInvalid r =
     check_body 8 9 TreeConnectRequestDecoder_StructureSize r
       (do { off \<leftarrow> TreeConnectRequestDecoder_PathOffset r;
             len \<leftarrow> TreeConnectRequestDecoder_PathLength r;
             Some (int (slen r) < uint (off + len) - 64) })"

definition TreeConnectRequestDecoder_Path :: "slice \<Rightarrow> rune list option" where
  "TreeConnectRequestDecoder_Path r =
     do { off \<leftarrow> TreeConnectRequestDecoder_PathOffset r;
          if off < 64 + 8 then Some []
          else do { len \<leftarrow> TreeConnectRequestDecoder_PathLength r;
                    s \<leftarrow> sub16 (off - 64) len r;
                    Some (DecodeToString (sbytes s)) } }"

definition TreeDisconnectRequestDecoder_StructureSize :: "slice \<Rightarrow> u16 option" where "TreeDisconnectRequestDecoder_StructureSize r = get16 0 r"

definition TreeDisconnectRequestDecoder_IsInvalid :: "slice \<Rightarrow> bool option" where
  "TreeDisconnectRequestDecoder_IsInvalid r =
     check_body 4 4 TreeDisconnectRequestDecoder_StructureSize r (Some False)"

section \<open>CREATE\<close>

definition CreateRequestDecoder_StructureSize :: "slice \<Rightarrow> u16 option" where "CreateRequestDecoder_StructureSize r = get16 0 r"
definition CreateRequestDecoder_SecurityFlags :: "slice \<Rightarrow> u8 option" where "CreateRequestDecoder_SecurityFlags r = sidx 2 r"
definition CreateRequestDecoder_RequestedOplockLevel :: "slice \<Rightarrow> u8 option" where "CreateRequestDecoder_RequestedOplockLevel r = sidx 3 r"
definition CreateRequestDecoder_ImpersonationLevel :: "slice \<Rightarrow> u32 option" where "CreateRequestDecoder_ImpersonationLevel r = get32 4 r"
definition CreateRequestDecoder_SmbCreateFlags :: "slice \<Rightarrow> u64 option" where "CreateRequestDecoder_SmbCreateFlags r = get64 8 r"
definition CreateRequestDecoder_DesiredAccess :: "slice \<Rightarrow> u32 option" where "CreateRequestDecoder_DesiredAccess r = get32 24 r"
definition CreateRequestDecoder_FileAttributes :: "slice \<Rightarrow> u32 option" where "CreateRequestDecoder_FileAttributes r = get32 28 r"
definition CreateRequestDecoder_ShareAccess :: "slice \<Rightarrow> u32 option" where "CreateRequestDecoder_ShareAccess r = get32 32 r"
definition CreateRequestDecoder_CreateDisposition :: "slice \<Rightarrow> u32 option" where "CreateRequestDecoder_CreateDisposition r = get32 36 r"
definition CreateRequestDecoder_CreateOptions :: "slice \<Rightarrow> u32 option" where "CreateRequestDecoder_CreateOptions r = get32 40 r"
definition CreateRequestDecoder_NameOffset :: "slice \<Rightarrow> u16 option" where "CreateRequestDecoder_NameOffset r = get16 44 r"
definition CreateRequestDecoder_NameLength :: "slice \<Rightarrow> u16 option" where "CreateRequestDecoder_NameLength r = get16 46 r"
definition CreateRequestDecoder_CreateContextsOffset :: "slice \<Rightarrow> u32 option" where "CreateRequestDecoder_CreateContextsOffset r = get32 48 r"
definition CreateRequestDecoder_CreateContextsLength :: "slice \<Rightarrow> u32 option" where "CreateRequestDecoder_CreateContextsLength r = get32 52 r"

definition CreateRequestDecoder_IsInvalid :: "slice \<Rightarrow> bool option" where
  "CreateRequestDecoder_IsInvalid r =
     check_body 56 57 CreateRequestDecoder_StructureSize r
       (do { noff \<leftarrow> CreateRequestDecoder_NameOffset r;
             if noff AND 7 \<noteq> 0 then Some True
             else do { nlen \<leftarrow> CreateRequestDecoder_NameLength r;
             if int (slen r) < uint (noff + nlen) - 64 then Some True
             else do { coff \<leftarrow> CreateRequestDecoder_CreateContextsOffset r;
             if coff AND 7 \<noteq> 0 then Some True
             else do { clen \<leftarrow> CreateRequestDecoder_CreateContextsLength r;
             Some (int (slen r) < uint (coff + clen) - 64) }}}})"

definition CreateRequestDecoder_Name :: "slice \<Rightarrow> rune list option" where
  "CreateRequestDecoder_Name r =
     do { off \<leftarrow> CreateRequestDecoder_NameOffset r;
          len \<leftarrow> CreateRequestDecoder_NameLength r;
          s \<leftarrow> sub16 (off - 64) len r;
          Some (DecodeToString (sbytes s)) }"

definition CreateRequestDecoder_CreateContexts :: "slice \<Rightarrow> slice option" where
  "CreateRequestDecoder_CreateContexts r =
     do { len \<leftarrow> CreateRequestDecoder_CreateContextsLength r;
          if len = 0 then Some nil_slice
          else do { off \<leftarrow> CreateRequestDecoder_CreateContextsOffset r;
                    sub32 (off - 64) len r } }"

definition CreateContextDecoder_Next :: "slice \<Rightarrow> u32 option" where "CreateContextDecoder_Next r = get32 0 r"
definition CreateContextDecoder_NameOffset :: "slice \<Rightarrow> u16 option" where "CreateContextDecoder_NameOffset r = Option.bind (sfrom 4 r) le_u16"
definition CreateContextDecoder_NameLength :: "slice \<Rightarrow> u16 option" where "CreateContextDecoder_NameLength r = Option.bind (sfrom 6 r) le_u16"
definition CreateContextDecoder_DataOffset :: "slice \<Rightarrow> u16 option" where "CreateContextDecoder_DataOffset r = Option.bind (sfrom 10 r) le_u16"
definition CreateContextDecoder_DataLength :: "slice \<Rightarrow> u32 option" where "CreateContextDecoder_DataLength r = Option.bind (sfrom 12 r) le_u32"

definition CreateContextDecoder_Buffer :: "slice \<Rightarrow> slice option" where
  "CreateContextDecoder_Buffer r =
     do { off \<leftarrow> CreateContextDecoder_DataOffset r;
          len \<leftarrow> CreateContextDecoder_DataLength r;
          sub16 off (ucast len) r }"

definition CreateContextDecoder_Name :: "slice \<Rightarrow> bytes option" where
  "CreateContextDecoder_Name r =
     do { off \<leftarrow> CreateContextDecoder_NameOffset r;
          len \<leftarrow> CreateContextDecoder_NameLength r;
          s \<leftarrow> sub16 off len r;
          Some (sbytes s) }"

section \<open>CLOSE and FLUSH\<close>

definition CloseRequestDecoder_StructureSize :: "slice \<Rightarrow> u16 option" where "CloseRequestDecoder_StructureSize r = get16 0 r"
definition CloseRequestDecoder_Flags :: "slice \<Rightarrow> u16 option" where "CloseRequestDecoder_Flags r = get16 2 r"
definition CloseRequestDecoder_FileId :: "slice \<Rightarrow> slice option" where "CloseRequestDecoder_FileId r = ssub 8 24 r"

definition CloseRequestDecoder_IsInvalid :: "slice \<Rightarrow> bool option" where
  "CloseRequestDecoder_IsInvalid r =
     check_body 24 24 CloseRequestDecoder_StructureSize r (Some False)"

definition FlushRequestDecoder_StructureSize :: "slice \<Rightarrow> u16 option" where "FlushRequestDecoder_StructureSize r = get16 0 r"
definition FlushRequestDecoder_FileId :: "slice \<Rightarrow> slice option" where "FlushRequestDecoder_FileId r = ssub 8 24 r"

definition FlushRequestDecoder_IsInvalid :: "slice \<Rightarrow> bool option" where
  "FlushRequestDecoder_IsInvalid r =
     check_body 24 24 FlushRequestDecoder_StructureSize r (Some False)"

section \<open>READ and WRITE\<close>

definition ReadRequestDecoder_StructureSize :: "slice \<Rightarrow> u16 option" where "ReadRequestDecoder_StructureSize r = get16 0 r"
definition ReadRequestDecoder_Padding :: "slice \<Rightarrow> u8 option" where "ReadRequestDecoder_Padding r = sidx 2 r"
definition ReadRequestDecoder_Flags :: "slice \<Rightarrow> u8 option" where "ReadRequestDecoder_Flags r = sidx 3 r"
definition ReadRequestDecoder_Length :: "slice \<Rightarrow> u32 option" where "ReadRequestDecoder_Length r = get32 4 r"
definition ReadRequestDecoder_Offset :: "slice \<Rightarrow> u64 option" where "ReadRequestDecoder_Offset r = get64 8 r"
definition ReadRequestDecoder_FileId :: "slice \<Rightarrow> slice option" where "ReadRequestDecoder_FileId r = ssub 16 32 r"
definition ReadRequestDecoder_MinimumCount :: "slice \<Rightarrow> u32 option" where "ReadRequestDecoder_MinimumCount r = get32 32 r"
definition ReadRequestDecoder_Channel :: "slice \<Rightarrow> u32 option" where "ReadRequestDecoder_Channel r = get32 36 r"
definition ReadRequestDecoder_RemainingBytes :: "slice \<Rightarrow> u32 option" where "ReadRequestDecoder_RemainingBytes r = get32 40 r"
definition ReadRequestDecoder_ReadChannelInfoOffset :: "slice \<Rightarrow> u16 option" where "ReadRequestDecoder_ReadChannelInfoOffset r = get16 44 r"
definition ReadRequestDecoder_ReadChannelInfoLength :: "slice \<Rightarrow> u16 option" where "ReadRequestDecoder_ReadChannelInfoLength r = get16 46 r"

definition ReadRequestDecoder_IsInvalid :: "slice \<Rightarrow> bool option" where
  "ReadRequestDecoder_IsInvalid r =
     check_body 48 49 ReadRequestDecoder_StructureSize r
       (do { off \<leftarrow> ReadRequestDecoder_ReadChannelInfoOffset r;
             len \<leftarrow> ReadRequestDecoder_ReadChannelInfoLength r;
             Some (int (slen r) < uint (off + len)) })"

definition WriteRequestDecoder_StructureSize :: "slice \<Rightarrow> u16 option" where "WriteRequestDecoder_StructureSize r = get16 0 r"
definition WriteRequestDecoder_DataOffset :: "slice \<Rightarrow> u16 option" where "WriteRequestDecoder_DataOffset r = get16 2 r"
definition WriteRequestDecoder_Length :: "slice \<Rightarrow> u32 option" where "WriteRequestDecoder_Length r = get32 4 r"
definition WriteRequestDecoder_Offset :: "slice \<Rightarrow> u64 option" where "WriteRequestDecoder_Offset r = get64 8 r"
definition WriteRequestDecoder_FileId :: "slice \<Rightarrow> slice option" where "WriteRequestDecoder_FileId r = ssub 16 32 r"
definition WriteRequestDecoder_Channel :: "slice \<Rightarrow> u32 option" where "WriteRequestDecoder_Channel r = get32 32 r"
definition WriteRequestDecoder_RemainingBytes :: "slice \<Rightarrow> u32 option" where "WriteRequestDecoder_RemainingBytes r = get32 36 r"
definition WriteRequestDecoder_WriteChannelInfoOffset :: "slice \<Rightarrow> u16 option" where "WriteRequestDecoder_WriteChannelInfoOffset r = get16 40 r"
definition WriteRequestDecoder_WriteChannelInfoLength :: "slice \<Rightarrow> u16 option" where "WriteRequestDecoder_WriteChannelInfoLength r = get16 42 r"
definition WriteRequestDecoder_Flags :: "slice \<Rightarrow> u32 option" where "WriteRequestDecoder_Flags r = get32 44 r"

definition WriteRequestDecoder_IsInvalid :: "slice \<Rightarrow> bool option" where
  "WriteRequestDecoder_IsInvalid r =
     check_body 48 49 WriteRequestDecoder_StructureSize r
       (do { woff \<leftarrow> WriteRequestDecoder_WriteChannelInfoOffset r;
             wlen \<leftarrow> WriteRequestDecoder_WriteChannelInfoLength r;
             if int (slen r) < uint (woff + wlen) - 64 then Some True
             else do { doff \<leftarrow> WriteRequestDecoder_DataOffset r;
                       dlen \<leftarrow> WriteRequestDecoder_Length r;
                       Some (int (slen r) < uint (ucast doff + dlen) - 64) } })"

definition WriteRequestDecoder_Data :: "slice \<Rightarrow> slice option" where
  "WriteRequestDecoder_Data r =
     do { len \<leftarrow> WriteRequestDecoder_Length r; sub32 48 len r }"

section \<open>CANCEL and IOCTL\<close>

definition CancelRequestDecoder_StructureSize :: "slice \<Rightarrow> u16 option" where "CancelRequestDecoder_StructureSize r = get16 0 r"

definition CancelRequestDecoder_IsInvalid :: "slice \<Rightarrow> bool option" where
  "CancelRequestDecoder_IsInvalid r =
     check_body 4 4 CancelRequestDecoder_StructureSize r (Some False)"

definition IoctlRequestDecoder_StructureSize :: "slice \<Rightarrow> u16 option" where "IoctlRequestDecoder_StructureSize r = get16 0 r"
definition IoctlRequestDecoder_CtlCode :: "slice \<Rightarrow> u32 option" where "IoctlRequestDecoder_CtlCode r = get32 4 r"
definition IoctlRequestDecoder_FileId :: "slice \<Rightarrow> slice option" where "IoctlRequestDecoder_FileId r = ssub 8 24 r"
definition IoctlRequestDecoder_InputOffset :: "slice \<Rightarrow> u32 option" where "IoctlRequestDecoder_InputOffset r = get32 24 r"
definition IoctlRequestDecoder_InputCount :: "slice \<Rightarrow> u32 option" where "IoctlRequestDecoder_InputCount r = get32 28 r"
definition IoctlRequestDecoder_MaxInputResponse :: "slice \<Rightarrow> u32 option" where "IoctlRequestDecoder_MaxInputResponse r = get32 32 r"
definition IoctlRequestDecoder_OutputOffset :: "slice \<Rightarrow> u32 option" where "IoctlRequestDecoder_OutputOffset r = get32 36 r"
definition IoctlRequestDecoder_OutputCount :: "slice \<Rightarrow> u32 option" where "IoctlRequestDecoder_OutputCount r = get32 40 r"
definition IoctlRequestDecoder_MaxOutputResponse :: "slice \<Rightarrow> u32 option" where "IoctlRequestDecoder_MaxOutputResponse r = get32 44 r"
definition IoctlRequestDecoder_Flags :: "slice \<Rightarrow> u32 option" where "IoctlRequestDecoder_Flags r = get32 48 r"
definition IoctlRequestDecoder_Data :: "slice \<Rightarrow> slice option" where "IoctlRequestDecoder_Data r = sfrom 56 r"

definition IoctlRequestDecoder_IsInvalid :: "slice \<Rightarrow> bool option" where
  "IoctlRequestDecoder_IsInvalid r =
     check_body 56 57 IoctlRequestDecoder_StructureSize r
       (do { off \<leftarrow> IoctlRequestDecoder_InputOffset r;
             len \<leftarrow> IoctlRequestDecoder_InputCount r;
             Some (int (slen r) < uint (off + len) - 64) })"

section \<open>QUERY_DIRECTORY and CHANGE_NOTIFY\<close>

definition QueryDirectoryRequestDecoder_StructureSize :: "slice \<Rightarrow> u16 option" where "QueryDirectoryRequestDecoder_StructureSize r = get16 0 r"
definition QueryDirectoryRequestDecoder_FileInfoClass :: "slice \<Rightarrow> u8 option" where "QueryDirectoryRequestDecoder_FileInfoClass r = sidx 2 r"
definition QueryDirectoryRequestDecoder_Flags :: "slice \<Rightarrow> u8 option" where "QueryDirectoryRequestDecoder_Flags r = sidx 3 r"
definition QueryDirectoryRequestDecoder_FileIndex :: "slice \<Rightarrow> u32 option" where "QueryDirectoryRequestDecoder_FileIndex r = get32 4 r"
definition QueryDirectoryRequestDecoder_FileId :: "slice \<Rightarrow> slice option" where "QueryDirectoryRequestDecoder_FileId r = ssub 8 24 r"
definition QueryDirectoryRequestDecoder_FileNameOffset :: "slice \<Rightarrow> u16 option" where "QueryDirectoryRequestDecoder_FileNameOffset r = get16 24 r"
definition QueryDirectoryRequestDecoder_FileNameLength :: "slice \<Rightarrow> u16 option" where "QueryDirectoryRequestDecoder_FileNameLength r = get16 26 r"
definition QueryDirectoryRequestDecoder_OutputBufferLength :: "slice \<Rightarrow> u32 option" where "QueryDirectoryRequestDecoder_OutputBufferLength r = get32 28 r"

definition QueryDirectoryRequestDecoder_IsInvalid :: "slice \<Rightarrow> bool option" where
  "QueryDirectoryRequestDecoder_IsInvalid r =
     check_body 32 33 QueryDirectoryRequestDecoder_StructureSize r
       (do { off \<leftarrow> QueryDirectoryRequestDecoder_FileNameOffset r;
             len \<leftarrow> QueryDirectoryRequestDecoder_FileNameLength r;
             Some (int (slen r) < uint (off + len) - 64) })"

definition QueryDirectoryRequestDecoder_FileName :: "slice \<Rightarrow> rune list option" where
  "QueryDirectoryRequestDecoder_FileName r =
     do { off \<leftarrow> QueryDirectoryRequestDecoder_FileNameOffset r;
          len \<leftarrow> QueryDirectoryRequestDecoder_FileNameLength r;
          s \<leftarrow> sub16 (off - 64) len r;
          Some (DecodeToString (sbytes s)) }"

definition ChangeNotifyRequestDecoder_StructureSize :: "slice \<Rightarrow> u16 option" where "ChangeNotifyRequestDecoder_StructureSize r = get16 0 r"
definition ChangeNotifyRequestDecoder_Flags :: "slice \<Rightarrow> u16 option" where "ChangeNotifyRequestDecoder_Flags r = get16 2 r"
definition ChangeNotifyRequestDecoder_FileId :: "slice \<Rightarrow> slice option" where "ChangeNotifyRequestDecoder_FileId r = ssub 8 24 r"
definition ChangeNotifyRequestDecoder_OutputBufferLength :: "slice \<Rightarrow> u32 option" where "ChangeNotifyRequestDecoder_OutputBufferLength r = get32 4 r"
definition ChangeNotifyRequestDecoder_CompletionFilter :: "slice \<Rightarrow> u32 option" where "ChangeNotifyRequestDecoder_CompletionFilter r = get32 24 r"

definition ChangeNotifyRequestDecoder_IsInvalid :: "slice \<Rightarrow> bool option" where
  "ChangeNotifyRequestDecoder_IsInvalid r =
     (if slen r \<noteq> 32 then Some True
      else map_option (\<lambda>s. s \<noteq> 32) (ChangeNotifyRequestDecoder_StructureSize r))"

section \<open>QUERY_INFO and SET_INFO\<close>

definition QueryInfoRequestDecoder_StructureSize :: "slice \<Rightarrow> u16 option" where "QueryInfoRequestDecoder_StructureSize r = get16 0 r"
definition QueryInfoRequestDecoder_InfoType :: "slice \<Rightarrow> u8 option" where "QueryInfoRequestDecoder_InfoType r = sidx 2 r"
definition QueryInfoRequestDecoder_FileInfoClass :: "slice \<Rightarrow> u8 option" where "QueryInfoRequestDecoder_FileInfoClass r = sidx 3 r"
definition QueryInfoRequestDecoder_OutputBufferLength :: "slice \<Rightarrow> u32 option" where "QueryInfoRequestDecoder_OutputBufferLength r = get32 4 r"
definition QueryInfoRequestDecoder_InputBufferOffset :: "slice \<Rightarrow> u16 option" where "QueryInfoRequestDecoder_InputBufferOffset r = get16 8 r"
definition QueryInfoRequestDecoder_InputBufferLength :: "slice \<Rightarrow> u32 option" where "QueryInfoRequestDecoder_InputBufferLength r = get32 12 r"
definition QueryInfoRequestDecoder_AdditionalInformation :: "slice \<Rightarrow> u32 option" where "QueryInfoRequestDecoder_AdditionalInformation r = get32 16 r"
definition QueryInfoRequestDecoder_Flags :: "slice \<Rightarrow> u32 option" where "QueryInfoRequestDecoder_Flags r = get32 20 r"
definition QueryInfoRequestDecoder_FileId :: "slice \<Rightarrow> slice option" where "QueryInfoRequestDecoder_FileId r = ssub 24 40 r"

definition QueryInfoRequestDecoder_IsInvalid :: "slice \<Rightarrow> bool option" where
  "QueryInfoRequestDecoder_IsInvalid r =
     check_body 40 41 QueryInfoRequestDecoder_StructureSize r
       (do { off \<leftarrow> QueryInfoRequestDecoder_InputBufferOffset r;
             len \<leftarrow> QueryInfoRequestDecoder_InputBufferLength r;
             Some (int (slen r) < uint (ucast off + len) - 64) })"

definition SetInfoRequestDecoder_StructureSize :: "slice \<Rightarrow> u16 option" where "SetInfoRequestDecoder_StructureSize r = get16 0 r"
definition SetInfoRequestDecoder_InfoType :: "slice \<Rightarrow> u8 option" where "SetInfoRequestDecoder_InfoType r = sidx 2 r"
definition SetInfoRequestDecoder_FileInfoClass :: "slice \<Rightarrow> u8 option" where "SetInfoRequestDecoder_FileInfoClass r = sidx 3 r"
definition SetInfoRequestDecoder_BufferLength :: "slice \<Rightarrow> u32 option" where "SetInfoRequestDecoder_BufferLength r = get32 4 r"
definition SetInfoRequestDecoder_BufferOffset :: "slice \<Rightarrow> u16 option" where "SetInfoRequestDecoder_BufferOffset r = get16 8 r"
definition SetInfoRequestDecoder_AdditionalInformation :: "slice \<Rightarrow> u32 option" where "SetInfoRequestDecoder_AdditionalInformation r = get32 12 r"
definition SetInfoRequestDecoder_FileId :: "slice \<Rightarrow> slice option" where "SetInfoRequestDecoder_FileId r = ssub 16 32 r"
definition SetInfoRequestDecoder_Buffer :: "slice \<Rightarrow> slice option" where "SetInfoRequestDecoder_Buffer r = sfrom 32 r"

definition SetInfoRequestDecoder_IsInvalid :: "slice \<Rightarrow> bool option" where
  "SetInfoRequestDecoder_IsInvalid r =
     check_body 32 33 SetInfoRequestDecoder_StructureSize r
       (do { off \<leftarrow> SetInfoRequestDecoder_BufferOffset r;
             len \<leftarrow> SetInfoRequestDecoder_BufferLength r;
             Some (int (slen r) < uint (ucast off + len) - 64) })"

section \<open>The create contexts' data\<close>

definition AAPLServerQueryRequestDecoder_CommandCode :: "slice \<Rightarrow> u32 option" where "AAPLServerQueryRequestDecoder_CommandCode r = Option.bind (sfrom 0 r) le_u32"
definition AAPLServerQueryRequestDecoder_RequestBitmap :: "slice \<Rightarrow> u64 option" where "AAPLServerQueryRequestDecoder_RequestBitmap r = Option.bind (sfrom 8 r) le_u64"
definition AAPLServerQueryRequestDecoder_ClientCaps :: "slice \<Rightarrow> u64 option" where "AAPLServerQueryRequestDecoder_ClientCaps r = Option.bind (sfrom 16 r) le_u64"

definition DurableHandleRequest2Decoder_Timeout :: "slice \<Rightarrow> u32 option" where "DurableHandleRequest2Decoder_Timeout r = Option.bind (sfrom 0 r) le_u32"
definition DurableHandleRequest2Decoder_Flags :: "slice \<Rightarrow> u32 option" where "DurableHandleRequest2Decoder_Flags r = Option.bind (sfrom 4 r) le_u32"
definition DurableHandleRequest2Decoder_CreateGuid :: "slice \<Rightarrow> slice option" where "DurableHandleRequest2Decoder_CreateGuid r = ssub 16 32 r"

definition LeaseRequestDecoder_LeaseState :: "slice \<Rightarrow> u32 option" where "LeaseRequestDecoder_LeaseState r = Option.bind (sfrom 16 r) le_u32"
definition LeaseRequestDecoder_LeaseFlags :: "slice \<Rightarrow> u32 option" where "LeaseRequestDecoder_LeaseFlags r = Option.bind (sfrom 20 r) le_u32"
definition LeaseRequestDecoder_LeaseDuration :: "slice \<Rightarrow> u64 option" where "LeaseRequestDecoder_LeaseDuration r = Option.bind (sfrom 24 r) le_u64"

text \<open>\<open>copy(guid[:], r[:])\<close> into sixteen zero bytes.\<close>

definition LeaseRequestDecoder_LeaseKey :: "slice \<Rightarrow> bytes" where
  "LeaseRequestDecoder_LeaseKey r = copy_at 0 (sbytes r) (replicate 16 0)"

definition LeaseRequest2Decoder_LeaseState :: "slice \<Rightarrow> u32 option" where "LeaseRequest2Decoder_LeaseState r = Option.bind (sfrom 16 r) le_u32"
definition LeaseRequest2Decoder_LeaseFlags :: "slice \<Rightarrow> u32 option" where "LeaseRequest2Decoder_LeaseFlags r = Option.bind (sfrom 20 r) le_u32"
definition LeaseRequest2Decoder_LeaseDuration :: "slice \<Rightarrow> u64 option" where "LeaseRequest2Decoder_LeaseDuration r = Option.bind (sfrom 24 r) le_u64"
definition LeaseRequest2Decoder_Epoch :: "slice \<Rightarrow> u16 option" where "LeaseRequest2Decoder_Epoch r = Option.bind (sfrom 48 r) le_u16"

definition LeaseRequest2Decoder_LeaseKey :: "slice \<Rightarrow> bytes" where
  "LeaseRequest2Decoder_LeaseKey r = copy_at 0 (sbytes r) (replicate 16 0)"

definition LeaseRequest2Decoder_ParentLeaseKey :: "slice \<Rightarrow> bytes option" where
  "LeaseRequest2Decoder_ParentLeaseKey r =
     map_option (\<lambda>s. copy_at 0 (sbytes s) (replicate 16 0)) (ssub 32 48 r)"

end
