(* ===== verification/RequestEncoders.thy ===== *)
theory RequestEncoders
  imports NegotiateContexts RequestDecoders
begin

text \<open>
  The request bodies a client encodes (internal/smb2/request.go). \<open>Size\<close> is the length of the
  packet the caller allocates, \<open>Encode\<close> fills it: the header with the request's command, then
  the body from byte 64 on. \<open>Encode\<close> also stores the command in the request's own header, which
  the next \<open>Encode\<close> overwrites. A \<open>*FileId\<close> is an option and an \<open>Encoder\<close>
  value is its two methods. Lengths and offsets are cut to the width of their field.
\<close>

section \<open>Encoder values and the loops over them\<close>

record enc =
  en_size :: nat
  en_encode :: "bytes \<Rightarrow> bytes option"

text \<open>\<open>Roundup(off, 8)\<close> on an offset. The loops place one value after the other, rounding the
  offset of each with \<open>align\<close>; \<open>end_off\<close> is the offset they end with.\<close>

definition round8 :: "nat \<Rightarrow> nat" where
  "round8 off = nat (Roundup (int off) 8)"

fun encode_all :: "(nat \<Rightarrow> nat) \<Rightarrow> nat \<Rightarrow> enc list \<Rightarrow> bytes \<Rightarrow> bytes option" where
  "encode_all align off [] p = Some p"
| "encode_all align off (c # cs) p =
     Option.bind (at_off (align off) (en_encode c) p) (encode_all align (align off + en_size c) cs)"

fun end_off :: "(nat \<Rightarrow> nat) \<Rightarrow> nat \<Rightarrow> enc list \<Rightarrow> nat" where
  "end_off align off [] = off"
| "end_off align off (c # cs) = end_off align (align off + en_size c) cs"

text \<open>The start of every \<open>Encode\<close>: the header with the command, then the body in \<open>pkt[64:]\<close>.\<close>

definition request :: "u16 \<Rightarrow> PacketHeader \<Rightarrow> (bytes \<Rightarrow> bytes option) list \<Rightarrow> bytes \<Rightarrow> bytes option" where
  "request cmd hdr body = seqw [encodeHeader (hdr\<lparr>ph_Command := cmd\<rparr>), at_off 64 (seqw body)]"

section \<open>NEGOTIATE\<close>

record NegotiateRequest =
  ng_Header :: PacketHeader
  ng_SecurityMode :: u16
  ng_Capabilities :: u32
  ng_ClientGuid :: bytes
  ng_Dialects :: "u16 list"
  ng_Contexts :: "enc list"

definition NegotiateRequest_Size :: "NegotiateRequest \<Rightarrow> nat" where
  "NegotiateRequest_Size c = 64 + end_off round8 (36 + length (ng_Dialects c) * 2) (ng_Contexts c)"

definition NegotiateRequest_Encode :: "NegotiateRequest \<Rightarrow> bytes \<Rightarrow> bytes option" where
  "NegotiateRequest_Encode c =
     (let off = 36 + length (ng_Dialects c) * 2 in
      request SMB2_NEGOTIATE (ng_Header c)
        ([put16 0 36, put16 4 (ng_SecurityMode c), put32 8 (ng_Capabilities c),
          at_range 12 28 (copy_from 0 (ng_ClientGuid c)),
          at_off 36 (put_words 0 (ng_Dialects c)), put16 2 (of_nat (length (ng_Dialects c)))] @
         (if ng_Contexts c = [] then [] else [put32 28 (of_nat (round8 off + 64))]) @
         [encode_all round8 off (ng_Contexts c), put16 32 (of_nat (length (ng_Contexts c)))]))"

section \<open>SESSION_SETUP and LOGOFF\<close>

record SessionSetupRequest =
  ss_Header :: PacketHeader
  ss_Flags :: u8
  ss_SecurityMode :: u8
  ss_Capabilities :: u32
  ss_Channel :: u32
  ss_SecurityBuffer :: bytes
  ss_PreviousSessionId :: u64

definition SessionSetupRequest_Size :: "SessionSetupRequest \<Rightarrow> nat" where
  "SessionSetupRequest_Size c =
     (if length (ss_SecurityBuffer c) = 0 then 64 + 24 + 1 else 64 + 24 + length (ss_SecurityBuffer c))"

definition SessionSetupRequest_Encode :: "SessionSetupRequest \<Rightarrow> bytes \<Rightarrow> bytes option" where
  "SessionSetupRequest_Encode c =
     request SMB2_SESSION_SETUP (ss_Header c)
       [put16 0 25, put8 2 (ss_Flags c), put8 3 (ss_SecurityMode c), put32 4 (ss_Capabilities c),
        put32 8 (ss_Channel c), put64 16 (ss_PreviousSessionId c),
        copy_from 24 (ss_SecurityBuffer c),
        put16 12 (64 + 24), put16 14 (of_nat (length (ss_SecurityBuffer c)))]"

record LogoffRequest =
  lo_Header :: PacketHeader

definition LogoffRequest_Size :: "LogoffRequest \<Rightarrow> nat" where
  "LogoffRequest_Size c = 64 + 4"

definition LogoffRequest_Encode :: "LogoffRequest \<Rightarrow> bytes \<Rightarrow> bytes option" where
  "LogoffRequest_Encode c = request SMB2_LOGOFF (lo_Header c) [put16 0 4]"

section \<open>TREE_CONNECT and TREE_DISCONNECT\<close>

record TreeConnectRequest =
  tc_Header :: PacketHeader
  tc_Flags :: u16
  tc_Path :: "rune list"

definition TreeConnectRequest_Size :: "TreeConnectRequest \<Rightarrow> nat" where
  "TreeConnectRequest_Size c =
     (if tc_Path c = [] then 64 + 8 + 1 else 64 + 8 + EncodedStringLen (tc_Path c))"

definition TreeConnectRequest_Encode :: "TreeConnectRequest \<Rightarrow> bytes \<Rightarrow> bytes option" where
  "TreeConnectRequest_Encode c =
     request SMB2_TREE_CONNECT (tc_Header c)
       [put16 0 9, put16 2 (tc_Flags c), at_off 8 (EncodeString (tc_Path c)),
        put16 4 (8 + 64), put16 6 (of_nat (EncodeString_len (tc_Path c)))]"

record TreeDisconnectRequest =
  td_Header :: PacketHeader

definition TreeDisconnectRequest_Size :: "TreeDisconnectRequest \<Rightarrow> nat" where
  "TreeDisconnectRequest_Size c = 64 + 4"

definition TreeDisconnectRequest_Encode :: "TreeDisconnectRequest \<Rightarrow> bytes \<Rightarrow> bytes option" where
  "TreeDisconnectRequest_Encode c = request SMB2_TREE_DISCONNECT (td_Header c) [put16 0 4]"

section \<open>CREATE\<close>

record CreateRequest =
  cr_Header :: PacketHeader
  cr_SecurityFlags :: u8
  cr_RequestedOplockLevel :: u8
  cr_ImpersonationLevel :: u32
  cr_SmbCreateFlags :: u64
  cr_DesiredAccess :: u32
  cr_FileAttributes :: u32
  cr_ShareAccess :: u32
  cr_CreateDisposition :: u32
  cr_CreateOptions :: u32
  cr_Name :: "rune list"
  cr_Contexts :: "enc list"

definition CreateRequest_Size :: "CreateRequest \<Rightarrow> nat" where
  "CreateRequest_Size c =
     (if cr_Name c = [] \<and> cr_Contexts c = [] then 64 + 56 + 1
      else end_off round8 (64 + 56 + EncodedStringLen (cr_Name c)) (cr_Contexts c))"

text \<open>The loop over the contexts. \<open>prev\<close> is the previous one, its offset (\<open>ctx\<close>) and size
  (\<open>next\<close>), into whose \<open>Next\<close> field the size goes. The offset of the first goes to the field at
  \<open>slot\<close>: 48 in a request, 80 in a response.\<close>

fun create_contexts ::
  "nat \<Rightarrow> (nat \<times> nat) option \<Rightarrow> nat \<Rightarrow> enc list \<Rightarrow> bytes \<Rightarrow> bytes option" where
  "create_contexts slot prev off [] req = Some req"
| "create_contexts slot prev off (c # cs) req =
     do { req \<leftarrow> (case prev of None \<Rightarrow> put32 slot (of_nat (64 + round8 off))
                  | Some (ctx, next) \<Rightarrow> at_off ctx (put32 0 (of_nat next))) req;
          req \<leftarrow> at_off (round8 off) (en_encode c) req;
          create_contexts slot (Some (round8 off, en_size c)) (round8 off + en_size c) cs req }"

definition CreateRequest_Encode :: "CreateRequest \<Rightarrow> bytes \<Rightarrow> bytes option" where
  "CreateRequest_Encode c =
     (let nlen = EncodeString_len (cr_Name c); off = end_off round8 (56 + nlen) (cr_Contexts c) in
      request SMB2_CREATE (cr_Header c)
       [put16 0 57, put8 2 (cr_SecurityFlags c), put8 3 (cr_RequestedOplockLevel c),
        put32 4 (cr_ImpersonationLevel c), put64 8 (cr_SmbCreateFlags c),
        put32 24 (cr_DesiredAccess c), put32 28 (cr_FileAttributes c), put32 32 (cr_ShareAccess c),
        put32 36 (cr_CreateDisposition c), put32 40 (cr_CreateOptions c),
        at_off 56 (EncodeString (cr_Name c)),
        put16 44 (56 + 64), put16 46 (of_nat nlen),
        create_contexts 48 None (56 + nlen) (cr_Contexts c),
        put32 52 (of_nat (off - (56 + nlen)))])"

section \<open>CLOSE and FLUSH\<close>

record CloseRequest =
  cl_Header :: PacketHeader
  cl_Flags :: u16
  cl_FileId :: "FileId option"

definition CloseRequest_Size :: "CloseRequest \<Rightarrow> nat" where
  "CloseRequest_Size c = 64 + 24"

definition CloseRequest_Encode :: "CloseRequest \<Rightarrow> bytes \<Rightarrow> bytes option" where
  "CloseRequest_Encode c =
     request SMB2_CLOSE (cl_Header c)
       [put16 0 24, put16 2 (cl_Flags c), at_range 8 24 (FileId_Encode (cl_FileId c))]"

record FlushRequest =
  fl_Header :: PacketHeader
  fl_FileId :: "FileId option"

definition FlushRequest_Size :: "FlushRequest \<Rightarrow> nat" where
  "FlushRequest_Size c = 64 + 24"

definition FlushRequest_Encode :: "FlushRequest \<Rightarrow> bytes \<Rightarrow> bytes option" where
  "FlushRequest_Encode c =
     request SMB2_FLUSH (fl_Header c) [put16 0 24, at_range 8 24 (FileId_Encode (fl_FileId c))]"

section \<open>READ and WRITE\<close>

record ReadRequest =
  rd_Header :: PacketHeader
  rd_Padding :: u8
  rd_Flags :: u8
  rd_Length :: u32
  rd_Offset :: u64
  rd_FileId :: "FileId option"
  rd_MinimumCount :: u32
  rd_Channel :: u32
  rd_RemainingBytes :: u32
  rd_ReadChannelInfo :: "enc list"

definition ReadRequest_Size :: "ReadRequest \<Rightarrow> nat" where
  "ReadRequest_Size c =
     (if rd_ReadChannelInfo c = [] then 64 + 48 + 1
      else end_off id (64 + 48) (rd_ReadChannelInfo c))"

definition ReadRequest_Encode :: "ReadRequest \<Rightarrow> bytes \<Rightarrow> bytes option" where
  "ReadRequest_Encode c =
     request SMB2_READ (rd_Header c)
       ([put16 0 49, put8 2 (rd_Padding c), put8 3 (rd_Flags c), put32 4 (rd_Length c),
         put64 8 (rd_Offset c), at_range 16 32 (FileId_Encode (rd_FileId c)),
         put32 32 (rd_MinimumCount c), put32 36 (rd_Channel c), put32 40 (rd_RemainingBytes c)] @
        (if rd_ReadChannelInfo c = [] then [] else [put16 44 (64 + 48)]) @
        [encode_all id 48 (rd_ReadChannelInfo c),
         put16 46 (of_nat (end_off id 48 (rd_ReadChannelInfo c) - 48))])"

record WriteRequest =
  wr_Header :: PacketHeader
  wr_FileId :: "FileId option"
  wr_Flags :: u32
  wr_Channel :: u32
  wr_RemainingBytes :: u32
  wr_Offset :: u64
  wr_WriteChannelInfo :: "enc list"
  wr_Data :: bytes

definition WriteRequest_Size :: "WriteRequest \<Rightarrow> nat" where
  "WriteRequest_Size c =
     (if length (wr_Data c) = 0 \<and> wr_WriteChannelInfo c = [] then 64 + 48 + 1
      else end_off id (64 + 48) (wr_WriteChannelInfo c) + length (wr_Data c))"

definition WriteRequest_Encode :: "WriteRequest \<Rightarrow> bytes \<Rightarrow> bytes option" where
  "WriteRequest_Encode c =
     (let off = end_off id 48 (wr_WriteChannelInfo c) in
      request SMB2_WRITE (wr_Header c)
       ([put16 0 49, put64 8 (wr_Offset c), at_range 16 32 (FileId_Encode (wr_FileId c)),
         put32 32 (wr_Channel c), put32 36 (wr_RemainingBytes c), put32 44 (wr_Flags c)] @
        (if wr_WriteChannelInfo c = [] then [] else [put16 40 (64 + 48)]) @
        [encode_all id 48 (wr_WriteChannelInfo c),
         put16 42 (of_nat (off - 48)), put16 2 (of_nat (64 + off)),
         copy_from off (wr_Data c), put32 4 (of_nat (length (wr_Data c)))]))"

section \<open>CANCEL and IOCTL\<close>

record CancelRequest =
  ca_Header :: PacketHeader

definition CancelRequest_Size :: "CancelRequest \<Rightarrow> nat" where
  "CancelRequest_Size c = 64 + 4"

definition CancelRequest_Encode :: "CancelRequest \<Rightarrow> bytes \<Rightarrow> bytes option" where
  "CancelRequest_Encode c = request SMB2_CANCEL (ca_Header c) [put16 0 4]"

record IoctlRequest =
  io_Header :: PacketHeader
  io_CtlCode :: u32
  io_FileId :: "FileId option"
  io_OutputOffset :: u32
  io_OutputCount :: u32
  io_MaxInputResponse :: u32
  io_MaxOutputResponse :: u32
  io_Flags :: u32
  io_Input :: "enc option"

definition IoctlRequest_Size :: "IoctlRequest \<Rightarrow> nat" where
  "IoctlRequest_Size c =
     (case io_Input c of None \<Rightarrow> 64 + 56 + 1 | Some i \<Rightarrow> 64 + 56 + en_size i)"

definition IoctlRequest_Encode :: "IoctlRequest \<Rightarrow> bytes \<Rightarrow> bytes option" where
  "IoctlRequest_Encode c =
     request SMB2_IOCTL (io_Header c)
       ([put16 0 57, put32 4 (io_CtlCode c), at_range 8 24 (FileId_Encode (io_FileId c)),
         put32 32 (io_MaxInputResponse c), put32 36 (io_OutputOffset c),
         put32 40 (io_OutputCount c), put32 44 (io_MaxOutputResponse c), put32 48 (io_Flags c)] @
        (case io_Input c of
           None \<Rightarrow> []
         | Some i \<Rightarrow> [put32 24 (56 + 64), at_off 56 (en_encode i), put32 28 (of_nat (en_size i))]))"

section \<open>QUERY_DIRECTORY and CHANGE_NOTIFY\<close>

record QueryDirectoryRequest =
  qd_Header :: PacketHeader
  qd_FileInfoClass :: u8
  qd_Flags :: u8
  qd_FileIndex :: u32
  qd_FileId :: "FileId option"
  qd_OutputBufferLength :: u32
  qd_FileName :: "rune list"

definition QueryDirectoryRequest_Size :: "QueryDirectoryRequest \<Rightarrow> nat" where
  "QueryDirectoryRequest_Size c =
     (if qd_FileName c = [] then 64 + 32 + 1 else 64 + 32 + EncodedStringLen (qd_FileName c))"

definition QueryDirectoryRequest_Encode :: "QueryDirectoryRequest \<Rightarrow> bytes \<Rightarrow> bytes option" where
  "QueryDirectoryRequest_Encode c =
     request SMB2_QUERY_DIRECTORY (qd_Header c)
       [put16 0 33, put8 2 (qd_FileInfoClass c), put8 3 (qd_Flags c), put32 4 (qd_FileIndex c),
        at_range 8 24 (FileId_Encode (qd_FileId c)), put32 28 (qd_OutputBufferLength c),
        put16 24 (32 + 64), at_off 32 (EncodeString (qd_FileName c)),
        put16 26 (of_nat (EncodeString_len (qd_FileName c)))]"

record ChangeNotifyRequest =
  cn_Header :: PacketHeader

definition ChangeNotifyRequest_Size :: "ChangeNotifyRequest \<Rightarrow> nat" where
  "ChangeNotifyRequest_Size c = 64 * 2"

section \<open>QUERY_INFO and SET_INFO\<close>

record QueryInfoRequest =
  qi_Header :: PacketHeader
  qi_InfoType :: u8
  qi_FileInfoClass :: u8
  qi_OutputBufferLength :: u32
  qi_AdditionalInformation :: u32
  qi_Flags :: u32
  qi_FileId :: "FileId option"
  qi_Input :: "enc option"

definition QueryInfoRequest_Size :: "QueryInfoRequest \<Rightarrow> nat" where
  "QueryInfoRequest_Size c =
     (case qi_Input c of None \<Rightarrow> 64 + 40 + 1 | Some i \<Rightarrow> 64 + 40 + en_size i)"

definition QueryInfoRequest_Encode :: "QueryInfoRequest \<Rightarrow> bytes \<Rightarrow> bytes option" where
  "QueryInfoRequest_Encode c =
     request SMB2_QUERY_INFO (qi_Header c)
       ([put16 0 41, put8 2 (qi_InfoType c), put8 3 (qi_FileInfoClass c),
         put32 4 (qi_OutputBufferLength c), put32 16 (qi_AdditionalInformation c),
         put32 20 (qi_Flags c), at_range 24 40 (FileId_Encode (qi_FileId c))] @
        (case qi_Input c of
           None \<Rightarrow> []
         | Some i \<Rightarrow> [put16 8 (40 + 64), at_off 40 (en_encode i), put32 12 (of_nat (en_size i))]))"

record SetInfoRequest =
  si_Header :: PacketHeader
  si_InfoType :: u8
  si_FileInfoClass :: u8
  si_AdditionalInformation :: u32
  si_FileId :: "FileId option"
  si_Input :: "enc option"

definition SetInfoRequest_Size :: "SetInfoRequest \<Rightarrow> nat" where
  "SetInfoRequest_Size c =
     (case si_Input c of None \<Rightarrow> 64 + 32 + 1 | Some i \<Rightarrow> 64 + 32 + en_size i)"

definition SetInfoRequest_Encode :: "SetInfoRequest \<Rightarrow> bytes \<Rightarrow> bytes option" where
  "SetInfoRequest_Encode c =
     request SMB2_SET_INFO (si_Header c)
       ([put16 0 33, put8 2 (si_InfoType c), put8 3 (si_FileInfoClass c),
         put32 12 (si_AdditionalInformation c), at_range 16 32 (FileId_Encode (si_FileId c))] @
        (case si_Input c of
           None \<Rightarrow> []
         | Some i \<Rightarrow> [put16 8 (32 + 64), at_off 32 (en_encode i), put32 4 (of_nat (en_size i))]))"

section \<open>What a server receives\<close>

text \<open>The client encodes into a cleared buffer of the request's size; the server's check
  accepts the header, which carries the command and the header's identifiers, and \<open>P\<close> holds of
  the data behind it.\<close>

definition delivered ::
  "(bytes \<Rightarrow> bytes option) \<Rightarrow> nat \<Rightarrow> u16 \<Rightarrow> PacketHeader \<Rightarrow> (slice \<Rightarrow> bool) \<Rightarrow> bool" where
  "delivered encode n cmd hdr P =
     (case encode (replicate n 0) of
        None \<Rightarrow> False
      | Some pkt \<Rightarrow> length pkt = n \<and> PacketCodec_IsInvalid (of_bytes pkt) = Some False \<and>
          PacketCodec_Command (of_bytes pkt) = Some cmd \<and>
          PacketCodec_MessageId (of_bytes pkt) = Some (ph_MessageId hdr) \<and>
          PacketCodec_SessionId (of_bytes pkt) = Some (ph_SessionId hdr) \<and>
          (case PacketCodec_Data (of_bytes pkt) of None \<Rightarrow> False | Some body \<Rightarrow> P body))"

end
