(* ===== verification/DtypLemmas.thy ===== *)
theory DtypLemmas
  imports Dtyp
begin

text \<open>
  The interpretations of the Encoder interface on the small wire types, their round trips and
  the UTF-16 conversions: what encoding writes is what decoding reads.
\<close>

section \<open>The interface holds\<close>

lemma Filetime_fits [fit]: "fits 8 (Filetime_Encode ft)"
  unfolding Filetime_Encode_def by (intro fit) simp_all

interpretation filetime: encoder Filetime_Size Filetime_Encode "\<lambda>_. True"
  by unfold_locales (simp add: Filetime_Size_def Filetime_fits)

lemma put32_series: "(\<lambda>(i, u). put32 (b + 4 * i) u) = (\<lambda>(i, u). put (b + 4 * i) (le_bytes 4 (unat u)))"
  and put16_series: "(\<lambda>(i, w). put16 (2 * i) w) = (\<lambda>(i, w). put (0 + 2 * i) (le_bytes 2 (unat w)))"
  by (simp_all add: puts)

lemma Sid_fits [fit]: "fits (Sid_Size sid) (Sid_Encode sid)"
  unfolding Sid_Encode_def put32_series
proof (intro fit)
  show "fits (Sid_Size sid) (seqw (map (\<lambda>(i, u). put (8 + 4 * i) (le_bytes 4 (unat u)))
      (enumerate 0 (sid_SubAuthority sid))))"
    by (rule fits_series) (simp_all add: Sid_Size_def)
  show "fits (Sid_Size sid) (seqw (map (\<lambda>j. put8 (2 + j)
      (ucast (drop_bit (8 * (6 - j)) (sid_IdentifierAuthority sid)))) [0..<6]))"
    by (rule fits_seqw) (auto simp: Sid_Size_def intro!: fit)
qed (simp_all add: Sid_Size_def)

interpretation sid: encoder Sid_Size Sid_Encode "\<lambda>_. True"
  by unfold_locales (rule Sid_fits)

definition fid_opt_ok :: "FileId option \<Rightarrow> bool" where
  "fid_opt_ok f = (case f of None \<Rightarrow> True | Some fd \<Rightarrow> fid_ok fd)"

lemma FileId_Encode_put:
  assumes "fid_opt_ok f" and "16 \<le> length p"
  shows "FileId_Encode f p = Some (copy_at 0
    (case f of None \<Rightarrow> replicate 16 0 | Some fd \<Rightarrow> fid_Persistent fd @ fid_Volatile fd) p)"
  using assms copy_at_append [of 0 "fid_Persistent (the f)" "fid_Volatile (the f)" p]
  by (auto simp: FileId_Encode_def fid_opt_ok_def fid_ok_def split: option.splits)

lemma FileId_fits [fit]: "fid_opt_ok f \<Longrightarrow> fits 16 (FileId_Encode f)"
  unfolding fits_def
  by (auto simp: FileId_Encode_put drop_copy_at fid_opt_ok_def fid_ok_def split: option.splits)

interpretation fileid: encoder FileId_Size FileId_Encode fid_opt_ok
  by unfold_locales (simp add: FileId_Size_def FileId_fits)

section \<open>Round trips\<close>

lemma Filetime_roundtrip:
  assumes "8 \<le> length p"
  shows "\<exists>p'. Filetime_Encode ft p = Some p' \<and> FiletimeDecoder_Decode (of_bytes p') = Some ft"
proof -
  let ?p = "copy_at 4 (le_bytes 4 (unat (ft_HighDateTime ft)))
     (copy_at 0 (le_bytes 4 (unat (ft_LowDateTime ft))) p)"
  have e: "Filetime_Encode ft p = Some ?p"
    using assms by (simp add: Filetime_Encode_def puts)
  have w: "window 4 4 ?p = le_bytes 4 (unat (ft_HighDateTime ft))"
    "window 0 4 ?p = le_bytes 4 (unat (ft_LowDateTime ft))"
    using assms by (simp_all add: window_copy_at_same window_copy_at_other)
  have "FiletimeDecoder_Decode (of_bytes ?p) = Some ft"
    using assms by (simp add: FiletimeDecoder_Decode_def FiletimeDecoder_LowDateTime_def
        FiletimeDecoder_HighDateTime_def of_bytes_def get_eqs w of_nat_le_word)
  with e show ?thesis by blast
qed

lemma FileId_roundtrip:
  assumes "fid_ok fd" and "16 \<le> length p"
  shows "\<exists>p'. FileId_Encode (Some fd) p = Some p' \<and> FileIdDecoder_Decode (of_bytes p') = Some fd"
proof -
  let ?p = "copy_at 0 (fid_Persistent fd @ fid_Volatile fd) p"
  have "FileId_Encode (Some fd) p = Some ?p"
    using FileId_Encode_put [of "Some fd" p] assms by (simp add: fid_opt_ok_def)
  moreover have "take 8 ?p = fid_Persistent fd" "take 8 (drop 8 ?p) = fid_Volatile fd"
    using assms by (simp_all add: copy_at_def fid_ok_def)
  ultimately show ?thesis using assms by (simp add: FileIdDecoder_Decode_def of_bytes_def)
qed

lemma handle_id_roundtrip:
  "HandleId (SetHandleId n f) = n" "NodeId (SetNodeId n f) = n"
  "NodeId (SetHandleId n f) = NodeId f" "HandleId (SetNodeId n f) = HandleId f"
  by (simp_all add: HandleId_def SetHandleId_def NodeId_def SetNodeId_def of_nat_le_word)

section \<open>UTF-16\<close>

definition valid_rune :: "nat \<Rightarrow> bool" where
  "valid_rune r \<longleftrightarrow> r \<le> 0x10FFFF \<and> \<not> is_surrogate r"

lemma u16_small: "n < 0x10000 \<Longrightarrow> unat (of_nat n :: u16) = n"
  by (simp add: unat_of_nat)

lemma utf16_roundtrip: "(\<forall>r \<in> set s. valid_rune r) \<Longrightarrow> utf16_runes (utf16_units s) = s"
proof (induction s)
  case Nil
  then show ?case by simp
next
  case (Cons r rs)
  then have IH: "utf16_runes (utf16_units rs) = rs" and v: "valid_rune r" by simp_all
  show ?case
  proof (cases "r < 0x10000")
    case True
    then have u: "unat (of_nat r :: u16) = r" "\<not> is_surrogate r" using v by (simp_all add: u16_small valid_rune_def)
    show ?thesis
      using True u IH by (cases "utf16_units rs") auto
  next
    case False
    then have r: "0x10000 \<le> r" "r \<le> 0x10FFFF" using v by (simp_all add: valid_rune_def)
    let ?d = "r - 0x10000"
    have "?d div 0x400 < 0x400" "?d mod 0x400 < 0x400" using r by (auto simp: div_less_iff_less_mult)
    then have u: "unat (of_nat (0xD800 + ?d div 0x400) :: u16) = 0xD800 + ?d div 0x400"
      "unat (of_nat (0xDC00 + ?d mod 0x400) :: u16) = 0xDC00 + ?d mod 0x400"
      by (intro u16_small; simp)+
    have "?d = ?d div 0x400 * 0x400 + ?d mod 0x400" by simp
    then have "0x10000 + (?d div 0x400) * 0x400 + ?d mod 0x400 = r" using r by linarith
    then show ?thesis
      using False r u IH \<open>?d div 0x400 < 0x400\<close> \<open>?d mod 0x400 < 0x400\<close>
      by (simp add: is_surrogate_def del: of_nat_add)
  qed
qed

lemma EncodeString_len_eq: "EncodeString_len s = EncodedStringLen s"
  unfolding EncodeString_len_def EncodedStringLen_def by (induction s) auto

lemma length_EncodeStringToBytes: "length (EncodeStringToBytes s) = EncodedStringLen s"
proof -
  have "length (concat (map (\<lambda>w. le_bytes 2 (unat w)) ws)) = length ws * 2" for ws :: "u16 list"
    by (induction ws) simp_all
  then show ?thesis
    using EncodeString_len_eq [of s] by (simp add: EncodeStringToBytes_def EncodeString_len_def)
qed

lemma EncodeString_bytes:
  assumes "EncodedStringLen s \<le> length p"
  shows "EncodeString s p = Some (copy_at 0 (EncodeStringToBytes s) p)"
proof -
  have "2 * length (utf16_units s) \<le> length p"
    using assms EncodeString_len_eq [of s] by (simp add: EncodeString_len_def mult.commute)
  then show ?thesis
    using seqw_series [of "\<lambda>w :: u16. le_bytes 2 (unat w)" 2 0 0 "utf16_units s" p]
    by (simp add: EncodeString_def EncodeStringToBytes_def put16_series)
qed

lemma utf16_words_bytes:
  "utf16_words (concat (map (\<lambda>w. le_bytes 2 (unat w)) ws)) = ws"
proof (induction ws)
  case Nil
  then show ?case by simp
next
  case (Cons w ws)
  obtain a b where ab: "le_bytes 2 (unat w) = [a, b]" by (simp add: numeral_2_eq_2)
  have "(of_nat (le_nat [a, b]) :: u16) = w" using of_nat_le_word(1) [of w] ab by simp
  with Cons ab show ?case by simp
qed

lemma last_utf16_units:
  "s \<noteq> [] \<Longrightarrow> (\<forall>r \<in> set s. valid_rune r) \<Longrightarrow> last s \<noteq> 0 \<Longrightarrow> utf16_units s \<noteq> [] \<and> last (utf16_units s) \<noteq> 0"
proof (induction s)
  case Nil
  then show ?case by simp
next
  case (Cons r rs)
  show ?case
  proof (cases "rs = []")
    case False
    with Cons show ?thesis by (auto simp: last_ConsR)
  next
    case True
    have nz: "(of_nat n :: u16) \<noteq> 0" if "0 < n" "n < 0x10000" for n
      using u16_small [of n] that by (metis unsigned_0 less_irrefl)
    have "0xDC00 + (r - 0x10000) mod 0x400 < 0x10000" by (simp add: less_trans [OF mod_less_divisor])
    then have "(of_nat (0xDC00 + (r - 0x10000) mod 0x400) :: u16) \<noteq> 0" by (intro nz) simp_all
    with True Cons.prems nz [of r] show ?thesis
      by (auto simp: valid_rune_def simp del: of_nat_add)
  qed
qed

lemma DecodeToString_EncodeStringToBytes:
  assumes "\<forall>r \<in> set s. valid_rune r" and "s = [] \<or> last s \<noteq> 0"
  shows "DecodeToString (EncodeStringToBytes s) = s"
proof (cases "s = []")
  case True
  then show ?thesis by (simp add: EncodeStringToBytes_def DecodeToString_def)
next
  case False
  then show ?thesis
    using assms last_utf16_units [OF False assms(1)] utf16_roundtrip [OF assms(1)]
    by (simp add: EncodeStringToBytes_def DecodeToString_def utf16_words_bytes)
qed

end
