(* ===== verification/PacketLemmas.thy ===== *)
theory PacketLemmas
  imports Packet DtypLemmas
begin

text \<open>
  The header's encoder against its codec: what is written is what is read, an encoded header
  passes the server's check, and the accessors of a packet that passed it do not panic.
\<close>

lemmas codec_setters = PacketCodec_SetProtocolId_def PacketCodec_SetStructureSize_def
  PacketCodec_SetCreditCharge_def PacketCodec_SetChannelSequence_def PacketCodec_SetStatus_def
  PacketCodec_SetCommand_def PacketCodec_SetCreditRequest_def PacketCodec_SetFlags_def
  PacketCodec_SetMessageId_def PacketCodec_SetTreeId_def PacketCodec_SetAsyncId_def
  PacketCodec_SetSessionId_def

lemma length_MAGIC [simp]: "length MAGIC = 4"
  by (simp add: MAGIC_def)

lemma encodeHeader_fits [fit]: "64 \<le> n \<Longrightarrow> fits n (encodeHeader h)"
  unfolding encodeHeader_def codec_setters by (auto intro!: fit)

text \<open>The fields of an encoded header.\<close>

lemma encodeHeader_windows:
  assumes "64 \<le> length p"
  shows "\<exists>p'. encodeHeader h p = Some p' \<and> length p' = length p \<and> drop 64 p' = drop 64 p \<and>
    window 0 4 p' = MAGIC \<and> window 4 2 p' = le_bytes 2 64 \<and>
    window 6 2 p' = le_bytes 2 (unat (ph_CreditCharge h)) \<and>
    window 12 2 p' = le_bytes 2 (unat (ph_Command h)) \<and>
    window 14 2 p' = le_bytes 2 (unat (ph_CreditRequestResponse h)) \<and>
    window 16 4 p' = le_bytes 4 (unat (ph_Flags h)) \<and>
    window 20 4 p' = window 20 4 p \<and>
    window 24 8 p' = le_bytes 8 (unat (ph_MessageId h)) \<and>
    window 40 8 p' = le_bytes 8 (unat (ph_SessionId h)) \<and>
    window 48 16 p' = window 48 16 p \<and>
    (ph_TreeId h \<noteq> 0 \<longrightarrow> window 36 4 p' = le_bytes 4 (unat (ph_TreeId h))) \<and>
    (ph_TreeId h = 0 \<longrightarrow> ph_AsyncId h \<noteq> 0 \<longrightarrow> window 32 8 p' = le_bytes 8 (unat (ph_AsyncId h))) \<and>
    (ph_ChannelSequence h \<noteq> 0 \<longrightarrow> window 8 2 p' = le_bytes 2 (unat (ph_ChannelSequence h))) \<and>
    (ph_ChannelSequence h = 0 \<longrightarrow> ph_Status h \<noteq> 0 \<longrightarrow> window 8 4 p' = le_bytes 4 (unat (ph_Status h)))"
proof -
  obtain p' where e: "encodeHeader h p = Some p'" "length p' = length p" "drop 64 p' = drop 64 p"
    using fitsD [OF encodeHeader_fits [OF order_refl] assms] by blast
  show ?thesis
    using e assms
    by (cases "ph_ChannelSequence h = 0"; cases "ph_Status h = 0"; cases "ph_TreeId h = 0"; cases "ph_AsyncId h = 0")
      (auto simp: encodeHeader_def codec_setters copy_from_def puts windows)
qed

section \<open>The checks\<close>

lemma slice_byte_0: "sidx i (Slice xs n) = (if i < n then Some (xs ! i) else None)"
  by simp

lemma IsSmb1_eq:
  "4 \<le> length xs \<Longrightarrow> PacketCodec_IsSmb1 (Slice xs n) =
     Some (xs ! 0 = 0xFF \<and> xs ! 1 = 0x53 \<and> xs ! 2 = 0x4D \<and> xs ! 3 = 0x42)"
  by (simp add: PacketCodec_IsSmb1_def PacketCodec_ProtocolId_def)

lemma magic_bytes: "window 0 4 xs = MAGIC \<Longrightarrow> 4 \<le> length xs \<Longrightarrow>
   xs ! 0 = 0xFE \<and> xs ! 1 = 0x53 \<and> xs ! 2 = 0x4D \<and> xs ! 3 = 0x42"
proof -
  assume w: "window 0 4 xs = MAGIC" and l: "4 \<le> length xs"
  have "xs ! i = MAGIC ! i" if "i < 4" for i
    using arg_cong [OF w, of "\<lambda>ys. ys ! i"] that l by (simp add: window_def)
  from this [of 0] this [of 1] this [of 2] this [of 3] show ?thesis by (simp add: MAGIC_def)
qed

text \<open>Bytes laid out as a lone packet's header pass the check and read back.\<close>

lemma valid_header:
  assumes "64 \<le> length p'" and w: "window 0 4 p' = MAGIC" "window 4 2 p' = le_bytes 2 64"
    "window 12 2 p' = le_bytes 2 (unat cmd)" "window 20 4 p' = le_bytes 4 0"
    "window 24 8 p' = le_bytes 8 (unat mid)" "window 40 8 p' = le_bytes 8 (unat sid)"
  shows "PacketCodec_IsInvalid (of_bytes p') = Some False \<and> PacketCodec_Command (of_bytes p') = Some cmd \<and>
    PacketCodec_MessageId (of_bytes p') = Some mid \<and> PacketCodec_SessionId (of_bytes p') = Some sid"
proof -
  have l: "64 \<le> length p'" by (rule assms(1))
  have m: "p' ! 0 = 0xFE" "p' ! Suc 0 = 0x53" "p' ! 2 = 0x4D" "p' ! 3 = 0x42"
    using magic_bytes [OF w(1)] l by simp_all
  have s: "PacketCodec_IsSmb1 (of_bytes p') = Some False"
    using IsSmb1_eq [of p' "length p'"] m l by (simp add: of_bytes_def)
  have n: "PacketCodec_NextCommand (of_bytes p') = Some 0"
    using l w(4) of_nat_le_word(2) [of 0] by (simp add: PacketCodec_NextCommand_def of_bytes_def get_eqs)
  have z: "PacketCodec_StructureSize (of_bytes p') = Some 64"
    using l w(2) of_nat_le_word(1) [of 64] by (simp add: PacketCodec_StructureSize_def of_bytes_def get_eqs)
  have "PacketCodec_IsInvalid (of_bytes p') = Some False"
    using l m n z s by (auto simp: PacketCodec_IsInvalid_def PacketCodec_ProtocolId_def of_bytes_def)
  then show ?thesis
    using l w s by (simp add: PacketCodec_Command_def PacketCodec_MessageId_def PacketCodec_SessionId_def
        of_bytes_def get_eqs of_nat_le_word)
qed

text \<open>A header for the witnesses.\<close>

definition demo_header :: PacketHeader where
  "demo_header = \<lparr>ph_CreditCharge = 1, ph_ChannelSequence = 0, ph_Status = 0, ph_Command = 0,
     ph_CreditRequestResponse = 31, ph_Flags = 0, ph_MessageId = 7, ph_AsyncId = 0, ph_TreeId = 3,
     ph_SessionId = 0x400000000001\<rparr>"

text \<open>C22. Header round trip: encoding a header into a buffer whose \<open>NextCommand\<close> bytes are zero
  leaves everything behind byte 64 alone and gives a packet that the server's check accepts as a
  lone SMB2 packet and whose accessors return the header's fields; the tree id or the asynchronous
  id, and the status, where the header has them.\<close>

theorem encodeHeader_reads:
  assumes "64 \<le> length p" and "window 20 4 p = le_bytes 4 0"
  shows "\<exists>p'. encodeHeader h p = Some p' \<and> length p' = length p \<and> drop 64 p' = drop 64 p \<and>
    PacketCodec_IsInvalid (of_bytes p') = Some False \<and>
    PacketCodec_CreditCharge (of_bytes p') = Some (ph_CreditCharge h) \<and>
    PacketCodec_Command (of_bytes p') = Some (ph_Command h) \<and>
    PacketCodec_CreditRequest (of_bytes p') = Some (ph_CreditRequestResponse h) \<and>
    PacketCodec_Flags (of_bytes p') = Some (ph_Flags h) \<and>
    PacketCodec_NextCommand (of_bytes p') = Some 0 \<and>
    PacketCodec_MessageId (of_bytes p') = Some (ph_MessageId h) \<and>
    PacketCodec_SessionId (of_bytes p') = Some (ph_SessionId h) \<and>
    (ph_TreeId h \<noteq> 0 \<longrightarrow> PacketCodec_TreeId (of_bytes p') = Some (ph_TreeId h)) \<and>
    (ph_TreeId h = 0 \<longrightarrow> ph_AsyncId h \<noteq> 0 \<longrightarrow> PacketCodec_AsyncId (of_bytes p') = Some (ph_AsyncId h)) \<and>
    (ph_ChannelSequence h = 0 \<longrightarrow> ph_Status h \<noteq> 0 \<longrightarrow> PacketCodec_Status (of_bytes p') = Some (ph_Status h))"
proof -
  obtain p' where e: "encodeHeader h p = Some p'" "length p' = length p" "drop 64 p' = drop 64 p"
    and w: "window 0 4 p' = MAGIC" "window 4 2 p' = le_bytes 2 64"
    "window 12 2 p' = le_bytes 2 (unat (ph_Command h))" "window 20 4 p' = window 20 4 p"
    "window 24 8 p' = le_bytes 8 (unat (ph_MessageId h))"
    "window 40 8 p' = le_bytes 8 (unat (ph_SessionId h))"
    and v: "window 6 2 p' = le_bytes 2 (unat (ph_CreditCharge h))"
    "window 14 2 p' = le_bytes 2 (unat (ph_CreditRequestResponse h))"
    "window 16 4 p' = le_bytes 4 (unat (ph_Flags h))"
    "ph_TreeId h \<noteq> 0 \<longrightarrow> window 36 4 p' = le_bytes 4 (unat (ph_TreeId h))"
    "ph_TreeId h = 0 \<longrightarrow> ph_AsyncId h \<noteq> 0 \<longrightarrow> window 32 8 p' = le_bytes 8 (unat (ph_AsyncId h))"
    "ph_ChannelSequence h = 0 \<longrightarrow> ph_Status h \<noteq> 0 \<longrightarrow> window 8 4 p' = le_bytes 4 (unat (ph_Status h))"
    using encodeHeader_windows [OF assms(1), of h] by blast
  have l: "64 \<le> length p'" using assms(1) e(2) by simp
  have n: "PacketCodec_NextCommand (of_bytes p') = Some 0"
    using l w(4) assms(2) of_nat_le_word(2) [of 0] by (simp add: PacketCodec_NextCommand_def of_bytes_def get_eqs)
  show ?thesis
    using e l v n valid_header [OF l w(1-3) w(4) [unfolded assms(2)] w(5,6)]
    by (simp add: PacketCodec_CreditCharge_def PacketCodec_CreditRequest_def PacketCodec_Flags_def
        PacketCodec_TreeId_def PacketCodec_AsyncId_def PacketCodec_Status_def of_bytes_def get_eqs of_nat_le_word)
qed

theorem encodeHeader_reads_witness:
  "\<exists>p'. encodeHeader demo_header (replicate 64 0) = Some p' \<and>
    PacketCodec_IsInvalid (of_bytes p') = Some False \<and> PacketCodec_TreeId (of_bytes p') = Some 3"
proof -
  have "window 20 4 (replicate 64 (0 :: u8)) = le_bytes 4 0" by code_simp
  moreover have "ph_TreeId demo_header = 3" by (simp add: demo_header_def)
  ultimately show ?thesis using encodeHeader_reads [of "replicate 64 0" demo_header] by auto
qed

lemma valid_packet_length:
  assumes "PacketCodec_IsInvalid p = Some False" and "PacketCodec_IsSmb1 p = Some False"
  shows "64 \<le> slen p"
proof (rule ccontr)
  assume "\<not> 64 \<le> slen p"
  with assms show False by (simp add: PacketCodec_IsInvalid_def)
qed

text \<open>C23. After the packet check no accessor of an SMB2 header panics, and the offset of the next
  command of a compound is aligned and inside the packet. The check also lets a packet with the SMB1
  magic through, whatever its length, when its fifth byte is the code of NEGOTIATE: of such a packet
  only the command and the message id can be read safely, and when it fills its buffer and is
  shorter than 20 bytes, \<open>Flags\<close> and with it \<open>IsCompoundFirst\<close>, which the receiving loop calls next,
  panics.\<close>

theorem valid_packet_accessors:
  assumes "slice_ok p" and "PacketCodec_IsInvalid p = Some False"
  shows "PacketCodec_IsSmb1 p = Some False \<and>
      PacketCodec_StructureSize p \<noteq> None \<and> PacketCodec_CreditCharge p \<noteq> None \<and>
      PacketCodec_Status p \<noteq> None \<and> PacketCodec_Command p \<noteq> None \<and> PacketCodec_CreditRequest p \<noteq> None \<and>
      PacketCodec_Flags p \<noteq> None \<and> PacketCodec_MessageId p \<noteq> None \<and>
      PacketCodec_AsyncId p \<noteq> None \<and> PacketCodec_TreeId p \<noteq> None \<and> PacketCodec_SessionId p \<noteq> None \<and>
      PacketCodec_Signature p \<noteq> None \<and> PacketCodec_Data p \<noteq> None \<and> PacketCodec_IsCompound p \<noteq> None \<and>
      PacketCodec_IsCompoundFirst p \<noteq> None \<and> PacketCodec_IsCompoundLast p \<noteq> None \<and>
      (\<exists>n. PacketCodec_NextCommand p = Some n \<and> n AND 7 = 0 \<and> unat n < slen p) \<or>
    PacketCodec_IsSmb1 p = Some True \<and> 5 \<le> slen p \<and> PacketCodec_Command p = Some SMB_COM_NEGOTIATE \<and>
      PacketCodec_MessageId p = Some 0xFFFFFFFFFFFFFFFF \<and>
      (p = of_bytes (sbytes p) \<longrightarrow> slen p < 20 \<longrightarrow>
         PacketCodec_Flags p = None \<and> PacketCodec_IsCompoundFirst p = None)"
proof -
  obtain xs n where p: "p = Slice xs n" by (cases p)
  obtain b where b: "PacketCodec_IsSmb1 p = Some b"
    using assms(2) by (auto simp: PacketCodec_IsInvalid_def bind_eq_Some_conv)
  show ?thesis
  proof (cases b)
    case False
    with b have s: "PacketCodec_IsSmb1 p = Some False" by simp
    have l: "64 \<le> n" "n \<le> length xs" using valid_packet_length [OF assms(2) s] assms(1) p by simp_all
    have "\<exists>m. PacketCodec_NextCommand p = Some m \<and> m AND 7 = 0 \<and> unat m < slen p"
      using assms(2) s l p by (auto simp: PacketCodec_IsInvalid_def bind_eq_Some_conv split: if_splits)
    with l show ?thesis
      using s p
      by (intro disjI1)
        (auto simp: PacketCodec_StructureSize_def PacketCodec_CreditCharge_def PacketCodec_Status_def
          PacketCodec_Command_def PacketCodec_CreditRequest_def PacketCodec_Flags_def
          PacketCodec_NextCommand_def PacketCodec_MessageId_def PacketCodec_AsyncId_def
          PacketCodec_TreeId_def PacketCodec_SessionId_def PacketCodec_Signature_def
          PacketCodec_Data_def PacketCodec_IsCompound_def PacketCodec_IsCompoundFirst_def
          PacketCodec_IsCompoundLast_def get_eqs)
  next
    case True
    with b have s: "PacketCodec_IsSmb1 p = Some True" by simp
    have m: "4 \<le> length xs" "xs ! 0 = 0xFF"
      using s p by (auto simp: PacketCodec_IsSmb1_def PacketCodec_ProtocolId_def bind_eq_Some_conv split: if_splits)
    obtain c where c: "PacketCodec_Command p = Some c"
      using assms(2) s by (auto simp: PacketCodec_IsInvalid_def bind_eq_Some_conv)
    have "c = SMB_COM_NEGOTIATE"
    proof (rule ccontr)
      assume "c \<noteq> SMB_COM_NEGOTIATE"
      with assms(2) s c p m show False
        by (auto simp: PacketCodec_IsInvalid_def PacketCodec_ProtocolId_def bind_eq_Some_conv split: if_splits)
    qed
    moreover have "5 \<le> slen p" using c s p by (simp add: PacketCodec_Command_def split: if_splits)
    moreover have "PacketCodec_Flags p = None \<and> PacketCodec_IsCompoundFirst p = None"
      if "p = of_bytes (sbytes p)" "slen p < 20"
    proof -
      have "length xs = n" using that(1) assms(1) p by (metis (lifting) length_take min_absorb2 of_bytes_def sbytes.simps slice.inject slice_ok.simps)
      then show ?thesis
        using that(2) p by (simp add: PacketCodec_Flags_def PacketCodec_IsCompoundFirst_def get_eqs)
    qed
    ultimately show ?thesis
      using s c by (simp add: PacketCodec_MessageId_def)
  qed
qed

lemma le_nat_zeros [simp]: "le_nat (replicate n 0) = 0"
  by (induction n) simp_all

definition demo_packet :: slice where
  "demo_packet = Slice ([0xFE, 0x53, 0x4D, 0x42, 64, 0] @ replicate 62 0) 68"

definition demo_smb1 :: slice where
  "demo_smb1 = of_bytes [0xFF, 0x53, 0x4D, 0x42, 0x72]"

lemma demo_packets_accepted:
  "PacketCodec_IsSmb1 demo_packet = Some False" "PacketCodec_IsInvalid demo_packet = Some False"
  "PacketCodec_IsSmb1 demo_smb1 = Some True" "PacketCodec_IsInvalid demo_smb1 = Some False"
proof -
  show s: "PacketCodec_IsSmb1 demo_packet = Some False"
    by (simp add: demo_packet_def PacketCodec_IsSmb1_def PacketCodec_ProtocolId_def)
  then show "PacketCodec_IsInvalid demo_packet = Some False"
    by (simp add: demo_packet_def PacketCodec_IsInvalid_def PacketCodec_ProtocolId_def
        PacketCodec_StructureSize_def PacketCodec_NextCommand_def get_eqs window_def)
  show t: "PacketCodec_IsSmb1 demo_smb1 = Some True"
    by (simp add: demo_smb1_def of_bytes_def PacketCodec_IsSmb1_def PacketCodec_ProtocolId_def)
  then show "PacketCodec_IsInvalid demo_smb1 = Some False"
    by (simp add: demo_smb1_def of_bytes_def PacketCodec_IsInvalid_def PacketCodec_Command_def SMB_COM_NEGOTIATE_def)
qed

theorem valid_packet_accessors_witness:
  "PacketCodec_TreeId demo_packet \<noteq> None \<and> PacketCodec_IsCompoundFirst demo_smb1 = None"
proof
  have "slice_ok demo_packet" by (simp add: demo_packet_def)
  from valid_packet_accessors [OF this] show "PacketCodec_TreeId demo_packet \<noteq> None"
    by (simp add: demo_packets_accepted)
  have "slice_ok demo_smb1" by (simp add: demo_smb1_def of_bytes_def)
  from valid_packet_accessors [OF this] show "PacketCodec_IsCompoundFirst demo_smb1 = None"
    by (simp add: demo_packets_accepted) (simp add: demo_smb1_def of_bytes_def)
qed

end
