(* ===== verification/ContextLemmas.thy ===== *)
theory ContextLemmas
  imports NegotiateContexts PacketLemmas
begin

text \<open>
  The negotiate contexts implement the Encoder interface as long as their length fits its
  16-bit field, and the cipher list a client would send reads back.
\<close>

lemma fits_need [fit]: "b \<Longrightarrow> fits n (need b)"
  by (simp add: fits_def need_def)

lemma fits_put_words [fit]: "b + 2 * length ws \<le> n \<Longrightarrow> fits n (put_words b ws)"
  unfolding put_words_def by (rule fits_series) simp_all

lemma unat_data: "m + 8 < 0x10000 \<Longrightarrow> unat (8 + of_nat m :: u16) = 8 + m"
  by (metis add.commute of_nat_add of_nat_numeral u16_small)

lemma data_len_of_nat: "m + 8 < 0x10000 \<Longrightarrow> data_len (of_nat m) = m"
  by (simp add: data_len_def unat_data)

lemma fits_need_data [fit]: "m + 8 < 0x10000 \<Longrightarrow> 8 + m \<le> n \<Longrightarrow> fits n (need_data (of_nat m))"
  by (simp add: fits_def need_data_def need_def unat_data)

definition short :: "nat \<Rightarrow> bool" where "short n \<longleftrightarrow> n < 0x10000"

lemma CipherContext_fits:
  "short (CipherContext_Size c) \<Longrightarrow> fits (CipherContext_Size c) (CipherContext_Encode c)"
  unfolding CipherContext_Encode_def Let_def CipherContext_Size_def short_def
  using data_len_of_nat [of "2 + length (cc_Ciphers c) * 2"]
  by (intro fit) simp_all

lemma CompressionContext_fits:
  "short (CompressionContext_Size c) \<Longrightarrow> fits (CompressionContext_Size c) (CompressionContext_Encode c)"
  unfolding CompressionContext_Encode_def Let_def CompressionContext_Size_def short_def
  using data_len_of_nat [of "8 + length (cm_Compressions c) * 2"]
  by (intro fit) simp_all

lemma HashContext_fits:
  "short (HashContext_Size c) \<Longrightarrow> fits (HashContext_Size c) (HashContext_Encode c)"
  unfolding HashContext_Encode_def Let_def HashContext_Size_def short_def
  using data_len_of_nat [of "4 + length (hc_HashAlgorithms c) * 2 + length (hc_HashSalt c)"]
  by (intro fit) simp_all

interpretation cipher: encoder CipherContext_Size CipherContext_Encode "\<lambda>c. short (CipherContext_Size c)"
  by unfold_locales (rule CipherContext_fits)

interpretation compression: encoder CompressionContext_Size CompressionContext_Encode
    "\<lambda>c. short (CompressionContext_Size c)"
  by unfold_locales (rule CompressionContext_fits)

interpretation hash: encoder HashContext_Size HashContext_Encode "\<lambda>c. short (HashContext_Size c)"
  by unfold_locales (rule HashContext_fits)

lemma quota_sids_fits:
  "off + (\<Sum>sid\<leftarrow>sids. 8 + Sid_Size sid) \<le> n \<Longrightarrow> fits n (quota_sids off sids)"
proof (induction sids arbitrary: off)
  case Nil
  then show ?case by (simp add: fits_def)
next
  case (Cons sid sids)
  have a: "fits n (seqw [at_off (off + 8) (Sid_Encode sid), put32 off (of_nat (off + Sid_Size sid)),
      put32 (off + 4) (of_nat (Sid_Size sid))])"
    using Cons.prems by (intro fit fits_mono [OF Sid_fits]) simp_all
  have "fits n (quota_sids (off + 8 + Sid_Size sid) sids)"
    by (rule Cons.IH) (use Cons.prems in simp)
  then show ?case using a unfolding fits_def quota_sids.simps
    by (metis bind.bind_lunit)
qed

lemma QueryQuotaInfo_fits: "fits (QueryQuotaInfo_Size q) (QueryQuotaInfo_Encode q)"
proof -
  consider "qq_Sids q = []" | sid where "qq_Sids q = [sid]" | a b cs where "qq_Sids q = a # b # cs"
    by (metis list.exhaust)
  then show ?thesis
  proof cases
    case 1
    then show ?thesis unfolding QueryQuotaInfo_Encode_def
      by (auto simp: QueryQuotaInfo_Size_def intro!: fit)
  next
    case (2 sid)
    then show ?thesis unfolding QueryQuotaInfo_Encode_def
      by (auto simp: QueryQuotaInfo_Size_def intro!: fit fits_mono [OF Sid_fits])
  next
    case (3 a b cs)
    have "fits (QueryQuotaInfo_Size q) (quota_sids 16 (a # b # cs))"
      by (rule quota_sids_fits) (simp add: 3 QueryQuotaInfo_Size_def)
    with 3 show ?thesis unfolding QueryQuotaInfo_Encode_def
      by (auto simp: QueryQuotaInfo_Size_def simp del: quota_sids.simps intro!: fit)
  qed
qed

interpretation quota: encoder QueryQuotaInfo_Size QueryQuotaInfo_Encode "\<lambda>_. True"
  by unfold_locales (rule QueryQuotaInfo_fits)

end
