(* ===== verification/RequestLemmas.thy ===== *)
theory RequestLemmas
  imports RequestEncoders ContextLemmas
begin

text \<open>
  The requests' encoders against their decoders: every request implements the Encoder
  interface, and what a client encodes passes the server's checks and reads back field by
  field.
\<close>

section \<open>Placing encoder values\<close>

definition enc_ok :: "enc \<Rightarrow> bool" where
  "enc_ok c \<longleftrightarrow> fits (en_size c) (en_encode c)"

lemma round8_eq: "round8 n = 8 * ((n + 7) div 8)"
proof -
  have "x AND NOT 7 = 8 * (x div 8)" for x :: int
  proof -
    have "x AND NOT (mask 3) = push_bit 3 (drop_bit 3 x)"
      by (rule bit_eqI) (auto simp: bit_simps)
    then show ?thesis by (simp add: mask_eq_exp_minus_1 push_bit_eq_mult drop_bit_eq_div mult.commute)
  qed
  from this [of "int n + 7"] show ?thesis by (simp add: round8_def Roundup_def nat_mult_distrib nat_div_distrib nat_add_distrib)
qed

lemma round8_ge: "n \<le> round8 n"
  unfolding round8_eq by presburger

lemma round8_less: "round8 n < n + 8"
  unfolding round8_eq by presburger

lemma round8_mod: "round8 n mod 8 = 0"
  by (simp add: round8_eq)

lemma round8_shift: "round8 (64 + n) = 64 + round8 n"
  unfolding round8_eq by presburger

lemma end_off_shift: "end_off round8 (64 + n) cs = 64 + end_off round8 n cs"
  by (induction cs arbitrary: n) (simp_all add: round8_shift add.assoc)

lemma end_off_id_shift: "end_off id (k + n) cs = k + end_off id n cs"
  by (induction cs arbitrary: n) (simp_all add: add.assoc)

lemma end_off_ge: "(\<And>x. x \<le> al x) \<Longrightarrow> n \<le> end_off al n cs"
proof (induction cs arbitrary: n)
  case (Cons c cs)
  have "n \<le> al n + en_size c" using Cons.prems [of n] by simp
  also have "\<dots> \<le> end_off al (al n + en_size c) cs" using Cons by blast
  finally show ?case by simp
qed simp

text \<open>On a buffer with room, a placed value is a block of its size copied there.\<close>

lemma at_off_copy:
  assumes "fits k f" and "off + k \<le> length p"
  shows "\<exists>t. length t = k \<and> at_off off f p = Some (copy_at off t p)"
proof -
  have "k \<le> length (drop off p)" using assms(2) by simp
  then obtain q where q: "f (drop off p) = Some q" "length q = length p - off" "drop k q = drop k (drop off p)"
    using fitsD [OF assms(1)] by fastforce
  have "q = take k q @ drop (off + k) p" using q(3) append_take_drop_id [of k q] by (simp add: add.commute)
  then have "take off p @ q = copy_at off (take k q) p"
    using assms(2) q(2) by (simp add: copy_at_def)
  with q assms(2) show ?thesis
    by (intro exI [of _ "take k q"]) (simp add: at_off_def)
qed

lemma at_range_put:
  "b = a + length xs \<Longrightarrow> b \<le> length p \<Longrightarrow> f (window a (b - a) p) = Some xs \<Longrightarrow>
   at_range a b f p = Some (copy_at a xs p)"
  by (simp add: at_range_def copy_at_def)

lemma encode_all_copy:
  assumes "\<And>x. x \<le> al x" and "\<forall>c \<in> set cs. enc_ok c" and "end_off al off cs \<le> length p"
  shows "\<exists>t. length t = end_off al off cs - off \<and> encode_all al off cs p = Some (copy_at off t p)"
  using assms(2,3)
proof (induction cs arbitrary: off p)
  case Nil
  then show ?case by simp
next
  case (Cons c cs)
  let ?o = "al off"
  let ?e = "end_off al (?o + en_size c) cs"
  have le: "off \<le> ?o" "?o + en_size c \<le> ?e" "?e \<le> length p"
    using assms(1) Cons.prems(2) end_off_ge [of al "?o + en_size c" cs] by simp_all
  obtain t where t: "length t = en_size c" "at_off ?o (en_encode c) p = Some (copy_at ?o t p)"
    using at_off_copy [of "en_size c" "en_encode c" ?o p] le Cons.prems(1) by (auto simp: enc_ok_def)
  obtain u where u: "length u = ?e - (?o + en_size c)"
    "encode_all al (?o + en_size c) cs (copy_at ?o t p) = Some (copy_at (?o + en_size c) u (copy_at ?o t p))"
    using Cons.IH [of "?o + en_size c" "copy_at ?o t p"] Cons.prems by auto
  define g where "g = window off (?o - off) p"
  have g: "length g = ?o - off" using le by (simp add: g_def window_def)
  have "copy_at (?o + en_size c) u (copy_at ?o t p) = copy_at ?o (t @ u) p"
    using copy_at_append [of ?o t u p] t(1) u(1) le by simp
  also have "\<dots> = copy_at off (g @ t @ u) p"
  proof -
    have "copy_at off g p = p"
      using le g by (simp add: copy_at_def g_def window_def)
        (metis append_take_drop_id drop_drop le_add_diff_inverse2)
    then show ?thesis using copy_at_append [of off g "t @ u" p] g t(1) u(1) le by simp
  qed
  finally have "encode_all al off (c # cs) p = Some (copy_at off (g @ t @ u) p)" using t(2) u(2) by simp
  moreover have "length (g @ t @ u) = end_off al off (c # cs) - off" using g t(1) u(1) le by simp
  ultimately show ?case by blast
qed

text \<open>A buffer that changed only between two offsets.\<close>

definition within :: "nat \<Rightarrow> nat \<Rightarrow> bytes \<Rightarrow> bytes \<Rightarrow> bool" where
  "within a e p q \<longleftrightarrow> length q = length p \<and> take a q = take a p \<and> drop e q = drop e p"

lemma within_refl [simp]: "within a e p p"
  by (simp add: within_def)

lemma within_trans: "within a e p q \<Longrightarrow> within a e q r \<Longrightarrow> within a e p r"
  by (simp add: within_def)

lemma within_mono: "within b e p q \<Longrightarrow> a \<le> b \<Longrightarrow> e \<le> f \<Longrightarrow> within a f p q"
proof -
  assume w: "within b e p q" and l: "a \<le> b" "e \<le> f"
  have "take a q = take a (take b q)" "drop f q = drop (f - e) (drop e q)"
    using l by (simp_all add: min_def)
  moreover have "take a p = take a (take b p)" "drop f p = drop (f - e) (drop e p)"
    using l by (simp_all add: min_def)
  ultimately show ?thesis using w unfolding within_def by presburger
qed

lemma within_copy: "a \<le> b \<Longrightarrow> b + length xs \<le> e \<Longrightarrow> e \<le> length p \<Longrightarrow> within a e p (copy_at b xs p)"
  by (simp add: within_def drop_copy_at) (simp add: copy_at_def min_def)

lemma within_block:
  assumes "within a e p q" and "a \<le> e" and "e \<le> length p"
  shows "\<exists>t. length t = e - a \<and> q = copy_at a t p"
proof -
  have q: "length q = length p" "take a q = take a p" "drop e q = drop e p"
    using assms(1) by (simp_all add: within_def)
  have "q = take a q @ take (e - a) (drop a q) @ drop e q"
    using assms(2) by (metis append.assoc append_take_drop_id le_add_diff_inverse take_add)
  with q assms show ?thesis
    by (intro exI [of _ "take (e - a) (drop a q)"]) (simp add: copy_at_def)
qed

lemma create_contexts_within:
  assumes "\<forall>c \<in> set cs. enc_ok c \<and> 4 \<le> en_size c" and "ctx + 4 \<le> off"
    and "end_off round8 off cs \<le> length p"
  shows "\<exists>q. create_contexts slot (Some (ctx, nx)) off cs p = Some q \<and> within ctx (end_off round8 off cs) p q"
  using assms
proof (induction cs arbitrary: ctx nx off p)
  case Nil
  then show ?case by simp
next
  case (Cons c cs)
  let ?o = "round8 off"
  let ?e = "end_off round8 (?o + en_size c) cs"
  have le: "off \<le> ?o" "?o + en_size c \<le> ?e" "?e \<le> length p"
    using Cons.prems(3) end_off_ge [of round8 "?o + en_size c" cs] round8_ge by simp_all
  have f: "fits 4 (put32 0 (of_nat nx))" by (intro fit) simp
  obtain x where x: "length x = 4" "at_off ctx (put32 0 (of_nat nx)) p = Some (copy_at ctx x p)"
    using at_off_copy [OF f, of ctx p] le Cons.prems(2) by auto
  obtain t where t: "length t = en_size c"
    "at_off ?o (en_encode c) (copy_at ctx x p) = Some (copy_at ?o t (copy_at ctx x p))"
    using at_off_copy [of "en_size c" "en_encode c" ?o "copy_at ctx x p"] le Cons.prems(1)
    by (auto simp: enc_ok_def)
  obtain q where q: "create_contexts slot (Some (?o, en_size c)) (?o + en_size c) cs
      (copy_at ?o t (copy_at ctx x p)) = Some q" "within ?o ?e (copy_at ?o t (copy_at ctx x p)) q"
    using Cons.IH [of ?o "?o + en_size c" "copy_at ?o t (copy_at ctx x p)" "en_size c"] Cons.prems le
    by auto
  have "within ctx ?e p (copy_at ctx x p)"
    by (rule within_copy) (use x le Cons.prems(2) in simp_all)
  moreover have "within ctx ?e (copy_at ctx x p) (copy_at ?o t (copy_at ctx x p))"
    by (rule within_copy) (use t le Cons.prems(2) in simp_all)
  moreover have "within ctx ?e (copy_at ?o t (copy_at ctx x p)) q"
    by (rule within_mono [OF q(2)]) (use le Cons.prems(2) in simp_all)
  ultimately have "within ctx ?e p q" by (blast intro: within_trans)
  then show ?case using x(2) t(2) q(1) by simp
qed

text \<open>The whole loop: the offset of the first context at \<open>slot\<close>, and a block from the end of the
  name to the end of the last context.\<close>

lemma create_contexts_block:
  assumes "\<forall>c \<in> set cs. enc_ok c \<and> 4 \<le> en_size c" and "slot + 4 \<le> off"
    and "end_off round8 off cs \<le> length p" and "cs \<noteq> []"
  shows "\<exists>t. length t = end_off round8 off cs - off \<and> create_contexts slot None off cs p =
    Some (copy_at off t (copy_at slot (le_bytes 4 (unat (of_nat (64 + round8 off) :: u32))) p))"
proof -
  obtain c ds where cs: "cs = c # ds" using assms(4) by (cases cs) auto
  let ?o = "round8 off"
  let ?e = "end_off round8 (?o + en_size c) ds"
  let ?p = "copy_at slot (le_bytes 4 (unat (of_nat (64 + ?o) :: u32))) p"
  have le: "off \<le> ?o" "?o + en_size c \<le> ?e" "?e \<le> length p"
    using assms(3) cs end_off_ge [of round8 "?o + en_size c" ds] round8_ge by simp_all
  obtain t where t: "length t = en_size c" "at_off ?o (en_encode c) ?p = Some (copy_at ?o t ?p)"
    using at_off_copy [of "en_size c" "en_encode c" ?o ?p] le assms(1) cs by (auto simp: enc_ok_def)
  obtain q where q: "create_contexts slot (Some (?o, en_size c)) (?o + en_size c) ds (copy_at ?o t ?p) = Some q"
    "within ?o ?e (copy_at ?o t ?p) q"
    using create_contexts_within [of ds ?o "?o + en_size c" "copy_at ?o t ?p" slot "en_size c"] assms(1) cs le
    by auto
  have "within off ?e ?p (copy_at ?o t ?p)"
    by (rule within_copy) (use t le in simp_all)
  then have "within off ?e ?p q"
    using within_mono [OF q(2), of off ?e] le by (blast intro: within_trans)
  then obtain u where "length u = ?e - off" "q = copy_at off u ?p"
    using within_block [of off ?e ?p q] le by auto
  moreover have "slot + 4 \<le> length p" using assms(2) le by simp
  ultimately show ?thesis
    using q(1) t(2) cs by (intro exI [of _ u]) (simp add: put32_def del: of_nat_add)
qed

section \<open>Header and body\<close>

text \<open>An encoded request on a cleared buffer: the header passes the check and reads back, the
  data behind it is the encoded body.\<close>

lemma request_reads:
  assumes "64 \<le> length p" and "window 20 4 p = le_bytes 4 0"
    and "seqw body (drop 64 p) = Some t" and "length t = length p - 64"
  shows "\<exists>pkt. request cmd h body p = Some pkt \<and> length pkt = length p \<and>
    PacketCodec_IsInvalid (of_bytes pkt) = Some False \<and>
    PacketCodec_Command (of_bytes pkt) = Some cmd \<and>
    PacketCodec_MessageId (of_bytes pkt) = Some (ph_MessageId h) \<and>
    PacketCodec_SessionId (of_bytes pkt) = Some (ph_SessionId h) \<and>
    PacketCodec_Data (of_bytes pkt) = Some (of_bytes t)"
proof -
  let ?h = "h\<lparr>ph_Command := cmd\<rparr>"
  obtain p' where e: "encodeHeader ?h p = Some p'" "length p' = length p" "drop 64 p' = drop 64 p"
    and w: "window 0 4 p' = MAGIC" "window 4 2 p' = le_bytes 2 64"
      "window 12 2 p' = le_bytes 2 (unat cmd)"
      "window 20 4 p' = window 20 4 p" "window 24 8 p' = le_bytes 8 (unat (ph_MessageId h))"
      "window 40 8 p' = le_bytes 8 (unat (ph_SessionId h))"
    using encodeHeader_windows [OF assms(1), of ?h] by auto
  let ?q = "take 64 p' @ t"
  have l: "length ?q = length p" using assms(1,4) e(2) by simp
  have win: "window a n ?q = window a n p'" if "a + n \<le> 64" for a n
    using that assms(1) e(2) by (simp add: window_def take_drop min_def)
  have r: "request cmd h body p = Some ?q"
    using assms(1,3) e by (simp add: request_def at_off_def)
  have d: "PacketCodec_Data (of_bytes ?q) = Some (of_bytes t)"
    using assms(1,4) e(2) by (simp add: PacketCodec_Data_def of_bytes_def)
  have k: "64 \<le> length ?q" using assms(1) l by simp
  have v: "window 0 4 ?q = MAGIC" "window 4 2 ?q = le_bytes 2 64" "window 12 2 ?q = le_bytes 2 (unat cmd)"
    "window 20 4 ?q = le_bytes 4 0" "window 24 8 ?q = le_bytes 8 (unat (ph_MessageId h))"
    "window 40 8 ?q = le_bytes 8 (unat (ph_SessionId h))"
    using w assms(2) by (simp_all add: win)
  show ?thesis using r l d valid_header [OF k v] by blast
qed

lemma request_delivered:
  assumes "64 \<le> n" and "\<exists>t. seqw body (replicate (n - 64) 0) = Some t \<and> length t = n - 64 \<and> P (of_bytes t)"
  shows "delivered (request cmd h body) n cmd h P"
proof -
  have z: "le_bytes k 0 = replicate k 0" for k by (induction k) simp_all
  have w: "window 20 4 (replicate n 0 :: bytes) = le_bytes 4 0"
    using assms(1) by (simp add: window_def z min_def)
  obtain t where t: "seqw body (replicate (n - 64) 0) = Some t" "length t = n - 64" "P (of_bytes t)"
    using assms(2) by blast
  have l: "64 \<le> length (replicate n 0 :: bytes)" using assms(1) by simp
  have d: "seqw body (drop 64 (replicate n 0)) = Some t" "length t = length (replicate n 0 :: bytes) - 64"
    using t by simp_all
  from request_reads [OF l w d, of cmd h] obtain pkt where
    "request cmd h body (replicate n 0) = Some pkt" "length pkt = n"
    "PacketCodec_IsInvalid (of_bytes pkt) = Some False" "PacketCodec_Command (of_bytes pkt) = Some cmd"
    "PacketCodec_MessageId (of_bytes pkt) = Some (ph_MessageId h)"
    "PacketCodec_SessionId (of_bytes pkt) = Some (ph_SessionId h)"
    "PacketCodec_Data (of_bytes pkt) = Some (of_bytes t)" by auto
  then show ?thesis using t(3) by (simp add: delivered_def)
qed

end
