(* ===== verification/RequestRoundtrips.thy ===== *)
theory RequestRoundtrips
  imports RequestLemmas
begin

text \<open>
  The round trip of each request: what the client encodes is delivered to the server's
  decoder, whose check accepts it and whose accessors return the request's fields.
\<close>

text \<open>The file id a decoder reads back: a nil pointer arrives as zeros.\<close>

definition fid_bytes :: "FileId option \<Rightarrow> bytes" where
  "fid_bytes f = (case f of None \<Rightarrow> replicate 16 0 | Some fd \<Rightarrow> fid_Persistent fd @ fid_Volatile fd)"

lemma length_fid_bytes [simp]: "fid_opt_ok f \<Longrightarrow> length (fid_bytes f) = 16"
  by (auto simp: fid_bytes_def fid_opt_ok_def fid_ok_def split: option.splits)

lemma put_fid: "fid_opt_ok f \<Longrightarrow> b = a + 16 \<Longrightarrow> b \<le> length p \<Longrightarrow>
    at_range a b (FileId_Encode f) p = Some (copy_at a (fid_bytes f) p)"
  by (rule at_range_put) (simp_all add: FileId_Encode_put fid_bytes_def [symmetric] window_def copy_at_def)

lemma put_exact: "b = a + length xs \<Longrightarrow> b \<le> length p \<Longrightarrow>
    at_range a b (copy_from 0 xs) p = Some (copy_at a xs p)"
  by (rule at_range_put) (simp_all add: copy_from_def window_def copy_at_def)

lemma put_string: "a + EncodedStringLen s \<le> length p \<Longrightarrow>
    at_off a (EncodeString s) p = Some (copy_at a (EncodeStringToBytes s) p)"
  by (simp add: at_off_def EncodeString_bytes length_EncodeStringToBytes copy_at_def add.commute)

lemma get_of_bytes:
  "a + 2 \<le> length t \<Longrightarrow> get16 a (of_bytes t) = Some (of_nat (le_nat (window a 2 t)))"
  "a + 4 \<le> length t \<Longrightarrow> get32 a (of_bytes t) = Some (of_nat (le_nat (window a 4 t)))"
  "a + 8 \<le> length t \<Longrightarrow> get64 a (of_bytes t) = Some (of_nat (le_nat (window a 8 t)))"
  "i < length t \<Longrightarrow> sidx i (of_bytes t) = Some (hd (window i 1 t))"
  "a \<le> b \<Longrightarrow> b \<le> length t \<Longrightarrow> ssub a b (of_bytes t) = Some (Slice (drop a t) (b - a))"
  "sbytes (Slice (drop a t) n) = window a n t"
  by (simp_all add: of_bytes_def get_eqs window_def hd_drop_conv_nth take_Suc)

lemma le_word:
  "(of_nat (le_nat (le_bytes 2 n)) :: u16) = of_nat n"
  "(of_nat (le_nat (le_bytes 4 n)) :: u32) = of_nat n"
  "(of_nat (le_nat (le_bytes 8 n)) :: u64) = of_nat n"
  by (simp_all add: le_nat_bytes word_of_nat_eq_iff take_bit_eq_mod)

lemma window_zeros: "a + n \<le> k \<Longrightarrow> window a n (replicate k (0 :: u8)) = le_bytes n 0"
proof -
  have "le_bytes n 0 = replicate n 0" by (induction n) simp_all
  then show "a + n \<le> k \<Longrightarrow> window a n (replicate k (0 :: u8)) = le_bytes n 0"
    by (simp add: window_def min_def)
qed

lemma slen_of_bytes [simp]: "slen (of_bytes t) = length t"
  by (simp add: of_bytes_def)

lemmas body_simps = puts copy_from_def put_fid put_exact put_string length_EncodeStringToBytes
  EncodeString_len_eq
lemmas read_simps = get_of_bytes windows le_word check_body_def

lemmas request_accessors =
  NegotiateRequestDecoder_StructureSize_def NegotiateRequestDecoder_DialectCount_def
  NegotiateRequestDecoder_SecurityMode_def NegotiateRequestDecoder_Capabilities_def
  NegotiateRequestDecoder_ClientGuid_def NegotiateRequestDecoder_ClientStartTime_def
  NegotiateRequestDecoder_NegotiateContextOffset_def
  NegotiateRequestDecoder_NegotiateContextCount_def NegotiateRequestDecoder_IsInvalid_def
  NegotiateRequestDecoder_Dialects_def NegotiateRequestDecoder_NegotiateContextList_def
  SessionSetupRequestDecoder_StructureSize_def SessionSetupRequestDecoder_Flags_def
  SessionSetupRequestDecoder_SecurityMode_def SessionSetupRequestDecoder_Capabilities_def
  SessionSetupRequestDecoder_Channel_def SessionSetupRequestDecoder_PreviousSessionId_def
  SessionSetupRequestDecoder_SecurityBufferOffset_def
  SessionSetupRequestDecoder_SecurityBufferLength_def SessionSetupRequestDecoder_IsInvalid_def
  SessionSetupRequestDecoder_SecurityBuffer_def LogoffRequestDecoder_StructureSize_def
  LogoffRequestDecoder_IsInvalid_def TreeConnectRequestDecoder_StructureSize_def
  TreeConnectRequestDecoder_Flags_def TreeConnectRequestDecoder_PathOffset_def
  TreeConnectRequestDecoder_PathLength_def TreeConnectRequestDecoder_IsInvalid_def
  TreeConnectRequestDecoder_Path_def TreeDisconnectRequestDecoder_StructureSize_def
  TreeDisconnectRequestDecoder_IsInvalid_def CreateRequestDecoder_StructureSize_def
  CreateRequestDecoder_SecurityFlags_def CreateRequestDecoder_RequestedOplockLevel_def
  CreateRequestDecoder_ImpersonationLevel_def CreateRequestDecoder_SmbCreateFlags_def
  CreateRequestDecoder_DesiredAccess_def CreateRequestDecoder_FileAttributes_def
  CreateRequestDecoder_ShareAccess_def CreateRequestDecoder_CreateDisposition_def
  CreateRequestDecoder_CreateOptions_def CreateRequestDecoder_NameOffset_def
  CreateRequestDecoder_NameLength_def CreateRequestDecoder_CreateContextsOffset_def
  CreateRequestDecoder_CreateContextsLength_def CreateRequestDecoder_IsInvalid_def
  CreateRequestDecoder_Name_def CreateRequestDecoder_CreateContexts_def
  CloseRequestDecoder_StructureSize_def CloseRequestDecoder_Flags_def
  CloseRequestDecoder_FileId_def CloseRequestDecoder_IsInvalid_def
  FlushRequestDecoder_StructureSize_def FlushRequestDecoder_FileId_def
  FlushRequestDecoder_IsInvalid_def ReadRequestDecoder_StructureSize_def
  ReadRequestDecoder_Padding_def ReadRequestDecoder_Flags_def ReadRequestDecoder_Length_def
  ReadRequestDecoder_Offset_def ReadRequestDecoder_FileId_def ReadRequestDecoder_MinimumCount_def
  ReadRequestDecoder_Channel_def ReadRequestDecoder_RemainingBytes_def
  ReadRequestDecoder_ReadChannelInfoOffset_def ReadRequestDecoder_ReadChannelInfoLength_def
  ReadRequestDecoder_IsInvalid_def WriteRequestDecoder_StructureSize_def
  WriteRequestDecoder_DataOffset_def WriteRequestDecoder_Length_def
  WriteRequestDecoder_Offset_def WriteRequestDecoder_FileId_def WriteRequestDecoder_Channel_def
  WriteRequestDecoder_RemainingBytes_def WriteRequestDecoder_WriteChannelInfoOffset_def
  WriteRequestDecoder_WriteChannelInfoLength_def WriteRequestDecoder_Flags_def
  WriteRequestDecoder_IsInvalid_def WriteRequestDecoder_Data_def
  CancelRequestDecoder_StructureSize_def CancelRequestDecoder_IsInvalid_def
  IoctlRequestDecoder_StructureSize_def IoctlRequestDecoder_CtlCode_def
  IoctlRequestDecoder_FileId_def IoctlRequestDecoder_InputOffset_def
  IoctlRequestDecoder_InputCount_def IoctlRequestDecoder_MaxInputResponse_def
  IoctlRequestDecoder_OutputOffset_def IoctlRequestDecoder_OutputCount_def
  IoctlRequestDecoder_MaxOutputResponse_def IoctlRequestDecoder_Flags_def
  IoctlRequestDecoder_Data_def IoctlRequestDecoder_IsInvalid_def
  QueryDirectoryRequestDecoder_StructureSize_def QueryDirectoryRequestDecoder_FileInfoClass_def
  QueryDirectoryRequestDecoder_Flags_def QueryDirectoryRequestDecoder_FileIndex_def
  QueryDirectoryRequestDecoder_FileId_def QueryDirectoryRequestDecoder_FileNameOffset_def
  QueryDirectoryRequestDecoder_FileNameLength_def
  QueryDirectoryRequestDecoder_OutputBufferLength_def QueryDirectoryRequestDecoder_IsInvalid_def
  QueryDirectoryRequestDecoder_FileName_def ChangeNotifyRequestDecoder_StructureSize_def
  ChangeNotifyRequestDecoder_Flags_def ChangeNotifyRequestDecoder_FileId_def
  ChangeNotifyRequestDecoder_OutputBufferLength_def
  ChangeNotifyRequestDecoder_CompletionFilter_def ChangeNotifyRequestDecoder_IsInvalid_def
  QueryInfoRequestDecoder_StructureSize_def QueryInfoRequestDecoder_InfoType_def
  QueryInfoRequestDecoder_FileInfoClass_def QueryInfoRequestDecoder_OutputBufferLength_def
  QueryInfoRequestDecoder_InputBufferOffset_def QueryInfoRequestDecoder_InputBufferLength_def
  QueryInfoRequestDecoder_AdditionalInformation_def QueryInfoRequestDecoder_Flags_def
  QueryInfoRequestDecoder_FileId_def QueryInfoRequestDecoder_IsInvalid_def
  SetInfoRequestDecoder_StructureSize_def SetInfoRequestDecoder_InfoType_def
  SetInfoRequestDecoder_FileInfoClass_def SetInfoRequestDecoder_BufferLength_def
  SetInfoRequestDecoder_BufferOffset_def SetInfoRequestDecoder_AdditionalInformation_def
  SetInfoRequestDecoder_FileId_def SetInfoRequestDecoder_Buffer_def
  SetInfoRequestDecoder_IsInvalid_def AAPLServerQueryRequestDecoder_CommandCode_def
  AAPLServerQueryRequestDecoder_RequestBitmap_def AAPLServerQueryRequestDecoder_ClientCaps_def
  LeaseRequestDecoder_LeaseState_def LeaseRequestDecoder_LeaseFlags_def
  LeaseRequestDecoder_LeaseDuration_def LeaseRequestDecoder_LeaseKey_def

text \<open>A field's sum with a length that leaves room for it does not wrap.\<close>

lemma nat_sum_fits:
  "unat a + k < 65536 \<Longrightarrow> unat (a + of_nat k :: u16) = unat a + k"
  "unat d + k < 4294967296 \<Longrightarrow> unat (d + of_nat k :: u32) = unat d + k"
proof -
  assume "unat a + k < 65536"
  then have "unat (of_nat (unat a + k) :: u16) = unat a + k"
    by (simp add: unsigned_of_nat take_bit_nat_eq_self del: of_nat_add)
  then show "unat (a + of_nat k :: u16) = unat a + k" by simp
next
  assume "unat d + k < 4294967296"
  then have "unat (of_nat (unat d + k) :: u32) = unat d + k"
    by (simp add: unsigned_of_nat take_bit_nat_eq_self del: of_nat_add)
  then show "unat (d + of_nat k :: u32) = unat d + k" by simp
qed

lemma int_sum_fits:
  "unat a + k < 65536 \<Longrightarrow> uint (a + of_nat k :: u16) = uint a + int k"
  "unat d + k < 4294967296 \<Longrightarrow> uint (d + of_nat k :: u32) = uint d + int k"
  by (metis nat_sum_fits of_nat_add uint_nat)+

lemmas sum_fits = nat_sum_fits int_sum_fits

lemma delivered_mono: "delivered e n c h P \<Longrightarrow> (\<And>r. P r \<Longrightarrow> Q r) \<Longrightarrow> delivered e n c h Q"
  by (auto simp: delivered_def split: option.splits)

text \<open>A file id and an encoder value for the witnesses.\<close>

definition demo_fid :: FileId where
  "demo_fid = \<lparr>fid_Persistent = le_bytes 8 3, fid_Volatile = le_bytes 8 9\<rparr>"

definition demo_cipher :: enc where
  "demo_cipher = (let c = \<lparr>cc_Ciphers = [2, 1]\<rparr>
     in \<lparr>en_size = CipherContext_Size c, en_encode = CipherContext_Encode c\<rparr>)"

lemma demo_fid_ok: "fid_opt_ok (Some demo_fid)"
  by (simp add: fid_opt_ok_def fid_ok_def demo_fid_def)

lemma demo_cipher_ok: "enc_ok demo_cipher \<and> en_size demo_cipher = 14"
proof -
  have "short (CipherContext_Size \<lparr>cc_Ciphers = [2, 1]\<rparr>)" by (simp add: short_def CipherContext_Size_def)
  from cipher.encode_fits [OF this] show ?thesis
    by (simp add: enc_ok_def demo_cipher_def Let_def CipherContext_Size_def)
qed

section \<open>Requests without encoder values\<close>

lemma CloseRequest_delivered:
  assumes "fid_opt_ok (cl_FileId c)"
  shows "delivered (CloseRequest_Encode c) (CloseRequest_Size c) SMB2_CLOSE (cl_Header c)
    (\<lambda>r. CloseRequestDecoder_IsInvalid r = Some False \<and>
         CloseRequestDecoder_Flags r = Some (cl_Flags c) \<and>
         map_option sbytes (CloseRequestDecoder_FileId r) = Some (fid_bytes (cl_FileId c)))"
  unfolding CloseRequest_Encode_def
  by (rule request_delivered)
    (use assms in \<open>simp_all add: CloseRequest_Size_def body_simps read_simps request_accessors
      del: sbytes.simps\<close>)

lemma FlushRequest_delivered:
  assumes "fid_opt_ok (fl_FileId c)"
  shows "delivered (FlushRequest_Encode c) (FlushRequest_Size c) SMB2_FLUSH (fl_Header c)
    (\<lambda>r. FlushRequestDecoder_IsInvalid r = Some False \<and>
         map_option sbytes (FlushRequestDecoder_FileId r) = Some (fid_bytes (fl_FileId c)))"
  unfolding FlushRequest_Encode_def
  by (rule request_delivered)
    (use assms in \<open>simp_all add: FlushRequest_Size_def body_simps read_simps request_accessors
      del: sbytes.simps\<close>)

lemma LogoffRequest_delivered:
  "delivered (LogoffRequest_Encode c) (LogoffRequest_Size c) SMB2_LOGOFF (lo_Header c)
    (\<lambda>r. LogoffRequestDecoder_IsInvalid r = Some False)"
  "delivered (TreeDisconnectRequest_Encode t) (TreeDisconnectRequest_Size t) SMB2_TREE_DISCONNECT
    (td_Header t) (\<lambda>r. TreeDisconnectRequestDecoder_IsInvalid r = Some False)"
  "delivered (CancelRequest_Encode a) (CancelRequest_Size a) SMB2_CANCEL (ca_Header a)
    (\<lambda>r. CancelRequestDecoder_IsInvalid r = Some False)"
  unfolding LogoffRequest_Encode_def TreeDisconnectRequest_Encode_def CancelRequest_Encode_def
  by (rule request_delivered; simp add: LogoffRequest_Size_def TreeDisconnectRequest_Size_def
      CancelRequest_Size_def body_simps read_simps request_accessors)+

text \<open>C24. SESSION_SETUP round trip: what the client's encoder writes into a buffer of the
  request's size carries a header the server's check accepts, with the SESSION_SETUP command and
  the request's message and session ids, and a body the decoder accepts and reads back field by
  field, the security buffer included, as long as the buffer leaves room for its offset in 16
  bits.\<close>

theorem SessionSetupRequest_delivered:
  assumes "length (ss_SecurityBuffer c) < 65536 - 88"
  shows "delivered (SessionSetupRequest_Encode c) (SessionSetupRequest_Size c) SMB2_SESSION_SETUP (ss_Header c)
    (\<lambda>r. SessionSetupRequestDecoder_IsInvalid r = Some False \<and>
         SessionSetupRequestDecoder_Flags r = Some (ss_Flags c) \<and>
         SessionSetupRequestDecoder_SecurityMode r = Some (ss_SecurityMode c) \<and>
         SessionSetupRequestDecoder_Capabilities r = Some (ss_Capabilities c) \<and>
         SessionSetupRequestDecoder_Channel r = Some (ss_Channel c) \<and>
         SessionSetupRequestDecoder_PreviousSessionId r = Some (ss_PreviousSessionId c) \<and>
         map_option sbytes (SessionSetupRequestDecoder_SecurityBuffer r) = Some (ss_SecurityBuffer c))"
proof -
  let ?n = "SessionSetupRequest_Size c"
  have n: "88 + length (ss_SecurityBuffer c) \<le> ?n" by (simp add: SessionSetupRequest_Size_def)
  then have k: "24 + length (ss_SecurityBuffer c) \<le> ?n - 64" by simp
  show ?thesis
    unfolding SessionSetupRequest_Encode_def
    by (rule request_delivered)
      (use assms n k in \<open>simp_all add: body_simps read_simps request_accessors sub16_def sum_fits
        del: sbytes.simps\<close>)
qed

definition demo_setup :: SessionSetupRequest where
  "demo_setup = \<lparr>ss_Header = demo_header, ss_Flags = 0, ss_SecurityMode = 1, ss_Capabilities = 0,
     ss_Channel = 0, ss_SecurityBuffer = [0x4E, 0x54, 0x4C, 0x4D], ss_PreviousSessionId = 5\<rparr>"

lemma SessionSetupRequest_delivered_witness:
  "delivered (SessionSetupRequest_Encode demo_setup) (SessionSetupRequest_Size demo_setup)
     SMB2_SESSION_SETUP (ss_Header demo_setup)
     (\<lambda>r. map_option sbytes (SessionSetupRequestDecoder_SecurityBuffer r) = Some [0x4E, 0x54, 0x4C, 0x4D])"
  by (rule delivered_mono [OF SessionSetupRequest_delivered]) (simp_all add: demo_setup_def)

text \<open>TREE_CONNECT round trip: a share path of valid runes that does not end in NUL
  arrives as it was sent, whatever its characters take in UTF-16.\<close>

theorem TreeConnectRequest_delivered:
  assumes "\<forall>r \<in> set (tc_Path c). valid_rune r" and "tc_Path c = [] \<or> last (tc_Path c) \<noteq> 0"
    and "EncodedStringLen (tc_Path c) < 65536 - 72"
  shows "delivered (TreeConnectRequest_Encode c) (TreeConnectRequest_Size c) SMB2_TREE_CONNECT (tc_Header c)
    (\<lambda>r. TreeConnectRequestDecoder_IsInvalid r = Some False \<and>
         TreeConnectRequestDecoder_Flags r = Some (tc_Flags c) \<and>
         TreeConnectRequestDecoder_Path r = Some (tc_Path c))"
proof -
  let ?n = "TreeConnectRequest_Size c"
  have n: "72 + EncodedStringLen (tc_Path c) \<le> ?n" by (simp add: TreeConnectRequest_Size_def EncodedStringLen_def)
  then have k: "8 + EncodedStringLen (tc_Path c) \<le> ?n - 64" by simp
  show ?thesis
    unfolding TreeConnectRequest_Encode_def
    by (rule request_delivered)
      (use assms n k in \<open>simp_all add: body_simps read_simps request_accessors sub16_def sum_fits
        DecodeToString_EncodeStringToBytes del: sbytes.simps\<close>)
qed

definition demo_connect :: TreeConnectRequest where
  "demo_connect = \<lparr>tc_Header = demo_header, tc_Flags = 0, tc_Path = [0x5C, 0x5C, 0x68, 0x5C, 0x1F600]\<rparr>"

lemma TreeConnectRequest_delivered_witness:
  "delivered (TreeConnectRequest_Encode demo_connect) (TreeConnectRequest_Size demo_connect)
     SMB2_TREE_CONNECT (tc_Header demo_connect)
     (\<lambda>r. TreeConnectRequestDecoder_Path r = Some [0x5C, 0x5C, 0x68, 0x5C, 0x1F600])"
  by (rule delivered_mono [OF TreeConnectRequest_delivered])
    (simp_all add: demo_connect_def valid_rune_def is_surrogate_def EncodedStringLen_def)

text \<open>QUERY_DIRECTORY round trip: the search pattern, the file id and the
  flags a client sends are what the server's decoder returns.\<close>

theorem QueryDirectoryRequest_delivered:
  assumes "\<forall>r \<in> set (qd_FileName c). valid_rune r" and "qd_FileName c = [] \<or> last (qd_FileName c) \<noteq> 0"
    and "EncodedStringLen (qd_FileName c) < 65536 - 96" and "fid_opt_ok (qd_FileId c)"
  shows "delivered (QueryDirectoryRequest_Encode c) (QueryDirectoryRequest_Size c) SMB2_QUERY_DIRECTORY
      (qd_Header c)
    (\<lambda>r. QueryDirectoryRequestDecoder_IsInvalid r = Some False \<and>
         QueryDirectoryRequestDecoder_FileInfoClass r = Some (qd_FileInfoClass c) \<and>
         QueryDirectoryRequestDecoder_Flags r = Some (qd_Flags c) \<and>
         QueryDirectoryRequestDecoder_FileIndex r = Some (qd_FileIndex c) \<and>
         QueryDirectoryRequestDecoder_OutputBufferLength r = Some (qd_OutputBufferLength c) \<and>
         map_option sbytes (QueryDirectoryRequestDecoder_FileId r) = Some (fid_bytes (qd_FileId c)) \<and>
         QueryDirectoryRequestDecoder_FileName r = Some (qd_FileName c))"
proof -
  let ?n = "QueryDirectoryRequest_Size c"
  have n: "96 + EncodedStringLen (qd_FileName c) \<le> ?n"
    by (simp add: QueryDirectoryRequest_Size_def EncodedStringLen_def)
  then have k: "32 + EncodedStringLen (qd_FileName c) \<le> ?n - 64" by simp
  show ?thesis
    unfolding QueryDirectoryRequest_Encode_def
    by (rule request_delivered)
      (use assms n k in \<open>simp_all add: body_simps read_simps request_accessors sub16_def sum_fits
        DecodeToString_EncodeStringToBytes del: sbytes.simps\<close>)
qed

definition demo_query :: QueryDirectoryRequest where
  "demo_query = \<lparr>qd_Header = demo_header, qd_FileInfoClass = 37, qd_Flags = 1, qd_FileIndex = 0,
     qd_FileId = Some demo_fid, qd_OutputBufferLength = 65536, qd_FileName = [0x2A]\<rparr>"

lemma QueryDirectoryRequest_delivered_witness:
  "delivered (QueryDirectoryRequest_Encode demo_query) (QueryDirectoryRequest_Size demo_query)
     SMB2_QUERY_DIRECTORY (qd_Header demo_query)
     (\<lambda>r. QueryDirectoryRequestDecoder_FileName r = Some [0x2A])"
  by (rule delivered_mono [OF QueryDirectoryRequest_delivered])
    (simp_all add: demo_query_def valid_rune_def is_surrogate_def EncodedStringLen_def demo_fid_ok)

section \<open>Requests with encoder values\<close>

text \<open>What a step that writes \<open>k\<close> bytes at \<open>a\<close> puts there.\<close>

definition blk :: "nat \<Rightarrow> nat \<Rightarrow> (bytes \<Rightarrow> bytes option) \<Rightarrow> bytes \<Rightarrow> bytes" where
  "blk a k w p = (case w p of Some q \<Rightarrow> take k (window a k q @ replicate k 0) | None \<Rightarrow> replicate k 0)"

lemma length_blk [simp]: "length (blk a k w p) = k"
  by (cases "w p") (simp_all add: blk_def min_def)

lemma blkI:
  "\<exists>t. length t = k \<and> w p = Some (copy_at a t p) \<Longrightarrow> a + k \<le> length p \<Longrightarrow> w p = Some (copy_at a (blk a k w p) p)"
  by (auto simp: blk_def windows)

lemma at_off_blk:
  "enc_ok c \<Longrightarrow> off + en_size c \<le> length p \<Longrightarrow>
   at_off off (en_encode c) p = Some (copy_at off (blk off (en_size c) (at_off off (en_encode c)) p) p)"
  by (rule blkI) (simp_all add: at_off_copy enc_ok_def)

lemma encode_all_blk:
  assumes "\<And>x. x \<le> al x" and "\<forall>c \<in> set cs. enc_ok c" and "end_off al off cs \<le> length p"
  shows "encode_all al off cs p = Some (copy_at off (blk off (end_off al off cs - off) (encode_all al off cs) p) p)"
  using encode_all_copy [OF assms] end_off_ge [of al off cs, OF assms(1)] assms(3) by (intro blkI) simp_all

lemmas encode_all_blks = encode_all_blk [of id, simplified] encode_all_blk [of round8, OF round8_ge]

lemma IoctlRequest_delivered:
  assumes "fid_opt_ok (io_FileId c)"
    and "case io_Input c of None \<Rightarrow> True | Some i \<Rightarrow> enc_ok i \<and> en_size i < 4294967296 - 120"
  shows "delivered (IoctlRequest_Encode c) (IoctlRequest_Size c) SMB2_IOCTL (io_Header c)
    (\<lambda>r. IoctlRequestDecoder_IsInvalid r = Some False \<and>
         IoctlRequestDecoder_CtlCode r = Some (io_CtlCode c) \<and>
         IoctlRequestDecoder_InputCount r =
           Some (case io_Input c of None \<Rightarrow> 0 | Some i \<Rightarrow> of_nat (en_size i)) \<and>
         IoctlRequestDecoder_OutputOffset r = Some (io_OutputOffset c) \<and>
         IoctlRequestDecoder_OutputCount r = Some (io_OutputCount c) \<and>
         IoctlRequestDecoder_MaxInputResponse r = Some (io_MaxInputResponse c) \<and>
         IoctlRequestDecoder_MaxOutputResponse r = Some (io_MaxOutputResponse c) \<and>
         IoctlRequestDecoder_Flags r = Some (io_Flags c) \<and>
         map_option sbytes (IoctlRequestDecoder_FileId r) = Some (fid_bytes (io_FileId c)))"
proof (cases "io_Input c")
  case None
  then show ?thesis
    unfolding IoctlRequest_Encode_def
    by (intro request_delivered)
      (use assms in \<open>simp_all add: IoctlRequest_Size_def body_simps read_simps request_accessors window_zeros
        del: sbytes.simps\<close>)
next
  case (Some i)
  then show ?thesis
    unfolding IoctlRequest_Encode_def
    by (intro request_delivered)
      (use assms in \<open>simp_all add: IoctlRequest_Size_def body_simps read_simps request_accessors sum_fits
        at_off_blk del: sbytes.simps\<close>)
qed

lemma InfoRequests_delivered:
  assumes "fid_opt_ok (qi_FileId q)"
    and "case qi_Input q of None \<Rightarrow> True | Some i \<Rightarrow> enc_ok i \<and> en_size i < 4294967296 - 104"
  shows "delivered (QueryInfoRequest_Encode q) (QueryInfoRequest_Size q) SMB2_QUERY_INFO (qi_Header q)
    (\<lambda>r. QueryInfoRequestDecoder_IsInvalid r = Some False \<and>
         QueryInfoRequestDecoder_InfoType r = Some (qi_InfoType q) \<and>
         QueryInfoRequestDecoder_FileInfoClass r = Some (qi_FileInfoClass q) \<and>
         QueryInfoRequestDecoder_OutputBufferLength r = Some (qi_OutputBufferLength q) \<and>
         QueryInfoRequestDecoder_AdditionalInformation r = Some (qi_AdditionalInformation q) \<and>
         QueryInfoRequestDecoder_Flags r = Some (qi_Flags q) \<and>
         map_option sbytes (QueryInfoRequestDecoder_FileId r) = Some (fid_bytes (qi_FileId q)))"
proof (cases "qi_Input q")
  case None
  then show ?thesis
    unfolding QueryInfoRequest_Encode_def
    by (intro request_delivered)
      (use assms in \<open>simp_all add: QueryInfoRequest_Size_def body_simps read_simps request_accessors
        window_zeros del: sbytes.simps\<close>)
next
  case (Some i)
  then show ?thesis
    unfolding QueryInfoRequest_Encode_def
    by (intro request_delivered)
      (use assms in \<open>simp_all add: QueryInfoRequest_Size_def body_simps read_simps request_accessors sum_fits
        at_off_blk del: sbytes.simps\<close>)
qed

lemma SetInfoRequest_delivered:
  assumes "fid_opt_ok (si_FileId c)"
    and "case si_Input c of None \<Rightarrow> True | Some i \<Rightarrow> enc_ok i \<and> en_size i < 4294967296 - 96"
  shows "delivered (SetInfoRequest_Encode c) (SetInfoRequest_Size c) SMB2_SET_INFO (si_Header c)
    (\<lambda>r. SetInfoRequestDecoder_IsInvalid r = Some False \<and>
         SetInfoRequestDecoder_InfoType r = Some (si_InfoType c) \<and>
         SetInfoRequestDecoder_FileInfoClass r = Some (si_FileInfoClass c) \<and>
         SetInfoRequestDecoder_AdditionalInformation r = Some (si_AdditionalInformation c) \<and>
         map_option sbytes (SetInfoRequestDecoder_FileId r) = Some (fid_bytes (si_FileId c)))"
proof (cases "si_Input c")
  case None
  then show ?thesis
    unfolding SetInfoRequest_Encode_def
    by (intro request_delivered)
      (use assms in \<open>simp_all add: SetInfoRequest_Size_def body_simps read_simps request_accessors
        window_zeros del: sbytes.simps\<close>)
next
  case (Some i)
  then show ?thesis
    unfolding SetInfoRequest_Encode_def
    by (intro request_delivered)
      (use assms in \<open>simp_all add: SetInfoRequest_Size_def body_simps read_simps request_accessors sum_fits
        at_off_blk del: sbytes.simps\<close>)
qed

lemma end_off_112: "end_off id 112 cs = 64 + end_off id 48 cs"
  using end_off_id_shift [of 64 48 cs] by simp

text \<open>The check on a READ forgets to subtract the header from the channel information's offset.\<close>

text \<open>C25. READ round trip, and what the missing header length in its check does: the
  fields read back, and the server's check accepts the request exactly when it carries no
  channel information.\<close>

theorem ReadRequest_delivered:
  assumes "fid_opt_ok (rd_FileId c)" and "\<forall>i \<in> set (rd_ReadChannelInfo c). enc_ok i"
    and "end_off id 48 (rd_ReadChannelInfo c) < 65536 - 64"
  shows "delivered (ReadRequest_Encode c) (ReadRequest_Size c) SMB2_READ (rd_Header c)
    (\<lambda>r. ReadRequestDecoder_IsInvalid r = Some (rd_ReadChannelInfo c \<noteq> []) \<and>
         ReadRequestDecoder_Padding r = Some (rd_Padding c) \<and>
         ReadRequestDecoder_Flags r = Some (rd_Flags c) \<and>
         ReadRequestDecoder_Length r = Some (rd_Length c) \<and>
         ReadRequestDecoder_Offset r = Some (rd_Offset c) \<and>
         ReadRequestDecoder_MinimumCount r = Some (rd_MinimumCount c) \<and>
         ReadRequestDecoder_Channel r = Some (rd_Channel c) \<and>
         ReadRequestDecoder_RemainingBytes r = Some (rd_RemainingBytes c) \<and>
         map_option sbytes (ReadRequestDecoder_FileId r) = Some (fid_bytes (rd_FileId c)))"
proof (cases "rd_ReadChannelInfo c = []")
  case True
  then show ?thesis
    unfolding ReadRequest_Encode_def
    by (intro request_delivered)
      (use assms in \<open>simp_all add: ReadRequest_Size_def body_simps read_simps request_accessors
        window_zeros del: sbytes.simps\<close>)
next
  case False
  let ?e = "end_off id 48 (rd_ReadChannelInfo c)"
  have e: "48 \<le> ?e" by (rule end_off_ge) simp
  from False show ?thesis
    unfolding ReadRequest_Encode_def
    by (intro request_delivered)
      (use assms e in \<open>simp_all add: ReadRequest_Size_def end_off_112 body_simps read_simps request_accessors
        sum_fits encode_all_blks del: sbytes.simps\<close>)
qed

definition demo_read :: ReadRequest where
  "demo_read = \<lparr>rd_Header = demo_header, rd_Padding = 0x50, rd_Flags = 0, rd_Length = 4096, rd_Offset = 8192,
     rd_FileId = Some demo_fid, rd_MinimumCount = 0, rd_Channel = 0, rd_RemainingBytes = 0,
     rd_ReadChannelInfo = [demo_cipher]\<rparr>"

lemma ReadRequest_delivered_witness:
  "delivered (ReadRequest_Encode demo_read) (ReadRequest_Size demo_read) SMB2_READ (rd_Header demo_read)
     (\<lambda>r. ReadRequestDecoder_IsInvalid r = Some True \<and> ReadRequestDecoder_Offset r = Some 8192)"
  by (rule delivered_mono [OF ReadRequest_delivered])
    (simp_all add: demo_read_def demo_fid_ok demo_cipher_ok)

lemma data_end:
  assumes "e < 65536 - 64" and "e + n < 4294967296 - 64"
  shows "uint (ucast (64 + of_nat e :: u16) + of_nat n :: u32) = 64 + int e + int n"
proof -
  have "unat (64 + of_nat e :: u16) = 64 + e" using assms(1) by (simp add: sum_fits)
  then have u: "unat (ucast (64 + of_nat e :: u16) :: u32) = 64 + e"
    using assms(1) by (simp add: unsigned_ucast_eq take_bit_nat_eq_self)
  then have "uint (ucast (64 + of_nat e :: u16) + of_nat n :: u32) =
      uint (ucast (64 + of_nat e :: u16) :: u32) + int n"
    using assms by (intro int_sum_fits) simp
  with u show ?thesis by (metis (mono_tags, lifting) of_nat_add of_nat_numeral uint_nat)
qed

text \<open>The data of a WRITE is read at the fixed offset 48: with channel information in front
  of it, \<open>Data\<close> is not the data.\<close>

text \<open>C26. WRITE round trip: the server's check accepts what the client encodes and the
  fields read back; without channel information the data does too (the decoder reads it at a
  fixed offset and ignores \<open>DataOffset\<close>).\<close>

theorem WriteRequest_delivered:
  assumes "fid_opt_ok (wr_FileId c)" and "\<forall>i \<in> set (wr_WriteChannelInfo c). enc_ok i"
    and "end_off id 48 (wr_WriteChannelInfo c) < 65536 - 64"
    and "end_off id 48 (wr_WriteChannelInfo c) + length (wr_Data c) < 4294967296 - 64"
  shows "delivered (WriteRequest_Encode c) (WriteRequest_Size c) SMB2_WRITE (wr_Header c)
    (\<lambda>r. WriteRequestDecoder_IsInvalid r = Some False \<and>
         WriteRequestDecoder_Offset r = Some (wr_Offset c) \<and>
         WriteRequestDecoder_Length r = Some (of_nat (length (wr_Data c))) \<and>
         WriteRequestDecoder_Channel r = Some (wr_Channel c) \<and>
         WriteRequestDecoder_RemainingBytes r = Some (wr_RemainingBytes c) \<and>
         WriteRequestDecoder_Flags r = Some (wr_Flags c) \<and>
         map_option sbytes (WriteRequestDecoder_FileId r) = Some (fid_bytes (wr_FileId c)) \<and>
         (wr_WriteChannelInfo c = [] \<longrightarrow> map_option sbytes (WriteRequestDecoder_Data r) = Some (wr_Data c)))"
proof (cases "wr_WriteChannelInfo c = []")
  case True
  let ?n = "WriteRequest_Size c"
  have n: "112 + length (wr_Data c) \<le> ?n" using True by (simp add: WriteRequest_Size_def)
  then have k: "48 + length (wr_Data c) \<le> ?n - 64" by simp
  from True show ?thesis
    unfolding WriteRequest_Encode_def Let_def
    by (intro request_delivered)
      (use assms n k in \<open>simp_all add: body_simps read_simps request_accessors sub32_def sum_fits
        window_zeros del: sbytes.simps\<close>)
next
  case False
  let ?e = "end_off id 48 (wr_WriteChannelInfo c)"
  have e: "48 \<le> ?e" by (rule end_off_ge) simp
  have d: "uint (ucast (64 + of_nat ?e :: u16) + of_nat (length (wr_Data c)) :: u32) =
      64 + int ?e + int (length (wr_Data c))"
    by (rule data_end) (use assms in simp_all)
  from False show ?thesis
    unfolding WriteRequest_Encode_def Let_def
    by (intro request_delivered)
      (use assms e d in \<open>simp_all add: WriteRequest_Size_def end_off_112 body_simps read_simps request_accessors
        sum_fits encode_all_blks del: sbytes.simps\<close>)
qed

definition demo_write :: WriteRequest where
  "demo_write = \<lparr>wr_Header = demo_header, wr_FileId = Some demo_fid, wr_Flags = 0, wr_Channel = 0,
     wr_RemainingBytes = 0, wr_Offset = 512, wr_WriteChannelInfo = [], wr_Data = [1, 2, 3]\<rparr>"

lemma WriteRequest_delivered_witness:
  "delivered (WriteRequest_Encode demo_write) (WriteRequest_Size demo_write) SMB2_WRITE (wr_Header demo_write)
     (\<lambda>r. WriteRequestDecoder_IsInvalid r = Some False \<and>
          map_option sbytes (WriteRequestDecoder_Data r) = Some [1, 2, 3])"
  by (rule delivered_mono [OF WriteRequest_delivered]) (simp_all add: demo_write_def demo_fid_ok)

lemma those_map_Some: "those (map Some xs) = Some xs"
  by (induction xs) simp_all

text \<open>A series of 16-bit values reads back.\<close>

lemma length_words: "length (concat (map (\<lambda>w. le_bytes 2 (unat w)) ws)) = 2 * length ws"
  by (induction ws) simp_all

lemma window_words:
  "i < length ws \<Longrightarrow> window (2 * i) 2 (concat (map (\<lambda>w. le_bytes 2 (unat w)) ws)) = le_bytes 2 (unat (ws ! i))"
proof (induction ws arbitrary: i)
  case (Cons w ws)
  show ?case
  proof (cases i)
    case (Suc j)
    have "drop (2 * Suc j) (le_bytes 2 (unat w) @ concat (map (\<lambda>w. le_bytes 2 (unat w)) ws))
      = drop (2 * j) (concat (map (\<lambda>w. le_bytes 2 (unat w)) ws))" by simp
    with Cons Suc show ?thesis by (simp add: window_def)
  qed (simp add: window_def)
qed simp

lemma read_words:
  assumes "window a (2 * length ws) t = concat (map (\<lambda>w :: u16. le_bytes 2 (unat w)) ws)"
  shows "those (map (\<lambda>i. get16 (2 * i) (Slice (drop a t) n)) [0..<length ws]) = Some ws"
proof -
  have l: "2 * length ws \<le> length t - a"
    using arg_cong [OF assms, of length] by (simp add: length_words window_def)
  have "get16 (2 * i) (Slice (drop a t) n) = Some (ws ! i)" if i: "i < length ws" for i
  proof -
    have "window (2 * i) 2 (drop a t) = window (2 * i) 2 (window a (2 * length ws) t)"
      using i by (simp add: window_def drop_take min_def)
    also have "\<dots> = le_bytes 2 (unat (ws ! i))" using window_words [OF i] assms by simp
    finally show ?thesis using i l by (simp add: get_eqs le_word)
  qed
  then have "map (\<lambda>i. get16 (2 * i) (Slice (drop a t) n)) [0..<length ws] = map Some ws"
    by (intro nth_equalityI) simp_all
  then show ?thesis by (simp add: those_map_Some)
qed

lemma put_words_at:
  assumes "a + 2 * length ws \<le> length p"
  shows "at_off a (put_words 0 ws) p = Some (copy_at a (concat (map (\<lambda>w. le_bytes 2 (unat w)) ws)) p)"
proof -
  let ?c = "concat (map (\<lambda>w. le_bytes 2 (unat w)) ws)"
  have "put_words 0 ws (drop a p) = Some (copy_at 0 ?c (drop a p))"
    using seqw_series [of "\<lambda>w :: u16. le_bytes 2 (unat w)" 2 0 0 ws "drop a p"] assms
    by (simp add: put_words_def)
  moreover have "take a p @ copy_at 0 ?c (drop a p) = copy_at a ?c p"
    by (simp add: copy_at_def add.commute)
  ultimately show ?thesis using assms by (simp add: at_off_def)
qed

lemma align8_word: "n mod 8 = 0 \<Longrightarrow> (of_nat n :: u32) AND 7 = 0"
proof -
  assume "n mod 8 = 0"
  then have "take_bit 3 n = 0" by (simp add: take_bit_eq_mod)
  then have t: "take_bit 3 (of_nat n :: u32) = 0" by (simp add: take_bit_of_nat)
  have "(mask 3 :: u32) = 7" by (simp add: mask_eq_exp_minus_1)
  then show ?thesis using t by (metis take_bit_eq_mask)
qed

lemma uint_plus_64: "r < 4294967296 - 64 \<Longrightarrow> uint (of_nat r + 64 :: u32) = int r + 64"
proof -
  assume "r < 4294967296 - 64"
  then have "uint (64 + of_nat r :: u32) = uint (64 :: u32) + int r" by (intro int_sum_fits) simp
  then show ?thesis by (simp add: add.commute [of _ 64])
qed

text \<open>The check on a NEGOTIATE subtracts 36, not 64, from the offset of the contexts: contexts of
  fewer than 28 bytes make it reject the request.\<close>

text \<open>C27. NEGOTIATE round trip: dialects, client GUID and security mode read back, and the
  check accepts the request unless its contexts end before byte 28 from the start of the first
  one.\<close>

theorem NegotiateRequest_delivered:
  assumes "length (ng_ClientGuid c) = 16" and "\<forall>i \<in> set (ng_Contexts c). enc_ok i"
    and "36 + 2 * length (ng_Dialects c) < 65536"
    and "end_off round8 (36 + 2 * length (ng_Dialects c)) (ng_Contexts c) < 4294967296 - 64"
  shows "delivered (NegotiateRequest_Encode c) (NegotiateRequest_Size c) SMB2_NEGOTIATE (ng_Header c)
    (\<lambda>r. NegotiateRequestDecoder_IsInvalid r = Some (ng_Contexts c \<noteq> [] \<and>
           NegotiateRequest_Size c < 64 + round8 (36 + 2 * length (ng_Dialects c)) + 28) \<and>
         NegotiateRequestDecoder_SecurityMode r = Some (ng_SecurityMode c) \<and>
         NegotiateRequestDecoder_Capabilities r = Some (ng_Capabilities c) \<and>
         map_option sbytes (NegotiateRequestDecoder_ClientGuid r) = Some (ng_ClientGuid c) \<and>
         NegotiateRequestDecoder_Dialects r = Some (ng_Dialects c) \<and>
         NegotiateRequestDecoder_NegotiateContextCount r = Some (of_nat (length (ng_Contexts c))))"
proof -
  let ?o = "36 + 2 * length (ng_Dialects c)"
  let ?e = "end_off round8 ?o (ng_Contexts c)"
  have e: "?o \<le> ?e" by (rule end_off_ge) (rule round8_ge)
  have n: "NegotiateRequest_Size c = 64 + ?e" by (simp add: NegotiateRequest_Size_def mult.commute)
  have d: "unat (36 + 2 * of_nat (length (ng_Dialects c)) :: u16) = ?o"
    using nat_sum_fits(1) [of 36 "2 * length (ng_Dialects c)"] assms(3) by simp
  have z: "window 28 4 (replicate ?e (0 :: u8)) = le_bytes 4 0"
    by (rule window_zeros) (use e in simp)
  show ?thesis
  proof (cases "ng_Contexts c = []")
    case True
    then show ?thesis
      unfolding NegotiateRequest_Encode_def Let_def mult.commute [of _ 2]
      by (intro request_delivered)
        (use assms e z in \<open>simp_all add: n body_simps read_simps request_accessors d
          put_words_at length_words read_words del: sbytes.simps\<close>)
  next
    case False
    then obtain i ds where ds: "ng_Contexts c = i # ds" by (cases "ng_Contexts c") auto
    have r: "round8 ?o \<le> ?e"
      using end_off_ge [of round8 "round8 ?o + en_size i" ds, OF round8_ge] ds by simp
    have m: "(round8 ?o + 64) mod 8 = 0" using round8_mod [of ?o] by presburger
    have a: "(of_nat (round8 ?o) + 64 :: u32) AND 7 = 0" using align8_word [OF m] by simp
    have u: "uint (of_nat (round8 ?o) + 64 :: u32) = int (round8 ?o) + 64"
      by (rule uint_plus_64) (use r assms(4) in simp)
    from False show ?thesis
      unfolding NegotiateRequest_Encode_def Let_def mult.commute [of _ 2]
      by (intro request_delivered)
        (use assms e r in \<open>simp_all add: n body_simps read_simps request_accessors d a u encode_all_blks
          put_words_at length_words read_words del: sbytes.simps, linarith?\<close>)
  qed
qed

definition demo_negotiate :: NegotiateRequest where
  "demo_negotiate = \<lparr>ng_Header = demo_header, ng_SecurityMode = 1, ng_Capabilities = 0,
     ng_ClientGuid = replicate 16 7, ng_Dialects = [0x202, 0x311], ng_Contexts = [demo_cipher]\<rparr>"

lemma NegotiateRequest_delivered_witness:
  "delivered (NegotiateRequest_Encode demo_negotiate) (NegotiateRequest_Size demo_negotiate)
     SMB2_NEGOTIATE (ng_Header demo_negotiate)
     (\<lambda>r. NegotiateRequestDecoder_IsInvalid r = Some True \<and>
          NegotiateRequestDecoder_Dialects r = Some [0x202, 0x311])"
  by (rule delivered_mono [OF NegotiateRequest_delivered])
    (simp_all add: demo_negotiate_def demo_cipher_ok NegotiateRequest_Size_def round8_eq)

text \<open>CREATE: the length of the contexts counts the padding in front of the first one, so the
  check rejects a request with contexts unless its name ends on a multiple of eight bytes.\<close>

definition ctx_blk :: "nat \<Rightarrow> nat \<Rightarrow> enc list \<Rightarrow> bytes \<Rightarrow> bytes" where
  "ctx_blk slot off cs p = blk off (end_off round8 off cs - off) (create_contexts slot None off cs) p"

lemma create_contexts_blk:
  assumes "\<forall>c \<in> set cs. enc_ok c \<and> 4 \<le> en_size c" and "slot + 4 \<le> off"
    and "end_off round8 off cs \<le> length p" and "cs \<noteq> []"
  shows "create_contexts slot None off cs p = Some (copy_at off (ctx_blk slot off cs p)
    (copy_at slot (le_bytes 4 (unat (of_nat (64 + round8 off) :: u32))) p))"
proof -
  obtain t where t: "length t = end_off round8 off cs - off" "create_contexts slot None off cs p =
      Some (copy_at off t (copy_at slot (le_bytes 4 (unat (of_nat (64 + round8 off) :: u32))) p))"
    using create_contexts_block [OF assms] by blast
  have "off \<le> end_off round8 off cs" by (rule end_off_ge) (rule round8_ge)
  then have "ctx_blk slot off cs p = t"
    using t assms(3) by (simp add: ctx_blk_def blk_def windows del: of_nat_add)
  with t show ?thesis by simp
qed

lemma length_ctx_blk [simp]: "length (ctx_blk slot off cs p) = end_off round8 off cs - off"
  by (simp add: ctx_blk_def)

lemma uint_plus_two:
  assumes "r + k < 4294967296 - 64"
  shows "uint (64 + of_nat r + of_nat k :: u32) = 64 + int r + int k"
proof -
  have "uint (64 + of_nat (r + k) :: u32) = uint (64 :: u32) + int (r + k)"
    by (rule int_sum_fits) (use assms in simp)
  then show ?thesis by (simp add: add.assoc)
qed

lemma end_off_120: "end_off round8 (120 + n) cs = 64 + end_off round8 (56 + n) cs"
  using end_off_shift [of "56 + n" cs] by simp

lemma EncodedStringLen_Nil [simp]: "EncodedStringLen [] = 0"
  by (simp add: EncodedStringLen_def)

text \<open>C28. CREATE round trip: the file name, the access mask, the disposition and the
  options a client sends are what the server's decoder returns; the check accepts the request
  unless it has contexts and its name ends off an eight-byte boundary.\<close>

theorem CreateRequest_delivered:
  assumes "\<forall>r \<in> set (cr_Name c). valid_rune r" and "cr_Name c = [] \<or> last (cr_Name c) \<noteq> 0"
    and "EncodedStringLen (cr_Name c) < 65536 - 120"
    and "\<forall>i \<in> set (cr_Contexts c). enc_ok i \<and> 4 \<le> en_size i"
    and "end_off round8 (56 + EncodedStringLen (cr_Name c)) (cr_Contexts c) < 4294967296 - 128"
  shows "delivered (CreateRequest_Encode c) (CreateRequest_Size c) SMB2_CREATE (cr_Header c)
    (\<lambda>r. CreateRequestDecoder_IsInvalid r =
           Some (cr_Contexts c \<noteq> [] \<and> EncodedStringLen (cr_Name c) mod 8 \<noteq> 0) \<and>
         CreateRequestDecoder_RequestedOplockLevel r = Some (cr_RequestedOplockLevel c) \<and>
         CreateRequestDecoder_ImpersonationLevel r = Some (cr_ImpersonationLevel c) \<and>
         CreateRequestDecoder_SmbCreateFlags r = Some (cr_SmbCreateFlags c) \<and>
         CreateRequestDecoder_DesiredAccess r = Some (cr_DesiredAccess c) \<and>
         CreateRequestDecoder_FileAttributes r = Some (cr_FileAttributes c) \<and>
         CreateRequestDecoder_ShareAccess r = Some (cr_ShareAccess c) \<and>
         CreateRequestDecoder_CreateDisposition r = Some (cr_CreateDisposition c) \<and>
         CreateRequestDecoder_CreateOptions r = Some (cr_CreateOptions c) \<and>
         CreateRequestDecoder_Name r = Some (cr_Name c))"
proof (cases "cr_Contexts c = []")
  case True
  let ?n = "CreateRequest_Size c"
  have n: "120 + EncodedStringLen (cr_Name c) \<le> ?n" "121 \<le> ?n \<or> cr_Name c \<noteq> []"
    using True by (simp_all add: CreateRequest_Size_def)
  then have k: "56 + EncodedStringLen (cr_Name c) \<le> ?n - 64" by simp
  from True show ?thesis
    unfolding CreateRequest_Encode_def Let_def
    by (intro request_delivered)
      (use assms n k in \<open>simp_all add: body_simps read_simps request_accessors sub16_def sum_fits window_zeros
        DecodeToString_EncodeStringToBytes del: sbytes.simps\<close>)
next
  case False
  let ?o = "56 + EncodedStringLen (cr_Name c)"
  let ?e = "end_off round8 ?o (cr_Contexts c)"
  have e: "?o \<le> ?e" by (rule end_off_ge) (rule round8_ge)
  obtain i ds where ds: "cr_Contexts c = i # ds" using False by (cases "cr_Contexts c") auto
  have r: "round8 ?o \<le> ?e" "?o \<le> round8 ?o"
    using end_off_ge [of round8 "round8 ?o + en_size i" ds, OF round8_ge] ds by (simp_all add: round8_ge)
  have m: "(round8 ?o + 64) mod 8 = 0" using round8_mod [of ?o] by presburger
  have a: "(64 + of_nat (round8 ?o) :: u32) AND 7 = 0"
    using align8_word [OF m] by (simp add: add.commute)
  have z: "?o < round8 ?o \<longleftrightarrow> 0 < EncodedStringLen (cr_Name c) mod 8"
    unfolding round8_eq by presburger
  have u: "uint (64 + of_nat (round8 ?o) + of_nat (?e - ?o) :: u32) = 64 + int (round8 ?o) + int (?e - ?o)"
    by (rule uint_plus_two) (use r round8_less [of ?o] assms(5) in linarith)
  have s: "CreateRequest_Size c = 64 + ?e" using False by (simp add: CreateRequest_Size_def end_off_120)
  have v: "(int ?e < uint (64 + of_nat (round8 ?o) + of_nat (?e - ?o) :: u32) - 64) =
      (0 < EncodedStringLen (cr_Name c) mod 8)"
    unfolding u using e z by linarith
  define n where "n = EncodedStringLen (cr_Name c)"
  define e where "e = end_off round8 (56 + n) (cr_Contexts c)"
  have l: "56 + n \<le> e" "n < 65536 - 120" using e assms(3) by (simp_all add: e_def n_def)
  have "(64 + of_nat (round8 (56 + n)) + of_nat (e - (56 + n)) :: u32) =
      8 + (of_nat (round8 (56 + n)) + (of_nat e - of_nat n))"
    using l(1) by (simp add: of_nat_diff)
  note vv = v [folded n_def, folded e_def, unfolded this]
  note cc = create_contexts_blk [where slot = 48 and off = "56 + n", OF assms(4) _ _ False, folded e_def]
  from False show ?thesis
    unfolding CreateRequest_Encode_def Let_def EncodeString_len_eq s n_def [symmetric] e_def [symmetric]
    by (intro request_delivered)
      (use l assms(1,2) in \<open>simp_all add: body_simps read_simps request_accessors sub16_def sum_fits
        a [folded n_def] vv cc n_def [symmetric] e_def [symmetric]
        DecodeToString_EncodeStringToBytes del: sbytes.simps\<close>)
qed

definition demo_create :: CreateRequest where
  "demo_create = \<lparr>cr_Header = demo_header, cr_SecurityFlags = 0, cr_RequestedOplockLevel = 0,
     cr_ImpersonationLevel = 2, cr_SmbCreateFlags = 0, cr_DesiredAccess = 0x80, cr_FileAttributes = 0x80,
     cr_ShareAccess = 7, cr_CreateDisposition = 1, cr_CreateOptions = 0x40, cr_Name = [0x61],
     cr_Contexts = [demo_cipher]\<rparr>"

lemma CreateRequest_delivered_witness:
  "delivered (CreateRequest_Encode demo_create) (CreateRequest_Size demo_create) SMB2_CREATE
     (cr_Header demo_create)
     (\<lambda>r. CreateRequestDecoder_IsInvalid r = Some True \<and> CreateRequestDecoder_Name r = Some [0x61])"
  by (rule delivered_mono [OF CreateRequest_delivered])
    (simp_all add: demo_create_def demo_cipher_ok valid_rune_def is_surrogate_def EncodedStringLen_def
      round8_eq)

text \<open>C29. What the 16-bit sum in the check of SESSION_SETUP lets through: for an accepted
  request in a buffer of less than 64 KiB, reading the security buffer panics exactly when its
  offset lies behind the fixed part and offset plus length reach 65536.\<close>

theorem session_setup_panics_iff:
  assumes "slice_ok r" and "length (sl_arr r) < 65536 - 64"
    and "SessionSetupRequestDecoder_IsInvalid r = Some False"
    and "SessionSetupRequestDecoder_SecurityBufferOffset r = Some off"
    and "SessionSetupRequestDecoder_SecurityBufferLength r = Some len"
  shows "SessionSetupRequestDecoder_SecurityBuffer r = None \<longleftrightarrow> 88 \<le> unat off \<and> 65536 \<le> unat off + unat len"
proof -
  obtain xs n where r: "r = Slice xs n" by (cases r)
  have b: "n \<le> length xs" "length xs < 65472" using assms(1,2) r by simp_all
  have u: "unat off < 65536" "unat len < 65536"
    using unsigned_less [where 'a = nat, of off] unsigned_less [where 'a = nat, of len] by simp_all
  have c: "\<not> int n < uint (off + len) - 64"
    using assms(3-5) r by (auto simp: SessionSetupRequestDecoder_IsInvalid_def check_body_def
      bind_eq_Some_conv split: if_splits)
  have s: "unat (off + len) = (unat off + unat len) mod 65536"
    by (simp add: unat_word_ariths)
  show ?thesis
  proof (cases "off < 88")
    case True
    then have "unat off < 88" by (simp add: word_less_nat_alt)
    then show ?thesis
      using True assms(4) by (simp add: SessionSetupRequestDecoder_SecurityBuffer_def)
  next
    case False
    then have o: "88 \<le> unat off" by (simp add: word_less_nat_alt)
    have d: "unat (off - 64) = unat off - 64" using o by (simp add: unat_sub word_le_nat_alt)
    have e: "unat (off - 64 + len) = (unat off - 64 + unat len) mod 65536"
      using d by (simp add: unat_word_ariths)
    have n: "(unat off + unat len) mod 65536 \<le> n + 64"
      using c s by (simp add: uint_nat)
    have v: "SessionSetupRequestDecoder_SecurityBuffer r = None \<longleftrightarrow>
        \<not> (unat off - 64 \<le> (unat off - 64 + unat len) mod 65536 \<and>
            (unat off - 64 + unat len) mod 65536 \<le> length xs)"
      using False assms(4,5) r d e
      by (simp add: SessionSetupRequestDecoder_SecurityBuffer_def sub16_def)
    show ?thesis
    proof (cases "unat off + unat len < 65536")
      case True
      then show ?thesis using v n b o by simp arith
    next
      case ge: False
      show ?thesis
      proof (cases "unat off + unat len - 64 < 65536")
        case True
        then have "(unat off - 64 + unat len) mod 65536 = unat off + unat len - 64" using o by simp
        then show ?thesis using v ge b o by simp arith
      next
        case False
        then have "(unat off - 64 + unat len) mod 65536 = unat off - 64 + unat len - 65536"
          using u o by (simp add: mod_if)
        then show ?thesis using v ge u o False by simp
      qed
    qed
  qed
qed

definition demo_wrap :: slice where
  "demo_wrap = Slice [25, 0, 0, 0, 0, 0, 0, 0, 0, 0, 0, 0, 0xFF, 0xFF, 0x40, 0, 0, 0, 0, 0, 0, 0, 0, 0] 24"

lemma session_setup_panics_iff_witness:
  "SessionSetupRequestDecoder_IsInvalid demo_wrap = Some False \<and>
   SessionSetupRequestDecoder_SecurityBuffer demo_wrap = None"
proof -
  have i: "SessionSetupRequestDecoder_IsInvalid demo_wrap = Some False"
    and o: "SessionSetupRequestDecoder_SecurityBufferOffset demo_wrap = Some 0xFFFF"
    and l: "SessionSetupRequestDecoder_SecurityBufferLength demo_wrap = Some 0x40"
    by (simp_all add: demo_wrap_def request_accessors check_body_def get_eqs window_def)
  have "slice_ok demo_wrap" "length (sl_arr demo_wrap) < 65536 - 64"
    by (simp_all add: demo_wrap_def)
  from session_setup_panics_iff [OF this i o l] i show ?thesis by simp
qed

end
