(* ===== verification/RequestInterfaces.thy ===== *)
theory RequestInterfaces
  imports RequestRoundtrips
begin

text \<open>
  Every request of the client implements the Encoder interface: encoding into a buffer of the
  request's size never panics and stays within it. Each interpretation names what the code
  relies on: file ids of eight-byte halves, and encoder values that keep to their own size.
\<close>

section \<open>The Encoder interface of the requests\<close>

lemma request_fits: "64 \<le> n \<Longrightarrow> fits (n - 64) (seqw body) \<Longrightarrow> fits n (request cmd h body)"
  unfolding request_def by (intro fit)

lemma fits_copyI:
  assumes "\<And>p. e \<le> length p \<Longrightarrow> \<exists>t. length t \<le> e - off \<and> f p = Some (copy_at off t p)" and "off \<le> e"
  shows "fits e f"
  unfolding fits_def
proof (intro allI impI)
  fix p :: bytes
  assume l: "e \<le> length p"
  then obtain t where "length t \<le> e - off" "f p = Some (copy_at off t p)" using assms(1) by blast
  then show "\<exists>p'. f p = Some p' \<and> length p' = length p \<and> drop e p' = drop e p"
    using assms(2) l by (simp add: drop_copy_at)
qed

lemma fits_encode_all:
  assumes "\<And>x. x \<le> al x" and "\<forall>c \<in> set cs. enc_ok c" and "end_off al off cs \<le> n"
  shows "fits n (encode_all al off cs)"
proof (rule fits_mono [OF _ assms(3)], rule fits_copyI)
  show "off \<le> end_off al off cs" using assms(1) by (rule end_off_ge)
qed (use encode_all_copy [OF assms(1,2)] in force)

lemma fits_create_contexts:
  assumes "\<forall>c \<in> set cs. enc_ok c \<and> 4 \<le> en_size c" and "slot + 4 \<le> off" and "end_off round8 off cs \<le> n"
  shows "fits n (create_contexts slot None off cs)"
proof (cases "cs = []")
  case True
  then show ?thesis by (simp add: fits_def)
next
  case False
  have l: "off \<le> end_off round8 off cs" by (rule end_off_ge) (rule round8_ge)
  have "fits (end_off round8 off cs) (create_contexts slot None off cs)"
    unfolding fits_def
  proof (intro allI impI)
    fix p :: bytes
    assume p: "end_off round8 off cs \<le> length p"
    then obtain t where "length t = end_off round8 off cs - off" "create_contexts slot None off cs p =
        Some (copy_at off t (copy_at slot (le_bytes 4 (unat (of_nat (64 + round8 off) :: u32))) p))"
      using create_contexts_block [OF assms(1,2) p False] by blast
    then show "\<exists>p'. create_contexts slot None off cs p = Some p' \<and> length p' = length p \<and>
        drop (end_off round8 off cs) p' = drop (end_off round8 off cs) p"
      using l p assms(2) by (simp add: drop_copy_at)
  qed
  then show ?thesis using assms(3) by (rule fits_mono)
qed

lemma fits_file_id [fit]: "fid_opt_ok f \<Longrightarrow> b = a + 16 \<Longrightarrow> b \<le> n \<Longrightarrow> fits n (at_range a b (FileId_Encode f))"
  by (intro fits_at_range) (simp_all add: FileId_fits)

lemma fits_EncodeString [fit]: "EncodedStringLen s \<le> n \<Longrightarrow> fits n (EncodeString s)"
  by (rule fits_copyI [of n 0]) (auto simp: EncodeString_bytes length_EncodeStringToBytes
    intro!: exI [of _ "EncodeStringToBytes s"])

lemma fits_enc [fit]: "enc_ok i \<Longrightarrow> off + en_size i \<le> n \<Longrightarrow> fits n (at_off off (en_encode i))"
  unfolding enc_ok_def by (rule fits_at_off) (auto intro: fits_mono)

definition input_ok :: "enc option \<Rightarrow> bool" where
  "input_ok i \<longleftrightarrow> (case i of None \<Rightarrow> True | Some i \<Rightarrow> enc_ok i)"

interpretation session_setup_req: encoder SessionSetupRequest_Size SessionSetupRequest_Encode "\<lambda>_. True"
  by unfold_locales (unfold SessionSetupRequest_Encode_def, rule request_fits,
    auto simp: SessionSetupRequest_Size_def intro!: fit)

interpretation logoff_req: encoder LogoffRequest_Size LogoffRequest_Encode "\<lambda>_. True"
  by unfold_locales (unfold LogoffRequest_Encode_def, rule request_fits,
    auto simp: LogoffRequest_Size_def intro!: fit)

interpretation tree_connect_req: encoder TreeConnectRequest_Size TreeConnectRequest_Encode "\<lambda>_. True"
  by unfold_locales (unfold TreeConnectRequest_Encode_def, rule request_fits,
    auto simp: TreeConnectRequest_Size_def EncodedStringLen_def intro!: fit)

interpretation tree_disconnect_req: encoder TreeDisconnectRequest_Size TreeDisconnectRequest_Encode "\<lambda>_. True"
  by unfold_locales (unfold TreeDisconnectRequest_Encode_def, rule request_fits,
    auto simp: TreeDisconnectRequest_Size_def intro!: fit)

interpretation cancel_req: encoder CancelRequest_Size CancelRequest_Encode "\<lambda>_. True"
  by unfold_locales (unfold CancelRequest_Encode_def, rule request_fits,
    auto simp: CancelRequest_Size_def intro!: fit)

interpretation close_req: encoder CloseRequest_Size CloseRequest_Encode "\<lambda>c. fid_opt_ok (cl_FileId c)"
  by unfold_locales (unfold CloseRequest_Encode_def, rule request_fits,
    auto simp: CloseRequest_Size_def intro!: fit)

interpretation flush_req: encoder FlushRequest_Size FlushRequest_Encode "\<lambda>c. fid_opt_ok (fl_FileId c)"
  by unfold_locales (unfold FlushRequest_Encode_def, rule request_fits,
    auto simp: FlushRequest_Size_def intro!: fit)

interpretation query_directory_req: encoder QueryDirectoryRequest_Size QueryDirectoryRequest_Encode
    "\<lambda>c. fid_opt_ok (qd_FileId c)"
  by unfold_locales (unfold QueryDirectoryRequest_Encode_def, rule request_fits,
    auto simp: QueryDirectoryRequest_Size_def EncodedStringLen_def intro!: fit)

interpretation ioctl_req: encoder IoctlRequest_Size IoctlRequest_Encode
    "\<lambda>c. fid_opt_ok (io_FileId c) \<and> input_ok (io_Input c)"
  by unfold_locales (unfold IoctlRequest_Encode_def, rule request_fits,
    auto simp: IoctlRequest_Size_def input_ok_def split: option.splits intro!: fit)

interpretation query_info_req: encoder QueryInfoRequest_Size QueryInfoRequest_Encode
    "\<lambda>c. fid_opt_ok (qi_FileId c) \<and> input_ok (qi_Input c)"
  by unfold_locales (unfold QueryInfoRequest_Encode_def, rule request_fits,
    auto simp: QueryInfoRequest_Size_def input_ok_def split: option.splits intro!: fit)

interpretation set_info_req: encoder SetInfoRequest_Size SetInfoRequest_Encode
    "\<lambda>c. fid_opt_ok (si_FileId c) \<and> input_ok (si_Input c)"
  by unfold_locales (unfold SetInfoRequest_Encode_def, rule request_fits,
    auto simp: SetInfoRequest_Size_def input_ok_def split: option.splits intro!: fit)

text \<open>The requests with a list of values.\<close>

definition infos_ok :: "enc list \<Rightarrow> bool" where
  "infos_ok cs \<longleftrightarrow> (\<forall>i \<in> set cs. enc_ok i)"

definition ctxs_ok :: "enc list \<Rightarrow> bool" where
  "ctxs_ok cs \<longleftrightarrow> (\<forall>i \<in> set cs. enc_ok i \<and> 4 \<le> en_size i)"

lemma fits_infos [fit]: "infos_ok cs \<Longrightarrow> end_off id off cs \<le> n \<Longrightarrow> fits n (encode_all id off cs)"
  by (rule fits_encode_all) (simp_all add: infos_ok_def)

lemma fits_aligned [fit]: "infos_ok cs \<Longrightarrow> end_off round8 off cs \<le> n \<Longrightarrow> fits n (encode_all round8 off cs)"
  by (rule fits_encode_all) (simp_all add: infos_ok_def round8_ge)

lemma fits_contexts [fit]:
  "ctxs_ok cs \<Longrightarrow> slot + 4 \<le> off \<Longrightarrow> end_off round8 off cs \<le> n \<Longrightarrow> fits n (create_contexts slot None off cs)"
  by (rule fits_create_contexts) (simp_all add: ctxs_ok_def)

lemma end_off_48: "48 \<le> end_off id 48 cs"
  by (rule end_off_ge) simp

lemma end_off_round8: "n \<le> end_off round8 n cs"
  by (rule end_off_ge) (rule round8_ge)

lemma CreateRequest_Size_ge: "64 + end_off round8 (56 + EncodedStringLen (cr_Name c)) (cr_Contexts c) \<le> CreateRequest_Size c"
  by (auto simp: CreateRequest_Size_def end_off_120)

interpretation read_req: encoder ReadRequest_Size ReadRequest_Encode
    "\<lambda>c. fid_opt_ok (rd_FileId c) \<and> infos_ok (rd_ReadChannelInfo c)"
proof (unfold_locales, unfold ReadRequest_Encode_def, rule request_fits, goal_cases)
  case (1 c)
  then show ?case by (simp add: ReadRequest_Size_def end_off_112)
next
  case (2 c)
  then show ?case using end_off_48 [of "rd_ReadChannelInfo c"]
    by (auto simp: ReadRequest_Size_def end_off_112 intro!: fit)
qed

interpretation write_req: encoder WriteRequest_Size WriteRequest_Encode
    "\<lambda>c. fid_opt_ok (wr_FileId c) \<and> infos_ok (wr_WriteChannelInfo c)"
proof (unfold_locales, unfold WriteRequest_Encode_def Let_def, rule request_fits, goal_cases)
  case (1 c)
  then show ?case by (simp add: WriteRequest_Size_def end_off_112)
next
  case (2 c)
  then show ?case using end_off_48 [of "wr_WriteChannelInfo c"]
    by (auto simp: WriteRequest_Size_def end_off_112 intro!: fit)
qed

interpretation negotiate_req: encoder NegotiateRequest_Size NegotiateRequest_Encode
    "\<lambda>c. length (ng_ClientGuid c) = 16 \<and> infos_ok (ng_Contexts c)"
proof (unfold_locales, unfold NegotiateRequest_Encode_def Let_def, rule request_fits, goal_cases)
  case (1 c)
  then show ?case by (simp add: NegotiateRequest_Size_def)
next
  case (2 c)
  then show ?case
    using end_off_round8 [of "36 + length (ng_Dialects c) * 2" "ng_Contexts c"]
    by (auto simp: NegotiateRequest_Size_def intro!: fit)
qed

interpretation create_req: encoder CreateRequest_Size CreateRequest_Encode "\<lambda>c. ctxs_ok (cr_Contexts c)"
proof (unfold_locales, unfold CreateRequest_Encode_def Let_def EncodeString_len_eq, rule request_fits, goal_cases)
  case (1 c)
  then show ?case using CreateRequest_Size_ge [of c] by simp
next
  case (2 c)
  have "56 + EncodedStringLen (cr_Name c) \<le> CreateRequest_Size c - 64"
    "end_off round8 (56 + EncodedStringLen (cr_Name c)) (cr_Contexts c) \<le> CreateRequest_Size c - 64"
    using CreateRequest_Size_ge [of c] end_off_round8 [of "56 + EncodedStringLen (cr_Name c)" "cr_Contexts c"]
    by linarith+
  with 2 show ?case by (auto intro!: fit)
qed

end
