(* ===== verification/ResponseDecoders.thy ===== *)
theory ResponseDecoders
  imports RequestDecoders NegotiateContexts
begin

text \<open>
  The decoders of the response bodies (internal/smb2/response.go), which a client applies to what
  the server sent: the checks and the accessors, with every sum at the width the code adds it.
\<close>

section \<open>Errors\<close>

definition IO_REPARSE_TAG_SYMLINK :: u32 where "IO_REPARSE_TAG_SYMLINK = 0xA000000C"
definition SMB311 :: u16 where "SMB311 = 0x311"

definition ErrorResponseDecoder_StructureSize :: "slice \<Rightarrow> u16 option" where "ErrorResponseDecoder_StructureSize r = get16 0 r"
definition ErrorResponseDecoder_ErrorContextCount :: "slice \<Rightarrow> u8 option" where "ErrorResponseDecoder_ErrorContextCount r = sidx 2 r"
definition ErrorResponseDecoder_ByteCount :: "slice \<Rightarrow> u32 option" where "ErrorResponseDecoder_ByteCount r = get32 4 r"

definition ErrorResponseDecoder_IsInvalid :: "slice \<Rightarrow> bool option" where
  "ErrorResponseDecoder_IsInvalid r =
     check_body 8 9 ErrorResponseDecoder_StructureSize r
       (do { n \<leftarrow> ErrorResponseDecoder_ByteCount r; Some (of_nat (slen r) < 8 + n) })"

definition ErrorResponseDecoder_ErrorData :: "slice \<Rightarrow> slice option" where
  "ErrorResponseDecoder_ErrorData r =
     do { n \<leftarrow> ErrorResponseDecoder_ByteCount r; ssub 8 (unat (8 + n)) r }"

definition ErrorContextResponseDecoder_ErrorDataLength :: "slice \<Rightarrow> u32 option" where "ErrorContextResponseDecoder_ErrorDataLength r = get32 0 r"
definition ErrorContextResponseDecoder_ErrorId :: "slice \<Rightarrow> u32 option" where "ErrorContextResponseDecoder_ErrorId r = get32 4 r"

definition ErrorContextResponseDecoder_IsInvalid :: "slice \<Rightarrow> bool option" where
  "ErrorContextResponseDecoder_IsInvalid ctx =
     (if slen ctx < 8 then Some True
      else do { n \<leftarrow> ErrorContextResponseDecoder_ErrorDataLength ctx; Some (of_nat (slen ctx) < 8 + n) })"

definition ErrorContextResponseDecoder_ErrorContextData :: "slice \<Rightarrow> slice option" where
  "ErrorContextResponseDecoder_ErrorContextData ctx =
     do { n \<leftarrow> ErrorContextResponseDecoder_ErrorDataLength ctx; ssub 8 (unat (8 + n)) ctx }"

definition ErrorContextResponseDecoder_Next :: "slice \<Rightarrow> int option" where
  "ErrorContextResponseDecoder_Next ctx =
     do { n \<leftarrow> ErrorContextResponseDecoder_ErrorDataLength ctx; Some (8 + Roundup (uint n) 8) }"

definition SmallBufferErrorResponseDecoder_IsInvalid :: "slice \<Rightarrow> bool option" where
  "SmallBufferErrorResponseDecoder_IsInvalid r = Some (slen r \<noteq> 4)"

definition SmallBufferErrorResponseDecoder_RequiredBufferLength :: "slice \<Rightarrow> u32 option" where
  "SmallBufferErrorResponseDecoder_RequiredBufferLength r = le_u32 r"

definition SymbolicLinkErrorResponseDecoder_SymLinkLength :: "slice \<Rightarrow> u32 option" where "SymbolicLinkErrorResponseDecoder_SymLinkLength r = get32 0 r"
definition SymbolicLinkErrorResponseDecoder_SymLinkErrorTag :: "slice \<Rightarrow> u32 option" where "SymbolicLinkErrorResponseDecoder_SymLinkErrorTag r = get32 4 r"
definition SymbolicLinkErrorResponseDecoder_ReparseTag :: "slice \<Rightarrow> u32 option" where "SymbolicLinkErrorResponseDecoder_ReparseTag r = get32 8 r"
definition SymbolicLinkErrorResponseDecoder_ReparseDataLength :: "slice \<Rightarrow> u16 option" where "SymbolicLinkErrorResponseDecoder_ReparseDataLength r = get16 12 r"
definition SymbolicLinkErrorResponseDecoder_UnparsedPathLength :: "slice \<Rightarrow> u16 option" where "SymbolicLinkErrorResponseDecoder_UnparsedPathLength r = get16 14 r"
definition SymbolicLinkErrorResponseDecoder_SubstituteNameOffset :: "slice \<Rightarrow> u16 option" where "SymbolicLinkErrorResponseDecoder_SubstituteNameOffset r = get16 16 r"
definition SymbolicLinkErrorResponseDecoder_SubstituteNameLength :: "slice \<Rightarrow> u16 option" where "SymbolicLinkErrorResponseDecoder_SubstituteNameLength r = get16 18 r"
definition SymbolicLinkErrorResponseDecoder_PrintNameOffset :: "slice \<Rightarrow> u16 option" where "SymbolicLinkErrorResponseDecoder_PrintNameOffset r = get16 20 r"
definition SymbolicLinkErrorResponseDecoder_PrintNameLength :: "slice \<Rightarrow> u16 option" where "SymbolicLinkErrorResponseDecoder_PrintNameLength r = get16 22 r"
definition SymbolicLinkErrorResponseDecoder_Flags :: "slice \<Rightarrow> u32 option" where "SymbolicLinkErrorResponseDecoder_Flags r = get32 24 r"
definition SymbolicLinkErrorResponseDecoder_PathBuffer :: "slice \<Rightarrow> slice option" where "SymbolicLinkErrorResponseDecoder_PathBuffer r = sfrom 28 r"

definition SymbolicLinkErrorResponseDecoder_IsInvalid :: "slice \<Rightarrow> bool option" where
  "SymbolicLinkErrorResponseDecoder_IsInvalid r =
     (if slen r < 28 then Some True
      else do { tag \<leftarrow> SymbolicLinkErrorResponseDecoder_SymLinkErrorTag r;
      if tag \<noteq> 0x4C4D5953 then Some True
      else do { rtag \<leftarrow> SymbolicLinkErrorResponseDecoder_ReparseTag r;
      if rtag \<noteq> IO_REPARSE_TAG_SYMLINK then Some True
      else do { tlen \<leftarrow> SymbolicLinkErrorResponseDecoder_SymLinkLength r;
                rlen \<leftarrow> SymbolicLinkErrorResponseDecoder_ReparseDataLength r;
                soff \<leftarrow> SymbolicLinkErrorResponseDecoder_SubstituteNameOffset r;
                sl \<leftarrow> SymbolicLinkErrorResponseDecoder_SubstituteNameLength r;
                poff \<leftarrow> SymbolicLinkErrorResponseDecoder_PrintNameOffset r;
                pl \<leftarrow> SymbolicLinkErrorResponseDecoder_PrintNameLength r;
                Some (soff AND 1 \<noteq> 0 \<or> poff AND 1 \<noteq> 0 \<or> slen r < 4 + unat tlen \<or>
                  unat tlen < 12 + unat rlen \<or> unat rlen < 12 + unat soff + unat sl \<or>
                  unat rlen < 12 + unat poff + unat pl) }}})"

definition SymbolicLinkErrorResponseDecoder_SubstituteName :: "slice \<Rightarrow> rune list option" where
  "SymbolicLinkErrorResponseDecoder_SubstituteName r =
     do { off \<leftarrow> SymbolicLinkErrorResponseDecoder_SubstituteNameOffset r;
          len \<leftarrow> SymbolicLinkErrorResponseDecoder_SubstituteNameLength r;
          buf \<leftarrow> SymbolicLinkErrorResponseDecoder_PathBuffer r;
          s \<leftarrow> sub16 off len buf; Some (DecodeToString (sbytes s)) }"

definition SymbolicLinkErrorResponseDecoder_PrintName :: "slice \<Rightarrow> rune list option" where
  "SymbolicLinkErrorResponseDecoder_PrintName r =
     do { off \<leftarrow> SymbolicLinkErrorResponseDecoder_PrintNameOffset r;
          len \<leftarrow> SymbolicLinkErrorResponseDecoder_PrintNameLength r;
          buf \<leftarrow> SymbolicLinkErrorResponseDecoder_PathBuffer r;
          s \<leftarrow> sub16 off len buf; Some (DecodeToString (sbytes s)) }"

definition SymbolicLinkErrorResponseDecoder_SplitUnparsedPath ::
  "slice \<Rightarrow> rune list \<Rightarrow> (rune list \<times> rune list) option" where
  "SymbolicLinkErrorResponseDecoder_SplitUnparsedPath r name =
     do { u \<leftarrow> SymbolicLinkErrorResponseDecoder_UnparsedPathLength r;
          Some (let ws = utf16_units name; n = unat u div 2 in
                if length ws < n then ([], [])
                else (utf16_runes (take (length ws - n) ws), utf16_runes (drop (length ws - n) ws))) }"

section \<open>NEGOTIATE and SESSION_SETUP\<close>

definition NegotiateResponseDecoder_StructureSize :: "slice \<Rightarrow> u16 option" where "NegotiateResponseDecoder_StructureSize r = get16 0 r"
definition NegotiateResponseDecoder_SecurityMode :: "slice \<Rightarrow> u16 option" where "NegotiateResponseDecoder_SecurityMode r = get16 2 r"
definition NegotiateResponseDecoder_DialectRevision :: "slice \<Rightarrow> u16 option" where "NegotiateResponseDecoder_DialectRevision r = get16 4 r"
definition NegotiateResponseDecoder_ServerGuid :: "slice \<Rightarrow> slice option" where "NegotiateResponseDecoder_ServerGuid r = ssub 8 24 r"
definition NegotiateResponseDecoder_Capabilities :: "slice \<Rightarrow> u32 option" where "NegotiateResponseDecoder_Capabilities r = get32 24 r"
definition NegotiateResponseDecoder_MaxTransactSize :: "slice \<Rightarrow> u32 option" where "NegotiateResponseDecoder_MaxTransactSize r = get32 28 r"
definition NegotiateResponseDecoder_MaxReadSize :: "slice \<Rightarrow> u32 option" where "NegotiateResponseDecoder_MaxReadSize r = get32 32 r"
definition NegotiateResponseDecoder_MaxWriteSize :: "slice \<Rightarrow> u32 option" where "NegotiateResponseDecoder_MaxWriteSize r = get32 36 r"
definition NegotiateResponseDecoder_SystemTime :: "slice \<Rightarrow> slice option" where "NegotiateResponseDecoder_SystemTime r = ssub 40 48 r"
definition NegotiateResponseDecoder_ServerStartTime :: "slice \<Rightarrow> slice option" where "NegotiateResponseDecoder_ServerStartTime r = ssub 48 56 r"
definition NegotiateResponseDecoder_SecurityBufferOffset :: "slice \<Rightarrow> u16 option" where "NegotiateResponseDecoder_SecurityBufferOffset r = get16 56 r"
definition NegotiateResponseDecoder_SecurityBufferLength :: "slice \<Rightarrow> u16 option" where "NegotiateResponseDecoder_SecurityBufferLength r = get16 58 r"
definition NegotiateResponseDecoder_NegotiateContextCount :: "slice \<Rightarrow> u16 option" where "NegotiateResponseDecoder_NegotiateContextCount r = get16 6 r"
definition NegotiateResponseDecoder_NegotiateContextOffset :: "slice \<Rightarrow> u32 option" where "NegotiateResponseDecoder_NegotiateContextOffset r = get32 60 r"

definition NegotiateResponseDecoder_IsInvalid :: "slice \<Rightarrow> bool option" where
  "NegotiateResponseDecoder_IsInvalid r =
     check_body 64 65 NegotiateResponseDecoder_StructureSize r
       (do { off \<leftarrow> NegotiateResponseDecoder_SecurityBufferOffset r;
             len \<leftarrow> NegotiateResponseDecoder_SecurityBufferLength r;
             if int (slen r) < uint (off + len) - 64 then Some True
             else do { d \<leftarrow> NegotiateResponseDecoder_DialectRevision r;
             if d = SMB311
             then do { noff \<leftarrow> NegotiateResponseDecoder_NegotiateContextOffset r;
                       Some (noff AND 7 \<noteq> 0 \<or> int (slen r) < uint noff - 64) }
             else Some False } })"

definition NegotiateResponseDecoder_SecurityBuffer :: "slice \<Rightarrow> slice option" where
  "NegotiateResponseDecoder_SecurityBuffer r =
     do { off \<leftarrow> NegotiateResponseDecoder_SecurityBufferOffset r;
          if off < 64 + 64 then Some nil_slice
          else do { len \<leftarrow> NegotiateResponseDecoder_SecurityBufferLength r; sub16 (off - 64) len r } }"

definition NegotiateResponseDecoder_NegotiateContextList :: "slice \<Rightarrow> slice option" where
  "NegotiateResponseDecoder_NegotiateContextList r =
     do { off \<leftarrow> NegotiateResponseDecoder_NegotiateContextOffset r;
          if off < 64 then Some nil_slice else sfrom (unat (off - 64)) r }"

definition SessionSetupResponseDecoder_StructureSize :: "slice \<Rightarrow> u16 option" where "SessionSetupResponseDecoder_StructureSize r = get16 0 r"
definition SessionSetupResponseDecoder_SessionFlags :: "slice \<Rightarrow> u16 option" where "SessionSetupResponseDecoder_SessionFlags r = get16 2 r"
definition SessionSetupResponseDecoder_SecurityBufferOffset :: "slice \<Rightarrow> u16 option" where "SessionSetupResponseDecoder_SecurityBufferOffset r = get16 4 r"
definition SessionSetupResponseDecoder_SecurityBufferLength :: "slice \<Rightarrow> u16 option" where "SessionSetupResponseDecoder_SecurityBufferLength r = get16 6 r"

definition SessionSetupResponseDecoder_IsInvalid :: "slice \<Rightarrow> bool option" where
  "SessionSetupResponseDecoder_IsInvalid r =
     check_body 8 9 SessionSetupResponseDecoder_StructureSize r
       (do { off \<leftarrow> SessionSetupResponseDecoder_SecurityBufferOffset r;
             len \<leftarrow> SessionSetupResponseDecoder_SecurityBufferLength r;
             Some (int (slen r) < uint (off + len) - 64) })"

definition SessionSetupResponseDecoder_SecurityBuffer :: "slice \<Rightarrow> slice option" where
  "SessionSetupResponseDecoder_SecurityBuffer r =
     do { off \<leftarrow> SessionSetupResponseDecoder_SecurityBufferOffset r;
          if off < 8 + 64 then Some nil_slice
          else do { len \<leftarrow> SessionSetupResponseDecoder_SecurityBufferLength r; sub16 (off - 64) len r } }"

section \<open>LOGOFF and trees\<close>

definition LogoffResponseDecoder_StructureSize :: "slice \<Rightarrow> u16 option" where "LogoffResponseDecoder_StructureSize r = get16 0 r"

definition LogoffResponseDecoder_IsInvalid :: "slice \<Rightarrow> bool option" where
  "LogoffResponseDecoder_IsInvalid r = check_body 4 4 LogoffResponseDecoder_StructureSize r (Some False)"

definition TreeConnectResponseDecoder_StructureSize :: "slice \<Rightarrow> u16 option" where "TreeConnectResponseDecoder_StructureSize r = get16 0 r"
definition TreeConnectResponseDecoder_ShareType :: "slice \<Rightarrow> u8 option" where "TreeConnectResponseDecoder_ShareType r = sidx 2 r"
definition TreeConnectResponseDecoder_ShareFlags :: "slice \<Rightarrow> u32 option" where "TreeConnectResponseDecoder_ShareFlags r = get32 4 r"
definition TreeConnectResponseDecoder_Capabilities :: "slice \<Rightarrow> u32 option" where "TreeConnectResponseDecoder_Capabilities r = get32 8 r"
definition TreeConnectResponseDecoder_MaximalAccess :: "slice \<Rightarrow> u32 option" where "TreeConnectResponseDecoder_MaximalAccess r = get32 12 r"

definition TreeConnectResponseDecoder_IsInvalid :: "slice \<Rightarrow> bool option" where
  "TreeConnectResponseDecoder_IsInvalid r = check_body 16 16 TreeConnectResponseDecoder_StructureSize r (Some False)"

definition TreeDisconnectResponseDecoder_StructureSize :: "slice \<Rightarrow> u16 option" where "TreeDisconnectResponseDecoder_StructureSize r = get16 0 r"

definition TreeDisconnectResponseDecoder_IsInvalid :: "slice \<Rightarrow> bool option" where
  "TreeDisconnectResponseDecoder_IsInvalid r = check_body 4 4 TreeDisconnectResponseDecoder_StructureSize r (Some False)"

section \<open>CREATE, CLOSE and FLUSH\<close>

definition CreateResponseDecoder_StructureSize :: "slice \<Rightarrow> u16 option" where "CreateResponseDecoder_StructureSize r = get16 0 r"
definition CreateResponseDecoder_OplockLevel :: "slice \<Rightarrow> u8 option" where "CreateResponseDecoder_OplockLevel r = sidx 2 r"
definition CreateResponseDecoder_Flags :: "slice \<Rightarrow> u8 option" where "CreateResponseDecoder_Flags r = sidx 3 r"
definition CreateResponseDecoder_CreateAction :: "slice \<Rightarrow> u32 option" where "CreateResponseDecoder_CreateAction r = get32 4 r"
definition CreateResponseDecoder_CreationTime :: "slice \<Rightarrow> slice option" where "CreateResponseDecoder_CreationTime r = ssub 8 16 r"
definition CreateResponseDecoder_LastAccessTime :: "slice \<Rightarrow> slice option" where "CreateResponseDecoder_LastAccessTime r = ssub 16 24 r"
definition CreateResponseDecoder_LastWriteTime :: "slice \<Rightarrow> slice option" where "CreateResponseDecoder_LastWriteTime r = ssub 24 32 r"
definition CreateResponseDecoder_ChangeTime :: "slice \<Rightarrow> slice option" where "CreateResponseDecoder_ChangeTime r = ssub 32 40 r"
definition CreateResponseDecoder_FileAttributes :: "slice \<Rightarrow> u32 option" where "CreateResponseDecoder_FileAttributes r = get32 56 r"
definition CreateResponseDecoder_FileId :: "slice \<Rightarrow> slice option" where "CreateResponseDecoder_FileId r = ssub 64 80 r"
definition CreateResponseDecoder_CreateContextsOffset :: "slice \<Rightarrow> u32 option" where "CreateResponseDecoder_CreateContextsOffset r = get32 80 r"
definition CreateResponseDecoder_CreateContextsLength :: "slice \<Rightarrow> u32 option" where "CreateResponseDecoder_CreateContextsLength r = get32 84 r"

definition CreateResponseDecoder_IsInvalid :: "slice \<Rightarrow> bool option" where
  "CreateResponseDecoder_IsInvalid r =
     check_body 88 89 CreateResponseDecoder_StructureSize r
       (do { coff \<leftarrow> CreateResponseDecoder_CreateContextsOffset r;
             if coff AND 7 \<noteq> 0 then Some True
             else do { len \<leftarrow> CreateResponseDecoder_CreateContextsLength r;
                       Some (int (slen r) < uint (coff + len) - 64) } })"

definition CreateResponseDecoder_AllocationSize :: "slice \<Rightarrow> int option" where
  "CreateResponseDecoder_AllocationSize r = map_option sint (get64 40 r)"

definition CreateResponseDecoder_EndofFile :: "slice \<Rightarrow> int option" where
  "CreateResponseDecoder_EndofFile r = map_option sint (get64 48 r)"

definition CreateResponseDecoder_CreateContexts :: "slice \<Rightarrow> slice option" where
  "CreateResponseDecoder_CreateContexts r =
     do { off \<leftarrow> CreateResponseDecoder_CreateContextsOffset r;
          if off < 88 + 64 then Some nil_slice
          else do { len \<leftarrow> CreateResponseDecoder_CreateContextsLength r; sub32 (off - 64) len r } }"

definition CloseResponseDecoder_StructureSize :: "slice \<Rightarrow> u16 option" where "CloseResponseDecoder_StructureSize r = get16 0 r"
definition CloseResponseDecoder_Flags :: "slice \<Rightarrow> u16 option" where "CloseResponseDecoder_Flags r = get16 2 r"
definition CloseResponseDecoder_CreationTime :: "slice \<Rightarrow> slice option" where "CloseResponseDecoder_CreationTime r = ssub 8 16 r"
definition CloseResponseDecoder_LastAccessTime :: "slice \<Rightarrow> slice option" where "CloseResponseDecoder_LastAccessTime r = ssub 16 24 r"
definition CloseResponseDecoder_LastWriteTime :: "slice \<Rightarrow> slice option" where "CloseResponseDecoder_LastWriteTime r = ssub 24 32 r"
definition CloseResponseDecoder_ChangeTime :: "slice \<Rightarrow> slice option" where "CloseResponseDecoder_ChangeTime r = ssub 32 40 r"
definition CloseResponseDecoder_FileAttributes :: "slice \<Rightarrow> u32 option" where "CloseResponseDecoder_FileAttributes r = get32 56 r"

definition CloseResponseDecoder_IsInvalid :: "slice \<Rightarrow> bool option" where
  "CloseResponseDecoder_IsInvalid r = check_body 60 60 CloseResponseDecoder_StructureSize r (Some False)"

definition CloseResponseDecoder_AllocationSize :: "slice \<Rightarrow> int option" where
  "CloseResponseDecoder_AllocationSize r = map_option sint (get64 40 r)"

definition CloseResponseDecoder_EndofFile :: "slice \<Rightarrow> int option" where
  "CloseResponseDecoder_EndofFile r = map_option sint (get64 48 r)"

definition FlushResponseDecoder_StructureSize :: "slice \<Rightarrow> u16 option" where "FlushResponseDecoder_StructureSize r = get16 0 r"

definition FlushResponseDecoder_IsInvalid :: "slice \<Rightarrow> bool option" where
  "FlushResponseDecoder_IsInvalid r = check_body 4 4 FlushResponseDecoder_StructureSize r (Some False)"

section \<open>READ and WRITE\<close>

definition ReadResponseDecoder_StructureSize :: "slice \<Rightarrow> u16 option" where "ReadResponseDecoder_StructureSize r = get16 0 r"
definition ReadResponseDecoder_DataOffset :: "slice \<Rightarrow> u8 option" where "ReadResponseDecoder_DataOffset r = sidx 2 r"
definition ReadResponseDecoder_DataLength :: "slice \<Rightarrow> u32 option" where "ReadResponseDecoder_DataLength r = get32 4 r"
definition ReadResponseDecoder_DataRemaining :: "slice \<Rightarrow> u32 option" where "ReadResponseDecoder_DataRemaining r = get32 8 r"

definition ReadResponseDecoder_IsInvalid :: "slice \<Rightarrow> bool option" where
  "ReadResponseDecoder_IsInvalid r =
     check_body 16 17 ReadResponseDecoder_StructureSize r
       (do { off \<leftarrow> ReadResponseDecoder_DataOffset r;
             len \<leftarrow> ReadResponseDecoder_DataLength r;
             Some (int (slen r) < uint (ucast off + len) - 64) })"

text \<open>\<open>off -= 64\<close> is on a byte.\<close>

definition ReadResponseDecoder_Data :: "slice \<Rightarrow> slice option" where
  "ReadResponseDecoder_Data r =
     do { off \<leftarrow> ReadResponseDecoder_DataOffset r;
          if off < 16 + 64 then Some nil_slice
          else do { len \<leftarrow> ReadResponseDecoder_DataLength r; sub32 (ucast (off - 64)) len r } }"

definition WriteResponseDecoder_StructureSize :: "slice \<Rightarrow> u16 option" where "WriteResponseDecoder_StructureSize r = get16 0 r"
definition WriteResponseDecoder_Count :: "slice \<Rightarrow> u32 option" where "WriteResponseDecoder_Count r = get32 4 r"
definition WriteResponseDecoder_Remaining :: "slice \<Rightarrow> u32 option" where "WriteResponseDecoder_Remaining r = get32 8 r"
definition WriteResponseDecoder_WriteChannelInfoOffset :: "slice \<Rightarrow> u16 option" where "WriteResponseDecoder_WriteChannelInfoOffset r = get16 12 r"
definition WriteResponseDecoder_WriteChannelInfoLength :: "slice \<Rightarrow> u16 option" where "WriteResponseDecoder_WriteChannelInfoLength r = get16 14 r"

definition WriteResponseDecoder_IsInvalid :: "slice \<Rightarrow> bool option" where
  "WriteResponseDecoder_IsInvalid r = check_body 16 17 WriteResponseDecoder_StructureSize r (Some False)"

section \<open>IOCTL, QUERY_DIRECTORY, QUERY_INFO and SET_INFO\<close>

definition IoctlResponseDecoder_StructureSize :: "slice \<Rightarrow> u16 option" where "IoctlResponseDecoder_StructureSize r = get16 0 r"
definition IoctlResponseDecoder_CtlCode :: "slice \<Rightarrow> u32 option" where "IoctlResponseDecoder_CtlCode r = get32 4 r"
definition IoctlResponseDecoder_FileId :: "slice \<Rightarrow> slice option" where "IoctlResponseDecoder_FileId r = ssub 8 24 r"
definition IoctlResponseDecoder_InputOffset :: "slice \<Rightarrow> u32 option" where "IoctlResponseDecoder_InputOffset r = get32 24 r"
definition IoctlResponseDecoder_InputCount :: "slice \<Rightarrow> u32 option" where "IoctlResponseDecoder_InputCount r = get32 28 r"
definition IoctlResponseDecoder_OutputOffset :: "slice \<Rightarrow> u32 option" where "IoctlResponseDecoder_OutputOffset r = get32 32 r"
definition IoctlResponseDecoder_OutputCount :: "slice \<Rightarrow> u32 option" where "IoctlResponseDecoder_OutputCount r = get32 36 r"
definition IoctlResponseDecoder_Flags :: "slice \<Rightarrow> u32 option" where "IoctlResponseDecoder_Flags r = get32 40 r"

definition IoctlResponseDecoder_IsInvalid :: "slice \<Rightarrow> bool option" where
  "IoctlResponseDecoder_IsInvalid r =
     check_body 48 49 IoctlResponseDecoder_StructureSize r
       (do { ioff \<leftarrow> IoctlResponseDecoder_InputOffset r;
             ilen \<leftarrow> IoctlResponseDecoder_InputCount r;
             if int (slen r) < uint (ioff + ilen) - 64 then Some True
             else do { off \<leftarrow> IoctlResponseDecoder_OutputOffset r;
                       len \<leftarrow> IoctlResponseDecoder_OutputCount r;
                       Some (int (slen r) < uint (off + len) - 64) } })"

definition IoctlResponseDecoder_Input :: "slice \<Rightarrow> slice option" where
  "IoctlResponseDecoder_Input r =
     do { off \<leftarrow> IoctlResponseDecoder_InputOffset r;
          if off < 64 + 48 then Some nil_slice
          else do { len \<leftarrow> IoctlResponseDecoder_InputCount r; sub32 (off - 64) len r } }"

definition IoctlResponseDecoder_Output :: "slice \<Rightarrow> slice option" where
  "IoctlResponseDecoder_Output r =
     do { off \<leftarrow> IoctlResponseDecoder_OutputOffset r;
          if off < 64 + 48 then Some nil_slice
          else do { len \<leftarrow> IoctlResponseDecoder_OutputCount r; sub32 (off - 64) len r } }"

definition QueryDirectoryResponseDecoder_StructureSize :: "slice \<Rightarrow> u16 option" where "QueryDirectoryResponseDecoder_StructureSize r = get16 0 r"
definition QueryDirectoryResponseDecoder_OutputBufferOffset :: "slice \<Rightarrow> u16 option" where "QueryDirectoryResponseDecoder_OutputBufferOffset r = get16 2 r"
definition QueryDirectoryResponseDecoder_OutputBufferLength :: "slice \<Rightarrow> u32 option" where "QueryDirectoryResponseDecoder_OutputBufferLength r = get32 4 r"

definition QueryDirectoryResponseDecoder_IsInvalid :: "slice \<Rightarrow> bool option" where
  "QueryDirectoryResponseDecoder_IsInvalid r =
     check_body 8 9 QueryDirectoryResponseDecoder_StructureSize r
       (do { off \<leftarrow> QueryDirectoryResponseDecoder_OutputBufferOffset r;
             len \<leftarrow> QueryDirectoryResponseDecoder_OutputBufferLength r;
             Some (int (slen r) < uint (ucast off + len) - 64) })"

definition QueryDirectoryResponseDecoder_OutputBuffer :: "slice \<Rightarrow> slice option" where
  "QueryDirectoryResponseDecoder_OutputBuffer r =
     do { off \<leftarrow> QueryDirectoryResponseDecoder_OutputBufferOffset r;
          if off < 64 + 8 then Some nil_slice
          else do { len \<leftarrow> QueryDirectoryResponseDecoder_OutputBufferLength r; sub32 (ucast (off - 64)) len r } }"

definition QueryInfoResponseDecoder_StructureSize :: "slice \<Rightarrow> u16 option" where "QueryInfoResponseDecoder_StructureSize r = get16 0 r"
definition QueryInfoResponseDecoder_OutputBufferOffset :: "slice \<Rightarrow> u16 option" where "QueryInfoResponseDecoder_OutputBufferOffset r = get16 2 r"
definition QueryInfoResponseDecoder_OutputBufferLength :: "slice \<Rightarrow> u32 option" where "QueryInfoResponseDecoder_OutputBufferLength r = get32 4 r"

definition QueryInfoResponseDecoder_IsInvalid :: "slice \<Rightarrow> bool option" where
  "QueryInfoResponseDecoder_IsInvalid r =
     check_body 8 9 QueryInfoResponseDecoder_StructureSize r
       (do { off \<leftarrow> QueryInfoResponseDecoder_OutputBufferOffset r;
             len \<leftarrow> QueryInfoResponseDecoder_OutputBufferLength r;
             Some (int (slen r) < uint (ucast off + len) - 64) })"

definition QueryInfoResponseDecoder_OutputBuffer :: "slice \<Rightarrow> slice option" where
  "QueryInfoResponseDecoder_OutputBuffer r =
     do { off \<leftarrow> QueryInfoResponseDecoder_OutputBufferOffset r;
          if off < 64 + 8 then Some nil_slice
          else do { len \<leftarrow> QueryInfoResponseDecoder_OutputBufferLength r; sub32 (ucast (off - 64)) len r } }"

definition SetInfoResponseDecoder_StructureSize :: "slice \<Rightarrow> u16 option" where "SetInfoResponseDecoder_StructureSize r = get16 0 r"

definition SetInfoResponseDecoder_IsInvalid :: "slice \<Rightarrow> bool option" where
  "SetInfoResponseDecoder_IsInvalid r = check_body 2 2 SetInfoResponseDecoder_StructureSize r (Some False)"

end
