(* ===== verification/ResponseEncoders.thy ===== *)
theory ResponseEncoders
  imports RequestEncoders ResponseDecoders
begin

text \<open>
  The response bodies a server encodes (internal/smb2/response.go) and the data of its create
  contexts. As for the requests, \<open>Encode\<close> fills \<open>pkt\<close>, the header with the response's command and
  the body from byte 64 on. A nil \<open>*Filetime\<close> or \<open>Encoder\<close> is \<open>None\<close>.
\<close>

section \<open>Errors\<close>

record ErrorContextResponse =
  ec_ErrorId :: u32
  ec_ErrorData :: "enc option"

text \<open>\<open>Size\<close> asks \<open>ErrorData\<close> for its size whether it is nil or not, and so does \<open>Encode\<close>
  before it tests for nil.\<close>

definition ErrorContextResponse_Size :: "ErrorContextResponse \<Rightarrow> nat option" where
  "ErrorContextResponse_Size c = map_option (\<lambda>d. 8 + en_size d) (ec_ErrorData c)"

definition ErrorContextResponse_Encode :: "ErrorContextResponse \<Rightarrow> bytes \<Rightarrow> bytes option" where
  "ErrorContextResponse_Encode c p =
     (case ec_ErrorData c of
        None \<Rightarrow> None
      | Some d \<Rightarrow> seqw [put32 0 (of_nat (en_size d)), put32 4 (ec_ErrorId c), at_off 8 (en_encode d)] p)"

fun ErrorContextListResponse_Size :: "nat \<Rightarrow> ErrorContextResponse list \<Rightarrow> nat option" where
  "ErrorContextListResponse_Size sz [] = Some sz"
| "ErrorContextListResponse_Size sz (ec # c) =
     do { n \<leftarrow> ErrorContextResponse_Size ec; ErrorContextListResponse_Size (round8 sz + n) c }"

fun ErrorContextListResponse_Encode :: "nat \<Rightarrow> ErrorContextResponse list \<Rightarrow> bytes \<Rightarrow> bytes option" where
  "ErrorContextListResponse_Encode off [] p = Some p"
| "ErrorContextListResponse_Encode off (ec # c) p =
     do { p \<leftarrow> at_off (round8 off) (ErrorContextResponse_Encode ec) p;
          n \<leftarrow> ErrorContextResponse_Size ec;
          ErrorContextListResponse_Encode (round8 off + n) c p }"

text \<open>\<open>ErrorResponse.ErrorData\<close>: the type switch in \<open>Encode\<close> tells a list of contexts from any
  other value.\<close>

datatype error_data = ErrorContextList "ErrorContextResponse list" | ErrorValue enc

fun error_data_size :: "error_data \<Rightarrow> nat option" where
  "error_data_size (ErrorContextList c) = ErrorContextListResponse_Size 0 c"
| "error_data_size (ErrorValue d) = Some (en_size d)"

fun error_data_encode :: "error_data \<Rightarrow> bytes \<Rightarrow> bytes option" where
  "error_data_encode (ErrorContextList c) = ErrorContextListResponse_Encode 0 c"
| "error_data_encode (ErrorValue d) = en_encode d"

record ErrorResponse =
  er_Header :: PacketHeader
  er_ErrorData :: "error_data option"

definition ErrorResponse_Size :: "ErrorResponse \<Rightarrow> nat option" where
  "ErrorResponse_Size c =
     (case er_ErrorData c of None \<Rightarrow> Some (64 + 8 + 1)
      | Some d \<Rightarrow> map_option (\<lambda>n. 64 + 8 + n) (error_data_size d))"

text \<open>It keeps the header's own command. The length of the data goes to bytes 2 and 3, and the
  number of contexts over the first of them.\<close>

definition ErrorResponse_Encode :: "ErrorResponse \<Rightarrow> bytes \<Rightarrow> bytes option" where
  "ErrorResponse_Encode c =
     seqw [encodeHeader (er_Header c), at_off 64 (seqw
       (put16 0 9 #
        (case er_ErrorData c of
           None \<Rightarrow> []
         | Some d \<Rightarrow>
             [\<lambda>p. Option.bind (error_data_size d) (\<lambda>n. put16 2 (of_nat n) p),
              at_off 8 (error_data_encode d)] @
             (case d of ErrorContextList e \<Rightarrow> [put8 2 (of_nat (length e))] | _ \<Rightarrow> []))))]"

record SmallBufferErrorResponse =
  sb_RequiredBufferLength :: u32

definition SmallBufferErrorResponse_Size :: "SmallBufferErrorResponse \<Rightarrow> nat" where
  "SmallBufferErrorResponse_Size c = 4"

definition SmallBufferErrorResponse_Encode :: "SmallBufferErrorResponse \<Rightarrow> bytes \<Rightarrow> bytes option" where
  "SmallBufferErrorResponse_Encode c = put32 0 (sb_RequiredBufferLength c)"

record SymbolicLinkErrorResponse =
  sl_UnparsedPathLength :: u16
  sl_Flags :: u32
  sl_SubstituteName :: "rune list"
  sl_PrintName :: "rune list"

definition SymbolicLinkErrorResponse_Size :: "SymbolicLinkErrorResponse \<Rightarrow> nat" where
  "SymbolicLinkErrorResponse_Size c =
     28 + EncodedStringLen (sl_SubstituteName c) + EncodedStringLen (sl_PrintName c)"

text \<open>The names go to byte 24 and are then overwritten by the flags; the lengths are those of
  the whole buffer it was given.\<close>

definition SymbolicLinkErrorResponse_Encode :: "SymbolicLinkErrorResponse \<Rightarrow> bytes \<Rightarrow> bytes option" where
  "SymbolicLinkErrorResponse_Encode c p =
     (let slen = EncodeString_len (sl_SubstituteName c); plen = EncodeString_len (sl_PrintName c) in
      seqw [at_off 24 (EncodeString (sl_SubstituteName c)),
        at_off (24 + slen) (EncodeString (sl_PrintName c)),
        put32 0 (word_of_int (int (length p) - 4)), put32 4 0x4C4D5953, put32 8 IO_REPARSE_TAG_SYMLINK,
        put16 14 (sl_UnparsedPathLength c), put32 24 (sl_Flags c),
        put16 12 (word_of_int (int (length p) - 12)), put16 16 0, put16 18 (of_nat slen),
        put16 20 (of_nat slen), put16 22 (of_nat plen)] p)"

section \<open>NEGOTIATE and SESSION_SETUP\<close>

record NegotiateResponse =
  nr_Header :: PacketHeader
  nr_SecurityMode :: u16
  nr_DialectRevision :: u16
  nr_ServerGuid :: bytes
  nr_Capabilities :: u32
  nr_MaxTransactSize :: u32
  nr_MaxReadSize :: u32
  nr_MaxWriteSize :: u32
  nr_SystemTime :: "Filetime option"
  nr_ServerStartTime :: "Filetime option"
  nr_SecurityBuffer :: bytes
  nr_Contexts :: "enc list"

definition NegotiateResponse_Size :: "NegotiateResponse \<Rightarrow> nat" where
  "NegotiateResponse_Size c =
     (let size = end_off round8 (64 + length (nr_SecurityBuffer c)) (nr_Contexts c) in
      if size = 64 then 64 + 64 + 1 else 64 + size)"

text \<open>A time that must be there, and one that is skipped when nil.\<close>

definition put_time :: "nat \<Rightarrow> Filetime option \<Rightarrow> bytes \<Rightarrow> bytes option" where
  "put_time a t = (case t of None \<Rightarrow> \<lambda>_. None | Some ft \<Rightarrow> at_range a (a + 8) (Filetime_Encode ft))"

definition opt_time :: "nat \<Rightarrow> Filetime option \<Rightarrow> bytes \<Rightarrow> bytes option" where
  "opt_time a t = (case t of None \<Rightarrow> Some | Some ft \<Rightarrow> at_range a (a + 8) (Filetime_Encode ft))"

definition NegotiateResponse_Encode :: "NegotiateResponse \<Rightarrow> bytes \<Rightarrow> bytes option" where
  "NegotiateResponse_Encode c =
     (let off = 64 + length (nr_SecurityBuffer c) in
      request SMB2_NEGOTIATE (nr_Header c)
       ([put16 0 65, put16 2 (nr_SecurityMode c), put16 4 (nr_DialectRevision c),
         at_range 8 24 (copy_from 0 (nr_ServerGuid c)), put32 24 (nr_Capabilities c),
         put32 28 (nr_MaxTransactSize c), put32 32 (nr_MaxReadSize c), put32 36 (nr_MaxWriteSize c),
         put_time 40 (nr_SystemTime c), put_time 48 (nr_ServerStartTime c),
         copy_from 64 (nr_SecurityBuffer c), put16 56 (64 + 64),
         put16 58 (of_nat (length (nr_SecurityBuffer c)))] @
        (if nr_Contexts c = [] then [] else [put32 60 (of_nat (round8 off + 64))]) @
        [encode_all round8 off (nr_Contexts c), put16 6 (of_nat (length (nr_Contexts c)))]))"

record SessionSetupResponse =
  sr_Header :: PacketHeader
  sr_SessionFlags :: u16
  sr_SecurityBuffer :: bytes

definition SessionSetupResponse_Size :: "SessionSetupResponse \<Rightarrow> nat" where
  "SessionSetupResponse_Size c =
     (if length (sr_SecurityBuffer c) = 0 then 64 + 8 + 1 else 64 + 8 + length (sr_SecurityBuffer c))"

definition SessionSetupResponse_Encode :: "SessionSetupResponse \<Rightarrow> bytes \<Rightarrow> bytes option" where
  "SessionSetupResponse_Encode c =
     request SMB2_SESSION_SETUP (sr_Header c)
       ([put16 0 9, put16 2 (sr_SessionFlags c)] @
        (if length (sr_SecurityBuffer c) \<noteq> 0
         then [put16 4 (8 + 64), copy_from 8 (sr_SecurityBuffer c),
               put16 6 (of_nat (length (sr_SecurityBuffer c)))]
         else []))"

section \<open>LOGOFF, trees, locks and echo\<close>

record LogoffResponse =
  lr_Header :: PacketHeader

definition LogoffResponse_Size :: "LogoffResponse \<Rightarrow> nat" where "LogoffResponse_Size c = 64 + 4"

definition LogoffResponse_Encode :: "LogoffResponse \<Rightarrow> bytes \<Rightarrow> bytes option" where
  "LogoffResponse_Encode c = request SMB2_LOGOFF (lr_Header c) [put16 0 4]"

record TreeConnectResponse =
  tr_Header :: PacketHeader
  tr_ShareType :: u8
  tr_ShareFlags :: u32
  tr_Capabilities :: u32
  tr_MaximalAccess :: u32

definition TreeConnectResponse_Size :: "TreeConnectResponse \<Rightarrow> nat" where
  "TreeConnectResponse_Size c = 64 + 16"

definition TreeConnectResponse_Encode :: "TreeConnectResponse \<Rightarrow> bytes \<Rightarrow> bytes option" where
  "TreeConnectResponse_Encode c =
     request SMB2_TREE_CONNECT (tr_Header c)
       [put16 0 16, put8 2 (tr_ShareType c), put32 4 (tr_ShareFlags c), put32 8 (tr_Capabilities c),
        put32 12 (tr_MaximalAccess c)]"

record TreeDisconnectResponse =
  dr_Header :: PacketHeader

definition TreeDisconnectResponse_Size :: "TreeDisconnectResponse \<Rightarrow> nat" where
  "TreeDisconnectResponse_Size c = 4 + 64"

definition TreeDisconnectResponse_Encode :: "TreeDisconnectResponse \<Rightarrow> bytes \<Rightarrow> bytes option" where
  "TreeDisconnectResponse_Encode c = request SMB2_TREE_DISCONNECT (dr_Header c) [put16 0 4]"

record LockResponse =
  kr_Header :: PacketHeader

definition LockResponse_Size :: "LockResponse \<Rightarrow> nat" where "LockResponse_Size c = 64 + 4"

definition LockResponse_Encode :: "LockResponse \<Rightarrow> bytes \<Rightarrow> bytes option" where
  "LockResponse_Encode c = request SMB2_LOCK (kr_Header c) [put16 0 4, put16 2 0]"

record EchoResponse =
  hr_Header :: PacketHeader

definition EchoResponse_Size :: "EchoResponse \<Rightarrow> nat" where "EchoResponse_Size c = 64 + 4"

definition EchoResponse_Encode :: "EchoResponse \<Rightarrow> bytes \<Rightarrow> bytes option" where
  "EchoResponse_Encode c = request SMB2_ECHO (hr_Header c) [put16 0 4, put16 2 0]"

section \<open>CREATE, CLOSE and FLUSH\<close>

record CreateResponse =
  cp_Header :: PacketHeader
  cp_OplockLevel :: u8
  cp_RspFlags :: u8
  cp_CreateAction :: u32
  cp_CreationTime :: "Filetime option"
  cp_LastAccessTime :: "Filetime option"
  cp_LastWriteTime :: "Filetime option"
  cp_ChangeTime :: "Filetime option"
  cp_AllocationSize :: int
  cp_EndofFile :: int
  cp_FileAttributes :: u32
  cp_FileId :: "FileId option"
  cp_Contexts :: "enc list"

definition CreateResponse_Size :: "CreateResponse \<Rightarrow> nat" where
  "CreateResponse_Size c =
     (if cp_Contexts c = [] then 64 + 88 + 1 else end_off round8 (64 + 88) (cp_Contexts c))"

definition CreateResponse_Encode :: "CreateResponse \<Rightarrow> bytes \<Rightarrow> bytes option" where
  "CreateResponse_Encode c =
     request SMB2_CREATE (cp_Header c)
       [put16 0 89, put8 2 (cp_OplockLevel c), put8 3 (cp_RspFlags c), put32 4 (cp_CreateAction c),
        opt_time 8 (cp_CreationTime c), opt_time 16 (cp_LastAccessTime c),
        opt_time 24 (cp_LastWriteTime c), opt_time 32 (cp_ChangeTime c),
        put64 40 (word_of_int (cp_AllocationSize c)), put64 48 (word_of_int (cp_EndofFile c)),
        put32 56 (cp_FileAttributes c), at_range 64 80 (FileId_Encode (cp_FileId c)),
        create_contexts 80 None 88 (cp_Contexts c),
        put32 84 (of_nat (end_off round8 88 (cp_Contexts c) - 88))]"

record CreateContext =
  cx_Name :: bytes
  cx_Data :: enc

definition CreateContext_Size :: "CreateContext \<Rightarrow> nat" where
  "CreateContext_Size r = round8 (16 + length (cx_Name r)) + en_size (cx_Data r)"

definition CreateContext_Encode :: "CreateContext \<Rightarrow> bytes \<Rightarrow> bytes option" where
  "CreateContext_Encode r =
     (let off = round8 (16 + length (cx_Name r)) in
      seqw [put16 4 16, put16 6 (of_nat (length (cx_Name r))), put16 10 (of_nat off),
        put32 12 (of_nat (en_size (cx_Data r))), copy_from 16 (cx_Name r), at_off off (en_encode (cx_Data r))])"

record CreateContextMaximalAccessResponse =
  ma_QueryStatus :: u32
  ma_MaximalAccess :: u32

definition CreateContextMaximalAccessResponse_Size :: "CreateContextMaximalAccessResponse \<Rightarrow> nat" where
  "CreateContextMaximalAccessResponse_Size r = 8"

definition CreateContextMaximalAccessResponse_Encode ::
  "CreateContextMaximalAccessResponse \<Rightarrow> bytes \<Rightarrow> bytes option" where
  "CreateContextMaximalAccessResponse_Encode r = seqw [put32 0 (ma_QueryStatus r), put32 4 (ma_MaximalAccess r)]"

record CloseResponse =
  cs_Header :: PacketHeader
  cs_CloseFlags :: u16
  cs_CreationTime :: "Filetime option"
  cs_LastAccessTime :: "Filetime option"
  cs_LastWriteTime :: "Filetime option"
  cs_ChangeTime :: "Filetime option"
  cs_AllocationSize :: int
  cs_EndofFile :: int
  cs_FileAttributes :: u32

definition CloseResponse_Size :: "CloseResponse \<Rightarrow> nat" where "CloseResponse_Size c = 64 + 60"

definition CloseResponse_Encode :: "CloseResponse \<Rightarrow> bytes \<Rightarrow> bytes option" where
  "CloseResponse_Encode c =
     request SMB2_CLOSE (cs_Header c)
       [put16 0 60, put16 2 (cs_CloseFlags c), opt_time 8 (cs_CreationTime c),
        opt_time 16 (cs_LastAccessTime c), opt_time 24 (cs_LastWriteTime c), opt_time 32 (cs_ChangeTime c),
        put64 40 (word_of_int (cs_AllocationSize c)), put64 48 (word_of_int (cs_EndofFile c)),
        put32 56 (cs_FileAttributes c)]"

record FlushResponse =
  fr_Header :: PacketHeader

definition FlushResponse_Size :: "FlushResponse \<Rightarrow> nat" where "FlushResponse_Size c = 64 + 4"

definition FlushResponse_Encode :: "FlushResponse \<Rightarrow> bytes \<Rightarrow> bytes option" where
  "FlushResponse_Encode c = request SMB2_FLUSH (fr_Header c) [put16 0 4]"

section \<open>READ and WRITE\<close>

record ReadResponse =
  rr_Header :: PacketHeader
  rr_Data :: bytes
  rr_DataRemaining :: u32

definition ReadResponse_Size :: "ReadResponse \<Rightarrow> nat" where
  "ReadResponse_Size c = (if length (rr_Data c) = 0 then 64 + 16 + 1 else 64 + 16 + length (rr_Data c))"

definition ReadResponse_Encode :: "ReadResponse \<Rightarrow> bytes \<Rightarrow> bytes option" where
  "ReadResponse_Encode c =
     request SMB2_READ (rr_Header c)
       [put16 0 17, put8 2 (16 + 64), copy_from 16 (rr_Data c),
        put32 4 (of_nat (length (rr_Data c))), put32 8 (rr_DataRemaining c)]"

record WriteResponse =
  wp_Header :: PacketHeader
  wp_Count :: u32
  wp_Remaining :: u32

definition WriteResponse_Size :: "WriteResponse \<Rightarrow> nat" where "WriteResponse_Size c = 64 + 16 + 1"

definition WriteResponse_Encode :: "WriteResponse \<Rightarrow> bytes \<Rightarrow> bytes option" where
  "WriteResponse_Encode c =
     request SMB2_WRITE (wp_Header c) [put16 0 17, put32 4 (wp_Count c), put32 8 (wp_Remaining c)]"

section \<open>IOCTL\<close>

record IoctlResponse =
  ip_Header :: PacketHeader
  ip_CtlCode :: u32
  ip_FileId :: "FileId option"
  ip_Flags2 :: u32
  ip_Input :: "enc option"
  ip_Output :: "enc option"

definition opt_size :: "enc option \<Rightarrow> nat" where
  "opt_size i = (case i of None \<Rightarrow> 0 | Some d \<Rightarrow> en_size d)"

definition IoctlResponse_Size :: "IoctlResponse \<Rightarrow> nat" where
  "IoctlResponse_Size c =
     (if ip_Input c = None \<and> ip_Output c = None then 64 + 48 + 1
      else 64 + 48 + opt_size (ip_Input c) + opt_size (ip_Output c))"

definition IoctlResponse_Encode :: "IoctlResponse \<Rightarrow> bytes \<Rightarrow> bytes option" where
  "IoctlResponse_Encode c =
     (let off = 48 + opt_size (ip_Input c) in
      request SMB2_IOCTL (ip_Header c)
       ([put16 0 49, put32 4 (ip_CtlCode c), at_range 8 24 (FileId_Encode (ip_FileId c)),
         put32 40 (ip_Flags2 c)] @
        (case ip_Input c of None \<Rightarrow> []
         | Some d \<Rightarrow> [put32 24 (48 + 64), at_off 48 (en_encode d), put32 28 (of_nat (en_size d))]) @
        (case ip_Output c of None \<Rightarrow> []
         | Some d \<Rightarrow> [put32 32 (of_nat (off + 64)), at_off off (en_encode d), put32 36 (of_nat (en_size d))])))"

section \<open>Responses with one output\<close>

text \<open>QUERY_DIRECTORY, QUERY_INFO and CHANGE_NOTIFY have the same body.\<close>

definition output_size :: "enc option \<Rightarrow> nat" where
  "output_size out = (case out of None \<Rightarrow> 64 + 8 + 1 | Some d \<Rightarrow> 64 + 8 + en_size d)"

definition output_body :: "enc option \<Rightarrow> (bytes \<Rightarrow> bytes option) list" where
  "output_body out =
     put16 0 9 #
     (case out of None \<Rightarrow> []
      | Some d \<Rightarrow> [put16 2 (8 + 64), at_off 8 (en_encode d), put32 4 (of_nat (en_size d))])"

record QueryDirectoryResponse =
  qr_Header :: PacketHeader
  qr_Output :: "enc option"

definition QueryDirectoryResponse_Size :: "QueryDirectoryResponse \<Rightarrow> nat" where
  "QueryDirectoryResponse_Size c = output_size (qr_Output c)"

definition QueryDirectoryResponse_Encode :: "QueryDirectoryResponse \<Rightarrow> bytes \<Rightarrow> bytes option" where
  "QueryDirectoryResponse_Encode c = request SMB2_QUERY_DIRECTORY (qr_Header c) (output_body (qr_Output c))"

record QueryInfoResponse =
  qp_Header :: PacketHeader
  qp_Output :: "enc option"

definition QueryInfoResponse_Size :: "QueryInfoResponse \<Rightarrow> nat" where
  "QueryInfoResponse_Size c = output_size (qp_Output c)"

definition QueryInfoResponse_Encode :: "QueryInfoResponse \<Rightarrow> bytes \<Rightarrow> bytes option" where
  "QueryInfoResponse_Encode c = request SMB2_QUERY_INFO (qp_Header c) (output_body (qp_Output c))"

record SetInfoResponse =
  sp_Header :: PacketHeader

definition SetInfoResponse_Size :: "SetInfoResponse \<Rightarrow> nat" where "SetInfoResponse_Size c = 64 + 2"

definition SetInfoResponse_Encode :: "SetInfoResponse \<Rightarrow> bytes \<Rightarrow> bytes option" where
  "SetInfoResponse_Encode c = request SMB2_SET_INFO (sp_Header c) [put16 0 2]"

record ChangeNotifyResponse =
  np_Header :: PacketHeader
  np_Output :: "enc option"

definition ChangeNotifyResponse_Size :: "ChangeNotifyResponse \<Rightarrow> nat" where
  "ChangeNotifyResponse_Size c = output_size (np_Output c)"

definition ChangeNotifyResponse_Encode :: "ChangeNotifyResponse \<Rightarrow> bytes \<Rightarrow> bytes option" where
  "ChangeNotifyResponse_Encode c = request SMB2_CHANGE_NOTIFY (np_Header c) (output_body (np_Output c))"

section \<open>The create contexts' data\<close>

record AAPLServerQueryResponse =
  aq_CommandCode :: u32
  aq_ReplyBitmap :: u64
  aq_ServerCaps :: u64
  aq_VolumeCaps :: u64
  aq_ModelString :: "rune list"

definition AAPLServerQueryResponse_Size :: "AAPLServerQueryResponse \<Rightarrow> nat" where
  "AAPLServerQueryResponse_Size r = round8 (40 + EncodedStringLen (aq_ModelString r))"

definition AAPLServerQueryResponse_Encode :: "AAPLServerQueryResponse \<Rightarrow> bytes \<Rightarrow> bytes option" where
  "AAPLServerQueryResponse_Encode r =
     seqw [put32 0 (aq_CommandCode r), put64 8 (aq_ReplyBitmap r), put64 16 (aq_ServerCaps r),
       put64 24 (aq_VolumeCaps r), put32 36 (of_nat (EncodedStringLen (aq_ModelString r))),
       at_off 40 (EncodeString (aq_ModelString r))]"

record DurableHandleResponse2 =
  dh_Timeout :: u32
  dh_Flags :: u32

definition DurableHandleResponse2_Size :: "DurableHandleResponse2 \<Rightarrow> nat" where
  "DurableHandleResponse2_Size r = 8"

definition DurableHandleResponse2_Encode :: "DurableHandleResponse2 \<Rightarrow> bytes \<Rightarrow> bytes option" where
  "DurableHandleResponse2_Encode r = seqw [put32 0 (dh_Timeout r), put32 4 (dh_Flags r)]"

record LeaseResponse =
  ls_LeaseKey :: bytes
  ls_LeaseState :: u32
  ls_LeaseFlags :: u32
  ls_LeaseDuration :: u64

definition LeaseResponse_Size :: "LeaseResponse \<Rightarrow> nat" where "LeaseResponse_Size r = 32"

definition LeaseResponse_Encode :: "LeaseResponse \<Rightarrow> bytes \<Rightarrow> bytes option" where
  "LeaseResponse_Encode r =
     seqw [copy_from 0 (ls_LeaseKey r), put32 16 (ls_LeaseState r), put32 20 (ls_LeaseFlags r),
       put64 24 (ls_LeaseDuration r)]"

record LeaseResponse2 =
  l2_LeaseResponse :: LeaseResponse
  l2_ParentLeaseKey :: bytes
  l2_Epoch :: u16

definition LeaseResponse2_Size :: "LeaseResponse2 \<Rightarrow> nat" where "LeaseResponse2_Size r = 52"

definition LeaseResponse2_Encode :: "LeaseResponse2 \<Rightarrow> bytes \<Rightarrow> bytes option" where
  "LeaseResponse2_Encode r =
     seqw [LeaseResponse_Encode (l2_LeaseResponse r), copy_from 32 (l2_ParentLeaseKey r), put16 48 (l2_Epoch r)]"

record DiskIdResponse =
  di_DiskFileId :: u64
  di_VolumeId :: u64

definition DiskIdResponse_Size :: "DiskIdResponse \<Rightarrow> nat" where "DiskIdResponse_Size r = 32"

definition DiskIdResponse_Encode :: "DiskIdResponse \<Rightarrow> bytes \<Rightarrow> bytes option" where
  "DiskIdResponse_Encode r = seqw [put64 0 (di_DiskFileId r), put64 8 (di_VolumeId r)]"

end
