(* ===== verification/ResponseInterfaces.thy ===== *)
theory ResponseInterfaces
  imports RequestInterfaces ResponseEncoders
begin

text \<open>
  Every response and every create context the server builds implements the Encoder interface:
  \<open>sendPacket\<close> allocates \<open>Size()\<close> bytes and calls \<open>Encode\<close>, which then neither panics nor writes
  behind them.
\<close>

lemma fits_time [fit]: "fits 8 (Filetime_Encode t)"
  unfolding Filetime_Encode_def by (intro fit) simp_all

lemma fits_opt_time [fit]: "a + 8 \<le> n \<Longrightarrow> fits n (opt_time a t)"
  by (cases t) (auto simp: opt_time_def fits_def [of n Some] intro!: fit)

lemma fits_put_time [fit]: "a + 8 \<le> n \<Longrightarrow> fits n (put_time a (Some t))"
  by (auto simp: put_time_def intro!: fit)

interpretation session_setup_rsp: encoder SessionSetupResponse_Size SessionSetupResponse_Encode "\<lambda>_. True"
  by unfold_locales (unfold SessionSetupResponse_Encode_def, rule request_fits,
    auto simp: SessionSetupResponse_Size_def intro!: fit)

interpretation logoff_rsp: encoder LogoffResponse_Size LogoffResponse_Encode "\<lambda>_. True"
  by unfold_locales (unfold LogoffResponse_Encode_def, rule request_fits,
    auto simp: LogoffResponse_Size_def intro!: fit)

interpretation tree_connect_rsp: encoder TreeConnectResponse_Size TreeConnectResponse_Encode "\<lambda>_. True"
  by unfold_locales (unfold TreeConnectResponse_Encode_def, rule request_fits,
    auto simp: TreeConnectResponse_Size_def intro!: fit)

interpretation tree_disconnect_rsp: encoder TreeDisconnectResponse_Size TreeDisconnectResponse_Encode "\<lambda>_. True"
  by unfold_locales (unfold TreeDisconnectResponse_Encode_def, rule request_fits,
    auto simp: TreeDisconnectResponse_Size_def intro!: fit)

interpretation lock_rsp: encoder LockResponse_Size LockResponse_Encode "\<lambda>_. True"
  by unfold_locales (unfold LockResponse_Encode_def, rule request_fits,
    auto simp: LockResponse_Size_def intro!: fit)

interpretation echo_rsp: encoder EchoResponse_Size EchoResponse_Encode "\<lambda>_. True"
  by unfold_locales (unfold EchoResponse_Encode_def, rule request_fits,
    auto simp: EchoResponse_Size_def intro!: fit)

interpretation close_rsp: encoder CloseResponse_Size CloseResponse_Encode "\<lambda>_. True"
  by unfold_locales (unfold CloseResponse_Encode_def, rule request_fits,
    auto simp: CloseResponse_Size_def intro!: fit)

interpretation flush_rsp: encoder FlushResponse_Size FlushResponse_Encode "\<lambda>_. True"
  by unfold_locales (unfold FlushResponse_Encode_def, rule request_fits,
    auto simp: FlushResponse_Size_def intro!: fit)

interpretation read_rsp: encoder ReadResponse_Size ReadResponse_Encode "\<lambda>_. True"
  by unfold_locales (unfold ReadResponse_Encode_def, rule request_fits,
    auto simp: ReadResponse_Size_def intro!: fit)

interpretation write_rsp: encoder WriteResponse_Size WriteResponse_Encode "\<lambda>_. True"
  by unfold_locales (unfold WriteResponse_Encode_def, rule request_fits,
    auto simp: WriteResponse_Size_def intro!: fit)

interpretation set_info_rsp: encoder SetInfoResponse_Size SetInfoResponse_Encode "\<lambda>_. True"
  by unfold_locales (unfold SetInfoResponse_Encode_def, rule request_fits,
    auto simp: SetInfoResponse_Size_def intro!: fit)

interpretation negotiate_rsp: encoder NegotiateResponse_Size NegotiateResponse_Encode
    "\<lambda>c. length (nr_ServerGuid c) = 16 \<and> nr_SystemTime c \<noteq> None \<and> nr_ServerStartTime c \<noteq> None \<and>
         infos_ok (nr_Contexts c)"
proof
  fix c :: NegotiateResponse
  assume ok: "length (nr_ServerGuid c) = 16 \<and> nr_SystemTime c \<noteq> None \<and> nr_ServerStartTime c \<noteq> None \<and>
    infos_ok (nr_Contexts c)"
  have "64 + length (nr_SecurityBuffer c) \<le> end_off round8 (64 + length (nr_SecurityBuffer c)) (nr_Contexts c)"
    by (rule end_off_ge) (rule round8_ge)
  with ok show "fits (NegotiateResponse_Size c) (NegotiateResponse_Encode c)"
    unfolding NegotiateResponse_Encode_def Let_def
    by (intro request_fits) (auto simp: NegotiateResponse_Size_def Let_def intro!: fit)
qed

interpretation create_rsp: encoder CreateResponse_Size CreateResponse_Encode
    "\<lambda>c. fid_opt_ok (cp_FileId c) \<and> ctxs_ok (cp_Contexts c)"
proof
  fix c :: CreateResponse
  assume ok: "fid_opt_ok (cp_FileId c) \<and> ctxs_ok (cp_Contexts c)"
  have e: "end_off round8 152 (cp_Contexts c) = 64 + end_off round8 88 (cp_Contexts c)"
    using end_off_shift [of 88] by simp
  have "88 \<le> end_off round8 88 (cp_Contexts c)" by (rule end_off_ge) (rule round8_ge)
  with ok e show "fits (CreateResponse_Size c) (CreateResponse_Encode c)"
    unfolding CreateResponse_Encode_def
    by (intro request_fits) (auto simp: CreateResponse_Size_def intro!: fit)
qed

interpretation ioctl_rsp: encoder IoctlResponse_Size IoctlResponse_Encode
    "\<lambda>c. fid_opt_ok (ip_FileId c) \<and> input_ok (ip_Input c) \<and> input_ok (ip_Output c)"
  by unfold_locales (unfold IoctlResponse_Encode_def Let_def, rule request_fits,
    auto simp: IoctlResponse_Size_def input_ok_def opt_size_def split: option.splits intro!: fit)

lemma fits_output [fit]: "input_ok out \<Longrightarrow> fits (output_size out - 64) (seqw (output_body out))"
  by (cases out) (auto simp: output_size_def output_body_def input_ok_def intro!: fit)

lemma output_size_ge: "64 \<le> output_size out"
  by (cases out) (simp_all add: output_size_def)

interpretation query_directory_rsp: encoder QueryDirectoryResponse_Size QueryDirectoryResponse_Encode
    "\<lambda>c. input_ok (qr_Output c)"
  by unfold_locales (auto simp: QueryDirectoryResponse_Encode_def QueryDirectoryResponse_Size_def output_size_ge
    intro!: request_fits fit)

interpretation query_info_rsp: encoder QueryInfoResponse_Size QueryInfoResponse_Encode
    "\<lambda>c. input_ok (qp_Output c)"
  by unfold_locales (auto simp: QueryInfoResponse_Encode_def QueryInfoResponse_Size_def output_size_ge
    intro!: request_fits fit)

interpretation change_notify_rsp: encoder ChangeNotifyResponse_Size ChangeNotifyResponse_Encode
    "\<lambda>c. input_ok (np_Output c)"
  by unfold_locales (auto simp: ChangeNotifyResponse_Encode_def ChangeNotifyResponse_Size_def output_size_ge
    intro!: request_fits fit)

text \<open>A list of error contexts fits the bytes its \<open>Size\<close> asks for, when every context's data fits its
  own; a nil \<open>ErrorData\<close> in a context makes \<open>Size\<close> panic already.\<close>

definition error_data_ok :: "error_data \<Rightarrow> bool" where
  "error_data_ok d \<longleftrightarrow>
     (case d of ErrorContextList c \<Rightarrow> \<forall>ec \<in> set c. \<forall>v. ec_ErrorData ec = Some v \<longrightarrow> enc_ok v | ErrorValue v \<Rightarrow> enc_ok v)"

lemma fits_error_context:
  "ErrorContextResponse_Size c = Some n \<Longrightarrow> (\<And>v. ec_ErrorData c = Some v \<Longrightarrow> enc_ok v) \<Longrightarrow>
   fits n (ErrorContextResponse_Encode c)"
proof -
  assume n: "ErrorContextResponse_Size c = Some n" and ok: "\<And>v. ec_ErrorData c = Some v \<Longrightarrow> enc_ok v"
  then obtain v where v: "ec_ErrorData c = Some v" "n = 8 + en_size v"
    by (auto simp: ErrorContextResponse_Size_def)
  have "fits n (seqw [put32 0 (of_nat (en_size v)), put32 4 (ec_ErrorId c), at_off 8 (en_encode v)])"
    using ok [OF v(1)] v(2) by (intro fit) (simp_all add: enc_ok_def)
  moreover have "ErrorContextResponse_Encode c = seqw [put32 0 (of_nat (en_size v)), put32 4 (ec_ErrorId c), at_off 8 (en_encode v)]"
    using v(1) by (simp add: fun_eq_iff ErrorContextResponse_Encode_def)
  ultimately show ?thesis by metis
qed

lemma fits_error_contexts:
  "ErrorContextListResponse_Size off c = Some n \<Longrightarrow>
   \<forall>ec \<in> set c. \<forall>v. ec_ErrorData ec = Some v \<longrightarrow> enc_ok v \<Longrightarrow>
   off \<le> n \<and> fits n (ErrorContextListResponse_Encode off c)"
proof (induction c arbitrary: off)
  case Nil
  then show ?case by (simp add: fits_def)
next
  case (Cons ec c)
  then obtain m where m: "ErrorContextResponse_Size ec = Some m" "ErrorContextListResponse_Size (round8 off + m) c = Some n"
    by (auto simp: bind_eq_Some_conv)
  with Cons.IH [OF m(2)] Cons.prems(2)
  have rest: "round8 off + m \<le> n" "fits n (ErrorContextListResponse_Encode (round8 off + m) c)" by auto
  have "fits m (ErrorContextResponse_Encode ec)"
    using fits_error_context [OF m(1)] Cons.prems(2) by simp
  then have "fits n (at_off (round8 off) (ErrorContextResponse_Encode ec))"
    using rest(1) fits_mono [of m "ErrorContextResponse_Encode ec" "n - round8 off"] by (intro fits_at_off) auto
  then have "fits n (seqw [at_off (round8 off) (ErrorContextResponse_Encode ec), ErrorContextListResponse_Encode (round8 off + m) c])"
    using rest(2) by (intro fits_Cons fits_Nil)
  moreover have "seqw [at_off (round8 off) (ErrorContextResponse_Encode ec), ErrorContextListResponse_Encode (round8 off + m) c] =
      ErrorContextListResponse_Encode off (ec # c)"
    using m(1) by (simp add: fun_eq_iff split: Option.bind_split)
  ultimately have "fits n (ErrorContextListResponse_Encode off (ec # c))" by metis
  then show ?case using rest(1) round8_ge [of off] by (simp del: ErrorContextListResponse_Encode.simps)
qed

lemma fits_error_data: "error_data_size d = Some n \<Longrightarrow> error_data_ok d \<Longrightarrow> fits n (error_data_encode d)"
  and enc_ok_ErrorValue: "error_data_ok (ErrorValue v) = enc_ok v"
  using fits_error_contexts by (cases d) (auto simp: error_data_ok_def enc_ok_def)

interpretation error_rsp: encoder "\<lambda>c. the (ErrorResponse_Size c)" ErrorResponse_Encode
    "\<lambda>c. ErrorResponse_Size c \<noteq> None \<and> (\<forall>d. er_ErrorData c = Some d \<longrightarrow> error_data_ok d)"
proof
  fix c :: ErrorResponse
  assume ok: "ErrorResponse_Size c \<noteq> None \<and> (\<forall>d. er_ErrorData c = Some d \<longrightarrow> error_data_ok d)"
  have q: "ErrorResponse_Encode c = request (ph_Command (er_Header c)) (er_Header c) body"
    if "ErrorResponse_Encode c = seqw [encodeHeader (er_Header c), at_off 64 (seqw body)]" for body
    using that by (cases "er_Header c") (simp add: request_def)
  show "fits (the (ErrorResponse_Size c)) (ErrorResponse_Encode c)"
    unfolding q [OF ErrorResponse_Encode_def]
  proof (rule request_fits)
    show "64 \<le> the (ErrorResponse_Size c)"
      using ok by (auto simp: ErrorResponse_Size_def split: option.splits)
    show "fits (the (ErrorResponse_Size c) - 64) (seqw (put16 0 9 #
        (case er_ErrorData c of
           None \<Rightarrow> []
         | Some d \<Rightarrow>
             [\<lambda>p. Option.bind (error_data_size d) (\<lambda>n. put16 2 (of_nat n) p), at_off 8 (error_data_encode d)] @
             (case d of ErrorContextList e \<Rightarrow> [put8 2 (of_nat (length e))] | _ \<Rightarrow> []))))"
    proof (cases "er_ErrorData c")
      case None
      then show ?thesis using ok by (auto simp: ErrorResponse_Size_def intro!: fit)
    next
      case (Some d)
      then obtain m where m: "error_data_size d = Some m" using ok by (auto simp: ErrorResponse_Size_def)
      have "fits m (error_data_encode d)" using fits_error_data [OF m] Some ok by simp
      then show ?thesis
        using Some m by (cases d) (simp_all add: ErrorResponse_Size_def; intro fit; simp)+
    qed
  qed
qed

section \<open>Create contexts\<close>

interpretation max_access_cc: encoder CreateContextMaximalAccessResponse_Size
    CreateContextMaximalAccessResponse_Encode "\<lambda>_. True"
  by unfold_locales (auto simp: CreateContextMaximalAccessResponse_Encode_def
    CreateContextMaximalAccessResponse_Size_def intro!: fit)

interpretation aapl_cc: encoder AAPLServerQueryResponse_Size AAPLServerQueryResponse_Encode "\<lambda>_. True"
proof
  fix r :: AAPLServerQueryResponse
  have "40 + EncodedStringLen (aq_ModelString r) \<le> AAPLServerQueryResponse_Size r"
    by (simp add: AAPLServerQueryResponse_Size_def round8_ge)
  then show "fits (AAPLServerQueryResponse_Size r) (AAPLServerQueryResponse_Encode r)"
    unfolding AAPLServerQueryResponse_Encode_def by (intro fit) simp_all
qed

interpretation durable_cc: encoder DurableHandleResponse2_Size DurableHandleResponse2_Encode "\<lambda>_. True"
  by unfold_locales (auto simp: DurableHandleResponse2_Encode_def DurableHandleResponse2_Size_def intro!: fit)

interpretation lease_cc: encoder LeaseResponse_Size LeaseResponse_Encode "\<lambda>r. length (ls_LeaseKey r) \<le> 16"
  by unfold_locales (auto simp: LeaseResponse_Encode_def LeaseResponse_Size_def intro!: fit)

interpretation lease2_cc: encoder LeaseResponse2_Size LeaseResponse2_Encode
    "\<lambda>r. length (ls_LeaseKey (l2_LeaseResponse r)) \<le> 16 \<and> length (l2_ParentLeaseKey r) \<le> 16"
  by unfold_locales (auto simp: LeaseResponse2_Encode_def LeaseResponse2_Size_def LeaseResponse_Encode_def intro!: fit)

interpretation disk_id_cc: encoder DiskIdResponse_Size DiskIdResponse_Encode "\<lambda>_. True"
  by unfold_locales (auto simp: DiskIdResponse_Encode_def DiskIdResponse_Size_def intro!: fit)

interpretation create_context: encoder CreateContext_Size CreateContext_Encode "\<lambda>r. enc_ok (cx_Data r)"
proof
  fix r :: CreateContext
  assume "enc_ok (cx_Data r)"
  moreover have "16 + length (cx_Name r) \<le> round8 (16 + length (cx_Name r))" by (rule round8_ge)
  ultimately show "fits (CreateContext_Size r) (CreateContext_Encode r)"
    unfolding CreateContext_Encode_def CreateContext_Size_def Let_def by (intro fit) simp_all
qed

end
