(* ===== verification/ResponseRoundtrips.thy ===== *)
theory ResponseRoundtrips
  imports RequestRoundtrips ResponseInterfaces
begin

text \<open>
  The round trip of each response: what the server encodes is delivered to a client's decoder,
  whose check accepts it and whose accessors return the response's fields. A value encoded last
  into its response (a query's output) arrives byte for byte.
\<close>

section \<open>Times\<close>

definition time_bytes :: "Filetime option \<Rightarrow> bytes \<Rightarrow> bytes" where
  "time_bytes t w = (case t of
     None \<Rightarrow> take 8 (w @ replicate 8 0)
   | Some ft \<Rightarrow> le_bytes 4 (unat (ft_LowDateTime ft)) @ le_bytes 4 (unat (ft_HighDateTime ft)))"

definition the_time :: "Filetime option \<Rightarrow> Filetime" where
  "the_time t = (case t of None \<Rightarrow> \<lparr>ft_LowDateTime = 0, ft_HighDateTime = 0\<rparr> | Some ft \<Rightarrow> ft)"

lemma length_time_bytes [simp]: "length (time_bytes t w) = 8"
  by (cases t) (simp_all add: time_bytes_def)

lemma Filetime_Encode_put: "8 \<le> length p \<Longrightarrow> Filetime_Encode ft p =
    Some (copy_at 0 (le_bytes 4 (unat (ft_LowDateTime ft)) @ le_bytes 4 (unat (ft_HighDateTime ft))) p)"
  using copy_at_append [of 0 "le_bytes 4 (unat (ft_LowDateTime ft))" "le_bytes 4 (unat (ft_HighDateTime ft))" p]
  by (simp add: Filetime_Encode_def puts)

lemma put_filetime:
  "a + 8 \<le> length p \<Longrightarrow> at_range a (a + 8) (Filetime_Encode ft) p = Some (copy_at a (time_bytes (Some ft) w) p)"
  by (rule at_range_put) (simp_all add: time_bytes_def Filetime_Encode_put window_def copy_at_def)

lemma opt_time_put:
  assumes "a + 8 \<le> length p"
  shows "opt_time a t p = Some (copy_at a (time_bytes t (window a 8 p)) p)"
proof (cases t)
  case None
  have "copy_at a (window a 8 p) p = p"
    using assms unfolding copy_at_def window_def
    by (simp add: min_def) (metis append_take_drop_id drop_drop add.commute)
  moreover have "time_bytes None (window a 8 p) = window a 8 p"
    using assms by (simp add: time_bytes_def window_def)
  ultimately show ?thesis using None by (simp add: opt_time_def)
next
  case (Some ft)
  then show ?thesis using assms put_filetime by (simp add: opt_time_def)
qed

lemma put_time_put: "a + 8 \<le> length p \<Longrightarrow>
    put_time a (Some ft) p = Some (copy_at a (time_bytes (Some ft) []) p)"
  by (simp add: put_time_def put_filetime [where w = "[]"])

lemma FiletimeDecoder_at:
  assumes "window a 8 t = time_bytes f (le_bytes 8 0)" and "a + 8 \<le> length t"
  shows "FiletimeDecoder_Decode (Slice (drop a t) n) = Some (the_time f)"
proof -
  have z: "le_bytes k 0 = replicate k 0" for k by (induction k) simp_all
  have w: "window 0 4 (drop a t) = take 4 (window a 8 t)" "window 4 4 (drop a t) = drop 4 (window a 8 t)"
    by (simp_all add: window_def take_drop add.commute min_def)
  show ?thesis
    using assms w by (cases f) (simp_all add: FiletimeDecoder_Decode_def FiletimeDecoder_LowDateTime_def
      FiletimeDecoder_HighDateTime_def get_eqs the_time_def time_bytes_def z le_word)
qed

section \<open>Responses\<close>

lemma sint_wrap64: "sint (word_of_int x :: u64) = wrap64 x"
  by (simp add: signed_of_int signed_take_bit_eq_take_bit_shift take_bit_eq_mod wrap64_def)

text \<open>C30. READ response: the data and the remaining count the server sends are what a client's
  decoder returns, and its check accepts the response.\<close>

theorem ReadResponse_delivered:
  assumes "length (rr_Data c) < 4294967296 - 80"
  shows "delivered (ReadResponse_Encode c) (ReadResponse_Size c) SMB2_READ (rr_Header c)
    (\<lambda>r. ReadResponseDecoder_IsInvalid r = Some False \<and>
         ReadResponseDecoder_DataLength r = Some (of_nat (length (rr_Data c))) \<and>
         ReadResponseDecoder_DataRemaining r = Some (rr_DataRemaining c) \<and>
         map_option sbytes (ReadResponseDecoder_Data r) = Some (rr_Data c))"
proof -
  let ?n = "ReadResponse_Size c"
  have n: "80 + length (rr_Data c) \<le> ?n" by (simp add: ReadResponse_Size_def)
  then have k: "16 + length (rr_Data c) \<le> ?n - 64" by simp
  show ?thesis
    unfolding ReadResponse_Encode_def
    by (rule request_delivered)
      (use assms n k in \<open>simp_all add: body_simps read_simps ReadResponseDecoder_IsInvalid_def
        ReadResponseDecoder_StructureSize_def ReadResponseDecoder_DataOffset_def
        ReadResponseDecoder_DataLength_def ReadResponseDecoder_DataRemaining_def ReadResponseDecoder_Data_def
        sub32_def sum_fits del: sbytes.simps\<close>)
qed

definition demo_read_rsp :: ReadResponse where
  "demo_read_rsp = \<lparr>rr_Header = demo_header, rr_Data = [1, 2, 3], rr_DataRemaining = 0\<rparr>"

lemma ReadResponse_delivered_witness:
  "delivered (ReadResponse_Encode demo_read_rsp) (ReadResponse_Size demo_read_rsp) SMB2_READ
     (rr_Header demo_read_rsp)
     (\<lambda>r. ReadResponseDecoder_IsInvalid r = Some False \<and>
          map_option sbytes (ReadResponseDecoder_Data r) = Some [1, 2, 3])"
  by (rule delivered_mono [OF ReadResponse_delivered]) (simp_all add: demo_read_rsp_def)

lemma CloseResponse_delivered:
  shows "delivered (CloseResponse_Encode c) (CloseResponse_Size c) SMB2_CLOSE (cs_Header c)
    (\<lambda>r. CloseResponseDecoder_IsInvalid r = Some False \<and>
         CloseResponseDecoder_Flags r = Some (cs_CloseFlags c) \<and>
         Option.bind (CloseResponseDecoder_CreationTime r) FiletimeDecoder_Decode = Some (the_time (cs_CreationTime c)) \<and>
         Option.bind (CloseResponseDecoder_LastAccessTime r) FiletimeDecoder_Decode = Some (the_time (cs_LastAccessTime c)) \<and>
         Option.bind (CloseResponseDecoder_LastWriteTime r) FiletimeDecoder_Decode = Some (the_time (cs_LastWriteTime c)) \<and>
         Option.bind (CloseResponseDecoder_ChangeTime r) FiletimeDecoder_Decode = Some (the_time (cs_ChangeTime c)) \<and>
         CloseResponseDecoder_AllocationSize r = Some (wrap64 (cs_AllocationSize c)) \<and>
         CloseResponseDecoder_EndofFile r = Some (wrap64 (cs_EndofFile c)) \<and>
         CloseResponseDecoder_FileAttributes r = Some (cs_FileAttributes c))"
  unfolding CloseResponse_Encode_def
  by (rule request_delivered)
    (simp_all add: CloseResponse_Size_def body_simps read_simps opt_time_put FiletimeDecoder_at
      window_zeros CloseResponseDecoder_IsInvalid_def CloseResponseDecoder_StructureSize_def
      CloseResponseDecoder_Flags_def CloseResponseDecoder_CreationTime_def CloseResponseDecoder_LastAccessTime_def
      CloseResponseDecoder_LastWriteTime_def CloseResponseDecoder_ChangeTime_def
      CloseResponseDecoder_AllocationSize_def CloseResponseDecoder_EndofFile_def
      CloseResponseDecoder_FileAttributes_def sint_wrap64 del: sbytes.simps)

lemmas response_accessors =
  SessionSetupResponseDecoder_StructureSize_def SessionSetupResponseDecoder_SessionFlags_def
  SessionSetupResponseDecoder_SecurityBufferOffset_def SessionSetupResponseDecoder_SecurityBufferLength_def
  SessionSetupResponseDecoder_IsInvalid_def SessionSetupResponseDecoder_SecurityBuffer_def
  TreeConnectResponseDecoder_StructureSize_def TreeConnectResponseDecoder_ShareType_def
  TreeConnectResponseDecoder_ShareFlags_def TreeConnectResponseDecoder_Capabilities_def
  TreeConnectResponseDecoder_MaximalAccess_def TreeConnectResponseDecoder_IsInvalid_def
  WriteResponseDecoder_StructureSize_def WriteResponseDecoder_Count_def WriteResponseDecoder_Remaining_def
  WriteResponseDecoder_IsInvalid_def
  LogoffResponseDecoder_StructureSize_def LogoffResponseDecoder_IsInvalid_def
  TreeDisconnectResponseDecoder_StructureSize_def TreeDisconnectResponseDecoder_IsInvalid_def
  FlushResponseDecoder_StructureSize_def FlushResponseDecoder_IsInvalid_def
  SetInfoResponseDecoder_StructureSize_def SetInfoResponseDecoder_IsInvalid_def
  IoctlResponseDecoder_StructureSize_def IoctlResponseDecoder_CtlCode_def IoctlResponseDecoder_FileId_def
  IoctlResponseDecoder_InputOffset_def IoctlResponseDecoder_InputCount_def IoctlResponseDecoder_OutputOffset_def
  IoctlResponseDecoder_OutputCount_def IoctlResponseDecoder_Flags_def IoctlResponseDecoder_IsInvalid_def
  IoctlResponseDecoder_Input_def IoctlResponseDecoder_Output_def
  QueryDirectoryResponseDecoder_StructureSize_def QueryDirectoryResponseDecoder_OutputBufferOffset_def
  QueryDirectoryResponseDecoder_OutputBufferLength_def QueryDirectoryResponseDecoder_IsInvalid_def
  QueryDirectoryResponseDecoder_OutputBuffer_def
  QueryInfoResponseDecoder_StructureSize_def QueryInfoResponseDecoder_OutputBufferOffset_def
  QueryInfoResponseDecoder_OutputBufferLength_def QueryInfoResponseDecoder_IsInvalid_def
  QueryInfoResponseDecoder_OutputBuffer_def

lemma sbytes_nil: "sbytes nil_slice = []"
  by (simp add: nil_slice_def)

lemma SessionSetupResponse_delivered:
  assumes "length (sr_SecurityBuffer c) < 65536 - 72"
  shows "delivered (SessionSetupResponse_Encode c) (SessionSetupResponse_Size c) SMB2_SESSION_SETUP (sr_Header c)
    (\<lambda>r. SessionSetupResponseDecoder_IsInvalid r = Some False \<and>
         SessionSetupResponseDecoder_SessionFlags r = Some (sr_SessionFlags c) \<and>
         map_option sbytes (SessionSetupResponseDecoder_SecurityBuffer r) = Some (sr_SecurityBuffer c))"
proof -
  let ?n = "SessionSetupResponse_Size c"
  have n: "72 + length (sr_SecurityBuffer c) \<le> ?n" by (simp add: SessionSetupResponse_Size_def)
  then have k: "8 + length (sr_SecurityBuffer c) \<le> ?n - 64" by simp
  show ?thesis
    unfolding SessionSetupResponse_Encode_def
    by (rule request_delivered)
      (use assms n k in \<open>simp_all add: body_simps read_simps response_accessors sub16_def sum_fits
        window_zeros sbytes_nil del: sbytes.simps\<close>)
qed

lemma TreeConnectResponse_delivered:
  "delivered (TreeConnectResponse_Encode c) (TreeConnectResponse_Size c) SMB2_TREE_CONNECT (tr_Header c)
    (\<lambda>r. TreeConnectResponseDecoder_IsInvalid r = Some False \<and>
         TreeConnectResponseDecoder_ShareType r = Some (tr_ShareType c) \<and>
         TreeConnectResponseDecoder_ShareFlags r = Some (tr_ShareFlags c) \<and>
         TreeConnectResponseDecoder_Capabilities r = Some (tr_Capabilities c) \<and>
         TreeConnectResponseDecoder_MaximalAccess r = Some (tr_MaximalAccess c))"
  unfolding TreeConnectResponse_Encode_def
  by (rule request_delivered)
    (simp_all add: TreeConnectResponse_Size_def body_simps read_simps response_accessors)

lemma WriteResponse_delivered:
  "delivered (WriteResponse_Encode c) (WriteResponse_Size c) SMB2_WRITE (wp_Header c)
    (\<lambda>r. WriteResponseDecoder_IsInvalid r = Some False \<and>
         WriteResponseDecoder_Count r = Some (wp_Count c) \<and>
         WriteResponseDecoder_Remaining r = Some (wp_Remaining c))"
  unfolding WriteResponse_Encode_def
  by (rule request_delivered)
    (simp_all add: WriteResponse_Size_def body_simps read_simps response_accessors)

lemma LogoffResponse_delivered:
  "delivered (LogoffResponse_Encode c) (LogoffResponse_Size c) SMB2_LOGOFF (lr_Header c)
    (\<lambda>r. LogoffResponseDecoder_IsInvalid r = Some False)"
  unfolding LogoffResponse_Encode_def
  by (rule request_delivered)
    (simp_all add: LogoffResponse_Size_def body_simps read_simps response_accessors)

lemma TreeDisconnectResponse_delivered:
  "delivered (TreeDisconnectResponse_Encode c) (TreeDisconnectResponse_Size c) SMB2_TREE_DISCONNECT (dr_Header c)
    (\<lambda>r. TreeDisconnectResponseDecoder_IsInvalid r = Some False)"
  unfolding TreeDisconnectResponse_Encode_def
  by (rule request_delivered)
    (simp_all add: TreeDisconnectResponse_Size_def body_simps read_simps response_accessors)

lemma FlushResponse_delivered:
  "delivered (FlushResponse_Encode c) (FlushResponse_Size c) SMB2_FLUSH (fr_Header c)
    (\<lambda>r. FlushResponseDecoder_IsInvalid r = Some False)"
  unfolding FlushResponse_Encode_def
  by (rule request_delivered)
    (simp_all add: FlushResponse_Size_def body_simps read_simps response_accessors)

lemma SetInfoResponse_delivered:
  "delivered (SetInfoResponse_Encode c) (SetInfoResponse_Size c) SMB2_SET_INFO (sp_Header c)
    (\<lambda>r. SetInfoResponseDecoder_IsInvalid r = Some False)"
  unfolding SetInfoResponse_Encode_def
  by (rule request_delivered)
    (simp_all add: SetInfoResponse_Size_def body_simps read_simps response_accessors)

text \<open>The bytes an encoder writes on a cleared buffer of its size.\<close>

definition encoded :: "enc \<Rightarrow> bytes" where
  "encoded d = the (en_encode d (replicate (en_size d) 0))"

lemma encoded_ok: "enc_ok d \<Longrightarrow> en_encode d (replicate (en_size d) 0) = Some (encoded d)"
  and length_encoded [simp]: "enc_ok d \<Longrightarrow> length (encoded d) = en_size d"
  using fitsD [of "en_size d" "en_encode d" "replicate (en_size d) 0"]
  by (auto simp: enc_ok_def encoded_def)

text \<open>A value encoded into the cleared rest of a buffer.\<close>

lemma at_off_rest:
  "enc_ok d \<Longrightarrow> length p = a + en_size d \<Longrightarrow> drop a p = replicate (en_size d) 0 \<Longrightarrow>
   at_off a (en_encode d) p = Some (copy_at a (encoded d) p)"
  by (simp add: at_off_def encoded_ok copy_at_def)

lemma output_delivered:
  assumes "enc_ok d" and "en_size d < 4294967296 - 72"
  shows "\<exists>t. seqw (output_body (Some d)) (replicate (output_size (Some d) - 64) 0) = Some t \<and>
    length t = output_size (Some d) - 64 \<and>
    QueryInfoResponseDecoder_IsInvalid (of_bytes t) = Some False \<and>
    map_option sbytes (QueryInfoResponseDecoder_OutputBuffer (of_bytes t)) = Some (encoded d)"
  using assms
  by (simp_all add: output_body_def output_size_def body_simps read_simps response_accessors at_off_rest
      drop_copy_at sum_fits sub32_def del: sbytes.simps)

lemma no_output_delivered:
  "\<exists>t. seqw (output_body None) (replicate (output_size None - 64) 0) = Some t \<and>
    length t = output_size None - 64 \<and>
    QueryInfoResponseDecoder_IsInvalid (of_bytes t) = Some False \<and>
    map_option sbytes (QueryInfoResponseDecoder_OutputBuffer (of_bytes t)) = Some []"
  by (simp_all add: output_body_def output_size_def body_simps read_simps response_accessors window_zeros sbytes_nil del: sbytes.simps)

text \<open>C31. QUERY_INFO response: the check accepts it and the output buffer a client reads is, byte
  for byte, what the output's encoder wrote, or empty when there is no output.\<close>

theorem QueryInfoResponse_delivered:
  assumes "case qp_Output c of None \<Rightarrow> True | Some d \<Rightarrow> enc_ok d \<and> en_size d < 4294967296 - 72"
  shows "delivered (QueryInfoResponse_Encode c) (QueryInfoResponse_Size c) SMB2_QUERY_INFO (qp_Header c)
    (\<lambda>r. QueryInfoResponseDecoder_IsInvalid r = Some False \<and>
         map_option sbytes (QueryInfoResponseDecoder_OutputBuffer r) =
           Some (case qp_Output c of None \<Rightarrow> [] | Some d \<Rightarrow> encoded d))"
  unfolding QueryInfoResponse_Encode_def QueryInfoResponse_Size_def
  by (rule request_delivered)
    (use assms output_delivered no_output_delivered in
      \<open>auto simp: output_size_def simp del: sbytes.simps split: option.splits\<close>)

definition demo_query_rsp :: QueryInfoResponse where
  "demo_query_rsp = \<lparr>qp_Header = demo_header, qp_Output = Some demo_cipher\<rparr>"

lemma QueryInfoResponse_delivered_witness:
  "delivered (QueryInfoResponse_Encode demo_query_rsp) (QueryInfoResponse_Size demo_query_rsp)
     SMB2_QUERY_INFO (qp_Header demo_query_rsp)
     (\<lambda>r. map_option sbytes (QueryInfoResponseDecoder_OutputBuffer r) = Some (encoded demo_cipher))"
  by (rule delivered_mono [OF QueryInfoResponse_delivered]) (simp_all add: demo_query_rsp_def demo_cipher_ok)

lemma QueryDirectoryResponse_delivered:
  assumes "case qr_Output c of None \<Rightarrow> True | Some d \<Rightarrow> enc_ok d \<and> en_size d < 4294967296 - 72"
  shows "delivered (QueryDirectoryResponse_Encode c) (QueryDirectoryResponse_Size c) SMB2_QUERY_DIRECTORY (qr_Header c)
    (\<lambda>r. QueryDirectoryResponseDecoder_IsInvalid r = Some False \<and>
         map_option sbytes (QueryDirectoryResponseDecoder_OutputBuffer r) =
           Some (case qr_Output c of None \<Rightarrow> [] | Some d \<Rightarrow> encoded d))"
proof -
  have s: "QueryDirectoryResponseDecoder_IsInvalid = QueryInfoResponseDecoder_IsInvalid"
    "QueryDirectoryResponseDecoder_OutputBuffer = QueryInfoResponseDecoder_OutputBuffer"
    unfolding response_accessors by (rule refl)+
  show ?thesis
    unfolding QueryDirectoryResponse_Encode_def QueryDirectoryResponse_Size_def s
    by (rule request_delivered)
      (use assms output_delivered no_output_delivered in
        \<open>auto simp: output_size_def simp del: sbytes.simps split: option.splits\<close>)
qed

text \<open>An IOCTL response as the server sends it: an output and no input. The output is at
  offset 112, and the decoder's check adds an input's offset and count of zero.\<close>

lemma IoctlResponse_delivered:
  assumes "fid_opt_ok (ip_FileId c)" and "ip_Input c = None"
    and "case ip_Output c of None \<Rightarrow> True | Some d \<Rightarrow> enc_ok d \<and> en_size d < 4294967296 - 112"
  shows "delivered (IoctlResponse_Encode c) (IoctlResponse_Size c) SMB2_IOCTL (ip_Header c)
    (\<lambda>r. IoctlResponseDecoder_IsInvalid r = Some False \<and>
         IoctlResponseDecoder_CtlCode r = Some (ip_CtlCode c) \<and>
         IoctlResponseDecoder_Flags r = Some (ip_Flags2 c) \<and>
         map_option sbytes (IoctlResponseDecoder_FileId r) = Some (fid_bytes (ip_FileId c)) \<and>
         map_option sbytes (IoctlResponseDecoder_Input r) = Some [] \<and>
         map_option sbytes (IoctlResponseDecoder_Output r) =
           Some (case ip_Output c of None \<Rightarrow> [] | Some d \<Rightarrow> encoded d))"
proof (cases "ip_Output c")
  case None
  then show ?thesis
    unfolding IoctlResponse_Encode_def Let_def
    by (intro request_delivered)
      (use assms in \<open>simp_all add: IoctlResponse_Size_def opt_size_def body_simps read_simps response_accessors
        window_zeros sbytes_nil del: sbytes.simps\<close>)
next
  case (Some d)
  then show ?thesis
    unfolding IoctlResponse_Encode_def Let_def
    by (intro request_delivered)
      (use assms in \<open>simp_all add: IoctlResponse_Size_def opt_size_def body_simps read_simps response_accessors
        window_zeros sbytes_nil at_off_rest drop_copy_at sum_fits sub32_def del: sbytes.simps\<close>)
qed

lemmas create_accessors =
  CreateResponseDecoder_StructureSize_def CreateResponseDecoder_OplockLevel_def CreateResponseDecoder_Flags_def
  CreateResponseDecoder_CreateAction_def CreateResponseDecoder_CreationTime_def
  CreateResponseDecoder_LastAccessTime_def CreateResponseDecoder_LastWriteTime_def
  CreateResponseDecoder_ChangeTime_def CreateResponseDecoder_FileAttributes_def CreateResponseDecoder_FileId_def
  CreateResponseDecoder_CreateContextsOffset_def CreateResponseDecoder_CreateContextsLength_def
  CreateResponseDecoder_IsInvalid_def CreateResponseDecoder_AllocationSize_def
  CreateResponseDecoder_EndofFile_def CreateResponseDecoder_CreateContexts_def

lemma end_off_152: "end_off round8 (152 + n) cs = 64 + end_off round8 (88 + n) cs"
  using end_off_shift [of "88 + n" cs] by (simp add: add.assoc)

definition create_response_reads :: "CreateResponse \<Rightarrow> slice \<Rightarrow> bool" where
  "create_response_reads c r \<longleftrightarrow>
     CreateResponseDecoder_IsInvalid r = Some False \<and>
     CreateResponseDecoder_OplockLevel r = Some (cp_OplockLevel c) \<and>
     CreateResponseDecoder_Flags r = Some (cp_RspFlags c) \<and>
     CreateResponseDecoder_CreateAction r = Some (cp_CreateAction c) \<and>
     Option.bind (CreateResponseDecoder_CreationTime r) FiletimeDecoder_Decode = Some (the_time (cp_CreationTime c)) \<and>
     Option.bind (CreateResponseDecoder_LastAccessTime r) FiletimeDecoder_Decode = Some (the_time (cp_LastAccessTime c)) \<and>
     Option.bind (CreateResponseDecoder_LastWriteTime r) FiletimeDecoder_Decode = Some (the_time (cp_LastWriteTime c)) \<and>
     Option.bind (CreateResponseDecoder_ChangeTime r) FiletimeDecoder_Decode = Some (the_time (cp_ChangeTime c)) \<and>
     CreateResponseDecoder_AllocationSize r = Some (wrap64 (cp_AllocationSize c)) \<and>
     CreateResponseDecoder_EndofFile r = Some (wrap64 (cp_EndofFile c)) \<and>
     CreateResponseDecoder_FileAttributes r = Some (cp_FileAttributes c) \<and>
     map_option sbytes (CreateResponseDecoder_FileId r) = Some (fid_bytes (cp_FileId c))"

text \<open>C32. CREATE response: oplock level, action, the four times (a nil one as zero), sizes as
  signed 64-bit values, attributes and file id are what a client reads, and the check accepts the
  response with any list of contexts.\<close>

theorem CreateResponse_delivered:
  assumes "fid_opt_ok (cp_FileId c)" and "\<forall>i \<in> set (cp_Contexts c). enc_ok i \<and> 4 \<le> en_size i"
    and "end_off round8 88 (cp_Contexts c) < 4294967296 - 64"
  shows "delivered (CreateResponse_Encode c) (CreateResponse_Size c) SMB2_CREATE (cp_Header c)
    (create_response_reads c)"
proof (cases "cp_Contexts c = []")
  case True
  then show ?thesis
    unfolding CreateResponse_Encode_def create_response_reads_def
    by (intro request_delivered)
      (use assms in \<open>simp_all add: CreateResponse_Size_def body_simps read_simps create_accessors opt_time_put
        FiletimeDecoder_at window_zeros sint_wrap64 del: sbytes.simps\<close>)
next
  case False
  define e where "e = end_off round8 88 (cp_Contexts c)"
  have le: "88 \<le> e" unfolding e_def by (rule end_off_ge) (rule round8_ge)
  have s: "CreateResponse_Size c = 64 + e"
    using False end_off_152 [of 0 "cp_Contexts c"] by (simp add: CreateResponse_Size_def e_def)
  have r: "round8 88 = 88" by (simp add: round8_eq)
  note cc = create_contexts_blk [where slot = 80 and off = 88, OF assms(2) _ _ False, folded e_def, unfolded r]
  have "uint (152 + (of_nat (e - 88) :: u32)) = int e + 64"
    using uint_plus_64 [of e] assms(3) le by (simp add: e_def [symmetric] of_nat_diff algebra_simps)
  with False show ?thesis
    unfolding CreateResponse_Encode_def create_response_reads_def s e_def [symmetric]
    by (intro request_delivered)
      (use assms(1) le in \<open>simp_all add: body_simps read_simps create_accessors opt_time_put
        FiletimeDecoder_at window_zeros sint_wrap64 cc e_def [symmetric] del: sbytes.simps\<close>)
qed

definition demo_create_rsp :: CreateResponse where
  "demo_create_rsp = \<lparr>cp_Header = demo_header, cp_OplockLevel = 0, cp_RspFlags = 0, cp_CreateAction = 1,
     cp_CreationTime = Some \<lparr>ft_LowDateTime = 5, ft_HighDateTime = 6\<rparr>, cp_LastAccessTime = None,
     cp_LastWriteTime = None, cp_ChangeTime = None, cp_AllocationSize = 4096, cp_EndofFile = -1,
     cp_FileAttributes = 0x80, cp_FileId = Some demo_fid, cp_Contexts = [demo_cipher]\<rparr>"

lemma CreateResponse_delivered_witness:
  "delivered (CreateResponse_Encode demo_create_rsp) (CreateResponse_Size demo_create_rsp) SMB2_CREATE
     (cp_Header demo_create_rsp)
     (\<lambda>r. CreateResponseDecoder_EndofFile r = Some (-1) \<and>
          map_option sbytes (CreateResponseDecoder_FileId r) = Some (fid_bytes (Some demo_fid)))"
  by (rule delivered_mono [OF CreateResponse_delivered])
    (simp_all add: demo_create_rsp_def demo_cipher_ok demo_fid_ok round8_eq create_response_reads_def wrap64_def)

lemmas negotiate_accessors =
  NegotiateResponseDecoder_StructureSize_def NegotiateResponseDecoder_SecurityMode_def
  NegotiateResponseDecoder_DialectRevision_def NegotiateResponseDecoder_ServerGuid_def
  NegotiateResponseDecoder_Capabilities_def NegotiateResponseDecoder_MaxTransactSize_def
  NegotiateResponseDecoder_MaxReadSize_def NegotiateResponseDecoder_MaxWriteSize_def
  NegotiateResponseDecoder_SystemTime_def NegotiateResponseDecoder_ServerStartTime_def
  NegotiateResponseDecoder_SecurityBufferOffset_def NegotiateResponseDecoder_SecurityBufferLength_def
  NegotiateResponseDecoder_NegotiateContextCount_def NegotiateResponseDecoder_NegotiateContextOffset_def
  NegotiateResponseDecoder_IsInvalid_def NegotiateResponseDecoder_SecurityBuffer_def

definition negotiate_response_reads :: "NegotiateResponse \<Rightarrow> Filetime \<Rightarrow> Filetime \<Rightarrow> slice \<Rightarrow> bool" where
  "negotiate_response_reads c st bt r \<longleftrightarrow>
     NegotiateResponseDecoder_IsInvalid r = Some False \<and>
     NegotiateResponseDecoder_SecurityMode r = Some (nr_SecurityMode c) \<and>
     NegotiateResponseDecoder_DialectRevision r = Some (nr_DialectRevision c) \<and>
     map_option sbytes (NegotiateResponseDecoder_ServerGuid r) = Some (nr_ServerGuid c) \<and>
     NegotiateResponseDecoder_Capabilities r = Some (nr_Capabilities c) \<and>
     NegotiateResponseDecoder_MaxTransactSize r = Some (nr_MaxTransactSize c) \<and>
     NegotiateResponseDecoder_MaxReadSize r = Some (nr_MaxReadSize c) \<and>
     NegotiateResponseDecoder_MaxWriteSize r = Some (nr_MaxWriteSize c) \<and>
     Option.bind (NegotiateResponseDecoder_SystemTime r) FiletimeDecoder_Decode = Some st \<and>
     Option.bind (NegotiateResponseDecoder_ServerStartTime r) FiletimeDecoder_Decode = Some bt \<and>
     NegotiateResponseDecoder_NegotiateContextCount r = Some (of_nat (length (nr_Contexts c))) \<and>
     map_option sbytes (NegotiateResponseDecoder_SecurityBuffer r) = Some (nr_SecurityBuffer c)"

lemma the_time_Some [simp]: "the_time (Some f) = f"
  by (simp add: the_time_def)

lemma NegotiateResponse_delivered:
  assumes "length (nr_ServerGuid c) = 16" and "\<forall>i \<in> set (nr_Contexts c). enc_ok i"
    and "nr_SystemTime c = Some st" and "nr_ServerStartTime c = Some bt"
    and "length (nr_SecurityBuffer c) < 65536 - 128"
    and "end_off round8 (64 + length (nr_SecurityBuffer c)) (nr_Contexts c) < 4294967296 - 64"
  shows "delivered (NegotiateResponse_Encode c) (NegotiateResponse_Size c) SMB2_NEGOTIATE (nr_Header c)
    (negotiate_response_reads c st bt)"
proof -
  define o' where "o' = 64 + length (nr_SecurityBuffer c)"
  define e where "e = end_off round8 o' (nr_Contexts c)"
  have e: "o' \<le> e" unfolding e_def by (rule end_off_ge) (rule round8_ge)
  have n: "64 + e \<le> NegotiateResponse_Size c"
    by (simp add: NegotiateResponse_Size_def Let_def e_def o'_def)
  then have k: "e \<le> NegotiateResponse_Size c - 64" "e < 4294967296 - 64" "o' \<le> NegotiateResponse_Size c - 64"
    using e assms(6) by (simp_all add: e_def o'_def)
  note st = FiletimeDecoder_at [where f = "Some st", simplified] FiletimeDecoder_at [where f = "Some bt", simplified]
  show ?thesis
  proof (cases "nr_Contexts c = []")
    case True
    then have "e = o'" by (simp add: e_def)
    with True show ?thesis
      unfolding NegotiateResponse_Encode_def negotiate_response_reads_def Let_def o'_def [symmetric]
      by (intro request_delivered)
        (use assms(1,3-5) k in \<open>simp_all add: o'_def body_simps read_simps negotiate_accessors put_time_put st
          time_bytes_def window_zeros sub16_def sum_fits del: sbytes.simps\<close>)
  next
    case False
    then obtain i ds where ds: "nr_Contexts c = i # ds" by (cases "nr_Contexts c") auto
    have r: "round8 o' \<le> e"
      using end_off_ge [of round8 "round8 o' + en_size i" ds, OF round8_ge] ds by (simp add: e_def)
    have m: "(round8 o' + 64) mod 8 = 0" using round8_mod [of o'] by presburger
    have a: "(of_nat (round8 o') + 64 :: u32) AND 7 = 0" using align8_word [OF m] by simp
    have u: "uint (of_nat (round8 o') + 64 :: u32) = int (round8 o') + 64"
      by (rule uint_plus_64) (use r k in simp)
    from False show ?thesis
      unfolding NegotiateResponse_Encode_def negotiate_response_reads_def Let_def o'_def [symmetric]
      by (intro request_delivered)
        (use assms(1-5) n k e r in \<open>simp_all add: o'_def e_def body_simps read_simps negotiate_accessors put_time_put st
          time_bytes_def window_zeros sub16_def sum_fits a [unfolded o'_def] u [unfolded o'_def]
          encode_all_blks del: sbytes.simps, linarith?\<close>)
  qed
qed

lemma hd_window_copy_at: "0 < length xs \<Longrightarrow> a + length xs \<le> length p \<Longrightarrow> hd (window a (Suc 0) (copy_at a xs p)) = hd xs"
  by (cases xs) (simp_all add: window_def copy_at_def)

lemma error_data_blk:
  "error_data_size d = Some k \<Longrightarrow> error_data_ok d \<Longrightarrow>
   \<exists>t. length t = k \<and> (\<forall>p. length p = 8 + k \<longrightarrow> drop 8 p = replicate k 0 \<longrightarrow>
     at_off 8 (error_data_encode d) p = Some (copy_at 8 t p))"
proof -
  assume "error_data_size d = Some k" "error_data_ok d"
  then have ok: "enc_ok \<lparr>en_size = k, en_encode = error_data_encode d\<rparr>"
    by (simp add: enc_ok_def fits_error_data)
  show ?thesis
    using at_off_rest [OF ok] length_encoded [OF ok] by (intro exI [of _ "encoded _"]) auto
qed

text \<open>C33. An ERROR response loses its data: the encoder leaves the byte count at zero and puts the
  length of the data where the decoder reads the number of contexts. So a client never finds any
  data; as the number of contexts it reads zero when there is no data, the true number (its low
  byte) when the data is an \<open>ErrorContextListResponse\<close>, which the encoder treats apart, and the low
  byte of the data's length for every other kind of data. The data's own encoders stay within their
  sizes, and the response is shorter than \<open>2^32 + 64\<close> bytes.\<close>

theorem ErrorResponse_delivered:
  assumes "\<forall>d. er_ErrorData c = Some d \<longrightarrow> error_data_ok d"
    and "ErrorResponse_Size c = Some n" and "n < 4294967296 + 64"
  shows "delivered (ErrorResponse_Encode c) n (ph_Command (er_Header c)) (er_Header c)
    (\<lambda>r. ErrorResponseDecoder_IsInvalid r = Some False \<and>
         map_option sbytes (ErrorResponseDecoder_ErrorData r) = Some [] \<and>
         ErrorResponseDecoder_ErrorContextCount r =
           Some (case er_ErrorData c of
                   None \<Rightarrow> 0
                 | Some (ErrorContextList e) \<Rightarrow> of_nat (length e)
                 | Some (ErrorValue d) \<Rightarrow> of_nat (n - 72)))"
proof -
  have q: "seqw [encodeHeader h, at_off 64 (seqw body)] = request (ph_Command h) h body" for h body
    by (cases h) (simp add: request_def)
  have z: "window 2 (Suc 0) (replicate 9 (0 :: u8)) = [0]"
    by (simp add: window_def eval_nat_numeral)
  have w: "(8 :: u32) \<le> of_nat (8 + k)" if "k < 4294967296 - 8" for k
    using that by (simp add: word_le_nat_alt unsigned_of_nat take_bit_nat_eq_self del: of_nat_add)
  have hd: "hd (le_bytes 2 k) = of_nat (k mod 256)" for k by (simp add: numeral_2_eq_2)
  have k: "(of_nat (unat (of_nat m :: u16) mod 256) :: u8) = of_nat m" for m
    by (simp add: unsigned_of_nat word_of_nat_eq_iff take_bit_eq_mod mod_mod_cancel)
  have s0: "sbytes (Slice xs 0) = []" for xs by simp
  note simps = s0 ErrorResponse_Size_def body_simps read_simps sbytes_nil window_zeros
    drop_copy_at ErrorResponseDecoder_IsInvalid_def ErrorResponseDecoder_StructureSize_def
    ErrorResponseDecoder_ErrorData_def ErrorResponseDecoder_ByteCount_def
    ErrorResponseDecoder_ErrorContextCount_def hd_window_copy_at hd k
  consider "er_ErrorData c = None" "n = 73"
    | d where "er_ErrorData c = Some (ErrorValue d)" "n = 72 + en_size d"
    | e m where "er_ErrorData c = Some (ErrorContextList e)" "ErrorContextListResponse_Size 0 e = Some m" "n = 72 + m"
  proof (cases "er_ErrorData c")
    case None
    then show thesis using that(1) assms(2) by (simp add: ErrorResponse_Size_def)
  next
    case (Some d)
    then show thesis using that(2,3) assms(2) by (cases d) (auto simp: ErrorResponse_Size_def)
  qed
  then show ?thesis
  proof cases
    case 1
    then show ?thesis
      unfolding ErrorResponse_Encode_def q
      by (intro request_delivered) (simp_all add: simps z del: sbytes.simps)
  next
    case (2 d)
    then obtain t where t: "length t = en_size d"
      "\<And>p. length p = 8 + en_size d \<Longrightarrow> drop 8 p = replicate (en_size d) 0 \<Longrightarrow>
        at_off 8 (error_data_encode (ErrorValue d)) p = Some (copy_at 8 t p)"
      using error_data_blk [of "ErrorValue d"] assms(1) by auto
    show ?thesis
      using 2 t(1) w [of "en_size d"] assms(3)
      unfolding ErrorResponse_Encode_def q
      by (intro request_delivered) (simp_all add: simps t(2) [simplified] not_less del: sbytes.simps)
  next
    case (3 e m)
    then obtain t where t: "length t = m"
      "\<And>p. length p = 8 + m \<Longrightarrow> drop 8 p = replicate m 0 \<Longrightarrow>
        at_off 8 (error_data_encode (ErrorContextList e)) p = Some (copy_at 8 t p)"
      using error_data_blk [of "ErrorContextList e"] assms(1) by auto
    show ?thesis
      using 3 t(1) w [of m] assms(3)
      unfolding ErrorResponse_Encode_def q
      by (intro request_delivered) (simp_all add: simps t(2) [simplified] not_less del: sbytes.simps)
  qed
qed

definition demo_error_rsp :: "error_data option \<Rightarrow> ErrorResponse" where
  "demo_error_rsp d = \<lparr>er_Header = demo_header, er_ErrorData = d\<rparr>"

lemma ErrorResponse_delivered_witness:
  "delivered (ErrorResponse_Encode (demo_error_rsp (Some (ErrorValue demo_cipher)))) 86
     (ph_Command demo_header) demo_header
     (\<lambda>r. map_option sbytes (ErrorResponseDecoder_ErrorData r) = Some [] \<and>
          ErrorResponseDecoder_ErrorContextCount r = Some 14) \<and>
   delivered (ErrorResponse_Encode (demo_error_rsp (Some (ErrorContextList
       [\<lparr>ec_ErrorId = 0, ec_ErrorData = Some demo_cipher\<rparr>, \<lparr>ec_ErrorId = 1, ec_ErrorData = Some demo_cipher\<rparr>])))) 118
     (ph_Command demo_header) demo_header
     (\<lambda>r. map_option sbytes (ErrorResponseDecoder_ErrorData r) = Some [] \<and>
          ErrorResponseDecoder_ErrorContextCount r = Some 2)"
  (is "?one \<and> ?two")
proof
  show ?one
    unfolding demo_error_rsp_def
    by (rule delivered_mono [OF ErrorResponse_delivered [where c = "demo_error_rsp (Some (ErrorValue demo_cipher))",
          unfolded demo_error_rsp_def ErrorResponse.select_convs]])
      (simp_all add: error_data_ok_def demo_cipher_ok ErrorResponse_Size_def)
  show ?two
    unfolding demo_error_rsp_def
    by (rule delivered_mono [OF ErrorResponse_delivered [where c = "demo_error_rsp (Some (ErrorContextList
          [\<lparr>ec_ErrorId = 0, ec_ErrorData = Some demo_cipher\<rparr>, \<lparr>ec_ErrorId = 1, ec_ErrorData = Some demo_cipher\<rparr>]))",
          unfolded demo_error_rsp_def ErrorResponse.select_convs]])
      (simp_all add: error_data_ok_def demo_cipher_ok ErrorResponse_Size_def ErrorContextResponse_Size_def round8_eq)
qed

section \<open>A create context\<close>

text \<open>A context encoded into a cleared buffer of its size: name and data read back.\<close>

lemma CreateContext_reads:
  assumes "enc_ok (cx_Data r)" and "length (cx_Name r) < 65536 - 64"
    and "CreateContext_Size r < 65536"
  shows "\<exists>t. CreateContext_Encode r (replicate (CreateContext_Size r) 0) = Some t \<and>
    length t = CreateContext_Size r \<and>
    CreateContextDecoder_Next (of_bytes t) = Some 0 \<and>
    CreateContextDecoder_Name (of_bytes t) = Some (cx_Name r) \<and>
    map_option sbytes (CreateContextDecoder_Buffer (of_bytes t)) = Some (encoded (cx_Data r))"
proof -
  let ?l = "length (cx_Name r)"
  define o' where "o' = round8 (16 + ?l)"
  have o: "16 + ?l \<le> o'" "o' < 24 + ?l" using round8_ge round8_less [of "16 + ?l"] by (simp_all add: o'_def)
  have s: "CreateContext_Size r = o' + en_size (cx_Data r)" by (simp add: CreateContext_Size_def o'_def)
  have k: "o' + en_size (cx_Data r) < 65536" using assms(3) s by simp
  have sf: "sfrom a (of_bytes t) = Some (Slice (drop a t) (length t - a))" if "a \<le> length t" for a and t :: bytes
    using that by (simp add: of_bytes_def)
  have rd: "le_u16 (Slice (drop a t) n) = Some (of_nat (le_nat (window a 2 t)))" if "2 \<le> n" for a n and t :: bytes
    using that by (simp add: le_u16_def le_read_def window_def)
  have rd4: "le_u32 (Slice (drop a t) n) = Some (of_nat (le_nat (window a 4 t)))" if "4 \<le> n" for a n and t :: bytes
    using that by (simp add: le_u32_def le_read_def window_def)
  have u: "unat (16 + of_nat ?l :: u16) = 16 + ?l" "unat (of_nat o' + of_nat (en_size (cx_Data r)) :: u16) = o' + en_size (cx_Data r)"
    "unat (of_nat o' :: u16) = o'"
    using assms(2) o k nat_sum_fits(1) [of 16 ?l] nat_sum_fits(1) [of "of_nat o'" "en_size (cx_Data r)"]
    by (simp_all add: unsigned_of_nat take_bit_nat_eq_self)
  have c: "(ucast (of_nat (en_size (cx_Data r)) :: u32) :: u16) = of_nat (en_size (cx_Data r))"
    by (simp add: unsigned_of_nat)
      (simp add: word_of_nat_eq_iff)
  show ?thesis
    using assms o k
    unfolding CreateContext_Encode_def s o'_def [symmetric] Let_def
    by (simp_all add: body_simps read_simps window_zeros at_off_rest drop_copy_at sf rd rd4 u c sub16_def
      CreateContextDecoder_Next_def CreateContextDecoder_Name_def CreateContextDecoder_NameOffset_def
      CreateContextDecoder_NameLength_def CreateContextDecoder_Buffer_def CreateContextDecoder_DataOffset_def
      CreateContextDecoder_DataLength_def del: sbytes.simps)
qed

end
