(* ===== verification/Fscc.thy ===== *)
theory Fscc
  imports ResponseEncoders
begin

text \<open>
  The file-system control codes and information classes of internal/smb2/fscc.go: reparse points,
  server-side copy, the decoders of the information classes and the encoders a client sends them
  with. As before, a decoder's accessor is \<open>None\<close> where the code slices out of range.
\<close>

section \<open>Symbolic links\<close>

record SymbolicLinkReparseDataBuffer =
  rb_Flags :: u32
  rb_SubstituteName :: "rune list"
  rb_PrintName :: "rune list"

definition SymbolicLinkReparseDataBuffer_Size :: "SymbolicLinkReparseDataBuffer \<Rightarrow> nat" where
  "SymbolicLinkReparseDataBuffer_Size c =
     20 + EncodedStringLen (rb_SubstituteName c) + EncodedStringLen (rb_PrintName c)"

text \<open>The data length is that of the buffer it was given, less eight.\<close>

definition SymbolicLinkReparseDataBuffer_Encode :: "SymbolicLinkReparseDataBuffer \<Rightarrow> bytes \<Rightarrow> bytes option" where
  "SymbolicLinkReparseDataBuffer_Encode c p =
     (let slen = EncodeString_len (rb_SubstituteName c); plen = EncodeString_len (rb_PrintName c) in
      seqw [at_off 20 (EncodeString (rb_SubstituteName c)),
        at_off (20 + slen) (EncodeString (rb_PrintName c)),
        put32 0 IO_REPARSE_TAG_SYMLINK, put16 4 (word_of_int (int (length p) - 8)), put16 8 0,
        put16 10 (of_nat slen), put16 14 (of_nat plen), put16 12 (of_nat slen), put32 16 (rb_Flags c)] p)"

definition SymbolicLinkReparseDataBufferDecoder_ReparseTag :: "slice \<Rightarrow> u32 option" where
  "SymbolicLinkReparseDataBufferDecoder_ReparseTag r = get32 0 r"
definition SymbolicLinkReparseDataBufferDecoder_ReparseDataLength :: "slice \<Rightarrow> u16 option" where
  "SymbolicLinkReparseDataBufferDecoder_ReparseDataLength r = get16 4 r"
definition SymbolicLinkReparseDataBufferDecoder_SubstituteNameOffset :: "slice \<Rightarrow> u16 option" where
  "SymbolicLinkReparseDataBufferDecoder_SubstituteNameOffset r = get16 8 r"
definition SymbolicLinkReparseDataBufferDecoder_SubstituteNameLength :: "slice \<Rightarrow> u16 option" where
  "SymbolicLinkReparseDataBufferDecoder_SubstituteNameLength r = get16 10 r"
definition SymbolicLinkReparseDataBufferDecoder_PrintNameOffset :: "slice \<Rightarrow> u16 option" where
  "SymbolicLinkReparseDataBufferDecoder_PrintNameOffset r = get16 12 r"
definition SymbolicLinkReparseDataBufferDecoder_PrintNameLength :: "slice \<Rightarrow> u16 option" where
  "SymbolicLinkReparseDataBufferDecoder_PrintNameLength r = get16 14 r"
definition SymbolicLinkReparseDataBufferDecoder_Flags :: "slice \<Rightarrow> u32 option" where
  "SymbolicLinkReparseDataBufferDecoder_Flags r = get32 16 r"
definition SymbolicLinkReparseDataBufferDecoder_PathBuffer :: "slice \<Rightarrow> slice option" where
  "SymbolicLinkReparseDataBufferDecoder_PathBuffer r = sfrom 20 r"

definition SymbolicLinkReparseDataBufferDecoder_IsInvalid :: "slice \<Rightarrow> bool option" where
  "SymbolicLinkReparseDataBufferDecoder_IsInvalid c =
     (if slen c < 20 then Some True
      else do { tag \<leftarrow> SymbolicLinkReparseDataBufferDecoder_ReparseTag c;
      if tag \<noteq> IO_REPARSE_TAG_SYMLINK then Some True
      else do { rlen \<leftarrow> SymbolicLinkReparseDataBufferDecoder_ReparseDataLength c;
                soff \<leftarrow> SymbolicLinkReparseDataBufferDecoder_SubstituteNameOffset c;
                sl \<leftarrow> SymbolicLinkReparseDataBufferDecoder_SubstituteNameLength c;
                poff \<leftarrow> SymbolicLinkReparseDataBufferDecoder_PrintNameOffset c;
                pl \<leftarrow> SymbolicLinkReparseDataBufferDecoder_PrintNameLength c;
                Some ((soff AND 1) OR (poff AND 1) \<noteq> 0 \<or> slen c < 8 + unat rlen \<or>
                  unat rlen < 12 + unat soff + unat sl \<or> unat rlen < 12 + unat poff + unat pl) }})"

definition SymbolicLinkReparseDataBufferDecoder_SubstituteName :: "slice \<Rightarrow> rune list option" where
  "SymbolicLinkReparseDataBufferDecoder_SubstituteName c =
     do { off \<leftarrow> SymbolicLinkReparseDataBufferDecoder_SubstituteNameOffset c;
          len \<leftarrow> SymbolicLinkReparseDataBufferDecoder_SubstituteNameLength c;
          buf \<leftarrow> SymbolicLinkReparseDataBufferDecoder_PathBuffer c;
          s \<leftarrow> sub16 off len buf; Some (DecodeToString (sbytes s)) }"

definition SymbolicLinkReparseDataBufferDecoder_PrintName :: "slice \<Rightarrow> rune list option" where
  "SymbolicLinkReparseDataBufferDecoder_PrintName c =
     do { off \<leftarrow> SymbolicLinkReparseDataBufferDecoder_PrintNameOffset c;
          len \<leftarrow> SymbolicLinkReparseDataBufferDecoder_PrintNameLength c;
          buf \<leftarrow> SymbolicLinkReparseDataBufferDecoder_PathBuffer c;
          s \<leftarrow> sub16 off len buf; Some (DecodeToString (sbytes s)) }"

section \<open>Server-side copy\<close>

definition SrvRequestResumeKeyResponseDecoder_ContextLength :: "slice \<Rightarrow> u32 option" where
  "SrvRequestResumeKeyResponseDecoder_ContextLength r = get32 24 r"
definition SrvRequestResumeKeyResponseDecoder_IsInvalid :: "slice \<Rightarrow> bool option" where
  "SrvRequestResumeKeyResponseDecoder_IsInvalid r = map_option (\<lambda>n. int (slen r) < uint (28 + n)) (SrvRequestResumeKeyResponseDecoder_ContextLength r)"
definition SrvRequestResumeKeyResponseDecoder_ResumeKey :: "slice \<Rightarrow> slice option" where
  "SrvRequestResumeKeyResponseDecoder_ResumeKey r = ssub 0 24 r"
definition SrvRequestResumeKeyResponseDecoder_Context :: "slice \<Rightarrow> slice option" where
  "SrvRequestResumeKeyResponseDecoder_Context r = do { n \<leftarrow> SrvRequestResumeKeyResponseDecoder_ContextLength r; ssub 28 (unat (28 + n)) r }"

record SrvCopychunk =
  sk_SourceOffset :: int
  sk_TargetOffset :: int
  sk_Length :: u32

definition SrvCopychunk_Size :: "SrvCopychunk \<Rightarrow> nat" where
  "SrvCopychunk_Size c = 24"

definition SrvCopychunk_Encode :: "SrvCopychunk \<Rightarrow> bytes \<Rightarrow> bytes option" where
  "SrvCopychunk_Encode c = seqw
     [put64 0 (word_of_int (sk_SourceOffset c)), put64 8 (word_of_int (sk_TargetOffset c)),
       put32 16 (sk_Length c)]"

record SrvCopychunkCopy =
  sc_SourceKey :: bytes
  sc_Chunks :: "SrvCopychunk list"

definition SrvCopychunkCopy_Size :: "SrvCopychunkCopy \<Rightarrow> nat" where
  "SrvCopychunkCopy_Size c = 32 + length (sc_Chunks c) * 24"

definition SrvCopychunkCopy_Encode :: "SrvCopychunkCopy \<Rightarrow> bytes \<Rightarrow> bytes option" where
  "SrvCopychunkCopy_Encode c = seqw
     ([at_range 0 24 (copy_from 0 (sc_SourceKey c)), put32 24 (of_nat (length (sc_Chunks c)))] @
      map (\<lambda>(i, chunk). at_range (32 + i * 24) (32 + i * 24 + 24) (SrvCopychunk_Encode chunk))
        (enumerate 0 (sc_Chunks c)))"

definition SrvCopychunkResponseDecoder_IsInvalid :: "slice \<Rightarrow> bool option" where
  "SrvCopychunkResponseDecoder_IsInvalid r = Some (slen r < 12)"
definition SrvCopychunkResponseDecoder_ChunksWritten :: "slice \<Rightarrow> u32 option" where
  "SrvCopychunkResponseDecoder_ChunksWritten r = get32 0 r"
definition SrvCopychunkResponseDecoder_ChunksBytesWritten :: "slice \<Rightarrow> u32 option" where
  "SrvCopychunkResponseDecoder_ChunksBytesWritten r = get32 4 r"
definition SrvCopychunkResponseDecoder_TotalBytesWritten :: "slice \<Rightarrow> u32 option" where
  "SrvCopychunkResponseDecoder_TotalBytesWritten r = get32 8 r"

section \<open>Directory entries\<close>

definition FileDirectoryInformationDecoder_FileNameLength :: "slice \<Rightarrow> u32 option" where
  "FileDirectoryInformationDecoder_FileNameLength r = get32 60 r"
definition FileDirectoryInformationDecoder_IsInvalid :: "slice \<Rightarrow> bool option" where
  "FileDirectoryInformationDecoder_IsInvalid r = map_option (\<lambda>n. int (slen r) < uint (64 + n)) (FileDirectoryInformationDecoder_FileNameLength r)"
definition FileDirectoryInformationDecoder_NextEntryOffset :: "slice \<Rightarrow> u32 option" where
  "FileDirectoryInformationDecoder_NextEntryOffset r = get32 0 r"
definition FileDirectoryInformationDecoder_FileIndex :: "slice \<Rightarrow> u32 option" where
  "FileDirectoryInformationDecoder_FileIndex r = get32 4 r"
definition FileDirectoryInformationDecoder_CreationTime :: "slice \<Rightarrow> slice option" where
  "FileDirectoryInformationDecoder_CreationTime r = ssub 8 16 r"
definition FileDirectoryInformationDecoder_LastAccessTime :: "slice \<Rightarrow> slice option" where
  "FileDirectoryInformationDecoder_LastAccessTime r = ssub 16 24 r"
definition FileDirectoryInformationDecoder_LastWriteTime :: "slice \<Rightarrow> slice option" where
  "FileDirectoryInformationDecoder_LastWriteTime r = ssub 24 32 r"
definition FileDirectoryInformationDecoder_ChangeTime :: "slice \<Rightarrow> slice option" where
  "FileDirectoryInformationDecoder_ChangeTime r = ssub 32 40 r"
definition FileDirectoryInformationDecoder_EndOfFile :: "slice \<Rightarrow> int option" where
  "FileDirectoryInformationDecoder_EndOfFile r = map_option sint (get64 40 r)"
definition FileDirectoryInformationDecoder_AllocationSize :: "slice \<Rightarrow> int option" where
  "FileDirectoryInformationDecoder_AllocationSize r = map_option sint (get64 48 r)"
definition FileDirectoryInformationDecoder_FileAttributes :: "slice \<Rightarrow> u32 option" where
  "FileDirectoryInformationDecoder_FileAttributes r = get32 56 r"
definition FileDirectoryInformationDecoder_FileName :: "slice \<Rightarrow> rune list option" where
  "FileDirectoryInformationDecoder_FileName r = do { n \<leftarrow> FileDirectoryInformationDecoder_FileNameLength r; s \<leftarrow> ssub 64 (unat (64 + n)) r; Some (DecodeToString (sbytes s)) }"

section \<open>Information a client sets\<close>

text \<open>\<open>EncodeString\<close> returns the length it wrote, which is \<open>EncodeString_len\<close>.\<close>

record FileRenameInformationType2Encoder =
  rn_ReplaceIfExists :: u8
  rn_RootDirectory :: u64
  rn_FileName :: "rune list"

definition FileRenameInformationType2Encoder_Size :: "FileRenameInformationType2Encoder \<Rightarrow> nat" where
  "FileRenameInformationType2Encoder_Size c = 20 + EncodedStringLen (rn_FileName c)"

definition FileRenameInformationType2Encoder_Encode :: "FileRenameInformationType2Encoder \<Rightarrow> bytes \<Rightarrow> bytes option" where
  "FileRenameInformationType2Encoder_Encode c = seqw
     [at_off 20 (EncodeString (rn_FileName c)), put8 0 (rn_ReplaceIfExists c), put64 8 (rn_RootDirectory c),
       put32 16 (of_nat (EncodeString_len (rn_FileName c)))]"

record FileLinkInformationType2Encoder =
  ln_ReplaceIfExists :: u8
  ln_RootDirectory :: u64
  ln_FileName :: "rune list"

definition FileLinkInformationType2Encoder_Size :: "FileLinkInformationType2Encoder \<Rightarrow> nat" where
  "FileLinkInformationType2Encoder_Size c = 20 + EncodedStringLen (ln_FileName c)"

definition FileLinkInformationType2Encoder_Encode :: "FileLinkInformationType2Encoder \<Rightarrow> bytes \<Rightarrow> bytes option" where
  "FileLinkInformationType2Encoder_Encode c = seqw
     [at_off 20 (EncodeString (ln_FileName c)), put8 0 (ln_ReplaceIfExists c), put64 8 (ln_RootDirectory c),
       put32 16 (of_nat (EncodeString_len (ln_FileName c)))]"

record FileDispositionInformationEncoder =
  dpe_DeletePending :: u8

definition FileDispositionInformationEncoder_Size :: "FileDispositionInformationEncoder \<Rightarrow> nat" where
  "FileDispositionInformationEncoder_Size c = 4"

definition FileDispositionInformationEncoder_Encode :: "FileDispositionInformationEncoder \<Rightarrow> bytes \<Rightarrow> bytes option" where
  "FileDispositionInformationEncoder_Encode c = seqw
     [put8 0 (dpe_DeletePending c)]"

record FilePositionInformationEncoder =
  poe_CurrentByteOffset :: int

definition FilePositionInformationEncoder_Size :: "FilePositionInformationEncoder \<Rightarrow> nat" where
  "FilePositionInformationEncoder_Size c = 8"

definition FilePositionInformationEncoder_Encode :: "FilePositionInformationEncoder \<Rightarrow> bytes \<Rightarrow> bytes option" where
  "FilePositionInformationEncoder_Encode c = seqw
     [put64 0 (word_of_int (poe_CurrentByteOffset c))]"

record FileEndOfFileInformationEncoder =
  eoe_EndOfFile :: int

definition FileEndOfFileInformationEncoder_Size :: "FileEndOfFileInformationEncoder \<Rightarrow> nat" where
  "FileEndOfFileInformationEncoder_Size c = 8"

definition FileEndOfFileInformationEncoder_Encode :: "FileEndOfFileInformationEncoder \<Rightarrow> bytes \<Rightarrow> bytes option" where
  "FileEndOfFileInformationEncoder_Encode c = seqw
     [put64 0 (word_of_int (eoe_EndOfFile c))]"

record FileBasicInformationEncoder =
  bae_CreationTime :: "Filetime option"
  bae_LastAccessTime :: "Filetime option"
  bae_LastWriteTime :: "Filetime option"
  bae_ChangeTime :: "Filetime option"
  bae_FileAttributes :: u32

definition FileBasicInformationEncoder_Size :: "FileBasicInformationEncoder \<Rightarrow> nat" where
  "FileBasicInformationEncoder_Size c = 40"

definition FileBasicInformationEncoder_Encode :: "FileBasicInformationEncoder \<Rightarrow> bytes \<Rightarrow> bytes option" where
  "FileBasicInformationEncoder_Encode c = seqw
     [opt_time 0 (bae_CreationTime c), opt_time 8 (bae_LastAccessTime c), opt_time 16 (bae_LastWriteTime c),
       opt_time 24 (bae_ChangeTime c), put32 32 (bae_FileAttributes c)]"

section \<open>Decoders of the information classes\<close>

definition FileFsFullSizeInformationDecoder_IsInvalid :: "slice \<Rightarrow> bool option" where
  "FileFsFullSizeInformationDecoder_IsInvalid r = Some (slen r < 32)"
definition FileFsFullSizeInformationDecoder_TotalAllocationUnits :: "slice \<Rightarrow> int option" where
  "FileFsFullSizeInformationDecoder_TotalAllocationUnits r = map_option sint (get64 0 r)"
definition FileFsFullSizeInformationDecoder_CallerAvailableAllocationUnits :: "slice \<Rightarrow> int option" where
  "FileFsFullSizeInformationDecoder_CallerAvailableAllocationUnits r = map_option sint (get64 8 r)"
definition FileFsFullSizeInformationDecoder_ActualAvailableAllocationUnits :: "slice \<Rightarrow> int option" where
  "FileFsFullSizeInformationDecoder_ActualAvailableAllocationUnits r = map_option sint (get64 16 r)"
definition FileFsFullSizeInformationDecoder_SectorsPerAllocationUnit :: "slice \<Rightarrow> u32 option" where
  "FileFsFullSizeInformationDecoder_SectorsPerAllocationUnit r = get32 24 r"
definition FileFsFullSizeInformationDecoder_BytesPerSector :: "slice \<Rightarrow> u32 option" where
  "FileFsFullSizeInformationDecoder_BytesPerSector r = get32 28 r"

definition FileQuotaInformationDecoder_SidLength :: "slice \<Rightarrow> u32 option" where "FileQuotaInformationDecoder_SidLength r = get32 4 r"
definition FileQuotaInformationDecoder_IsInvalid :: "slice \<Rightarrow> bool option" where
  "FileQuotaInformationDecoder_IsInvalid r = map_option (\<lambda>n. int (slen r) < uint (40 + n)) (FileQuotaInformationDecoder_SidLength r)"
definition FileQuotaInformationDecoder_NextEntryOffset :: "slice \<Rightarrow> u32 option" where
  "FileQuotaInformationDecoder_NextEntryOffset r = get32 0 r"
definition FileQuotaInformationDecoder_ChangeTime :: "slice \<Rightarrow> slice option" where "FileQuotaInformationDecoder_ChangeTime r = ssub 8 16 r"
definition FileQuotaInformationDecoder_QuotaUsed :: "slice \<Rightarrow> int option" where
  "FileQuotaInformationDecoder_QuotaUsed r = map_option sint (get64 16 r)"
definition FileQuotaInformationDecoder_QuotaThreshold :: "slice \<Rightarrow> int option" where
  "FileQuotaInformationDecoder_QuotaThreshold r = map_option sint (get64 24 r)"
definition FileQuotaInformationDecoder_QuotaLimit :: "slice \<Rightarrow> int option" where
  "FileQuotaInformationDecoder_QuotaLimit r = map_option sint (get64 32 r)"
definition FileQuotaInformationDecoder_Sid :: "slice \<Rightarrow> slice option" where
  "FileQuotaInformationDecoder_Sid r = do { n \<leftarrow> FileQuotaInformationDecoder_SidLength r; ssub 40 (unat (40 + n)) r }"

definition FileEndOfFileInformationDecoder_IsInvalid :: "slice \<Rightarrow> bool option" where
  "FileEndOfFileInformationDecoder_IsInvalid r = Some (slen r < 8)"
definition FileEndOfFileInformationDecoder_EndOfFile :: "slice \<Rightarrow> int option" where
  "FileEndOfFileInformationDecoder_EndOfFile r = map_option sint (get64 0 r)"

definition FileAllInformationDecoder_IsInvalid :: "slice \<Rightarrow> bool option" where "FileAllInformationDecoder_IsInvalid r = Some (slen r < 96)"
definition FileAllInformationDecoder_BasicInformation :: "slice \<Rightarrow> slice option" where
  "FileAllInformationDecoder_BasicInformation r = ssub 0 40 r"
definition FileAllInformationDecoder_StandardInformation :: "slice \<Rightarrow> slice option" where
  "FileAllInformationDecoder_StandardInformation r = ssub 40 64 r"
definition FileAllInformationDecoder_InternalInformation :: "slice \<Rightarrow> slice option" where
  "FileAllInformationDecoder_InternalInformation r = ssub 64 72 r"
definition FileAllInformationDecoder_EaInformation :: "slice \<Rightarrow> slice option" where
  "FileAllInformationDecoder_EaInformation r = ssub 72 76 r"
definition FileAllInformationDecoder_AccessInformation :: "slice \<Rightarrow> slice option" where
  "FileAllInformationDecoder_AccessInformation r = ssub 76 80 r"
definition FileAllInformationDecoder_PositionInformation :: "slice \<Rightarrow> slice option" where
  "FileAllInformationDecoder_PositionInformation r = ssub 80 88 r"
definition FileAllInformationDecoder_ModeInformation :: "slice \<Rightarrow> slice option" where
  "FileAllInformationDecoder_ModeInformation r = ssub 88 92 r"
definition FileAllInformationDecoder_AlignmentInformation :: "slice \<Rightarrow> slice option" where
  "FileAllInformationDecoder_AlignmentInformation r = ssub 92 96 r"
definition FileAllInformationDecoder_NameInformation :: "slice \<Rightarrow> slice option" where
  "FileAllInformationDecoder_NameInformation r = sfrom 96 r"

definition FileBasicInformationDecoder_IsInvalid :: "slice \<Rightarrow> bool option" where
  "FileBasicInformationDecoder_IsInvalid r = Some (slen r < 40)"
definition FileBasicInformationDecoder_CreationTime :: "slice \<Rightarrow> slice option" where
  "FileBasicInformationDecoder_CreationTime r = ssub 0 8 r"
definition FileBasicInformationDecoder_LastAccessTime :: "slice \<Rightarrow> slice option" where
  "FileBasicInformationDecoder_LastAccessTime r = ssub 8 16 r"
definition FileBasicInformationDecoder_LastWriteTime :: "slice \<Rightarrow> slice option" where
  "FileBasicInformationDecoder_LastWriteTime r = ssub 16 24 r"
definition FileBasicInformationDecoder_ChangeTime :: "slice \<Rightarrow> slice option" where
  "FileBasicInformationDecoder_ChangeTime r = ssub 24 32 r"
definition FileBasicInformationDecoder_FileAttributes :: "slice \<Rightarrow> u32 option" where
  "FileBasicInformationDecoder_FileAttributes r = get32 32 r"

definition FileStandardInformationDecoder_IsInvalid :: "slice \<Rightarrow> bool option" where
  "FileStandardInformationDecoder_IsInvalid r = Some (slen r < 24)"
definition FileStandardInformationDecoder_AllocationSize :: "slice \<Rightarrow> int option" where
  "FileStandardInformationDecoder_AllocationSize r = map_option sint (get64 0 r)"
definition FileStandardInformationDecoder_EndOfFile :: "slice \<Rightarrow> int option" where
  "FileStandardInformationDecoder_EndOfFile r = map_option sint (get64 8 r)"
definition FileStandardInformationDecoder_NumberOfLinks :: "slice \<Rightarrow> u32 option" where
  "FileStandardInformationDecoder_NumberOfLinks r = get32 16 r"
definition FileStandardInformationDecoder_DeletePending :: "slice \<Rightarrow> u8 option" where
  "FileStandardInformationDecoder_DeletePending r = sidx 20 r"
definition FileStandardInformationDecoder_Directory :: "slice \<Rightarrow> u8 option" where "FileStandardInformationDecoder_Directory r = sidx 21 r"

definition FileInternalInformationDecoder_IsInvalid :: "slice \<Rightarrow> bool option" where
  "FileInternalInformationDecoder_IsInvalid r = Some (slen r < 8)"
definition FileInternalInformationDecoder_IndexNumber :: "slice \<Rightarrow> int option" where
  "FileInternalInformationDecoder_IndexNumber r = map_option sint (get64 0 r)"

definition FileEaInformationDecoder_IsInvalid :: "slice \<Rightarrow> bool option" where "FileEaInformationDecoder_IsInvalid r = Some (slen r < 4)"
definition FileEaInformationDecoder_EaSize :: "slice \<Rightarrow> u32 option" where "FileEaInformationDecoder_EaSize r = get32 0 r"

definition FileAccessInformationDecoder_IsInvalid :: "slice \<Rightarrow> bool option" where
  "FileAccessInformationDecoder_IsInvalid r = Some (slen r < 4)"
definition FileAccessInformationDecoder_AccessFlags :: "slice \<Rightarrow> u32 option" where "FileAccessInformationDecoder_AccessFlags r = get32 0 r"

definition FilePositionInformationDecoder_IsInvalid :: "slice \<Rightarrow> bool option" where
  "FilePositionInformationDecoder_IsInvalid r = Some (slen r < 8)"
definition FilePositionInformationDecoder_CurrentByteOffset :: "slice \<Rightarrow> int option" where
  "FilePositionInformationDecoder_CurrentByteOffset r = map_option sint (get64 0 r)"

definition FileModeInformationDecoder_IsInvalid :: "slice \<Rightarrow> bool option" where
  "FileModeInformationDecoder_IsInvalid r = Some (slen r < 4)"
definition FileModeInformationDecoder_Mode :: "slice \<Rightarrow> u32 option" where "FileModeInformationDecoder_Mode r = get32 0 r"

definition FileAlignmentInformationDecoder_IsInvalid :: "slice \<Rightarrow> bool option" where
  "FileAlignmentInformationDecoder_IsInvalid r = Some (slen r < 4)"
definition FileAlignmentInformationDecoder_AlignmentRequirement :: "slice \<Rightarrow> u32 option" where
  "FileAlignmentInformationDecoder_AlignmentRequirement r = get32 0 r"

definition FileNameInformationDecoder_FileNameLength :: "slice \<Rightarrow> u32 option" where
  "FileNameInformationDecoder_FileNameLength r = get32 0 r"
definition FileNameInformationDecoder_FileName :: "slice \<Rightarrow> rune list option" where
  "FileNameInformationDecoder_FileName r = do { n \<leftarrow> FileNameInformationDecoder_FileNameLength r; s \<leftarrow> ssub 4 (unat (4 + n)) r; Some (DecodeToString (sbytes s)) }"

definition FileNameInformationDecoder_IsInvalid :: "slice \<Rightarrow> bool option" where
  "FileNameInformationDecoder_IsInvalid c =
     (if slen c < 4 then Some True
      else map_option (\<lambda>n. int (slen c) < uint (4 + n)) (FileNameInformationDecoder_FileNameLength c))"

end
