(* ===== verification/InfoFs.thy ===== *)
theory InfoFs
  imports Fscc
begin

text \<open>
  The information structures the server answers queries with and the decoders of those a client
  sets (server/info_fs.go). Structures without operations, which the server never builds, are left
  out.
\<close>

definition Align :: "int \<Rightarrow> int \<Rightarrow> int" where
  "Align n a = (n + a - 1) AND NOT (a - 1)"

section \<open>File information\<close>

record FileAccessInformationInfo =
  aci_AccessFlags :: u32

definition FileAccessInformationInfo_Size :: "FileAccessInformationInfo \<Rightarrow> nat" where
  "FileAccessInformationInfo_Size c = 4"

definition FileAccessInformationInfo_Encode :: "FileAccessInformationInfo \<Rightarrow> bytes \<Rightarrow> bytes option" where
  "FileAccessInformationInfo_Encode c = seqw
     [put32 0 (aci_AccessFlags c)]"

record FileAlignmentInformationInfo =
  ali_AlignmentRequirement :: u32

definition FileAlignmentInformationInfo_Size :: "FileAlignmentInformationInfo \<Rightarrow> nat" where
  "FileAlignmentInformationInfo_Size c = 4"

definition FileAlignmentInformationInfo_Encode :: "FileAlignmentInformationInfo \<Rightarrow> bytes \<Rightarrow> bytes option" where
  "FileAlignmentInformationInfo_Encode c = seqw
     [put32 0 (ali_AlignmentRequirement c)]"

record FileAlternateNameInformationInfo =
  ani_FileName :: "rune list"

definition FileAlternateNameInformationInfo_Size :: "FileAlternateNameInformationInfo \<Rightarrow> nat" where
  "FileAlternateNameInformationInfo_Size c = EncodedStringLen (ani_FileName c) + 4"

definition FileAlternateNameInformationInfo_Encode :: "FileAlternateNameInformationInfo \<Rightarrow> bytes \<Rightarrow> bytes option" where
  "FileAlternateNameInformationInfo_Encode c = seqw
     [put32 0 (of_nat (EncodedStringLen (ani_FileName c))),
       at_off 4 (EncodeString (ani_FileName c))]"

record FileBasicInformationInfo =
  bai_CreationTime :: Filetime
  bai_LastAccessTime :: Filetime
  bai_LastWriteTime :: Filetime
  bai_ChangeTime :: Filetime
  bai_FileAttributes :: u32
  bai_Pad :: u32

definition FileBasicInformationInfo_Size :: "FileBasicInformationInfo \<Rightarrow> nat" where
  "FileBasicInformationInfo_Size c = 40"

definition FileBasicInformationInfo_Encode :: "FileBasicInformationInfo \<Rightarrow> bytes \<Rightarrow> bytes option" where
  "FileBasicInformationInfo_Encode c = seqw
     [at_off 0 (Filetime_Encode (bai_CreationTime c)),
       at_off 8 (Filetime_Encode (bai_LastAccessTime c)),
       at_off 16 (Filetime_Encode (bai_LastWriteTime c)),
       at_off 24 (Filetime_Encode (bai_ChangeTime c)), put32 32 (bai_FileAttributes c)]"

record FileEaInformationInfo =
  eai_EaSize :: u32

definition FileEaInformationInfo_Size :: "FileEaInformationInfo \<Rightarrow> nat" where
  "FileEaInformationInfo_Size c = 4"

definition FileEaInformationInfo_Encode :: "FileEaInformationInfo \<Rightarrow> bytes \<Rightarrow> bytes option" where
  "FileEaInformationInfo_Encode c = seqw
     [put32 0 (eai_EaSize c)]"

record FileIdInformationInfo =
  idi_FileId :: int

definition FileIdInformationInfo_Size :: "FileIdInformationInfo \<Rightarrow> nat" where
  "FileIdInformationInfo_Size c = 8"

definition FileIdInformationInfo_Encode :: "FileIdInformationInfo \<Rightarrow> bytes \<Rightarrow> bytes option" where
  "FileIdInformationInfo_Encode c = seqw
     [put64 0 (word_of_int (idi_FileId c))]"

record FileInternalInformationInfo =
  ini_IndexNumber :: int

definition FileInternalInformationInfo_Size :: "FileInternalInformationInfo \<Rightarrow> nat" where
  "FileInternalInformationInfo_Size c = 8"

definition FileInternalInformationInfo_Encode :: "FileInternalInformationInfo \<Rightarrow> bytes \<Rightarrow> bytes option" where
  "FileInternalInformationInfo_Encode c = seqw
     [put64 0 (word_of_int (ini_IndexNumber c))]"

record FileModeInformationInfo =
  moi_Mode :: u32

definition FileModeInformationInfo_Size :: "FileModeInformationInfo \<Rightarrow> nat" where
  "FileModeInformationInfo_Size c = 4"

definition FileModeInformationInfo_Encode :: "FileModeInformationInfo \<Rightarrow> bytes \<Rightarrow> bytes option" where
  "FileModeInformationInfo_Encode c = seqw
     [put32 0 (moi_Mode c)]"

record FilePositionInformationInfo =
  poi_CurrentByteOffset :: int

definition FilePositionInformationInfo_Size :: "FilePositionInformationInfo \<Rightarrow> nat" where
  "FilePositionInformationInfo_Size c = 8"

definition FilePositionInformationInfo_Encode :: "FilePositionInformationInfo \<Rightarrow> bytes \<Rightarrow> bytes option" where
  "FilePositionInformationInfo_Encode c = seqw
     [put64 0 (word_of_int (poi_CurrentByteOffset c))]"

record FileStandardInformationInfo =
  sti_AllocationSize :: int
  sti_EndOfFile :: int
  sti_NumberOfLinks :: u32
  sti_DeletePending :: u8
  sti_Directory :: u8
  sti_Pad :: bytes

definition FileStandardInformationInfo_Size :: "FileStandardInformationInfo \<Rightarrow> nat" where
  "FileStandardInformationInfo_Size c = 24"

definition FileStandardInformationInfo_Encode :: "FileStandardInformationInfo \<Rightarrow> bytes \<Rightarrow> bytes option" where
  "FileStandardInformationInfo_Encode c = seqw
     [put64 0 (word_of_int (sti_AllocationSize c)), put64 8 (word_of_int (sti_EndOfFile c)),
       put32 16 (sti_NumberOfLinks c), put8 20 (sti_DeletePending c), put8 21 (sti_Directory c)]"

record FileAllInformationInfo =
  all_BasicInformation :: FileBasicInformationInfo
  all_StandardInformation :: FileStandardInformationInfo
  all_Internal :: FileInternalInformationInfo
  all_EaInformation :: FileEaInformationInfo
  all_AccessInformation :: FileAccessInformationInfo
  all_PositionInformation :: FilePositionInformationInfo
  all_ModeInformation :: FileModeInformationInfo
  all_AlignmentInformation :: FileAlignmentInformationInfo
  all_NameInformation :: FileAlternateNameInformationInfo

definition FileAllInformationInfo_Size :: "FileAllInformationInfo \<Rightarrow> nat" where
  "FileAllInformationInfo_Size i =
     FileBasicInformationInfo_Size (all_BasicInformation i) +
     FileStandardInformationInfo_Size (all_StandardInformation i) +
     FileInternalInformationInfo_Size (all_Internal i) +
     FileEaInformationInfo_Size (all_EaInformation i) +
     FileAccessInformationInfo_Size (all_AccessInformation i) +
     FilePositionInformationInfo_Size (all_PositionInformation i) +
     FileModeInformationInfo_Size (all_ModeInformation i) +
     FileAlignmentInformationInfo_Size (all_AlignmentInformation i) +
     FileAlternateNameInformationInfo_Size (all_NameInformation i)"

definition FileAllInformationInfo_Encode :: "FileAllInformationInfo \<Rightarrow> bytes \<Rightarrow> bytes option" where
  "FileAllInformationInfo_Encode i =
     (let off1 = FileBasicInformationInfo_Size (all_BasicInformation i);
          off2 = off1 + FileStandardInformationInfo_Size (all_StandardInformation i);
          off3 = off2 + FileInternalInformationInfo_Size (all_Internal i);
          off4 = off3 + FileEaInformationInfo_Size (all_EaInformation i);
          off5 = off4 + FileAccessInformationInfo_Size (all_AccessInformation i);
          off6 = off5 + FilePositionInformationInfo_Size (all_PositionInformation i);
          off7 = off6 + FileModeInformationInfo_Size (all_ModeInformation i);
          off8 = off7 + FileAlignmentInformationInfo_Size (all_AlignmentInformation i) in
      seqw [at_off 0 (FileBasicInformationInfo_Encode (all_BasicInformation i)),
        at_off off1 (FileStandardInformationInfo_Encode (all_StandardInformation i)),
        at_off off2 (FileInternalInformationInfo_Encode (all_Internal i)),
        at_off off3 (FileEaInformationInfo_Encode (all_EaInformation i)),
        at_off off4 (FileAccessInformationInfo_Encode (all_AccessInformation i)),
        at_off off5 (FilePositionInformationInfo_Encode (all_PositionInformation i)),
        at_off off6 (FileModeInformationInfo_Encode (all_ModeInformation i)),
        at_off off7 (FileAlignmentInformationInfo_Encode (all_AlignmentInformation i)),
        at_off off8 (FileAlternateNameInformationInfo_Encode (all_NameInformation i))])"

record FileNetworkOpenInformationInfo =
  noi_CreationTime :: Filetime
  noi_LastAccessTime :: Filetime
  noi_LastWriteTime :: Filetime
  noi_ChangeTime :: Filetime
  noi_AllocationSize :: int
  noi_EndOfFile :: int
  noi_FileAttributes :: u32

definition FileNetworkOpenInformationInfo_Size :: "FileNetworkOpenInformationInfo \<Rightarrow> nat" where
  "FileNetworkOpenInformationInfo_Size c = 56"

definition FileNetworkOpenInformationInfo_Encode :: "FileNetworkOpenInformationInfo \<Rightarrow> bytes \<Rightarrow> bytes option" where
  "FileNetworkOpenInformationInfo_Encode c = seqw
     [at_off 0 (Filetime_Encode (noi_CreationTime c)),
       at_off 8 (Filetime_Encode (noi_LastAccessTime c)),
       at_off 16 (Filetime_Encode (noi_LastWriteTime c)),
       at_off 24 (Filetime_Encode (noi_ChangeTime c)),
       put64 32 (word_of_int (noi_AllocationSize c)), put64 40 (word_of_int (noi_EndOfFile c)),
       put32 48 (noi_FileAttributes c)]"

record FileStreamInformationInfo =
  smi_NextEntryOffset :: u32
  smi_StreamSize :: u64
  smi_StreamAllocationSize :: u64
  smi_StreamName :: "rune list"

definition FileStreamInformationInfo_Size :: "FileStreamInformationInfo \<Rightarrow> nat" where
  "FileStreamInformationInfo_Size c = nat (Roundup (int (24+EncodedStringLen (smi_StreamName c))) 8)"

definition FileStreamInformationInfo_Encode :: "FileStreamInformationInfo \<Rightarrow> bytes \<Rightarrow> bytes option" where
  "FileStreamInformationInfo_Encode c = seqw
     [put32 0 (smi_NextEntryOffset c), put32 4 (of_nat (EncodedStringLen (smi_StreamName c))),
       put64 8 (smi_StreamSize c), put64 16 (smi_StreamAllocationSize c),
       at_off 24 (EncodeString (smi_StreamName c))]"

text \<open>\<open>FileStreamInformationInfoItems\<close>: the items are copies, all but the last with the size of
  the item as the offset of the next one, and a 32-bit offset that adds them up.\<close>

definition FileStreamInformationInfoItems_Size :: "FileStreamInformationInfo list \<Rightarrow> nat" where
  "FileStreamInformationInfoItems_Size i = sum_list (map FileStreamInformationInfo_Size i)"

fun stream_items :: "u32 \<Rightarrow> FileStreamInformationInfo list \<Rightarrow> bytes \<Rightarrow> bytes option" where
  "stream_items off [] pkt = Some pkt"
| "stream_items off (item # i) pkt =
     (let item = (if i \<noteq> [] then item\<lparr>smi_NextEntryOffset := of_nat (FileStreamInformationInfo_Size item)\<rparr> else item) in
      Option.bind (at_off (unat off) (FileStreamInformationInfo_Encode item) pkt)
        (stream_items (off + smi_NextEntryOffset item) i))"

definition FileStreamInformationInfoItems_Encode :: "FileStreamInformationInfo list \<Rightarrow> bytes \<Rightarrow> bytes option" where
  "FileStreamInformationInfoItems_Encode i = stream_items 0 i"

section \<open>File-system information\<close>

record FileFsAttributeInformationInfo =
  fai_FileSystemAttributes :: u32
  fai_MaximumComponentNameLength :: u32
  fai_FileSystemName :: "rune list"

definition FileFsAttributeInformationInfo_Size :: "FileFsAttributeInformationInfo \<Rightarrow> nat" where
  "FileFsAttributeInformationInfo_Size c = 12 + EncodedStringLen (fai_FileSystemName c)"

definition FileFsAttributeInformationInfo_Encode :: "FileFsAttributeInformationInfo \<Rightarrow> bytes \<Rightarrow> bytes option" where
  "FileFsAttributeInformationInfo_Encode c = seqw
     [put32 0 (fai_FileSystemAttributes c), put32 4 (fai_MaximumComponentNameLength c),
       put32 8 (of_nat (EncodedStringLen (fai_FileSystemName c))),
       at_off 12 (EncodeString (fai_FileSystemName c))]"

record FileFsDeviceInformationInfo =
  fdi_DeviceType :: u32
  fdi_Characteristics :: u32

definition FileFsDeviceInformationInfo_Size :: "FileFsDeviceInformationInfo \<Rightarrow> nat" where
  "FileFsDeviceInformationInfo_Size c = 8"

definition FileFsDeviceInformationInfo_Encode :: "FileFsDeviceInformationInfo \<Rightarrow> bytes \<Rightarrow> bytes option" where
  "FileFsDeviceInformationInfo_Encode c = seqw
     [put32 0 (fdi_DeviceType c), put32 4 (fdi_Characteristics c)]"

record FileFsFullSizeInformationInfo =
  ffi_TotalAllocationUnits :: int
  ffi_CallerAvailableAllocationUnits :: int
  ffi_ActualAvailableAllocationUnits :: int
  ffi_SectorsPerAllocationUnit :: u32
  ffi_BytesPerSector :: u32

definition FileFsFullSizeInformationInfo_Size :: "FileFsFullSizeInformationInfo \<Rightarrow> nat" where
  "FileFsFullSizeInformationInfo_Size c = 32"

definition FileFsFullSizeInformationInfo_Encode :: "FileFsFullSizeInformationInfo \<Rightarrow> bytes \<Rightarrow> bytes option" where
  "FileFsFullSizeInformationInfo_Encode c = seqw
     [put64 0 (word_of_int (ffi_TotalAllocationUnits c)),
       put64 8 (word_of_int (ffi_CallerAvailableAllocationUnits c)),
       put64 18 (word_of_int (ffi_ActualAvailableAllocationUnits c)),
       put32 24 (ffi_SectorsPerAllocationUnit c), put32 28 (ffi_BytesPerSector c)]"

record FileFsSizeInformationInfo =
  fsi_TotalAllocationUnits :: int
  fsi_AvailableAllocationUnits :: int
  fsi_SectorsPerAllocationUnit :: u32
  fsi_BytesPerSector :: u32

definition FileFsSizeInformationInfo_Size :: "FileFsSizeInformationInfo \<Rightarrow> nat" where
  "FileFsSizeInformationInfo_Size c = 24"

definition FileFsSizeInformationInfo_Encode :: "FileFsSizeInformationInfo \<Rightarrow> bytes \<Rightarrow> bytes option" where
  "FileFsSizeInformationInfo_Encode c = seqw
     [put64 0 (word_of_int (fsi_TotalAllocationUnits c)),
       put64 8 (word_of_int (fsi_AvailableAllocationUnits c)),
       put32 16 (fsi_SectorsPerAllocationUnit c), put32 20 (fsi_BytesPerSector c)]"

record FileFsVolumeInformationInfo =
  fvi_VolumeCreationTime :: Filetime
  fvi_VolumeSerialNumber :: u32
  fvi_SupportsObjects :: bool
  fvi_VolumeLabel :: "rune list"

definition FileFsVolumeInformationInfo_Size :: "FileFsVolumeInformationInfo \<Rightarrow> nat" where
  "FileFsVolumeInformationInfo_Size c = 18 + EncodedStringLen (fvi_VolumeLabel c)"

definition FileFsVolumeInformationInfo_Encode :: "FileFsVolumeInformationInfo \<Rightarrow> bytes \<Rightarrow> bytes option" where
  "FileFsVolumeInformationInfo_Encode c = seqw
     [at_off 0 (Filetime_Encode (fvi_VolumeCreationTime c)),
       put32 8 (fvi_VolumeSerialNumber c),
       put32 12 (of_nat (EncodedStringLen (fvi_VolumeLabel c))),
       at_off 18 (EncodeString (fvi_VolumeLabel c))]"

section \<open>Directory entries\<close>

record FileDirectoryInformationInfo =
  dir_NextEntryOffset :: u32
  dir_FileIndex :: u32
  dir_CreationTime :: Filetime
  dir_LastAccessTime :: Filetime
  dir_LastWriteTime :: Filetime
  dir_ChangeTime :: Filetime
  dir_EndOfFile :: u64
  dir_AllocationSize :: u64
  dir_FileAttributes :: u32
  dir_FileName :: "rune list"

definition FileDirectoryInformationInfo_Size :: "FileDirectoryInformationInfo \<Rightarrow> nat" where
  "FileDirectoryInformationInfo_Size c = nat (Align (int (64+EncodedStringLen (dir_FileName c))) 8)"

definition FileDirectoryInformationInfo_Encode :: "FileDirectoryInformationInfo \<Rightarrow> bytes \<Rightarrow> bytes option" where
  "FileDirectoryInformationInfo_Encode c = seqw
     [put32 0 (dir_NextEntryOffset c), put32 4 (dir_FileIndex c),
       at_off 8 (Filetime_Encode (dir_CreationTime c)),
       at_off 16 (Filetime_Encode (dir_LastAccessTime c)),
       at_off 24 (Filetime_Encode (dir_LastWriteTime c)),
       at_off 32 (Filetime_Encode (dir_ChangeTime c)), put64 40 (dir_EndOfFile c),
       put64 48 (dir_AllocationSize c), put32 56 (dir_FileAttributes c),
       put32 60 (of_nat (EncodedStringLen (dir_FileName c))),
       at_off 64 (EncodeString (dir_FileName c))]"

record FileFullDirectoryInformationInfo =
  ful_NextEntryOffset :: u32
  ful_FileIndex :: u32
  ful_CreationTime :: Filetime
  ful_LastAccessTime :: Filetime
  ful_LastWriteTime :: Filetime
  ful_ChangeTime :: Filetime
  ful_EndOfFile :: u64
  ful_AllocationSize :: u64
  ful_FileAttributes :: u32
  ful_EaSize :: u32
  ful_FileName :: "rune list"

definition FileFullDirectoryInformationInfo_Size :: "FileFullDirectoryInformationInfo \<Rightarrow> nat" where
  "FileFullDirectoryInformationInfo_Size c = nat (Align (int (68+EncodedStringLen (ful_FileName c))) 8)"

definition FileFullDirectoryInformationInfo_Encode :: "FileFullDirectoryInformationInfo \<Rightarrow> bytes \<Rightarrow> bytes option" where
  "FileFullDirectoryInformationInfo_Encode c = seqw
     [put32 0 (ful_NextEntryOffset c), put32 4 (ful_FileIndex c),
       at_off 8 (Filetime_Encode (ful_CreationTime c)),
       at_off 16 (Filetime_Encode (ful_LastAccessTime c)),
       at_off 24 (Filetime_Encode (ful_LastWriteTime c)),
       at_off 32 (Filetime_Encode (ful_ChangeTime c)), put64 40 (ful_EndOfFile c),
       put64 48 (ful_AllocationSize c), put32 56 (ful_FileAttributes c),
       put32 60 (of_nat (EncodedStringLen (ful_FileName c))), put32 64 (ful_EaSize c),
       at_off 68 (EncodeString (ful_FileName c))]"

record FileBothDirectoryInformationInfo =
  bot_NextEntryOffset :: u32
  bot_FileIndex :: u32
  bot_CreationTime :: Filetime
  bot_LastAccessTime :: Filetime
  bot_LastWriteTime :: Filetime
  bot_ChangeTime :: Filetime
  bot_EndOfFile :: u64
  bot_AllocationSize :: u64
  bot_FileAttributes :: u32
  bot_EaSize :: u32
  bot_ShortNameLength :: u8
  bot_Pad :: u8
  bot_ShortName :: bytes
  bot_FileName :: "rune list"

definition FileBothDirectoryInformationInfo_Size :: "FileBothDirectoryInformationInfo \<Rightarrow> nat" where
  "FileBothDirectoryInformationInfo_Size c = nat (Align (int (82+EncodedStringLen (bot_FileName c))) 16)"

definition FileBothDirectoryInformationInfo_Encode :: "FileBothDirectoryInformationInfo \<Rightarrow> bytes \<Rightarrow> bytes option" where
  "FileBothDirectoryInformationInfo_Encode c = seqw
     [put32 0 (bot_NextEntryOffset c), put32 4 (bot_FileIndex c),
       at_off 8 (Filetime_Encode (bot_CreationTime c)),
       at_off 16 (Filetime_Encode (bot_LastAccessTime c)),
       at_off 24 (Filetime_Encode (bot_LastWriteTime c)),
       at_off 32 (Filetime_Encode (bot_ChangeTime c)), put64 40 (bot_EndOfFile c),
       put64 48 (bot_AllocationSize c), put32 56 (bot_FileAttributes c),
       put32 60 (of_nat (EncodedStringLen (bot_FileName c))), put32 64 (bot_EaSize c),
       at_off 82 (EncodeString (bot_FileName c))]"

record FileIdBothDirectoryInformationInfo =
  idb_NextEntryOffset :: u32
  idb_FileIndex :: u32
  idb_CreationTime :: Filetime
  idb_LastAccessTime :: Filetime
  idb_LastWriteTime :: Filetime
  idb_ChangeTime :: Filetime
  idb_EndOfFile :: u64
  idb_AllocationSize :: u64
  idb_FileAttributes :: u32
  idb_EaSize :: u32
  idb_ShortNameLength :: u8
  idb_Pad :: u8
  idb_ShortName :: bytes
  idb_Pad2 :: u16
  idb_FileId :: u64
  idb_FileName :: "rune list"

definition FileIdBothDirectoryInformationInfo_Size :: "FileIdBothDirectoryInformationInfo \<Rightarrow> nat" where
  "FileIdBothDirectoryInformationInfo_Size c = nat (Align (int (104+EncodedStringLen (idb_FileName c))) 16)"

definition FileIdBothDirectoryInformationInfo_Encode :: "FileIdBothDirectoryInformationInfo \<Rightarrow> bytes \<Rightarrow> bytes option" where
  "FileIdBothDirectoryInformationInfo_Encode c = seqw
     [put32 0 (idb_NextEntryOffset c), put32 4 (idb_FileIndex c),
       at_off 8 (Filetime_Encode (idb_CreationTime c)),
       at_off 16 (Filetime_Encode (idb_LastAccessTime c)),
       at_off 24 (Filetime_Encode (idb_LastWriteTime c)),
       at_off 32 (Filetime_Encode (idb_ChangeTime c)), put64 40 (idb_EndOfFile c),
       put64 48 (idb_AllocationSize c), put32 56 (idb_FileAttributes c),
       put32 60 (of_nat (EncodedStringLen (idb_FileName c))), put32 64 (idb_EaSize c),
       put64 96 (idb_FileId c), at_off 104 (EncodeString (idb_FileName c))]"

record FileIdBothDirectoryInformationInfo2 =
  id2_NextEntryOffset :: u32
  id2_FileIndex :: u32
  id2_CreationTime :: Filetime
  id2_LastAccessTime :: Filetime
  id2_LastWriteTime :: Filetime
  id2_ChangeTime :: Filetime
  id2_EndOfFile :: u64
  id2_AllocationSize :: u64
  id2_FileAttributes :: u32
  id2_MaxAccess :: u32
  id2_ShortNameLength :: u8
  id2_Pad :: u8
  id2_RsrcForkLen :: u64
  id2_CompressedFinderInfo :: bytes
  id2_UnixMode :: u16
  id2_FileId :: u64
  id2_FileName :: "rune list"

definition FileIdBothDirectoryInformationInfo2_Size :: "FileIdBothDirectoryInformationInfo2 \<Rightarrow> nat" where
  "FileIdBothDirectoryInformationInfo2_Size c = nat (Align (int (104+EncodedStringLen (id2_FileName c))) 16)"

definition FileIdBothDirectoryInformationInfo2_Encode :: "FileIdBothDirectoryInformationInfo2 \<Rightarrow> bytes \<Rightarrow> bytes option" where
  "FileIdBothDirectoryInformationInfo2_Encode c = seqw
     [put32 0 (id2_NextEntryOffset c), put32 4 (id2_FileIndex c),
       at_off 8 (Filetime_Encode (id2_CreationTime c)),
       at_off 16 (Filetime_Encode (id2_LastAccessTime c)),
       at_off 24 (Filetime_Encode (id2_LastWriteTime c)),
       at_off 32 (Filetime_Encode (id2_ChangeTime c)), put64 40 (id2_EndOfFile c),
       put64 48 (id2_AllocationSize c), put32 56 (id2_FileAttributes c),
       put32 60 (of_nat (EncodedStringLen (id2_FileName c))), put32 64 (id2_MaxAccess c),
       put8 68 (id2_ShortNameLength c), put64 70 (id2_RsrcForkLen c),
       copy_from 78 (id2_CompressedFinderInfo c), put16 94 (id2_UnixMode c),
       put64 96 (id2_FileId c), at_off 104 (EncodeString (id2_FileName c))]"

record FileIdFullDirectoryInformationInfo =
  idf_NextEntryOffset :: u32
  idf_FileIndex :: u32
  idf_CreationTime :: Filetime
  idf_LastAccessTime :: Filetime
  idf_LastWriteTime :: Filetime
  idf_ChangeTime :: Filetime
  idf_EndOfFile :: u64
  idf_AllocationSize :: u64
  idf_FileAttributes :: u32
  idf_EaSize :: u32
  idf_Pad2 :: u32
  idf_FileId :: u64
  idf_FileName :: "rune list"

definition FileIdFullDirectoryInformationInfo_Size :: "FileIdFullDirectoryInformationInfo \<Rightarrow> nat" where
  "FileIdFullDirectoryInformationInfo_Size c = nat (Align (int (80+EncodedStringLen (idf_FileName c))) 8)"

definition FileIdFullDirectoryInformationInfo_Encode :: "FileIdFullDirectoryInformationInfo \<Rightarrow> bytes \<Rightarrow> bytes option" where
  "FileIdFullDirectoryInformationInfo_Encode c = seqw
     [put32 0 (idf_NextEntryOffset c), put32 4 (idf_FileIndex c),
       at_off 8 (Filetime_Encode (idf_CreationTime c)),
       at_off 16 (Filetime_Encode (idf_LastAccessTime c)),
       at_off 24 (Filetime_Encode (idf_LastWriteTime c)),
       at_off 32 (Filetime_Encode (idf_ChangeTime c)), put64 40 (idf_EndOfFile c),
       put64 48 (idf_AllocationSize c), put32 56 (idf_FileAttributes c),
       put32 60 (of_nat (EncodedStringLen (idf_FileName c))), put32 64 (idf_EaSize c),
       put64 72 (idf_FileId c), at_off 80 (EncodeString (idf_FileName c))]"

text \<open>\<open>FileInformationInfoResponse\<close>: every entry is encoded and then its first four bytes are set
  to its size, or to zero for the last one.\<close>

record FileInformationInfoResponse =
  fir_Items :: "enc list"

definition FileInformationInfoResponse_Size :: "FileInformationInfoResponse \<Rightarrow> nat" where
  "FileInformationInfoResponse_Size i = sum_list (map en_size (fir_Items i))"

fun entries :: "nat \<Rightarrow> enc list \<Rightarrow> bytes \<Rightarrow> bytes option" where
  "entries off [] pkt = Some pkt"
| "entries off (info # i) pkt =
     do { pkt \<leftarrow> at_off off (en_encode info) pkt;
          pkt \<leftarrow> put32 off (of_nat (if i \<noteq> [] then en_size info else 0)) pkt;
          entries (off + en_size info) i pkt }"

definition FileInformationInfoResponse_Encode :: "FileInformationInfoResponse \<Rightarrow> bytes \<Rightarrow> bytes option" where
  "FileInformationInfoResponse_Encode i = entries 0 (fir_Items i)"

section \<open>What a client sets, notifications, Apple and object ids\<close>

definition FileBasicInformationInfoDecoder_CreationTime :: "slice \<Rightarrow> Filetime option" where
  "FileBasicInformationInfoDecoder_CreationTime r = Option.bind (ssub 0 8 r) FiletimeDecoder_Decode"
definition FileBasicInformationInfoDecoder_LastAccessTime :: "slice \<Rightarrow> Filetime option" where
  "FileBasicInformationInfoDecoder_LastAccessTime r = Option.bind (ssub 8 16 r) FiletimeDecoder_Decode"
definition FileBasicInformationInfoDecoder_LastWriteTime :: "slice \<Rightarrow> Filetime option" where
  "FileBasicInformationInfoDecoder_LastWriteTime r = Option.bind (ssub 16 24 r) FiletimeDecoder_Decode"
definition FileBasicInformationInfoDecoder_ChangeTime :: "slice \<Rightarrow> Filetime option" where
  "FileBasicInformationInfoDecoder_ChangeTime r = Option.bind (ssub 24 32 r) FiletimeDecoder_Decode"
definition FileBasicInformationInfoDecoder_FileAttributes :: "slice \<Rightarrow> u32 option" where
  "FileBasicInformationInfoDecoder_FileAttributes r = get32 32 r"

definition FileEndOfFileInformationInfoDecoder_EndOfFile :: "slice \<Rightarrow> u64 option" where
  "FileEndOfFileInformationInfoDecoder_EndOfFile r = get64 0 r"

definition FileDispositionInformationInfoDecoder_DeletePending :: "slice \<Rightarrow> u8 option" where
  "FileDispositionInformationInfoDecoder_DeletePending r = sidx 0 r"

definition FileRenameInformationInfoDecoder_ReplaceIfExists :: "slice \<Rightarrow> u8 option" where
  "FileRenameInformationInfoDecoder_ReplaceIfExists r = sidx 0 r"
definition FileRenameInformationInfoDecoder_RootDirectory :: "slice \<Rightarrow> u64 option" where
  "FileRenameInformationInfoDecoder_RootDirectory r = get64 8 r"
definition FileRenameInformationInfoDecoder_FileNameLength :: "slice \<Rightarrow> u32 option" where
  "FileRenameInformationInfoDecoder_FileNameLength r = get32 16 r"
definition FileRenameInformationInfoDecoder_FileName :: "slice \<Rightarrow> rune list option" where
  "FileRenameInformationInfoDecoder_FileName r = do { n \<leftarrow> FileRenameInformationInfoDecoder_FileNameLength r; s \<leftarrow> ssub 20 (unat (20 + n)) r; Some (DecodeToString (sbytes s)) }"

record FileNotifyInformationInfo =
  nti_NextEntryOffset :: u32
  nti_Action :: u32
  nti_FileName :: "rune list"

definition FileNotifyInformationInfo_Size :: "FileNotifyInformationInfo \<Rightarrow> nat" where
  "FileNotifyInformationInfo_Size c = 12 + EncodedStringLen (nti_FileName c)"

definition FileNotifyInformationInfo_Encode :: "FileNotifyInformationInfo \<Rightarrow> bytes \<Rightarrow> bytes option" where
  "FileNotifyInformationInfo_Encode c = seqw
     [put32 0 (nti_NextEntryOffset c), put32 4 (nti_Action c),
       put32 8 (of_nat (EncodedStringLen (nti_FileName c))),
       at_off 12 (EncodeString (nti_FileName c))]"

record AfpInfo =
  afp_Signature :: bytes
  afp_Version :: bytes
  afp_FileBitmap :: bytes
  afp_Reserved1 :: bytes
  afp_FinderInfo :: bytes
  afp_ProDOSInfo :: bytes
  afp_Reserved2 :: bytes

definition AfpInfo_Size :: "AfpInfo \<Rightarrow> nat" where
  "AfpInfo_Size c = 60"

definition AfpInfo_Encode :: "AfpInfo \<Rightarrow> bytes \<Rightarrow> bytes option" where
  "AfpInfo_Encode c = seqw
     [copy_from 0 (afp_Signature c), copy_from 4 (afp_Version c),
       copy_from 8 (afp_FileBitmap c), copy_from 12 (afp_FinderInfo c),
       copy_from 44 (afp_ProDOSInfo c)]"

record FileObjectId1 =
  foi_ObjectId :: FileId
  foi_BirthVolumeId :: FileId
  foi_BirthObjectId :: FileId
  foi_DomainId :: FileId

definition FileObjectId1_Size :: "FileObjectId1 \<Rightarrow> nat" where
  "FileObjectId1_Size c = 64"

definition FileObjectId1_Encode :: "FileObjectId1 \<Rightarrow> bytes \<Rightarrow> bytes option" where
  "FileObjectId1_Encode c = seqw
     [at_off 0 (FileId_Encode (Some (foi_ObjectId c))),
       at_off 16 (FileId_Encode (Some (foi_BirthVolumeId c))),
       at_off 32 (FileId_Encode (Some (foi_BirthObjectId c))),
       at_off 48 (FileId_Encode (Some (foi_DomainId c)))]"

record FileFsObjectIdInfo =
  fso_ObjectId :: FileId
  fso_ExtendedInfo :: bytes

definition FileFsObjectIdInfo_Size :: "FileFsObjectIdInfo \<Rightarrow> nat" where
  "FileFsObjectIdInfo_Size c = 64"

definition FileFsObjectIdInfo_Encode :: "FileFsObjectIdInfo \<Rightarrow> bytes \<Rightarrow> bytes option" where
  "FileFsObjectIdInfo_Encode c = seqw
     [at_off 0 (FileId_Encode (Some (fso_ObjectId c)))]"

end
