(* ===== verification/InfoLemmas.thy ===== *)
theory InfoLemmas
  imports ResponseRoundtrips ResponseInterfaces InfoFs
begin

text \<open>
  The information structures implement the Encoder interface; an encoded directory listing, a
  rename's information and a link's reparse buffer read back.
\<close>

section \<open>The Encoder interface\<close>

lemma Align_8: "nat (Align (int n) 8) = round8 n"
  by (simp add: Align_def round8_def Roundup_def algebra_simps)

lemma Align_16: "n \<le> nat (Align (int n) 16) \<and> nat (Align (int n) 16) < n + 16"
proof -
  have "x AND NOT 15 = 16 * (x div 16)" for x :: int
  proof -
    have "x AND NOT (mask 4) = push_bit 4 (drop_bit 4 x)"
      by (rule bit_eqI) (auto simp: bit_simps)
    then show ?thesis by (simp add: mask_eq_exp_minus_1 push_bit_eq_mult drop_bit_eq_div mult.commute)
  qed
  from this [of "int n + 15"] have a: "Align (int n) 16 = 16 * ((int n + 15) div 16)" by (simp add: Align_def add.commute)
  show ?thesis unfolding a by linarith
qed

lemma Roundup_8: "nat (Roundup (int n) 8) = round8 n"
  by (simp add: round8_def)

lemma fits_filetime [fit]: "8 \<le> n \<Longrightarrow> fits n (Filetime_Encode t)"
  by (rule fits_mono [OF Filetime_fits])

lemma fits_FileId [fit]: "fid_ok f \<Longrightarrow> 16 \<le> n \<Longrightarrow> fits n (FileId_Encode (Some f))"
  by (rule fits_mono [OF FileId_fits]) (simp_all add: fid_opt_ok_def)

lemmas info_sizes =
  FileAccessInformationInfo_Size_def
  FileAlignmentInformationInfo_Size_def
  FileAlternateNameInformationInfo_Size_def
  FileBasicInformationInfo_Size_def
  FileEaInformationInfo_Size_def
  FileIdInformationInfo_Size_def
  FileInternalInformationInfo_Size_def
  FileModeInformationInfo_Size_def
  FilePositionInformationInfo_Size_def
  FileStandardInformationInfo_Size_def

lemmas info_encodes =
  FileAccessInformationInfo_Encode_def
  FileAlignmentInformationInfo_Encode_def
  FileAlternateNameInformationInfo_Encode_def
  FileBasicInformationInfo_Encode_def
  FileEaInformationInfo_Encode_def
  FileIdInformationInfo_Encode_def
  FileInternalInformationInfo_Encode_def
  FileModeInformationInfo_Encode_def
  FilePositionInformationInfo_Encode_def
  FileStandardInformationInfo_Encode_def

lemma small_infos_fit [fit]:
  "4 \<le> k \<Longrightarrow> fits k (FileAccessInformationInfo_Encode a)"
  "4 \<le> k \<Longrightarrow> fits k (FileAlignmentInformationInfo_Encode b)"
  "EncodedStringLen (ani_FileName n) + 4 \<le> k \<Longrightarrow> fits k (FileAlternateNameInformationInfo_Encode n)"
  "40 \<le> k \<Longrightarrow> fits k (FileBasicInformationInfo_Encode c)"
  "4 \<le> k \<Longrightarrow> fits k (FileEaInformationInfo_Encode d)"
  "8 \<le> k \<Longrightarrow> fits k (FileIdInformationInfo_Encode e)"
  "8 \<le> k \<Longrightarrow> fits k (FileInternalInformationInfo_Encode f)"
  "4 \<le> k \<Longrightarrow> fits k (FileModeInformationInfo_Encode g)"
  "8 \<le> k \<Longrightarrow> fits k (FilePositionInformationInfo_Encode h)"
  "24 \<le> k \<Longrightarrow> fits k (FileStandardInformationInfo_Encode i)"
  by (auto simp: info_encodes intro!: fit)

interpretation access_info: encoder FileAccessInformationInfo_Size FileAccessInformationInfo_Encode "\<lambda>_. True"
  by unfold_locales (auto simp: FileAccessInformationInfo_Size_def intro: fit)

interpretation alignment_info: encoder FileAlignmentInformationInfo_Size FileAlignmentInformationInfo_Encode "\<lambda>_. True"
  by unfold_locales (auto simp: FileAlignmentInformationInfo_Size_def intro: fit)

interpretation name_info: encoder FileAlternateNameInformationInfo_Size FileAlternateNameInformationInfo_Encode "\<lambda>_. True"
  by unfold_locales (auto simp: FileAlternateNameInformationInfo_Size_def intro: fit)

interpretation basic_info: encoder FileBasicInformationInfo_Size FileBasicInformationInfo_Encode "\<lambda>_. True"
  by unfold_locales (auto simp: FileBasicInformationInfo_Size_def intro: fit)

interpretation ea_info: encoder FileEaInformationInfo_Size FileEaInformationInfo_Encode "\<lambda>_. True"
  by unfold_locales (auto simp: FileEaInformationInfo_Size_def intro: fit)

interpretation id_info: encoder FileIdInformationInfo_Size FileIdInformationInfo_Encode "\<lambda>_. True"
  by unfold_locales (auto simp: FileIdInformationInfo_Size_def intro: fit)

interpretation internal_info: encoder FileInternalInformationInfo_Size FileInternalInformationInfo_Encode "\<lambda>_. True"
  by unfold_locales (auto simp: FileInternalInformationInfo_Size_def intro: fit)

interpretation mode_info: encoder FileModeInformationInfo_Size FileModeInformationInfo_Encode "\<lambda>_. True"
  by unfold_locales (auto simp: FileModeInformationInfo_Size_def intro: fit)

interpretation position_info: encoder FilePositionInformationInfo_Size FilePositionInformationInfo_Encode "\<lambda>_. True"
  by unfold_locales (auto simp: FilePositionInformationInfo_Size_def intro: fit)

interpretation standard_info: encoder FileStandardInformationInfo_Size FileStandardInformationInfo_Encode "\<lambda>_. True"
  by unfold_locales (auto simp: FileStandardInformationInfo_Size_def intro: fit)

interpretation all_info: encoder FileAllInformationInfo_Size FileAllInformationInfo_Encode "\<lambda>_. True"
  by unfold_locales (auto simp: FileAllInformationInfo_Encode_def FileAllInformationInfo_Size_def info_sizes intro!: fit)

lemma aligned_ge: "k + n \<le> nat (Align (int k + int n) 8)" "k + n \<le> nat (Align (int k + int n) 16)"
    "k + n \<le> nat (Roundup (int k + int n) 8)"
  using Align_8 [of "k + n"] Align_16 [of "k + n"] Roundup_8 [of "k + n"] round8_ge [of "k + n"] by simp_all

lemma aligned_mono: "m \<le> k + n \<Longrightarrow> m \<le> nat (Align (int k + int n) 8)"
    "m \<le> k + n \<Longrightarrow> m \<le> nat (Align (int k + int n) 16)" "m \<le> k + n \<Longrightarrow> m \<le> nat (Roundup (int k + int n) 8)"
  using aligned_ge [of k n] by linarith+

lemma aligned_room: "m + j \<le> k + n \<Longrightarrow> m \<le> nat (Align (int k + int n) 8) - j"
    "m + j \<le> k + n \<Longrightarrow> m \<le> nat (Align (int k + int n) 16) - j" "m + j \<le> k + n \<Longrightarrow> m \<le> nat (Roundup (int k + int n) 8) - j"
  using aligned_ge [of k n] by linarith+

lemmas aligned_num [simp] = aligned_mono [of _ "numeral k" for k, simplified]
  aligned_room [of _ _ "numeral k" for k, simplified]

interpretation network_open_info: encoder FileNetworkOpenInformationInfo_Size FileNetworkOpenInformationInfo_Encode "\<lambda>_. True"
  by unfold_locales (auto simp: FileNetworkOpenInformationInfo_Encode_def FileNetworkOpenInformationInfo_Size_def intro!: fit)

interpretation stream_info: encoder FileStreamInformationInfo_Size FileStreamInformationInfo_Encode "\<lambda>_. True"
  by unfold_locales (auto simp: FileStreamInformationInfo_Encode_def FileStreamInformationInfo_Size_def intro!: fit)

interpretation fs_attribute_info: encoder FileFsAttributeInformationInfo_Size FileFsAttributeInformationInfo_Encode "\<lambda>_. True"
  by unfold_locales (auto simp: FileFsAttributeInformationInfo_Encode_def FileFsAttributeInformationInfo_Size_def intro!: fit)

interpretation fs_device_info: encoder FileFsDeviceInformationInfo_Size FileFsDeviceInformationInfo_Encode "\<lambda>_. True"
  by unfold_locales (auto simp: FileFsDeviceInformationInfo_Encode_def FileFsDeviceInformationInfo_Size_def intro!: fit)

interpretation fs_full_size_info: encoder FileFsFullSizeInformationInfo_Size FileFsFullSizeInformationInfo_Encode "\<lambda>_. True"
  by unfold_locales (auto simp: FileFsFullSizeInformationInfo_Encode_def FileFsFullSizeInformationInfo_Size_def intro!: fit)

interpretation fs_size_info: encoder FileFsSizeInformationInfo_Size FileFsSizeInformationInfo_Encode "\<lambda>_. True"
  by unfold_locales (auto simp: FileFsSizeInformationInfo_Encode_def FileFsSizeInformationInfo_Size_def intro!: fit)

interpretation fs_volume_info: encoder FileFsVolumeInformationInfo_Size FileFsVolumeInformationInfo_Encode "\<lambda>_. True"
  by unfold_locales (auto simp: FileFsVolumeInformationInfo_Encode_def FileFsVolumeInformationInfo_Size_def intro!: fit)

interpretation directory_info: encoder FileDirectoryInformationInfo_Size FileDirectoryInformationInfo_Encode "\<lambda>_. True"
  by unfold_locales (auto simp: FileDirectoryInformationInfo_Encode_def FileDirectoryInformationInfo_Size_def intro!: fit)

interpretation full_directory_info: encoder FileFullDirectoryInformationInfo_Size FileFullDirectoryInformationInfo_Encode "\<lambda>_. True"
  by unfold_locales (auto simp: FileFullDirectoryInformationInfo_Encode_def FileFullDirectoryInformationInfo_Size_def intro!: fit)

interpretation both_directory_info: encoder FileBothDirectoryInformationInfo_Size FileBothDirectoryInformationInfo_Encode "\<lambda>_. True"
  by unfold_locales (auto simp: FileBothDirectoryInformationInfo_Encode_def FileBothDirectoryInformationInfo_Size_def intro!: fit)

interpretation id_both_directory_info: encoder FileIdBothDirectoryInformationInfo_Size FileIdBothDirectoryInformationInfo_Encode "\<lambda>_. True"
  by unfold_locales (auto simp: FileIdBothDirectoryInformationInfo_Encode_def FileIdBothDirectoryInformationInfo_Size_def intro!: fit)

interpretation id_both_directory_info2: encoder FileIdBothDirectoryInformationInfo2_Size FileIdBothDirectoryInformationInfo2_Encode "\<lambda>c. length (id2_CompressedFinderInfo c) \<le> 16"
  by unfold_locales (auto simp: FileIdBothDirectoryInformationInfo2_Encode_def FileIdBothDirectoryInformationInfo2_Size_def intro!: fit)

interpretation id_full_directory_info: encoder FileIdFullDirectoryInformationInfo_Size FileIdFullDirectoryInformationInfo_Encode "\<lambda>_. True"
  by unfold_locales (auto simp: FileIdFullDirectoryInformationInfo_Encode_def FileIdFullDirectoryInformationInfo_Size_def intro!: fit)

interpretation notify_info: encoder FileNotifyInformationInfo_Size FileNotifyInformationInfo_Encode "\<lambda>_. True"
  by unfold_locales (auto simp: FileNotifyInformationInfo_Encode_def FileNotifyInformationInfo_Size_def intro!: fit)

interpretation afp_info: encoder AfpInfo_Size AfpInfo_Encode "\<lambda>c. length (afp_Signature c) \<le> 4 \<and> length (afp_Version c) \<le> 4 \<and> length (afp_FileBitmap c) \<le> 2 \<and>
         length (afp_FinderInfo c) \<le> 32 \<and> length (afp_ProDOSInfo c) \<le> 6"
  by unfold_locales (auto simp: AfpInfo_Encode_def AfpInfo_Size_def intro!: fit)

interpretation object_id_info: encoder FileObjectId1_Size FileObjectId1_Encode "\<lambda>c. fid_ok (foi_ObjectId c) \<and> fid_ok (foi_BirthVolumeId c) \<and> fid_ok (foi_BirthObjectId c) \<and>
         fid_ok (foi_DomainId c)"
  by unfold_locales (auto simp: FileObjectId1_Encode_def FileObjectId1_Size_def intro!: fit)

interpretation fs_object_id_info: encoder FileFsObjectIdInfo_Size FileFsObjectIdInfo_Encode "\<lambda>c. fid_ok (fso_ObjectId c)"
  by unfold_locales (auto simp: FileFsObjectIdInfo_Encode_def FileFsObjectIdInfo_Size_def intro!: fit)

section \<open>Directory listings\<close>

lemma window_prefix: "take m q = take m p \<Longrightarrow> a + n \<le> m \<Longrightarrow> window a n q = window a n p"
proof -
  assume "take m q = take m p" "a + n \<le> m"
  then have "take n (drop a (take m q)) = take n (drop a (take m p))" by simp
  then show ?thesis using \<open>a + n \<le> m\<close> by (cases "n \<le> m - a") (simp_all add: window_def drop_take min_def)
qed

definition start_of :: "enc list \<Rightarrow> nat \<Rightarrow> nat" where
  "start_of cs i = sum_list (map en_size (take i cs))"

text \<open>Entry \<open>i\<close> starts where the sizes of those before it end. Its first four bytes hold its size,
  or zero for the last one; behind them is what its encoder wrote.\<close>

lemma entries_chain:
  assumes "\<forall>c \<in> set cs. enc_ok c \<and> 4 \<le> en_size c" and "off + sum_list (map en_size cs) \<le> length p"
  shows "\<exists>q. entries off cs p = Some q \<and> length q = length p \<and> take off q = take off p \<and>
    (\<forall>i < length cs. \<exists>b r. en_size (cs ! i) \<le> length b \<and> en_encode (cs ! i) b = Some r \<and>
       window (off + start_of cs i) 4 q =
         le_bytes 4 (unat (of_nat (if Suc i < length cs then en_size (cs ! i) else 0) :: u32)) \<and>
       window (off + start_of cs i + 4) (en_size (cs ! i) - 4) q = window 4 (en_size (cs ! i) - 4) r)"
  using assms
proof (induction cs arbitrary: off p)
  case Nil
  then show ?case by simp
next
  case (Cons c cs)
  let ?s = "en_size c"
  define nx where "nx = le_bytes 4 (unat (of_nat (if cs \<noteq> [] then ?s else 0) :: u32))"
  have c: "enc_ok c" "4 \<le> ?s" "off + ?s \<le> length p" using Cons.prems by auto
  obtain r where r: "en_encode c (drop off p) = Some r" "length r = length p - off"
  proof -
    have "?s \<le> length (drop off p)" using c by simp
    with c(1) that show thesis using fitsD [of ?s "en_encode c" "drop off p"] by (auto simp: enc_ok_def)
  qed
  let ?p = "copy_at off nx (take off p @ r)"
  have at: "at_off off (en_encode c) p = Some (take off p @ r)" using r c by (simp add: at_off_def)
  have l: "length ?p = length p" "length nx = 4" using r c by (simp_all add: nx_def)
  have pt: "put32 off (of_nat (if cs \<noteq> [] then ?s else 0)) (take off p @ r) = Some ?p"
    using r c by (simp add: put32_def nx_def)
  obtain q where q: "entries (off + ?s) cs ?p = Some q" "length q = length ?p" "take (off + ?s) q = take (off + ?s) ?p"
    "\<forall>i < length cs. \<exists>b r. en_size (cs ! i) \<le> length b \<and> en_encode (cs ! i) b = Some r \<and>
       window (off + ?s + start_of cs i) 4 q =
         le_bytes 4 (unat (of_nat (if Suc i < length cs then en_size (cs ! i) else 0) :: u32)) \<and>
       window (off + ?s + start_of cs i + 4) (en_size (cs ! i) - 4) q = window 4 (en_size (cs ! i) - 4) r"
    using Cons.IH [of "off + ?s" ?p] Cons.prems l by auto
  have "take off q = take off (take (off + ?s) q)" by simp
  also have "\<dots> = take off p" unfolding q(3) using c by (simp add: copy_at_def)
  finally have t: "take off q = take off p" .
  have w: "window off 4 q = nx" "window (off + 4) (?s - 4) q = window 4 (?s - 4) r"
  proof -
    have "window off 4 q = window off 4 ?p" using window_prefix [OF q(3), of off 4] c by simp
    also have "\<dots> = nx" by (rule window_copy_at_same) (use l c r in simp_all)
    finally show "window off 4 q = nx" .
    have "window (off + 4) (?s - 4) q = window (off + 4) (?s - 4) ?p"
      using window_prefix [OF q(3), of "off + 4" "?s - 4"] c by simp
    also have "\<dots> = window (off + 4) (?s - 4) (take off p @ r)" by (rule window_after) (use l in simp)
    also have "\<dots> = window 4 (?s - 4) r" using c by (simp add: window_def)
    finally show "window (off + 4) (?s - 4) q = window 4 (?s - 4) r" .
  qed
  have "\<exists>b r. en_size ((c # cs) ! i) \<le> length b \<and> en_encode ((c # cs) ! i) b = Some r \<and>
       window (off + start_of (c # cs) i) 4 q =
         le_bytes 4 (unat (of_nat (if Suc i < length (c # cs) then en_size ((c # cs) ! i) else 0) :: u32)) \<and>
       window (off + start_of (c # cs) i + 4) (en_size ((c # cs) ! i) - 4) q = window 4 (en_size ((c # cs) ! i) - 4) r"
    if "i < length (c # cs)" for i
  proof (cases i)
    case 0
    have "?s \<le> length (drop off p)" using c by simp
    with 0 r w show ?thesis
      by (intro exI [of _ "drop off p"] exI [of _ r]) (simp add: start_of_def nx_def)
  next
    case (Suc j)
    then have "j < length cs" using that by simp
    from q(4) [rule_format, OF this] Suc show ?thesis by (simp add: start_of_def add.assoc cong: if_cong split del: if_split)
  qed
  moreover have "entries off (c # cs) p = Some q" using at pt q(1) by simp
  ultimately show ?case using q(2) l t by (intro exI [of _ q]) simp
qed

definition directory_enc :: "FileDirectoryInformationInfo \<Rightarrow> enc" where
  "directory_enc d = \<lparr>en_size = FileDirectoryInformationInfo_Size d, en_encode = FileDirectoryInformationInfo_Encode d\<rparr>"

definition entry_ok :: "FileDirectoryInformationInfo \<Rightarrow> bool" where
  "entry_ok d \<longleftrightarrow> (\<forall>r \<in> set (dir_FileName d). valid_rune r) \<and> (dir_FileName d = [] \<or> last (dir_FileName d) \<noteq> 0) \<and>
     EncodedStringLen (dir_FileName d) < 4294967296 - 72"

definition entry_reads :: "FileDirectoryInformationInfo \<Rightarrow> slice \<Rightarrow> bool" where
  "entry_reads d r \<longleftrightarrow>
     FileDirectoryInformationDecoder_IsInvalid r = Some False \<and>
     FileDirectoryInformationDecoder_FileIndex r = Some (dir_FileIndex d) \<and>
     FileDirectoryInformationDecoder_FileName r = Some (dir_FileName d) \<and>
     Option.bind (FileDirectoryInformationDecoder_CreationTime r) FiletimeDecoder_Decode = Some (dir_CreationTime d) \<and>
     Option.bind (FileDirectoryInformationDecoder_LastAccessTime r) FiletimeDecoder_Decode = Some (dir_LastAccessTime d) \<and>
     Option.bind (FileDirectoryInformationDecoder_LastWriteTime r) FiletimeDecoder_Decode = Some (dir_LastWriteTime d) \<and>
     Option.bind (FileDirectoryInformationDecoder_ChangeTime r) FiletimeDecoder_Decode = Some (dir_ChangeTime d) \<and>
     FileDirectoryInformationDecoder_EndOfFile r = Some (sint (dir_EndOfFile d)) \<and>
     FileDirectoryInformationDecoder_AllocationSize r = Some (sint (dir_AllocationSize d)) \<and>
     FileDirectoryInformationDecoder_FileAttributes r = Some (dir_FileAttributes d)"

lemma put_time_at: "a + 8 \<le> length p \<Longrightarrow> at_off a (Filetime_Encode t) p = Some (copy_at a (time_bytes (Some t) []) p)"
  by (simp add: at_off_def Filetime_Encode_put time_bytes_def copy_at_def add.commute)

lemma directory_entry_windows:
  assumes "FileDirectoryInformationInfo_Size d \<le> length b"
  shows "\<exists>r. FileDirectoryInformationInfo_Encode d b = Some r \<and> length r = length b \<and>
    window 4 4 r = le_bytes 4 (unat (dir_FileIndex d)) \<and>
    window 8 8 r = time_bytes (Some (dir_CreationTime d)) [] \<and>
    window 16 8 r = time_bytes (Some (dir_LastAccessTime d)) [] \<and>
    window 24 8 r = time_bytes (Some (dir_LastWriteTime d)) [] \<and>
    window 32 8 r = time_bytes (Some (dir_ChangeTime d)) [] \<and>
    window 40 8 r = le_bytes 8 (unat (dir_EndOfFile d)) \<and>
    window 48 8 r = le_bytes 8 (unat (dir_AllocationSize d)) \<and>
    window 56 4 r = le_bytes 4 (unat (dir_FileAttributes d)) \<and>
    window 60 4 r = le_bytes 4 (unat (of_nat (EncodedStringLen (dir_FileName d)) :: u32)) \<and>
    window 64 (EncodedStringLen (dir_FileName d)) r = EncodeStringToBytes (dir_FileName d)"
proof -
  have "64 + EncodedStringLen (dir_FileName d) \<le> length b"
    using assms round8_ge [of "64 + EncodedStringLen (dir_FileName d)"]
      Align_8 [of "64 + EncodedStringLen (dir_FileName d)"]
    by (simp add: FileDirectoryInformationInfo_Size_def)
  then show ?thesis
    by (simp add: FileDirectoryInformationInfo_Encode_def body_simps put_time_at windows)
qed

lemma window_part: "window o' k t = window a k r \<Longrightarrow> a \<le> b \<Longrightarrow> b + n \<le> a + k \<Longrightarrow> window (o' + (b - a)) n t = window b n r"
proof -
  assume w: "window o' k t = window a k r" and l: "a \<le> b" "b + n \<le> a + k"
  have "window (x + (b - a)) n y = take n (drop (b - a) (window x k y))" for x and y :: "'a list"
  proof -
    have "n \<le> k - (b - a)" using l by linarith
    then show ?thesis using l by (simp add: window_def drop_take add.commute min_absorb1)
  qed
  from this [of o' t] this [of a r] w l show ?thesis by simp
qed

lemma get_from:
  "o' + a + 4 \<le> length t \<Longrightarrow> get32 a (Slice (drop o' t) n) = Some (of_nat (le_nat (window (o' + a) 4 t)))"
  "o' + a + 8 \<le> length t \<Longrightarrow> get64 a (Slice (drop o' t) n) = Some (of_nat (le_nat (window (o' + a) 8 t)))"
  by (simp_all add: get_eqs window_def add.commute)

lemma directory_entry_reads:
  assumes "entry_ok d" and "o' + FileDirectoryInformationInfo_Size d \<le> length t"
    and "FileDirectoryInformationInfo_Size d \<le> length b" and "FileDirectoryInformationInfo_Encode d b = Some r"
    and "window (o' + 4) (FileDirectoryInformationInfo_Size d - 4) t = window 4 (FileDirectoryInformationInfo_Size d - 4) r"
  shows "entry_reads d (Slice (drop o' t) (length t - o'))"
proof -
  let ?l = "EncodedStringLen (dir_FileName d)"
  let ?s = "FileDirectoryInformationInfo_Size d"
  have s: "64 + ?l \<le> ?s"
    using round8_ge [of "64 + ?l"] Align_8 [of "64 + ?l"] by (simp add: FileDirectoryInformationInfo_Size_def)
  have l: "o' + (64 + ?l) \<le> length t" "?l < 4294967296 - 72"
    using s assms(1,2) by (simp_all add: entry_ok_def)
  have w: "window (o' + a) n t = window a n r" if "4 \<le> a" "a + n \<le> 64 + ?l" for a n
    using window_part [OF assms(5), of a n] that s by simp
  note rw = directory_entry_windows [OF assms(3)]
  have win: "window 4 4 r = le_bytes 4 (unat (dir_FileIndex d))"
    "window 8 8 r = time_bytes (Some (dir_CreationTime d)) []"
    "window 16 8 r = time_bytes (Some (dir_LastAccessTime d)) []"
    "window 24 8 r = time_bytes (Some (dir_LastWriteTime d)) []"
    "window 32 8 r = time_bytes (Some (dir_ChangeTime d)) []"
    "window 40 8 r = le_bytes 8 (unat (dir_EndOfFile d))"
    "window 48 8 r = le_bytes 8 (unat (dir_AllocationSize d))"
    "window 56 4 r = le_bytes 4 (unat (dir_FileAttributes d))"
    "window 60 4 r = le_bytes 4 (unat (of_nat ?l :: u32))"
    "window 64 ?l r = EncodeStringToBytes (dir_FileName d)"
    using rw assms(4) by simp_all
  have u: "unat (64 + of_nat ?l :: u32) = 64 + ?l" "uint (64 + of_nat ?l :: u32) = 64 + int ?l"
    using l nat_sum_fits(2) [of 64 ?l] int_sum_fits(2) [of 64 ?l] by simp_all
  have tm: "FiletimeDecoder_Decode (Slice (drop (a + o') t) 8) = Some f"
    if "window (o' + a) 8 t = time_bytes (Some f) []" "o' + a + 8 \<le> length t" for a f
    using FiletimeDecoder_at [of "o' + a" t "Some f" 8] that by (simp add: time_bytes_def add.commute)
  have nm: "sbytes (Slice (drop (64 + o') t) ?l) = EncodeStringToBytes (dir_FileName d)"
    using w [of 64 ?l] win by (simp add: window_def add.commute)
  have room: "64 + ?l \<le> length t - o'" using l by linarith
  show ?thesis
    using assms(1) l room
    unfolding entry_reads_def
    by (simp add: FileDirectoryInformationDecoder_IsInvalid_def FileDirectoryInformationDecoder_FileName_def
      FileDirectoryInformationDecoder_FileNameLength_def FileDirectoryInformationDecoder_CreationTime_def
      FileDirectoryInformationDecoder_FileIndex_def FileDirectoryInformationDecoder_LastAccessTime_def
      FileDirectoryInformationDecoder_ChangeTime_def FileDirectoryInformationDecoder_LastWriteTime_def FileDirectoryInformationDecoder_EndOfFile_def
      FileDirectoryInformationDecoder_AllocationSize_def FileDirectoryInformationDecoder_FileAttributes_def
      get_from w win u le_word tm nm DecodeToString_EncodeStringToBytes entry_ok_def del: sbytes.simps)
qed

text \<open>C34. Directory listings: a client that follows the next-entry offsets of an encoded listing
  finds every entry in order, with its name, its index, its four times, its two sizes and its
  attributes, each read by the client's own accessor, and a zero offset exactly at the last one. The
  names are names a decoder can give back (Unicode scalar values, no zero at the end) whose UTF-16
  form is shorter than \<open>2^32 - 72\<close> bytes; the next-entry field the caller put in is the one field
  the listing overwrites.\<close>

theorem directory_listing_delivered:
  assumes "\<forall>d \<in> set ds. entry_ok d" and "i < length ds"
  shows "\<exists>t r. FileInformationInfoResponse_Encode \<lparr>fir_Items = map directory_enc ds\<rparr>
      (replicate (FileInformationInfoResponse_Size \<lparr>fir_Items = map directory_enc ds\<rparr>) 0) = Some t \<and>
    sfrom (start_of (map directory_enc ds) i) (of_bytes t) = Some r \<and>
    entry_reads (ds ! i) r \<and>
    FileDirectoryInformationDecoder_NextEntryOffset r =
      Some (if Suc i = length ds then 0 else of_nat (FileDirectoryInformationInfo_Size (ds ! i)))"
proof -
  let ?cs = "map directory_enc ds"
  let ?n = "sum_list (map en_size ?cs)"
  have ok: "\<forall>c \<in> set ?cs. enc_ok c \<and> 4 \<le> en_size c"
    using directory_info.encode_fits
    by (auto simp: enc_ok_def directory_enc_def FileDirectoryInformationInfo_Size_def)
  obtain t where t: "entries 0 ?cs (replicate ?n 0) = Some t" "length t = ?n"
    "\<forall>i < length ?cs. \<exists>b r. en_size (?cs ! i) \<le> length b \<and> en_encode (?cs ! i) b = Some r \<and>
       window (start_of ?cs i) 4 t =
         le_bytes 4 (unat (of_nat (if Suc i < length ?cs then en_size (?cs ! i) else 0) :: u32)) \<and>
       window (start_of ?cs i + 4) (en_size (?cs ! i) - 4) t = window 4 (en_size (?cs ! i) - 4) r"
    using entries_chain [OF ok, of 0 "replicate ?n 0"] by auto
  let ?o = "start_of ?cs i"
  have sz: "en_size (?cs ! i) = FileDirectoryInformationInfo_Size (ds ! i)"
    using assms(2) by (simp add: directory_enc_def)
  have "?n = sum_list (map en_size (take i ?cs)) + en_size (?cs ! i) + sum_list (map en_size (drop (Suc i) ?cs))"
    using assms(2) id_take_nth_drop [of i ?cs] by (metis (no_types, lifting) add.assoc length_map list.simps(9) map_append sum_list.Cons sum_list.append)
  then have le: "?o + FileDirectoryInformationInfo_Size (ds ! i) \<le> length t"
    using t(2) sz by (simp add: start_of_def)
  obtain b r where br: "FileDirectoryInformationInfo_Size (ds ! i) \<le> length b"
    "FileDirectoryInformationInfo_Encode (ds ! i) b = Some r"
    "window ?o 4 t = le_bytes 4 (unat (of_nat (if Suc i < length ds then FileDirectoryInformationInfo_Size (ds ! i) else 0) :: u32))"
    "window (?o + 4) (FileDirectoryInformationInfo_Size (ds ! i) - 4) t = window 4 (FileDirectoryInformationInfo_Size (ds ! i) - 4) r"
    using t(3) [rule_format, of i] assms(2) by (auto simp: directory_enc_def)
  have four: "4 \<le> FileDirectoryInformationInfo_Size (ds ! i)" using ok sz assms(2) by (metis length_map nth_mem)
  have "sfrom ?o (of_bytes t) = Some (Slice (drop ?o t) (length t - ?o))" using le by (simp add: of_bytes_def)
  moreover have "entry_reads (ds ! i) (Slice (drop ?o t) (length t - ?o))"
    by (rule directory_entry_reads [OF _ le br(1,2,4)]) (use assms in simp)
  moreover have "FileDirectoryInformationDecoder_NextEntryOffset (Slice (drop ?o t) (length t - ?o)) =
      Some (if Suc i = length ds then 0 else of_nat (FileDirectoryInformationInfo_Size (ds ! i)))"
    using get_from(1) [of ?o 0 t] le four br(3) assms(2)
    by (auto simp: FileDirectoryInformationDecoder_NextEntryOffset_def le_word)
  ultimately show ?thesis
    using t(1) by (simp add: FileInformationInfoResponse_Encode_def FileInformationInfoResponse_Size_def)
qed

definition demo_entry :: "rune list \<Rightarrow> FileDirectoryInformationInfo" where
  "demo_entry nm = \<lparr>dir_NextEntryOffset = 0, dir_FileIndex = 7, dir_CreationTime = \<lparr>ft_LowDateTime = 1, ft_HighDateTime = 2\<rparr>,
     dir_LastAccessTime = \<lparr>ft_LowDateTime = 3, ft_HighDateTime = 2\<rparr>,
     dir_LastWriteTime = \<lparr>ft_LowDateTime = 5, ft_HighDateTime = 2\<rparr>,
     dir_ChangeTime = \<lparr>ft_LowDateTime = 8, ft_HighDateTime = 2\<rparr>,
     dir_EndOfFile = 3, dir_AllocationSize = 4096, dir_FileAttributes = 0x80, dir_FileName = nm\<rparr>"

lemma directory_listing_delivered_witness:
  "\<exists>t r. FileInformationInfoResponse_Encode \<lparr>fir_Items = map directory_enc [demo_entry [0x61], demo_entry [0x62]]\<rparr>
      (replicate (FileInformationInfoResponse_Size
        \<lparr>fir_Items = map directory_enc [demo_entry [0x61], demo_entry [0x62]]\<rparr>) 0) = Some t \<and>
    sfrom (start_of (map directory_enc [demo_entry [0x61], demo_entry [0x62]]) 1) (of_bytes t) = Some r \<and>
    FileDirectoryInformationDecoder_FileName r = Some [0x62] \<and>
    FileDirectoryInformationDecoder_FileIndex r = Some 7 \<and>
    Option.bind (FileDirectoryInformationDecoder_LastAccessTime r) FiletimeDecoder_Decode =
      Some \<lparr>ft_LowDateTime = 3, ft_HighDateTime = 2\<rparr> \<and>
    Option.bind (FileDirectoryInformationDecoder_ChangeTime r) FiletimeDecoder_Decode =
      Some \<lparr>ft_LowDateTime = 8, ft_HighDateTime = 2\<rparr> \<and>
    FileDirectoryInformationDecoder_NextEntryOffset r = Some 0"
proof -
  have "\<forall>d \<in> set [demo_entry [0x61], demo_entry [0x62]]. entry_ok d"
    by (simp add: entry_ok_def demo_entry_def valid_rune_def is_surrogate_def EncodedStringLen_def)
  from directory_listing_delivered [OF this, of 1] show ?thesis
    by (auto simp: entry_reads_def demo_entry_def)
qed

section \<open>Information a client sets\<close>

text \<open>A rename request's information, from the client's encoder to the server's decoder.\<close>

lemma rename_info_delivered:
  assumes "\<forall>r \<in> set (rn_FileName c). valid_rune r" and "rn_FileName c = [] \<or> last (rn_FileName c) \<noteq> 0"
    and "EncodedStringLen (rn_FileName c) < 4294967296 - 20"
  shows "\<exists>t. FileRenameInformationType2Encoder_Encode c
      (replicate (FileRenameInformationType2Encoder_Size c) 0) = Some t \<and>
    FileRenameInformationInfoDecoder_ReplaceIfExists (of_bytes t) = Some (rn_ReplaceIfExists c) \<and>
    FileRenameInformationInfoDecoder_RootDirectory (of_bytes t) = Some (rn_RootDirectory c) \<and>
    FileRenameInformationInfoDecoder_FileName (of_bytes t) = Some (rn_FileName c)"
  using assms nat_sum_fits(2) [of 20 "EncodedStringLen (rn_FileName c)"]
  by (simp add: FileRenameInformationType2Encoder_Encode_def FileRenameInformationType2Encoder_Size_def
    FileRenameInformationInfoDecoder_ReplaceIfExists_def FileRenameInformationInfoDecoder_RootDirectory_def
    FileRenameInformationInfoDecoder_FileName_def FileRenameInformationInfoDecoder_FileNameLength_def
    body_simps read_simps DecodeToString_EncodeStringToBytes del: sbytes.simps)

text \<open>A symbolic link's reparse buffer: the server accepts it and reads the client's names and
  flags.\<close>

lemma reparse_buffer_delivered:
  assumes "\<forall>r \<in> set (rb_SubstituteName c) \<union> set (rb_PrintName c). valid_rune r"
    and "rb_SubstituteName c = [] \<or> last (rb_SubstituteName c) \<noteq> 0"
    and "rb_PrintName c = [] \<or> last (rb_PrintName c) \<noteq> 0"
    and "EncodedStringLen (rb_SubstituteName c) + EncodedStringLen (rb_PrintName c) < 65536 - 12"
  shows "\<exists>t. SymbolicLinkReparseDataBuffer_Encode c (replicate (SymbolicLinkReparseDataBuffer_Size c) 0) = Some t \<and>
    SymbolicLinkReparseDataBufferDecoder_IsInvalid (of_bytes t) = Some False \<and>
    SymbolicLinkReparseDataBufferDecoder_Flags (of_bytes t) = Some (rb_Flags c) \<and>
    SymbolicLinkReparseDataBufferDecoder_SubstituteName (of_bytes t) = Some (rb_SubstituteName c) \<and>
    SymbolicLinkReparseDataBufferDecoder_PrintName (of_bytes t) = Some (rb_PrintName c)"
proof -
  define s where "s = EncodedStringLen (rb_SubstituteName c)"
  define l where "l = EncodedStringLen (rb_PrintName c)"
  have b: "s + l < 65536 - 12" using assms(4) by (simp add: s_def l_def)
  have ev: "s mod 2 = 0" unfolding s_def EncodeString_len_eq [symmetric] by (simp add: EncodeString_len_def)
  have u: "unat (of_nat s :: u16) = s" "unat (of_nat l :: u16) = l" "unat (of_nat s + of_nat l :: u16) = s + l"
    "unat (word_of_int (int (12 + s + l)) :: u16) = 12 + s + l"
    using b nat_sum_fits(1) [of "of_nat s" l] by (simp_all add: unsigned_of_nat take_bit_nat_eq_self del: of_nat_add)
  have w: "(word_of_int (int s + (int l + 12)) :: u16) = word_of_int (int (12 + s + l))" by (simp add: algebra_simps)
  have p: "of_nat s AND 1 = (0 :: u16)" 
  proof -
    have "take_bit 1 s = 0" using ev by (simp add: take_bit_eq_mod)
    then have "take_bit 1 (of_nat s :: u16) = 0" by (simp add: take_bit_of_nat)
    then show ?thesis by (simp add: take_bit_eq_mask mask_eq_exp_minus_1)
  qed
  have sf: "sfrom 20 (of_bytes t) = Some (Slice (drop 20 t) (length t - 20))" if "20 \<le> length t" for t :: bytes
    using that by (simp add: of_bytes_def)
  have u12: "unat (12 + (of_nat s + of_nat l) :: u16) = 12 + (s + l)"
    using b nat_sum_fits(1) [of 12 "s + l"] by simp
  have win: "window (s + 20) l (copy_at (20 + s) (EncodeStringToBytes (rb_PrintName c)) q) = EncodeStringToBytes (rb_PrintName c)"
    if "20 + s + l \<le> length q" for q
    using that by (simp add: window_copy_at_same add.commute length_EncodeStringToBytes l_def)
  show ?thesis
    using assms b
    by (simp add: SymbolicLinkReparseDataBuffer_Encode_def SymbolicLinkReparseDataBuffer_Size_def Let_def
      SymbolicLinkReparseDataBufferDecoder_IsInvalid_def SymbolicLinkReparseDataBufferDecoder_ReparseTag_def
      SymbolicLinkReparseDataBufferDecoder_ReparseDataLength_def SymbolicLinkReparseDataBufferDecoder_SubstituteNameOffset_def
      SymbolicLinkReparseDataBufferDecoder_SubstituteNameLength_def SymbolicLinkReparseDataBufferDecoder_PrintNameOffset_def
      SymbolicLinkReparseDataBufferDecoder_PrintNameLength_def SymbolicLinkReparseDataBufferDecoder_Flags_def
      SymbolicLinkReparseDataBufferDecoder_PathBuffer_def SymbolicLinkReparseDataBufferDecoder_SubstituteName_def
      SymbolicLinkReparseDataBufferDecoder_PrintName_def sub16_def sf u u12 w p win s_def [symmetric] l_def [symmetric]
      body_simps read_simps window_zeros DecodeToString_EncodeStringToBytes del: sbytes.simps)
qed

lemma take_le_bytes: "k \<le> n \<Longrightarrow> take k (le_bytes n v) = le_bytes k v"
proof (induction k arbitrary: n v)
  case (Suc k)
  then show ?case by (cases n) simp_all
qed simp

text \<open>C35. FileFsFullSizeInformation writes the caller's actual free units two bytes too far: a client
  reads them shifted by 16 bits, with the top 16 bits lost.\<close>

theorem full_size_actual_shifted:
  "\<exists>t. FileFsFullSizeInformationInfo_Encode c (replicate (FileFsFullSizeInformationInfo_Size c) 0) = Some t \<and>
    FileFsFullSizeInformationDecoder_IsInvalid (of_bytes t) = Some False \<and>
    FileFsFullSizeInformationDecoder_TotalAllocationUnits (of_bytes t) = Some (wrap64 (ffi_TotalAllocationUnits c)) \<and>
    FileFsFullSizeInformationDecoder_CallerAvailableAllocationUnits (of_bytes t) =
      Some (wrap64 (ffi_CallerAvailableAllocationUnits c)) \<and>
    FileFsFullSizeInformationDecoder_ActualAvailableAllocationUnits (of_bytes t) =
      Some (wrap64 (ffi_ActualAvailableAllocationUnits c * 65536)) \<and>
    FileFsFullSizeInformationDecoder_SectorsPerAllocationUnit (of_bytes t) = Some (ffi_SectorsPerAllocationUnit c)"
proof -
  define v where "v = unat (word_of_int (ffi_ActualAvailableAllocationUnits c) :: u64)"
  define q where "q = copy_at 18 (le_bytes 8 v)
    (copy_at 8 (le_bytes 8 (unat (word_of_int (ffi_CallerAvailableAllocationUnits c) :: u64)))
      (copy_at 0 (le_bytes 8 (unat (word_of_int (ffi_TotalAllocationUnits c) :: u64))) (replicate 32 0)))"
  have l: "length q = 32" by (simp add: q_def)
  have split: "window 16 8 (copy_at 18 xs p) = window 16 2 p @ take 6 xs" if "length xs = 8" "length p = 32" for xs p :: bytes
    using that by (simp add: window_def copy_at_def drop_take)
  have "window 16 8 q = window 16 2 (replicate 32 0) @ take 6 (le_bytes 8 v)"
    unfolding q_def by (subst split) (simp_all add: window_after)
  then have c: "le_nat (window 16 8 q) = 65536 * (v mod 256 ^ 6)"
    by (simp add: window_zeros take_le_bytes le_nat_bytes numeral_2_eq_2)
  have "(of_nat (65536 * (v mod 256 ^ 6)) :: u64) = of_nat (65536 * v)"
    unfolding word_of_nat_eq_iff take_bit_eq_mod by (simp add: mult_mod_right)
  also have "\<dots> = 65536 * word_of_int (ffi_ActualAvailableAllocationUnits c)"
    by (simp add: v_def)
  also have "\<dots> = word_of_int (ffi_ActualAvailableAllocationUnits c * 65536)" by (simp add: mult.commute)
  finally have m: "sint (of_nat (le_nat (window 16 8 q)) :: u64) = wrap64 (ffi_ActualAvailableAllocationUnits c * 65536)"
    unfolding c by (simp only: sint_wrap64)
  show ?thesis
    using m unfolding q_def v_def
    by (simp add: FileFsFullSizeInformationInfo_Encode_def FileFsFullSizeInformationInfo_Size_def
      FileFsFullSizeInformationDecoder_IsInvalid_def FileFsFullSizeInformationDecoder_TotalAllocationUnits_def
      FileFsFullSizeInformationDecoder_CallerAvailableAllocationUnits_def
      FileFsFullSizeInformationDecoder_ActualAvailableAllocationUnits_def
      FileFsFullSizeInformationDecoder_SectorsPerAllocationUnit_def body_simps read_simps of_nat_le_word sint_wrap64)
qed

end
