(* ===== verification/GoStrings.thy ===== *)
theory GoStrings
  imports DtypLemmas GoPath
begin

text \<open>
  Go strings are byte strings. The codecs see a string as the list of its runes (\<open>[]rune(s)\<close>,
  \<open>string(rs)\<close>), the file system as its bytes; \<open>go_string\<close> and \<open>go_runes\<close> are the two
  conversions, UTF-8 with the replacement rune U+FFFD for what is not valid. The functions of
  the strings package the server calls follow.
\<close>

section \<open>UTF-8\<close>

definition utf8_rune :: "rune \<Rightarrow> nat list" where
  "utf8_rune r =
     (if r < 0x80 then [r]
      else if r < 0x800 then [0xC0 + r div 64, 0x80 + r mod 64]
      else if is_surrogate r \<or> 0x10FFFF < r then [0xEF, 0xBF, 0xBD]
      else if r < 0x10000 then [0xE0 + r div 4096, 0x80 + r div 64 mod 64, 0x80 + r mod 64]
      else [0xF0 + r div 262144, 0x80 + r div 4096 mod 64, 0x80 + r div 64 mod 64, 0x80 + r mod 64])"

definition cont :: "nat \<Rightarrow> bool" where
  "cont b \<longleftrightarrow> 0x80 \<le> b \<and> b \<le> 0xBF"

text \<open>The range of the second byte depends on the first: no overlong form, no surrogate, nothing
  above U+10FFFF.\<close>

definition second_ok :: "nat \<Rightarrow> nat \<Rightarrow> bool" where
  "second_ok a b \<longleftrightarrow> cont b \<and> (a = 0xE0 \<longrightarrow> 0xA0 \<le> b) \<and> (a = 0xED \<longrightarrow> b \<le> 0x9F) \<and>
     (a = 0xF0 \<longrightarrow> 0x90 \<le> b) \<and> (a = 0xF4 \<longrightarrow> b \<le> 0x8F)"

text \<open>\<open>utf8.DecodeRune\<close>: the rune and how many bytes it takes, one byte for an invalid one.\<close>

fun decode_rune :: "nat list \<Rightarrow> rune \<times> nat" where
  "decode_rune [] = (0xFFFD, 0)"
| "decode_rune (a # bs) =
     (if a < 0x80 then (a, 1)
      else (case bs of
         b # bs2 \<Rightarrow>
           if 0xC2 \<le> a \<and> a \<le> 0xDF \<and> cont b then ((a - 0xC0) * 64 + (b - 0x80), 2)
           else (case bs2 of
              c # bs3 \<Rightarrow>
                if 0xE0 \<le> a \<and> a \<le> 0xEF \<and> second_ok a b \<and> cont c
                then ((a - 0xE0) * 4096 + (b - 0x80) * 64 + (c - 0x80), 3)
                else (case bs3 of
                   d # _ \<Rightarrow>
                     if 0xF0 \<le> a \<and> a \<le> 0xF4 \<and> second_ok a b \<and> cont c \<and> cont d
                     then ((a - 0xF0) * 262144 + (b - 0x80) * 4096 + (c - 0x80) * 64 + (d - 0x80), 4)
                     else (0xFFFD, 1)
                 | [] \<Rightarrow> (0xFFFD, 1))
            | [] \<Rightarrow> (0xFFFD, 1))
       | [] \<Rightarrow> (0xFFFD, 1)))"

lemma decode_rune_pos: "bs \<noteq> [] \<Longrightarrow> 0 < snd (decode_rune bs)"
  by (cases bs) (auto split: list.splits)

function utf8_runes :: "nat list \<Rightarrow> rune list" where
  "utf8_runes bs =
     (if bs = [] then [] else fst (decode_rune bs) # utf8_runes (drop (snd (decode_rune bs)) bs))"
  by pat_completeness auto
termination
  by (relation "measure length") (auto simp del: decode_rune.simps simp: decode_rune_pos)

declare utf8_runes.simps [simp del]

lemma decode_utf8_rune: "valid_rune r \<Longrightarrow> decode_rune (utf8_rune r @ bs) = (r, length (utf8_rune r))"
proof -
  assume "valid_rune r"
  then have v: "r \<le> 0x10FFFF" "\<not> is_surrogate r" by (simp_all add: valid_rune_def)
  have m: "x mod 64 < (64::nat)" for x by simp
  consider "r < 0x80" | "0x80 \<le> r" "r < 0x800" | "0x800 \<le> r" "r < 0x10000" | "0x10000 \<le> r" by linarith
  then show ?thesis
  proof cases
    case 1
    then show ?thesis by (simp add: utf8_rune_def)
  next
    case 2
    have "2 \<le> r div 64" using 2 div_le_mono [of 128 r 64] by simp
    moreover have "r div 64 \<le> 31" using 2 div_le_mono [of r 2047 64] by simp
    moreover have "r mod 64 \<le> 63" using m [of r] by simp
    ultimately show ?thesis using 2 by (simp add: utf8_rune_def cont_def)
  next
    case 3
    have d: "r div 4096 < 16" "r div 64 = r div 4096 * 64 + r div 64 mod 64"
      using 3 div_mult2_eq [of r 64 64] by (simp_all add: less_mult_imp_div_less)
    have s: "r = r div 4096 * 4096 + (r div 64 mod 64) * 64 + r mod 64"
      using d(2) div_mult_mod_eq [of r 64] by linarith
    have lo: "r div 4096 = 0 \<Longrightarrow> 32 \<le> r div 64 mod 64"
      using 3(1) s m [of r] by linarith
    have su: "r div 4096 = 13 \<Longrightarrow> r div 64 mod 64 < 32"
      using v(2) s m [of r] 3 by (simp add: is_surrogate_def) linarith
    show ?thesis
      using 3 v m [of "r div 64"] m [of r] d(1) lo su s
      by (auto simp: utf8_rune_def cont_def second_ok_def)
  next
    case 4
    have d: "r div 262144 < 5" "r div 64 = r div 4096 * 64 + r div 64 mod 64"
      "r div 4096 = r div 262144 * 64 + r div 4096 mod 64"
      using v(1) div_mult2_eq [of r 64 64] div_mult2_eq [of r 4096 64] by (simp_all add: less_mult_imp_div_less)
    have s: "r = r div 262144 * 262144 + (r div 4096 mod 64) * 4096 + (r div 64 mod 64) * 64 + r mod 64"
      using d(2,3) div_mult_mod_eq [of r 64] by linarith
    have lo: "r div 262144 = 0 \<Longrightarrow> 16 \<le> r div 4096 mod 64"
      using 4 s m [of r] m [of "r div 64"] by linarith
    have hi: "r div 262144 = 4 \<Longrightarrow> r div 4096 mod 64 < 16"
      using v(1) s by linarith
    show ?thesis
      using 4 v m [of "r div 64"] m [of r] m [of "r div 4096"] d(1) lo hi s
      by (auto simp: utf8_rune_def cont_def second_ok_def)
  qed
qed

lemma utf8_rune_length: "0 < length (utf8_rune r)"
  by (simp add: utf8_rune_def)

lemma utf8_roundtrip: "(\<forall>r \<in> set rs. valid_rune r) \<Longrightarrow> utf8_runes (concat (map utf8_rune rs)) = rs"
proof (induction rs)
  case Nil
  then show ?case by (subst utf8_runes.simps) simp
next
  case (Cons r rs)
  then have v: "valid_rune r" and IH: "utf8_runes (concat (map utf8_rune rs)) = rs" by simp_all
  have "concat (map utf8_rune (r # rs)) \<noteq> []" using utf8_rune_length [of r] by auto
  then show ?case
    by (subst utf8_runes.simps) (simp add: decode_utf8_rune [OF v] IH)
qed

section \<open>Strings\<close>

definition go_string :: "rune list \<Rightarrow> string" where
  "go_string rs = map char_of (concat (map utf8_rune rs))"

definition go_runes :: "string \<Rightarrow> rune list" where
  "go_runes s = utf8_runes (map of_char s)"

lemma utf8_rune_bytes: "b \<in> set (utf8_rune r) \<Longrightarrow> b < 256"
proof (cases "r < 0x800 \<or> is_surrogate r \<or> 0x10FFFF < r")
  case True
  assume "b \<in> set (utf8_rune r)"
  moreover have "r < 0x800 \<Longrightarrow> r div 64 < 32" by (simp add: less_mult_imp_div_less)
  moreover have "r mod 64 < 64" by simp
  ultimately show ?thesis using True by (auto simp: utf8_rune_def split: if_splits)
next
  case False
  assume b: "b \<in> set (utf8_rune r)"
  have "r mod 64 < 64" "r div 64 mod 64 < 64" "r div 4096 mod 64 < 64" by simp_all
  moreover have "r < 0x10000 \<Longrightarrow> r div 4096 < 16" by (simp add: less_mult_imp_div_less)
  moreover have "r div 262144 < 5" using False by (simp add: less_mult_imp_div_less)
  ultimately show ?thesis using False b by (auto simp: utf8_rune_def split: if_splits)
qed

lemma go_runes_string: "(\<forall>r \<in> set rs. valid_rune r) \<Longrightarrow> go_runes (go_string rs) = rs"
proof -
  assume v: "\<forall>r \<in> set rs. valid_rune r"
  have "map (\<lambda>x. of_char (char_of x)) (concat (map utf8_rune rs)) = concat (map utf8_rune rs)"
    by (rule map_idI) (use utf8_rune_bytes in fastforce)
  then show ?thesis
    by (simp add: go_runes_def go_string_def comp_def utf8_roundtrip [OF v])
qed

text \<open>\<open>strings.ReplaceAll\<close> between two one-byte strings, \<open>strings.Contains\<close> of one byte, and
  \<open>strings.ToUpper\<close> on ASCII letters (the only ones share names are looked up with).\<close>

definition replace_char :: "char \<Rightarrow> char \<Rightarrow> string \<Rightarrow> string" where
  "replace_char a b s = map (\<lambda>c. if c = a then b else c) s"

abbreviation backslash :: char where "backslash \<equiv> CHR 0x5C"

lemma replace_back: "b \<notin> set s \<Longrightarrow> replace_char b a (replace_char a b s) = s"
  by (induction s) (auto simp: replace_char_def)

end
