(* ===== verification/ServerUtil.thy ===== *)
theory ServerUtil
  imports GoStrings VfsAttributes Packet NegotiateContexts
begin

text \<open>
  internal/smb2/util.go, and the values of const.go and of the status table the server answers
  with: how file attributes become the times, sizes, attribute bits and access masks of a
  response, how the header of a response follows from that of the request, extended-attribute
  names, and wildcard matching. A getter that panics makes the caller panic: \<open>None\<close>.
\<close>

section \<open>Constants\<close>

definition SMB2_OPLOCK_BREAK :: u16 where "SMB2_OPLOCK_BREAK = 18"
definition SMB2_FLAGS_SERVER_TO_REDIR :: u32 where "SMB2_FLAGS_SERVER_TO_REDIR = 1"
definition SMB2_FLAGS_ASYNC_COMMAND :: u32 where "SMB2_FLAGS_ASYNC_COMMAND = 2"
definition SMB2_FLAGS_SIGNED :: u32 where "SMB2_FLAGS_SIGNED = 8"
definition SMB2_FLAGS_PRIORITY_MASK :: u32 where "SMB2_FLAGS_PRIORITY_MASK = 0x70"

definition FILE_READ_DATA :: u32 where "FILE_READ_DATA = 0x1"
definition FILE_WRITE_DATA :: u32 where "FILE_WRITE_DATA = 0x2"
definition FILE_APPEND_DATA :: u32 where "FILE_APPEND_DATA = 0x4"
definition FILE_READ_EA :: u32 where "FILE_READ_EA = 0x8"
definition FILE_WRITE_EA :: u32 where "FILE_WRITE_EA = 0x10"
definition FILE_EXECUTE :: u32 where "FILE_EXECUTE = 0x20"
definition FILE_DELETE_CHILD :: u32 where "FILE_DELETE_CHILD = 0x40"
definition FILE_READ_ATTRIBUTES :: u32 where "FILE_READ_ATTRIBUTES = 0x80"
definition FILE_WRITE_ATTRIBUTES :: u32 where "FILE_WRITE_ATTRIBUTES = 0x100"
definition DELETE_ACCESS :: u32 where "DELETE_ACCESS = 0x10000"
definition READ_CONTROL :: u32 where "READ_CONTROL = 0x20000"
definition WRITE_DAC :: u32 where "WRITE_DAC = 0x40000"
definition WRITE_OWNER :: u32 where "WRITE_OWNER = 0x80000"
definition SYNCHRONIZE :: u32 where "SYNCHRONIZE = 0x100000"
definition GENERIC_WRITE :: u32 where "GENERIC_WRITE = 0x40000000"

lemmas access_bits = FILE_READ_DATA_def FILE_WRITE_DATA_def FILE_APPEND_DATA_def FILE_READ_EA_def
  FILE_WRITE_EA_def FILE_EXECUTE_def FILE_DELETE_CHILD_def FILE_READ_ATTRIBUTES_def
  FILE_WRITE_ATTRIBUTES_def DELETE_ACCESS_def READ_CONTROL_def WRITE_DAC_def WRITE_OWNER_def
  SYNCHRONIZE_def GENERIC_WRITE_def

definition FILE_ATTRIBUTE_READONLY :: u32 where "FILE_ATTRIBUTE_READONLY = 0x1"
definition FILE_ATTRIBUTE_HIDDEN :: u32 where "FILE_ATTRIBUTE_HIDDEN = 0x2"
definition FILE_ATTRIBUTE_DIRECTORY :: u32 where "FILE_ATTRIBUTE_DIRECTORY = 0x10"
definition FILE_ATTRIBUTE_ARCHIVE :: u32 where "FILE_ATTRIBUTE_ARCHIVE = 0x20"
definition FILE_ATTRIBUTE_NORMAL :: u32 where "FILE_ATTRIBUTE_NORMAL = 0x80"
definition FILE_ATTRIBUTE_REPARSE_POINT :: u32 where "FILE_ATTRIBUTE_REPARSE_POINT = 0x400"

definition STATUS_PENDING :: u32 where "STATUS_PENDING = 0x103"
definition STATUS_OBJECT_NAME_EXISTS :: u32 where "STATUS_OBJECT_NAME_EXISTS = 0x40000000"
definition STATUS_NO_MORE_FILES :: u32 where "STATUS_NO_MORE_FILES = 0x80000006"
definition STATUS_INVALID_HANDLE :: u32 where "STATUS_INVALID_HANDLE = 0xC0000008"
definition STATUS_NO_SUCH_FILE :: u32 where "STATUS_NO_SUCH_FILE = 0xC000000F"
definition STATUS_END_OF_FILE :: u32 where "STATUS_END_OF_FILE = 0xC0000011"
definition STATUS_MORE_PROCESSING_REQUIRED :: u32 where "STATUS_MORE_PROCESSING_REQUIRED = 0xC0000016"
definition STATUS_ACCESS_DENIED :: u32 where "STATUS_ACCESS_DENIED = 0xC0000022"
definition STATUS_OBJECT_NAME_NOT_FOUND :: u32 where "STATUS_OBJECT_NAME_NOT_FOUND = 0xC0000034"
definition STATUS_OBJECT_NAME_COLLISION :: u32 where "STATUS_OBJECT_NAME_COLLISION = 0xC0000035"
definition STATUS_NOT_SUPPORTED :: u32 where "STATUS_NOT_SUPPORTED = 0xC00000BB"
definition STATUS_NOT_A_DIRECTORY :: u32 where "STATUS_NOT_A_DIRECTORY = 0xC0000103"
definition STATUS_OPEN_FAILED :: u32 where "STATUS_OPEN_FAILED = 0xC0000136"
definition STATUS_IO_DEVICE_ERROR :: u32 where "STATUS_IO_DEVICE_ERROR = 0xC0000185"
definition STATUS_NOT_FOUND :: u32 where "STATUS_NOT_FOUND = 0xC0000225"

lemmas status_values = STATUS_PENDING_def STATUS_OBJECT_NAME_EXISTS_def STATUS_NO_MORE_FILES_def
  STATUS_INVALID_HANDLE_def STATUS_NO_SUCH_FILE_def STATUS_END_OF_FILE_def
  STATUS_MORE_PROCESSING_REQUIRED_def STATUS_ACCESS_DENIED_def STATUS_OBJECT_NAME_NOT_FOUND_def
  STATUS_OBJECT_NAME_COLLISION_def STATUS_NOT_SUPPORTED_def STATUS_NOT_A_DIRECTORY_def
  STATUS_OPEN_FAILED_def STATUS_IO_DEVICE_ERROR_def STATUS_NOT_FOUND_def

section \<open>Attributes of a file as a response shows them\<close>

definition zero_Filetime :: Filetime where
  "zero_Filetime = \<lparr>ft_LowDateTime = 0, ft_HighDateTime = 0\<rparr>"

definition BirthTimeFromVfs :: "Attributes \<Rightarrow> Filetime" where
  "BirthTimeFromVfs a = (let (t, ok) = GetBirthTime a in if ok then NsecToFiletime t else zero_Filetime)"

definition AccessTimeFromVfs :: "Attributes \<Rightarrow> Filetime" where
  "AccessTimeFromVfs a = (let (t, ok) = GetAccessTime a in if ok then NsecToFiletime t else zero_Filetime)"

definition ModifiedTimeFromVfs :: "Attributes \<Rightarrow> Filetime" where
  "ModifiedTimeFromVfs a =
     (let (t, ok) = GetLastDataModificationTime a in if ok then NsecToFiletime t else zero_Filetime)"

definition ChangeTimeFromVfs :: "Attributes \<Rightarrow> Filetime" where
  "ChangeTimeFromVfs a =
     (let (t, ok) = GetLastStatusChangeTime a in if ok then NsecToFiletime t else zero_Filetime)"

definition SizeFromVfs :: "Attributes \<Rightarrow> u64" where
  "SizeFromVfs a = (let (s, ok) = GetSizeBytes a in if ok then s else 0)"

definition UnixModeFromVfs :: "Attributes \<Rightarrow> u16" where
  "UnixModeFromVfs a = (let (s, ok) = GetUnixMode a in if ok then ucast s else 0x1FF)"

definition DiskSizeFromVfs :: "Attributes \<Rightarrow> u64" where
  "DiskSizeFromVfs a = (let (s, ok) = GetDiskSizeBytes a in if ok then s else SizeFromVfs a)"

definition PermissionsFromVfs :: "Attributes \<Rightarrow> string \<Rightarrow> u32 option" where
  "PermissionsFromVfs a p =
     (let name = path_Base p;
          perm = (if name \<noteq> [] \<and> hd name = CHR ''.'' then FILE_ATTRIBUTE_HIDDEN OR FILE_ATTRIBUTE_ARCHIVE else 0);
          (rights, ok) = GetPermissions a;
          perm = (if ok \<and> rights AND PermissionsWrite = 0 then FILE_ATTRIBUTE_READONLY else perm)
      in do { ty \<leftarrow> GetFileType a;
              let perm = (if ty = FileTypeDirectory then perm OR FILE_ATTRIBUTE_DIRECTORY else perm);
              let perm = (if ty = FileTypeSymlink then perm OR FILE_ATTRIBUTE_REPARSE_POINT else perm);
              Some (if perm = 0 then FILE_ATTRIBUTE_NORMAL else perm) })"

definition MaxAccessFromVfs :: "Attributes \<Rightarrow> u32" where
  "MaxAccessFromVfs a =
     (let (m, ok) = GetUnixMode a;
          unixMode = (if ok then m else 0x1FF)
      in SYNCHRONIZE
         OR (if unixMode AND 0x104 \<noteq> 0
             then FILE_READ_ATTRIBUTES OR FILE_READ_DATA OR FILE_READ_EA
               OR (if unixMode AND 0x100 \<noteq> 0 then READ_CONTROL else 0) else 0)
         OR (if unixMode AND 0x82 \<noteq> 0
             then FILE_WRITE_ATTRIBUTES OR FILE_WRITE_DATA OR FILE_WRITE_EA OR FILE_APPEND_DATA
               OR (if unixMode AND 0x80 \<noteq> 0
                   then WRITE_DAC OR WRITE_OWNER OR DELETE_ACCESS OR FILE_DELETE_CHILD else 0) else 0)
         OR (if unixMode AND 0x41 \<noteq> 0 then FILE_EXECUTE else 0))"

section \<open>The header of a response\<close>

definition zero_Header :: PacketHeader where
  "zero_Header = \<lparr>ph_CreditCharge = 0, ph_ChannelSequence = 0, ph_Status = 0, ph_Command = 0,
     ph_CreditRequestResponse = 0, ph_Flags = 0, ph_MessageId = 0, ph_AsyncId = 0, ph_TreeId = 0,
     ph_SessionId = 0\<rparr>"

text \<open>Both fill a header just made, \<open>new(...Response)\<close>.\<close>

definition PrepareResponse :: "slice \<Rightarrow> u32 \<Rightarrow> PacketHeader option" where
  "PrepareResponse req status =
     do { cmd \<leftarrow> PacketCodec_Command req;
          cr \<leftarrow> PacketCodec_CreditRequest req;
          mid \<leftarrow> PacketCodec_MessageId req;
          fl \<leftarrow> PacketCodec_Flags req;
          Some (zero_Header\<lparr>ph_Command := cmd, ph_CreditRequestResponse := cr, ph_MessageId := mid,
            ph_Flags := 1 OR (fl AND SMB2_FLAGS_PRIORITY_MASK), ph_Status := status\<rparr>) }"

definition PrepareAsyncResponse :: "slice \<Rightarrow> u64 \<Rightarrow> u32 \<Rightarrow> PacketHeader option" where
  "PrepareAsyncResponse req asyncId status =
     do { cmd \<leftarrow> PacketCodec_Command req;
          cr \<leftarrow> PacketCodec_CreditRequest req;
          mid \<leftarrow> PacketCodec_MessageId req;
          Some (zero_Header\<lparr>ph_Command := cmd, ph_CreditRequestResponse := cr, ph_MessageId := mid,
            ph_Flags := SMB2_FLAGS_SERVER_TO_REDIR
              OR (if asyncId \<noteq> 0 then SMB2_FLAGS_ASYNC_COMMAND else 0),
            ph_Status := status, ph_AsyncId := asyncId\<rparr>) }"

section \<open>Names\<close>

definition IsEA :: "string \<Rightarrow> bool" where "IsEA p \<longleftrightarrow> CHR '':'' \<in> set p"

definition SplitEA :: "string \<Rightarrow> (string \<times> string) option" where
  "SplitEA p = (case split_on CHR '':'' p of a # b # _ \<Rightarrow> Some (a, b) | _ \<Rightarrow> None)"

definition ContainsWildcard :: "string \<Rightarrow> bool" where
  "ContainsWildcard s \<longleftrightarrow> CHR ''*'' \<in> set s \<or> CHR ''?'' \<in> set s"

definition wildcardToRegexp :: "string \<Rightarrow> string" where
  "wildcardToRegexp pattern =
     ''^'' @ concat (map (\<lambda>c. if c = CHR ''*'' then ''.*'' else [c]) (replace_char CHR ''?'' CHR ''.'' pattern)) @ ''$''"

text \<open>The regular expressions made from patterns without other operators: literals, any rune but
  a newline, and any run of such runes, anchored at both ends. What the regexp package does with
  the rest is the argument \<open>regexp\<close>: \<open>None\<close> when it does not compile.\<close>

datatype atom = Lit rune | AnyRune | AnyRun

fun atoms :: "rune list \<Rightarrow> atom list" where
  "atoms [] = []"
| "atoms (r # rs) =
     (if r \<noteq> 46 then Lit r # atoms rs
      else case rs of [] \<Rightarrow> [AnyRune] | q # rest \<Rightarrow> if q = 42 then AnyRun # atoms rest else AnyRune # atoms rs)"

fun match_atoms :: "atom list \<Rightarrow> rune list \<Rightarrow> bool" where
  "match_atoms [] s = (s = [])"
| "match_atoms (Lit r # ps) s = (case s of [] \<Rightarrow> False | c # cs \<Rightarrow> c = r \<and> match_atoms ps cs)"
| "match_atoms (AnyRune # ps) s = (case s of [] \<Rightarrow> False | c # cs \<Rightarrow> c \<noteq> 10 \<and> match_atoms ps cs)"
| "match_atoms (AnyRun # ps) s =
     (match_atoms ps s \<or> (case s of [] \<Rightarrow> False | c # cs \<Rightarrow> c \<noteq> 10 \<and> match_atoms (AnyRun # ps) cs))"

definition plain_pattern :: "string \<Rightarrow> bool" where
  "plain_pattern pattern \<longleftrightarrow> list_all (\<lambda>c. c \<notin> set ''+()|[]{}^$'' \<and> c \<noteq> backslash) pattern"

type_synonym regexp = "string \<Rightarrow> string \<Rightarrow> bool option"

definition MatchWildcard :: "regexp \<Rightarrow> string \<Rightarrow> string \<Rightarrow> bool" where
  "MatchWildcard regexp s pattern =
     (let re = wildcardToRegexp pattern in
      if plain_pattern pattern then match_atoms (atoms (go_runes (butlast (tl re)))) (go_runes s)
      else (case regexp re s of None \<Rightarrow> False | Some b \<Rightarrow> b))"

end
