(* ===== verification/Acl.thy ===== *)
theory Acl
  imports ResponseRoundtrips ServerUtil
begin

text \<open>
  Security descriptors as the server shows and accepts them (src/server/acl.go): SIDs, access
  control entries and lists, their encoders and the unchecked decoders. A mode travels as the
  NFS SID S-1-5-88-3-mode in an entry of the list; the lemmas read an encoded list back, entry
  by entry.
\<close>

section \<open>Records and encoders\<close>

definition WORLD_SID_AUTHORITY :: bytes where "WORLD_SID_AUTHORITY = [0, 0, 0, 0, 0, 1]"
definition SECURITY_NT_AUTHORITY :: bytes where "SECURITY_NT_AUTHORITY = [0, 0, 0, 0, 0, 5]"
definition ACCESS_ALLOWED_ACE_TYPE :: u8 where "ACCESS_ALLOWED_ACE_TYPE = 0"
definition ACCESS_DENIED_ACE_TYPE :: u8 where "ACCESS_DENIED_ACE_TYPE = 1"
definition ACL_REVISION :: u8 where "ACL_REVISION = 2"

record SID =
  si_IdentifierAuthority :: bytes
  si_SubAuthority :: "u32 list"

record ACE =
  ace_Sid :: SID
  ace_Type :: u8
  ace_Mask :: u32

type_synonym ACL = "ACE list"

record SecurityDescriptor =
  sd_OwnerSid :: "SID option"
  sd_GroupSid :: "SID option"
  sd_Sacl :: "ACL option"
  sd_Dacl :: "ACL option"

definition SIDFromUid :: "u32 \<Rightarrow> SID" where
  "SIDFromUid uid = \<lparr>si_IdentifierAuthority = SECURITY_NT_AUTHORITY, si_SubAuthority = [88, 1, uid]\<rparr>"

definition SIDFromGid :: "u32 \<Rightarrow> SID" where
  "SIDFromGid gid = \<lparr>si_IdentifierAuthority = SECURITY_NT_AUTHORITY, si_SubAuthority = [88, 2, gid]\<rparr>"

definition SIDFromMode :: "u32 \<Rightarrow> SID" where
  "SIDFromMode m = \<lparr>si_IdentifierAuthority = SECURITY_NT_AUTHORITY, si_SubAuthority = [88, 3, m]\<rparr>"

definition SID_Size :: "SID \<Rightarrow> nat" where
  "SID_Size s = 8 + length (si_SubAuthority s) * 4"

definition SID_Encode :: "SID \<Rightarrow> bytes \<Rightarrow> bytes option" where
  "SID_Encode s = seqw
     ([put8 0 1, put8 1 (of_nat (length (si_SubAuthority s))), copy_from 2 (si_IdentifierAuthority s)] @
      map (\<lambda>(i, sa). put32 (8 + 4 * i) sa) (enumerate 0 (si_SubAuthority s)))"

definition ACE_Size :: "ACE \<Rightarrow> nat" where "ACE_Size a = 8 + SID_Size (ace_Sid a)"

definition ACE_Encode :: "ACE \<Rightarrow> bytes \<Rightarrow> bytes option" where
  "ACE_Encode a = seqw [put8 0 (ace_Type a), put8 1 0, put16 2 (of_nat (ACE_Size a)), put32 4 (ace_Mask a),
     at_off 8 (SID_Encode (ace_Sid a))]"

definition ACL_Size :: "ACL \<Rightarrow> nat" where "ACL_Size a = 8 + sum_list (map ACE_Size a)"

fun ace_series :: "nat \<Rightarrow> ACE list \<Rightarrow> bytes \<Rightarrow> bytes option" where
  "ace_series off [] p = Some p"
| "ace_series off (a # aces) p = Option.bind (at_off off (ACE_Encode a) p) (ace_series (off + ACE_Size a) aces)"

definition ACL_Encode :: "ACL \<Rightarrow> bytes \<Rightarrow> bytes option" where
  "ACL_Encode a = seqw [put8 0 ACL_REVISION, put16 2 (of_nat (ACL_Size a)), put16 4 (of_nat (length a)), ace_series 8 a]"

definition opt_part :: "('a \<Rightarrow> nat) \<Rightarrow> 'a option \<Rightarrow> nat" where
  "opt_part sz x = (case x of None \<Rightarrow> 0 | Some v \<Rightarrow> sz v)"

definition SecurityDescriptor_Size :: "SecurityDescriptor \<Rightarrow> nat" where
  "SecurityDescriptor_Size d = 20 + opt_part SID_Size (sd_OwnerSid d) + opt_part SID_Size (sd_GroupSid d)
     + opt_part ACL_Size (sd_Sacl d) + opt_part ACL_Size (sd_Dacl d)"

text \<open>Each part that is there: its offset at \<open>at\<close>, its encoding at that offset.\<close>

definition sd_part :: "nat \<Rightarrow> nat \<Rightarrow> ('a \<Rightarrow> bytes \<Rightarrow> bytes option) \<Rightarrow> 'a option \<Rightarrow> (bytes \<Rightarrow> bytes option) list" where
  "sd_part a offset enc x = (case x of None \<Rightarrow> [] | Some v \<Rightarrow> [put32 a (of_nat offset), at_off offset (enc v)])"

definition SecurityDescriptor_Encode :: "SecurityDescriptor \<Rightarrow> bytes \<Rightarrow> bytes option" where
  "SecurityDescriptor_Encode d =
     (let control = 0x8000 OR (if sd_Sacl d \<noteq> None then 0x10 else 0) OR (if sd_Dacl d \<noteq> None then 4 else 0);
          o1 = 20;
          o2 = o1 + opt_part SID_Size (sd_OwnerSid d);
          o3 = o2 + opt_part SID_Size (sd_GroupSid d);
          o4 = o3 + opt_part ACL_Size (sd_Sacl d)
      in seqw ([put8 0 1, put16 2 control] @ sd_part 4 o1 SID_Encode (sd_OwnerSid d) @
           sd_part 8 o2 SID_Encode (sd_GroupSid d) @ sd_part 12 o3 ACL_Encode (sd_Sacl d) @
           sd_part 16 o4 ACL_Encode (sd_Dacl d)))"

text \<open>The access mask of three mode bits.\<close>

definition UnixModeToAceMask :: "u8 \<Rightarrow> u32" where
  "UnixModeToAceMask m =
     (if m AND 1 \<noteq> 0 then FILE_EXECUTE OR FILE_READ_ATTRIBUTES OR SYNCHRONIZE OR READ_CONTROL else 0)
     OR (if m AND 2 \<noteq> 0 then FILE_WRITE_DATA OR FILE_WRITE_ATTRIBUTES OR FILE_WRITE_EA OR WRITE_DAC
           OR DELETE_ACCESS OR READ_CONTROL else 0)
     OR (if m AND 4 \<noteq> 0 then FILE_READ_DATA OR FILE_READ_ATTRIBUTES OR FILE_READ_EA OR READ_CONTROL else 0)"

section \<open>Decoders\<close>

definition from16 :: "nat \<Rightarrow> slice \<Rightarrow> u16 option" where "from16 a r = Option.bind (sfrom a r) le_u16"
definition from32 :: "nat \<Rightarrow> slice \<Rightarrow> u32 option" where "from32 a r = Option.bind (sfrom a r) le_u32"

definition SecurityDescriptorDecoder_Revision :: "slice \<Rightarrow> u8 option" where "SecurityDescriptorDecoder_Revision sd = sidx 0 sd"
definition SecurityDescriptorDecoder_Control :: "slice \<Rightarrow> u16 option" where "SecurityDescriptorDecoder_Control sd = from16 2 sd"
definition SecurityDescriptorDecoder_OffsetOwner :: "slice \<Rightarrow> u32 option" where "SecurityDescriptorDecoder_OffsetOwner sd = from32 4 sd"
definition SecurityDescriptorDecoder_OffsetGroup :: "slice \<Rightarrow> u32 option" where "SecurityDescriptorDecoder_OffsetGroup sd = from32 8 sd"
definition SecurityDescriptorDecoder_OffsetSacl :: "slice \<Rightarrow> u32 option" where "SecurityDescriptorDecoder_OffsetSacl sd = from32 12 sd"
definition SecurityDescriptorDecoder_OffsetDacl :: "slice \<Rightarrow> u32 option" where "SecurityDescriptorDecoder_OffsetDacl sd = from32 16 sd"

text \<open>A part: nil for a zero offset, the rest of the buffer otherwise.\<close>

definition sd_rest :: "u32 option \<Rightarrow> slice \<Rightarrow> slice option option" where
  "sd_rest off sd = Option.bind off (\<lambda>o1. if o1 = 0 then Some None else map_option Some (sfrom (unat o1) sd))"

definition SecurityDescriptorDecoder_OwnerSid :: "slice \<Rightarrow> slice option option" where
  "SecurityDescriptorDecoder_OwnerSid sd = sd_rest (SecurityDescriptorDecoder_OffsetOwner sd) sd"
definition SecurityDescriptorDecoder_GroupSid :: "slice \<Rightarrow> slice option option" where
  "SecurityDescriptorDecoder_GroupSid sd = sd_rest (SecurityDescriptorDecoder_OffsetGroup sd) sd"
definition SecurityDescriptorDecoder_Sacl :: "slice \<Rightarrow> slice option option" where
  "SecurityDescriptorDecoder_Sacl sd = sd_rest (SecurityDescriptorDecoder_OffsetSacl sd) sd"
definition SecurityDescriptorDecoder_Dacl :: "slice \<Rightarrow> slice option option" where
  "SecurityDescriptorDecoder_Dacl sd = sd_rest (SecurityDescriptorDecoder_OffsetDacl sd) sd"

definition AclDecoder_Revision :: "slice \<Rightarrow> u8 option" where "AclDecoder_Revision a = sidx 0 a"
definition AclDecoder_AclSize :: "slice \<Rightarrow> u16 option" where "AclDecoder_AclSize a = from16 2 a"
definition AclDecoder_AceCount :: "slice \<Rightarrow> u16 option" where "AclDecoder_AceCount a = from16 4 a"
definition AclDecoder_Aces :: "slice \<Rightarrow> slice option" where "AclDecoder_Aces a = sfrom 8 a"

definition AceDecoder_Type :: "slice \<Rightarrow> u8 option" where "AceDecoder_Type a = sidx 0 a"
definition AceDecoder_Flags :: "slice \<Rightarrow> u8 option" where "AceDecoder_Flags a = sidx 1 a"
definition AceDecoder_Size :: "slice \<Rightarrow> u16 option" where "AceDecoder_Size a = from16 2 a"
definition AceDecoder_Mask :: "slice \<Rightarrow> u32 option" where "AceDecoder_Mask a = from32 4 a"
definition AceDecoder_Sid :: "slice \<Rightarrow> slice option" where "AceDecoder_Sid a = sfrom 8 a"

section \<open>What the encoders write\<close>

definition sid_ok :: "SID \<Rightarrow> bool" where
  "sid_ok s \<longleftrightarrow> length (si_IdentifierAuthority s) = 6 \<and> length (si_SubAuthority s) < 256"

definition sid_bytes :: "SID \<Rightarrow> bytes" where
  "sid_bytes s = [1, of_nat (length (si_SubAuthority s))] @ si_IdentifierAuthority s @
     concat (map (\<lambda>u. le_bytes 4 (unat u)) (si_SubAuthority s))"

definition ace_bytes :: "ACE \<Rightarrow> bytes" where
  "ace_bytes a = [ace_Type a, 0] @ le_bytes 2 (unat (of_nat (ACE_Size a) :: u16)) @
     le_bytes 4 (unat (ace_Mask a)) @ sid_bytes (ace_Sid a)"

lemma length_quads: "length (concat (map (\<lambda>u. le_bytes 4 (unat u)) us)) = 4 * length us"
  by (induction us) simp_all

lemma length_sid_bytes: "sid_ok s \<Longrightarrow> length (sid_bytes s) = SID_Size s"
  by (simp add: sid_bytes_def sid_ok_def SID_Size_def length_quads)

lemma length_ace_bytes: "sid_ok (ace_Sid a) \<Longrightarrow> length (ace_bytes a) = ACE_Size a"
  by (simp add: ace_bytes_def ACE_Size_def length_sid_bytes)

lemma copies [simp]:
  "a + length xs = b \<Longrightarrow> b + length ys \<le> length p \<Longrightarrow> copy_at b ys (copy_at a xs p) = copy_at a (xs @ ys) p"
  using copy_at_append [of a xs ys p] by simp

lemma SID_Encode_bytes: "sid_ok s \<Longrightarrow> SID_Size s \<le> length p \<Longrightarrow> SID_Encode s p = Some (copy_at 0 (sid_bytes s) p)"
proof -
  assume s: "sid_ok s" "SID_Size s \<le> length p"
  let ?n = "length (si_SubAuthority s)"
  define q where "q = copy_at 0 ([1, of_nat ?n] @ si_IdentifierAuthority s) p"
  have q: "copy_at 2 (si_IdentifierAuthority s) (copy_at (Suc 0) [of_nat ?n] (copy_at 0 [1] p)) = q" "length q = length p"
    using s by (simp_all add: q_def sid_ok_def SID_Size_def)
  have "seqw (map (\<lambda>(i, u). put (8 + 4 * i) (le_bytes 4 (unat u))) (enumerate 0 (si_SubAuthority s))) q =
      Some (copy_at (8 + 4 * 0) (concat (map (\<lambda>u. le_bytes 4 (unat u)) (si_SubAuthority s))) q)"
    by (rule seqw_series) (use s q in \<open>simp_all add: SID_Size_def\<close>)
  also have "copy_at (8 + 4 * 0) (concat (map (\<lambda>u. le_bytes 4 (unat u)) (si_SubAuthority s))) q = copy_at 0 (sid_bytes s) p"
    using s by (simp add: q_def sid_ok_def SID_Size_def sid_bytes_def length_quads)
  finally have "seqw (map (\<lambda>(i, u). put32 (8 + 4 * i) u) (enumerate 0 (si_SubAuthority s))) q = Some (copy_at 0 (sid_bytes s) p)"
    by (simp only: put32_series)
  then show ?thesis
    using s q by (simp add: SID_Encode_def seqw_append put8_def copy_from_def SID_Size_def)
qed

lemma at_off_copy0: "off \<le> length p \<Longrightarrow> f (drop off p) = Some (copy_at 0 xs (drop off p)) \<Longrightarrow> length xs + off \<le> length p \<Longrightarrow>
    at_off off f p = Some (copy_at off xs p)"
  by (simp add: at_off_def copy_at_def add.commute)

lemma ACE_Encode_bytes:
  "sid_ok (ace_Sid a) \<Longrightarrow> ACE_Size a \<le> length p \<Longrightarrow> ACE_Encode a p = Some (copy_at 0 (ace_bytes a) p)"
proof -
  assume a: "sid_ok (ace_Sid a)" "ACE_Size a \<le> length p"
  define h where "h = [ace_Type a, 0] @ le_bytes 2 (unat (of_nat (ACE_Size a) :: u16)) @ le_bytes 4 (unat (ace_Mask a))"
  have h: "length h = 8" by (simp add: h_def)
  have l: "8 + SID_Size (ace_Sid a) \<le> length p" using a by (simp add: ACE_Size_def)
  have "at_off 8 (SID_Encode (ace_Sid a)) (copy_at 0 h p) = Some (copy_at 8 (sid_bytes (ace_Sid a)) (copy_at 0 h p))"
    by (rule at_off_copy0) (use a l in \<open>simp_all add: SID_Encode_bytes length_sid_bytes\<close>)
  also have "copy_at 8 (sid_bytes (ace_Sid a)) (copy_at 0 h p) = copy_at 0 (ace_bytes a) p"
    using h l a by (simp add: length_sid_bytes ace_bytes_def h_def)
  finally show ?thesis
    using l by (simp add: ACE_Encode_def puts h_def)
qed

lemma ace_series_bytes:
  assumes "\<forall>a \<in> set es. sid_ok (ace_Sid a)" and "off + sum_list (map ACE_Size es) \<le> length p"
  shows "ace_series off es p = Some (copy_at off (concat (map ace_bytes es)) p)"
  using assms
proof (induction es arbitrary: off p)
  case Nil
  then show ?case by simp
next
  case (Cons a es)
  have l: "length (concat (map ace_bytes es)) = sum_list (map ACE_Size es)"
    using Cons.prems(1) by (induction es) (simp_all add: length_ace_bytes)
  have "at_off off (ACE_Encode a) p = Some (copy_at off (ace_bytes a) p)"
    by (rule at_off_copy0) (use Cons.prems in \<open>simp_all add: ACE_Encode_bytes length_ace_bytes\<close>)
  moreover have "ace_series (off + ACE_Size a) es (copy_at off (ace_bytes a) p) =
      Some (copy_at (off + ACE_Size a) (concat (map ace_bytes es)) (copy_at off (ace_bytes a) p))"
    by (rule Cons.IH) (use Cons.prems in simp_all)
  ultimately show ?case using Cons.prems l by (simp add: length_ace_bytes)
qed

section \<open>Reading an encoded entry\<close>

lemma from_window:
  "from16 a (Slice xs n) = (if a + 2 \<le> n then Some (of_nat (le_nat (window a 2 xs))) else None)"
  "from32 a (Slice xs n) = (if a + 4 \<le> n then Some (of_nat (le_nat (window a 4 xs))) else None)"
  by (auto simp: from16_def from32_def le_u16_def le_u32_def le_read_def window_def)

lemma window_append_skip: "length xs \<le> a \<Longrightarrow> window a n (xs @ ys) = window (a - length xs) n ys"
  by (simp add: window_def)

lemma window_append_here: "n = length xs \<Longrightarrow> window 0 n (xs @ ys) = xs"
  by (simp add: window_def)

lemma sid_subauthority:
  assumes "sid_ok s"
  shows "SidDecoder_SubAuthorityCount (Slice (sid_bytes s @ r) (SID_Size s + n)) = Some (of_nat (length (si_SubAuthority s)))"
    and "SidDecoder_SubAuthority (Slice (sid_bytes s @ r) (SID_Size s + n)) = Some (si_SubAuthority s)"
proof -
  let ?us = "si_SubAuthority s"
  let ?q = "concat (map (\<lambda>u. le_bytes 4 (unat u)) ?us)"
  define h where "h = [1, of_nat (length ?us)] @ si_IdentifierAuthority s"
  have sb: "sid_bytes s = h @ ?q" and lh: "length h = 8" using assms by (simp_all add: sid_bytes_def h_def sid_ok_def)
  show c: "SidDecoder_SubAuthorityCount (Slice (sid_bytes s @ r) (SID_Size s + n)) = Some (of_nat (length ?us))"
    by (simp add: SidDecoder_SubAuthorityCount_def SID_Size_def sid_bytes_def)
  have u: "unat (of_nat (length ?us) :: u8) = length ?us"
    using assms by (simp add: sid_ok_def unsigned_of_nat take_bit_nat_eq_self)
  have w: "window (4 * i) 4 (concat (map (\<lambda>u. le_bytes 4 (unat u)) us) @ r) = le_bytes 4 (unat (us ! i))"
    if "i < length us" for i and us :: "u32 list"
    using that
  proof (induction us arbitrary: i)
    case (Cons v vs)
    then show ?case by (cases i) (simp_all add: window_append_here window_append_skip)
  qed simp
  have g: "get32 (8 + 4 * i) (Slice (sid_bytes s @ r) (SID_Size s + n)) = Some (?us ! i)" if "i < length ?us" for i
    using that w [OF that] by (simp add: get_eqs sb lh window_append_skip length_quads of_nat_le_word)
  have "map (\<lambda>i. get32 (8 + 4 * i) (Slice (sid_bytes s @ r) (SID_Size s + n))) [0..<length ?us] = map (\<lambda>i. Some (?us ! i)) [0..<length ?us]"
    by (rule map_cong) (simp_all only: set_upt atLeastLessThan_iff g)
  also have "\<dots> = map Some ?us"
    using map_map [of Some "(!) ?us" "[0..<length ?us]"] by (simp add: map_nth comp_def)
  finally have m: "map (\<lambda>i. get32 (8 + 4 * i) (Slice (sid_bytes s @ r) (SID_Size s + n))) [0..<length ?us] = map Some ?us" .
  have "those (map Some us) = Some us" for us :: "u32 list" by (induction us) simp_all
  with c m u show "SidDecoder_SubAuthority (Slice (sid_bytes s @ r) (SID_Size s + n)) = Some ?us"
    by (simp add: SidDecoder_SubAuthority_def)
qed

lemma ace_reads:
  assumes "sid_ok (ace_Sid a)" and "ACE_Size a < 65536"
  shows "AceDecoder_Type (Slice (ace_bytes a @ r) (ACE_Size a + n)) = Some (ace_Type a)"
    and "AceDecoder_Mask (Slice (ace_bytes a @ r) (ACE_Size a + n)) = Some (ace_Mask a)"
    and "AceDecoder_Size (Slice (ace_bytes a @ r) (ACE_Size a + n)) = Some (of_nat (ACE_Size a))"
    and "AceDecoder_Sid (Slice (ace_bytes a @ r) (ACE_Size a + n)) =
      Some (Slice (sid_bytes (ace_Sid a) @ r) (SID_Size (ace_Sid a) + n))"
    and "sfrom (unat (of_nat (ACE_Size a) :: u16)) (Slice (ace_bytes a @ r) (ACE_Size a + n)) = Some (Slice r n)"
proof -
  show "AceDecoder_Type (Slice (ace_bytes a @ r) (ACE_Size a + n)) = Some (ace_Type a)"
    by (simp add: AceDecoder_Type_def ace_bytes_def ACE_Size_def)
  define h where "h = [ace_Type a, 0]"
  have sb: "ace_bytes a @ r = h @ le_bytes 2 (unat (of_nat (ACE_Size a) :: u16)) @ le_bytes 4 (unat (ace_Mask a)) @ sid_bytes (ace_Sid a) @ r"
    and lh: "length h = 2" by (simp_all add: ace_bytes_def h_def)
  have w: "window 2 2 (ace_bytes a @ r) = le_bytes 2 (unat (of_nat (ACE_Size a) :: u16))"
    "window 4 4 (ace_bytes a @ r) = le_bytes 4 (unat (ace_Mask a))"
    unfolding sb by (simp_all only: window_append_skip [where 'a = u8] lh length_le_bytes, simp_all add: lh window_append_skip window_append_here)
  show "AceDecoder_Mask (Slice (ace_bytes a @ r) (ACE_Size a + n)) = Some (ace_Mask a)"
    "AceDecoder_Size (Slice (ace_bytes a @ r) (ACE_Size a + n)) = Some (of_nat (ACE_Size a))"
    by (simp_all add: AceDecoder_Mask_def AceDecoder_Size_def from_window w of_nat_le_word, simp_all add: ACE_Size_def)
  show "AceDecoder_Sid (Slice (ace_bytes a @ r) (ACE_Size a + n)) = Some (Slice (sid_bytes (ace_Sid a) @ r) (SID_Size (ace_Sid a) + n))"
    by (simp add: AceDecoder_Sid_def ace_bytes_def ACE_Size_def)
  have "unat (of_nat (ACE_Size a) :: u16) = ACE_Size a"
    using assms(2) by (simp add: unsigned_of_nat take_bit_nat_eq_self)
  then show "sfrom (unat (of_nat (ACE_Size a) :: u16)) (Slice (ace_bytes a @ r) (ACE_Size a + n)) = Some (Slice r n)"
    by (simp add: length_ace_bytes assms(1))
qed

end
