(* ===== verification/Framing.thy ===== *)
theory Framing
  imports ServerUtil PacketLemmas RequestLemmas
begin

text \<open>
  How packets reach and leave a connection: the direct-TCP framing (src/server/transport.go), the
  splitting of a received compound into its packets (the inner loop of \<open>runReciever\<close> in
  src/server/conn.go), the responses of a compound collected and encoded together
  (src/server/compound.go), and the credit account (src/server/credit.go).
\<close>

section \<open>Direct TCP\<close>

definition maxDirectTCPSize :: nat where "maxDirectTCPSize = 0xffffff"

definition be32 :: "nat \<Rightarrow> bytes" where "be32 n = rev (le_bytes 4 n)"

text \<open>What \<open>Write\<close> puts on the wire; \<open>None\<close> is its error.\<close>

definition directTCP_Write :: "bytes \<Rightarrow> bytes option" where
  "directTCP_Write p = (if maxDirectTCPSize < length p then None else Some (be32 (length p) @ p))"

text \<open>\<open>ReadSize\<close> and \<open>Read\<close> take bytes off the stream; \<open>None\<close> is an error: an early end of the
  stream or a first byte that is not zero.\<close>

definition directTCP_ReadSize :: "bytes \<Rightarrow> (nat \<times> bytes) option" where
  "directTCP_ReadSize st =
     (if length st < 4 then None
      else if st ! 0 \<noteq> 0 then None else Some (le_nat (rev (take 4 st)), drop 4 st))"

definition directTCP_Read :: "nat \<Rightarrow> bytes \<Rightarrow> (bytes \<times> bytes) option" where
  "directTCP_Read n st = (if length st < n then None else Some (take n st, drop n st))"

definition receive :: "bytes \<Rightarrow> (bytes \<times> bytes) option" where
  "receive st = do { (n, st) \<leftarrow> directTCP_ReadSize st; directTCP_Read n st }"

lemma le_bytes_24: "n < 2 ^ 24 \<Longrightarrow> le_bytes 4 n ! 3 = 0"
proof -
  assume n: "n < 2 ^ 24"
  then have z: "n div 256 div 256 div 256 = 0" by (simp add: div_mult2_eq [symmetric])
  have e: "le_bytes (Suc (Suc (Suc (Suc 0)))) n ! Suc (Suc (Suc 0)) = of_nat (n div 256 div 256 div 256 mod 256)"
    by simp
  have n4: "(4 :: nat) = Suc (Suc (Suc (Suc 0)))" and n3: "(3 :: nat) = Suc (Suc (Suc 0))" by simp_all
  show ?thesis unfolding n4 n3 e z by simp
qed

lemma receive_written: "directTCP_Write p = Some w \<Longrightarrow> receive (w @ st) = Some (p, st)"
proof -
  assume "directTCP_Write p = Some w"
  then have p: "length p < 2 ^ 24" "w = be32 (length p) @ p"
    by (auto simp: directTCP_Write_def maxDirectTCPSize_def split: if_splits)
  have "be32 (length p) ! 0 = 0"
    using le_bytes_24 [OF p(1)] by (simp add: be32_def rev_nth)
  then have "(w @ st) ! 0 = 0" using p(2) by (simp add: nth_append be32_def)
  moreover have "take 4 (w @ st) = be32 (length p)" "drop 4 (w @ st) = p @ st"
    using p(2) by (simp_all add: be32_def)
  moreover have "le_nat (rev (be32 (length p))) = length p"
    using p(1) by (simp add: be32_def le_nat_bytes)
  moreover have "4 \<le> length (w @ st)" using p(2) by (simp add: be32_def)
  ultimately show ?thesis by (simp add: receive_def directTCP_ReadSize_def directTCP_Read_def)
qed

section \<open>Splitting what was received\<close>

text \<open>The packets of one transport message in order, and how the loop ends: after the last one,
  at a packet the check refuses (the connection ends) or with a panic.\<close>

datatype split_result = SplitDone | SplitInvalid | SplitPanic

lemma sfrom_shorter: "sfrom n pkt = Some b \<Longrightarrow> 0 < n \<Longrightarrow> slen b < slen pkt"
  by (cases pkt) (auto split: if_splits)

function split_packets :: "slice \<Rightarrow> slice list \<times> split_result" where
  "split_packets pkt =
     (case PacketCodec_IsInvalid pkt of
        None \<Rightarrow> ([], SplitPanic)
      | Some True \<Rightarrow> ([], SplitInvalid)
      | Some False \<Rightarrow>
          (case PacketCodec_NextCommand pkt of
             None \<Rightarrow> ([], SplitPanic)
           | Some off \<Rightarrow>
               if off = 0 then ([pkt], SplitDone)
               else (case (ssub 0 (unat off) pkt, sfrom (unat off) pkt) of
                       (Some a, Some b) \<Rightarrow> (let (ps, r) = split_packets b in (a # ps, r))
                     | _ \<Rightarrow> ([], SplitPanic))))"
  by pat_completeness auto
termination
  by (relation "measure slen") (auto simp: unat_gt_0 intro: sfrom_shorter)

declare split_packets.simps [simp del]

section \<open>Compound responses\<close>

record compoundContext =
  cx_treeId :: u64
  cx_sessionId :: u64
  cx_fileId :: "FileId option"
  cx_lastStatus :: u32
  cx_lastMsgId :: u64
  cx_rsp :: "bytes list"

definition addResponse :: "bytes \<Rightarrow> compoundContext \<Rightarrow> compoundContext" where
  "addResponse pkt ctx = ctx\<lparr>cx_rsp := cx_rsp ctx @ [pkt]\<rparr>"

definition compound_Size :: "bytes list \<Rightarrow> nat" where
  "compound_Size ps = (\<Sum>p\<leftarrow>ps. round8 (length p))"

text \<open>One packet of the loop: the related flag on all but the first, the next offset on all but
  the last.\<close>

definition link_packet :: "bool \<Rightarrow> bool \<Rightarrow> bytes \<Rightarrow> bytes option" where
  "link_packet first lst p =
     do { p \<leftarrow> (if first then Some p
               else do { fl \<leftarrow> PacketCodec_Flags (of_bytes p);
                         PacketCodec_SetFlags (fl OR SMB2_FLAGS_RELATED_OPERATIONS) p });
          if lst then Some p else PacketCodec_SetNextCommand (of_nat (round8 (length p))) p }"

fun compound_Encode :: "bool \<Rightarrow> nat \<Rightarrow> bytes list \<Rightarrow> bytes \<Rightarrow> bytes option" where
  "compound_Encode first off [] buf = Some buf"
| "compound_Encode first off (p # ps) buf =
     do { q \<leftarrow> link_packet first (ps = []) p;
          buf \<leftarrow> copy_from off q buf;
          compound_Encode False (off + round8 (length p)) ps buf }"

definition linked :: "bool \<Rightarrow> bool \<Rightarrow> bytes \<Rightarrow> bytes" where
  "linked first lst p =
     (let p1 = (if first then p else copy_at 16 (le_bytes 4 (unat (of_nat (le_nat (window 16 4 p)) OR SMB2_FLAGS_RELATED_OPERATIONS :: u32))) p)
      in if lst then p1 else copy_at 20 (le_bytes 4 (unat (of_nat (round8 (length p)) :: u32))) p1)"

definition padded :: "bytes \<Rightarrow> bytes" where
  "padded p = p @ replicate (round8 (length p) - length p) 0"

lemma length_linked [simp]: "length (linked f l p) = length p"
  by (simp add: linked_def Let_def)

lemma length_padded [simp]: "length (padded p) = round8 (length p)"
  using round8_ge [of "length p"] by (simp add: padded_def)

lemma link_packet_linked: "64 \<le> length p \<Longrightarrow> link_packet f l p = Some (linked f l p)"
  by (simp add: link_packet_def linked_def PacketCodec_Flags_def PacketCodec_SetFlags_def
      PacketCodec_SetNextCommand_def of_bytes_def get_eqs put32_def Let_def)

fun linked_all :: "bool \<Rightarrow> bytes list \<Rightarrow> bytes list" where
  "linked_all first [] = []"
| "linked_all first (p # ps) = padded (linked first (ps = []) p) # linked_all False ps"

lemma length_linked_all [simp]: "length (linked_all f ps) = length ps"
  by (induction ps arbitrary: f) simp_all

lemma linked_all_nth: "i < length ps \<Longrightarrow>
    linked_all f ps ! i = padded (linked (f \<and> i = 0) (Suc i = length ps) (ps ! i))"
proof (induction ps arbitrary: f i)
  case (Cons p ps)
  then show ?case by (cases i) auto
qed simp

lemma length_concat_linked: "length (concat (linked_all f ps)) = compound_Size ps"
  by (induction ps arbitrary: f) (simp_all add: compound_Size_def)

lemma compound_Encode_concat:
  assumes "\<forall>p \<in> set ps. 64 \<le> length p" and "length pre = off"
  shows "compound_Encode f off ps (pre @ replicate (compound_Size ps) 0) = Some (pre @ concat (linked_all f ps))"
  using assms
proof (induction ps arbitrary: f off pre)
  case Nil
  then show ?case by (simp add: compound_Size_def)
next
  case (Cons p ps)
  let ?q = "linked f (ps = []) p"
  let ?z = "replicate (compound_Size (p # ps)) (0 :: u8)"
  have l: "round8 (length p) \<ge> length p" by (rule round8_ge)
  have s: "compound_Size (p # ps) = round8 (length p) + compound_Size ps" by (simp add: compound_Size_def)
  have "copy_from off ?q (pre @ ?z) = Some ((pre @ padded ?q) @ replicate (compound_Size ps) 0)"
    using Cons.prems(2) l s by (simp add: copy_from_def copy_at_def padded_def replicate_add [symmetric])
  moreover have "compound_Encode False (off + round8 (length p)) ps ((pre @ padded ?q) @ replicate (compound_Size ps) 0)
      = Some ((pre @ padded ?q) @ concat (linked_all False ps))"
    by (rule Cons.IH) (use Cons.prems in simp_all)
  ultimately show ?case using Cons.prems(1) by (simp add: link_packet_linked)
qed

section \<open>A client walks the compound\<close>

text \<open>A response the server adds: a header the check accepts, alone.\<close>

definition lone_packet :: "bytes \<Rightarrow> bool" where
  "lone_packet p \<longleftrightarrow> 64 \<le> length p \<and> window 0 4 p = MAGIC \<and> window 4 2 p = le_bytes 2 64 \<and>
     window 20 4 p = le_bytes 4 0"

lemma linked_window:
  assumes "64 \<le> length p" and "a + n \<le> 16 \<or> 24 \<le> a"
  shows "window a n (linked f l p) = window a n p"
  using assms by (auto simp: linked_def Let_def window_copy_at_other)

lemma linked_next:
  "64 \<le> length p \<Longrightarrow> window 20 4 (linked f l p) =
     (if l then window 20 4 p else le_bytes 4 (unat (of_nat (round8 (length p)) :: u32)))"
  by (auto simp: linked_def Let_def window_copy_at_same window_copy_at_other)

lemma linked_flags:
  "64 \<le> length p \<Longrightarrow> (of_nat (le_nat (window 16 4 (linked f l p))) :: u32) =
     (of_nat (le_nat (window 16 4 p)) OR (if f then 0 else SMB2_FLAGS_RELATED_OPERATIONS))"
  by (auto simp: linked_def Let_def window_copy_at_same window_copy_at_other of_nat_le_word)

lemma round8_word: "of_nat (round8 n) AND (7 :: u32) = 0"
proof -
  have "take_bit 3 (round8 n) = 0" using round8_mod [of n] by (simp add: take_bit_eq_mod)
  then have "take_bit 3 (of_nat (round8 n) :: u32) = 0" by (simp add: take_bit_of_nat)
  then show ?thesis by (simp add: take_bit_eq_mask mask_eq_exp_minus_1)
qed

lemma window_append1: "a + n \<le> length xs \<Longrightarrow> window a n (xs @ ys) = window a n xs"
  by (simp add: window_def)

lemma header_check:
  assumes "64 \<le> n" and "n \<le> length xs" and "window 0 4 xs = MAGIC" and "window 4 2 xs = le_bytes 2 64"
    and "window 20 4 xs = le_bytes 4 (unat (m :: u32))" and "m AND 7 = 0" and "unat m < n"
  shows "PacketCodec_IsInvalid (Slice xs n) = Some False" and "PacketCodec_NextCommand (Slice xs n) = Some m"
proof -
  have m: "xs ! 0 = 0xFE" "xs ! Suc 0 = 0x53" "xs ! 2 = 0x4D" "xs ! 3 = 0x42"
    using magic_bytes [OF assms(3)] assms by simp_all
  have s: "PacketCodec_IsSmb1 (Slice xs n) = Some False" using IsSmb1_eq [of xs n] m assms by simp
  show nx: "PacketCodec_NextCommand (Slice xs n) = Some m"
    using assms by (simp add: PacketCodec_NextCommand_def get_eqs of_nat_le_word)
  have z: "PacketCodec_StructureSize (Slice xs n) = Some 64"
    using assms of_nat_le_word(1) [of 64] by (simp add: PacketCodec_StructureSize_def get_eqs)
  show "PacketCodec_IsInvalid (Slice xs n) = Some False"
    using assms m nx z s by (auto simp: PacketCodec_IsInvalid_def PacketCodec_ProtocolId_def)
qed

lemma split_linked:
  assumes "ps \<noteq> []" and "\<forall>p \<in> set ps. lone_packet p" and "compound_Size ps < 2 ^ 32"
  shows "\<exists>ss. split_packets (of_bytes (concat (linked_all f ps))) = (ss, SplitDone) \<and>
    map sbytes ss = linked_all f ps"
  using assms
proof (induction ps arbitrary: f)
  case Nil
  then show ?case by simp
next
  case (Cons p ps)
  let ?q = "padded (linked f (ps = []) p)"
  let ?r = "concat (linked_all False ps)"
  let ?x = "?q @ ?r"
  have p: "64 \<le> length p" "window 0 4 p = MAGIC" "window 4 2 p = le_bytes 2 64" "window 20 4 p = le_bytes 4 0"
    using Cons.prems(2) by (simp_all add: lone_packet_def)
  have l: "64 \<le> round8 (length p)" using p(1) round8_ge [of "length p"] by linarith
  have sz: "length ?x = round8 (length p) + compound_Size ps" by (simp add: length_concat_linked)
  have w: "window a n ?x = window a n (linked f (ps = []) p)" if "a + n \<le> 64" for a n
    using that p(1) by (simp add: padded_def window_append1)
  have h: "window 0 4 ?x = MAGIC" "window 4 2 ?x = le_bytes 2 64"
    using p by (simp_all add: w linked_window)
  show ?case
  proof (cases "ps = []")
    case True
    have "window 20 4 ?x = le_bytes 4 (unat (0 :: u32))" using p True w [of 20 4] by (simp add: linked_next)
    note hc = header_check [OF _ _ h this, of "length ?x"]
    have "split_packets (of_bytes ?x) = ([of_bytes ?x], SplitDone)"
      by (subst split_packets.simps) (use hc sz l in \<open>simp add: of_bytes_def\<close>)
    with True show ?thesis by (simp add: of_bytes_def)
  next
    case False
    let ?m = "of_nat (round8 (length p)) :: u32"
    have lt: "round8 (length p) < 2 ^ 32" using Cons.prems(3) by (simp add: compound_Size_def)
    then have um: "unat ?m = round8 (length p)" by (simp add: unsigned_of_nat take_bit_nat_eq_self)
    have pos: "0 < compound_Size ps"
    proof -
      obtain a bs where "ps = a # bs" using False by (cases ps) auto
      then show ?thesis using Cons.prems(2) round8_ge [of "length a"] by (simp add: compound_Size_def lone_packet_def)
    qed
    have "window 20 4 ?x = le_bytes 4 (unat ?m)" using p False w [of 20 4] by (simp add: linked_next)
    note hc = header_check [OF _ _ h this round8_word, of "length ?x"]
    have nz: "?m \<noteq> 0" using um l by auto
    have "split_packets (of_bytes ?x) = (let (ss, r) = split_packets (of_bytes ?r) in (Slice ?x (round8 (length p)) # ss, r))"
      by (subst split_packets.simps) (use hc sz um l pos nz in \<open>simp add: of_bytes_def length_concat_linked\<close>)
    moreover obtain ss where "split_packets (of_bytes ?r) = (ss, SplitDone)" "map sbytes ss = linked_all False ps"
      using Cons.IH [of False] Cons.prems False by (auto simp: compound_Size_def)
    ultimately show ?thesis by simp
  qed
qed

text \<open>C37. A compound response: following the next-command offsets of what the server encodes
  splits it into as many packets as responses were added, in order. Each has its response's bytes
  but for the flags, which say related on all but the first, and the next-command field.\<close>

theorem compound_split:
  assumes "ps \<noteq> []" and "\<forall>p \<in> set ps. lone_packet p" and "compound_Size ps < 2 ^ 32"
  shows "\<exists>t ss. compound_Encode True 0 ps (replicate (compound_Size ps) 0) = Some t \<and>
    split_packets (of_bytes t) = (ss, SplitDone) \<and> length ss = length ps \<and>
    (\<forall>i < length ps. let s = sbytes (ss ! i); p = ps ! i in
       take 16 s = take 16 p \<and> take (length p - 24) (drop 24 s) = drop 24 p \<and>
       of_nat (le_nat (window 16 4 s)) =
         (of_nat (le_nat (window 16 4 p)) OR (if i = 0 then 0 else SMB2_FLAGS_RELATED_OPERATIONS) :: u32))"
proof -
  obtain ss where ss: "split_packets (of_bytes (concat (linked_all True ps))) = (ss, SplitDone)"
    "map sbytes ss = linked_all True ps" using split_linked [OF assms] by blast
  have len: "\<forall>p \<in> set ps. 64 \<le> length p" using assms(2) by (auto simp: lone_packet_def)
  have "take 16 s = take 16 p \<and> take (length p - 24) (drop 24 s) = drop 24 p \<and>
      of_nat (le_nat (window 16 4 s)) = (of_nat (le_nat (window 16 4 p)) OR (if i = 0 then 0 else SMB2_FLAGS_RELATED_OPERATIONS) :: u32)"
    if i: "i < length ps" and s: "s = sbytes (ss ! i)" and p: "p = ps ! i" for i s p
  proof -
    have l: "64 \<le> length p" using len i p by simp
    have "s = linked_all True ps ! i" using ss(2) i s by (metis length_linked_all length_map nth_map)
    then have e: "s = padded (linked (i = 0) (Suc i = length ps) p)" using linked_all_nth [OF i, of True] p by simp
    have w: "window a n s = window a n (linked (i = 0) (Suc i = length ps) p)" if "a + n \<le> length p" for a n
      using that by (simp add: e padded_def window_append1)
    show ?thesis
      using w [of 0 16] w [of 24 "length p - 24"] w [of 16 4] l linked_window [OF l, of 0 16] linked_window [OF l, of 24 "length p - 24"]
        linked_flags [OF l] by (simp add: window_def)
  qed
  moreover have "length ss = length ps" using arg_cong [OF ss(2), of length] by simp
  moreover have "compound_Encode True 0 ps (replicate (compound_Size ps) 0) = Some (concat (linked_all True ps))"
    using compound_Encode_concat [OF len, of "[]" 0 True] by simp
  ultimately show ?thesis using ss(1) by (auto simp: Let_def)
qed

definition demo_response :: bytes where
  "demo_response = MAGIC @ [64, 0] @ replicate 62 0"

lemma compound_split_witness:
  "\<exists>t ss. compound_Encode True 0 [demo_response, demo_response] (replicate 144 0) = Some t \<and>
    split_packets (of_bytes t) = (ss, SplitDone) \<and> length ss = 2"
proof -
  have l: "lone_packet demo_response" by code_simp
  have s: "compound_Size [demo_response, demo_response] = 144"
    by (simp add: compound_Size_def demo_response_def round8_eq)
  have "\<forall>p \<in> set [demo_response, demo_response]. lone_packet p" using l by simp
  moreover have "compound_Size [demo_response, demo_response] < 2 ^ 32" unfolding s by simp
  ultimately obtain t ss where "compound_Encode True 0 [demo_response, demo_response]
      (replicate (compound_Size [demo_response, demo_response]) 0) = Some t"
    "split_packets (of_bytes t) = (ss, SplitDone)" "length ss = length [demo_response, demo_response]"
    using compound_split [of "[demo_response, demo_response]"] by blast
  then show ?thesis unfolding s by auto
qed

section \<open>The credit account\<close>

text \<open>A buffered channel of tokens is how many it holds and its capacity. A call that would block
  until the context ends is \<open>None\<close>.\<close>

record account =
  ac_cap :: nat
  ac_balance :: nat
  ac_opening :: u16

definition openAccount :: "u16 \<Rightarrow> account option" where
  "openAccount maxCreditBalance =
     (if maxCreditBalance = 0 then None
      else Some \<lparr>ac_cap = unat maxCreditBalance, ac_balance = 1, ac_opening = 0\<rparr>)"

definition initRequest :: "account \<Rightarrow> u16" where
  "initRequest a = of_nat (ac_cap a - ac_balance a)"

definition loan :: "u16 \<Rightarrow> account \<Rightarrow> (u16 \<times> bool \<times> account) option" where
  "loan creditCharge a =
     (if ac_balance a = 0 then None
      else (let b = ac_balance a - 1;
                more = unat creditCharge - 1
            in if more \<le> b then Some (creditCharge, True, a\<lparr>ac_balance := b - more\<rparr>)
               else Some (of_nat (Suc b), False, a\<lparr>ac_balance := 0\<rparr>)))"

definition account_opening :: "account \<Rightarrow> u16 \<times> account" where
  "account_opening a = (ac_opening a, a\<lparr>ac_opening := 0\<rparr>)"

definition charge :: "u16 \<Rightarrow> u16 \<Rightarrow> account \<Rightarrow> account" where
  "charge granted requested a =
     (if granted = 0 \<and> requested = 0 then a
      else a\<lparr>ac_opening := (if granted < requested then ac_opening a + (requested - granted) else ac_opening a),
             ac_balance := min (ac_cap a) (ac_balance a + unat granted)\<rparr>)"

definition account_ok :: "account \<Rightarrow> bool" where
  "account_ok a \<longleftrightarrow> ac_balance a \<le> ac_cap a \<and> ac_cap a < 2 ^ 16"

lemma account_ok_steps:
  "openAccount m = Some a \<Longrightarrow> account_ok a"
  "account_ok a \<Longrightarrow> loan c a = Some (n, b, a') \<Longrightarrow> account_ok a'"
  "account_ok a \<Longrightarrow> account_ok (snd (account_opening a))"
  "account_ok a \<Longrightarrow> account_ok (charge g r a)"
  using unsigned_less [where 'a = nat, of m]
  by (auto simp: account_ok_def openAccount_def loan_def account_opening_def charge_def Let_def Suc_le_eq unat_gt_0
      split: if_splits)

text \<open>What a loan takes is what it reports, and what is left never exceeds the balance.\<close>

lemma loan_conserves:
  "account_ok a \<Longrightarrow> loan c a = Some (n, b, a') \<Longrightarrow> 0 < c \<Longrightarrow> ac_balance a' + unat n = ac_balance a"
proof -
  assume a: "account_ok a" "loan c a = Some (n, b, a')" "0 < c"
  then have "0 < unat c" by (simp add: unat_gt_0 word_gt_0)
  moreover have "unat (of_nat (ac_balance a) :: u16) = ac_balance a"
    using a(1) by (simp add: account_ok_def unsigned_of_nat take_bit_nat_eq_self)
  ultimately show ?thesis
    using a(2) by (auto simp: loan_def Let_def split: if_splits)
qed

end
