(* ===== verification/BlockMac.thy ===== *)
theory BlockMac
  imports GoBytes
begin

text \<open>
  The two MACs of internal/crypto: CBC-MAC with zero padding (ccm/cbc_mac.go) and CMAC
  (cmac/cmac.go). Both take bytes one at a time into a running block and encrypt it lazily; the
  lemmas show that they compute the block-wise definitions of the standards. A \<open>cipher.Block\<close>
  is its block size and its \<open>Encrypt\<close>, a parameter that maps blocks to blocks.
\<close>

record block_cipher =
  bc_BlockSize :: nat
  bc_Encrypt :: "bytes \<Rightarrow> bytes"

definition cipher_ok :: "block_cipher \<Rightarrow> bool" where
  "cipher_ok c \<longleftrightarrow> 0 < bc_BlockSize c \<and> (\<forall>b. length b = bc_BlockSize c \<longrightarrow> length (bc_Encrypt c b) = bc_BlockSize c)"

definition xor_bytes :: "bytes \<Rightarrow> bytes \<Rightarrow> bytes" where
  "xor_bytes xs ys = map2 (XOR) xs ys"

lemma length_xor_bytes [simp]: "length (xor_bytes xs ys) = min (length xs) (length ys)"
  by (simp add: xor_bytes_def)

lemma xor_xor_bytes: "length xs \<le> length ys \<Longrightarrow> xor_bytes (xor_bytes xs ys) ys = xs"
  by (rule nth_equalityI) (simp_all add: xor_bytes_def xor.assoc)

lemma xor_bytes_comm: "xor_bytes xs ys = xor_bytes ys xs"
  by (rule nth_equalityI) (simp_all add: xor_bytes_def xor.commute)

section \<open>The running block\<close>

record mac =
  mac_ci :: bytes
  mac_p :: nat

text \<open>One byte of \<open>Write\<close>; cbc_mac.go and cmac.go have the same loop.\<close>

definition mac_byte :: "block_cipher \<Rightarrow> mac \<Rightarrow> u8 \<Rightarrow> mac" where
  "mac_byte c m b =
     (let m1 = (if length (mac_ci m) \<le> mac_p m then \<lparr>mac_ci = bc_Encrypt c (mac_ci m), mac_p = 0\<rparr> else m)
      in \<lparr>mac_ci = (mac_ci m1)[mac_p m1 := mac_ci m1 ! mac_p m1 XOR b], mac_p = mac_p m1 + 1\<rparr>)"

definition mac_Write :: "block_cipher \<Rightarrow> bytes \<Rightarrow> mac \<Rightarrow> mac" where
  "mac_Write c bs m = foldl (mac_byte c) m bs"

definition newMAC :: "block_cipher \<Rightarrow> mac" where
  "newMAC c = \<lparr>mac_ci = replicate (bc_BlockSize c) 0, mac_p = 0\<rparr>"

definition mac_Reset :: "mac \<Rightarrow> mac" where
  "mac_Reset m = \<lparr>mac_ci = replicate (length (mac_ci m)) 0, mac_p = 0\<rparr>"

definition mac_PadZero :: "block_cipher \<Rightarrow> mac \<Rightarrow> mac" where
  "mac_PadZero c m = (if mac_p m \<noteq> 0 then \<lparr>mac_ci = bc_Encrypt c (mac_ci m), mac_p = 0\<rparr> else m)"

definition mac_Sum :: "bytes \<Rightarrow> mac \<Rightarrow> bytes" where
  "mac_Sum s m = s @ mac_ci m"

definition mac_Size :: "mac \<Rightarrow> nat" where "mac_Size m = length (mac_ci m)"

lemma mac_Write_append: "mac_Write c (xs @ ys) m = mac_Write c ys (mac_Write c xs m)"
  by (simp add: mac_Write_def)

lemma mac_Write_Nil [simp]: "mac_Write c [] m = m"
  by (simp add: mac_Write_def)

text \<open>Bytes that fit in the block are xored in.\<close>

definition xor_at :: "nat \<Rightarrow> bytes \<Rightarrow> bytes \<Rightarrow> bytes" where
  "xor_at p bs ci = take p ci @ xor_bytes (take (length bs) (drop p ci)) bs @ drop (p + length bs) ci"

lemma xor_at_Nil [simp]: "xor_at p [] ci = ci"
  by (simp add: xor_at_def xor_bytes_def)

lemma length_xor_at [simp]: "p + length bs \<le> length ci \<Longrightarrow> length (xor_at p bs ci) = length ci"
  by (simp add: xor_at_def)

lemma nth_xor_at:
  "p + length bs \<le> length ci \<Longrightarrow> i < length ci \<Longrightarrow>
   xor_at p bs ci ! i = (if p \<le> i \<and> i < p + length bs then ci ! i XOR bs ! (i - p) else ci ! i)"
  by (auto simp: xor_at_def nth_append xor_bytes_def min_def)

lemma xor_at_Cons: "p + Suc (length bs) \<le> length ci \<Longrightarrow>
    xor_at (Suc p) bs (ci[p := ci ! p XOR b]) = xor_at p (b # bs) ci"
  by (rule nth_equalityI) (auto simp: nth_xor_at nth_list_update nth_Cons' le_less_Suc_eq Suc_le_eq)

lemma mac_Write_fits:
  "mac_p m + length bs \<le> length (mac_ci m) \<Longrightarrow>
   mac_Write c bs m = \<lparr>mac_ci = xor_at (mac_p m) bs (mac_ci m), mac_p = mac_p m + length bs\<rparr>"
proof (induction bs arbitrary: m)
  case Nil
  then show ?case by simp
next
  case (Cons b bs)
  have "mac_byte c m b = \<lparr>mac_ci = (mac_ci m)[mac_p m := mac_ci m ! mac_p m XOR b], mac_p = mac_p m + 1\<rparr>"
    using Cons.prems by (simp add: mac_byte_def Let_def)
  then show ?case
    using Cons.IH [of "mac_byte c m b"] Cons.prems by (simp add: mac_Write_def xor_at_Cons)
qed

lemma mac_Write_full:
  "mac_p m = length (mac_ci m) \<Longrightarrow> bs \<noteq> [] \<Longrightarrow>
   mac_Write c bs m = mac_Write c bs \<lparr>mac_ci = bc_Encrypt c (mac_ci m), mac_p = 0\<rparr>"
  if "cipher_ok c" "length (mac_ci m) = bc_BlockSize c"
  using that by (cases bs) (simp_all add: mac_Write_def mac_byte_def Let_def cipher_ok_def)

lemma xor_at_0: "length bs = length ci \<Longrightarrow> xor_at 0 bs ci = xor_bytes ci bs"
  by (simp add: xor_at_def)

text \<open>Whole blocks: each is xored into the encryption of what came before.\<close>

definition chain :: "block_cipher \<Rightarrow> bytes list \<Rightarrow> bytes \<Rightarrow> bytes" where
  "chain c bs x = foldl (\<lambda>x b. xor_bytes (bc_Encrypt c x) b) x bs"

lemma mac_Write_blocks:
  assumes "cipher_ok c" and "length ci = bc_BlockSize c" and "\<forall>b \<in> set bs. length b = bc_BlockSize c"
  shows "mac_Write c (concat bs) \<lparr>mac_ci = ci, mac_p = bc_BlockSize c\<rparr> =
    \<lparr>mac_ci = chain c bs ci, mac_p = bc_BlockSize c\<rparr> \<and> length (chain c bs ci) = bc_BlockSize c"
  using assms(2,3)
proof (induction bs arbitrary: ci)
  case Nil
  then show ?case by (simp add: chain_def)
next
  case (Cons b bs)
  have b: "length b = bc_BlockSize c" "b \<noteq> []" "length (bc_Encrypt c ci) = bc_BlockSize c"
    using Cons.prems assms(1) by (auto simp: cipher_ok_def)
  have "mac_Write c b \<lparr>mac_ci = ci, mac_p = bc_BlockSize c\<rparr> = mac_Write c b \<lparr>mac_ci = bc_Encrypt c ci, mac_p = 0\<rparr>"
    using mac_Write_full [OF assms(1), of "\<lparr>mac_ci = ci, mac_p = bc_BlockSize c\<rparr>" b] Cons.prems b by simp
  also have "\<dots> = \<lparr>mac_ci = xor_bytes (bc_Encrypt c ci) b, mac_p = bc_BlockSize c\<rparr>"
    using mac_Write_fits [of "\<lparr>mac_ci = bc_Encrypt c ci, mac_p = 0\<rparr>" b c] b by (simp add: xor_at_0)
  finally show ?case
    using Cons.IH [of "xor_bytes (bc_Encrypt c ci) b"] Cons.prems b by (simp add: mac_Write_append chain_def)
qed

section \<open>CBC-MAC with zero padding\<close>

text \<open>The blocks of a message, the last one filled up with zeros; the standard's chain over
  them, from the zero block.\<close>

function blocks_of :: "nat \<Rightarrow> bytes \<Rightarrow> bytes list" where
  "blocks_of n bs = (if n = 0 \<or> bs = [] then []
     else (take n bs @ replicate (n - length bs) 0) # blocks_of n (drop n bs))"
  by pat_completeness auto
termination by (relation "measure (\<lambda>(n, bs). length bs)") auto

declare blocks_of.simps [simp del]

definition cbc_mac :: "block_cipher \<Rightarrow> bytes \<Rightarrow> bytes \<Rightarrow> bytes" where
  "cbc_mac c msg x = foldl (\<lambda>x b. bc_Encrypt c (xor_bytes x b)) x (blocks_of (bc_BlockSize c) msg)"

lemma xor_at_pad: "length bs \<le> length ci \<Longrightarrow> xor_at 0 bs ci = xor_bytes ci (bs @ replicate (length ci - length bs) 0)"
  by (rule nth_equalityI) (auto simp: xor_at_def xor_bytes_def nth_append)

text \<open>\<open>Write\<close> and \<open>PadZero\<close> from a block boundary compute the standard's chain.\<close>

lemma mac_Write_PadZero:
  assumes "cipher_ok c" and "length ci = bc_BlockSize c"
  shows "mac_PadZero c (mac_Write c msg \<lparr>mac_ci = ci, mac_p = 0\<rparr>) = \<lparr>mac_ci = cbc_mac c msg ci, mac_p = 0\<rparr> \<and>
    length (cbc_mac c msg ci) = bc_BlockSize c"
  using assms(2)
proof (induction msg arbitrary: ci rule: length_induct)
  case (1 msg)
  let ?n = "bc_BlockSize c"
  have n: "0 < ?n" using assms(1) by (simp add: cipher_ok_def)
  have E: "length (bc_Encrypt c x) = ?n" if "length x = ?n" for x using that assms(1) by (simp add: cipher_ok_def)
  consider "msg = []" | "msg \<noteq> []" "length msg \<le> ?n" | "?n < length msg" by linarith
  then show ?case
  proof cases
    case 1
    then show ?thesis using \<open>length ci = ?n\<close> by (simp add: mac_PadZero_def cbc_mac_def blocks_of.simps)
  next
    case 2
    have "mac_Write c msg \<lparr>mac_ci = ci, mac_p = 0\<rparr> = \<lparr>mac_ci = xor_at 0 msg ci, mac_p = length msg\<rparr>"
      using mac_Write_fits [of "\<lparr>mac_ci = ci, mac_p = 0\<rparr>" msg c] 2 \<open>length ci = ?n\<close> by simp
    moreover have "blocks_of ?n msg = [msg @ replicate (?n - length msg) 0]"
      using 2 n by (subst blocks_of.simps) (simp add: blocks_of.simps)
    ultimately show ?thesis using 2 n \<open>length ci = ?n\<close> xor_at_pad [of msg ci] E
      by (simp add: mac_PadZero_def cbc_mac_def)
  next
    case 3
    define x where "x = xor_bytes ci (take ?n msg)"
    have x: "length x = ?n" using 3 \<open>length ci = ?n\<close> by (simp add: x_def)
    have "mac_Write c msg \<lparr>mac_ci = ci, mac_p = 0\<rparr> =
        mac_Write c (drop ?n msg) (mac_Write c (take ?n msg) \<lparr>mac_ci = ci, mac_p = 0\<rparr>)"
      by (metis append_take_drop_id mac_Write_append)
    also have "mac_Write c (take ?n msg) \<lparr>mac_ci = ci, mac_p = 0\<rparr> = \<lparr>mac_ci = x, mac_p = ?n\<rparr>"
      using mac_Write_fits [of "\<lparr>mac_ci = ci, mac_p = 0\<rparr>" "take ?n msg" c] 3 \<open>length ci = ?n\<close> by (simp add: xor_at_0 x_def)
    also have "mac_Write c (drop ?n msg) \<lparr>mac_ci = x, mac_p = ?n\<rparr> = mac_Write c (drop ?n msg) \<lparr>mac_ci = bc_Encrypt c x, mac_p = 0\<rparr>"
      using mac_Write_full [OF assms(1), of "\<lparr>mac_ci = x, mac_p = ?n\<rparr>" "drop ?n msg"] 3 x by simp
    finally have w: "mac_Write c msg \<lparr>mac_ci = ci, mac_p = 0\<rparr> = mac_Write c (drop ?n msg) \<lparr>mac_ci = bc_Encrypt c x, mac_p = 0\<rparr>" .
    have "blocks_of ?n msg = take ?n msg # blocks_of ?n (drop ?n msg)"
      using 3 n by (subst blocks_of.simps) auto
    then have "cbc_mac c msg ci = cbc_mac c (drop ?n msg) (bc_Encrypt c x)"
      by (simp add: cbc_mac_def x_def)
    then show ?thesis
      using "1.IH" [rule_format, of "drop ?n msg" "bc_Encrypt c x"] 3 n x E w by simp
  qed
qed

section \<open>CMAC\<close>

text \<open>\<open>shift1\<close> from the last byte on: the shifted bytes and the bit that falls off the top.\<close>

fun shift1 :: "bytes \<Rightarrow> bytes \<times> u8" where
  "shift1 [] = ([], 0)"
| "shift1 (b # bs) = (let (ds, carry) = shift1 bs in ((push_bit 1 b OR carry) # ds, drop_bit 7 b))"

record cmac =
  cm_k1 :: bytes
  cm_k2 :: bytes
  cm_mac :: mac
  cm_c :: block_cipher

definition subkey :: "u8 \<Rightarrow> bytes \<Rightarrow> bytes" where
  "subkey r k = (let (d, msb) = shift1 k
     in if msb \<noteq> 0 then d[length d - 1 := d ! (length d - 1) XOR r] else d)"

text \<open>\<open>New\<close> panics on a block size other than 8 and 16.\<close>

definition New :: "block_cipher \<Rightarrow> cmac option" where
  "New c =
     (let n = bc_BlockSize c in
      if n \<noteq> 8 \<and> n \<noteq> 16 then None
      else (let r = (if n = 8 then 0x1B else 0x87);
                k1 = subkey r (bc_Encrypt c (replicate n 0));
                k2 = subkey r k1
            in Some \<lparr>cm_k1 = k1, cm_k2 = k2, cm_mac = newMAC c, cm_c = c\<rparr>))"

definition cmac_Reset :: "cmac \<Rightarrow> cmac" where
  "cmac_Reset d = d\<lparr>cm_mac := mac_Reset (cm_mac d)\<rparr>"

definition cmac_Write :: "bytes \<Rightarrow> cmac \<Rightarrow> cmac" where
  "cmac_Write bs d = d\<lparr>cm_mac := mac_Write (cm_c d) bs (cm_mac d)\<rparr>"

definition cmac_Sum :: "bytes \<Rightarrow> cmac \<Rightarrow> bytes" where
  "cmac_Sum s d =
     (let ci = mac_ci (cm_mac d); p = mac_p (cm_mac d);
          k = (if p < length ci then cm_k2 d else cm_k1 d);
          digest = xor_bytes ci k;
          digest = (if p < length ci then digest[p := digest ! p XOR 0x80] else digest)
      in s @ bc_Encrypt (cm_c d) digest)"

text \<open>\<open>h.Reset(); h.Write(msg); h.Sum(nil)\<close>, the way a packet is signed.\<close>

definition cmac_of :: "cmac \<Rightarrow> bytes \<Rightarrow> bytes" where
  "cmac_of d msg = cmac_Sum [] (cmac_Write msg (cmac_Reset d))"

text \<open>The standard (RFC 4493, NIST SP 800-38B): all blocks but the last in the CBC chain; the
  last one xored with K1 when it is whole, padded with a one bit and zeros and xored with K2
  otherwise.\<close>

definition rfc_cmac :: "block_cipher \<Rightarrow> bytes \<Rightarrow> bytes \<Rightarrow> bytes \<Rightarrow> bytes" where
  "rfc_cmac c k1 k2 msg =
     (let n = bc_BlockSize c;
          full = (length msg - 1) div n;
          init = take (full * n) msg;
          rest = drop (full * n) msg;
          last_block = (if length rest = n then xor_bytes rest k1
                        else xor_bytes (rest @ [0x80] @ replicate (n - length rest - 1) 0) k2)
      in bc_Encrypt c (xor_bytes (cbc_mac c init (replicate n 0)) last_block))"

section \<open>The code computes the standard's CMAC\<close>

lemma mac_byte_state:
  "cipher_ok c \<Longrightarrow> length (mac_ci m) = bc_BlockSize c \<Longrightarrow> mac_p m \<le> bc_BlockSize c \<Longrightarrow>
   length (mac_ci (mac_byte c m b)) = bc_BlockSize c \<and>
   mac_p (mac_byte c m b) = (if mac_p m = bc_BlockSize c then 1 else mac_p m + 1)"
  by (auto simp: mac_byte_def Let_def cipher_ok_def)

lemma mac_Write_state:
  assumes "cipher_ok c" and "length ci = bc_BlockSize c"
  shows "length (mac_ci (mac_Write c bs \<lparr>mac_ci = ci, mac_p = 0\<rparr>)) = bc_BlockSize c \<and>
    mac_p (mac_Write c bs \<lparr>mac_ci = ci, mac_p = 0\<rparr>) = (if bs = [] then 0 else (length bs - 1) mod bc_BlockSize c + 1)"
proof (induction bs rule: rev_induct)
  case Nil
  then show ?case using assms by simp
next
  case (snoc b bs)
  let ?n = "bc_BlockSize c"
  have n: "0 < ?n" using assms(1) by (simp add: cipher_ok_def)
  let ?m = "mac_Write c bs \<lparr>mac_ci = ci, mac_p = 0\<rparr>"
  have p: "mac_p ?m \<le> ?n"
    using snoc n mod_less_divisor [OF n, of "length bs - 1"] by (auto simp: Suc_le_eq simp del: mod_less_divisor)
  have "mac_Write c (bs @ [b]) \<lparr>mac_ci = ci, mac_p = 0\<rparr> = mac_byte c ?m b" by (simp add: mac_Write_def)
  moreover have "length bs mod ?n = (if (length bs - 1) mod ?n + 1 = ?n then 0 else (length bs - 1) mod ?n + 1)" if "bs \<noteq> []"
    using mod_Suc [of "length bs - 1" ?n] that by simp
  ultimately show ?case using mac_byte_state [OF assms(1) _ p, of b] snoc n by auto
qed

lemma mac_Write_rest:
  assumes "cipher_ok c" and "length ci = bc_BlockSize c" and "length init mod bc_BlockSize c = 0"
    and "length rest \<le> bc_BlockSize c" and "rest = [] \<longrightarrow> init = []"
  shows "mac_Write c (init @ rest) \<lparr>mac_ci = ci, mac_p = 0\<rparr> =
    \<lparr>mac_ci = xor_at 0 rest (cbc_mac c init ci), mac_p = length rest\<rparr> \<and> length (cbc_mac c init ci) = bc_BlockSize c"
proof -
  let ?n = "bc_BlockSize c"
  let ?m = "mac_Write c init \<lparr>mac_ci = ci, mac_p = 0\<rparr>"
  have n: "0 < ?n" using assms(1) by (simp add: cipher_ok_def)
  note pz = mac_Write_PadZero [OF assms(1,2), of init]
  show ?thesis
  proof (cases "init = []")
    case True
    have "cbc_mac c [] ci = ci" by (simp add: cbc_mac_def blocks_of.simps)
    with True show ?thesis
      using mac_Write_fits [of "\<lparr>mac_ci = ci, mac_p = 0\<rparr>" rest c] assms by simp
  next
    case False
    obtain k where k: "length init = Suc k * ?n"
    proof -
      have "?n dvd length init" using assms(3) by (simp add: mod_eq_0_iff_dvd)
      then obtain j where "length init = j * ?n" by (auto simp: dvd_def mult.commute)
      with False n that show thesis by (cases j) auto
    qed
    have "(length init - 1) mod ?n = ?n - 1"
    proof -
      have e: "length init - 1 = ?n - 1 + k * ?n" using k n by simp
      have "(?n - 1 + k * ?n) mod ?n = (?n - 1) mod ?n" by (rule mod_mult_self1)
      then show ?thesis unfolding e using n by simp
    qed
    then have m: "mac_p ?m = ?n" "length (mac_ci ?m) = ?n"
      using mac_Write_state [OF assms(1,2), of init] False n by simp_all
    then have e: "bc_Encrypt c (mac_ci ?m) = cbc_mac c init ci" using pz n by (simp add: mac_PadZero_def)
    have "mac_Write c (init @ rest) \<lparr>mac_ci = ci, mac_p = 0\<rparr> = mac_Write c rest ?m" by (simp add: mac_Write_append)
    also have "\<dots> = mac_Write c rest \<lparr>mac_ci = cbc_mac c init ci, mac_p = 0\<rparr>"
      using mac_Write_full [OF assms(1) m(2), of rest] m e assms(5) False by simp
    also have "\<dots> = \<lparr>mac_ci = xor_at 0 rest (cbc_mac c init ci), mac_p = length rest\<rparr>"
      using mac_Write_fits [of "\<lparr>mac_ci = cbc_mac c init ci, mac_p = 0\<rparr>" rest c] pz assms(4) by simp
    finally show ?thesis using pz by simp
  qed
qed

lemma length_shift1: "length (fst (shift1 bs)) = length bs"
  by (induction bs) (auto split: prod.splits)

lemma length_subkey: "length (subkey r k) = length k"
  using length_shift1 [of k] by (auto simp: subkey_def split: prod.splits)

lemma cmac_reference:
  assumes "cipher_ok c" and "New c = Some d"
  shows "cmac_of d msg = rfc_cmac c (cm_k1 d) (cm_k2 d) msg"
proof -
  let ?n = "bc_BlockSize c"
  have n: "0 < ?n" using assms(1) by (simp add: cipher_ok_def)
  have d: "cm_mac d = \<lparr>mac_ci = replicate ?n 0, mac_p = 0\<rparr>" "cm_c d = c" "length (cm_k1 d) = ?n" "length (cm_k2 d) = ?n"
    using assms by (auto simp: New_def Let_def newMAC_def length_subkey cipher_ok_def split: if_splits)
  define full where "full = (length msg - 1) div ?n"
  define init where "init = take (full * ?n) msg"
  define rest where "rest = drop (full * ?n) msg"
  define Y where "Y = cbc_mac c init (replicate ?n 0)"
  have dm: "full * ?n + (length msg - 1) mod ?n = length msg - 1" by (simp add: full_def)
  have lm: "(length msg - 1) mod ?n < ?n" using n by simp
  have f: "full * ?n \<le> length msg" using dm by linarith
  have li: "length init = full * ?n" using f by (simp add: init_def)
  have lr: "length rest \<le> ?n" using dm lm by (simp add: rest_def)
  have ne: "rest = [] \<longrightarrow> init = []" using dm lm n by (cases msg) (auto simp: rest_def init_def)
  have split: "msg = init @ rest" by (simp add: init_def rest_def)
  have w: "mac_Write c msg \<lparr>mac_ci = replicate ?n 0, mac_p = 0\<rparr> = \<lparr>mac_ci = xor_at 0 rest Y, mac_p = length rest\<rparr>"
    and lY: "length Y = ?n"
    using mac_Write_rest [OF assms(1), of "replicate ?n 0" init rest] li lr ne by (simp_all add: Y_def split [symmetric])
  have c: "cmac_of d msg = bc_Encrypt c (let digest = xor_bytes (xor_at 0 rest Y) (if length rest < ?n then cm_k2 d else cm_k1 d)
      in if length rest < ?n then digest[length rest := digest ! length rest XOR 0x80] else digest)"
    using d w lY lr by (simp add: cmac_of_def cmac_Sum_def cmac_Write_def cmac_Reset_def mac_Reset_def Let_def)
  have r: "rfc_cmac c (cm_k1 d) (cm_k2 d) msg = bc_Encrypt c (xor_bytes Y
      (if length rest = ?n then xor_bytes rest (cm_k1 d)
       else xor_bytes (rest @ [0x80] @ replicate (?n - length rest - 1) 0) (cm_k2 d)))"
    unfolding rfc_cmac_def Let_def Y_def init_def rest_def full_def by (rule refl)
  show ?thesis
  proof (cases "length rest = ?n")
    case True
    have "xor_bytes (xor_at 0 rest Y) (cm_k1 d) = xor_bytes Y (xor_bytes rest (cm_k1 d))"
      by (rule nth_equalityI) (use True lY d lr in \<open>simp_all add: nth_xor_at xor_bytes_def xor.assoc\<close>)
    with True c r show ?thesis by simp
  next
    case False
    let ?digest = "xor_bytes (xor_at 0 rest Y) (cm_k2 d)"
    have "?digest[length rest := ?digest ! length rest XOR 0x80] =
        xor_bytes Y (xor_bytes (rest @ [0x80] @ replicate (?n - length rest - 1) 0) (cm_k2 d))"
      by (rule nth_equalityI)
        (use False lY d lr in \<open>auto simp: nth_xor_at xor_bytes_def nth_list_update nth_append nth_Cons' xor.assoc xor.left_commute xor.commute\<close>)
    with False lr c r show ?thesis by simp
  qed
qed

section \<open>The subkeys\<close>

text \<open>The standard's subkeys: doubling in the field of \<open>2\<^sup>6\<^sup>4\<close> or \<open>2\<^sup>1\<^sup>2\<^sup>8\<close> elements, blocks read as
  big-endian numbers.\<close>

definition gf_double :: "nat \<Rightarrow> nat \<Rightarrow> nat" where
  "gf_double n x =
     (if 2 * x < 256 ^ n then 2 * x else (2 * x - 256 ^ n) XOR (if n = 8 then 0x1B else 0x87))"

definition reference_cmac :: "block_cipher \<Rightarrow> bytes \<Rightarrow> bytes" where
  "reference_cmac c msg =
     (let n = bc_BlockSize c;
          l = le_nat (rev (bc_Encrypt c (replicate n 0)));
          k1 = rev (le_bytes n (gf_double n l));
          k2 = rev (le_bytes n (gf_double n (gf_double n l)))
      in rfc_cmac c k1 k2 msg)"

lemma le_nat_snoc: "le_nat (xs @ [b]) = le_nat xs + 256 ^ length xs * unat b"
  by (induction xs) (simp_all add: algebra_simps)

lemma byte_less: "unat (b :: u8) < 256"
  using unsigned_less [of b, where 'a = nat] by simp

lemma shifted_byte:
  fixes b c :: u8
  assumes "unat c \<le> 1"
  shows "unat (push_bit 1 b OR c) + 256 * unat (drop_bit 7 b) = 2 * unat b + unat c"
proof -
  have c: "c = 0 \<or> c = 1" using assms by (auto simp: word_unat_eq_iff)
  have double: "unat (push_bit 1 b) = 2 * unat b mod 256"
    by (simp only: unsigned_push_bit_eq) (simp add: take_bit_eq_mod mult.commute)
  note double
  moreover have "unat (drop_bit 7 b) = unat b div 128"
    using byte_less [of b] by (simp only: unsigned_drop_bit_eq) (simp add: drop_bit_eq_div take_bit_eq_mod)
  moreover have "unat (push_bit 1 b OR 1) = unat (push_bit 1 b) + 1"
  proof -
    have "unat (push_bit 1 b OR 1) = unat (push_bit 1 b) OR 1" by (subst unsigned_or_eq) simp
    also have "\<dots> = unat (push_bit 1 b) + of_bool (even (unat (push_bit 1 b)))" by (rule or_one_eq)
    finally show ?thesis unfolding double by (simp add: dvd_mod)
  qed
  moreover have "2 * unat b mod 256 + 256 * (unat b div 128) = 2 * unat b"
  proof -
    have "2 * unat b mod 256 = 2 * (unat b mod 128)" using mult_mod_right [of 2 "unat b" 128] by simp
    then show ?thesis using div_mult_mod_eq [of "unat b" 128] by linarith
  qed
  ultimately show ?thesis using c by (elim disjE; simp only: or.right_neutral unsigned_0 unsigned_1)
qed

lemma shift1_value:
  "shift1 bs = (ds, c) \<Longrightarrow>
   length ds = length bs \<and> unat c \<le> 1 \<and> le_nat (rev ds) + 256 ^ length bs * unat c = 2 * le_nat (rev bs)"
proof (induction bs arbitrary: ds c)
  case (Cons b bs)
  obtain es carry where s: "shift1 bs = (es, carry)" by (cases "shift1 bs")
  with Cons.prems have ds: "ds = (push_bit 1 b OR carry) # es" and c: "c = drop_bit 7 b" by auto
  from Cons.IH [OF s] have l: "length es = length bs" and u: "unat carry \<le> 1"
    and v: "le_nat (rev es) + 256 ^ length bs * unat carry = 2 * le_nat (rev bs)" by auto
  have "le_nat (rev ds) + 256 ^ length (b # bs) * unat c =
      le_nat (rev es) + 256 ^ length bs * (unat (push_bit 1 b OR carry) + 256 * unat (drop_bit 7 b))"
    by (simp add: ds c le_nat_snoc l algebra_simps)
  also have "\<dots> = 2 * le_nat (rev (b # bs))"
    unfolding shifted_byte [OF u] using v by (simp add: le_nat_snoc algebra_simps)
  finally have "le_nat (rev ds) + 256 ^ length (b # bs) * unat c = 2 * le_nat (rev (b # bs))" .
  moreover have "unat c \<le> 1" using byte_less [of b] by (simp only: c unsigned_drop_bit_eq) (simp add: drop_bit_eq_div take_bit_eq_mod)
  ultimately show ?case using l ds by simp
qed simp

lemma xor_low:
  fixes a r m :: nat
  assumes "a < 256" and "r < 256"
  shows "(a + 256 * m) XOR r = (a XOR r) + 256 * m"
proof -
  let ?x = "(a + 256 * m) XOR r"
  have "take_bit 8 ?x = a XOR r"
    unfolding take_bit_xor using assms by (simp add: take_bit_eq_mod mult.commute)
  moreover have "drop_bit 8 ?x = m"
    unfolding drop_bit_xor using assms by (simp add: drop_bit_eq_div)
  moreover have "?x = take_bit 8 ?x + 256 * drop_bit 8 ?x"
    by (simp add: take_bit_eq_mod drop_bit_eq_div)
  ultimately show ?thesis by simp
qed

lemma subkey_value:
  assumes "length k = n" and "0 < n" and "r = (if n = 8 then 0x1B else 0x87)"
  shows "le_nat (rev (subkey r k)) = gf_double n (le_nat (rev k))"
proof -
  obtain d c where s: "shift1 k = (d, c)" by (cases "shift1 k")
  from shift1_value [OF s] assms(1) have ld: "length d = n" and c: "unat c \<le> 1"
    and v: "le_nat (rev d) + 256 ^ n * unat c = 2 * le_nat (rev k)" by auto
  have lt: "le_nat (rev d) < 256 ^ n" using le_nat_less [of "rev d"] ld by simp
  show ?thesis
  proof (cases "c = 0")
    case True
    then show ?thesis using v lt s by (simp add: subkey_def gf_double_def)
  next
    case False
    then have "unat c = 1" using c by (auto simp: word_unat_eq_iff)
    with v have x: "2 * le_nat (rev k) = le_nat (rev d) + 256 ^ n" by simp
    obtain e l where d: "d = e @ [l]" using ld assms(2) by (cases d rule: rev_cases) auto
    let ?y = "d[length d - 1 := d ! (length d - 1) XOR r]"
    have y: "?y = e @ [l XOR r]" by (simp add: d list_update_append)
    have r: "unat r = (if n = 8 then 0x1B else 0x87)" using assms(3) by simp
    have "le_nat (rev ?y) = (unat l XOR unat r) + 256 * le_nat (rev e)"
      unfolding y by (simp add: unsigned_xor_eq)
    also have "\<dots> = le_nat (rev d) XOR unat r"
      using xor_low [of "unat l" "unat r" "le_nat (rev e)"] byte_less [of l] r by (simp add: d)
    finally have "le_nat (rev ?y) = gf_double n (le_nat (rev k))"
      using x r by (simp add: gf_double_def)
    with False s show ?thesis by (simp add: subkey_def)
  qed
qed

lemma subkey_doubles:
  assumes "length k = n" and "0 < n" and "r = (if n = 8 then 0x1B else 0x87)"
  shows "subkey r k = rev (le_bytes n (gf_double n (le_nat (rev k))))"
  using le_bytes_nat [of "rev (subkey r k)"] assms by (simp add: subkey_value length_subkey)

text \<open>C39. The incremental \<open>cmac\<close>, fed a message and asked for its sum, computes the
  CMAC of RFC 4493 (and of SP 800-38B for 8-byte blocks) of that message, subkeys included.\<close>

theorem cmac_is_the_standards:
  assumes "cipher_ok c" and "New c = Some d"
  shows "cmac_of d msg = reference_cmac c msg"
proof -
  let ?n = "bc_BlockSize c"
  have n: "?n = 8 \<or> ?n = 16" and l: "length (bc_Encrypt c (replicate ?n 0)) = ?n"
    using assms by (auto simp: New_def Let_def cipher_ok_def split: if_splits)
  define k1 where "k1 = subkey (if ?n = 8 then 0x1B else 0x87) (bc_Encrypt c (replicate ?n 0))"
  have k: "cm_k1 d = k1" "cm_k2 d = subkey (if ?n = 8 then 0x1B else 0x87) k1"
    using assms n by (auto simp: New_def Let_def k1_def split: if_splits)
  have "le_nat (rev k1) = gf_double ?n (le_nat (rev (bc_Encrypt c (replicate ?n 0))))"
    and "k1 = rev (le_bytes ?n (gf_double ?n (le_nat (rev (bc_Encrypt c (replicate ?n 0))))))"
    unfolding k1_def using n l by (intro subkey_value subkey_doubles; auto)+
  moreover have "cm_k2 d = rev (le_bytes ?n (gf_double ?n (le_nat (rev k1))))"
    unfolding k(2) using n l by (intro subkey_doubles) (auto simp: k1_def length_subkey)
  ultimately show ?thesis
    unfolding cmac_reference [OF assms] k(1) by (simp add: reference_cmac_def Let_def)
qed

theorem cmac_is_the_standards_witness:
  "\<exists>d. New \<lparr>bc_BlockSize = 16, bc_Encrypt = map (\<lambda>x. x XOR 0x5A)\<rparr> = Some d \<and>
     cmac_of d [1, 2, 3] = reference_cmac \<lparr>bc_BlockSize = 16, bc_Encrypt = map (\<lambda>x. x XOR 0x5A)\<rparr> [1, 2, 3]"
proof -
  let ?c = "\<lparr>bc_BlockSize = 16, bc_Encrypt = map (\<lambda>x :: u8. x XOR 0x5A)\<rparr>"
  have "cipher_ok ?c" by (simp add: cipher_ok_def)
  moreover obtain d where "New ?c = Some d" by (simp add: New_def Let_def)
  ultimately show ?thesis using cmac_is_the_standards by blast
qed

end
