(* ===== verification/Ccm.thy ===== *)
theory Ccm
  imports BlockMac
begin

text \<open>
  Authenticated encryption in CCM mode (internal/crypto/ccm/ccm.go), on a block cipher that is a
  parameter. A slice the code extends with \<open>sliceForAppend\<close> is the concatenation it returns; the
  callers' buffers overlap only where the code overwrites a byte after its last use. The counter
  mode of crypto/cipher is written out. The locale \<open>aead\<close> is what a session relies on; CCM
  interprets it.
\<close>

section \<open>The mode\<close>

record ccm =
  cc_c :: block_cipher
  cc_nonceSize :: nat
  cc_tagSize :: nat

datatype ccm_error = RequiresBlock128 | InvalidNonceSize | InvalidTagSize | PayloadTooLong | AuthenticationFailed

definition NewCCMWithNonceAndTagSizes :: "block_cipher \<Rightarrow> nat \<Rightarrow> nat \<Rightarrow> ccm_error + ccm" where
  "NewCCMWithNonceAndTagSizes c nonceSize tagSize =
     (if bc_BlockSize c \<noteq> 16 then Inl RequiresBlock128
      else if \<not> (7 \<le> nonceSize \<and> nonceSize \<le> 13) then Inl InvalidNonceSize
      else if \<not> (4 \<le> tagSize \<and> tagSize \<le> 16 \<and> tagSize mod 2 = 0) then Inl InvalidTagSize
      else Inr \<lparr>cc_c = c, cc_nonceSize = nonceSize, cc_tagSize = tagSize\<rparr>)"

definition maxUvarint :: "nat \<Rightarrow> nat" where "maxUvarint n = 2 ^ (n * 8) - 1"

text \<open>\<open>putUvarint\<close> on a slice of \<open>k\<close> bytes: big-endian.\<close>

definition be_bytes :: "nat \<Rightarrow> nat \<Rightarrow> bytes" where "be_bytes k n = rev (le_bytes k n)"

lemma length_be_bytes [simp]: "length (be_bytes k n) = k"
  by (simp add: be_bytes_def)

text \<open>Counter mode: the key stream from a start block, incremented as a 128-bit number.\<close>

definition ctr_block :: "bytes \<Rightarrow> nat \<Rightarrow> bytes" where
  "ctr_block ctr i = be_bytes (length ctr) (le_nat (rev ctr) + i)"

definition key_stream :: "block_cipher \<Rightarrow> bytes \<Rightarrow> nat \<Rightarrow> bytes" where
  "key_stream c ctr n =
     concat (map (\<lambda>i. bc_Encrypt c (ctr_block ctr i)) [0..<(n + bc_BlockSize c - 1) div bc_BlockSize c])"

definition XORKeyStream :: "block_cipher \<Rightarrow> bytes \<Rightarrow> bytes \<Rightarrow> bytes" where
  "XORKeyStream c ctr src = xor_bytes src (key_stream c ctr (length src))"

text \<open>The counter block: flags, nonce, and the counter's last byte.\<close>

definition ctr_start :: "ccm \<Rightarrow> bytes \<Rightarrow> u8 \<Rightarrow> bytes" where
  "ctr_start m nonce k =
     (copy_at 1 nonce ((replicate 16 0)[0 := of_nat (15 - cc_nonceSize m - 1)]))[15 := k]"

text \<open>The length of the associated data in front of it; the two-byte form stops at 0x7F80.\<close>

definition data_length :: "nat \<Rightarrow> bytes" where
  "data_length n =
     (if n < 2 ^ 15 - 2 ^ 7 then be_bytes 2 n
      else if n \<le> 2 ^ 31 - 1 then [0xFF, 0xFE] @ be_bytes 4 n
      else [0xFF, 0xFF] @ be_bytes 8 n)"

definition b0_block :: "ccm \<Rightarrow> bytes \<Rightarrow> bool \<Rightarrow> nat \<Rightarrow> bytes" where
  "b0_block m ctr adata plen =
     (let b = ctr[0 := ctr ! 0 OR of_nat ((cc_tagSize m - 2) div 2 * 8)];
          b = copy_at (1 + cc_nonceSize m) (be_bytes (length b - (1 + cc_nonceSize m)) plen) b
      in if adata then b[0 := b ! 0 OR 0x40] else b)"

definition getTag :: "ccm \<Rightarrow> bytes \<Rightarrow> bytes \<Rightarrow> bytes \<Rightarrow> bytes" where
  "getTag m ctr data plaintext =
     (let c = cc_c m;
          b = b0_block m ctr (data \<noteq> []) (length plaintext);
          s = mac_Write c b (mac_Reset (newMAC c));
          s = (if data \<noteq> [] then mac_PadZero c (mac_Write c data (mac_Write c (data_length (length data)) s)) else s)
      in mac_Sum [] (mac_PadZero c (mac_Write c plaintext s)))"

text \<open>\<open>None\<close> is the nil that \<open>Seal\<close> returns for a message that is too long.\<close>

definition Seal :: "ccm \<Rightarrow> bytes \<Rightarrow> bytes \<Rightarrow> bytes \<Rightarrow> bytes \<Rightarrow> (ccm_error, bytes option) outcome" where
  "Seal m dst nonce plaintext data =
     (if length nonce \<noteq> cc_nonceSize m then Panic
      else if maxUvarint (15 - cc_nonceSize m) < length plaintext then Ok None
      else (let s0 = bc_Encrypt (cc_c m) (ctr_start m nonce 0);
                ctr = ctr_start m nonce 1;
                body = XORKeyStream (cc_c m) ctr plaintext;
                tag = getTag m ctr data plaintext
            in Ok (Some (dst @ take (length plaintext + cc_tagSize m) (body @ xor_bytes s0 tag)))))"

definition AEAD_Open :: "ccm \<Rightarrow> bytes \<Rightarrow> bytes \<Rightarrow> bytes \<Rightarrow> bytes \<Rightarrow> (ccm_error, bytes) outcome" where
  "AEAD_Open m dst nonce ciphertext data =
     (if length nonce \<noteq> cc_nonceSize m then Panic
      else if length ciphertext \<le> cc_tagSize m then Panic
      else if maxUvarint (15 - cc_nonceSize m) < length ciphertext - cc_tagSize m then Err PayloadTooLong
      else (let n = length ciphertext - cc_tagSize m;
                s0 = bc_Encrypt (cc_c m) (ctr_start m nonce 0);
                ctr = ctr_start m nonce 1;
                plaintext = XORKeyStream (cc_c m) ctr (take n ciphertext);
                tag = xor_bytes (getTag m ctr data plaintext) s0
            in if take (cc_tagSize m) tag \<noteq> drop n ciphertext then Err AuthenticationFailed
               else Ok (dst @ plaintext)))"

section \<open>The tag\<close>

lemma length_ctr_start: "length nonce \<le> 13 \<Longrightarrow> length (ctr_start m nonce k) = 16"
  by (simp add: ctr_start_def)

lemma length_b0: "length (b0_block m ctr ad n) = length ctr"
  by (simp add: b0_block_def Let_def)

lemma data_length_nonempty: "data_length n \<noteq> []"
proof -
  have "be_bytes k j \<noteq> []" if "0 < k" for k j
    using that length_be_bytes [of k j] by (metis length_greater_0_conv)
  then show ?thesis by (simp add: data_length_def)
qed

text \<open>The tag is the CBC-MAC of the formatted input: the first block, the associated data behind
  its length, the message, each part padded with zeros.\<close>

definition tag_start :: "ccm \<Rightarrow> bytes \<Rightarrow> bytes \<Rightarrow> bytes \<Rightarrow> bytes" where
  "tag_start m ctr data plaintext = bc_Encrypt (cc_c m) (b0_block m ctr (data \<noteq> []) (length plaintext))"

lemma getTag_cbc:
  assumes "cipher_ok (cc_c m)" and "bc_BlockSize (cc_c m) = 16" and "length ctr = 16"
  shows "getTag m ctr data plaintext = cbc_mac (cc_c m) plaintext
     (if data = [] then tag_start m ctr data plaintext
      else cbc_mac (cc_c m) (data_length (length data) @ data) (tag_start m ctr data plaintext))"
    and "length (getTag m ctr data plaintext) = 16"
proof -
  let ?c = "cc_c m"
  define start where "start = tag_start m ctr data plaintext"
  note start_def = start_def [unfolded tag_start_def]
  let ?b = "b0_block m ctr (data \<noteq> []) (length plaintext)"
  have lb: "length ?b = 16" using assms(3) by (simp add: length_b0)
  have ls: "length start = bc_BlockSize ?c" using assms(1,2) lb by (simp add: cipher_ok_def start_def)
  have r: "mac_Reset (newMAC ?c) = \<lparr>mac_ci = replicate 16 0, mac_p = 0\<rparr>"
    using assms(2) by (simp add: mac_Reset_def newMAC_def)
  have z: "xor_at 0 b (replicate 16 0) = b" if "length b = 16" for b :: bytes
    by (rule nth_equalityI) (use that in \<open>simp_all add: nth_xor_at\<close>)
  have w: "mac_Write ?c ?b (mac_Reset (newMAC ?c)) = \<lparr>mac_ci = ?b, mac_p = 16\<rparr>"
    unfolding r using mac_Write_fits [of "\<lparr>mac_ci = replicate 16 0, mac_p = 0\<rparr>" ?b ?c] lb z [OF lb] by simp
  have nx: "mac_Write ?c xs \<lparr>mac_ci = ?b, mac_p = 16\<rparr> = mac_Write ?c xs \<lparr>mac_ci = start, mac_p = 0\<rparr>" if "xs \<noteq> []" for xs
    using mac_Write_full [OF assms(1), of "\<lparr>mac_ci = ?b, mac_p = 16\<rparr>" xs] that lb assms(2) by (simp add: start_def)
  define mid where "mid = (if data = [] then start else cbc_mac ?c (data_length (length data) @ data) start)"
  have lm: "length mid = bc_BlockSize ?c"
    using mac_Write_PadZero [OF assms(1) ls] ls by (simp add: mid_def)
  have "getTag m ctr data plaintext = mac_ci (mac_PadZero ?c (mac_Write ?c plaintext \<lparr>mac_ci = mid, mac_p = 0\<rparr>))"
  proof (cases "data = []")
    case False
    have "mac_PadZero ?c (mac_Write ?c (data_length (length data) @ data) \<lparr>mac_ci = start, mac_p = 0\<rparr>) = \<lparr>mac_ci = mid, mac_p = 0\<rparr>"
      using mac_Write_PadZero [OF assms(1) ls] False by (simp add: mid_def)
    with False w nx [of "data_length (length data) @ data"] data_length_nonempty show ?thesis
      by (simp add: getTag_def Let_def mac_Sum_def mac_Write_append)
  next
    case True
    have "mac_PadZero ?c (mac_Write ?c plaintext \<lparr>mac_ci = ?b, mac_p = 16\<rparr>) = mac_PadZero ?c (mac_Write ?c plaintext \<lparr>mac_ci = start, mac_p = 0\<rparr>)"
      using nx [of plaintext] by (cases "plaintext = []") (simp_all add: mac_PadZero_def start_def)
    with True w show ?thesis by (simp add: getTag_def Let_def mac_Sum_def mid_def)
  qed
  then have g: "getTag m ctr data plaintext = cbc_mac ?c plaintext mid" and l: "length (cbc_mac ?c plaintext mid) = 16"
    using mac_Write_PadZero [OF assms(1) lm, of plaintext] assms(2) by simp_all
  show "getTag m ctr data plaintext = cbc_mac ?c plaintext
     (if data = [] then tag_start m ctr data plaintext
      else cbc_mac ?c (data_length (length data) @ data) (tag_start m ctr data plaintext))"
    using g by (simp add: mid_def start_def tag_start_def)
  show "length (getTag m ctr data plaintext) = 16" using g l by simp
qed

section \<open>Opening is the inverse of sealing\<close>

lemma length_key_stream:
  assumes "cipher_ok c" and "length ctr = bc_BlockSize c"
  shows "n \<le> length (key_stream c ctr n)"
proof -
  let ?b = "bc_BlockSize c"
  have b: "0 < ?b" using assms(1) by (simp add: cipher_ok_def)
  have "length (bc_Encrypt c (ctr_block ctr i)) = ?b" for i
    using assms by (simp add: cipher_ok_def ctr_block_def)
  then have "length (key_stream c ctr n) = (n + ?b - 1) div ?b * ?b"
    by (simp add: key_stream_def length_concat comp_def sum_list_triv)
  moreover have "n \<le> (n + ?b - 1) div ?b * ?b"
    using div_mult_mod_eq [of "n + ?b - 1" ?b] mod_less_divisor [OF b, of "n + ?b - 1"] b by linarith
  ultimately show ?thesis by simp
qed

lemma XORKeyStream_inverse:
  "cipher_ok c \<Longrightarrow> length ctr = bc_BlockSize c \<Longrightarrow> XORKeyStream c ctr (XORKeyStream c ctr xs) = xs"
  using length_key_stream [of c ctr "length xs"] by (simp add: XORKeyStream_def xor_xor_bytes min_absorb1)

lemma length_XORKeyStream:
  "cipher_ok c \<Longrightarrow> length ctr = bc_BlockSize c \<Longrightarrow> length (XORKeyStream c ctr xs) = length xs"
  using length_key_stream [of c ctr "length xs"] by (simp add: XORKeyStream_def min_absorb1)

definition ccm_ok :: "ccm \<Rightarrow> bool" where
  "ccm_ok m \<longleftrightarrow> cipher_ok (cc_c m) \<and> bc_BlockSize (cc_c m) = 16 \<and> 7 \<le> cc_nonceSize m \<and> cc_nonceSize m \<le> 13 \<and>
     4 \<le> cc_tagSize m \<and> cc_tagSize m \<le> 16"

lemma NewCCM_ok: "cipher_ok c \<Longrightarrow> NewCCMWithNonceAndTagSizes c n t = Inr m \<Longrightarrow> ccm_ok m \<and> cc_nonceSize m = n \<and> cc_tagSize m = t"
  by (auto simp: NewCCMWithNonceAndTagSizes_def ccm_ok_def split: if_splits)

lemma ccm_open_seal:
  assumes "ccm_ok m" and "length nonce = cc_nonceSize m" and "cc_tagSize m < length ciphertext"
  shows "AEAD_Open m [] nonce ciphertext data = Ok plaintext \<longleftrightarrow>
    Seal m [] nonce plaintext data = Ok (Some ciphertext)"
proof -
  let ?c = "cc_c m"
  define ctr where "ctr = ctr_start m nonce 1"
  define s0 where "s0 = bc_Encrypt ?c (ctr_start m nonce 0)"
  have ok: "cipher_ok ?c" "bc_BlockSize ?c = 16" "cc_nonceSize m \<le> 13" "cc_tagSize m \<le> 16"
    using assms(1) by (simp_all add: ccm_ok_def)
  have lc: "length ctr = 16" "length (ctr_start m nonce 0) = 16"
    using assms(2) ok(3) by (simp_all add: ctr_def length_ctr_start)
  then have ls: "length s0 = 16" using ok by (simp add: s0_def cipher_ok_def)
  have lt: "length (getTag m ctr data p) = 16" for p using getTag_cbc(2) ok lc by simp
  have inv: "XORKeyStream ?c ctr (XORKeyStream ?c ctr xs) = xs" "length (XORKeyStream ?c ctr xs) = length xs" for xs
    using XORKeyStream_inverse length_XORKeyStream ok lc by simp_all
  define n where "n = length ciphertext - cc_tagSize m"
  have n: "0 < n" "n + cc_tagSize m = length ciphertext" using assms(3) by (simp_all add: n_def)
  have seal: "Seal m [] nonce p data = (if maxUvarint (15 - cc_nonceSize m) < length p then Ok None
      else Ok (Some (XORKeyStream ?c ctr p @ take (cc_tagSize m) (xor_bytes (getTag m ctr data p) s0))))" for p
    using assms(2) by (simp add: Seal_def Let_def ctr_def [symmetric] s0_def [symmetric] inv xor_bytes_comm)
  have opn: "AEAD_Open m [] nonce ciphertext data = (if maxUvarint (15 - cc_nonceSize m) < n then Err PayloadTooLong
      else if take (cc_tagSize m) (xor_bytes (getTag m ctr data (XORKeyStream ?c ctr (take n ciphertext))) s0) \<noteq> drop n ciphertext
      then Err AuthenticationFailed else Ok (XORKeyStream ?c ctr (take n ciphertext)))"
    using assms(2,3) by (simp add: AEAD_Open_def Let_def ctr_def [symmetric] s0_def [symmetric] n_def)
  show ?thesis
  proof
    assume "AEAD_Open m [] nonce ciphertext data = Ok plaintext"
    then have o1: "\<not> maxUvarint (15 - cc_nonceSize m) < n" "plaintext = XORKeyStream ?c ctr (take n ciphertext)"
      "take (cc_tagSize m) (xor_bytes (getTag m ctr data plaintext) s0) = drop n ciphertext"
      unfolding opn by (auto split: if_splits)
    have "length plaintext = n" using o1(2) n inv(2) by simp
    moreover have "XORKeyStream ?c ctr plaintext = take n ciphertext" using o1(2) inv(1) by simp
    ultimately show "Seal m [] nonce plaintext data = Ok (Some ciphertext)" unfolding seal using o1 by simp
  next
    assume "Seal m [] nonce plaintext data = Ok (Some ciphertext)"
    then have s: "\<not> maxUvarint (15 - cc_nonceSize m) < length plaintext"
      "ciphertext = XORKeyStream ?c ctr plaintext @ take (cc_tagSize m) (xor_bytes (getTag m ctr data plaintext) s0)"
      unfolding seal by (auto split: if_splits)
    have "length ciphertext = length plaintext + cc_tagSize m"
      using arg_cong [OF s(2), of length] inv(2) ls lt ok(4) by (simp add: min_def)
    then have "n = length plaintext" by (simp add: n_def)
    then have "take n ciphertext = XORKeyStream ?c ctr plaintext"
      "drop n ciphertext = take (cc_tagSize m) (xor_bytes (getTag m ctr data plaintext) s0)"
      using s(2) inv(2) by simp_all
    then show "AEAD_Open m [] nonce ciphertext data = Ok plaintext" unfolding opn using s(1) \<open>n = length plaintext\<close> inv(1) by simp
  qed
qed

text \<open>C36. \<open>Open\<close> accepts exactly what \<open>Seal\<close> produces for the same nonce and associated
  data, and returns the message that was sealed: there is no second ciphertext for a message and
  no message for another ciphertext.\<close>

theorem ccm_open_iff_sealed:
  assumes "ccm_ok m" and "length nonce = cc_nonceSize m" and "cc_tagSize m < length ciphertext"
  shows "AEAD_Open m [] nonce ciphertext data = Ok plaintext \<longleftrightarrow>
    Seal m [] nonce plaintext data = Ok (Some ciphertext)"
  by (rule ccm_open_seal [OF assms])

definition demo_cipher :: block_cipher where
  "demo_cipher = \<lparr>bc_BlockSize = 16, bc_Encrypt = \<lambda>b. map (\<lambda>x. x XOR 0x5A) b\<rparr>"

definition demo_ccm :: ccm where
  "demo_ccm = \<lparr>cc_c = demo_cipher, cc_nonceSize = 11, cc_tagSize = 16\<rparr>"

lemma demo_ccm_ok: "ccm_ok demo_ccm"
  by (simp add: ccm_ok_def demo_ccm_def demo_cipher_def cipher_ok_def)

lemma ccm_open_iff_sealed_witness:
  "\<exists>c. Seal demo_ccm [] (replicate 11 7) [1, 2, 3] [9] = Ok (Some c) \<and>
     AEAD_Open demo_ccm [] (replicate 11 7) c [9] = Ok [1, 2, 3]"
proof -
  obtain c where c: "Seal demo_ccm [] (replicate 11 7) [1, 2, 3] [9] = Ok (Some c)" "length c = 19"
  proof -
    have "16 = length (getTag demo_ccm (ctr_start demo_ccm (replicate 11 7) 1) [9] [1, 2, 3])"
      by (subst getTag_cbc(2)) (simp_all add: demo_ccm_def demo_cipher_def cipher_ok_def length_ctr_start)
    moreover have "length (XORKeyStream demo_cipher (ctr_start demo_ccm (replicate 11 7) 1) [1, 2, 3]) = 3"
      by (subst length_XORKeyStream) (simp_all add: demo_cipher_def cipher_ok_def length_ctr_start)
    moreover have "length (bc_Encrypt demo_cipher (ctr_start demo_ccm (replicate 11 7) 0)) = 16"
      by (simp add: demo_cipher_def length_ctr_start)
    ultimately show thesis
      using that by (simp add: Seal_def demo_ccm_def maxUvarint_def Let_def)
  qed
  have "AEAD_Open demo_ccm [] (replicate 11 7) c [9] = Ok [1, 2, 3]"
    using ccm_open_iff_sealed [OF demo_ccm_ok, of "replicate 11 7" c "[9]" "[1, 2, 3]"] c by (simp add: demo_ccm_def)
  with c show ?thesis by blast
qed

section \<open>The interface of a session's cipher\<close>

text \<open>What a session asks of a \<open>cipher.AEAD\<close>: the size of its nonces and tags, and that \<open>Open\<close>
  undoes \<open>Seal\<close> on a message that is not empty.\<close>

locale aead =
  fixes nonce_size :: nat and limit :: nat
    and seal :: "bytes \<Rightarrow> bytes \<Rightarrow> bytes \<Rightarrow> (ccm_error, bytes option) outcome"
    and unseal :: "bytes \<Rightarrow> bytes \<Rightarrow> bytes \<Rightarrow> (ccm_error, bytes) outcome"
  assumes seal_length: "length nonce = nonce_size \<Longrightarrow> length p \<le> limit \<Longrightarrow>
      \<exists>c. seal nonce p ad = Ok (Some c) \<and> length c = length p + 16"
    and open_seal: "length nonce = nonce_size \<Longrightarrow> p \<noteq> [] \<Longrightarrow> seal nonce p ad = Ok (Some c) \<Longrightarrow> unseal nonce c ad = Ok p"
    and nonce_small: "nonce_size \<le> 16"

text \<open>A keyed AES is a function on 128-bit numbers; its blocks are their big-endian bytes. The
  server's CCM instances have nonces of 11 bytes and tags of 16.\<close>

type_synonym aes = "bytes \<Rightarrow> 128 word \<Rightarrow> 128 word"

definition aes_cipher :: "aes \<Rightarrow> bytes \<Rightarrow> block_cipher" where
  "aes_cipher aes key = \<lparr>bc_BlockSize = 16,
     bc_Encrypt = (\<lambda>b. be_bytes 16 (unat (aes key (of_nat (le_nat (rev b))))))\<rparr>"

lemma aes_cipher_ok: "cipher_ok (aes_cipher aes key)"
  by (simp add: cipher_ok_def aes_cipher_def)

definition session_ccm :: "aes \<Rightarrow> bytes \<Rightarrow> ccm" where
  "session_ccm aes key = \<lparr>cc_c = aes_cipher aes key, cc_nonceSize = 11, cc_tagSize = 16\<rparr>"

lemma session_ccm_new: "NewCCMWithNonceAndTagSizes (aes_cipher aes key) 11 16 = Inr (session_ccm aes key)"
  by (simp add: NewCCMWithNonceAndTagSizes_def aes_cipher_def session_ccm_def)

lemma session_ccm_ok: "ccm_ok (session_ccm aes key)"
  using NewCCM_ok [OF aes_cipher_ok session_ccm_new] by simp

lemma session_seal:
  assumes n: "length nonce = 11"
  shows "\<exists>c. length c = length p + 16 \<and> Seal (session_ccm aes key) [] nonce p ad =
    Ok (if 2 ^ 32 - 1 < length p then None else Some c)"
proof -
  let ?m = "session_ccm aes key"
  have lc: "length (ctr_start ?m nonce k) = 16" for k using n by (simp add: length_ctr_start)
  have "length (XORKeyStream (aes_cipher aes key) (ctr_start ?m nonce 1) p) = length p"
    by (rule length_XORKeyStream [OF aes_cipher_ok]) (simp add: lc aes_cipher_def)
  moreover have "length (getTag ?m (ctr_start ?m nonce 1) ad p) = 16"
    using getTag_cbc(2) [of ?m] lc aes_cipher_ok session_ccm_ok [of aes key] by (simp add: ccm_ok_def)
  moreover have "length (bc_Encrypt (aes_cipher aes key) (ctr_start ?m nonce 0)) = 16"
    by (simp add: aes_cipher_def)
  ultimately show ?thesis
    using n by (auto simp: Seal_def Let_def maxUvarint_def session_ccm_def intro: exI [of _ "replicate (length p + 16) 0"])
qed

interpretation ccm_session: aead 11 "2 ^ 32 - 1" "\<lambda>n p ad. Seal (session_ccm aes key) [] n p ad"
    "\<lambda>n c ad. AEAD_Open (session_ccm aes key) [] n c ad"
proof
  fix nonce p ad :: bytes
  assume n: "length nonce = 11"
  note sl = session_seal [OF n, of p aes key ad]
  show "\<exists>c. Seal (session_ccm aes key) [] nonce p ad = Ok (Some c) \<and> length c = length p + 16" if "length p \<le> 2 ^ 32 - 1"
    using sl that by auto
  fix c
  assume "p \<noteq> []" and s: "Seal (session_ccm aes key) [] nonce p ad = Ok (Some c)"
  then have "16 < length c" using sl by (auto split: if_splits)
  then show "AEAD_Open (session_ccm aes key) [] nonce c ad = Ok p"
    using ccm_open_seal [OF session_ccm_ok, of nonce aes key c ad p] n s by (simp add: session_ccm_def)
qed simp

end
