(* ===== verification/Session.thy ===== *)
theory Session
  imports Framing Ccm
begin

text \<open>
  A session's keys at work (src/server/session.go) and the key derivation (src/server/kdf.go).
  A \<open>hash.Hash\<close> that is reset before each use is the function from the bytes written to the sum;
  a \<open>cipher.AEAD\<close> is its three methods. Both may be nil: calling a nil interface panics.
\<close>

section \<open>Sessions\<close>

record aead_ops =
  ae_NonceSize :: nat
  ae_Seal :: "bytes \<Rightarrow> bytes \<Rightarrow> bytes \<Rightarrow> (ccm_error, bytes option) outcome"
  ae_Open :: "bytes \<Rightarrow> bytes \<Rightarrow> bytes \<Rightarrow> (ccm_error, bytes) outcome"

record session =
  se_sessionFlags :: u16
  se_sessionId :: u64
  se_preauth :: bytes
  se_signer :: "(bytes \<Rightarrow> bytes) option"
  se_verifier :: "(bytes \<Rightarrow> bytes) option"
  se_encrypter :: "aead_ops option"
  se_decrypter :: "aead_ops option"

section \<open>Signing\<close>

definition sign :: "session \<Rightarrow> bytes \<Rightarrow> bytes option" where
  "sign s pkt =
     do { fl \<leftarrow> PacketCodec_Flags (of_bytes pkt);
          pkt \<leftarrow> PacketCodec_SetFlags (fl OR SMB2_FLAGS_SIGNED) pkt;
          h \<leftarrow> se_signer s;
          PacketCodec_SetSignature (h pkt) pkt }"

text \<open>A setter on a received slice writes into its array.\<close>

fun on_array :: "(bytes \<Rightarrow> bytes option) \<Rightarrow> slice \<Rightarrow> slice option" where
  "on_array f (Slice xs n) = map_option (\<lambda>t. Slice t n) (f xs)"

text \<open>\<open>verify\<close> leaves the computed signature in the packet.\<close>

definition verify :: "session \<Rightarrow> slice \<Rightarrow> (bool \<times> slice) option" where
  "verify s pkt =
     do { sg \<leftarrow> PacketCodec_Signature pkt;
          pkt \<leftarrow> on_array (PacketCodec_SetSignature (replicate 16 0)) pkt;
          h \<leftarrow> se_verifier s;
          pkt \<leftarrow> on_array (PacketCodec_SetSignature (h (sbytes pkt))) pkt;
          sg2 \<leftarrow> PacketCodec_Signature pkt;
          Some (sbytes sg = sbytes sg2, pkt) }"

text \<open>The packet with its signature field cleared, and the code's verdict on the original.\<close>

definition unsigned_packet :: "bytes \<Rightarrow> bytes" where
  "unsigned_packet p = copy_at 48 (replicate 16 0) p"

lemma SetSignature_copy:
  "64 \<le> length p \<Longrightarrow> 16 \<le> length m \<Longrightarrow> PacketCodec_SetSignature m p = Some (copy_at 48 (take 16 m) p)"
  by (simp add: PacketCodec_SetSignature_def at_range_def copy_from_def copy_at_def window_def)

lemma verify_iff:
  assumes "64 \<le> n" and "n \<le> length xs" and "se_verifier s = Some h" and "\<And>b. 16 \<le> length (h b)"
  shows "\<exists>p. verify s (Slice xs n) =
    Some (window 48 16 xs = take 16 (h (unsigned_packet (take n xs))), p)"
proof -
  let ?z = "copy_at 48 (replicate 16 0) xs"
  have l: "64 \<le> length xs" using assms(1,2) by simp
  have t: "take n ?z = unsigned_packet (take n xs)"
    using assms(1,2) by (simp add: unsigned_packet_def copy_at_def min_def take_drop)
  let ?y = "copy_at 48 (take 16 (h (unsigned_packet (take n xs)))) ?z"
  have w: "window 48 16 ?y = take 16 (h (unsigned_packet (take n xs)))"
    by (rule window_copy_at_same) (use l assms(4) in simp_all)
  have "on_array (PacketCodec_SetSignature (replicate 16 0)) (Slice xs n) = Some (Slice ?z n)"
    using SetSignature_copy [OF l, of "replicate 16 0"] by simp
  moreover have "on_array (PacketCodec_SetSignature (h (sbytes (Slice ?z n)))) (Slice ?z n) = Some (Slice ?y n)"
    using SetSignature_copy [of ?z "h (unsigned_packet (take n xs))"] l t assms(4) by simp
  moreover have "PacketCodec_Signature (Slice xs n) = Some (Slice (drop 48 xs) 16)"
    "PacketCodec_Signature (Slice ?y n) = Some (Slice (drop 48 ?y) 16)"
    using l by (simp_all add: PacketCodec_Signature_def)
  ultimately show ?thesis
    using assms(3) w by (simp add: verify_def window_def)
qed

lemma unsigned_sign: "64 \<le> length p \<Longrightarrow> window 48 16 p = replicate 16 0 \<Longrightarrow> length m = 16 \<Longrightarrow>
    unsigned_packet (copy_at 48 m p) = p"
proof -
  assume p: "64 \<le> length p" "window 48 16 p = replicate 16 0" "length m = 16"
  have "unsigned_packet (copy_at 48 m p) = take 48 p @ replicate 16 0 @ drop 64 p"
    using p by (simp add: unsigned_packet_def copy_at_def)
  also have "\<dots> = take 48 p @ take 16 (drop 48 p) @ drop 64 p" using p(2) by (simp add: window_def)
  also have "\<dots> = p" using append_take_drop_id [of 16 "drop 48 p"] by simp
  finally show ?thesis .
qed

lemma sign_verify:
  assumes "64 \<le> length p" and "window 48 16 p = replicate 16 0" and "se_signer s = Some h"
    and "se_verifier r = Some h" and "\<And>b. 16 \<le> length (h b)"
  shows "\<exists>q q'. sign s p = Some q \<and> length q = length p \<and> drop 64 q = drop 64 p \<and>
    verify r (of_bytes q) = Some (True, q')"
proof -
  define fl where "fl = le_bytes 4 (unat (of_nat (le_nat (window 16 4 p)) OR SMB2_FLAGS_SIGNED :: u32))"
  let ?f = "copy_at 16 fl p"
  have l: "length fl = 4" by (simp add: fl_def)
  have z: "window 48 16 ?f = replicate 16 0"
    using window_after [of 16 fl 48 16 p] l assms(2) by simp
  let ?q = "copy_at 48 (take 16 (h ?f)) ?f"
  have s: "sign s p = Some ?q"
    using assms SetSignature_copy [of ?f "h ?f"]
    by (simp add: sign_def PacketCodec_Flags_def PacketCodec_SetFlags_def of_bytes_def get_eqs put32_def fl_def)
  have lm: "length (take 16 (h ?f)) = 16" using assms(5) [of ?f] by simp
  have "unsigned_packet ?q = ?f" by (rule unsigned_sign) (use assms z lm in simp_all)
  moreover have "window 48 16 ?q = take 16 (h ?f)"
    by (rule window_copy_at_same) (use assms(1) lm in simp_all)
  ultimately have "\<exists>q'. verify r (of_bytes ?q) = Some (True, q')"
    using verify_iff [of "length ?q" ?q r h] assms by (simp add: of_bytes_def)
  moreover have "drop 64 ?q = drop 64 p" using l lm assms(1) by (simp add: drop_copy_at)
  ultimately show ?thesis using s by auto
qed

section \<open>Encryption\<close>

text \<open>\<open>append\<close> within the capacity of \<open>c\<close> writes in place.\<close>

definition Encrypted :: u16 where "Encrypted = 1"

definition encrypt :: "session \<Rightarrow> bytes \<Rightarrow> bytes \<Rightarrow> (ccm_error, bytes) outcome" where
  "encrypt s nonce pkt =
     (case se_encrypter s of
        None \<Rightarrow> Panic
      | Some e \<Rightarrow>
          (case seqw [TransformCodec_SetProtocolId, TransformCodec_SetNonce nonce,
                  TransformCodec_SetOriginalMessageSize (of_nat (length pkt)), TransformCodec_SetFlags Encrypted,
                  TransformCodec_SetSessionId (se_sessionId s)] (replicate (52 + length pkt + 16) 0) of
             None \<Rightarrow> Panic
           | Some c \<Rightarrow>
               (case ae_Seal e nonce pkt (window 20 32 c) of
                  Ok sealed \<Rightarrow>
                    (let c1 = (case sealed of None \<Rightarrow> c
                               | Some x \<Rightarrow> if length x \<le> length pkt + 16 then copy_at 52 x c else c)
                     in case TransformCodec_SetSignature (drop (length c1 - 16) c1) c1 of
                          None \<Rightarrow> Panic
                        | Some c2 \<Rightarrow> Ok (take (length c2 - 16) c2))
                | Err er \<Rightarrow> Err er | Panic \<Rightarrow> Panic | Deadlock \<Rightarrow> Deadlock)))"

definition decrypt :: "session \<Rightarrow> slice \<Rightarrow> (ccm_error, bytes) outcome" where
  "decrypt s pkt =
     (case do { d \<leftarrow> TransformCodec_EncryptedData pkt; sg \<leftarrow> TransformCodec_Signature pkt;
                e \<leftarrow> se_decrypter s; n \<leftarrow> TransformCodec_Nonce pkt; n \<leftarrow> ssub 0 (ae_NonceSize e) n;
                ad \<leftarrow> TransformCodec_AssociatedData pkt;
                Some (ae_Open e (sbytes n) (sbytes d @ sbytes sg) (sbytes ad)) } of
        None \<Rightarrow> Panic | Some r \<Rightarrow> r)"

text \<open>The header \<open>encrypt\<close> writes, with a place for the signature.\<close>

definition transform_header :: "bytes \<Rightarrow> nat \<Rightarrow> u64 \<Rightarrow> bytes \<Rightarrow> bytes" where
  "transform_header sg n sid nonce = MAGIC2 @ sg @ (nonce @ replicate (16 - length nonce) 0) @
     le_bytes 4 (unat (of_nat n :: u32)) @ [0, 0, 1, 0] @ le_bytes 8 (unat sid)"

lemma length_transform_header: "length sg = 16 \<Longrightarrow> length nonce \<le> 16 \<Longrightarrow> length (transform_header sg n sid nonce) = 52"
  by (simp add: transform_header_def MAGIC2_def)

lemma copy_at_zeros: "k = length xs \<Longrightarrow> copy_at a xs (pre @ replicate n 0) = pre @ xs @ replicate (n - k) 0"
  if "a = length pre" "k \<le> n" for n :: nat
  using that by (simp add: copy_at_def)

lemma encrypt_header:
  assumes "length nonce \<le> 16"
  shows "seqw [TransformCodec_SetProtocolId, TransformCodec_SetNonce nonce,
      TransformCodec_SetOriginalMessageSize (of_nat n), TransformCodec_SetFlags Encrypted,
      TransformCodec_SetSessionId sid] (replicate (52 + n + 16) 0) =
    Some (transform_header (replicate 16 0) n sid nonce @ replicate (n + 16) 0)"
proof -
  let ?N = "52 + n + 16"
  have p1: "TransformCodec_SetProtocolId (replicate ?N 0) = Some (MAGIC2 @ replicate (n + 64) 0)"
    by (simp add: TransformCodec_SetProtocolId_def at_range_def copy_from_def window_def copy_at_def MAGIC2_def replicate_add [symmetric])
  let ?p1 = "MAGIC2 @ replicate (n + 64) (0 :: u8)"
  let ?nn = "nonce @ replicate (16 - length nonce) (0 :: u8)"
  have m: "length MAGIC2 = 4" by (simp add: MAGIC2_def)
  have z: "(replicate (k + j) (0 :: u8)) = replicate k 0 @ replicate j 0" for k j by (simp add: replicate_add)
  have p2: "TransformCodec_SetNonce nonce ?p1 = Some (MAGIC2 @ replicate 16 0 @ ?nn @ replicate (n + 32) 0)"
    using assms m by (simp add: TransformCodec_SetNonce_def at_range_def copy_from_def window_def copy_at_def replicate_add [symmetric] min_def)
  let ?p2 = "(MAGIC2 @ replicate 16 0 @ ?nn) @ replicate (n + 32) 0"
  have l2: "length (MAGIC2 @ replicate 16 0 @ ?nn) = 36" using assms m by simp
  have p3: "TransformCodec_SetOriginalMessageSize (of_nat n) ?p2 =
      Some ((MAGIC2 @ replicate 16 0 @ ?nn) @ le_bytes 4 (unat (of_nat n :: u32)) @ replicate (n + 28) 0)"
    using copy_at_zeros [of 36 "MAGIC2 @ replicate 16 0 @ ?nn" 4 "n + 32" "le_bytes 4 (unat (of_nat n :: u32))"] l2
    by (simp add: TransformCodec_SetOriginalMessageSize_def put32_def)
  let ?h3 = "(MAGIC2 @ replicate 16 0 @ ?nn) @ le_bytes 4 (unat (of_nat n :: u32))"
  let ?h4 = "?h3 @ [0, 0]"
  have e: "le_bytes 2 (unat Encrypted) = [1, 0]" by code_simp
  have p4: "TransformCodec_SetFlags Encrypted (?h4 @ replicate (n + 26) 0) = Some (?h4 @ [1, 0] @ replicate (n + 24) 0)"
    using copy_at_zeros [of 42 ?h4 2 "n + 26" "[1, 0]"] l2 e by (simp add: TransformCodec_SetFlags_def put16_def)
  let ?h5 = "?h4 @ [1, 0]"
  have p5: "TransformCodec_SetSessionId sid (?h5 @ replicate (n + 24) 0) =
      Some (?h5 @ le_bytes 8 (unat sid) @ replicate (n + 16) 0)"
    using copy_at_zeros [of 44 ?h5 8 "n + 24" "le_bytes 8 (unat sid)"] l2 by (simp add: TransformCodec_SetSessionId_def put64_def)
  have j: "?h3 @ replicate (n + 28) 0 = ?h4 @ replicate (n + 26) 0"
    using replicate_add [of 2 "n + 26" "0 :: u8"] by (simp add: numeral_2_eq_2 add.commute)
  show ?thesis
    using p1 p2 p3 p4 p5 unfolding j [symmetric] by (simp add: transform_header_def)
qed

text \<open>Reading a transform header.\<close>

lemma transform_reads:
  assumes "length sg = 16" and "length nonce \<le> 16" and t_def: "t = of_bytes (transform_header sg n sid nonce @ ct)"
  shows "TransformCodec_IsInvalid t = Some False" and "TransformCodec_Flags t = Some Encrypted"
    and "TransformCodec_SessionId t = Some sid"
    and "map_option sbytes (TransformCodec_EncryptedData t) = Some ct"
    and "map_option sbytes (TransformCodec_Signature t) = Some sg"
    and "k \<le> length nonce \<Longrightarrow> \<exists>u s. TransformCodec_Nonce t = Some u \<and> ssub 0 k u = Some s \<and> sbytes s = take k nonce"
    and "map_option sbytes (TransformCodec_AssociatedData t) =
      Some (window 20 32 (transform_header (replicate 16 0) n sid nonce))"
proof -
  let ?h = "transform_header sg n sid nonce"
  have l: "length ?h = 52" by (rule length_transform_header [OF assms(1,2)])
  have m: "length MAGIC2 = 4" by (simp add: MAGIC2_def)
  show "TransformCodec_IsInvalid t = Some False"
    using l by (simp add: t_def of_bytes_def TransformCodec_IsInvalid_def TransformCodec_ProtocolId_def)
      (simp add: transform_header_def MAGIC2_def)
  have "window 42 2 (?h @ ct) = [1, 0]"
    using assms by (simp add: transform_header_def MAGIC2_def window_def)
  moreover have "(of_nat (le_nat [1, 0]) :: u16) = Encrypted" by code_simp
  ultimately show "TransformCodec_Flags t = Some Encrypted"
    using l by (simp add: t_def of_bytes_def TransformCodec_Flags_def get_eqs)
  have "window 44 8 (?h @ ct) = le_bytes 8 (unat sid)"
    using assms by (simp add: transform_header_def MAGIC2_def window_def)
  then show "TransformCodec_SessionId t = Some sid"
    using l by (simp add: t_def of_bytes_def TransformCodec_SessionId_def get_eqs of_nat_le_word)
  show "map_option sbytes (TransformCodec_EncryptedData t) = Some ct"
    using l by (simp add: t_def of_bytes_def TransformCodec_EncryptedData_def)
  show "map_option sbytes (TransformCodec_Signature t) = Some sg"
    using l assms(1) by (simp add: t_def of_bytes_def TransformCodec_Signature_def) (simp add: transform_header_def m)
  show "\<exists>u s. TransformCodec_Nonce t = Some u \<and> ssub 0 k u = Some s \<and> sbytes s = take k nonce" if "k \<le> length nonce"
    using that l assms by (simp add: t_def of_bytes_def TransformCodec_Nonce_def) (simp add: transform_header_def m)
  show "map_option sbytes (TransformCodec_AssociatedData t) = Some (window 20 32 (transform_header (replicate 16 0) n sid nonce))"
    using l assms(1,2) length_transform_header [of "replicate 16 0" nonce]
    by (simp add: t_def of_bytes_def TransformCodec_AssociatedData_def window_def) (simp add: transform_header_def m)
qed

context aead
begin

lemma decrypt_encrypt:
  assumes "length nonce = nonce_size" and "pkt \<noteq> []" and "length pkt \<le> limit"
    and "se_encrypter s = Some \<lparr>ae_NonceSize = nonce_size, ae_Seal = seal, ae_Open = o1\<rparr>"
    and "se_decrypter r = Some \<lparr>ae_NonceSize = nonce_size, ae_Seal = s1, ae_Open = unseal\<rparr>"
  shows "\<exists>c. encrypt s nonce pkt = Ok c \<and> TransformCodec_IsInvalid (of_bytes c) = Some False \<and>
    TransformCodec_Flags (of_bytes c) = Some Encrypted \<and>
    TransformCodec_SessionId (of_bytes c) = Some (se_sessionId s) \<and> decrypt r (of_bytes c) = Ok pkt"
proof -
  let ?h = "\<lambda>sg. transform_header sg (length pkt) (se_sessionId s) nonce"
  let ?z = "?h (replicate 16 0)"
  have ln: "length nonce \<le> 16" using assms(1) nonce_small by simp
  have lz: "length ?z = 52" using length_transform_header ln by simp
  obtain x where x: "seal nonce pkt (window 20 32 ?z) = Ok (Some x)" "length x = length pkt + 16"
    using seal_length [OF assms(1,3)] by blast
  define sg where "sg = drop (length pkt) x"
  have lsg: "length sg = 16" using x(2) by (simp add: sg_def)
  have w: "window 20 32 (?z @ replicate (length pkt + 16) 0) = window 20 32 ?z" using lz by (simp add: window_def)
  have c1: "copy_at 52 x (?z @ replicate (length pkt + 16) 0) = ?z @ x" using lz x(2) by (simp add: copy_at_def)
  have sig: "TransformCodec_SetSignature sg (?z @ x) = Some (?h sg @ x)"
    using lsg by (simp add: TransformCodec_SetSignature_def at_range_def copy_from_def window_def copy_at_def
        transform_header_def MAGIC2_def)
  have "drop (length (?z @ x) - 16) (?z @ x) = sg" using lz x(2) by (simp add: sg_def)
  then have e: "encrypt s nonce pkt = Ok (?h sg @ take (length pkt) x)"
    using assms(4) encrypt_header [OF ln, of "length pkt" "se_sessionId s"] w x c1 sig lsg ln length_transform_header [of sg nonce]
    by (simp add: encrypt_def Let_def)
  note rd = transform_reads [OF lsg ln refl, where n = "length pkt" and sid = "se_sessionId s" and ct = "take (length pkt) x"]
  have "take (length pkt) x @ sg = x" by (simp add: sg_def)
  then have "decrypt r (of_bytes (?h sg @ take (length pkt) x)) = unseal nonce x (window 20 32 ?z)"
    using rd(4,5,7) rd(6) [where k = nonce_size] assms(1,5) by (auto simp: decrypt_def)
  also have "\<dots> = Ok pkt" by (rule open_seal [OF assms(1,2) x(1)])
  finally show ?thesis using e rd(1-3) by blast
qed

end

section \<open>Key derivation\<close>

text \<open>\<open>hmac\<close> is HMAC-SHA256 of the standard library.\<close>

definition kdf :: "(bytes \<Rightarrow> bytes \<Rightarrow> bytes) \<Rightarrow> bytes \<Rightarrow> bytes \<Rightarrow> bytes \<Rightarrow> bytes" where
  "kdf hmac ki label context1 =
     take 16 (hmac ki ([0, 0, 0, 1] @ label @ [0] @ context1 @ [0, 0, 0, 0x80]))"

definition ccm_ops :: "aes \<Rightarrow> bytes \<Rightarrow> aead_ops" where
  "ccm_ops aes key = \<lparr>ae_NonceSize = 11, ae_Seal = (\<lambda>n p ad. Seal (session_ccm aes key) [] n p ad),
     ae_Open = (\<lambda>n c ad. AEAD_Open (session_ccm aes key) [] n c ad)\<rparr>"

text \<open>C38. Encrypted transport: with CCM keys that match, what one end encrypts under a transform
  header is accepted by the other, names the session, and decrypts to the packet.\<close>

theorem session_decrypts_encrypted:
  assumes "length nonce = 11" and "pkt \<noteq> []" and "length pkt < 2 ^ 32"
    and "se_encrypter s = Some (ccm_ops aes key)" and "se_decrypter r = Some (ccm_ops aes key)"
  shows "\<exists>c. encrypt s nonce pkt = Ok c \<and> TransformCodec_IsInvalid (of_bytes c) = Some False \<and>
    TransformCodec_Flags (of_bytes c) = Some Encrypted \<and>
    TransformCodec_SessionId (of_bytes c) = Some (se_sessionId s) \<and> decrypt r (of_bytes c) = Ok pkt"
  by (rule ccm_session.decrypt_encrypt [where aes = aes and key = key])
    (use assms in \<open>simp_all add: ccm_ops_def\<close>)

definition demo_session :: session where
  "demo_session = \<lparr>se_sessionFlags = 0, se_sessionId = 5, se_preauth = replicate 64 0,
     se_signer = Some (\<lambda>b. replicate 16 (of_nat (length b))), se_verifier = Some (\<lambda>b. replicate 16 (of_nat (length b))),
     se_encrypter = Some (ccm_ops (\<lambda>k b. b XOR of_nat (le_nat k)) [7]),
     se_decrypter = Some (ccm_ops (\<lambda>k b. b XOR of_nat (le_nat k)) [7])\<rparr>"

lemma session_decrypts_encrypted_witness:
  "\<exists>c. encrypt demo_session (replicate 11 1) [0xFE, 0x53, 0x4D, 0x42] = Ok c \<and>
     TransformCodec_SessionId (of_bytes c) = Some 5 \<and>
     decrypt demo_session (of_bytes c) = Ok [0xFE, 0x53, 0x4D, 0x42]"
  using session_decrypts_encrypted [of "replicate 11 1" "[0xFE, 0x53, 0x4D, 0x42]" demo_session
    "\<lambda>k b. b XOR of_nat (le_nat k)" "[7]" demo_session]
  by (auto simp: demo_session_def)

end
