(* ===== verification/ServerConn.thy ===== *)
theory ServerConn
  imports Session Acl
begin

text \<open>
  A connection as the request handlers see it: its record and the session and tree it points to
  (src/server/conn.go, tree.go, server.go, errors.go), the acceptance of a packet, and how a
  response is numbered, signed or encrypted, chained and written (\<open>encodePacket\<close>,
  \<open>sendPacket\<close>). A function that can panic returns an option; a Go error is a value of
  \<open>srv_error\<close>, its message left out. The socket takes what is written to it; the random and the
  hash functions of the Go library are parameters.
\<close>

section \<open>Errors\<close>

datatype srv_error =
    TransportError | InternalError | InvalidResponseError | ResponseError u32
  | InvalidRequestError | ErrExist | ErrNotExist | ErrPermission | NeverReturns

section \<open>The packets the server sends\<close>

text \<open>\<open>Packet\<close> of request.go: a header and the methods of \<open>Encoder\<close>.\<close>

datatype packet =
    ErrorPacket ErrorResponse | NegotiatePacket NegotiateResponse | SessionSetupPacket SessionSetupResponse
  | LogoffPacket LogoffResponse | TreeConnectPacket TreeConnectResponse
  | TreeDisconnectPacket TreeDisconnectResponse | CreatePacket CreateResponse | ClosePacket CloseResponse
  | FlushPacket FlushResponse | ReadPacket ReadResponse | WritePacket WriteResponse | LockPacket LockResponse
  | EchoPacket EchoResponse | IoctlPacket IoctlResponse | QueryDirectoryPacket QueryDirectoryResponse
  | QueryInfoPacket QueryInfoResponse | SetInfoPacket SetInfoResponse

fun packet_Header :: "packet \<Rightarrow> PacketHeader" where
  "packet_Header (ErrorPacket r) = er_Header r"
| "packet_Header (NegotiatePacket r) = nr_Header r"
| "packet_Header (SessionSetupPacket r) = sr_Header r"
| "packet_Header (LogoffPacket r) = lr_Header r"
| "packet_Header (TreeConnectPacket r) = tr_Header r"
| "packet_Header (TreeDisconnectPacket r) = dr_Header r"
| "packet_Header (CreatePacket r) = cp_Header r"
| "packet_Header (ClosePacket r) = cs_Header r"
| "packet_Header (FlushPacket r) = fr_Header r"
| "packet_Header (ReadPacket r) = rr_Header r"
| "packet_Header (WritePacket r) = wp_Header r"
| "packet_Header (LockPacket r) = kr_Header r"
| "packet_Header (EchoPacket r) = hr_Header r"
| "packet_Header (IoctlPacket r) = ip_Header r"
| "packet_Header (QueryDirectoryPacket r) = qr_Header r"
| "packet_Header (QueryInfoPacket r) = qp_Header r"
| "packet_Header (SetInfoPacket r) = sp_Header r"

text \<open>The callers change the header through the pointer \<open>Header\<close> returns.\<close>

fun with_Header :: "PacketHeader \<Rightarrow> packet \<Rightarrow> packet" where
  "with_Header h (ErrorPacket r) = ErrorPacket (r\<lparr>er_Header := h\<rparr>)"
| "with_Header h (NegotiatePacket r) = NegotiatePacket (r\<lparr>nr_Header := h\<rparr>)"
| "with_Header h (SessionSetupPacket r) = SessionSetupPacket (r\<lparr>sr_Header := h\<rparr>)"
| "with_Header h (LogoffPacket r) = LogoffPacket (r\<lparr>lr_Header := h\<rparr>)"
| "with_Header h (TreeConnectPacket r) = TreeConnectPacket (r\<lparr>tr_Header := h\<rparr>)"
| "with_Header h (TreeDisconnectPacket r) = TreeDisconnectPacket (r\<lparr>dr_Header := h\<rparr>)"
| "with_Header h (CreatePacket r) = CreatePacket (r\<lparr>cp_Header := h\<rparr>)"
| "with_Header h (ClosePacket r) = ClosePacket (r\<lparr>cs_Header := h\<rparr>)"
| "with_Header h (FlushPacket r) = FlushPacket (r\<lparr>fr_Header := h\<rparr>)"
| "with_Header h (ReadPacket r) = ReadPacket (r\<lparr>rr_Header := h\<rparr>)"
| "with_Header h (WritePacket r) = WritePacket (r\<lparr>wp_Header := h\<rparr>)"
| "with_Header h (LockPacket r) = LockPacket (r\<lparr>kr_Header := h\<rparr>)"
| "with_Header h (EchoPacket r) = EchoPacket (r\<lparr>hr_Header := h\<rparr>)"
| "with_Header h (IoctlPacket r) = IoctlPacket (r\<lparr>ip_Header := h\<rparr>)"
| "with_Header h (QueryDirectoryPacket r) = QueryDirectoryPacket (r\<lparr>qr_Header := h\<rparr>)"
| "with_Header h (QueryInfoPacket r) = QueryInfoPacket (r\<lparr>qp_Header := h\<rparr>)"
| "with_Header h (SetInfoPacket r) = SetInfoPacket (r\<lparr>sp_Header := h\<rparr>)"

fun packet_Size :: "packet \<Rightarrow> nat option" where
  "packet_Size (ErrorPacket r) = ErrorResponse_Size r"
| "packet_Size (NegotiatePacket r) = Some (NegotiateResponse_Size r)"
| "packet_Size (SessionSetupPacket r) = Some (SessionSetupResponse_Size r)"
| "packet_Size (LogoffPacket r) = Some (LogoffResponse_Size r)"
| "packet_Size (TreeConnectPacket r) = Some (TreeConnectResponse_Size r)"
| "packet_Size (TreeDisconnectPacket r) = Some (TreeDisconnectResponse_Size r)"
| "packet_Size (CreatePacket r) = Some (CreateResponse_Size r)"
| "packet_Size (ClosePacket r) = Some (CloseResponse_Size r)"
| "packet_Size (FlushPacket r) = Some (FlushResponse_Size r)"
| "packet_Size (ReadPacket r) = Some (ReadResponse_Size r)"
| "packet_Size (WritePacket r) = Some (WriteResponse_Size r)"
| "packet_Size (LockPacket r) = Some (LockResponse_Size r)"
| "packet_Size (EchoPacket r) = Some (EchoResponse_Size r)"
| "packet_Size (IoctlPacket r) = Some (IoctlResponse_Size r)"
| "packet_Size (QueryDirectoryPacket r) = Some (QueryDirectoryResponse_Size r)"
| "packet_Size (QueryInfoPacket r) = Some (QueryInfoResponse_Size r)"
| "packet_Size (SetInfoPacket r) = Some (SetInfoResponse_Size r)"

fun packet_Encode :: "packet \<Rightarrow> bytes \<Rightarrow> bytes option" where
  "packet_Encode (ErrorPacket r) = ErrorResponse_Encode r"
| "packet_Encode (NegotiatePacket r) = NegotiateResponse_Encode r"
| "packet_Encode (SessionSetupPacket r) = SessionSetupResponse_Encode r"
| "packet_Encode (LogoffPacket r) = LogoffResponse_Encode r"
| "packet_Encode (TreeConnectPacket r) = TreeConnectResponse_Encode r"
| "packet_Encode (TreeDisconnectPacket r) = TreeDisconnectResponse_Encode r"
| "packet_Encode (CreatePacket r) = CreateResponse_Encode r"
| "packet_Encode (ClosePacket r) = CloseResponse_Encode r"
| "packet_Encode (FlushPacket r) = FlushResponse_Encode r"
| "packet_Encode (ReadPacket r) = ReadResponse_Encode r"
| "packet_Encode (WritePacket r) = WriteResponse_Encode r"
| "packet_Encode (LockPacket r) = LockResponse_Encode r"
| "packet_Encode (EchoPacket r) = EchoResponse_Encode r"
| "packet_Encode (IoctlPacket r) = IoctlResponse_Encode r"
| "packet_Encode (QueryDirectoryPacket r) = QueryDirectoryResponse_Encode r"
| "packet_Encode (QueryInfoPacket r) = QueryInfoResponse_Encode r"
| "packet_Encode (SetInfoPacket r) = SetInfoResponse_Encode r"

lemma packet_Header_with [simp]: "packet_Header (with_Header h r) = h"
  by (cases r) simp_all

section \<open>Connections and trees\<close>

datatype ConnState = STATE_NEGOTIATE | STATE_SESSION_SETUP | STATE_SESSION_SETUP_CHALLENGE | STATE_SESSION_ACTIVE

text \<open>What the code takes from Go's library: SHA-512, HMAC-SHA-256, AES, GCM.\<close>

record library =
  lb_sha512 :: "bytes \<Rightarrow> bytes"
  lb_hmac :: "bytes \<Rightarrow> bytes \<Rightarrow> bytes"
  lb_aes :: aes
  lb_gcm :: "bytes \<Rightarrow> aead_ops"

text \<open>Of the record in conn.go, the channels and the goroutines' plumbing are left out:
  \<open>cn_written\<close> is what went to the socket, \<open>cn_random\<close> the bytes the random sources give next.
  The maps of trees belong to the theory of the connection's own requests.\<close>

record conn =
  cn_session :: "session option"
  cn_sequenceWindow :: u64
  cn_dialect :: u16
  cn_maxTransactSize :: u32
  cn_maxReadSize :: u32
  cn_maxWriteSize :: u32
  cn_requireSigning :: bool
  cn_capabilities :: u32
  cn_preauthIntegrityHashId :: u16
  cn_preauthIntegrityHashValue :: bytes
  cn_cipherId :: u16
  cn_hashId :: u16
  cn_account :: account
  cn_username :: string
  cn_useSession :: bool
  cn_serverState :: ConnState
  cn_written :: "bytes list"
  cn_random :: "nat \<Rightarrow> u8"

definition useSession :: "conn \<Rightarrow> bool" where "useSession c = cn_useSession c"

definition enableSession :: "conn \<Rightarrow> conn" where "enableSession c = c\<lparr>cn_useSession := True\<rparr>"

definition resetSession :: "conn \<Rightarrow> conn" where "resetSession c = c\<lparr>cn_useSession := False\<rparr>"

definition rand_Read :: "nat \<Rightarrow> conn \<Rightarrow> bytes \<times> conn" where
  "rand_Read n c = (map (cn_random c) [0..<n], c\<lparr>cn_random := (\<lambda>i. cn_random c (n + i))\<rparr>)"

definition randint32 :: "conn \<Rightarrow> u32 \<times> conn" where
  "randint32 c = (let (b, c) = rand_Read 4 c in (of_nat (le_nat b), c))"

definition randint64 :: "conn \<Rightarrow> u64 \<times> conn" where
  "randint64 c = (let (b, c) = rand_Read 8 c in (of_nat (le_nat b), c))"

record treeConn =
  tc_session :: "session option"
  tc_treeId :: u32
  tc_shareFlags :: u32
  tc_path :: string

definition SMB2_SESSION_FLAG_IS_GUEST :: u16 where "SMB2_SESSION_FLAG_IS_GUEST = 1"
definition SMB2_SESSION_FLAG_IS_NULL :: u16 where "SMB2_SESSION_FLAG_IS_NULL = 2"
definition SMB2_SESSION_FLAG_ENCRYPT_DATA :: u16 where "SMB2_SESSION_FLAG_ENCRYPT_DATA = 4"
definition SMB2_SHAREFLAG_ENCRYPT_DATA :: u32 where "SMB2_SHAREFLAG_ENCRYPT_DATA = 0x8000"
definition SHA512 :: u16 where "SHA512 = 1"

definition STATUS_OBJECT_PATH_NOT_FOUND :: u32 where "STATUS_OBJECT_PATH_NOT_FOUND = 0xC000003A"
definition STATUS_CANNOT_DELETE :: u32 where "STATUS_CANNOT_DELETE = 0xC0000121"
definition STATUS_BUFFER_OVERFLOW :: u32 where "STATUS_BUFFER_OVERFLOW = 0x80000005"
definition STATUS_NOTIFY_ENUM_DIR :: u32 where "STATUS_NOTIFY_ENUM_DIR = 0x10C"

section \<open>Accepting a packet\<close>

text \<open>The rest of \<open>acceptError\<close>'s loop over the error contexts, \<open>n\<close> of them left.\<close>

fun error_contexts :: "nat \<Rightarrow> slice \<Rightarrow> u32 \<Rightarrow> srv_error option" where
  "error_contexts 0 eData status = Some (ResponseError status)"
| "error_contexts (Suc n) eData status =
     do { bad \<leftarrow> ErrorContextResponseDecoder_IsInvalid eData;
          if bad then Some InvalidResponseError
          else do { _ \<leftarrow> ErrorContextResponseDecoder_ErrorContextData eData;
                    nxt \<leftarrow> ErrorContextResponseDecoder_Next eData;
                    if int (slen eData) < nxt then Some InvalidResponseError
                    else if nxt < 0 then None
                    else do { eData \<leftarrow> sfrom (nat nxt) eData; error_contexts n eData status } } }"

definition acceptError :: "u32 \<Rightarrow> slice \<Rightarrow> srv_error option" where
  "acceptError status res =
     do { bad \<leftarrow> ErrorResponseDecoder_IsInvalid res;
          if bad then Some InvalidResponseError
          else do { eData \<leftarrow> ErrorResponseDecoder_ErrorData res;
                    count \<leftarrow> ErrorResponseDecoder_ErrorContextCount res;
                    error_contexts (unat count) eData status } }"

text \<open>The data and the error, either of which the callers may ignore; no data is the nil slice.\<close>

definition accept :: "u16 \<Rightarrow> slice \<Rightarrow> (slice \<times> srv_error option) option" where
  "accept cmd pkt =
     do { command \<leftarrow> PacketCodec_Command pkt;
          if cmd \<noteq> command then Some (nil_slice, Some InvalidResponseError)
          else do { fl \<leftarrow> PacketCodec_Flags pkt;
          if fl AND SMB2_FLAGS_SERVER_TO_REDIR = 0
          then do { d \<leftarrow> PacketCodec_Data pkt; Some (d, None) }
          else do { status \<leftarrow> PacketCodec_Status pkt;
          if status = 0 then do { d \<leftarrow> PacketCodec_Data pkt; Some (d, None) }
          else if status = STATUS_OBJECT_NAME_COLLISION then Some (nil_slice, Some ErrExist)
          else if status = STATUS_OBJECT_NAME_NOT_FOUND \<or> status = STATUS_OBJECT_PATH_NOT_FOUND
          then Some (nil_slice, Some ErrNotExist)
          else if status = STATUS_ACCESS_DENIED \<or> status = STATUS_CANNOT_DELETE
          then Some (nil_slice, Some ErrPermission)
          else if cmd = SMB2_SESSION_SETUP \<and> status = STATUS_MORE_PROCESSING_REQUIRED
          then do { d \<leftarrow> PacketCodec_Data pkt; Some (d, None) }
          else if (cmd = SMB2_QUERY_INFO \<or> cmd = SMB2_READ) \<and> status = STATUS_BUFFER_OVERFLOW
            \<or> cmd = SMB2_CHANGE_NOTIFY \<and> status = STATUS_NOTIFY_ENUM_DIR
          then Some (nil_slice, Some (ResponseError status))
          else do { d \<leftarrow> PacketCodec_Data pkt;
          ioctl \<leftarrow> (if cmd = SMB2_IOCTL \<and> status = STATUS_BUFFER_OVERFLOW
                    then map_option Not (IoctlResponseDecoder_IsInvalid d) else Some False);
          if ioctl then Some (d, Some (ResponseError status))
          else do { e \<leftarrow> acceptError status d; Some (nil_slice, Some e) } }}}}"

text \<open>What a server receives has no redirect flag: every packet of the right command is accepted.\<close>

lemma accept_request:
  "PacketCodec_Command pkt = Some cmd \<Longrightarrow> PacketCodec_Flags pkt = Some fl \<Longrightarrow>
   fl AND SMB2_FLAGS_SERVER_TO_REDIR = 0 \<Longrightarrow>
   accept cmd pkt = map_option (\<lambda>d. (d, None)) (PacketCodec_Data pkt)"
  by (simp add: accept_def split: option.split bind_split)

section \<open>Encoding and sending a response\<close>

definition calcPreauthHash :: "library \<Rightarrow> bytes \<Rightarrow> conn \<Rightarrow> conn" where
  "calcPreauthHash lib pkt c =
     (if cn_dialect c = SMB311 \<and> cn_preauthIntegrityHashId c = SHA512
      then c\<lparr>cn_preauthIntegrityHashValue := lb_sha512 lib (cn_preauthIntegrityHashValue c @ pkt)\<rparr> else c)"

text \<open>The header's fields \<open>encodePacket\<close> fills in.\<close>

definition number_packet :: "treeConn option \<Rightarrow> packet \<Rightarrow> conn \<Rightarrow> packet \<times> conn" where
  "number_packet tc req c =
     (let hdr = packet_Header req;
          charge = ph_CreditCharge hdr;
          (opening, ac) = account_opening (cn_account c);
          credits = (if ph_CreditRequestResponse hdr = 0 then charge else ph_CreditRequestResponse hdr);
          c = c\<lparr>cn_sequenceWindow := cn_sequenceWindow c + ucast charge, cn_account := ac\<rparr>;
          hdr = hdr\<lparr>ph_CreditRequestResponse := credits + opening\<rparr>;
          hdr = (case cn_session c of
                   Some s \<Rightarrow> if useSession c
                             then (case tc of None \<Rightarrow> hdr\<lparr>ph_SessionId := se_sessionId s\<rparr>
                                   | Some t \<Rightarrow> hdr\<lparr>ph_SessionId := se_sessionId s, ph_TreeId := tc_treeId t\<rparr>)
                             else hdr
                 | None \<Rightarrow> hdr)
      in (with_Header hdr req, c))"

definition must_encrypt :: "session \<Rightarrow> treeConn option \<Rightarrow> bool" where
  "must_encrypt s tc \<longleftrightarrow> se_sessionFlags s AND SMB2_SESSION_FLAG_ENCRYPT_DATA \<noteq> 0 \<or>
     (case tc of None \<Rightarrow> False | Some t \<Rightarrow> tc_shareFlags t AND SMB2_SHAREFLAG_ENCRYPT_DATA \<noteq> 0)"

definition must_sign :: "session \<Rightarrow> bool" where
  "must_sign s \<longleftrightarrow> se_sessionFlags s AND (SMB2_SESSION_FLAG_IS_GUEST OR SMB2_SESSION_FLAG_IS_NULL) = 0"

definition protect :: "treeConn option \<Rightarrow> bytes \<Rightarrow> conn \<Rightarrow> ((srv_error + bytes) \<times> conn) option" where
  "protect tc pkt c =
     (case cn_session c of
        None \<Rightarrow> Some (Inr pkt, c)
      | Some s \<Rightarrow>
          if must_encrypt s tc
          then do { e \<leftarrow> se_encrypter s;
                    let (nonce, c) = rand_Read (ae_NonceSize e) c;
                    case encrypt s nonce pkt of
                      Ok p \<Rightarrow> Some (Inr p, c) | Err _ \<Rightarrow> Some (Inl InternalError, c)
                    | Panic \<Rightarrow> None | Deadlock \<Rightarrow> None }
          else if must_sign s then do { p \<leftarrow> sign s pkt; Some (Inr p, c) }
          else Some (Inr pkt, c))"

definition encodePacket :: "packet \<Rightarrow> treeConn option \<Rightarrow> conn \<Rightarrow> ((srv_error + bytes) \<times> conn) option" where
  "encodePacket req tc c =
     (let (req, c) = number_packet tc req c
      in do { n \<leftarrow> packet_Size req;
              pkt \<leftarrow> packet_Encode req (replicate n 0);
              protect tc pkt c })"

text \<open>\<open>sendPacket\<close> holds back the responses of a compound request until the last one. The
  transport refuses what is longer than its length field.\<close>

definition transmit :: "library \<Rightarrow> bytes \<Rightarrow> conn \<Rightarrow> srv_error option \<times> conn" where
  "transmit lib pkt c =
     (let c = (if cn_serverState c = STATE_SESSION_ACTIVE then c else calcPreauthHash lib pkt c)
      in case directTCP_Write pkt of
           None \<Rightarrow> (Some TransportError, c)
         | Some w \<Rightarrow> (None, c\<lparr>cn_written := cn_written c @ [w]\<rparr>))"

definition sendPacket ::
  "library \<Rightarrow> packet \<Rightarrow> treeConn option \<Rightarrow> compoundContext option \<Rightarrow> conn \<Rightarrow>
   (srv_error option \<times> compoundContext option \<times> conn) option" where
  "sendPacket lib req tc compCtx c =
     do { (r, c) \<leftarrow> encodePacket req tc c;
          case r of
            Inl e \<Rightarrow> Some (Some e, compCtx, c)
          | Inr pkt \<Rightarrow>
              (case compCtx of
                 None \<Rightarrow> (let (e, c) = transmit lib pkt c in Some (e, None, c))
               | Some ctx \<Rightarrow>
                   (let ctx = addResponse pkt (ctx\<lparr>cx_lastStatus := ph_Status (packet_Header req)\<rparr>)
                    in if ph_MessageId (packet_Header req) \<noteq> cx_lastMsgId ctx then Some (None, Some ctx, c)
                       else do { p \<leftarrow> compound_Encode True 0 (cx_rsp ctx) (replicate (compound_Size (cx_rsp ctx)) 0);
                                 let (e, c) = transmit lib p c in Some (e, Some ctx, c) })) }"

end
