(* ===== verification/MemoryLocks.thy ===== *)
theory MemoryLocks
  imports MemoryOps
begin

text \<open>
  The locks of the memory file system (src/memoryshare/memory_fs.go): \<open>fs.mu\<close> and the \<open>mu\<close> of every
  node, both \<open>sync.RWMutex\<close>. The operations are modelled as single steps, so a lock only matters
  once a goroutine keeps it for ever, which \<open>Symlink\<close> brings about: it waits for a lock it holds. For
  each method there is the list of its lock operations in the order of the code, up to the last one
  that can wait. Unlocks at the end and those deferred to it are left out. The lock of the
  callbacks is held for a moment only and is not here.
\<close>

section \<open>Taking locks\<close>

datatype fs_lock = Tree_lock | Node_lock nat

datatype lock_action = RLock fs_lock | RUnlock fs_lock | Lock fs_lock | Unlock fs_lock

text \<open>What stays on a lock for ever: readers, or a writer. A writer that waits for ever counts as
  one, since a waiting writer keeps new readers out.\<close>

datatype forever = Read_held | Write_held

type_synonym stuck = "fs_lock \<Rightarrow> forever option"

fun leave :: "(fs_lock \<times> forever) list \<Rightarrow> stuck \<Rightarrow> stuck" where
  "leave [] st = st"
| "leave ((l, x) # held) st = (leave held st)(l \<mapsto> x)"

text \<open>A goroutine that holds the locks \<open>held\<close> runs a list of lock operations: \<open>None\<close> when it gets
  through, else what is stuck after it has started to wait.\<close>

fun waits :: "lock_action list \<Rightarrow> (fs_lock \<times> forever) list \<Rightarrow> stuck \<Rightarrow> stuck option" where
  "waits [] held st = None"
| "waits (RLock l # as) held st =
     (if st l = Some Write_held \<or> (l, Write_held) \<in> set held then Some (leave held st)
      else waits as ((l, Read_held) # held) st)"
| "waits (Lock l # as) held st =
     (if st l \<noteq> None \<or> l \<in> fst ` set held then Some ((leave held st)(l \<mapsto> Write_held))
      else waits as ((l, Write_held) # held) st)"
| "waits (RUnlock l # as) held st = waits as (remove1 (l, Read_held) held) st"
| "waits (Unlock l # as) held st = waits as (remove1 (l, Write_held) held) st"

section \<open>Paths\<close>

definition read_node :: "nat \<Rightarrow> lock_action list" where
  "read_node a = [RLock (Node_lock a), RUnlock (Node_lock a)]"

definition write_node_lock :: "nat \<Rightarrow> lock_action list" where
  "write_node_lock a = [Lock (Node_lock a), Unlock (Node_lock a)]"

definition path_parts :: "string \<Rightarrow> string list" where
  "path_parts filepath =
     (let p = path_Clean filepath
      in if p = ''/'' \<or> p = ''.'' then [] else filter (\<lambda>x. x \<noteq> []) (split_on CHR ''/'' (trim_char CHR ''/'' p)))"

text \<open>The nodes a walk locks, one after the other, to look a part of the path up.\<close>

fun walked :: "(nat \<Rightarrow> string \<Rightarrow> nat option) \<Rightarrow> nat \<Rightarrow> string list \<Rightarrow> nat list" where
  "walked ch a [] = []"
| "walked ch a (k # ks) = a # (case ch a k of None \<Rightarrow> [] | Some c \<Rightarrow> walked ch c ks)"

definition resolvePath_locks :: "string \<Rightarrow> MemoryFS \<Rightarrow> lock_action list" where
  "resolvePath_locks filepath fs = concat (map read_node (walked (child_of fs) (fs_root fs) (path_parts filepath)))"

definition read_tree :: "lock_action list \<Rightarrow> lock_action list" where
  "read_tree as = RLock Tree_lock # as @ [RUnlock Tree_lock]"

text \<open>The nodes \<open>getOrCreateDirPath\<close> locks and, where the directory is found, the lock on it under
  which \<open>AddFile\<close> adds the entry. Behind a missing part there are only nodes the call makes itself.\<close>

fun dirs_written :: "MemoryFS \<Rightarrow> nat \<Rightarrow> string list \<Rightarrow> nat list" where
  "dirs_written fs a [] = [a]"
| "dirs_written fs a (k # ks) =
     a # (case child_of fs a k of
            None \<Rightarrow> []
          | Some c \<Rightarrow> if mn_isDir (node fs c) then dirs_written fs c ks else [])"

definition AddFile_locks :: "string \<Rightarrow> MemoryFS \<Rightarrow> lock_action list" where
  "AddFile_locks filepath fs =
     (let p = path_Clean filepath
      in Lock Tree_lock #
         (if p = ''/'' then []
          else concat (map write_node_lock (dirs_written fs (fs_root fs) (path_parts (path_Dir p))))))"

section \<open>Methods\<close>

definition of_open :: "u64 \<Rightarrow> MemoryFS \<Rightarrow> (OpenMemoryFile \<Rightarrow> lock_action list) \<Rightarrow> lock_action list" where
  "of_open h fs k = (case fs_openFiles fs h of None \<Rightarrow> [] | Some f \<Rightarrow> k f)"

text \<open>The methods that lock the node of a handle and nothing else.\<close>

definition node_read :: "u64 \<Rightarrow> MemoryFS \<Rightarrow> lock_action list" where
  "node_read h fs = of_open h fs (\<lambda>f. [RLock (Node_lock (of_node f))])"

definition node_written :: "u64 \<Rightarrow> MemoryFS \<Rightarrow> lock_action list" where
  "node_written h fs = of_open h fs (\<lambda>f. [Lock (Node_lock (of_node f))])"

definition passes :: "InterceptResult \<Rightarrow> bool" where
  "passes result \<longleftrightarrow> ir_Error result = None \<and> \<not> ir_Block result"

definition GetAttr_locks :: "u64 \<Rightarrow> MemoryFS \<Rightarrow> lock_action list" where
  "GetAttr_locks h fs = (if h = 0 then [RLock (Node_lock (fs_root fs))] else node_read h fs)"

definition SetAttr_locks :: "u64 \<Rightarrow> MemoryFS \<Rightarrow> lock_action list" where
  "SetAttr_locks h fs = (if h = 0 then [] else node_written h fs)"

text \<open>\<open>Open\<close> resolves the path again after \<open>AddFile\<close>: those locks were free a moment ago.\<close>

definition Open_locks :: "env \<Rightarrow> string \<Rightarrow> int \<Rightarrow> int \<Rightarrow> MemoryFS \<Rightarrow> lock_action list" where
  "Open_locks e filepath flags mode fs =
     read_tree (resolvePath_locks filepath fs) @
     (case resolvePath filepath fs of
        Err _ \<Rightarrow>
          if flags AND 0x40 \<noteq> 0 \<and> \<not> fs_discardWrites fs \<and>
             (case fs_createCallback fs of None \<Rightarrow> True
              | Some callback \<Rightarrow> passes (callback (getOperationContext e fs) filepath False mode))
          then AddFile_locks filepath fs else []
      | _ \<Rightarrow> [])"

definition Lookup_locks :: "u64 \<Rightarrow> string \<Rightarrow> MemoryFS \<Rightarrow> lock_action list" where
  "Lookup_locks handle name fs =
     (let look = (\<lambda>basePath.
            let p = path_Join [basePath, name]
            in read_tree (resolvePath_locks p fs) @ (case resolvePath p fs of Ok a \<Rightarrow> read_node a | _ \<Rightarrow> []))
      in if handle = 0 then look ''/'' else of_open handle fs (\<lambda>f. look (of_path f)))"

definition Mkdir_locks :: "env \<Rightarrow> string \<Rightarrow> int \<Rightarrow> MemoryFS \<Rightarrow> lock_action list" where
  "Mkdir_locks e filepath mode fs =
     (if \<not> fs_discardWrites fs \<and>
         (case fs_createCallback fs of None \<Rightarrow> True
          | Some callback \<Rightarrow> passes (callback (getOperationContext e fs) filepath True mode))
      then (let dir = path_Dir (path_Clean filepath)
            in Lock Tree_lock # resolvePath_locks dir fs @
               (case resolvePath dir fs of Ok a \<Rightarrow> [Lock (Node_lock a)] | _ \<Rightarrow> []))
      else [])"

text \<open>\<open>Write\<close> locks the node in honeypot mode too, for the size.\<close>

definition Write_locks :: "env \<Rightarrow> u64 \<Rightarrow> bytes \<Rightarrow> u64 \<Rightarrow> MemoryFS \<Rightarrow> lock_action list" where
  "Write_locks e h buf offset fs =
     of_open h fs (\<lambda>f.
       if (case fs_writeCallback fs of None \<Rightarrow> True
           | Some callback \<Rightarrow> passes (callback (getOperationContext e fs) h (of_path f) buf offset))
       then [Lock (Node_lock (of_node f))] else [])"

definition OpenDir_locks :: "string \<Rightarrow> MemoryFS \<Rightarrow> lock_action list" where
  "OpenDir_locks filepath fs = read_tree (resolvePath_locks filepath fs)"

definition ReadDir_locks ::
  "((string \<times> nat) list \<Rightarrow> (string \<times> nat) list) \<Rightarrow> u64 \<Rightarrow> int \<Rightarrow> MemoryFS \<Rightarrow> lock_action list" where
  "ReadDir_locks order h maxEntries fs =
     (if h = 0 then []
      else of_open h fs (\<lambda>f.
        let n = node fs (of_node f) in
        if \<not> mn_isDir n \<or> 0 < of_dirPos f then []
        else
          (let cs = (case mn_children n of None \<Rightarrow> [] | Some cs \<Rightarrow> order cs);
               shown = (if 0 < maxEntries then take (nat (maxEntries - 2)) cs else cs)
           in read_node (of_node f) @ RLock (Node_lock (of_node f)) # concat (map (read_node \<circ> snd) shown))))"

definition Unlink_locks :: "u64 \<Rightarrow> MemoryFS \<Rightarrow> lock_action list" where
  "Unlink_locks h fs =
     (if fs_discardWrites fs then []
      else of_open h fs (\<lambda>f. case mn_parent (node fs (of_node f)) of None \<Rightarrow> [] | Some p \<Rightarrow> [Lock (Node_lock p)]))"

text \<open>\<open>Truncate\<close> and \<open>Setxattr\<close>.\<close>

definition node_changed :: "u64 \<Rightarrow> MemoryFS \<Rightarrow> lock_action list" where
  "node_changed h fs = (if fs_discardWrites fs then [] else node_written h fs)"

text \<open>\<open>Rename\<close> holds the lock of the new directory and takes that of the old one unless it is the
  same.\<close>

definition Rename_locks :: "env \<Rightarrow> u64 \<Rightarrow> string \<Rightarrow> int \<Rightarrow> MemoryFS \<Rightarrow> lock_action list" where
  "Rename_locks e h toPath flags fs =
     of_open h fs (\<lambda>f.
       if \<not> fs_discardWrites fs \<and>
          (case fs_renameCallback fs of None \<Rightarrow> True
           | Some callback \<Rightarrow> passes (callback (getOperationContext e fs) (of_path f) toPath))
       then (let p = path_Clean toPath
             in Lock Tree_lock # resolvePath_locks (path_Dir p) fs @
                (case resolvePath (path_Dir p) fs of
                   Ok a \<Rightarrow>
                     Lock (Node_lock a) #
                     (if child_of fs a (path_Base p) \<noteq> None \<and> flags = 0 then []
                      else (case mn_parent (node fs (of_node f)) of
                              None \<Rightarrow> []
                            | Some old \<Rightarrow> if old = a then [] else [Lock (Node_lock old)]))
                 | _ \<Rightarrow> []))
       else [])"

text \<open>\<open>Symlink\<close> asks \<open>nodeToAttributes\<close> to read the node it holds locked for writing.\<close>

definition Symlink_locks :: "u64 \<Rightarrow> MemoryFS \<Rightarrow> lock_action list" where
  "Symlink_locks h fs = of_open h fs (\<lambda>f. [Lock (Node_lock (of_node f)), RLock (Node_lock (of_node f))])"

section \<open>Who waits\<close>

text \<open>Reading nodes one after the other takes nothing that is kept.\<close>

lemma waits_read_nodes:
  assumes "\<And>l. st l \<noteq> Some Write_held" and "\<And>a. (Node_lock a, Write_held) \<notin> set held"
  shows "waits (concat (map read_node xs) @ as) held st = waits as held st"
  using assms by (induction xs) (simp_all add: read_node_def)

lemma waits_write_nodes:
  "(\<And>a. Node_lock a \<notin> fst ` set held) \<Longrightarrow>
   waits (concat (map write_node_lock xs) @ as) held (\<lambda>_. None) = waits as held (\<lambda>_. None)"
  by (induction xs) (simp_all add: write_node_lock_def)

text \<open>While nothing is stuck, no method but \<open>Symlink\<close> waits for ever: none asks for a lock it holds
  itself in a way that excludes it.\<close>

lemmas path_locks = resolvePath_locks_def read_tree_def

lemma methods_get_through:
  "waits (GetAttr_locks h fs) [] (\<lambda>_. None) = None"
  "waits (SetAttr_locks h fs) [] (\<lambda>_. None) = None"
  "waits (Open_locks e p flags mode fs) [] (\<lambda>_. None) = None"
  "waits (Lookup_locks h p fs) [] (\<lambda>_. None) = None"
  "waits (Mkdir_locks e p mode fs) [] (\<lambda>_. None) = None"
  "waits (Write_locks e h buf off fs) [] (\<lambda>_. None) = None"
  "waits (OpenDir_locks p fs) [] (\<lambda>_. None) = None"
  "waits (ReadDir_locks order h k fs) [] (\<lambda>_. None) = None"
  "waits (Unlink_locks h fs) [] (\<lambda>_. None) = None"
  "waits (Rename_locks e h p flags fs) [] (\<lambda>_. None) = None"
  "waits (node_read h fs) [] (\<lambda>_. None) = None"
  "waits (node_written h fs) [] (\<lambda>_. None) = None"
  "waits (node_changed h fs) [] (\<lambda>_. None) = None"
proof -
  have read: "waits (concat (map read_node xs) @ as) held (\<lambda>_. None) = waits as held (\<lambda>_. None)"
    if "\<And>a. (Node_lock a, Write_held) \<notin> set held" for xs as held
    using that by (intro waits_read_nodes) simp_all
  have readers: "waits (concat (map (read_node \<circ> snd) xs)) [(l, Read_held)] (\<lambda>_. None) = None"
    for l and xs :: "(string \<times> nat) list"
    using read [of "[(l, Read_held)]" "map snd xs" "[]"] by simp
  have add: "waits (AddFile_locks q fs) [] (\<lambda>_. None) = None" for q
    using waits_write_nodes [of "[(Tree_lock, Write_held)]" _ "[]"] by (simp add: AddFile_locks_def Let_def image_def)
  show "waits (GetAttr_locks h fs) [] (\<lambda>_. None) = None" "waits (SetAttr_locks h fs) [] (\<lambda>_. None) = None"
    "waits (Write_locks e h buf off fs) [] (\<lambda>_. None) = None" "waits (Unlink_locks h fs) [] (\<lambda>_. None) = None"
    "waits (node_read h fs) [] (\<lambda>_. None) = None" "waits (node_written h fs) [] (\<lambda>_. None) = None"
    "waits (node_changed h fs) [] (\<lambda>_. None) = None"
    by (simp_all add: GetAttr_locks_def SetAttr_locks_def Write_locks_def Unlink_locks_def node_changed_def
      node_read_def node_written_def of_open_def split: option.split)
  show "waits (Open_locks e p flags mode fs) [] (\<lambda>_. None) = None"
    by (simp add: Open_locks_def path_locks read add split: outcome.split)
  show "waits (Lookup_locks h p fs) [] (\<lambda>_. None) = None"
    by (simp add: Lookup_locks_def Let_def path_locks read read_node_def of_open_def split: outcome.split option.split)
  show "waits (Mkdir_locks e p mode fs) [] (\<lambda>_. None) = None"
    by (simp add: Mkdir_locks_def Let_def resolvePath_locks_def read split: outcome.split)
  show "waits (OpenDir_locks p fs) [] (\<lambda>_. None) = None"
    by (simp add: OpenDir_locks_def path_locks read)
  show "waits (ReadDir_locks order h k fs) [] (\<lambda>_. None) = None"
    by (simp add: ReadDir_locks_def Let_def read_node_def of_open_def readers split: option.split)
  show "waits (Rename_locks e h p flags fs) [] (\<lambda>_. None) = None"
    by (simp add: Rename_locks_def Let_def resolvePath_locks_def read of_open_def split: outcome.split option.split)
qed

text \<open>\<open>Symlink\<close> on an open handle always waits, and leaves the lock of the node to nobody.\<close>

lemma Symlink_waits:
  assumes "fs_openFiles fs h = Some f"
  shows "\<exists>st'. waits (Symlink_locks h fs) [] st = Some st' \<and> st' (Node_lock (of_node f)) = Some Write_held"
  using assms by (simp add: Symlink_locks_def of_open_def)

end
