(* ===== verification/VfsInterface.thy ===== *)
theory VfsInterface
  imports Honeypot MemoryLocks
begin

text \<open>
  The file system of a share as the server calls it: the interface \<open>VFSFileSystem\<close> (and the one
  method of \<open>VFSWithContext\<close> the server uses) of src/vfs/vfs.go is a record of functions on a
  state; an instance is \<open>MemoryFS\<close> together with its locks. The locale \<open>vfs_keeps\<close> is what a property of the state needs
  so that no call breaks it; it is interpreted on \<open>MemoryFS\<close> in honeypot mode.
\<close>

section \<open>The interface\<close>

type_synonym ('fs, 'a) fs_call = "'fs \<Rightarrow> (fs_error, 'a) outcome \<times> 'fs"

text \<open>\<open>Read\<close> may return both bytes and an error. A nil buffer or value is \<open>None\<close>. Only the
  methods the server calls are here. \<open>v_Goroutine\<close> stands for the goroutine a call is made on,
  which the implementation looks up by itself.\<close>

record 'fs vfs =
  v_GetAttr :: "u64 \<Rightarrow> ('fs, Attributes) fs_call"
  v_SetAttr :: "u64 \<Rightarrow> Attributes \<Rightarrow> ('fs, Attributes) fs_call"
  v_StatFS :: "u64 \<Rightarrow> ('fs, FSAttributes) fs_call"
  v_Flush :: "u64 \<Rightarrow> ('fs, unit) fs_call"
  v_Open :: "string \<Rightarrow> int \<Rightarrow> int \<Rightarrow> ('fs, u64) fs_call"
  v_Close :: "u64 \<Rightarrow> ('fs, unit) fs_call"
  v_Lookup :: "u64 \<Rightarrow> string \<Rightarrow> ('fs, Attributes) fs_call"
  v_Mkdir :: "string \<Rightarrow> int \<Rightarrow> ('fs, Attributes) fs_call"
  v_Read :: "u64 \<Rightarrow> nat \<Rightarrow> u64 \<Rightarrow> int \<Rightarrow> ('fs, bytes \<times> fs_error option) fs_call"
  v_Write :: "u64 \<Rightarrow> bytes \<Rightarrow> u64 \<Rightarrow> int \<Rightarrow> ('fs, nat) fs_call"
  v_OpenDir :: "string \<Rightarrow> ('fs, u64) fs_call"
  v_ReadDir :: "u64 \<Rightarrow> int \<Rightarrow> int \<Rightarrow> ('fs, (string \<times> Attributes) list) fs_call"
  v_Readlink :: "u64 \<Rightarrow> ('fs, string) fs_call"
  v_Unlink :: "u64 \<Rightarrow> ('fs, unit) fs_call"
  v_Truncate :: "u64 \<Rightarrow> u64 \<Rightarrow> ('fs, unit) fs_call"
  v_Rename :: "u64 \<Rightarrow> string \<Rightarrow> int \<Rightarrow> ('fs, unit) fs_call"
  v_Symlink :: "u64 \<Rightarrow> string \<Rightarrow> int \<Rightarrow> ('fs, Attributes) fs_call"
  v_Listxattr :: "u64 \<Rightarrow> ('fs, string list) fs_call"
  v_Getxattr :: "u64 \<Rightarrow> string \<Rightarrow> nat option \<Rightarrow> ('fs, nat \<times> bytes) fs_call"
  v_Setxattr :: "u64 \<Rightarrow> string \<Rightarrow> bytes option \<Rightarrow> ('fs, unit) fs_call"
  v_Removexattr :: "u64 \<Rightarrow> string \<Rightarrow> ('fs, unit) fs_call"
  v_SetOperationContext :: "(OperationContext option \<Rightarrow> 'fs \<Rightarrow> 'fs) option"
  v_Goroutine :: "u64 \<Rightarrow> 'fs \<Rightarrow> 'fs"

locale vfs_keeps =
  fixes V :: "'fs vfs" and P :: "'fs \<Rightarrow> bool"
  assumes GetAttr [intro]: "P s \<Longrightarrow> P (snd (v_GetAttr V h s))"
    and SetAttr [intro]: "P s \<Longrightarrow> P (snd (v_SetAttr V h a s))"
    and StatFS [intro]: "P s \<Longrightarrow> P (snd (v_StatFS V h s))"
    and Flush [intro]: "P s \<Longrightarrow> P (snd (v_Flush V h s))"
    and Open [intro]: "P s \<Longrightarrow> P (snd (v_Open V p flags m s))"
    and Close [intro]: "P s \<Longrightarrow> P (snd (v_Close V h s))"
    and Lookup [intro]: "P s \<Longrightarrow> P (snd (v_Lookup V h p s))"
    and Mkdir [intro]: "P s \<Longrightarrow> P (snd (v_Mkdir V p m s))"
    and Read [intro]: "P s \<Longrightarrow> P (snd (v_Read V h n off flags s))"
    and Write [intro]: "P s \<Longrightarrow> P (snd (v_Write V h buf off flags s))"
    and OpenDir [intro]: "P s \<Longrightarrow> P (snd (v_OpenDir V p s))"
    and ReadDir [intro]: "P s \<Longrightarrow> P (snd (v_ReadDir V h pos k s))"
    and Readlink [intro]: "P s \<Longrightarrow> P (snd (v_Readlink V h s))"
    and Unlink [intro]: "P s \<Longrightarrow> P (snd (v_Unlink V h s))"
    and Truncate [intro]: "P s \<Longrightarrow> P (snd (v_Truncate V h sz s))"
    and Rename [intro]: "P s \<Longrightarrow> P (snd (v_Rename V h p flags s))"
    and Symlink [intro]: "P s \<Longrightarrow> P (snd (v_Symlink V h p flags s))"
    and Listxattr [intro]: "P s \<Longrightarrow> P (snd (v_Listxattr V h s))"
    and Getxattr [intro]: "P s \<Longrightarrow> P (snd (v_Getxattr V h key b s))"
    and Setxattr [intro]: "P s \<Longrightarrow> P (snd (v_Setxattr V h key val s))"
    and Removexattr [intro]: "P s \<Longrightarrow> P (snd (v_Removexattr V h key s))"
    and SetOperationContext [intro]: "v_SetOperationContext V = Some f \<Longrightarrow> P s \<Longrightarrow> P (f c s)"
    and Goroutine [intro]: "P s \<Longrightarrow> P (v_Goroutine V g s)"

section \<open>MemoryFS as a share\<close>

text \<open>Each call takes the next choice of its surroundings: the clock, the random bytes of a new
  handle, the orders in which Go visits a map. \<open>ms_stuck\<close> tells which locks are held for ever.\<close>

record choice =
  ch_now :: int
  ch_rand :: u64
  ch_order :: "(string \<times> nat) list \<Rightarrow> (string \<times> nat) list"
  ch_xorder :: "(string \<times> bytes) list \<Rightarrow> (string \<times> bytes) list"

record memory_share =
  ms_fs :: MemoryFS
  ms_stuck :: stuck
  ms_gid :: u64
  ms_choices :: "nat \<Rightarrow> choice"

definition share_env :: "memory_share \<Rightarrow> env" where
  "share_env s = \<lparr>e_gid = ms_gid s, e_now = ch_now (ms_choices s 0), e_rand = ch_rand (ms_choices s 0)\<rparr>"

text \<open>A method with the locks it takes. When one of them is never free again the call does not
  return: it has changed nothing (all changes are made under the last lock; what \<open>AddFile\<close> may have
  done to the inode counter nobody sees, since that is read under \<open>fs.mu\<close>, then stuck too), but the locks
  it holds are stuck now. Otherwise it takes place.\<close>

definition on_memory ::
  "(env \<Rightarrow> choice \<Rightarrow> MemoryFS \<Rightarrow> lock_action list) \<Rightarrow> (env \<Rightarrow> choice \<Rightarrow> MemoryFS \<Rightarrow> 'a call) \<Rightarrow>
   (memory_share, 'a) fs_call" where
  "on_memory locks f s =
     (let c = ms_choices s 0;
          e = share_env s;
          s' = s\<lparr>ms_choices := (\<lambda>i. ms_choices s (Suc i))\<rparr>
      in case waits (locks e c (ms_fs s)) [] (ms_stuck s) of
           Some st \<Rightarrow> (Deadlock, s'\<lparr>ms_stuck := st\<rparr>)
         | None \<Rightarrow> (let (r, fs) = f e c (ms_fs s) in (r, s'\<lparr>ms_fs := fs\<rparr>)))"

text \<open>\<open>Symlink\<close> makes its change under the first of its locks and then waits for ever: the node stays
  locked.\<close>

definition symlink_on_memory :: "u64 \<Rightarrow> string \<Rightarrow> int \<Rightarrow> (memory_share, Attributes) fs_call" where
  "symlink_on_memory h p flags s =
     (let (r, s') = on_memory (\<lambda>e c. node_written h) (\<lambda>e c. Symlink h p flags) s
      in (r, case waits (Symlink_locks h (ms_fs s)) [] (ms_stuck s) of
               None \<Rightarrow> s' | Some st \<Rightarrow> s'\<lparr>ms_stuck := st\<rparr>))"

definition read_result :: "bytes call \<Rightarrow> (bytes \<times> fs_error option) call" where
  "read_result r =
     (case r of
        (Ok b, fs) \<Rightarrow> (Ok (b, None), fs) | (Err e, fs) \<Rightarrow> (Ok ([], Some e), fs)
      | (Panic, fs) \<Rightarrow> (Panic, fs) | (Deadlock, fs) \<Rightarrow> (Deadlock, fs))"

definition memory_vfs :: "memory_share vfs" where
  "memory_vfs =
     \<lparr>v_GetAttr = (\<lambda>h. on_memory (\<lambda>e c. GetAttr_locks h) (\<lambda>e c. GetAttr h)),
      v_SetAttr = (\<lambda>h a. on_memory (\<lambda>e c. SetAttr_locks h) (\<lambda>e c. SetAttr h a)),
      v_StatFS = (\<lambda>h. on_memory (\<lambda>e c fs. []) (\<lambda>e c. StatFS h)),
      v_Flush = (\<lambda>h. on_memory (\<lambda>e c fs. []) (\<lambda>e c. Flush h)),
      v_Open = (\<lambda>p flags m. on_memory (\<lambda>e c. Open_locks e p flags m) (\<lambda>e c. Open e p flags m)),
      v_Close = (\<lambda>h. on_memory (\<lambda>e c fs. []) (\<lambda>e c. Close e h)),
      v_Lookup = (\<lambda>h p. on_memory (\<lambda>e c. Lookup_locks h p) (\<lambda>e c. Lookup h p)),
      v_Mkdir = (\<lambda>p m. on_memory (\<lambda>e c. Mkdir_locks e p m) (\<lambda>e c. Mkdir e p m)),
      v_Read = (\<lambda>h n off flags. on_memory (\<lambda>e c. node_read h) (\<lambda>e c fs. read_result (Read h n off flags fs))),
      v_Write = (\<lambda>h buf off flags. on_memory (\<lambda>e c. Write_locks e h buf off) (\<lambda>e c. Write e h buf off flags)),
      v_OpenDir = (\<lambda>p. on_memory (\<lambda>e c. OpenDir_locks p) (\<lambda>e c. OpenDir e p)),
      v_ReadDir = (\<lambda>h pos k. on_memory (\<lambda>e c. ReadDir_locks (ch_order c) h k) (\<lambda>e c. ReadDir (ch_order c) h pos k)),
      v_Readlink = (\<lambda>h. on_memory (\<lambda>e c. node_read h) (\<lambda>e c. Readlink h)),
      v_Unlink = (\<lambda>h. on_memory (\<lambda>e c. Unlink_locks h) (\<lambda>e c. Unlink h)),
      v_Truncate = (\<lambda>h sz. on_memory (\<lambda>e c. node_changed h) (\<lambda>e c. Truncate e h sz)),
      v_Rename = (\<lambda>h p flags. on_memory (\<lambda>e c. Rename_locks e h p flags) (\<lambda>e c. Rename e h p flags)),
      v_Symlink = symlink_on_memory,
      v_Listxattr = (\<lambda>h. on_memory (\<lambda>e c. node_read h) (\<lambda>e c. Listxattr (ch_xorder c) h)),
      v_Getxattr = (\<lambda>h key b. on_memory (\<lambda>e c. node_read h) (\<lambda>e c. Getxattr h key b)),
      v_Setxattr = (\<lambda>h key val. on_memory (\<lambda>e c. node_changed h) (\<lambda>e c. Setxattr h key val)),
      v_Removexattr = (\<lambda>h key. on_memory (\<lambda>e c. node_written h) (\<lambda>e c. Removexattr h key)),
      v_SetOperationContext = Some (\<lambda>ctx s. s\<lparr>ms_fs := SetOperationContext
        \<lparr>e_gid = ms_gid s, e_now = 0, e_rand = 0\<rparr> ctx (ms_fs s)\<rparr>),
      v_Goroutine = (\<lambda>g s. s\<lparr>ms_gid := g\<rparr>)\<rparr>"

lemma on_memory_fs:
  "ms_fs (snd (on_memory locks f s)) = ms_fs s \<or>
   ms_fs (snd (on_memory locks f s)) = snd (f (share_env s) (ms_choices s 0) (ms_fs s))"
  by (simp add: on_memory_def Let_def split: prod.split option.split)

lemma symlink_fs:
  "ms_fs (snd (symlink_on_memory h p flags s)) = ms_fs s \<or>
   ms_fs (snd (symlink_on_memory h p flags s)) = snd (Symlink h p flags (ms_fs s))"
  using on_memory_fs [of "\<lambda>e c. node_written h" "\<lambda>e c. Symlink h p flags" s]
  by (cases "on_memory (\<lambda>e c. node_written h) (\<lambda>e c. Symlink h p flags) s")
    (simp add: symlink_on_memory_def split: option.split)

text \<open>As long as no lock is stuck, a call of the share is the call of the file system.\<close>

lemma on_memory_free:
  "waits (locks (share_env s) (ms_choices s 0) (ms_fs s)) [] (\<lambda>_. None) = None \<Longrightarrow> ms_stuck s = (\<lambda>_. None) \<Longrightarrow>
   on_memory locks f s =
     (let (r, fs) = f (share_env s) (ms_choices s 0) (ms_fs s)
      in (r, s\<lparr>ms_fs := fs, ms_choices := (\<lambda>i. ms_choices s (Suc i))\<rparr>))"
  by (simp add: on_memory_def Let_def split: prod.split)

text \<open>After \<open>Symlink\<close> on a handle nobody gets an answer about that node any more, whatever other
  handle he has on it, and a call that asks for one only leaves the tree as it is.\<close>

lemma symlink_locks_node:
  assumes "fs_openFiles (ms_fs s) h = Some f" and "v_Symlink memory_vfs h p flags s = (r, s')"
    and "fs_openFiles (ms_fs s') h' = Some f'" and "of_node f' = of_node f"
  shows "r = Deadlock" and "fst (v_Read memory_vfs h' n off fl s') = Deadlock"
    and "h' \<noteq> 0 \<Longrightarrow> fst (v_GetAttr memory_vfs h' s') = Deadlock"
    and "fst (v_Removexattr memory_vfs h' key s') = Deadlock"
proof -
  have w: "waits (Symlink_locks h (ms_fs s)) [] (ms_stuck s) =
      Some (ms_stuck s')" and st: "ms_stuck s' (Node_lock (of_node f)) = Some Write_held" and "r = Deadlock"
    using assms(1,2)
    by (auto simp: memory_vfs_def symlink_on_memory_def on_memory_def Let_def Symlink_locks_def node_written_def
      of_open_def Symlink_def with_open_def split: if_splits)
  then show "r = Deadlock" "fst (v_Read memory_vfs h' n off fl s') = Deadlock"
    "h' \<noteq> 0 \<Longrightarrow> fst (v_GetAttr memory_vfs h' s') = Deadlock"
    "fst (v_Removexattr memory_vfs h' key s') = Deadlock"
    using assms(3,4)
    by (simp_all add: memory_vfs_def on_memory_def Let_def node_read_def node_written_def GetAttr_locks_def of_open_def)
qed

lemma read_result_snd [simp]: "snd (read_result r) = snd r"
  by (cases r) (simp add: read_result_def split: outcome.split)

section \<open>Honeypot mode\<close>

text \<open>Well formed, in honeypot mode, and with the tree and the contents of the state \<open>fs0\<close>.\<close>

definition honeypot_since :: "MemoryFS \<Rightarrow> memory_share \<Rightarrow> bool" where
  "honeypot_since fs0 s \<longleftrightarrow> wf_fs (ms_fs s) \<and> fs_discardWrites (ms_fs s) \<and> frozen fs0 (ms_fs s)"

lemma honeypot_exec:
  "honeypot_since fs0 s \<Longrightarrow> from_client r \<Longrightarrow> ms_fs s' = exec e r (ms_fs s) \<Longrightarrow> honeypot_since fs0 s'"
  using exec_frozen [of "ms_fs s" r e] exec_discard_wf [of "ms_fs s" r e]
  by (auto simp: honeypot_since_def frozen_def intro: frozen_trans)

lemma honeypot_call:
  assumes "honeypot_since fs0 s" and "from_client r"
    and "snd (f (share_env s) (ms_choices s 0) (ms_fs s)) = exec (share_env s) r (ms_fs s)"
  shows "honeypot_since fs0 (snd (on_memory locks f s))"
proof (cases "ms_fs (snd (on_memory locks f s)) = ms_fs s")
  case True
  with assms(1) show ?thesis by (simp add: honeypot_since_def)
next
  case False
  then have "ms_fs (snd (on_memory locks f s)) = exec (share_env s) r (ms_fs s)"
    using on_memory_fs [of locks f s] assms(3) by simp
  from honeypot_exec [OF assms(1,2) this] show ?thesis .
qed

text \<open>What a call leaves depends neither on the order of a map nor on the flags of a read or write.\<close>

lemma memory_snd:
  "snd (ReadDir order h pos k fs) = snd (ReadDir id h pos k fs)"
  "snd (Listxattr xorder h fs) = snd (Listxattr id h fs)"
  "snd (Read h n off flags fs) = snd (Read h n off 0 fs)"
  "snd (Write e h buf off flags fs) = snd (Write e h buf off 0 fs)"
  by (simp_all add: ReadDir_def Listxattr_def Read_def Write_def with_open_def Let_def split: option.split)

lemma honeypot_context: "honeypot_since fs0 s \<Longrightarrow> honeypot_since fs0 (s\<lparr>ms_fs := SetOperationContext e ctx (ms_fs s)\<rparr>)"
  by (rule honeypot_exec [where r = "RSetContext ctx"]) simp_all

interpretation honeypot: vfs_keeps memory_vfs "honeypot_since fs0" for fs0
proof (unfold_locales, goal_cases)
  case (1 s h) show ?case
    unfolding memory_vfs_def vfs.select_convs by (rule honeypot_call [OF 1, where r = "RGetAttr h"]) (simp_all)
next
  case (2 s h a) show ?case
    unfolding memory_vfs_def vfs.select_convs by (rule honeypot_call [OF 2, where r = "RSetAttr h a"]) (simp_all)
next
  case (3 s h) show ?case
    unfolding memory_vfs_def vfs.select_convs by (rule honeypot_call [OF 3, where r = "RStatFS h"]) (simp_all)
next
  case (4 s h) show ?case
    unfolding memory_vfs_def vfs.select_convs by (rule honeypot_call [OF 4, where r = "RFlush h"]) (simp_all)
next
  case (5 s p flags m) show ?case
    unfolding memory_vfs_def vfs.select_convs by (rule honeypot_call [OF 5, where r = "ROpen p flags m"]) (simp_all)
next
  case (6 s h) show ?case
    unfolding memory_vfs_def vfs.select_convs by (rule honeypot_call [OF 6, where r = "RClose h"]) (simp_all)
next
  case (7 s h p) show ?case
    unfolding memory_vfs_def vfs.select_convs by (rule honeypot_call [OF 7, where r = "RLookup h p"]) (simp_all)
next
  case (8 s p m) show ?case
    unfolding memory_vfs_def vfs.select_convs by (rule honeypot_call [OF 8, where r = "RMkdir p m"]) (simp_all)
next
  case (9 s h n off flags) show ?case
    unfolding memory_vfs_def vfs.select_convs by (rule honeypot_call [OF 9, where r = "RRead h n off"]) (simp_all add: memory_snd(3) [of _ _ _ flags])
next
  case (10 s h buf off flags) show ?case
    unfolding memory_vfs_def vfs.select_convs by (rule honeypot_call [OF 10, where r = "RWrite h buf off"]) (simp_all add: memory_snd(4) [of _ _ _ _ flags])
next
  case (11 s p) show ?case
    unfolding memory_vfs_def vfs.select_convs by (rule honeypot_call [OF 11, where r = "ROpenDir p"]) (simp_all)
next
  case (12 s h pos k) show ?case
    unfolding memory_vfs_def vfs.select_convs by (rule honeypot_call [OF 12, where r = "RReadDir h pos k"]) (simp_all add: memory_snd(1) [of "ch_order _"])
next
  case (13 s h) show ?case
    unfolding memory_vfs_def vfs.select_convs by (rule honeypot_call [OF 13, where r = "RReadlink h"]) (simp_all)
next
  case (14 s h) show ?case
    unfolding memory_vfs_def vfs.select_convs by (rule honeypot_call [OF 14, where r = "RUnlink h"]) (simp_all)
next
  case (15 s h sz) show ?case
    unfolding memory_vfs_def vfs.select_convs by (rule honeypot_call [OF 15, where r = "RTruncate h sz"]) (simp_all)
next
  case (16 s h p flags) show ?case
    unfolding memory_vfs_def vfs.select_convs by (rule honeypot_call [OF 16, where r = "RRename h p flags"]) (simp_all)
next
  case (17 s h p flags)
  have "honeypot_since fs0 s'" if "ms_fs s' = ms_fs s \<or> ms_fs s' = snd (Symlink h p flags (ms_fs s))" for s'
    using that 17 honeypot_exec [OF 17, where r = "RSymlink h p flags" and s' = s' and e = "share_env s"]
    by (auto simp: honeypot_since_def)
  from this [OF symlink_fs] show ?case by (simp add: memory_vfs_def)
next
  case (18 s h) show ?case
    unfolding memory_vfs_def vfs.select_convs by (rule honeypot_call [OF 18, where r = "RListxattr h"]) (simp_all add: memory_snd(2) [of "ch_xorder _"])
next
  case (19 s h key b) show ?case
    unfolding memory_vfs_def vfs.select_convs by (rule honeypot_call [OF 19, where r = "RGetxattr h key b"]) (simp_all)
next
  case (20 s h key val) show ?case
    unfolding memory_vfs_def vfs.select_convs by (rule honeypot_call [OF 20, where r = "RSetxattr h key val"]) (simp_all)
next
  case (21 s h key) show ?case
    unfolding memory_vfs_def vfs.select_convs by (rule honeypot_call [OF 21, where r = "RRemovexattr h key"]) (simp_all)
next
  case (22 f s c) then show ?case using honeypot_context by (auto simp: memory_vfs_def)
next
  case (23 s g) then show ?case by (simp add: memory_vfs_def honeypot_since_def)
qed

end
