(* ===== verification/FileTree.thy ===== *)
theory FileTree
  imports ServerConn VfsInterface GoPath
begin

text \<open>
  What the handlers of a file tree share (src/server/file_tree.go, and of server.go the record
  \<open>Open\<close> with the table of opens): the state a handler runs in, calls of the file system, the
  replies, and the rules with which a property of the state is carried through a handler.

  A handler takes the received packet and the state and returns the Go error and the state it
  leaves; \<open>None\<close> is a panic, which ends the process. A call of the file system may also never
  return: then its goroutine is blocked for good, with the state as it is at that moment, and the
  others go on.
\<close>

section \<open>Opens\<close>

datatype OpLockState = LOCKSTATE_NONE | LOCKSTATE_HELD | LOCKSTATE_BREAKING

text \<open>The fields the server writes; the others of the record keep their zero.\<close>

record Open_record =
  op_fileId :: u64
  op_durableFileId :: u64
  op_session :: "session option"
  op_tree :: treeConn
  op_grantedAccess :: u32
  op_oplockLevel :: u8
  op_oplockState :: OpLockState
  op_isDurable :: bool
  op_durableOpenTimeout :: int
  op_pathName :: string
  op_createOptions :: u32
  op_createDisposition :: u32
  op_fileAttributes :: u32
  op_isEa :: bool
  op_eaKey :: string
  op_isSymlink :: bool
  op_createGuid :: bytes
  op_isPersistent :: bool

section \<open>The state of a handler\<close>

text \<open>A goroutine that \<open>read\<close> or \<open>write\<close> starts: what its closure holds, and whether it has
  passed the semaphore.\<close>

record job =
  jb_write :: bool
  jb_pkt :: slice
  jb_fileId :: FileId
  jb_open :: Open_record
  jb_asyncId :: u64
  jb_started :: bool

record srv_config =
  sc_lib :: library
  sc_regexp :: regexp
  sc_xattrs :: bool
  sc_ignoreSetAttrErr :: bool
  sc_allowGuest :: bool
  sc_remoteAddr :: string
  sc_localAddr :: string
  sc_srvsvc :: FileId

text \<open>\<open>h_ctx\<close> is the compound context the handlers get as a pointer, \<open>h_aapl\<close> and \<open>h_dceReq\<close> what
  a file tree and an IPC tree keep between requests, \<open>h_refId\<close> the counter of dcerpc.go.\<close>

record 'fs hst =
  h_fs :: 'fs
  h_conn :: conn
  h_opens :: "u64 \<Rightarrow> Open_record option"
  h_aapl :: bool
  h_dceReq :: "slice option"
  h_refId :: u32
  h_ctx :: "compoundContext option"
  h_jobs :: "job list"

record 'fs fileTree =
  ft_tree :: treeConn
  ft_fs :: "'fs vfs"

type_synonym ('fs, 'a) eff = "'fs hst \<Rightarrow> ('a \<times> 'fs hst) option"

text \<open>\<open>NewServer\<close> makes the map of opens, not the one by GUID: storing a durable open panics.\<close>

definition addOpen :: "Open_record \<Rightarrow> ('fs, unit) eff" where
  "addOpen open s =
     (let s = s\<lparr>h_opens := (h_opens s)(op_fileId open \<mapsto> open)\<rparr>
      in if op_isDurable open then None else Some ((), s))"

definition getOpen :: "u64 \<Rightarrow> 'fs hst \<Rightarrow> Open_record option" where
  "getOpen fileId s = h_opens s fileId"

definition deleteOpen :: "u64 \<Rightarrow> 'fs hst \<Rightarrow> 'fs hst" where
  "deleteOpen fileId s = s\<lparr>h_opens := (h_opens s)(fileId := None)\<rparr>"

section \<open>Calls and replies\<close>

text \<open>What a call of the file system comes to: a value, or the goroutine waits in it for ever.\<close>

datatype 'a ret = Returned 'a | Blocked

definition vcall :: "('fs, 'a) fs_call \<Rightarrow> ('fs, (fs_error + 'a) ret) eff" where
  "vcall m s =
     (case m (h_fs s) of
        (Ok a, fs) \<Rightarrow> Some (Returned (Inr a), s\<lparr>h_fs := fs\<rparr>)
      | (Err e, fs) \<Rightarrow> Some (Returned (Inl e), s\<lparr>h_fs := fs\<rparr>)
      | (Deadlock, fs) \<Rightarrow> Some (Blocked, s\<lparr>h_fs := fs\<rparr>)
      | (Panic, _) \<Rightarrow> None)"

text \<open>The code behind a call runs when it returns; a blocked goroutine stays where it is, with \<open>b\<close>
  in the place of a result: of a handler \<open>NeverReturns\<close>, which is no error of the Go code but says that
  there is no answer and will be none; of a part of a handler again \<open>Blocked\<close>.\<close>

definition on_return_else :: "'b \<Rightarrow> ('a ret \<times> 's) option \<Rightarrow> ('a \<times> 's \<Rightarrow> ('b \<times> 's) option) \<Rightarrow> ('b \<times> 's) option" where
  "on_return_else b x k =
     (case x of
        None \<Rightarrow> None
      | Some (Returned a, s) \<Rightarrow> k (a, s)
      | Some (Blocked, s) \<Rightarrow> Some (b, s))"

abbreviation on_return ::
  "('a ret \<times> 's) option \<Rightarrow> ('a \<times> 's \<Rightarrow> (srv_error option \<times> 's) option) \<Rightarrow> (srv_error option \<times> 's) option" where
  "on_return \<equiv> on_return_else (Some NeverReturns)"

abbreviation and_return ::
  "('a ret \<times> 's) option \<Rightarrow> ('a \<times> 's \<Rightarrow> ('b ret \<times> 's) option) \<Rightarrow> ('b ret \<times> 's) option" where
  "and_return \<equiv> on_return_else Blocked"

text \<open>\<open>t.session.conn\<close>: a tree connected before there was a session has a nil one.\<close>

definition session_conn :: "'fs fileTree \<Rightarrow> unit option" where
  "session_conn t = map_option (\<lambda>_. ()) (tc_session (ft_tree t))"

definition send_on :: "srv_config \<Rightarrow> treeConn option \<Rightarrow> packet \<Rightarrow> ('fs, srv_error option) eff" where
  "send_on cfg tc rsp s =
     do { (e, ctx, c) \<leftarrow> sendPacket (sc_lib cfg) rsp tc (h_ctx s) (h_conn s);
          Some (e, s\<lparr>h_ctx := ctx, h_conn := c\<rparr>) }"

definition send :: "srv_config \<Rightarrow> 'fs fileTree \<Rightarrow> packet \<Rightarrow> ('fs, srv_error option) eff" where
  "send cfg t rsp = send_on cfg (Some (ft_tree t)) rsp"

definition error_rsp :: "PacketHeader \<Rightarrow> packet" where
  "error_rsp hdr = ErrorPacket \<lparr>er_Header = hdr, er_ErrorData = None\<rparr>"

definition reply_error :: "srv_config \<Rightarrow> 'fs fileTree \<Rightarrow> slice \<Rightarrow> u32 \<Rightarrow> ('fs, srv_error option) eff" where
  "reply_error cfg t pkt status s =
     do { hdr \<leftarrow> PrepareResponse pkt status; send cfg t (error_rsp hdr) s }"

definition reply_async_error ::
  "srv_config \<Rightarrow> 'fs fileTree \<Rightarrow> slice \<Rightarrow> u64 \<Rightarrow> u32 \<Rightarrow> ('fs, srv_error option) eff" where
  "reply_async_error cfg t pkt asyncId status s =
     do { hdr \<leftarrow> PrepareAsyncResponse pkt asyncId status; send cfg t (error_rsp hdr) s }"

text \<open>The file a request is about: in a compound request the one its CREATE opened.\<close>

definition related_file :: "FileId \<Rightarrow> 'fs hst \<Rightarrow> FileId" where
  "related_file fid s =
     (case h_ctx s of None \<Rightarrow> fid
      | Some ctx \<Rightarrow> (case cx_fileId ctx of None \<Rightarrow> fid | Some f \<Rightarrow> f))"

definition request_file :: "slice option \<Rightarrow> 'fs hst \<Rightarrow> FileId option" where
  "request_file fid s =
     do { fid \<leftarrow> fid; f \<leftarrow> FileIdDecoder_Decode fid; Some (related_file f s) }"

definition ctx_status :: "'fs hst \<Rightarrow> u32" where
  "ctx_status s = (case h_ctx s of None \<Rightarrow> 0 | Some ctx \<Rightarrow> cx_lastStatus ctx)"

section \<open>Carrying a property through a handler\<close>

definition after :: "('s \<Rightarrow> bool) \<Rightarrow> ('a \<times> 's) option \<Rightarrow> bool" where
  "after P x \<longleftrightarrow> (\<forall>r s. x = Some (r, s) \<longrightarrow> P s)"

lemma afterD: "after P x \<Longrightarrow> x = Some (r, s) \<Longrightarrow> P s"
  by (simp add: after_def)

text \<open>The rules follow the text of a handler from its start. A step on the state keeps the
  property, any other value is computed beside it.\<close>

lemma after_pair: "after P x \<Longrightarrow> (\<And>r s. P s \<Longrightarrow> after P (f (r, s))) \<Longrightarrow> after P (Option.bind x f)"
  by (cases x) (auto simp: after_def)

lemma after_pure: "(\<And>a. after P (f a)) \<Longrightarrow> after P (Option.bind x f)"
  by (cases x) (auto simp: after_def)

lemma after_on_return: "after P x \<Longrightarrow> (\<And>r s. P s \<Longrightarrow> after P (f (r, s))) \<Longrightarrow> after P (on_return_else b x f)"
  by (auto simp: after_def on_return_else_def split: option.splits ret.splits)

lemma after_basic:
  "after P None"
  "P s \<Longrightarrow> after P (Some (res, s))"
  "after P x \<Longrightarrow> after P y \<Longrightarrow> after P (if cond then x else y)"
  "after P (k a b) \<Longrightarrow> after P (case (a, b) of (a, b) \<Rightarrow> k a b)"
  "after P x \<Longrightarrow> (\<And>a. after P (f a)) \<Longrightarrow> after P (case o1 of None \<Rightarrow> x | Some a \<Rightarrow> f a)"
  "(\<And>a. after P (g a)) \<Longrightarrow> (\<And>b. after P (h b)) \<Longrightarrow> after P (case r of Inl a \<Rightarrow> g a | Inr b \<Rightarrow> h b)"
  "(\<And>a b. after P (k a b)) \<Longrightarrow> after P (case p of (a, b) \<Rightarrow> k a b)"
  "after P (l v) \<Longrightarrow> after P (Let v l)"
  "P s \<Longrightarrow> after P (map_option (\<lambda>r. (g' r, s)) o2)"
  by (auto simp: after_def split: option.split sum.split prod.split)

text \<open>A property of the file system's state alone.\<close>

lemma after_send:
  "P (h_fs s) \<Longrightarrow> after (\<lambda>s. P (h_fs s)) (send_on cfg tc rsp s)"
  "P (h_fs s) \<Longrightarrow> after (\<lambda>s. P (h_fs s)) (send cfg t rsp s)"
  by (auto simp: after_def send_def send_on_def split: bind_splits)

lemma after_replies:
  "P (h_fs s) \<Longrightarrow> after (\<lambda>s. P (h_fs s)) (reply_error cfg t pkt status s)"
  "P (h_fs s) \<Longrightarrow> after (\<lambda>s. P (h_fs s)) (reply_async_error cfg t pkt asyncId status s)"
  unfolding reply_error_def reply_async_error_def by (rule after_pure, rule after_send(2), assumption)+

lemma after_vcall: "(P (h_fs s) \<Longrightarrow> P (snd (m (h_fs s)))) \<Longrightarrow> P (h_fs s) \<Longrightarrow> after (\<lambda>s. P (h_fs s)) (vcall m s)"
  by (auto simp: after_def vcall_def split: prod.splits outcome.splits)

lemma after_addOpen: "P (h_fs s) \<Longrightarrow> after (\<lambda>s. P (h_fs s)) (addOpen open s)"
  by (auto simp: after_def addOpen_def Let_def)

lemma h_fs_deleteOpen [simp]: "h_fs (deleteOpen fid s) = h_fs s"
  by (simp add: deleteOpen_def)

lemmas after_steps = after_basic(1,2) after_vcall after_send after_replies after_addOpen after_on_return after_pair after_pure
  after_basic(3,4,5,6,7,8,9)

end
