(* ===== verification/FileTreeCreate.thy ===== *)
theory FileTreeCreate
  imports FileTree
begin

text \<open>
  CREATE on a file tree (src/server/file_tree.go, lines 43 to 449): the disposition, the oplock,
  opening the file, alternate streams as extended attributes, the create contexts, and the entry
  in the table of opens.
\<close>

section \<open>Constants\<close>

definition FILE_SUPERSEDE :: u32 where "FILE_SUPERSEDE = 0"
definition FILE_OPEN :: u32 where "FILE_OPEN = 1"
definition FILE_CREATE :: u32 where "FILE_CREATE = 2"
definition FILE_OPEN_IF :: u32 where "FILE_OPEN_IF = 3"
definition FILE_OVERWRITE :: u32 where "FILE_OVERWRITE = 4"
definition FILE_OVERWRITE_IF :: u32 where "FILE_OVERWRITE_IF = 5"
definition FILE_SUPERSEDED :: u32 where "FILE_SUPERSEDED = 0"
definition FILE_OPENED :: u32 where "FILE_OPENED = 1"
definition FILE_CREATED :: u32 where "FILE_CREATED = 2"
definition FILE_OVERWRITTEN :: u32 where "FILE_OVERWRITTEN = 3"
definition FILE_DIRECTORY_FILE :: u32 where "FILE_DIRECTORY_FILE = 1"
definition FILE_OPEN_REPARSE_POINT :: u32 where "FILE_OPEN_REPARSE_POINT = 0x200000"
definition SMB2_OPLOCK_LEVEL_II :: u8 where "SMB2_OPLOCK_LEVEL_II = 1"
definition SMB2_OPLOCK_LEVEL_EXCLUSIVE :: u8 where "SMB2_OPLOCK_LEVEL_EXCLUSIVE = 8"
definition SMB2_OPLOCK_LEVEL_LEASE :: u8 where "SMB2_OPLOCK_LEVEL_LEASE = 0xFF"

lemmas create_consts = FILE_SUPERSEDE_def FILE_OPEN_def FILE_CREATE_def FILE_OPEN_IF_def FILE_OVERWRITE_def
  FILE_OVERWRITE_IF_def FILE_SUPERSEDED_def FILE_OPENED_def FILE_CREATED_def FILE_OVERWRITTEN_def
  FILE_DIRECTORY_FILE_def FILE_OPEN_REPARSE_POINT_def SMB2_OPLOCK_LEVEL_II_def
  SMB2_OPLOCK_LEVEL_EXCLUSIVE_def SMB2_OPLOCK_LEVEL_LEASE_def

text \<open>The open flags of package os on Linux, and two of file_tree.go.\<close>

definition O_RDWR :: int where "O_RDWR = 2"
definition O_CREATE :: int where "O_CREATE = 0x40"
definition O_EXCL :: int where "O_EXCL = 0x80"
definition O_TRUNC :: int where "O_TRUNC = 0x200"
definition O_SHLOCK :: int where "O_SHLOCK = 0x10"
definition O_EXLOCK :: int where "O_EXLOCK = 0x20"

section \<open>The disposition\<close>

text \<open>A status to refuse with, or the open flags, the action, whether it is a directory now, and
  whether \<open>Mkdir\<close> failed.\<close>

definition create_disposition ::
  "'fs fileTree \<Rightarrow> string \<Rightarrow> u32 \<Rightarrow> bool \<Rightarrow> bool \<Rightarrow> bool \<Rightarrow> ('fs, (u32 + int \<times> u32 \<times> bool \<times> bool) ret) eff" where
  "create_disposition t name d fileExists isDir createDir s =
     (let make = (\<lambda>flags action.
            and_return (vcall (v_Mkdir (ft_fs t) name 0x1FF) s) (\<lambda>(r, s).
              Some (Returned (Inr (flags, action, True, case r of Inl _ \<Rightarrow> True | Inr _ \<Rightarrow> False)), s)))
      in if d = FILE_OPEN_IF then
           (let action = (if fileExists then FILE_OPENED else FILE_CREATED)
            in if \<not> fileExists \<and> createDir then make O_CREATE action
               else Some (Returned (Inr (O_CREATE, action, isDir, False)), s))
         else if d = FILE_OPEN then
           (if \<not> fileExists then Some (Returned (Inl STATUS_NO_SUCH_FILE), s)
            else Some (Returned (Inr (0, FILE_OPENED, isDir, False)), s))
         else if d = FILE_CREATE then
           (if fileExists then Some (Returned (Inl STATUS_OBJECT_NAME_EXISTS), s)
            else if createDir then make (O_CREATE OR O_EXCL) FILE_CREATED
            else Some (Returned (Inr (O_CREATE OR O_EXCL, FILE_CREATED, isDir, False)), s))
         else if d = FILE_OVERWRITE then
           (if \<not> fileExists then Some (Returned (Inl STATUS_NO_SUCH_FILE), s)
            else Some (Returned (Inr (O_CREATE OR O_TRUNC, FILE_OVERWRITTEN, isDir, False)), s))
         else if d = FILE_OVERWRITE_IF then
           Some (Returned (Inr (O_CREATE OR O_TRUNC, if fileExists then FILE_OVERWRITTEN else FILE_CREATED, isDir, False)), s)
         else if d = FILE_SUPERSEDE then
           Some (Returned (Inr (O_CREATE, if fileExists then FILE_SUPERSEDED else FILE_CREATED, isDir, False)), s)
         else Some (Returned (Inr (0, FILE_OPENED, isDir, False)), s))"

text \<open>The oplock granted, with the flag it adds.\<close>

definition create_oplock :: "u8 \<Rightarrow> u8 \<times> OpLockState \<times> int" where
  "create_oplock level =
     (if level = SMB2_OPLOCK_LEVEL_II then (level, LOCKSTATE_HELD, O_SHLOCK)
      else if level = SMB2_OPLOCK_LEVEL_EXCLUSIVE then (level, LOCKSTATE_HELD, O_EXLOCK)
      else if level = SMB2_OPLOCK_LEVEL_LEASE then (level, LOCKSTATE_NONE, 0)
      else (0, LOCKSTATE_NONE, 0))"

definition create_open_file ::
  "'fs fileTree \<Rightarrow> string \<Rightarrow> int \<Rightarrow> u32 \<Rightarrow> u32 \<Rightarrow> bool \<Rightarrow> bool \<Rightarrow> ('fs, (fs_error + u64) ret) eff" where
  "create_open_file t name flags access options isDir isEA s =
     (if isDir then vcall (v_OpenDir (ft_fs t) name) s
      else (let flags = (if access AND (FILE_WRITE_DATA OR GENERIC_WRITE) \<noteq> 0 then flags OR O_RDWR else flags);
                flags = (if isEA then 0 else flags);
                flags = (if options AND FILE_OPEN_REPARSE_POINT \<noteq> 0 then flags OR 0x200000 else flags)
            in vcall (v_Open (ft_fs t) name flags 0x1A4) s))"

section \<open>Alternate streams\<close>

text \<open>The status, and whether there was an error.\<close>

definition handleCreateEA :: "'fs fileTree \<Rightarrow> u32 \<Rightarrow> u64 \<Rightarrow> string \<Rightarrow> ('fs, (u32 \<times> bool) ret) eff" where
  "handleCreateEA t disp h eaKey s =
     (if eaKey = ''AFP_AfpInfo'' then Some (Returned (0, False), s)
      else (let put_ea = (\<lambda>s. and_return (vcall (v_Setxattr (ft_fs t) h eaKey None) s) (\<lambda>(r, s).
                  Some (Returned (case r of Inl _ \<Rightarrow> (STATUS_OPEN_FAILED, True) | Inr _ \<Rightarrow> (0, False)), s)));
                get_ea = vcall (v_Getxattr (ft_fs t) h eaKey None)
            in if disp = FILE_OPEN_IF then
                 and_return (get_ea s) (\<lambda>(r, s).
                   case r of Inl _ \<Rightarrow> put_ea s | Inr _ \<Rightarrow> Some (Returned (0, False), s))
               else if disp = FILE_OPEN then
                 and_return (get_ea s) (\<lambda>(r, s).
                   Some (Returned (case r of Inl _ \<Rightarrow> (STATUS_OBJECT_NAME_NOT_FOUND, True) | Inr _ \<Rightarrow> (0, False)), s))
               else if disp = FILE_CREATE then
                 and_return (get_ea s) (\<lambda>(r, s).
                   case r of Inr _ \<Rightarrow> Some (Returned (STATUS_OBJECT_NAME_EXISTS, True), s) | Inl _ \<Rightarrow> put_ea s)
               else if disp = FILE_OVERWRITE then
                 and_return (get_ea s) (\<lambda>(r, s). and_return (put_ea s) (\<lambda>((status, err), s).
                   Some (Returned (if err then STATUS_OPEN_FAILED
                     else case r of Inl _ \<Rightarrow> STATUS_OBJECT_NAME_NOT_FOUND | Inr _ \<Rightarrow> 0, err), s)))
               else if disp = FILE_SUPERSEDE \<or> disp = FILE_OVERWRITE_IF then put_ea s
               else Some (Returned (0, False), s)))"

section \<open>Create contexts\<close>

definition of_context :: "string \<Rightarrow> enc \<Rightarrow> enc" where
  "of_context name d =
     (let c = \<lparr>cx_Name = map of_char name, cx_Data = d\<rparr>
      in \<lparr>en_size = CreateContext_Size c, en_encode = CreateContext_Encode c\<rparr>)"

definition handleMaxAccessCC :: "Attributes \<Rightarrow> enc" where
  "handleMaxAccessCC attrs =
     (let r = \<lparr>ma_QueryStatus = 0, ma_MaximalAccess = MaxAccessFromVfs attrs\<rparr>
      in of_context ''MxAc'' \<lparr>en_size = CreateContextMaximalAccessResponse_Size r,
           en_encode = CreateContextMaximalAccessResponse_Encode r\<rparr>)"

text \<open>Only the server query is answered; every other command is an error, \<open>None\<close> inside.\<close>

definition handleAAPLCC :: "slice \<Rightarrow> enc option option" where
  "handleAAPLCC pkt =
     do { code \<leftarrow> AAPLServerQueryRequestDecoder_CommandCode pkt;
          if code \<noteq> 1 then Some None
          else (let r = \<lparr>aq_CommandCode = 1, aq_ReplyBitmap = 7, aq_ServerCaps = 13, aq_VolumeCaps = 6,
                          aq_ModelString = go_runes ''CloudMachine''\<rparr>
                in Some (Some (of_context ''AAPL'' \<lparr>en_size = AAPLServerQueryResponse_Size r,
                     en_encode = AAPLServerQueryResponse_Encode r\<rparr>))) }"

definition serverDurableHandleTimeout :: u32 where "serverDurableHandleTimeout = 60000"

definition handleDH2Q :: "slice \<Rightarrow> Open_record \<Rightarrow> (enc \<times> Open_record) option" where
  "handleDH2Q pkt open =
     do { timeout \<leftarrow> DurableHandleRequest2Decoder_Timeout pkt;
          let timeout = (if timeout = 0 then serverDurableHandleTimeout else timeout);
          flags \<leftarrow> DurableHandleRequest2Decoder_Flags pkt;
          guid \<leftarrow> DurableHandleRequest2Decoder_CreateGuid pkt;
          let persistent = (flags AND 2 \<noteq> 0);
          let r = \<lparr>dh_Timeout = timeout, dh_Flags = flags\<rparr>;
          Some (of_context ''DH2Q'' \<lparr>en_size = DurableHandleResponse2_Size r, en_encode = DurableHandleResponse2_Encode r\<rparr>,
            open\<lparr>op_isPersistent := persistent, op_isDurable := persistent,
              op_durableOpenTimeout := uint timeout * 1000000,
              op_createGuid := copy_at 0 (sbytes guid) (op_createGuid open)\<rparr>) }"

definition handleRqLs :: "slice \<Rightarrow> enc option" where
  "handleRqLs pkt =
     (if slen pkt = 32
      then do { st \<leftarrow> LeaseRequestDecoder_LeaseState pkt; fl \<leftarrow> LeaseRequestDecoder_LeaseFlags pkt;
                du \<leftarrow> LeaseRequestDecoder_LeaseDuration pkt;
                let r = \<lparr>ls_LeaseKey = LeaseRequestDecoder_LeaseKey pkt, ls_LeaseState = st,
                         ls_LeaseFlags = fl, ls_LeaseDuration = du\<rparr>;
                Some (of_context ''RqLs'' \<lparr>en_size = LeaseResponse_Size r, en_encode = LeaseResponse_Encode r\<rparr>) }
      else do { st \<leftarrow> LeaseRequest2Decoder_LeaseState pkt; fl \<leftarrow> LeaseRequest2Decoder_LeaseFlags pkt;
                du \<leftarrow> LeaseRequest2Decoder_LeaseDuration pkt;
                pk \<leftarrow> LeaseRequest2Decoder_ParentLeaseKey pkt;
                let r = \<lparr>l2_LeaseResponse = \<lparr>ls_LeaseKey = LeaseRequest2Decoder_LeaseKey pkt,
                           ls_LeaseState = st, ls_LeaseFlags = fl, ls_LeaseDuration = du\<rparr>,
                         l2_ParentLeaseKey = pk, l2_Epoch = 1\<rparr>;
                Some (of_context ''RqLs'' \<lparr>en_size = LeaseResponse2_Size r, en_encode = LeaseResponse2_Encode r\<rparr>) })"

text \<open>The error of \<open>GetAttr\<close> is dropped and its nil result dereferenced.\<close>

definition handleQFid :: "'fs fileTree \<Rightarrow> Open_record \<Rightarrow> ('fs, enc ret) eff" where
  "handleQFid t open s =
     and_return (vcall (v_GetAttr (ft_fs t) 0) s) (\<lambda>(r, s).
       case r of
         Inl _ \<Rightarrow> None
       | Inr a \<Rightarrow> do { ino \<leftarrow> GetInodeNumber a;
                       let d = \<lparr>di_DiskFileId = op_durableFileId open, di_VolumeId = ino\<rparr>;
                       Some (Returned (of_context ''QFid''
                         \<lparr>en_size = DiskIdResponse_Size d, en_encode = DiskIdResponse_Encode d\<rparr>), s) })"

definition create_context ::
  "'fs fileTree \<Rightarrow> Attributes \<Rightarrow> slice \<Rightarrow> enc list \<times> Open_record \<Rightarrow> ('fs, (enc list \<times> Open_record) ret) eff" where
  "create_context t attrs res st s =
     (let (cs, open) = st in
      do { name \<leftarrow> CreateContextDecoder_Name res;
           if name = map of_char ''MxAc'' then Some (Returned (cs @ [handleMaxAccessCC attrs], open), s)
           else if name = map of_char ''AAPL'' then
             do { b \<leftarrow> CreateContextDecoder_Buffer res;
                  e \<leftarrow> handleAAPLCC b;
                  Some (Returned (case e of None \<Rightarrow> cs | Some c \<Rightarrow> cs @ [c], open), s\<lparr>h_aapl := True\<rparr>) }
           else if name = map of_char ''DH2Q'' then
             do { b \<leftarrow> CreateContextDecoder_Buffer res;
                  (c, open) \<leftarrow> handleDH2Q b open;
                  Some (Returned (cs @ [c], open), s) }
           else if name = map of_char ''RqLs'' then
             do { b \<leftarrow> CreateContextDecoder_Buffer res;
                  c \<leftarrow> handleRqLs b;
                  Some (Returned (cs @ [c], open), s) }
           else if name = map of_char ''QFid'' then
             do { _ \<leftarrow> CreateContextDecoder_Buffer res;
                  and_return (handleQFid t open s) (\<lambda>(c, s). Some (Returned (cs @ [c], open), s)) }
           else Some (Returned (cs, open), s) })"

function create_contexts_loop ::
  "'fs fileTree \<Rightarrow> Attributes \<Rightarrow> slice \<Rightarrow> enc list \<times> Open_record \<Rightarrow> ('fs, (enc list \<times> Open_record) ret) eff" where
  "create_contexts_loop t attrs cc st s =
     (if slen cc = 0 then Some (Returned st, s)
      else and_return (create_context t attrs cc st s) (\<lambda>(st, s).
        do { nxt \<leftarrow> CreateContextDecoder_Next cc;
             if nxt = 0 then Some (Returned st, s)
             else (case sfrom (unat nxt) cc of
                     None \<Rightarrow> None
                   | Some cc' \<Rightarrow> create_contexts_loop t attrs cc' st s) }))"
  by pat_completeness auto
termination
  by (relation "measure (\<lambda>(t, attrs, cc, st, s). slen cc)") (auto simp: unat_gt_0 intro: sfrom_shorter)

declare create_contexts_loop.simps [simp del]

section \<open>The handler\<close>

text \<open>The size of what was opened: of the file, or of the stream's value.\<close>

definition created_sizes :: "'fs fileTree \<Rightarrow> Attributes \<Rightarrow> u64 \<Rightarrow> bool \<Rightarrow> string \<Rightarrow> ('fs, (int \<times> int) ret) eff" where
  "created_sizes t attrs h isEA eaKey s =
     (if \<not> isEA then Some (Returned (sint (SizeFromVfs attrs), sint (DiskSizeFromVfs attrs)), s)
      else and_return (vcall (v_Getxattr (ft_fs t) h eaKey None) s) (\<lambda>(r, s).
        let n = (case r of Inl _ \<Rightarrow> 0 | Inr (n, _) \<Rightarrow> int n) in Some (Returned (n, n), s)))"

definition set_ctx_file :: "FileId \<Rightarrow> 'fs hst \<Rightarrow> 'fs hst" where
  "set_ctx_file f s = s\<lparr>h_ctx := map_option (\<lambda>ctx. ctx\<lparr>cx_fileId := Some f\<rparr>) (h_ctx s)\<rparr>"

text \<open>From the successful open to the answer.\<close>

definition create_finish ::
  "srv_config \<Rightarrow> 'fs fileTree \<Rightarrow> slice \<Rightarrow> slice \<Rightarrow> string \<Rightarrow> bool \<Rightarrow> string \<Rightarrow> bool \<Rightarrow> u32 \<Rightarrow> u8 \<times> OpLockState \<Rightarrow>
   u64 \<Rightarrow> Attributes \<Rightarrow> ('fs, srv_error option) eff" where
  "create_finish cfg t pkt r name isEA eaKey isSymlink action lock h attrs s =
     do { hdr \<leftarrow> PrepareResponse pkt 0;
          d \<leftarrow> CreateRequestDecoder_CreateDisposition r;
          access \<leftarrow> CreateRequestDecoder_DesiredAccess r;
          options \<leftarrow> CreateRequestDecoder_CreateOptions r;
          node \<leftarrow> GetInodeNumber attrs;
          perm \<leftarrow> PermissionsFromVfs attrs name;
          let fid = SetNodeId node (SetHandleId h \<lparr>fid_Persistent = replicate 8 0, fid_Volatile = replicate 8 0\<rparr>);
          on_return (created_sizes t attrs h isEA eaKey s) (\<lambda>((eof, alloc_size), s). do {
          let open = \<lparr>op_fileId = HandleId fid, op_durableFileId = NodeId fid,
                op_session = tc_session (ft_tree t), op_tree = ft_tree t, op_grantedAccess = access,
                op_oplockLevel = fst lock, op_oplockState = snd lock, op_isDurable = False,
                op_durableOpenTimeout = 0, op_pathName = name, op_createOptions = options,
                op_createDisposition = d, op_fileAttributes = perm, op_isEa = isEA, op_eaKey = eaKey,
                op_isSymlink = isSymlink, op_createGuid = replicate 16 0, op_isPersistent = False\<rparr>;
          cc \<leftarrow> CreateRequestDecoder_CreateContexts r;
          on_return (create_contexts_loop t attrs cc ([], open) s) (\<lambda>((cs, open), s). do {
          (_, s) \<leftarrow> addOpen open (set_ctx_file fid s);
          send cfg t (CreatePacket \<lparr>cp_Header = hdr, cp_OplockLevel = fst lock, cp_RspFlags = 0,
             cp_CreateAction = action, cp_CreationTime = Some (BirthTimeFromVfs attrs),
             cp_LastAccessTime = Some (AccessTimeFromVfs attrs),
             cp_LastWriteTime = Some (ModifiedTimeFromVfs attrs),
             cp_ChangeTime = Some (ChangeTimeFromVfs attrs), cp_AllocationSize = alloc_size,
             cp_EndofFile = eof, cp_FileAttributes = perm, cp_FileId = Some fid, cp_Contexts = cs\<rparr>) s }) }) }"

text \<open>The name in the request: an empty one is the root, a backslash a slash.\<close>

definition request_name :: "rune list \<Rightarrow> string" where
  "request_name name = (if name = [] then ''/'' else replace_char backslash CHR ''/'' (go_string name))"

text \<open>What \<open>Lookup\<close> of the name says: its attributes if it is there.\<close>

definition is_type :: "FileType \<Rightarrow> Attributes option \<Rightarrow> bool option" where
  "is_type ty attrs = (case attrs of None \<Rightarrow> Some False | Some a \<Rightarrow> map_option (\<lambda>x. x = ty) (GetFileType a))"

definition create :: "srv_config \<Rightarrow> 'fs fileTree \<Rightarrow> slice \<Rightarrow> ('fs, srv_error option) eff" where
  "create cfg t pkt s =
     do { _ \<leftarrow> session_conn t;
          (r, err) \<leftarrow> accept SMB2_CREATE pkt;
          if err \<noteq> None then Some (err, s)
          else do { bad \<leftarrow> CreateRequestDecoder_IsInvalid r;
          if bad then Some (Some InvalidRequestError, s)
          else do { runes \<leftarrow> CreateRequestDecoder_Name r;
          let name = request_name runes;
          let isEA = IsEA name;
          (name, eaKey) \<leftarrow> (if isEA then SplitEA name else Some (name, []));
          on_return (vcall (v_Lookup (ft_fs t) 0 name) s) (\<lambda>(look, s). do {
          let attrs = (case look of Inl _ \<Rightarrow> None | Inr a \<Rightarrow> Some a);
          let fileExists = (attrs \<noteq> None);
          isDir \<leftarrow> is_type FileTypeDirectory attrs;
          options \<leftarrow> CreateRequestDecoder_CreateOptions r;
          let createDir = (options AND FILE_DIRECTORY_FILE \<noteq> 0);
          link \<leftarrow> is_type FileTypeSymlink attrs;
          let isSymlink = (link \<and> options AND FILE_OPEN_REPARSE_POINT = 0);
          d \<leftarrow> CreateRequestDecoder_CreateDisposition r;
          if fileExists \<and> \<not> isDir \<and> createDir
          then reply_error cfg t pkt (if d \<noteq> FILE_CREATE then STATUS_NOT_A_DIRECTORY else STATUS_OBJECT_NAME_COLLISION) s
          else if isEA \<and> \<not> fileExists then reply_error cfg t pkt STATUS_NO_SUCH_FILE s
          else do { on_return (create_disposition t name d fileExists isDir createDir s) (\<lambda>(disp, s). do {
          case disp of
            Inl status \<Rightarrow> reply_error cfg t pkt status s
          | Inr (flags, action, isDir, failed) \<Rightarrow>
              if failed then reply_error cfg t pkt STATUS_ACCESS_DENIED s
              else do { level \<leftarrow> CreateRequestDecoder_RequestedOplockLevel r;
              let (lockLevel, lockState, lockFlag) = create_oplock level;
              access \<leftarrow> CreateRequestDecoder_DesiredAccess r;
              on_return (create_open_file t name (flags OR lockFlag) access options isDir isEA s) (\<lambda>(opened, s). do {
          case opened of
                Inl _ \<Rightarrow> reply_error cfg t pkt STATUS_ACCESS_DENIED s
              | Inr h \<Rightarrow>
                  do { on_return (vcall (v_GetAttr (ft_fs t) h) s) (\<lambda>(got, s). do {
          case got of
                    Inl _ \<Rightarrow> reply_error cfg t pkt STATUS_ACCESS_DENIED s
                  | Inr attrs \<Rightarrow>
                      do { on_return (if isEA then handleCreateEA t d h eaKey s else Some (Returned (0, False), s)) (\<lambda>((status, failed), s). do {
          if failed then do { on_return (vcall (v_Close (ft_fs t) h) s) (\<lambda>(_, s). do {
          reply_error cfg t pkt status s }) }
                           else create_finish cfg t pkt r name isEA eaKey isSymlink action
                                  (lockLevel, lockState) h attrs s }) } }) } }) } }) } }) } } }"

end
