(* ===== verification/FileTreeIo.thy ===== *)
theory FileTreeIo
  imports FileTreeCreate InfoFs
begin

text \<open>
  The handlers of src/server/file_tree.go that work on an open file: CLOSE, FLUSH, READ, WRITE,
  LOCK, IOCTL, CANCEL, CHANGE_NOTIFY and the oplock break. READ and WRITE outside a compound
  request hand the work to a goroutine, a \<open>job\<close> here: it first answers that it is pending.
\<close>

definition SMB2_CLOSE_FLAG_POSTQUERY_ATTRIB :: u16 where "SMB2_CLOSE_FLAG_POSTQUERY_ATTRIB = 1"
definition FSCTL_SET_REPARSE_POINT :: u32 where "FSCTL_SET_REPARSE_POINT = 0x900A4"
definition FSCTL_GET_REPARSE_POINT :: u32 where "FSCTL_GET_REPARSE_POINT = 0x900A8"
definition FSCTL_DELETE_REPARSE_POINT :: u32 where "FSCTL_DELETE_REPARSE_POINT = 0x900AC"
definition FSCTL_CREATE_OR_GET_OBJECT_ID :: u32 where "FSCTL_CREATE_OR_GET_OBJECT_ID = 0x900C0"

lemmas fsctl_codes = FSCTL_SET_REPARSE_POINT_def FSCTL_GET_REPARSE_POINT_def
  FSCTL_DELETE_REPARSE_POINT_def FSCTL_CREATE_OR_GET_OBJECT_ID_def

section \<open>CLOSE and FLUSH\<close>

definition close_attributes :: "CloseResponse \<Rightarrow> Attributes \<Rightarrow> string \<Rightarrow> CloseResponse option" where
  "close_attributes rsp a p =
     do { perm \<leftarrow> PermissionsFromVfs a p;
          Some (rsp\<lparr>cs_CloseFlags := SMB2_CLOSE_FLAG_POSTQUERY_ATTRIB,
            cs_CreationTime := Some (BirthTimeFromVfs a), cs_LastAccessTime := Some (AccessTimeFromVfs a),
            cs_LastWriteTime := Some (ModifiedTimeFromVfs a), cs_ChangeTime := Some (ChangeTimeFromVfs a),
            cs_EndofFile := sint (SizeFromVfs a), cs_AllocationSize := sint (DiskSizeFromVfs a),
            cs_FileAttributes := perm\<rparr>) }"

text \<open>The attributes a client asked for with the close; the errors leave the fields zero.\<close>

definition close_query :: "'fs fileTree \<Rightarrow> FileId \<Rightarrow> CloseResponse \<Rightarrow> u16 \<Rightarrow> ('fs, CloseResponse ret) eff" where
  "close_query t fid rsp flags s =
     (if flags AND SMB2_CLOSE_FLAG_POSTQUERY_ATTRIB = 0 then Some (Returned rsp, s)
      else and_return (vcall (v_GetAttr (ft_fs t) (HandleId fid)) s) (\<lambda>(a, s).
        case a of
          Inl _ \<Rightarrow> Some (Returned rsp, s)
        | Inr a \<Rightarrow>
            (case getOpen (HandleId fid) s of
               None \<Rightarrow> Some (Returned rsp, s)
             | Some open \<Rightarrow> map_option (\<lambda>rsp. (Returned rsp, s)) (close_attributes rsp a (op_pathName open)))))"

definition close :: "srv_config \<Rightarrow> 'fs fileTree \<Rightarrow> slice \<Rightarrow> ('fs, srv_error option) eff" where
  "close cfg t pkt s =
     do { _ \<leftarrow> session_conn t;
          (r, err) \<leftarrow> accept SMB2_CLOSE pkt;
          if err \<noteq> None then Some (err, s)
          else do { bad \<leftarrow> CloseRequestDecoder_IsInvalid r;
          if bad then Some (Some InvalidRequestError, s)
          else do { fid \<leftarrow> request_file (CloseRequestDecoder_FileId r) s;
          let status = (case h_ctx s of None \<Rightarrow> 0
                        | Some ctx \<Rightarrow> if cx_fileId ctx = None then 0 else cx_lastStatus ctx);
          if IsInvalidFileId (Some fid) then reply_error cfg t pkt STATUS_INVALID_HANDLE s
          else do { hdr \<leftarrow> PrepareResponse pkt 0;
          let rsp = \<lparr>cs_Header = hdr\<lparr>ph_Status := status\<rparr>, cs_CloseFlags = 0, cs_CreationTime = None,
                cs_LastAccessTime = None, cs_LastWriteTime = None, cs_ChangeTime = None,
                cs_AllocationSize = 0, cs_EndofFile = 0, cs_FileAttributes = 0\<rparr>;
          flags \<leftarrow> CloseRequestDecoder_Flags r;
          on_return (close_query t fid rsp flags s) (\<lambda>(rsp, s). do {
          let s = deleteOpen (HandleId fid) s;
          on_return (vcall (v_Close (ft_fs t) (HandleId fid)) s) (\<lambda>(_, s). do {
          send cfg t (ClosePacket rsp) s }) }) } } } }"

text \<open>From here on the handlers drop the error of \<open>accept\<close> and do not check the body: on a short
  one the accessors panic.\<close>

definition flush :: "srv_config \<Rightarrow> 'fs fileTree \<Rightarrow> slice \<Rightarrow> ('fs, srv_error option) eff" where
  "flush cfg t pkt s =
     do { _ \<leftarrow> session_conn t;
          (r, _) \<leftarrow> accept SMB2_FLUSH pkt;
          fid \<leftarrow> request_file (FlushRequestDecoder_FileId r) s;
          if IsInvalidFileId (Some fid) then reply_error cfg t pkt STATUS_INVALID_HANDLE s
          else do { on_return (vcall (v_Flush (ft_fs t) (HandleId fid)) s) (\<lambda>(_, s). do {
          hdr \<leftarrow> PrepareResponse pkt 0;
                    send cfg t (FlushPacket \<lparr>fr_Header = hdr\<rparr>) s }) } }"

section \<open>READ\<close>

definition afp_info :: AfpInfo where
  "afp_info = \<lparr>afp_Signature = map of_char ''AFP_'', afp_Version = [0, 1, 0, 0],
     afp_FileBitmap = replicate 4 0, afp_Reserved1 = replicate 4 0, afp_FinderInfo = replicate 32 0,
     afp_ProDOSInfo = replicate 6 0, afp_Reserved2 = replicate 6 0\<rparr>"

definition read_rsp :: "PacketHeader \<Rightarrow> bytes \<Rightarrow> packet" where
  "read_rsp hdr data = ReadPacket \<lparr>rr_Header = hdr, rr_Data = data, rr_DataRemaining = 0\<rparr>"

text \<open>\<open>len\<close> is the length of the buffer, which the file system fills from its start.\<close>

definition readEA ::
  "srv_config \<Rightarrow> 'fs fileTree \<Rightarrow> FileId \<Rightarrow> Open_record \<Rightarrow> nat \<Rightarrow> slice \<Rightarrow> ('fs, srv_error option) eff" where
  "readEA cfg t fid open len pkt s =
     do { on_return (vcall (v_Getxattr (ft_fs t) (HandleId fid) (op_eaKey open) (Some len)) s) (\<lambda>(r, s). do {
          let status = (case r of Inl _ \<Rightarrow> STATUS_ACCESS_DENIED
                        | Inr (n, _) \<Rightarrow> if n = 0 then STATUS_END_OF_FILE else 0);
          let buf = (case r of Inl _ \<Rightarrow> replicate len 0 | Inr (_, b) \<Rightarrow> copy_at 0 b (replicate len 0));
          if status \<noteq> 0 \<and> \<not> (op_eaKey open = ''AFP_AfpInfo'' \<and> len = 60)
          then reply_error cfg t pkt status s
          else do { (n, buf) \<leftarrow>
                      (if status \<noteq> 0 then map_option (\<lambda>b. (60, b)) (AfpInfo_Encode afp_info buf)
                       else Some (case r of Inl _ \<Rightarrow> 0 | Inr (n, _) \<Rightarrow> n, buf));
                    hdr \<leftarrow> PrepareResponse pkt 0;
                    if length buf < n then None else send cfg t (read_rsp hdr (take n buf)) s } }) }"

definition readImpl ::
  "srv_config \<Rightarrow> 'fs fileTree \<Rightarrow> slice \<Rightarrow> FileId \<Rightarrow> Open_record \<Rightarrow> u64 \<Rightarrow> ('fs, srv_error option) eff" where
  "readImpl cfg t pkt fid open asyncId s =
     do { _ \<leftarrow> session_conn t;
          (r, _) \<leftarrow> accept SMB2_READ pkt;
          len \<leftarrow> ReadRequestDecoder_Length r;
          if op_isEa open then readEA cfg t fid open (unat len) pkt s
          else do { off \<leftarrow> ReadRequestDecoder_Offset r;
          on_return (vcall (v_Read (ft_fs t) (HandleId fid) (unat len) off 0) s) (\<lambda>(got, s). do {
          let (data, err) = (case got of Inl e \<Rightarrow> ([], Some e) | Inr x \<Rightarrow> x);
          if err \<noteq> None \<and> data = []
          then reply_async_error cfg t pkt asyncId
                 (if err = Some EndOfFile then STATUS_END_OF_FILE else STATUS_ACCESS_DENIED) s
          else do { hdr \<leftarrow> PrepareAsyncResponse pkt asyncId 0;
                    if unat len < length data then None else send cfg t (read_rsp hdr data) s } }) } }"

definition start_job :: "job \<Rightarrow> 'fs hst \<Rightarrow> 'fs hst" where
  "start_job j s = s\<lparr>h_jobs := h_jobs s @ [j]\<rparr>"

definition random_id :: "('fs, u64) eff" where
  "random_id s = (let (n, c) = randint64 (h_conn s) in Some (n, s\<lparr>h_conn := c\<rparr>))"

definition read :: "srv_config \<Rightarrow> 'fs fileTree \<Rightarrow> slice \<Rightarrow> ('fs, srv_error option) eff" where
  "read cfg t pkt s =
     do { _ \<leftarrow> session_conn t;
          (r, _) \<leftarrow> accept SMB2_READ pkt;
          fid \<leftarrow> request_file (ReadRequestDecoder_FileId r) s;
          if IsInvalidFileId (Some fid) then reply_error cfg t pkt STATUS_INVALID_HANDLE s
          else (case getOpen (HandleId fid) s of
                  None \<Rightarrow> reply_error cfg t pkt STATUS_INVALID_HANDLE s
                | Some open \<Rightarrow>
                    do { (asyncId, s) \<leftarrow> random_id s;
                         if h_ctx s \<noteq> None \<or> op_isEa open then readImpl cfg t pkt fid open 0 s
                         else Some (None, start_job \<lparr>jb_write = False, jb_pkt = pkt, jb_fileId = fid,
                                jb_open = open, jb_asyncId = asyncId, jb_started = False\<rparr> s) }) }"

section \<open>WRITE\<close>

text \<open>The name of the user is never set.\<close>

definition operation_context :: "srv_config \<Rightarrow> 'fs fileTree \<Rightarrow> 'fs hst \<Rightarrow> OperationContext option" where
  "operation_context cfg t s =
     map_option (\<lambda>se. \<lparr>oc_RemoteAddr = sc_remoteAddr cfg, oc_LocalAddr = sc_localAddr cfg,
       oc_SessionID = se_sessionId se, oc_Username = cn_username (h_conn s)\<rparr>) (tc_session (ft_tree t))"

definition set_operation_context :: "'fs fileTree \<Rightarrow> OperationContext option \<Rightarrow> 'fs hst \<Rightarrow> 'fs hst" where
  "set_operation_context t ctx s =
     (case v_SetOperationContext (ft_fs t) of None \<Rightarrow> s | Some f \<Rightarrow> s\<lparr>h_fs := f ctx (h_fs s)\<rparr>)"

text \<open>Into the stream of an extended attribute, or the file: how much was written, and whether there
  was an error.\<close>

definition write_data :: "'fs fileTree \<Rightarrow> slice \<Rightarrow> FileId \<Rightarrow> Open_record \<Rightarrow> slice \<Rightarrow> ('fs, (nat \<times> bool) ret) eff" where
  "write_data t r fid open data s =
     (if op_isEa open
      then and_return (vcall (v_Setxattr (ft_fs t) (HandleId fid) (op_eaKey open) (Some (sbytes data))) s)
             (\<lambda>(_, s). Some (Returned (slen data, False), s))
      else do { off \<leftarrow> WriteRequestDecoder_Offset r;
                flags \<leftarrow> WriteRequestDecoder_Flags r;
                and_return (vcall (v_Write (ft_fs t) (HandleId fid) (sbytes data) off (uint flags)) s)
                  (\<lambda>(w, s). Some (Returned (case w of Inl _ \<Rightarrow> (0, True) | Inr n \<Rightarrow> (n, False)), s)) })"

definition writeImpl ::
  "srv_config \<Rightarrow> 'fs fileTree \<Rightarrow> slice \<Rightarrow> FileId \<Rightarrow> Open_record \<Rightarrow> u64 \<Rightarrow> ('fs, srv_error option) eff" where
  "writeImpl cfg t pkt fid open asyncId s =
     do { _ \<leftarrow> session_conn t;
          (r, _) \<leftarrow> accept SMB2_WRITE pkt;
          let s = set_operation_context t (operation_context cfg t s) s;
          data \<leftarrow> WriteRequestDecoder_Data r;
          on_return (write_data t r fid open data s) (\<lambda>((n, failed), s). do {
          (e, s) \<leftarrow>
            (if failed \<or> n = 0 then reply_async_error cfg t pkt asyncId STATUS_IO_DEVICE_ERROR s
             else do { hdr \<leftarrow> PrepareAsyncResponse pkt asyncId 0;
                       send cfg t (WritePacket \<lparr>wp_Header = hdr, wp_Count = of_nat n, wp_Remaining = 0\<rparr>) s });
          Some (e, set_operation_context t None s) }) }"

definition tree_write :: "srv_config \<Rightarrow> 'fs fileTree \<Rightarrow> slice \<Rightarrow> ('fs, srv_error option) eff" where
  "tree_write cfg t pkt s =
     do { _ \<leftarrow> session_conn t;
          (r, _) \<leftarrow> accept SMB2_WRITE pkt;
          fid \<leftarrow> request_file (WriteRequestDecoder_FileId r) s;
          if IsInvalidFileId (Some fid) then reply_error cfg t pkt STATUS_INVALID_HANDLE s
          else (case getOpen (HandleId fid) s of
                  None \<Rightarrow> reply_error cfg t pkt STATUS_INVALID_HANDLE s
                | Some open \<Rightarrow>
                    do { (asyncId, s) \<leftarrow> random_id s;
                         if h_ctx s \<noteq> None \<or> op_isEa open then writeImpl cfg t pkt fid open 0 s
                         else Some (None, start_job \<lparr>jb_write = True, jb_pkt = pkt, jb_fileId = fid,
                                jb_open = open, jb_asyncId = asyncId, jb_started = False\<rparr> s) }) }"

text \<open>The two parts of a goroutine: behind the semaphore it answers that it is pending, then does
  the work. It has no compound context; its errors are dropped.\<close>

definition job_pending :: "srv_config \<Rightarrow> 'fs fileTree \<Rightarrow> job \<Rightarrow> ('fs, srv_error option) eff" where
  "job_pending cfg t j s = reply_async_error cfg t (jb_pkt j) (jb_asyncId j) STATUS_PENDING (s\<lparr>h_ctx := None\<rparr>)"

definition job_work :: "srv_config \<Rightarrow> 'fs fileTree \<Rightarrow> job \<Rightarrow> ('fs, srv_error option) eff" where
  "job_work cfg t j s =
     (if jb_write j then writeImpl cfg t (jb_pkt j) (jb_fileId j) (jb_open j) (jb_asyncId j) (s\<lparr>h_ctx := None\<rparr>)
      else readImpl cfg t (jb_pkt j) (jb_fileId j) (jb_open j) (jb_asyncId j) (s\<lparr>h_ctx := None\<rparr>))"

section \<open>IOCTL\<close>

definition ioctl_rsp :: "PacketHeader \<Rightarrow> u32 \<Rightarrow> FileId \<Rightarrow> enc option \<Rightarrow> packet" where
  "ioctl_rsp hdr code fid out = IoctlPacket \<lparr>ip_Header = hdr, ip_CtlCode = code, ip_FileId = Some fid,
     ip_Flags2 = 0, ip_Input = None, ip_Output = out\<rparr>"

text \<open>The log line of a refused buffer reads its tag: on fewer than four bytes it panics.\<close>

definition handleReparsePointReq :: "srv_config \<Rightarrow> 'fs fileTree \<Rightarrow> slice \<Rightarrow> ('fs, srv_error option) eff" where
  "handleReparsePointReq cfg t pkt s =
     do { _ \<leftarrow> session_conn t;
          (r, _) \<leftarrow> accept SMB2_IOCTL pkt;
          rd \<leftarrow> IoctlRequestDecoder_Data r;
          bad \<leftarrow> SymbolicLinkReparseDataBufferDecoder_IsInvalid rd;
          if bad then do { _ \<leftarrow> SymbolicLinkReparseDataBufferDecoder_ReparseTag rd;
                           reply_error cfg t pkt STATUS_NOT_SUPPORTED s }
          else do { fid \<leftarrow> request_file (IoctlRequestDecoder_FileId r) s;
          if IsInvalidFileId (Some fid) then reply_error cfg t pkt STATUS_INVALID_HANDLE s
          else do { name \<leftarrow> SymbolicLinkReparseDataBufferDecoder_SubstituteName rd;
          flags \<leftarrow> SymbolicLinkReparseDataBufferDecoder_Flags rd;
          on_return (vcall (v_Symlink (ft_fs t) (HandleId fid)
             (replace_char backslash CHR ''/'' (go_string name)) (uint flags)) s) (\<lambda>(l, s). do {
          case l of
            Inl _ \<Rightarrow> reply_error cfg t pkt STATUS_ACCESS_DENIED s
          | Inr _ \<Rightarrow> do { hdr \<leftarrow> PrepareResponse pkt 0;
                          send cfg t (ioctl_rsp hdr FSCTL_SET_REPARSE_POINT fid None) s } }) } } }"

text \<open>The target is tested for a leading slash after every slash has become a backslash.\<close>

definition reparse_buffer :: "string \<Rightarrow> SymbolicLinkReparseDataBuffer" where
  "reparse_buffer target =
     (let l = replace_char CHR ''/'' backslash target
      in \<lparr>rb_Flags = (if l \<noteq> [] \<and> hd l = CHR ''/'' then 0 else 1),
          rb_SubstituteName = go_runes l, rb_PrintName = go_runes l\<rparr>)"

definition handleGetReparsePointReq :: "srv_config \<Rightarrow> 'fs fileTree \<Rightarrow> slice \<Rightarrow> ('fs, srv_error option) eff" where
  "handleGetReparsePointReq cfg t pkt s =
     do { _ \<leftarrow> session_conn t;
          (r, _) \<leftarrow> accept SMB2_IOCTL pkt;
          fid \<leftarrow> request_file (IoctlRequestDecoder_FileId r) s;
          if IsInvalidFileId (Some fid) then reply_error cfg t pkt STATUS_INVALID_HANDLE s
          else do { on_return (vcall (v_Readlink (ft_fs t) (HandleId fid)) s) (\<lambda>(l, s). do {
          case l of
            Inl _ \<Rightarrow> reply_error cfg t pkt STATUS_ACCESS_DENIED s
          | Inr target \<Rightarrow>
              do { hdr \<leftarrow> PrepareResponse pkt 0;
                   let out = reparse_buffer target;
                   send cfg t (ioctl_rsp hdr FSCTL_GET_REPARSE_POINT fid
                     (Some \<lparr>en_size = SymbolicLinkReparseDataBuffer_Size out,
                        en_encode = SymbolicLinkReparseDataBuffer_Encode out\<rparr>)) s } }) } }"

definition handleDeleteReparsePointReq :: "srv_config \<Rightarrow> 'fs fileTree \<Rightarrow> slice \<Rightarrow> ('fs, srv_error option) eff" where
  "handleDeleteReparsePointReq cfg t pkt s =
     do { _ \<leftarrow> session_conn t;
          (r, _) \<leftarrow> accept SMB2_IOCTL pkt;
          fid \<leftarrow> request_file (IoctlRequestDecoder_FileId r) s;
          if IsInvalidFileId (Some fid) then reply_error cfg t pkt STATUS_INVALID_HANDLE s
          else do { on_return (vcall (v_Unlink (ft_fs t) (HandleId fid)) s) (\<lambda>(u, s). do {
          case u of
            Inl _ \<Rightarrow> reply_error cfg t pkt STATUS_ACCESS_DENIED s
          | Inr _ \<Rightarrow> do { hdr \<leftarrow> PrepareResponse pkt 0;
                          send cfg t (ioctl_rsp hdr FSCTL_GET_REPARSE_POINT fid None) s } }) } }"

definition object_id :: "FileId \<Rightarrow> u64 \<Rightarrow> enc" where
  "object_id fid volume =
     (let zeros = replicate 8 0;
          id = \<lparr>fid_Persistent = fid_Persistent fid, fid_Volatile = zeros\<rparr>;
          o1 = \<lparr>foi_ObjectId = id,
            foi_BirthVolumeId = \<lparr>fid_Persistent = le_bytes 8 (unat volume), fid_Volatile = zeros\<rparr>,
            foi_BirthObjectId = id, foi_DomainId = \<lparr>fid_Persistent = zeros, fid_Volatile = zeros\<rparr>\<rparr>
      in \<lparr>en_size = FileObjectId1_Size o1, en_encode = FileObjectId1_Encode o1\<rparr>)"

text \<open>\<open>attrRoot, _ := t.fs.GetAttr(0)\<close> and \<open>attrRoot.GetInodeNumber()\<close>.\<close>

definition root_inode :: "'fs fileTree \<Rightarrow> ('fs, u64 ret) eff" where
  "root_inode t s =
     and_return (vcall (v_GetAttr (ft_fs t) 0) s) (\<lambda>(r, s).
       case r of Inl _ \<Rightarrow> None | Inr a \<Rightarrow> map_option (\<lambda>n. (Returned n, s)) (GetInodeNumber a))"

definition handleCreateOrGetObjectId :: "srv_config \<Rightarrow> 'fs fileTree \<Rightarrow> slice \<Rightarrow> ('fs, srv_error option) eff" where
  "handleCreateOrGetObjectId cfg t pkt s =
     do { _ \<leftarrow> session_conn t;
          (r, _) \<leftarrow> accept SMB2_IOCTL pkt;
          fid \<leftarrow> request_file (IoctlRequestDecoder_FileId r) s;
          if IsInvalidFileId (Some fid) then reply_error cfg t pkt STATUS_INVALID_HANDLE s
          else do { on_return (root_inode t s) (\<lambda>(volume, s). do {
          hdr \<leftarrow> PrepareResponse pkt 0;
                    send cfg t (ioctl_rsp hdr FSCTL_CREATE_OR_GET_OBJECT_ID fid (Some (object_id fid volume))) s }) } }"

definition ioctl :: "srv_config \<Rightarrow> 'fs fileTree \<Rightarrow> slice \<Rightarrow> ('fs, srv_error option) eff" where
  "ioctl cfg t pkt s =
     do { _ \<leftarrow> session_conn t;
          (r, _) \<leftarrow> accept SMB2_IOCTL pkt;
          code \<leftarrow> IoctlRequestDecoder_CtlCode r;
          if code = FSCTL_SET_REPARSE_POINT then handleReparsePointReq cfg t pkt s
          else if code = FSCTL_GET_REPARSE_POINT then handleGetReparsePointReq cfg t pkt s
          else if code = FSCTL_DELETE_REPARSE_POINT then handleDeleteReparsePointReq cfg t pkt s
          else if code = FSCTL_CREATE_OR_GET_OBJECT_ID then handleCreateOrGetObjectId cfg t pkt s
          else reply_error cfg t pkt STATUS_NOT_SUPPORTED s }"

section \<open>Requests with a fixed answer\<close>

definition lock :: "srv_config \<Rightarrow> 'fs fileTree \<Rightarrow> slice \<Rightarrow> ('fs, srv_error option) eff" where
  "lock cfg t pkt s =
     do { _ \<leftarrow> session_conn t;
          hdr \<leftarrow> PrepareResponse pkt 0;
          send cfg t (LockPacket \<lparr>kr_Header = hdr\<rparr>) s }"

definition cancel :: "srv_config \<Rightarrow> 'fs fileTree \<Rightarrow> slice \<Rightarrow> ('fs, srv_error option) eff" where
  "cancel cfg t pkt s = do { _ \<leftarrow> session_conn t; reply_error cfg t pkt STATUS_NOT_SUPPORTED s }"

definition changeNotify :: "srv_config \<Rightarrow> 'fs fileTree \<Rightarrow> slice \<Rightarrow> ('fs, srv_error option) eff" where
  "changeNotify cfg t pkt s = do { _ \<leftarrow> session_conn t; reply_error cfg t pkt STATUS_ACCESS_DENIED s }"

definition oplockBreak :: "srv_config \<Rightarrow> 'fs fileTree \<Rightarrow> slice \<Rightarrow> ('fs, srv_error option) eff" where
  "oplockBreak cfg t pkt s = do { _ \<leftarrow> session_conn t; reply_error cfg t pkt STATUS_NOT_SUPPORTED s }"

end
