(* ===== verification/FileTreeDir.thy ===== *)
theory FileTreeDir
  imports FileTreeIo
begin

text \<open>
  QUERY_DIRECTORY on a file tree (src/server/file_tree.go, lines 956 to 1202): the entry of each
  information class for a file, and the search by name or pattern.
\<close>

section \<open>Entries\<close>

text \<open>What all entries show: the times, the sizes and the attribute bits.\<close>

definition entry_attributes :: "string \<Rightarrow> Attributes \<Rightarrow> u32 option" where
  "entry_attributes name a = PermissionsFromVfs a name"

text \<open>The size field of a symbolic link's entry holds the reparse tag.\<close>

definition entry_tag :: "u32 \<Rightarrow> u32" where
  "entry_tag perm = (if perm AND FILE_ATTRIBUTE_REPARSE_POINT \<noteq> 0 then IO_REPARSE_TAG_SYMLINK else 0)"

definition newFileDirectoryInformationInfo :: "string \<times> Attributes \<Rightarrow> FileDirectoryInformationInfo option" where
  "newFileDirectoryInformationInfo d =
     (let (name, a) = d in
      do { perm \<leftarrow> entry_attributes name a;
           Some \<lparr>dir_NextEntryOffset = 0, dir_FileIndex = 0, dir_CreationTime = BirthTimeFromVfs a,
             dir_LastAccessTime = AccessTimeFromVfs a, dir_LastWriteTime = ModifiedTimeFromVfs a,
             dir_ChangeTime = ChangeTimeFromVfs a, dir_EndOfFile = SizeFromVfs a,
             dir_AllocationSize = DiskSizeFromVfs a, dir_FileAttributes = perm,
             dir_FileName = go_runes name\<rparr> })"

definition newFileFullDirectoryInformationInfo :: "string \<times> Attributes \<Rightarrow> FileFullDirectoryInformationInfo option" where
  "newFileFullDirectoryInformationInfo d =
     (let (name, a) = d in
      do { perm \<leftarrow> entry_attributes name a;
           Some \<lparr>ful_NextEntryOffset = 0, ful_FileIndex = 0, ful_CreationTime = BirthTimeFromVfs a,
             ful_LastAccessTime = AccessTimeFromVfs a, ful_LastWriteTime = ModifiedTimeFromVfs a,
             ful_ChangeTime = ChangeTimeFromVfs a, ful_EndOfFile = SizeFromVfs a,
             ful_AllocationSize = DiskSizeFromVfs a, ful_FileAttributes = perm,
             ful_EaSize = entry_tag perm, ful_FileName = go_runes name\<rparr> })"

definition newFileIdFullDirectoryInformationInfo :: "string \<times> Attributes \<Rightarrow> FileIdFullDirectoryInformationInfo option" where
  "newFileIdFullDirectoryInformationInfo d =
     (let (name, a) = d in
      do { perm \<leftarrow> entry_attributes name a;
           Some \<lparr>idf_NextEntryOffset = 0, idf_FileIndex = 0, idf_CreationTime = BirthTimeFromVfs a,
             idf_LastAccessTime = AccessTimeFromVfs a, idf_LastWriteTime = ModifiedTimeFromVfs a,
             idf_ChangeTime = ChangeTimeFromVfs a, idf_EndOfFile = SizeFromVfs a,
             idf_AllocationSize = DiskSizeFromVfs a, idf_FileAttributes = perm,
             idf_EaSize = entry_tag perm, idf_Pad2 = 0, idf_FileId = 0, idf_FileName = go_runes name\<rparr> })"

definition newFileIdBothDirectoryInformationInfo :: "string \<times> Attributes \<Rightarrow> FileIdBothDirectoryInformationInfo option" where
  "newFileIdBothDirectoryInformationInfo d =
     (let (name, a) = d in
      do { ino \<leftarrow> GetInodeNumber a;
           perm \<leftarrow> entry_attributes name a;
           Some \<lparr>idb_NextEntryOffset = 0, idb_FileIndex = 0, idb_CreationTime = BirthTimeFromVfs a,
             idb_LastAccessTime = AccessTimeFromVfs a, idb_LastWriteTime = ModifiedTimeFromVfs a,
             idb_ChangeTime = ChangeTimeFromVfs a, idb_EndOfFile = SizeFromVfs a,
             idb_AllocationSize = DiskSizeFromVfs a, idb_FileAttributes = perm,
             idb_EaSize = entry_tag perm, idb_ShortNameLength = 0, idb_Pad = 0,
             idb_ShortName = replicate 24 0, idb_Pad2 = 0, idb_FileId = ino, idb_FileName = go_runes name\<rparr> })"

definition newFileBothDirectoryInformationInfo :: "string \<times> Attributes \<Rightarrow> FileBothDirectoryInformationInfo option" where
  "newFileBothDirectoryInformationInfo d =
     (let (name, a) = d in
      do { perm \<leftarrow> entry_attributes name a;
           Some \<lparr>bot_NextEntryOffset = 0, bot_FileIndex = 0, bot_CreationTime = BirthTimeFromVfs a,
             bot_LastAccessTime = AccessTimeFromVfs a, bot_LastWriteTime = ModifiedTimeFromVfs a,
             bot_ChangeTime = ChangeTimeFromVfs a, bot_EndOfFile = SizeFromVfs a,
             bot_AllocationSize = DiskSizeFromVfs a, bot_FileAttributes = perm,
             bot_EaSize = entry_tag perm, bot_ShortNameLength = 0, bot_Pad = 0,
             bot_ShortName = replicate 24 0, bot_FileName = go_runes name\<rparr> })"

definition newFileIdBothDirectoryInformationInfo2 :: "string \<times> Attributes \<Rightarrow> FileIdBothDirectoryInformationInfo2 option" where
  "newFileIdBothDirectoryInformationInfo2 d =
     (let (name, a) = d in
      do { ino \<leftarrow> GetInodeNumber a;
           perm \<leftarrow> entry_attributes name a;
           Some \<lparr>id2_NextEntryOffset = 0, id2_FileIndex = 0, id2_CreationTime = BirthTimeFromVfs a,
             id2_LastAccessTime = AccessTimeFromVfs a, id2_LastWriteTime = ModifiedTimeFromVfs a,
             id2_ChangeTime = ChangeTimeFromVfs a, id2_EndOfFile = SizeFromVfs a,
             id2_AllocationSize = DiskSizeFromVfs a, id2_FileAttributes = perm,
             id2_MaxAccess = (if perm AND FILE_ATTRIBUTE_REPARSE_POINT \<noteq> 0 then IO_REPARSE_TAG_SYMLINK
                              else MaxAccessFromVfs a),
             id2_ShortNameLength = 0, id2_Pad = 0, id2_RsrcForkLen = 0,
             id2_CompressedFinderInfo = replicate 16 0, id2_UnixMode = UnixModeFromVfs a,
             id2_FileId = ino, id2_FileName = go_runes name\<rparr> })"

text \<open>An information class without an entry gives the nil \<open>Encoder\<close>, the inner \<open>None\<close>.\<close>

definition makeItem :: "bool \<Rightarrow> u8 \<Rightarrow> string \<times> Attributes \<Rightarrow> enc option option" where
  "makeItem aapl info_class d =
     (if info_class = 3 then
           map_option (\<lambda>i. Some \<lparr>en_size = FileBothDirectoryInformationInfo_Size i,
             en_encode = FileBothDirectoryInformationInfo_Encode i\<rparr>) (newFileBothDirectoryInformationInfo d)
         else if info_class = 37 then
           (if aapl
            then map_option (\<lambda>i. Some \<lparr>en_size = FileIdBothDirectoryInformationInfo2_Size i,
                   en_encode = FileIdBothDirectoryInformationInfo2_Encode i\<rparr>) (newFileIdBothDirectoryInformationInfo2 d)
            else map_option (\<lambda>i. Some \<lparr>en_size = FileIdBothDirectoryInformationInfo_Size i,
                   en_encode = FileIdBothDirectoryInformationInfo_Encode i\<rparr>) (newFileIdBothDirectoryInformationInfo d))
         else if info_class = 1 then
           map_option (\<lambda>i. Some \<lparr>en_size = FileDirectoryInformationInfo_Size i,
             en_encode = FileDirectoryInformationInfo_Encode i\<rparr>) (newFileDirectoryInformationInfo d)
         else if info_class = 2 then
           map_option (\<lambda>i. Some \<lparr>en_size = FileFullDirectoryInformationInfo_Size i,
             en_encode = FileFullDirectoryInformationInfo_Encode i\<rparr>) (newFileFullDirectoryInformationInfo d)
         else if info_class = 38 then
           map_option (\<lambda>i. Some \<lparr>en_size = FileIdFullDirectoryInformationInfo_Size i,
             en_encode = FileIdFullDirectoryInformationInfo_Encode i\<rparr>) (newFileIdFullDirectoryInformationInfo d)
         else Some None)"

section \<open>The search\<close>

text \<open>The entries that match, up to the first one when only one is asked for.\<close>

fun matching_items ::
  "regexp \<Rightarrow> bool \<Rightarrow> u8 \<Rightarrow> string \<Rightarrow> bool \<Rightarrow> (string \<times> Attributes) list \<Rightarrow> enc option list option" where
  "matching_items re aapl info_class pattern single [] = Some []"
| "matching_items re aapl info_class pattern single (d # dir) =
     (if MatchWildcard re (fst d) pattern
      then do { i \<leftarrow> makeItem aapl info_class d;
                rest \<leftarrow> (if single then Some [] else matching_items re aapl info_class pattern single dir);
                Some (i # rest) }
      else matching_items re aapl info_class pattern single dir)"

definition search_directory ::
  "srv_config \<Rightarrow> 'fs fileTree \<Rightarrow> u64 \<Rightarrow> u8 \<Rightarrow> string \<Rightarrow> u8 \<Rightarrow> ('fs, (u32 \<times> enc option list) ret) eff" where
  "search_directory cfg t h info_class name flags s =
     (if \<not> ContainsWildcard name
      then and_return (vcall (v_Lookup (ft_fs t) h name) s) (\<lambda>(l, s).
        case l of
          Inl _ \<Rightarrow> Some (Returned (STATUS_NO_SUCH_FILE, []), s)
        | Inr a \<Rightarrow> do { i \<leftarrow> makeItem (h_aapl s) info_class (name, a); Some (Returned (0, [i]), s) })
      else and_return (vcall (v_ReadDir (ft_fs t) h (if flags AND 1 \<noteq> 0 then 1 else 0) 1000) s) (\<lambda>(l, s).
        case l of
          Inl e \<Rightarrow> Some (Returned (if e = EndOfFile then STATUS_NO_MORE_FILES else STATUS_ACCESS_DENIED, []), s)
        | Inr dir \<Rightarrow>
            do { items \<leftarrow> matching_items (sc_regexp cfg) (h_aapl s) info_class name (flags AND 2 \<noteq> 0) dir;
                 Some (Returned (if items = [] then STATUS_NO_SUCH_FILE else 0, items), s) }))"

text \<open>A nil item panics when the response asks for its size.\<close>

fun all_items :: "'a option list \<Rightarrow> 'a list option" where
  "all_items [] = Some []"
| "all_items (x # xs) = do { y \<leftarrow> x; ys \<leftarrow> all_items xs; Some (y # ys) }"

definition queryDirectory :: "srv_config \<Rightarrow> 'fs fileTree \<Rightarrow> slice \<Rightarrow> ('fs, srv_error option) eff" where
  "queryDirectory cfg t pkt s =
     do { _ \<leftarrow> session_conn t;
          (r, _) \<leftarrow> accept SMB2_QUERY_DIRECTORY pkt;
          info_class \<leftarrow> QueryDirectoryRequestDecoder_FileInfoClass r;
          runes \<leftarrow> QueryDirectoryRequestDecoder_FileName r;
          fid \<leftarrow> request_file (QueryDirectoryRequestDecoder_FileId r) s;
          if IsInvalidFileId (Some fid) then reply_error cfg t pkt STATUS_INVALID_HANDLE s
          else do { flags \<leftarrow> QueryDirectoryRequestDecoder_Flags r;
          on_return (if ctx_status s \<noteq> 0 then Some (Returned (ctx_status s, []), s)
             else search_directory cfg t (HandleId fid) info_class (go_string runes) flags s) (\<lambda>((status, items), s). do {
          if status \<noteq> 0 then reply_error cfg t pkt status s
          else do { items \<leftarrow> all_items items;
                    hdr \<leftarrow> PrepareResponse pkt 0;
                    let out = \<lparr>fir_Items = items\<rparr>;
                    send cfg t (QueryDirectoryPacket \<lparr>qr_Header = hdr,
                      qr_Output = Some \<lparr>en_size = FileInformationInfoResponse_Size out,
                        en_encode = FileInformationInfoResponse_Encode out\<rparr>\<rparr>) s } }) } }"

end
