(* ===== verification/FileTreeInfo.thy ===== *)
theory FileTreeInfo
  imports FileTreeDir
begin

text \<open>
  QUERY_INFO on a file tree (src/server/file_tree.go, lines 1251 to 1589): volume
  and file information, streams and security descriptors.
\<close>

section \<open>Volume information\<close>

definition FileFsAttributes :: "bool \<Rightarrow> u32" where
  "FileFsAttributes xattrs =
     0x1000000 OR 0x10000 OR 1 OR 2 OR 8 OR 0x40 OR 4 OR 0x400000 OR 0x80 OR
     (if xattrs then 0x800000 OR 0x40000 else 0)"

text \<open>The information of the class, \<open>None\<close> inside for an unsupported one. The first three
  arguments are what \<open>StatFS\<close> told: the block size and the total and available blocks.\<close>

definition volume_info ::
  "u32 \<Rightarrow> int \<Rightarrow> int \<Rightarrow> srv_config \<Rightarrow> 'fs fileTree \<Rightarrow> u8 \<Rightarrow> slice \<Rightarrow> ('fs, enc option ret) eff" where
  "volume_info bs ta au cfg t info_class r s =
     (if info_class = 1 then
        (let i = \<lparr>fvi_VolumeCreationTime = zero_Filetime, fvi_VolumeSerialNumber = 0, fvi_SupportsObjects = False,
                  fvi_VolumeLabel = go_runes (tc_path (ft_tree t))\<rparr>
         in Some (Returned (Some \<lparr>en_size = FileFsVolumeInformationInfo_Size i, en_encode = FileFsVolumeInformationInfo_Encode i\<rparr>), s))
      else if info_class = 3 then
        (let i = \<lparr>fsi_TotalAllocationUnits = ta, fsi_AvailableAllocationUnits = au,
                  fsi_SectorsPerAllocationUnit = bs div 512, fsi_BytesPerSector = 512\<rparr>
         in Some (Returned (Some \<lparr>en_size = FileFsSizeInformationInfo_Size i, en_encode = FileFsSizeInformationInfo_Encode i\<rparr>), s))
      else if info_class = 4 then
        (let i = \<lparr>fdi_DeviceType = 7, fdi_Characteristics = 0\<rparr>
         in Some (Returned (Some \<lparr>en_size = FileFsDeviceInformationInfo_Size i, en_encode = FileFsDeviceInformationInfo_Encode i\<rparr>), s))
      else if info_class = 5 then
        (let i = \<lparr>fai_FileSystemAttributes = FileFsAttributes (sc_xattrs cfg),
                  fai_MaximumComponentNameLength = 255, fai_FileSystemName = go_runes ''APFS''\<rparr>
         in Some (Returned (Some \<lparr>en_size = FileFsAttributeInformationInfo_Size i, en_encode = FileFsAttributeInformationInfo_Encode i\<rparr>), s))
      else if info_class = 7 then
        (let i = \<lparr>ffi_TotalAllocationUnits = ta, ffi_CallerAvailableAllocationUnits = au,
                  ffi_ActualAvailableAllocationUnits = au, ffi_SectorsPerAllocationUnit = bs div 512,
                  ffi_BytesPerSector = 512\<rparr>
         in Some (Returned (Some \<lparr>en_size = FileFsFullSizeInformationInfo_Size i, en_encode = FileFsFullSizeInformationInfo_Encode i\<rparr>), s))
      else if info_class = 8 then
        do { fid \<leftarrow> request_file (QueryInfoRequestDecoder_FileId r) s;
             and_return (root_inode t s) (\<lambda>(volume, s). Some (Returned (Some (object_id fid volume)), s)) }
      else Some (Returned None, s))"

definition query_rsp :: "PacketHeader \<Rightarrow> enc option \<Rightarrow> packet" where
  "query_rsp hdr out = QueryInfoPacket \<lparr>qp_Header = hdr, qp_Output = out\<rparr>"

definition queryInfoFileSystem :: "srv_config \<Rightarrow> 'fs fileTree \<Rightarrow> slice \<Rightarrow> ('fs, srv_error option) eff" where
  "queryInfoFileSystem cfg t pkt s =
     do { _ \<leftarrow> session_conn t;
          (r, _) \<leftarrow> accept SMB2_QUERY_INFO pkt;
          info_class \<leftarrow> QueryInfoRequestDecoder_FileInfoClass r;
          on_return (vcall (v_StatFS (ft_fs t) 0) s) (\<lambda>(st, s). do {
          case st of
            Inl _ \<Rightarrow> None
          | Inr a \<Rightarrow>
              (let bs = (case GetBlockSize a of (b, ok) \<Rightarrow> if ok then ucast b else 512);
                   au = (case GetAvailableBlocks a of (v, ok) \<Rightarrow> if ok then sint v else -1);
                   ta = (case GetBlocks a of (v, ok) \<Rightarrow> if ok then sint v else -1)
               in do { on_return (volume_info bs ta au cfg t info_class r s) (\<lambda>(info, s). do {
          case info of
                         None \<Rightarrow> Some (Some InvalidRequestError, s)
                       | Some e \<Rightarrow> do { hdr \<leftarrow> PrepareResponse pkt 0; send cfg t (query_rsp hdr (Some e)) s } }) }) }) }"

section \<open>File information\<close>

definition all_information :: "Attributes \<Rightarrow> string \<Rightarrow> FileAllInformationInfo option" where
  "all_information a p =
     do { ty \<leftarrow> GetFileType a;
          perm \<leftarrow> PermissionsFromVfs a p;
          ino \<leftarrow> GetInodeNumber a;
          Some \<lparr>all_BasicInformation = \<lparr>bai_CreationTime = BirthTimeFromVfs a, bai_LastAccessTime = AccessTimeFromVfs a,
                  bai_LastWriteTime = ModifiedTimeFromVfs a, bai_ChangeTime = ChangeTimeFromVfs a,
                  bai_FileAttributes = perm, bai_Pad = 0\<rparr>,
                all_StandardInformation = \<lparr>sti_AllocationSize = sint (DiskSizeFromVfs a),
                  sti_EndOfFile = sint (SizeFromVfs a), sti_NumberOfLinks = 0, sti_DeletePending = 0,
                  sti_Directory = (if ty = FileTypeDirectory then 1 else 0), sti_Pad = replicate 2 0\<rparr>,
                all_Internal = \<lparr>ini_IndexNumber = sint ino\<rparr>,
                all_EaInformation = \<lparr>eai_EaSize = 0\<rparr>,
                all_AccessInformation = \<lparr>aci_AccessFlags = MaxAccessFromVfs a\<rparr>,
                all_PositionInformation = \<lparr>poi_CurrentByteOffset = 0\<rparr>,
                all_ModeInformation = \<lparr>moi_Mode = 0x10\<rparr>,
                all_AlignmentInformation = \<lparr>ali_AlignmentRequirement = 0\<rparr>,
                all_NameInformation = \<lparr>ani_FileName = go_runes (replace_char CHR ''/'' backslash p)\<rparr>\<rparr> }"

definition stream_item :: "u64 \<Rightarrow> u64 \<Rightarrow> string \<Rightarrow> FileStreamInformationInfo" where
  "stream_item sz asz name = \<lparr>smi_NextEntryOffset = 0, smi_StreamSize = sz, smi_StreamAllocationSize = asz,
     smi_StreamName = go_runes name\<rparr>"

text \<open>One stream for each extended attribute whose size can be told.\<close>

fun xattr_streams :: "'fs fileTree \<Rightarrow> u64 \<Rightarrow> string list \<Rightarrow> ('fs, FileStreamInformationInfo list ret) eff" where
  "xattr_streams t h [] s = Some (Returned [], s)"
| "xattr_streams t h (ea # xattrs) s =
     and_return (vcall (v_Getxattr (ft_fs t) h ea None) s) (\<lambda>(l, s).
       and_return (xattr_streams t h xattrs s) (\<lambda>(rest, s).
         Some (Returned (case l of Inl _ \<Rightarrow> rest
               | Inr (n, _) \<Rightarrow> stream_item (of_nat n) (of_nat n) ('':'' @ ea @ '':$DATA'') # rest), s)))"

definition stream_information ::
  "srv_config \<Rightarrow> 'fs fileTree \<Rightarrow> u64 \<Rightarrow> Attributes \<Rightarrow> ('fs, FileStreamInformationInfo list ret) eff" where
  "stream_information cfg t h a s =
     and_return (vcall (v_Listxattr (ft_fs t) h) s) (\<lambda>(xattrs, s).
       let main = stream_item (SizeFromVfs a) (DiskSizeFromVfs a) ''::$DATA'' in
       case xattrs of
         Inl _ \<Rightarrow> Some (Returned [main], s)
       | Inr names \<Rightarrow>
           if sc_xattrs cfg
           then and_return (xattr_streams t h names s) (\<lambda>(items, s). Some (Returned (main # items), s))
           else Some (Returned [main], s))"

text \<open>The output of a class: an error status, no supported class, or the \<open>Encoder\<close>, which is nil
  for the streams of a directory.\<close>

datatype file_info = InfoStatus u32 | InfoUnsupported | InfoOutput "enc option"

definition file_information ::
  "srv_config \<Rightarrow> 'fs fileTree \<Rightarrow> u64 \<Rightarrow> string \<Rightarrow> Attributes \<Rightarrow> u8 \<Rightarrow> ('fs, file_info ret) eff" where
  "file_information cfg t h p a info_class s =
     (if info_class = 18 then
        do { i \<leftarrow> all_information a p;
             Some (Returned (InfoOutput (Some \<lparr>en_size = FileAllInformationInfo_Size i, en_encode = FileAllInformationInfo_Encode i\<rparr>)), s) }
      else if info_class = 7 then
        (let i = \<lparr>eai_EaSize = 0\<rparr>
         in Some (Returned (InfoOutput (Some \<lparr>en_size = FileEaInformationInfo_Size i, en_encode = FileEaInformationInfo_Encode i\<rparr>)), s))
      else if info_class = 22 then
        do { ty \<leftarrow> GetFileType a;
             if ty = FileTypeDirectory then Some (Returned (InfoOutput None), s)
             else and_return (stream_information cfg t h a s) (\<lambda>(items, s).
                    Some (Returned (InfoOutput (Some \<lparr>en_size = FileStreamInformationInfoItems_Size items,
                      en_encode = FileStreamInformationInfoItems_Encode items\<rparr>)), s)) }
      else if info_class = 34 then
        do { perm \<leftarrow> PermissionsFromVfs a p;
             let i = \<lparr>noi_CreationTime = BirthTimeFromVfs a, noi_LastAccessTime = AccessTimeFromVfs a,
                   noi_LastWriteTime = ModifiedTimeFromVfs a, noi_ChangeTime = ChangeTimeFromVfs a,
                   noi_AllocationSize = sint (DiskSizeFromVfs a), noi_EndOfFile = sint (SizeFromVfs a),
                   noi_FileAttributes = perm\<rparr>;
             Some (Returned (InfoOutput (Some \<lparr>en_size = FileNetworkOpenInformationInfo_Size i,
               en_encode = FileNetworkOpenInformationInfo_Encode i\<rparr>)), s) }
      else if info_class = 48 then Some (Returned (InfoStatus STATUS_NOT_SUPPORTED), s)
      else if info_class = 6 then
        do { ino \<leftarrow> GetInodeNumber a;
             let i = \<lparr>ini_IndexNumber = sint ino\<rparr>;
             Some (Returned (InfoOutput (Some \<lparr>en_size = FileInternalInformationInfo_Size i,
               en_encode = FileInternalInformationInfo_Encode i\<rparr>)), s) }
      else Some (Returned InfoUnsupported, s))"

definition queryInfoFile :: "srv_config \<Rightarrow> 'fs fileTree \<Rightarrow> slice \<Rightarrow> ('fs, srv_error option) eff" where
  "queryInfoFile cfg t pkt s =
     do { _ \<leftarrow> session_conn t;
          (r, _) \<leftarrow> accept SMB2_QUERY_INFO pkt;
          info_class \<leftarrow> QueryInfoRequestDecoder_FileInfoClass r;
          fid \<leftarrow> request_file (QueryInfoRequestDecoder_FileId r) s;
          if IsInvalidFileId (Some fid) then reply_error cfg t pkt STATUS_INVALID_HANDLE s
          else (case getOpen (HandleId fid) s of
            None \<Rightarrow> reply_error cfg t pkt STATUS_INVALID_HANDLE s
          | Some open \<Rightarrow>
              do { on_return (vcall (v_GetAttr (ft_fs t) (HandleId fid)) s) (\<lambda>(a, s). do {
          case a of
                     Inl _ \<Rightarrow> reply_error cfg t pkt STATUS_INVALID_HANDLE s
                   | Inr a \<Rightarrow>
                       do { _ \<leftarrow> GetFileType a;
                            on_return (file_information cfg t (HandleId fid) (op_pathName open) a info_class s) (\<lambda>(info, s). do {
          case info of
                              InfoStatus status \<Rightarrow> reply_error cfg t pkt status s
                            | InfoUnsupported \<Rightarrow> Some (Some InvalidRequestError, s)
                            | InfoOutput out \<Rightarrow>
                                do { hdr \<leftarrow> PrepareResponse pkt 0; send cfg t (query_rsp hdr out) s } }) } }) }) }"

section \<open>Security information\<close>

definition security_mode :: "Attributes \<Rightarrow> u32 option" where
  "security_mode a =
     do { ty \<leftarrow> GetFileType a;
          let m = fst (GetUnixMode a);
          Some (m OR (case ty of FileTypeDirectory \<Rightarrow> 0x4000 | FileTypeSymlink \<Rightarrow> 0xA000 | _ \<Rightarrow> 0x8000)) }"

definition mode_acl :: "u32 \<Rightarrow> u32 \<Rightarrow> u32 \<Rightarrow> ACL" where
  "mode_acl uid gid m =
     [\<lparr>ace_Sid = SIDFromUid uid, ace_Type = ACCESS_ALLOWED_ACE_TYPE,
       ace_Mask = UnixModeToAceMask (ucast (drop_bit 6 (m AND 0x1C0)))\<rparr>,
      \<lparr>ace_Sid = SIDFromGid gid, ace_Type = ACCESS_ALLOWED_ACE_TYPE,
       ace_Mask = UnixModeToAceMask (ucast (drop_bit 3 (m AND 0x38)))\<rparr>,
      \<lparr>ace_Sid = \<lparr>si_IdentifierAuthority = WORLD_SID_AUTHORITY, si_SubAuthority = [0]\<rparr>,
       ace_Type = ACCESS_ALLOWED_ACE_TYPE, ace_Mask = UnixModeToAceMask (ucast (m AND 7))\<rparr>,
      \<lparr>ace_Sid = SIDFromMode m, ace_Type = ACCESS_DENIED_ACE_TYPE, ace_Mask = 0\<rparr>]"

definition security_descriptor :: "u32 \<Rightarrow> Attributes \<Rightarrow> SecurityDescriptor option" where
  "security_descriptor wanted a =
     do { dacl \<leftarrow> (if wanted AND 4 = 0 then Some None
                 else do { m \<leftarrow> security_mode a;
                           Some (Some (mode_acl (fst (GetUID a)) (fst (GetGID a)) m)) });
          Some \<lparr>sd_OwnerSid = (if wanted AND 1 = 0 then None else Some (SIDFromUid (fst (GetUID a)))),
                sd_GroupSid = (if wanted AND 2 = 0 then None else Some (SIDFromGid (fst (GetGID a)))),
                sd_Sacl = None, sd_Dacl = dacl\<rparr> }"

definition queryInfoSec :: "srv_config \<Rightarrow> 'fs fileTree \<Rightarrow> slice \<Rightarrow> ('fs, srv_error option) eff" where
  "queryInfoSec cfg t pkt s =
     do { _ \<leftarrow> session_conn t;
          (r, _) \<leftarrow> accept SMB2_QUERY_INFO pkt;
          fid \<leftarrow> request_file (QueryInfoRequestDecoder_FileId r) s;
          if IsInvalidFileId (Some fid) then reply_error cfg t pkt STATUS_INVALID_HANDLE s
          else do { on_return (vcall (v_GetAttr (ft_fs t) (HandleId fid)) s) (\<lambda>(a, s). do {
          case a of
            Inl _ \<Rightarrow> reply_error cfg t pkt STATUS_INVALID_HANDLE s
          | Inr a \<Rightarrow>
              do { wanted \<leftarrow> QueryInfoRequestDecoder_AdditionalInformation r;
                   sd \<leftarrow> security_descriptor wanted a;
                   hdr \<leftarrow> PrepareResponse pkt 0;
                   send cfg t (query_rsp hdr (Some \<lparr>en_size = SecurityDescriptor_Size sd,
                     en_encode = SecurityDescriptor_Encode sd\<rparr>)) s } }) } }"

text \<open>A type that is none of the four gets no answer at all.\<close>

definition queryInfo :: "srv_config \<Rightarrow> 'fs fileTree \<Rightarrow> slice \<Rightarrow> ('fs, srv_error option) eff" where
  "queryInfo cfg t pkt s =
     do { _ \<leftarrow> session_conn t;
          (r, err) \<leftarrow> accept SMB2_QUERY_INFO pkt;
          if err \<noteq> None then Some (err, s)
          else do { bad \<leftarrow> QueryInfoRequestDecoder_IsInvalid r;
          if bad then Some (Some InvalidRequestError, s)
          else do { ty \<leftarrow> QueryInfoRequestDecoder_InfoType r;
          if ty = 1 then queryInfoFile cfg t pkt s
          else if ty = 2 then queryInfoFileSystem cfg t pkt s
          else if ty = 3 then queryInfoSec cfg t pkt s
          else if ty = 4 then reply_error cfg t pkt STATUS_NOT_SUPPORTED s
          else Some (None, s) } } }"

end
