(* ===== verification/FileTreeSet.thy ===== *)
theory FileTreeSet
  imports FileTreeInfo
begin

text \<open>
  SET_INFO on a file tree (src/server/file_tree.go, lines 1590 to 1819) and the dispatch of a
  command to its handler (the methods of \<open>treeOps\<close> in tree.go, as \<open>Run\<close> of server.go calls them).
\<close>

section \<open>What a client sets\<close>

definition set_done :: "srv_config \<Rightarrow> 'fs fileTree \<Rightarrow> slice \<Rightarrow> ('fs, srv_error option) eff" where
  "set_done cfg t pkt s =
     do { hdr \<leftarrow> PrepareResponse pkt 0; send cfg t (SetInfoPacket \<lparr>sp_Header = hdr\<rparr>) s }"

text \<open>A zero time is left alone. Seconds and nanoseconds are split and put together again by
  \<open>time.Unix\<close>: the nanoseconds since 1970.\<close>

definition set_time :: "Filetime \<Rightarrow> (int \<Rightarrow> Attributes \<Rightarrow> Attributes) \<Rightarrow> Attributes \<Rightarrow> Attributes" where
  "set_time ft upd a = (let ns = Filetime_Nanoseconds ft in if ns = 0 then a else upd ns a)"

definition basic_attributes :: "slice \<Rightarrow> Attributes option" where
  "basic_attributes info =
     do { la \<leftarrow> FileBasicInformationInfoDecoder_LastAccessTime info;
          lw \<leftarrow> FileBasicInformationInfoDecoder_LastWriteTime info;
          ch \<leftarrow> FileBasicInformationInfoDecoder_ChangeTime info;
          cr \<leftarrow> FileBasicInformationInfoDecoder_CreationTime info;
          Some (set_time cr SetBirthTime (set_time ch SetLastStatusChangeTime
            (set_time lw SetLastDataModificationTime (set_time la SetAccessTime empty_Attributes)))) }"

definition setBasicInfo :: "srv_config \<Rightarrow> 'fs fileTree \<Rightarrow> FileId \<Rightarrow> slice \<Rightarrow> ('fs, srv_error option) eff" where
  "setBasicInfo cfg t fid pkt s =
     do { _ \<leftarrow> session_conn t;
          (r, _) \<leftarrow> accept SMB2_SET_INFO pkt;
          info \<leftarrow> SetInfoRequestDecoder_Buffer r;
          a \<leftarrow> basic_attributes info;
          on_return (vcall (v_SetAttr (ft_fs t) (HandleId fid) a) s) (\<lambda>(x, s). do {
          if (case x of Inl _ \<Rightarrow> \<not> sc_ignoreSetAttrErr cfg | Inr _ \<Rightarrow> False)
          then reply_error cfg t pkt STATUS_NOT_SUPPORTED s
          else set_done cfg t pkt s }) }"

text \<open>The error of \<open>Truncate\<close> is dropped.\<close>

definition setEndOfFileInfo :: "srv_config \<Rightarrow> 'fs fileTree \<Rightarrow> FileId \<Rightarrow> slice \<Rightarrow> ('fs, srv_error option) eff" where
  "setEndOfFileInfo cfg t fid pkt s =
     do { _ \<leftarrow> session_conn t;
          (r, _) \<leftarrow> accept SMB2_SET_INFO pkt;
          info \<leftarrow> SetInfoRequestDecoder_Buffer r;
          n \<leftarrow> FileEndOfFileInformationDecoder_EndOfFile info;
          on_return (vcall (v_Truncate (ft_fs t) (HandleId fid) (word_of_int n)) s) (\<lambda>(_, s). do {
          set_done cfg t pkt s }) }"

text \<open>The file is removed at once, whatever the buffer says.\<close>

definition setDispositionInfo :: "srv_config \<Rightarrow> 'fs fileTree \<Rightarrow> FileId \<Rightarrow> slice \<Rightarrow> ('fs, srv_error option) eff" where
  "setDispositionInfo cfg t fid pkt s =
     do { _ \<leftarrow> session_conn t;
          on_return (vcall (v_Unlink (ft_fs t) (HandleId fid)) s) (\<lambda>(x, s). do {
          case x of Inl _ \<Rightarrow> reply_error cfg t pkt STATUS_NOT_SUPPORTED s | Inr _ \<Rightarrow> set_done cfg t pkt s }) }"

definition setDispositionInfoEa ::
  "srv_config \<Rightarrow> 'fs fileTree \<Rightarrow> FileId \<Rightarrow> string \<Rightarrow> slice \<Rightarrow> ('fs, srv_error option) eff" where
  "setDispositionInfoEa cfg t fid eaKey pkt s =
     do { _ \<leftarrow> session_conn t;
          on_return (vcall (v_Removexattr (ft_fs t) (HandleId fid) eaKey) s) (\<lambda>(x, s). do {
          case x of Inl _ \<Rightarrow> reply_error cfg t pkt STATUS_NOT_FOUND s | Inr _ \<Rightarrow> set_done cfg t pkt s }) }"

definition setRename :: "srv_config \<Rightarrow> 'fs fileTree \<Rightarrow> FileId \<Rightarrow> slice \<Rightarrow> ('fs, srv_error option) eff" where
  "setRename cfg t fid pkt s =
     do { _ \<leftarrow> session_conn t;
          (r, _) \<leftarrow> accept SMB2_SET_INFO pkt;
          info \<leftarrow> SetInfoRequestDecoder_Buffer r;
          name \<leftarrow> FileRenameInformationInfoDecoder_FileName info;
          _ \<leftarrow> FileRenameInformationInfoDecoder_RootDirectory info;
          replace \<leftarrow> FileRenameInformationInfoDecoder_ReplaceIfExists info;
          on_return (vcall (v_Rename (ft_fs t) (HandleId fid)
             (replace_char backslash CHR ''/'' (go_string name)) (uint replace)) s) (\<lambda>(x, s). do {
          case x of Inl _ \<Rightarrow> reply_error cfg t pkt STATUS_ACCESS_DENIED s | Inr _ \<Rightarrow> set_done cfg t pkt s }) }"

text \<open>The mode of the first NFS mode SID among \<open>n\<close> entries, \<open>None\<close> inside when there is none.\<close>

definition nfs_mode :: "slice \<Rightarrow> u32 option option" where
  "nfs_mode sid =
     do { n \<leftarrow> SidDecoder_SubAuthorityCount sid;
          if n \<noteq> 3 then Some None
          else do { sub \<leftarrow> SidDecoder_SubAuthority sid;
                    Some (if sub ! 0 = 88 \<and> sub ! 1 = 3 then Some (sub ! 2) else None) } }"

fun find_nfs_mode :: "nat \<Rightarrow> slice \<Rightarrow> u32 option option" where
  "find_nfs_mode 0 aces = Some None"
| "find_nfs_mode (Suc n) aces =
     do { sid \<leftarrow> AceDecoder_Sid aces;
          m \<leftarrow> nfs_mode sid;
          case m of
            Some m \<Rightarrow> Some (Some m)
          | None \<Rightarrow> do { sz \<leftarrow> AceDecoder_Size aces;
                         rest \<leftarrow> sfrom (unat sz) aces;
                         find_nfs_mode n rest } }"

definition setSecInfo :: "srv_config \<Rightarrow> 'fs fileTree \<Rightarrow> FileId \<Rightarrow> slice \<Rightarrow> ('fs, srv_error option) eff" where
  "setSecInfo cfg t fid pkt s =
     do { _ \<leftarrow> session_conn t;
          (r, _) \<leftarrow> accept SMB2_SET_INFO pkt;
          sd \<leftarrow> SetInfoRequestDecoder_Buffer r;
          dacl \<leftarrow> SecurityDescriptorDecoder_Dacl sd;
          case dacl of
            None \<Rightarrow> reply_error cfg t pkt STATUS_NOT_SUPPORTED s
          | Some dacl \<Rightarrow>
              do { aces \<leftarrow> AclDecoder_Aces dacl;
                   n \<leftarrow> AclDecoder_AceCount dacl;
                   m \<leftarrow> find_nfs_mode (unat n) aces;
                   case m of
                     None \<Rightarrow> reply_error cfg t pkt STATUS_ACCESS_DENIED s
                   | Some m \<Rightarrow>
                       do { on_return (vcall (v_SetAttr (ft_fs t) (HandleId fid) (SetUnixMode (m OR 0x180) empty_Attributes)) s) (\<lambda>(x, s). do {
          case x of Inl _ \<Rightarrow> reply_error cfg t pkt STATUS_ACCESS_DENIED s
                            | Inr _ \<Rightarrow> set_done cfg t pkt s }) } } }"

definition setInfo :: "srv_config \<Rightarrow> 'fs fileTree \<Rightarrow> slice \<Rightarrow> ('fs, srv_error option) eff" where
  "setInfo cfg t pkt s =
     do { _ \<leftarrow> session_conn t;
          (r, _) \<leftarrow> accept SMB2_SET_INFO pkt;
          fid \<leftarrow> request_file (SetInfoRequestDecoder_FileId r) s;
          if IsInvalidFileId (Some fid) then reply_error cfg t pkt STATUS_INVALID_HANDLE s
          else (case getOpen (HandleId fid) s of
            None \<Rightarrow> reply_error cfg t pkt STATUS_INVALID_HANDLE s
          | Some open \<Rightarrow>
              do { info_class \<leftarrow> SetInfoRequestDecoder_FileInfoClass r;
                   ty \<leftarrow> SetInfoRequestDecoder_InfoType r;
                   if ty = 3 then setSecInfo cfg t fid pkt s
                   else if info_class = 4 \<and> \<not> op_isEa open then setBasicInfo cfg t fid pkt s
                   else if info_class = 20 \<and> \<not> op_isEa open then setEndOfFileInfo cfg t fid pkt s
                   else if info_class = 13
                   then (if op_isEa open then setDispositionInfoEa cfg t fid (op_eaKey open) pkt s
                         else setDispositionInfo cfg t fid pkt s)
                   else if info_class = 10 \<and> \<not> op_isEa open then setRename cfg t fid pkt s
                   else if info_class = 19 then set_done cfg t pkt s
                   else if info_class = 4 \<or> info_class = 20 then reply_error cfg t pkt 0 s
                   else reply_error cfg t pkt STATUS_NOT_SUPPORTED s }) }"

section \<open>Dispatch\<close>

text \<open>The inner switch of \<open>Run\<close>; a command it does not know gets no answer.\<close>

definition file_tree_op :: "srv_config \<Rightarrow> 'fs fileTree \<Rightarrow> slice \<Rightarrow> ('fs, srv_error option) eff" where
  "file_tree_op cfg t pkt s =
     do { cmd \<leftarrow> PacketCodec_Command pkt;
          if cmd = SMB2_CREATE then create cfg t pkt s
          else if cmd = SMB2_CLOSE then close cfg t pkt s
          else if cmd = SMB2_FLUSH then flush cfg t pkt s
          else if cmd = SMB2_READ then read cfg t pkt s
          else if cmd = SMB2_WRITE then tree_write cfg t pkt s
          else if cmd = SMB2_LOCK then lock cfg t pkt s
          else if cmd = SMB2_IOCTL then ioctl cfg t pkt s
          else if cmd = SMB2_CANCEL then cancel cfg t pkt s
          else if cmd = SMB2_QUERY_DIRECTORY then queryDirectory cfg t pkt s
          else if cmd = SMB2_CHANGE_NOTIFY then changeNotify cfg t pkt s
          else if cmd = SMB2_QUERY_INFO then queryInfo cfg t pkt s
          else if cmd = SMB2_SET_INFO then setInfo cfg t pkt s
          else if cmd = SMB2_OPLOCK_BREAK then oplockBreak cfg t pkt s
          else Some (None, s) }"

end
