(* ===== verification/DceRpc.thy ===== *)
theory DceRpc
  imports InfoFs GoStrings
begin

text \<open>
  The remote procedure calls of the share list (src/internal/smb2/dcerpc.go): the header of a
  call, the bind request and its acknowledgement, requests and responses, and the two answers
  the server gives, the list of shares and the information on one. As everywhere, a decoder works
  on the received slice and is \<open>None\<close> where the code slices out of range; an encoder writes into
  the buffer it is given. \<open>refId()\<close> counts up a variable of the package: an encoder takes its value,
  \<open>ref\<close>, and \<open>refs\<close> of what it encoded says how far the count went.
\<close>

section \<open>Constants\<close>

definition PacketTypeRequest :: u8 where "PacketTypeRequest = 0"
definition PacketTypeResponse :: u8 where "PacketTypeResponse = 2"
definition PacketTypeBind :: u8 where "PacketTypeBind = 11"
definition PacketTypeBindAck :: u8 where "PacketTypeBindAck = 12"
definition OpNetShareEnumAll :: u16 where "OpNetShareEnumAll = 15"
definition OpNetShareGetInfo :: u16 where "OpNetShareGetInfo = 16"
definition StypeDisktree :: u32 where "StypeDisktree = 0"

definition SRVSVC_UUID :: bytes where
  "SRVSVC_UUID = [0xc8, 0x4f, 0x32, 0x4b, 0x70, 0x16, 0xd3, 0x01, 0x12, 0x78, 0x5a, 0x47, 0xbf, 0x6e, 0xe1, 0x88]"

definition NDR_UUID :: bytes where
  "NDR_UUID = [0x04, 0x5d, 0x88, 0x8a, 0xeb, 0x1c, 0xc9, 0x11, 0x9f, 0xe8, 0x08, 0x00, 0x2b, 0x10, 0x48, 0x60]"

definition UUIDIsEqual :: "bytes \<Rightarrow> bytes \<Rightarrow> bool" where
  "UUIDIsEqual a b \<longleftrightarrow> a = b"

section \<open>The header of a call\<close>

record DCEHeader =
  dce_Version :: u8
  dce_VersionMinor :: u8
  dce_PacketType :: u8
  dce_PacketFlags :: u8
  dce_DataRepresentation :: bytes
  dce_FragLength :: u16
  dce_AuthLength :: u16
  dce_CallID :: u32

definition DCERequestDecoder_IsInvalid :: "slice \<Rightarrow> bool" where
  "DCERequestDecoder_IsInvalid r \<longleftrightarrow> slen r < 16"

definition DCERequestDecoder_Header :: "slice \<Rightarrow> DCEHeader option" where
  "DCERequestDecoder_Header r =
     do { ver \<leftarrow> sidx 0 r; minor \<leftarrow> sidx 1 r; ty \<leftarrow> sidx 2 r; flags \<leftarrow> sidx 3 r;
          rep \<leftarrow> sfrom 4 r;
          frag \<leftarrow> get16 8 r; auth \<leftarrow> get16 10 r; call \<leftarrow> get32 12 r;
          Some \<lparr>dce_Version = ver, dce_VersionMinor = minor, dce_PacketType = ty, dce_PacketFlags = flags,
            dce_DataRepresentation = copy_at 0 (sbytes rep) (replicate 4 0),
            dce_FragLength = frag, dce_AuthLength = auth, dce_CallID = call\<rparr> }"

definition DCEHeader_encodeHeader :: "DCEHeader \<Rightarrow> bytes \<Rightarrow> bytes option" where
  "DCEHeader_encodeHeader h =
     seqw [put8 0 (dce_Version h), put8 1 (dce_VersionMinor h), put8 2 (dce_PacketType h),
       put8 3 (dce_PacketFlags h), copy_from 4 (dce_DataRepresentation h), put16 8 (dce_FragLength h),
       put16 10 (dce_AuthLength h), put32 12 (dce_CallID h)]"

section \<open>Bind\<close>

record TransferSyntax =
  ts_SyntaxUUID :: bytes
  ts_VersionMajor :: u16
  ts_VersionMinor :: u16

record ContextRequestItem =
  ci_ContextID :: u16
  ci_TransferSyntaxCount :: u8
  ci_InterfaceUUID :: bytes
  ci_VersionMajor :: u16
  ci_VersionMinor :: u16
  ci_TransferSyntaxes :: "TransferSyntax list"

definition DCEBindRequestDecoder_MaxSendFragSize :: "slice \<Rightarrow> u16 option" where
  "DCEBindRequestDecoder_MaxSendFragSize r = get16 16 r"
definition DCEBindRequestDecoder_MaxRecvFragSize :: "slice \<Rightarrow> u16 option" where
  "DCEBindRequestDecoder_MaxRecvFragSize r = get16 18 r"
definition DCEBindRequestDecoder_AssocGroupID :: "slice \<Rightarrow> u32 option" where
  "DCEBindRequestDecoder_AssocGroupID r = get32 20 r"
definition DCEBindRequestDecoder_NumCtxItems :: "slice \<Rightarrow> u8 option" where
  "DCEBindRequestDecoder_NumCtxItems r = sidx 24 r"

text \<open>The inner loop, \<open>n\<close> syntaxes from \<open>off\<close> on, and the outer one, \<open>n\<close> items.\<close>

definition uuid_at :: "nat \<Rightarrow> slice \<Rightarrow> bytes option" where
  "uuid_at off r = map_option (\<lambda>s. copy_at 0 (sbytes s) (replicate 16 0)) (sfrom off r)"

fun transfer_syntaxes :: "nat \<Rightarrow> nat \<Rightarrow> slice \<Rightarrow> TransferSyntax list option" where
  "transfer_syntaxes 0 off r = Some []"
| "transfer_syntaxes (Suc n) off r =
     do { u \<leftarrow> uuid_at off r; major \<leftarrow> get16 (off + 16) r; minor \<leftarrow> get16 (off + 18) r;
          rest \<leftarrow> transfer_syntaxes n (off + 20) r;
          Some (\<lparr>ts_SyntaxUUID = u, ts_VersionMajor = major, ts_VersionMinor = minor\<rparr> # rest) }"

fun ctx_items :: "nat \<Rightarrow> nat \<Rightarrow> slice \<Rightarrow> ContextRequestItem list option" where
  "ctx_items 0 off r = Some []"
| "ctx_items (Suc n) off r =
     do { id \<leftarrow> get16 off r; count \<leftarrow> sidx (off + 2) r; u \<leftarrow> uuid_at (off + 4) r;
          major \<leftarrow> get16 (off + 20) r; minor \<leftarrow> get16 (off + 22) r;
          ts \<leftarrow> transfer_syntaxes (unat count) (off + 24) r;
          rest \<leftarrow> ctx_items n (off + 24 + 20 * unat count) r;
          Some (\<lparr>ci_ContextID = id, ci_TransferSyntaxCount = count, ci_InterfaceUUID = u,
            ci_VersionMajor = major, ci_VersionMinor = minor, ci_TransferSyntaxes = ts\<rparr> # rest) }"

definition DCEBindRequestDecoder_CtxItems :: "slice \<Rightarrow> ContextRequestItem list option" where
  "DCEBindRequestDecoder_CtxItems r =
     do { n \<leftarrow> DCEBindRequestDecoder_NumCtxItems r; ctx_items (unat n) 28 r }"

record ContextResponseItem =
  cri_Result :: u32
  cri_TransferUUID :: bytes
  cri_TransferVersion :: u32

record DCEBindAck =
  ba_CallID :: u32
  ba_MaxSendFragSize :: u16
  ba_MaxRecvFragSize :: u16
  ba_AssocGroupID :: u32
  ba_SecAddrLen :: u16
  ba_SecAddr :: bytes
  ba_CtxCount :: u8
  ba_CtxItems :: "ContextResponseItem list"

definition DCEBindAck_Size :: "DCEBindAck \<Rightarrow> nat" where
  "DCEBindAck_Size r = nat (Align (30 + uint (ba_SecAddrLen r)) 2) + unat (ba_CtxCount r) * 24"

fun put_ctx_items :: "nat \<Rightarrow> ContextResponseItem list \<Rightarrow> (bytes \<Rightarrow> bytes option) list" where
  "put_ctx_items off [] = []"
| "put_ctx_items off (i # is) =
     [put32 off (cri_Result i), copy_from (off + 4) (cri_TransferUUID i), put32 (off + 20) (cri_TransferVersion i)]
     @ put_ctx_items (off + 24) is"

text \<open>The fields of the header the encoders fill in themselves.\<close>

definition dce_header :: "u8 \<Rightarrow> nat \<Rightarrow> u32 \<Rightarrow> DCEHeader" where
  "dce_header ty n call = \<lparr>dce_Version = 5, dce_VersionMinor = 0, dce_PacketType = ty, dce_PacketFlags = 3,
     dce_DataRepresentation = [0x10, 0, 0, 0], dce_FragLength = of_nat n, dce_AuthLength = 0, dce_CallID = call\<rparr>"

definition frag_size :: "u16 \<Rightarrow> u16" where
  "frag_size n = (if n = 0 then 5840 else n)"

definition DCEBindAck_Encode :: "DCEBindAck \<Rightarrow> bytes \<Rightarrow> bytes option" where
  "DCEBindAck_Encode r =
     seqw ([DCEHeader_encodeHeader (dce_header PacketTypeBindAck (DCEBindAck_Size r) (ba_CallID r)),
       put16 16 (frag_size (ba_MaxSendFragSize r)), put16 18 (frag_size (ba_MaxRecvFragSize r)),
       put32 20 (ba_AssocGroupID r), put16 24 (ba_SecAddrLen r), copy_from 26 (ba_SecAddr r),
       put8 39 0, put8 40 (ba_CtxCount r)] @ put_ctx_items 44 (ba_CtxItems r))"

section \<open>Requests and responses\<close>

definition DCERequestReqDecoder_AllocHint :: "slice \<Rightarrow> u32 option" where
  "DCERequestReqDecoder_AllocHint r = get32 16 r"
definition DCERequestReqDecoder_ContextId :: "slice \<Rightarrow> u16 option" where
  "DCERequestReqDecoder_ContextId r = get16 20 r"
definition DCERequestReqDecoder_Opnum :: "slice \<Rightarrow> u16 option" where
  "DCERequestReqDecoder_Opnum r = get16 22 r"
definition DCERequestReqDecoder_Data :: "slice \<Rightarrow> slice option" where
  "DCERequestReqDecoder_Data r = sfrom 24 r"

record DCERequestRes =
  rs_CallID :: u32
  rs_AllocHint :: u32
  rs_ContextId :: u16
  rs_CancelCount :: u8
  rs_Data :: "enc option"

definition DCERequestRes_Size :: "DCERequestRes \<Rightarrow> nat" where
  "DCERequestRes_Size r = 24 + (case rs_Data r of None \<Rightarrow> 0 | Some d \<Rightarrow> en_size d)"

definition DCERequestRes_Encode :: "DCERequestRes \<Rightarrow> bytes \<Rightarrow> bytes option" where
  "DCERequestRes_Encode r =
     seqw ([DCEHeader_encodeHeader (dce_header PacketTypeResponse (DCERequestRes_Size r) (rs_CallID r)),
       put32 16 (rs_AllocHint r), put16 20 (rs_ContextId r), put8 22 (rs_CancelCount r)]
       @ (case rs_Data r of None \<Rightarrow> [] | Some d \<Rightarrow> [at_off 24 (en_encode d)]))"

section \<open>Strings\<close>

record UnicodeStr =
  us_MaxCount :: u32
  us_Offset :: u32
  us_ActualCount :: u32
  us_EncodedString :: bytes

definition UnicodeStr_Size :: "UnicodeStr \<Rightarrow> nat" where
  "UnicodeStr_Size s = 12 + nat (Align (uint (us_ActualCount s * 2)) 4)"

definition UnicodeStr_Encode :: "UnicodeStr \<Rightarrow> bytes \<Rightarrow> bytes option" where
  "UnicodeStr_Encode s =
     seqw [put32 0 (us_MaxCount s), put32 4 (us_Offset s), put32 8 (us_ActualCount s),
       copy_from 12 (us_EncodedString s)]"

text \<open>The counts are of bytes of the Go string with its final zero, not of what is encoded.\<close>

definition makeUnicodeStr :: "string \<Rightarrow> UnicodeStr" where
  "makeUnicodeStr s =
     (let str = s @ [CHR 0x00]
      in \<lparr>us_MaxCount = of_nat (length str), us_Offset = 0, us_ActualCount = of_nat (length str),
          us_EncodedString = EncodeStringToBytes (go_runes str)\<rparr>)"

section \<open>The list of shares\<close>

record ShareInfo1 =
  sh_Name :: UnicodeStr
  sh_Type :: u32
  sh_Comment :: UnicodeStr

record NetShareInfo1 =
  ni_Count :: u32
  ni_Pointer :: "ShareInfo1 list"

record NetShareCtr1 =
  n1_Count :: u32
  n1_Info :: NetShareInfo1

record NetShareCtr =
  nc_Ctr :: u32
  nc_Pointer :: NetShareCtr1

record NetShareEnumAllResponse =
  ne_Level :: u32
  ne_Ctr :: NetShareCtr
  ne_TotalEntries :: u32
  ne_Handle :: u32
  ne_WindowsError :: u32

definition share_size :: "ShareInfo1 \<Rightarrow> nat" where
  "share_size i = UnicodeStr_Size (sh_Comment i) + UnicodeStr_Size (sh_Name i) + 12"

definition NetShareInfo1_Size :: "NetShareInfo1 \<Rightarrow> nat" where
  "NetShareInfo1_Size n = 4 + sum_list (map share_size (ni_Pointer n))"

fun share_heads :: "u32 \<Rightarrow> nat \<Rightarrow> ShareInfo1 list \<Rightarrow> (bytes \<Rightarrow> bytes option) list" where
  "share_heads ref off [] = []"
| "share_heads ref off (i # is) =
     [put32 off ref, put32 (off + 4) (sh_Type i), put32 (off + 8) (ref + 1)] @ share_heads (ref + 2) (off + 12) is"

fun share_names :: "nat \<Rightarrow> ShareInfo1 list \<Rightarrow> (bytes \<Rightarrow> bytes option) list" where
  "share_names off [] = []"
| "share_names off (i # is) =
     (let name = UnicodeStr_Size (sh_Name i) in
      [at_off off (UnicodeStr_Encode (sh_Name i)), at_off (off + name) (UnicodeStr_Encode (sh_Comment i))]
      @ share_names (off + name + UnicodeStr_Size (sh_Comment i)) is)"

definition NetShareInfo1_Encode :: "u32 \<Rightarrow> NetShareInfo1 \<Rightarrow> bytes \<Rightarrow> bytes option" where
  "NetShareInfo1_Encode ref n =
     seqw (put32 0 (ni_Count n) # share_heads ref 4 (ni_Pointer n)
       @ share_names (4 + 12 * length (ni_Pointer n)) (ni_Pointer n))"

definition NetShareCtr1_Size :: "NetShareCtr1 \<Rightarrow> nat" where
  "NetShareCtr1_Size n = NetShareInfo1_Size (n1_Info n) + 8"

definition NetShareCtr1_Encode :: "u32 \<Rightarrow> NetShareCtr1 \<Rightarrow> bytes \<Rightarrow> bytes option" where
  "NetShareCtr1_Encode ref n =
     seqw [put32 0 (n1_Count n), put32 4 ref, at_off 8 (NetShareInfo1_Encode (ref + 1) (n1_Info n))]"

definition NetShareCtr_Size :: "NetShareCtr \<Rightarrow> nat" where
  "NetShareCtr_Size n = (if nc_Ctr n = 1 then 8 + NetShareCtr1_Size (nc_Pointer n) else 0)"

definition NetShareCtr_Encode :: "u32 \<Rightarrow> NetShareCtr \<Rightarrow> bytes \<Rightarrow> bytes option" where
  "NetShareCtr_Encode ref n =
     seqw [put32 0 (nc_Ctr n), put32 4 ref, at_off 8 (NetShareCtr1_Encode (ref + 1) (nc_Pointer n))]"

definition share_refs :: "NetShareEnumAllResponse \<Rightarrow> u32" where
  "share_refs r = 3 + 2 * of_nat (length (ni_Pointer (n1_Info (nc_Pointer (ne_Ctr r)))))"

definition NetShareEnumAllResponse_Size :: "NetShareEnumAllResponse \<Rightarrow> nat" where
  "NetShareEnumAllResponse_Size r = 20 + NetShareCtr_Size (ne_Ctr r)"

definition NetShareEnumAllResponse_Encode :: "u32 \<Rightarrow> NetShareEnumAllResponse \<Rightarrow> bytes \<Rightarrow> bytes option" where
  "NetShareEnumAllResponse_Encode ref r =
     (let off = 4 + NetShareCtr_Size (ne_Ctr r) in
      seqw [put32 0 (ne_Level r), at_off 4 (NetShareCtr_Encode ref (ne_Ctr r)), put32 off (ne_TotalEntries r),
        put32 (off + 4) (ref + share_refs r - 1), put32 (off + 8) (ne_Handle r), put32 (off + 12) (ne_WindowsError r)])"

definition share_info :: "string \<Rightarrow> ShareInfo1" where
  "share_info share = \<lparr>sh_Name = makeUnicodeStr share, sh_Type = StypeDisktree, sh_Comment = makeUnicodeStr []\<rparr>"

definition MakeNetShareEnumAllResponse :: "string list \<Rightarrow> NetShareEnumAllResponse" where
  "MakeNetShareEnumAllResponse shares =
     (let n = of_nat (length shares)
      in \<lparr>ne_Level = 1,
          ne_Ctr = \<lparr>nc_Ctr = 1, nc_Pointer = \<lparr>n1_Count = n, n1_Info = \<lparr>ni_Count = n, ni_Pointer = map share_info shares\<rparr>\<rparr>\<rparr>,
          ne_TotalEntries = n, ne_Handle = 0, ne_WindowsError = 0\<rparr>)"

section \<open>One share\<close>

text \<open>The lengths are those of the decoded Go strings, in bytes.\<close>

definition NetShareGetInfoRequestDecoder_ServerName :: "slice \<Rightarrow> string option" where
  "NetShareGetInfoRequestDecoder_ServerName r =
     do { s \<leftarrow> sfrom 12 r; len1 \<leftarrow> le_u32 s;
          if 16 + unat len1 * 2 > slen r then Some []
          else do { b \<leftarrow> ssub 16 (16 + unat len1 * 2) r; Some (go_string (DecodeToString (sbytes b))) } }"

definition NetShareGetInfoRequestDecoder_ShareName :: "slice \<Rightarrow> string option" where
  "NetShareGetInfoRequestDecoder_ShareName r =
     do { srv \<leftarrow> NetShareGetInfoRequestDecoder_ServerName r;
          let off = 16 + nat (Align (int (length srv)) 2) * 2;
          s \<leftarrow> sfrom (off + 8) r; len1 \<leftarrow> le_u32 s;
          if off + off + 12 + unat len1 * 2 > slen r then Some []
          else do { b \<leftarrow> ssub (off + 12) (off + 12 + unat len1 * 2) r; Some (go_string (DecodeToString (sbytes b))) } }"

definition NetShareGetInfoRequestDecoder_Level :: "slice \<Rightarrow> u32 option" where
  "NetShareGetInfoRequestDecoder_Level r =
     do { srv \<leftarrow> NetShareGetInfoRequestDecoder_ServerName r;
          share \<leftarrow> NetShareGetInfoRequestDecoder_ShareName r;
          let off = 28 + nat (Align (int (length srv)) 2) * 2 + nat (Align (int (length share)) 2) * 2;
          if off > slen r then Some 0 else do { s \<leftarrow> sfrom off r; le_u32 s } }"

record NetShareGetInfo1 =
  g1_Name :: UnicodeStr
  g1_Type :: u32
  g1_Comment :: UnicodeStr

record NetShareGetInfoResponse =
  gi_Level :: u32
  gi_Pointer :: NetShareGetInfo1
  gi_WindowsError :: u32

definition MakeGetInfoShareResponse :: "string \<Rightarrow> NetShareGetInfoResponse" where
  "MakeGetInfoShareResponse share =
     \<lparr>gi_Level = 1, gi_Pointer = \<lparr>g1_Name = makeUnicodeStr share, g1_Type = StypeDisktree,
        g1_Comment = makeUnicodeStr ''comment''\<rparr>, gi_WindowsError = 0\<rparr>"

definition NetShareGetInfo1_Size :: "NetShareGetInfo1 \<Rightarrow> nat" where
  "NetShareGetInfo1_Size n = UnicodeStr_Size (g1_Comment n) + UnicodeStr_Size (g1_Name n) + 12"

definition NetShareGetInfo1_Encode :: "u32 \<Rightarrow> NetShareGetInfo1 \<Rightarrow> bytes \<Rightarrow> bytes option" where
  "NetShareGetInfo1_Encode ref n =
     seqw [put32 0 ref, put32 4 (g1_Type n), put32 8 (ref + 1), at_off 12 (UnicodeStr_Encode (g1_Name n)),
       at_off (12 + UnicodeStr_Size (g1_Name n)) (UnicodeStr_Encode (g1_Comment n))]"

definition NetShareGetInfoResponse_Size :: "NetShareGetInfoResponse \<Rightarrow> nat" where
  "NetShareGetInfoResponse_Size n = NetShareGetInfo1_Size (gi_Pointer n) + 12"

definition NetShareGetInfoResponse_Encode :: "u32 \<Rightarrow> NetShareGetInfoResponse \<Rightarrow> bytes \<Rightarrow> bytes option" where
  "NetShareGetInfoResponse_Encode ref n =
     seqw [put32 0 (gi_Level n), put32 4 ref, at_off 8 (NetShareGetInfo1_Encode (ref + 1) (gi_Pointer n)),
       put32 (8 + NetShareGetInfo1_Size (gi_Pointer n)) (gi_WindowsError n)]"

end
