(* ===== verification/IpcTree.thy ===== *)
theory IpcTree
  imports FileTree DceRpc
begin

text \<open>
  The tree of the share IPC$ (src/server/ipc_tree.go): one pipe, \<open>srvsvc\<close>, over which a client
  lists the shares. What is written to the pipe is kept (\<open>h_dceReq\<close>) and answered by the next
  read; an IOCTL does both at once. Every other request returns an error, which ends the
  connection's loop.
\<close>

definition STATUS_DATA_ERROR :: u32 where "STATUS_DATA_ERROR = 0xC000003E"
definition STATUS_FS_DRIVER_REQUIRED :: u32 where "STATUS_FS_DRIVER_REQUIRED = 0xC000019C"
definition FSCTL_PIPE_TRANSCEIVE :: u32 where "FSCTL_PIPE_TRANSCEIVE = 0x11C017"
definition FSCTL_DFS_GET_REFERRALS :: u32 where "FSCTL_DFS_GET_REFERRALS = 0x60194"

record ipcTree =
  it_tree :: treeConn
  it_shares :: "string list"

definition ipc_conn :: "ipcTree \<Rightarrow> unit option" where
  "ipc_conn t = map_option (\<lambda>_. ()) (tc_session (it_tree t))"

definition ipc_send :: "srv_config \<Rightarrow> ipcTree \<Rightarrow> packet \<Rightarrow> ('fs, srv_error option) eff" where
  "ipc_send cfg t rsp = send_on cfg (Some (it_tree t)) rsp"

definition ipc_reply_error :: "srv_config \<Rightarrow> ipcTree \<Rightarrow> slice \<Rightarrow> u32 \<Rightarrow> ('fs, srv_error option) eff" where
  "ipc_reply_error cfg t pkt status s =
     do { hdr \<leftarrow> PrepareResponse pkt status; ipc_send cfg t (error_rsp hdr) s }"

section \<open>The pipe\<close>

definition ipc_create :: "srv_config \<Rightarrow> ipcTree \<Rightarrow> slice \<Rightarrow> ('fs, srv_error option) eff" where
  "ipc_create cfg t pkt s =
     do { _ \<leftarrow> ipc_conn t;
          (r, err) \<leftarrow> accept SMB2_CREATE pkt;
          if err \<noteq> None then Some (err, s)
          else do { bad \<leftarrow> CreateRequestDecoder_IsInvalid r;
          if bad then Some (Some InvalidRequestError, s)
          else do { name \<leftarrow> CreateRequestDecoder_Name r;
          hdr \<leftarrow> PrepareResponse pkt 0;
          let pipe = (name = go_runes ''srvsvc'');
          ipc_send cfg t (CreatePacket \<lparr>cp_Header = (if pipe then hdr else hdr\<lparr>ph_Status := STATUS_NOT_SUPPORTED\<rparr>),
             cp_OplockLevel = 0, cp_RspFlags = 0, cp_CreateAction = 1,
             cp_CreationTime = Some zero_Filetime, cp_LastAccessTime = Some zero_Filetime,
             cp_LastWriteTime = Some zero_Filetime, cp_ChangeTime = Some zero_Filetime,
             cp_AllocationSize = 0, cp_EndofFile = 0, cp_FileAttributes = FILE_ATTRIBUTE_NORMAL,
             cp_FileId = (if pipe then Some (sc_srvsvc cfg) else None), cp_Contexts = []\<rparr>) s } } }"

definition ipc_close :: "srv_config \<Rightarrow> ipcTree \<Rightarrow> slice \<Rightarrow> ('fs, srv_error option) eff" where
  "ipc_close cfg t pkt s =
     do { _ \<leftarrow> ipc_conn t;
          (r, err) \<leftarrow> accept SMB2_CLOSE pkt;
          if err \<noteq> None then Some (err, s)
          else do { bad \<leftarrow> CloseRequestDecoder_IsInvalid r;
          if bad then Some (Some InvalidRequestError, s)
          else do { fid \<leftarrow> CloseRequestDecoder_FileId r;
          p \<leftarrow> FileIdDecoder_Persistent fid;
          if sbytes p \<noteq> fid_Persistent (sc_srvsvc cfg) then Some (Some InvalidRequestError, s)
          else do { hdr \<leftarrow> PrepareResponse pkt 0;
          ipc_send cfg t (ClosePacket \<lparr>cs_Header = hdr, cs_CloseFlags = 0, cs_CreationTime = Some zero_Filetime,
             cs_LastAccessTime = Some zero_Filetime, cs_LastWriteTime = Some zero_Filetime,
             cs_ChangeTime = Some zero_Filetime, cs_AllocationSize = 0, cs_EndofFile = 0,
             cs_FileAttributes = FILE_ATTRIBUTE_NORMAL\<rparr>) s } } } }"

definition ipc_write :: "srv_config \<Rightarrow> ipcTree \<Rightarrow> slice \<Rightarrow> ('fs, srv_error option) eff" where
  "ipc_write cfg t pkt s =
     do { _ \<leftarrow> ipc_conn t;
          (r, _) \<leftarrow> accept SMB2_WRITE pkt;
          data \<leftarrow> WriteRequestDecoder_Data r;
          hdr \<leftarrow> PrepareResponse pkt 0;
          ipc_send cfg t (WritePacket \<lparr>wp_Header = hdr, wp_Count = of_nat (slen data), wp_Remaining = 0\<rparr>)
            (s\<lparr>h_dceReq := Some data\<rparr>) }"

section \<open>The calls\<close>

datatype rpc = RpcBindAck DCEBindAck | RpcShares u32 NetShareEnumAllResponse | RpcShare u32 NetShareGetInfoResponse

definition rpc_response :: "u32 \<Rightarrow> enc \<Rightarrow> DCERequestRes" where
  "rpc_response call d = \<lparr>rs_CallID = call, rs_AllocHint = 0, rs_ContextId = 0, rs_CancelCount = 0, rs_Data = Some d\<rparr>"

fun rpc_enc :: "u32 \<Rightarrow> rpc \<Rightarrow> enc" where
  "rpc_enc ref (RpcBindAck a) = \<lparr>en_size = DCEBindAck_Size a, en_encode = DCEBindAck_Encode a\<rparr>"
| "rpc_enc ref (RpcShares call r) =
     (let d = rpc_response call \<lparr>en_size = NetShareEnumAllResponse_Size r, en_encode = NetShareEnumAllResponse_Encode ref r\<rparr>
      in \<lparr>en_size = DCERequestRes_Size d, en_encode = DCERequestRes_Encode d\<rparr>)"
| "rpc_enc ref (RpcShare call r) =
     (let d = rpc_response call \<lparr>en_size = NetShareGetInfoResponse_Size r, en_encode = NetShareGetInfoResponse_Encode ref r\<rparr>
      in \<lparr>en_size = DCERequestRes_Size d, en_encode = DCERequestRes_Encode d\<rparr>)"

fun rpc_refs :: "rpc \<Rightarrow> u32" where
  "rpc_refs (RpcBindAck a) = 0"
| "rpc_refs (RpcShares call r) = share_refs r"
| "rpc_refs (RpcShare call r) = 3"

text \<open>An item without a transfer syntax panics: the first one is read in any case.\<close>

definition bind_item :: "ContextRequestItem \<Rightarrow> ContextResponseItem option" where
  "bind_item item =
     (case ci_TransferSyntaxes item of
        [] \<Rightarrow> None
      | t # ts \<Rightarrow>
          (let result = (if \<not> UUIDIsEqual (ts_SyntaxUUID t) NDR_UUID \<or> ts \<noteq> [] then 2
                         else if \<not> UUIDIsEqual (ci_InterfaceUUID item) SRVSVC_UUID then 1 else 0)
           in Some (if result = 0
                    then \<lparr>cri_Result = 0, cri_TransferUUID = ts_SyntaxUUID t,
                          cri_TransferVersion = push_bit 16 (ucast (ts_VersionMinor t)) OR ucast (ts_VersionMajor t)\<rparr>
                    else \<lparr>cri_Result = result, cri_TransferUUID = [], cri_TransferVersion = 0\<rparr>)))"

fun bind_items :: "ContextRequestItem list \<Rightarrow> ContextResponseItem list option" where
  "bind_items [] = Some []"
| "bind_items (i # is) = do { r \<leftarrow> bind_item i; rs \<leftarrow> bind_items is; Some (r # rs) }"

definition ipcTreeBindReq :: "slice \<Rightarrow> rpc option" where
  "ipcTreeBindReq pkt =
     do { items \<leftarrow> DCEBindRequestDecoder_CtxItems pkt;
          rsp \<leftarrow> bind_items items;
          recv \<leftarrow> DCEBindRequestDecoder_MaxRecvFragSize pkt;
          snd \<leftarrow> DCEBindRequestDecoder_MaxSendFragSize pkt;
          hdr \<leftarrow> DCERequestDecoder_Header pkt;
          Some (RpcBindAck \<lparr>ba_CallID = dce_CallID hdr, ba_MaxSendFragSize = snd, ba_MaxRecvFragSize = recv,
            ba_AssocGroupID = 0xcc21, ba_SecAddrLen = 13,
            ba_SecAddr = map of_char (backslash # ''pipe'' @ backslash # ''srvsvc'') @ [0],
            ba_CtxCount = of_nat (length rsp), ba_CtxItems = rsp\<rparr>) }"

text \<open>\<open>None\<close> inside for the error of an unknown call.\<close>

definition ipcTreeReq :: "string list \<Rightarrow> slice \<Rightarrow> rpc option option" where
  "ipcTreeReq shares pkt =
     do { op \<leftarrow> DCERequestReqDecoder_Opnum pkt;
          if op = OpNetShareEnumAll
          then do { hdr \<leftarrow> DCERequestDecoder_Header pkt;
                    Some (Some (RpcShares (dce_CallID hdr) (MakeNetShareEnumAllResponse shares))) }
          else if op = OpNetShareGetInfo
          then do { d \<leftarrow> DCERequestReqDecoder_Data pkt;
                    name \<leftarrow> NetShareGetInfoRequestDecoder_ShareName d;
                    hdr \<leftarrow> DCERequestDecoder_Header pkt;
                    Some (Some (RpcShare (dce_CallID hdr) (MakeGetInfoShareResponse name))) }
          else Some None }"

definition use_refs :: "rpc \<Rightarrow> 'fs hst \<Rightarrow> 'fs hst" where
  "use_refs r s = s\<lparr>h_refId := h_refId s + rpc_refs r\<rparr>"

text \<open>A request that is too short is answered by an error response with status 0.\<close>

definition ipc_read :: "srv_config \<Rightarrow> ipcTree \<Rightarrow> slice \<Rightarrow> ('fs, srv_error option) eff" where
  "ipc_read cfg t pkt s =
     do { _ \<leftarrow> ipc_conn t;
          hdr \<leftarrow> PrepareResponse pkt 0;
          case h_dceReq s of
            None \<Rightarrow> ipc_send cfg t (ReadPacket \<lparr>rr_Header = hdr, rr_Data = [], rr_DataRemaining = 0\<rparr>) s
          | Some req \<Rightarrow>
              if DCERequestDecoder_IsInvalid req then ipc_reply_error cfg t pkt 0 s
              else do { h \<leftarrow> DCERequestDecoder_Header req;
                        r \<leftarrow> (if dce_PacketType h = PacketTypeBind then map_option Some (ipcTreeBindReq req)
                             else if dce_PacketType h = PacketTypeRequest then ipcTreeReq (it_shares t) req
                             else Some None);
                        case r of
                          None \<Rightarrow> ipc_reply_error cfg t pkt STATUS_DATA_ERROR s
                        | Some r \<Rightarrow>
                            (let e = rpc_enc (h_refId s) r
                             in do { data \<leftarrow> en_encode e (replicate (en_size e) 0);
                                     ipc_send cfg t (ReadPacket \<lparr>rr_Header = hdr, rr_Data = data, rr_DataRemaining = 0\<rparr>)
                                       (use_refs r (s\<lparr>h_dceReq := None\<rparr>)) }) } }"

definition ipc_transceive :: "srv_config \<Rightarrow> ipcTree \<Rightarrow> slice \<Rightarrow> slice \<Rightarrow> ('fs, srv_error option) eff" where
  "ipc_transceive cfg t pkt data s =
     do { h \<leftarrow> DCERequestDecoder_Header data;
          if dce_PacketType h \<noteq> PacketTypeRequest \<and> dce_PacketType h \<noteq> PacketTypeBind
          then Some (Some InvalidRequestError, s)
          else do { r \<leftarrow> (if dce_PacketType h = PacketTypeRequest then ipcTreeReq (it_shares t) data
                         else map_option Some (ipcTreeBindReq data));
          case r of
            None \<Rightarrow> ipc_reply_error cfg t pkt STATUS_ACCESS_DENIED s
          | Some r \<Rightarrow>
              do { hdr \<leftarrow> PrepareResponse pkt 0;
                   ipc_send cfg t (IoctlPacket \<lparr>ip_Header = hdr, ip_CtlCode = FSCTL_PIPE_TRANSCEIVE,
                     ip_FileId = Some (sc_srvsvc cfg), ip_Flags2 = 0, ip_Input = None,
                     ip_Output = Some (rpc_enc (h_refId s) r)\<rparr>) (use_refs r s) } } }"

definition ipc_ioctl :: "srv_config \<Rightarrow> ipcTree \<Rightarrow> slice \<Rightarrow> ('fs, srv_error option) eff" where
  "ipc_ioctl cfg t pkt s =
     do { _ \<leftarrow> ipc_conn t;
          (r, err) \<leftarrow> accept SMB2_IOCTL pkt;
          if err \<noteq> None then Some (err, s)
          else do { bad \<leftarrow> IoctlRequestDecoder_IsInvalid r;
          if bad then Some (Some InvalidRequestError, s)
          else do { code \<leftarrow> IoctlRequestDecoder_CtlCode r;
          if code = FSCTL_DFS_GET_REFERRALS then ipc_reply_error cfg t pkt STATUS_FS_DRIVER_REQUIRED s
          else if code \<noteq> FSCTL_PIPE_TRANSCEIVE then Some (Some InvalidRequestError, s)
          else do { fid \<leftarrow> IoctlRequestDecoder_FileId r;
          p \<leftarrow> FileIdDecoder_Persistent fid;
          v \<leftarrow> FileIdDecoder_Volatile fid;
          if sbytes p \<noteq> fid_Persistent (sc_srvsvc cfg) \<or> sbytes v \<noteq> fid_Volatile (sc_srvsvc cfg)
          then Some (Some InvalidRequestError, s)
          else do { data \<leftarrow> IoctlRequestDecoder_Data r; ipc_transceive cfg t pkt data s } } } } }"

definition ipc_queryInfo :: "srv_config \<Rightarrow> ipcTree \<Rightarrow> slice \<Rightarrow> ('fs, srv_error option) eff" where
  "ipc_queryInfo cfg t pkt s = do { _ \<leftarrow> ipc_conn t; ipc_reply_error cfg t pkt STATUS_NOT_SUPPORTED s }"

text \<open>FLUSH, CANCEL, QUERY_DIRECTORY, CHANGE_NOTIFY, SET_INFO, LOCK and the oplock break.\<close>

definition ipc_refuse :: "('fs, srv_error option) eff" where
  "ipc_refuse s = Some (Some InvalidRequestError, s)"

definition ipc_tree_op :: "srv_config \<Rightarrow> ipcTree \<Rightarrow> slice \<Rightarrow> ('fs, srv_error option) eff" where
  "ipc_tree_op cfg t pkt s =
     do { cmd \<leftarrow> PacketCodec_Command pkt;
          if cmd = SMB2_CREATE then ipc_create cfg t pkt s
          else if cmd = SMB2_CLOSE then ipc_close cfg t pkt s
          else if cmd = SMB2_READ then ipc_read cfg t pkt s
          else if cmd = SMB2_WRITE then ipc_write cfg t pkt s
          else if cmd = SMB2_IOCTL then ipc_ioctl cfg t pkt s
          else if cmd = SMB2_QUERY_INFO then ipc_queryInfo cfg t pkt s
          else if cmd \<in> {SMB2_FLUSH, SMB2_LOCK, SMB2_CANCEL, SMB2_QUERY_DIRECTORY, SMB2_CHANGE_NOTIFY,
            SMB2_SET_INFO, SMB2_OPLOCK_BREAK} then ipc_refuse s
          else Some (None, s) }"

end
