(* ===== verification/FileTreeKeeps.thy ===== *)
theory FileTreeKeeps
  imports FileTreeSet IpcTree
begin

text \<open>
  What the handlers of a tree keep. The locale \<open>tree_keeps\<close> asks of a property of the state that the
  things a handler does to it keep it: a method of the share's file system, a reply, the table of
  opens and its own fields. Then every handler keeps it, whatever the packet, and so do the
  goroutines of READ and WRITE. The proofs are all alike: the rules for the parts follow the text.
\<close>

section \<open>The share's methods\<close>

inductive fs_step :: "'fs vfs \<Rightarrow> 'fs \<Rightarrow> 'fs \<Rightarrow> bool" for V where
  "fs_step V fs (snd (v_GetAttr V h fs))"
| "fs_step V fs (snd (v_SetAttr V h a fs))"
| "fs_step V fs (snd (v_StatFS V h fs))"
| "fs_step V fs (snd (v_Flush V h fs))"
| "fs_step V fs (snd (v_Open V p flags m fs))"
| "fs_step V fs (snd (v_Close V h fs))"
| "fs_step V fs (snd (v_Lookup V h p fs))"
| "fs_step V fs (snd (v_Mkdir V p m fs))"
| "fs_step V fs (snd (v_Read V h n off flags fs))"
| "fs_step V fs (snd (v_Write V h buf off flags fs))"
| "fs_step V fs (snd (v_OpenDir V p fs))"
| "fs_step V fs (snd (v_ReadDir V h pos k fs))"
| "fs_step V fs (snd (v_Readlink V h fs))"
| "fs_step V fs (snd (v_Unlink V h fs))"
| "fs_step V fs (snd (v_Truncate V h sz fs))"
| "fs_step V fs (snd (v_Rename V h p flags fs))"
| "fs_step V fs (snd (v_Symlink V h p flags fs))"
| "fs_step V fs (snd (v_Listxattr V h fs))"
| "fs_step V fs (snd (v_Getxattr V h key b fs))"
| "fs_step V fs (snd (v_Setxattr V h key val fs))"
| "fs_step V fs (snd (v_Removexattr V h key fs))"
| "v_SetOperationContext V = Some f \<Longrightarrow> fs_step V fs (f ctx fs)"

context vfs_keeps begin

lemma fs_step_kept: "fs_step V s s' \<Longrightarrow> P s \<Longrightarrow> P s'"
  by (induction rule: fs_step.induct)
    (rule GetAttr SetAttr StatFS Flush Open Close Lookup Mkdir Read Write OpenDir ReadDir Readlink Unlink
      Truncate Rename Symlink Listxattr Getxattr Setxattr Removexattr SetOperationContext, assumption+)+

end

section \<open>Handlers\<close>

named_theorems keeps

lemma after_apply [keeps]:
  "(\<And>a b. after P (k a b s)) \<Longrightarrow> after P ((case p of (a, b) \<Rightarrow> k a b) s)"
  by (cases p) simp

lemma after_file_info [keeps]:
  "(\<And>a. after P (f a)) \<Longrightarrow> after P g \<Longrightarrow> (\<And>a. after P (k a)) \<Longrightarrow>
   after P (case i of InfoStatus a \<Rightarrow> f a | InfoUnsupported \<Rightarrow> g | InfoOutput a \<Rightarrow> k a)"
  by (cases i) simp_all

locale reply_keeps =
  fixes Q :: "'fs hst \<Rightarrow> bool"
  assumes send_on [keeps]: "Q s \<Longrightarrow> after Q (send_on cfg tc rsp s)"
    and random_id [keeps]: "Q s \<Longrightarrow> after Q (random_id s)"
    and start_job [keeps]: "Q s \<Longrightarrow> Q (start_job j s)"
    and opens: "Q s \<Longrightarrow> Q (s\<lparr>h_opens := m\<rparr>)"
    and own_fields [keeps]: "Q s \<Longrightarrow> Q (s\<lparr>h_aapl := b\<rparr>)" "Q s \<Longrightarrow> Q (s\<lparr>h_ctx := c\<rparr>)"
      "Q s \<Longrightarrow> Q (s\<lparr>h_dceReq := d\<rparr>)" "Q s \<Longrightarrow> Q (s\<lparr>h_refId := r\<rparr>)"

locale tree_keeps = reply_keeps Q for Q :: "'fs hst \<Rightarrow> bool" +
  fixes V :: "'fs vfs"
  assumes fs: "Q s \<Longrightarrow> fs_step V (h_fs s) fs' \<Longrightarrow> Q (s\<lparr>h_fs := fs'\<rparr>)"

context reply_keeps begin

lemma keeps_send [keeps]:
  assumes "Q s"
  shows "after Q (send cfg t rsp s)" and "after Q (reply_error cfg t pkt status s)"
    and "after Q (reply_async_error cfg t pkt a status s)" and "after Q (ipc_send cfg it rsp s)"
    and "after Q (ipc_reply_error cfg it pkt status s)" and "after Q (addOpen open s)"
    and "Q (deleteOpen fid s)" and "Q (set_ctx_file f s)" and "Q (use_refs rp s)"
  using assms send_on opens own_fields
  unfolding send_def reply_error_def reply_async_error_def ipc_send_def ipc_reply_error_def addOpen_def
    deleteOpen_def set_ctx_file_def use_refs_def Let_def
  by (auto intro!: after_pure simp: after_basic(1,2))

lemmas reply_parts = after_basic(1,2) after_pair after_pure after_basic(3,4,5,6,7,8,9)

lemma keeps_job_pending [keeps]:
  assumes "Q s"
  shows "after Q (job_pending cfg t j s)"
  using assms unfolding job_pending_def
  by - (rule keeps reply_parts | assumption)+

text \<open>The IPC tree\<close>

lemma keeps_ipc_create [keeps]:
  assumes "Q s"
  shows "after Q (ipc_create cfg it pkt s)"
  using assms unfolding ipc_create_def
  by - (rule keeps reply_parts | assumption)+

lemma keeps_ipc_close [keeps]:
  assumes "Q s"
  shows "after Q (ipc_close cfg it pkt s)"
  using assms unfolding ipc_close_def
  by - (rule keeps reply_parts | assumption)+

lemma keeps_ipc_write [keeps]:
  assumes "Q s"
  shows "after Q (ipc_write cfg it pkt s)"
  using assms unfolding ipc_write_def
  by - (rule keeps reply_parts | assumption)+

lemma keeps_ipc_read [keeps]:
  assumes "Q s"
  shows "after Q (ipc_read cfg it pkt s)"
  using assms unfolding ipc_read_def
  by - (rule keeps reply_parts | assumption)+

lemma keeps_ipc_transceive [keeps]:
  assumes "Q s"
  shows "after Q (ipc_transceive cfg it pkt data s)"
  using assms unfolding ipc_transceive_def
  by - (rule keeps reply_parts | assumption)+

lemma keeps_ipc_ioctl [keeps]:
  assumes "Q s"
  shows "after Q (ipc_ioctl cfg it pkt s)"
  using assms unfolding ipc_ioctl_def
  by - (rule keeps reply_parts | assumption)+

lemma keeps_ipc_queryInfo [keeps]:
  assumes "Q s"
  shows "after Q (ipc_queryInfo cfg it pkt s)"
  using assms unfolding ipc_queryInfo_def
  by - (rule keeps reply_parts | assumption)+

lemma keeps_ipc_refuse [keeps]:
  assumes "Q s"
  shows "after Q (ipc_refuse s)"
  using assms unfolding ipc_refuse_def
  by - (rule keeps reply_parts | assumption)+

lemma keeps_ipc_tree_op [keeps]:
  assumes "Q s"
  shows "after Q (ipc_tree_op cfg it pkt s)"
  using assms unfolding ipc_tree_op_def
  by - (rule keeps reply_parts | assumption)+

end

context tree_keeps begin

text \<open>A method of the share.\<close>

lemma keeps_vcall: "Q s \<Longrightarrow> fs_step V (h_fs s) (snd (m (h_fs s))) \<Longrightarrow> after Q (vcall m s)"
  by (auto simp: after_def vcall_def fs split: prod.splits outcome.splits)

lemmas parts = after_basic(1,2) keeps_vcall after_on_return after_pair after_pure after_basic(3,4,5,6,7,8,9)

lemma keeps_create_disposition [keeps]:
  assumes "ft_fs t = V" and "Q s"
  shows "after Q (create_disposition t name d fileExists isDir createDir s)"
  using assms(2) unfolding create_disposition_def assms(1)
  by - (rule keeps assms(1) parts fs_step.intros | assumption)+

lemma keeps_create_open_file [keeps]:
  assumes "ft_fs t = V" and "Q s"
  shows "after Q (create_open_file t name flags access options isDir isEA s)"
  using assms(2) unfolding create_open_file_def assms(1)
  by - (rule keeps assms(1) parts fs_step.intros | assumption)+

lemma keeps_handleCreateEA [keeps]:
  assumes "ft_fs t = V" and "Q s"
  shows "after Q (handleCreateEA t disp h eaKey s)"
  using assms(2) unfolding handleCreateEA_def assms(1)
  by - (rule keeps assms(1) parts fs_step.intros | assumption)+

lemma keeps_handleQFid [keeps]:
  assumes "ft_fs t = V" and "Q s"
  shows "after Q (handleQFid t open s)"
  using assms(2) unfolding handleQFid_def assms(1)
  by - (rule keeps assms(1) parts fs_step.intros | assumption)+

lemma keeps_create_context [keeps]:
  assumes "ft_fs t = V" and "Q s"
  shows "after Q (create_context t attrs res st s)"
  using assms(2) unfolding create_context_def assms(1)
  by - (rule keeps assms(1) parts fs_step.intros | assumption)+

lemma keeps_create_contexts_loop [keeps]:
  assumes "ft_fs t = V" and "Q s"
  shows "after Q (create_contexts_loop t attrs cc st s)"
  using assms
proof (induction t attrs cc st s rule: create_contexts_loop.induct)
  case (1 t attrs cc st s)
  note IH = 1(1) [OF _ _ _ _ 1(2)]
  have "after Q (create_context t attrs cc st s)"
    using 1(2,3) by (rule keeps)
  moreover have "after Q (do { nxt \<leftarrow> CreateContextDecoder_Next cc;
      if nxt = 0 then Some (Returned st', s')
      else (case sfrom (unat nxt) cc of None \<Rightarrow> None | Some cc' \<Rightarrow> create_contexts_loop t attrs cc' st' s') })"
    if "Q s'" and "slen cc \<noteq> 0" for st' s'
    using that IH by (auto simp: after_def split: bind_splits option.splits)
  ultimately show ?case
    using 1(3) by (subst create_contexts_loop.simps) (auto intro!: after_on_return after_basic(2))
qed

lemma keeps_created_sizes [keeps]:
  assumes "ft_fs t = V" and "Q s"
  shows "after Q (created_sizes t attrs h isEA eaKey s)"
  using assms(2) unfolding created_sizes_def assms(1)
  by - (rule keeps assms(1) parts fs_step.intros | assumption)+

lemma keeps_create_finish [keeps]:
  assumes "ft_fs t = V" and "Q s"
  shows "after Q (create_finish cfg t pkt r name isEA eaKey isSymlink action lk h attrs s)"
  using assms(2) unfolding create_finish_def assms(1)
  by - (rule keeps assms(1) parts fs_step.intros | assumption)+

lemma keeps_create [keeps]:
  assumes "ft_fs t = V" and "Q s"
  shows "after Q (create cfg t pkt s)"
  using assms(2) unfolding create_def assms(1)
  by - (rule keeps assms(1) parts fs_step.intros | assumption)+

text \<open>Open files\<close>

lemma keeps_close_query [keeps]:
  assumes "ft_fs t = V" and "Q s"
  shows "after Q (close_query t fid rsp flags s)"
  using assms(2) unfolding close_query_def assms(1)
  by - (rule keeps assms(1) parts fs_step.intros | assumption)+

lemma keeps_close [keeps]:
  assumes "ft_fs t = V" and "Q s"
  shows "after Q (close cfg t pkt s)"
  using assms(2) unfolding close_def assms(1)
  by - (rule keeps assms(1) parts fs_step.intros | assumption)+

lemma keeps_flush [keeps]:
  assumes "ft_fs t = V" and "Q s"
  shows "after Q (flush cfg t pkt s)"
  using assms(2) unfolding flush_def assms(1)
  by - (rule keeps assms(1) parts fs_step.intros | assumption)+

lemma keeps_readEA [keeps]:
  assumes "ft_fs t = V" and "Q s"
  shows "after Q (readEA cfg t fid open len pkt s)"
  using assms(2) unfolding readEA_def assms(1)
  by - (rule keeps assms(1) parts fs_step.intros | assumption)+

lemma keeps_readImpl [keeps]:
  assumes "ft_fs t = V" and "Q s"
  shows "after Q (readImpl cfg t pkt fid open asyncId s)"
  using assms(2) unfolding readImpl_def assms(1)
  by - (rule keeps assms(1) parts fs_step.intros | assumption)+

lemma keeps_read [keeps]:
  assumes "ft_fs t = V" and "Q s"
  shows "after Q (read cfg t pkt s)"
  using assms(2) unfolding read_def assms(1)
  by - (rule keeps assms(1) parts fs_step.intros | assumption)+

lemma keeps_set_operation_context [keeps]:
  assumes "ft_fs t = V" and "Q s"
  shows "Q (set_operation_context t ctx s)"
  using assms by (auto simp: set_operation_context_def intro!: fs fs_step.intros(22) split: option.split)

lemma keeps_write_data [keeps]:
  assumes "ft_fs t = V" and "Q s"
  shows "after Q (write_data t r fid open data s)"
  using assms(2) unfolding write_data_def assms(1)
  by - (rule keeps assms(1) parts fs_step.intros | assumption)+

lemma keeps_writeImpl [keeps]:
  assumes "ft_fs t = V" and "Q s"
  shows "after Q (writeImpl cfg t pkt fid open asyncId s)"
  using assms(2) unfolding writeImpl_def assms(1)
  by - (rule keeps assms(1) parts fs_step.intros | assumption)+

lemma keeps_tree_write [keeps]:
  assumes "ft_fs t = V" and "Q s"
  shows "after Q (tree_write cfg t pkt s)"
  using assms(2) unfolding tree_write_def assms(1)
  by - (rule keeps assms(1) parts fs_step.intros | assumption)+

lemma keeps_job_work [keeps]:
  assumes "ft_fs t = V" and "Q s"
  shows "after Q (job_work cfg t j s)"
  using assms(2) unfolding job_work_def assms(1)
  by - (rule keeps assms(1) parts fs_step.intros | assumption)+

text \<open>IOCTL and the fixed answers\<close>

lemma keeps_handleReparsePointReq [keeps]:
  assumes "ft_fs t = V" and "Q s"
  shows "after Q (handleReparsePointReq cfg t pkt s)"
  using assms(2) unfolding handleReparsePointReq_def assms(1)
  by - (rule keeps assms(1) parts fs_step.intros | assumption)+

lemma keeps_handleGetReparsePointReq [keeps]:
  assumes "ft_fs t = V" and "Q s"
  shows "after Q (handleGetReparsePointReq cfg t pkt s)"
  using assms(2) unfolding handleGetReparsePointReq_def assms(1)
  by - (rule keeps assms(1) parts fs_step.intros | assumption)+

lemma keeps_handleDeleteReparsePointReq [keeps]:
  assumes "ft_fs t = V" and "Q s"
  shows "after Q (handleDeleteReparsePointReq cfg t pkt s)"
  using assms(2) unfolding handleDeleteReparsePointReq_def assms(1)
  by - (rule keeps assms(1) parts fs_step.intros | assumption)+

lemma keeps_root_inode [keeps]:
  assumes "ft_fs t = V" and "Q s"
  shows "after Q (root_inode t s)"
  using assms(2) unfolding root_inode_def assms(1)
  by - (rule keeps assms(1) parts fs_step.intros | assumption)+

lemma keeps_handleCreateOrGetObjectId [keeps]:
  assumes "ft_fs t = V" and "Q s"
  shows "after Q (handleCreateOrGetObjectId cfg t pkt s)"
  using assms(2) unfolding handleCreateOrGetObjectId_def assms(1)
  by - (rule keeps assms(1) parts fs_step.intros | assumption)+

lemma keeps_ioctl [keeps]:
  assumes "ft_fs t = V" and "Q s"
  shows "after Q (ioctl cfg t pkt s)"
  using assms(2) unfolding ioctl_def assms(1)
  by - (rule keeps assms(1) parts fs_step.intros | assumption)+

lemma keeps_lock [keeps]:
  assumes "ft_fs t = V" and "Q s"
  shows "after Q (lock cfg t pkt s)"
  using assms(2) unfolding lock_def assms(1)
  by - (rule keeps assms(1) parts fs_step.intros | assumption)+

lemma keeps_cancel [keeps]:
  assumes "ft_fs t = V" and "Q s"
  shows "after Q (cancel cfg t pkt s)"
  using assms(2) unfolding cancel_def assms(1)
  by - (rule keeps assms(1) parts fs_step.intros | assumption)+

lemma keeps_changeNotify [keeps]:
  assumes "ft_fs t = V" and "Q s"
  shows "after Q (changeNotify cfg t pkt s)"
  using assms(2) unfolding changeNotify_def assms(1)
  by - (rule keeps assms(1) parts fs_step.intros | assumption)+

lemma keeps_oplockBreak [keeps]:
  assumes "ft_fs t = V" and "Q s"
  shows "after Q (oplockBreak cfg t pkt s)"
  using assms(2) unfolding oplockBreak_def assms(1)
  by - (rule keeps assms(1) parts fs_step.intros | assumption)+

text \<open>QUERY_DIRECTORY and QUERY_INFO\<close>

lemma keeps_search_directory [keeps]:
  assumes "ft_fs t = V" and "Q s"
  shows "after Q (search_directory cfg t h info_class name flags s)"
  using assms(2) unfolding search_directory_def assms(1)
  by - (rule keeps assms(1) parts fs_step.intros | assumption)+

lemma keeps_queryDirectory [keeps]:
  assumes "ft_fs t = V" and "Q s"
  shows "after Q (queryDirectory cfg t pkt s)"
  using assms(2) unfolding queryDirectory_def assms(1)
  by - (rule keeps assms(1) parts fs_step.intros | assumption)+

lemma keeps_volume_info [keeps]:
  assumes "ft_fs t = V" and "Q s"
  shows "after Q (volume_info bs ta au cfg t info_class r s)"
  using assms(2) unfolding volume_info_def assms(1)
  by - (rule keeps assms(1) parts fs_step.intros | assumption)+

lemma keeps_queryInfoFileSystem [keeps]:
  assumes "ft_fs t = V" and "Q s"
  shows "after Q (queryInfoFileSystem cfg t pkt s)"
  using assms(2) unfolding queryInfoFileSystem_def assms(1)
  by - (rule keeps assms(1) parts fs_step.intros | assumption)+

lemma keeps_xattr_streams [keeps]:
  assumes "ft_fs t = V"
  shows "Q s \<Longrightarrow> after Q (xattr_streams t h xs s)"
proof (induction xs arbitrary: s)
  case (Cons x xs)
  then show ?case
    unfolding xattr_streams.simps assms by - (rule Cons.IH parts fs_step.intros | assumption)+
qed (simp add: after_def)

lemma keeps_stream_information [keeps]:
  assumes "ft_fs t = V" and "Q s"
  shows "after Q (stream_information cfg t h a s)"
  using assms(2) unfolding stream_information_def assms(1)
  by - (rule keeps assms(1) parts fs_step.intros | assumption)+

lemma keeps_file_information [keeps]:
  assumes "ft_fs t = V" and "Q s"
  shows "after Q (file_information cfg t h p a info_class s)"
  using assms(2) unfolding file_information_def assms(1)
  by - (rule keeps assms(1) parts fs_step.intros | assumption)+

lemma keeps_queryInfoFile [keeps]:
  assumes "ft_fs t = V" and "Q s"
  shows "after Q (queryInfoFile cfg t pkt s)"
  using assms(2) unfolding queryInfoFile_def assms(1)
  by - (rule keeps assms(1) parts fs_step.intros | assumption)+

lemma keeps_queryInfoSec [keeps]:
  assumes "ft_fs t = V" and "Q s"
  shows "after Q (queryInfoSec cfg t pkt s)"
  using assms(2) unfolding queryInfoSec_def assms(1)
  by - (rule keeps assms(1) parts fs_step.intros | assumption)+

lemma keeps_queryInfo [keeps]:
  assumes "ft_fs t = V" and "Q s"
  shows "after Q (queryInfo cfg t pkt s)"
  using assms(2) unfolding queryInfo_def assms(1)
  by - (rule keeps assms(1) parts fs_step.intros | assumption)+

text \<open>SET_INFO and the dispatch\<close>

lemma keeps_set_done [keeps]:
  assumes "ft_fs t = V" and "Q s"
  shows "after Q (set_done cfg t pkt s)"
  using assms(2) unfolding set_done_def assms(1)
  by - (rule keeps assms(1) parts fs_step.intros | assumption)+

lemma keeps_setBasicInfo [keeps]:
  assumes "ft_fs t = V" and "Q s"
  shows "after Q (setBasicInfo cfg t fid pkt s)"
  using assms(2) unfolding setBasicInfo_def assms(1)
  by - (rule keeps assms(1) parts fs_step.intros | assumption)+

lemma keeps_setEndOfFileInfo [keeps]:
  assumes "ft_fs t = V" and "Q s"
  shows "after Q (setEndOfFileInfo cfg t fid pkt s)"
  using assms(2) unfolding setEndOfFileInfo_def assms(1)
  by - (rule keeps assms(1) parts fs_step.intros | assumption)+

lemma keeps_setDispositionInfo [keeps]:
  assumes "ft_fs t = V" and "Q s"
  shows "after Q (setDispositionInfo cfg t fid pkt s)"
  using assms(2) unfolding setDispositionInfo_def assms(1)
  by - (rule keeps assms(1) parts fs_step.intros | assumption)+

lemma keeps_setDispositionInfoEa [keeps]:
  assumes "ft_fs t = V" and "Q s"
  shows "after Q (setDispositionInfoEa cfg t fid eaKey pkt s)"
  using assms(2) unfolding setDispositionInfoEa_def assms(1)
  by - (rule keeps assms(1) parts fs_step.intros | assumption)+

lemma keeps_setRename [keeps]:
  assumes "ft_fs t = V" and "Q s"
  shows "after Q (setRename cfg t fid pkt s)"
  using assms(2) unfolding setRename_def assms(1)
  by - (rule keeps assms(1) parts fs_step.intros | assumption)+

lemma keeps_setSecInfo [keeps]:
  assumes "ft_fs t = V" and "Q s"
  shows "after Q (setSecInfo cfg t fid pkt s)"
  using assms(2) unfolding setSecInfo_def assms(1)
  by - (rule keeps assms(1) parts fs_step.intros | assumption)+

lemma keeps_setInfo [keeps]:
  assumes "ft_fs t = V" and "Q s"
  shows "after Q (setInfo cfg t pkt s)"
  using assms(2) unfolding setInfo_def assms(1)
  by - (rule keeps assms(1) parts fs_step.intros | assumption)+

lemma keeps_file_tree_op [keeps]:
  assumes "ft_fs t = V" and "Q s"
  shows "after Q (file_tree_op cfg t pkt s)"
  using assms(2) unfolding file_tree_op_def assms(1)
  by - (rule keeps assms(1) parts fs_step.intros | assumption)+

end

end
