(* ===== verification/Spnego.thy ===== *)
theory Spnego
  imports GoBytes
begin

text \<open>
  The security negotiation of a session setup: the tokens of src/internal/spnego/spnego.go, as
  encoding/asn1 of the Go library marshals them, the interface of an authenticator
  (src/server/authenticator.go) and the server's side of the negotiation (src/server/spnego.go).
  The decoders of the third-party package ber are a parameter, and so is the authenticator; its
  state is shared by all that hold it.
\<close>

type_synonym oid = "nat list"

section \<open>DER\<close>

fun base256 :: "nat \<Rightarrow> nat \<Rightarrow> bytes" where
  "base256 0 n = []"
| "base256 (Suc k) n = base256 k (n div 256) @ [of_nat (n mod 256)]"

fun digits256 :: "nat \<Rightarrow> nat" where
  "digits256 n = (if n < 256 then 1 else Suc (digits256 (n div 256)))"

declare digits256.simps [simp del]

definition der_len :: "nat \<Rightarrow> bytes" where
  "der_len n = (if n < 128 then [of_nat n] else of_nat (128 + digits256 n) # base256 (digits256 n) n)"

definition tlv :: "u8 \<Rightarrow> bytes \<Rightarrow> bytes" where
  "tlv tag content = tag # der_len (length content) @ content"

function base128_more :: "nat \<Rightarrow> bytes" where
  "base128_more n = (if n = 0 then [] else base128_more (n div 128) @ [of_nat (128 + n mod 128)])"
  by pat_completeness auto
termination
  by (relation "measure id") auto

declare base128_more.simps [simp del]

definition base128 :: "nat \<Rightarrow> bytes" where
  "base128 n = base128_more (n div 128) @ [of_nat (n mod 128)]"

fun marshal_oid :: "oid \<Rightarrow> bytes option" where
  "marshal_oid (a # b # rest) =
     (if 2 < a \<or> (a < 2 \<and> 40 \<le> b) then None
      else Some (tlv 0x06 (base128 (40 * a + b) @ concat (map base128 rest))))"
| "marshal_oid _ = None"

fun marshal_oids :: "oid list \<Rightarrow> bytes option" where
  "marshal_oids [] = Some []"
| "marshal_oids (x # xs) = do { a \<leftarrow> marshal_oid x; b \<leftarrow> marshal_oids xs; Some (a @ b) }"

text \<open>An optional octet string under an explicit tag.\<close>

definition opt_octets :: "u8 \<Rightarrow> bytes option \<Rightarrow> bytes" where
  "opt_octets tag b = (case b of None \<Rightarrow> [] | Some b \<Rightarrow> tlv tag (tlv 0x04 b))"

section \<open>Tokens\<close>

definition SpnegoOid :: oid where "SpnegoOid = [1, 3, 6, 1, 5, 5, 2]"
definition MsKerberosOid :: oid where "MsKerberosOid = [1, 2, 840, 48018, 1, 2, 2]"
definition KerberosOid :: oid where "KerberosOid = [1, 2, 840, 113554, 1, 2, 2]"
definition NlmpOid :: oid where "NlmpOid = [1, 3, 6, 1, 4, 1, 311, 2, 2, 10]"

definition negHints :: bytes where
  "negHints = [0xa3, 0x2a, 0x30, 0x28, 0xa0, 0x26, 0x1b, 0x24] @ map of_char ''not_defined_in_RFC4178@please_ignore''"

record NegTokenInit =
  nti_MechTypes :: "oid list"
  nti_MechToken :: "slice"

record NegTokenInit2 =
  nt2_MechTypes :: "oid list"
  nt2_MechToken :: "slice"

record NegTokenResp =
  ntr_NegState :: int
  ntr_SupportedMech :: oid
  ntr_ResponseToken :: "slice"
  ntr_MechListMIC :: "slice"

text \<open>What package ber makes of a token: the list under tag 0, or the response.\<close>

record ber =
  br_Init :: "slice \<Rightarrow> NegTokenInit list option"
  br_Init2 :: "slice \<Rightarrow> NegTokenInit2 list option"
  br_Resp :: "slice \<Rightarrow> NegTokenResp option"

text \<open>A decoder's result: a panic, an error, or the token.\<close>

definition first_token :: "'a list option \<Rightarrow> (unit + 'a) option" where
  "first_token r = (case r of None \<Rightarrow> Some (Inl ()) | Some [] \<Rightarrow> None | Some (x # _) \<Rightarrow> Some (Inr x))"

definition DecodeNegTokenInit :: "ber \<Rightarrow> slice \<Rightarrow> (unit + NegTokenInit) option" where
  "DecodeNegTokenInit b bs = first_token (br_Init b bs)"

definition DecodeNegTokenInit2 :: "ber \<Rightarrow> slice \<Rightarrow> (unit + NegTokenInit2) option" where
  "DecodeNegTokenInit2 b bs = first_token (br_Init2 b bs)"

definition DecodeNegTokenResp :: "ber \<Rightarrow> slice \<Rightarrow> unit + NegTokenResp" where
  "DecodeNegTokenResp b bs = (case br_Resp b bs of None \<Rightarrow> Inl () | Some r \<Rightarrow> Inr r)"

text \<open>The first byte, that of a sequence, becomes the application tag.\<close>

definition init_token :: "oid list \<Rightarrow> bytes \<Rightarrow> bytes option" where
  "init_token types rest =
     do { this \<leftarrow> marshal_oid SpnegoOid;
          ts \<leftarrow> marshal_oids types;
          Some (0x60 # tl (tlv 0x30 (this @ tlv 0xa0 (tlv 0x30 (tlv 0xa0 (tlv 0x30 ts) @ rest))))) }"

definition EncodeNegTokenInit :: "oid list \<Rightarrow> bytes option \<Rightarrow> bytes option" where
  "EncodeNegTokenInit types token = init_token types (opt_octets 0xa2 token)"

definition EncodeNegTokenInit2 :: "oid list \<Rightarrow> bytes option" where
  "EncodeNegTokenInit2 types = init_token types negHints"

text \<open>\<open>bs[skip:]\<close>, with \<open>skip\<close> counting the tag and the length of the outermost sequence.\<close>

definition skip_header :: "bytes \<Rightarrow> bytes" where
  "skip_header bs = (if unat (bs ! 1) < 128 then drop 2 bs else drop (2 + (unat (bs ! 1) - 128)) bs)"

definition EncodeNegTokenResp :: "int \<Rightarrow> oid \<Rightarrow> bytes option \<Rightarrow> bytes option \<Rightarrow> bytes option" where
  "EncodeNegTokenResp state typ token mic =
     do { mech \<leftarrow> (if typ = [] then Some [] else map_option (tlv 0xa1) (marshal_oid typ));
          Some (skip_header (tlv 0x30 (tlv 0xa1 (tlv 0x30
            ((if state = 0 then [] else tlv 0xa0 (tlv 0x0a [word_of_int state]))
             @ mech @ opt_octets 0xa2 token @ opt_octets 0xa3 mic))))) }"

definition final_token :: "u8 \<Rightarrow> bytes" where
  "final_token state = skip_header (tlv 0x30 (tlv 0xa1 (tlv 0x30 (tlv 0xa0 (tlv 0x0a [state])))))"

definition EncodeNegTokenAccepted :: bytes where "EncodeNegTokenAccepted = final_token 0"
definition EncodeNegTokenRejected :: bytes where "EncodeNegTokenRejected = final_token 2"

lemma skip_header_short: "length c < 128 \<Longrightarrow> skip_header (tlv tag c) = c"
  by (simp add: skip_header_def tlv_def der_len_def unat_of_nat)

lemma tokens: "EncodeNegTokenAccepted = [0xa1, 0x07, 0x30, 0x05, 0xa0, 0x03, 0x0a, 0x01, 0x00]"
  "EncodeNegTokenRejected = [0xa1, 0x07, 0x30, 0x05, 0xa0, 0x03, 0x0a, 0x01, 0x02]"
  unfolding EncodeNegTokenAccepted_def EncodeNegTokenRejected_def final_token_def
  by (subst skip_header_short; simp add: tlv_def der_len_def)+

section \<open>Authenticators\<close>

text \<open>A method may panic; it leaves a new state and returns its result or an error.\<close>

record 'au authenticator =
  au_oid :: oid
  au_challenge :: "slice \<Rightarrow> 'au \<Rightarrow> ((unit + bytes) \<times> 'au) option"
  au_authenticate :: "slice \<Rightarrow> 'au \<Rightarrow> ((unit + string) \<times> 'au) option"
  au_sum :: "bytes \<Rightarrow> 'au \<Rightarrow> (bytes \<times> 'au) option"
  au_sessionKey :: "'au \<Rightarrow> bytes option"

section \<open>The server's side\<close>

record 'au spnegoServer =
  sg_mechs :: "'au authenticator list"
  sg_mechTypes :: "oid list"
  sg_selectedMech :: "'au authenticator option"

definition newSpnegoServer :: "'au authenticator list \<Rightarrow> 'au spnegoServer" where
  "newSpnegoServer mechs = \<lparr>sg_mechs = mechs, sg_mechTypes = map au_oid mechs, sg_selectedMech = None\<rparr>"

definition initSecContext :: "'au spnegoServer \<Rightarrow> bytes option" where
  "initSecContext c = EncodeNegTokenInit (sg_mechTypes c) None"

definition is_ntlm :: "slice \<Rightarrow> bool" where
  "is_ntlm tok \<longleftrightarrow> 7 \<le> slen tok \<and> take 7 (sbytes tok) = map of_char ''NTLMSSP''"

text \<open>The first mechanism of a type; the last one among the types offered.\<close>

definition select_first :: "oid \<Rightarrow> 'au spnegoServer \<Rightarrow> 'au spnegoServer" where
  "select_first ty c =
     (case find (\<lambda>m. au_oid m = ty) (sg_mechs c) of None \<Rightarrow> c | Some m \<Rightarrow> c\<lparr>sg_selectedMech := Some m\<rparr>)"

definition select_offered :: "oid list \<Rightarrow> 'au spnegoServer \<Rightarrow> 'au spnegoServer" where
  "select_offered tys c =
     (case find (\<lambda>m. au_oid m \<in> set tys) (rev (sg_mechs c)) of None \<Rightarrow> c | Some m \<Rightarrow> c\<lparr>sg_selectedMech := Some m\<rparr>)"

definition challenge ::
  "ber \<Rightarrow> slice \<Rightarrow> 'au spnegoServer \<times> 'au \<Rightarrow> ((unit + bytes option) \<times> ('au spnegoServer \<times> 'au)) option" where
  "challenge b tok st =
     (let (c, au) = st in
      if is_ntlm tok
      then (let c = select_first NlmpOid c in
            case sg_selectedMech c of
              None \<Rightarrow> Some (Inl (), (c, au))
            | Some m \<Rightarrow> do { (r, au) \<leftarrow> au_challenge m tok au;
                            Some (map_sum id Some r, (c, au)) })
      else do { d \<leftarrow> DecodeNegTokenInit b tok;
                case d of
                  Inl _ \<Rightarrow> Some (Inl (), (c, au))
                | Inr init \<Rightarrow>
                    (let c = select_offered (nti_MechTypes init) c in
                     case sg_selectedMech c of
                       None \<Rightarrow> Some (Inl (), (c, au))
                     | Some m \<Rightarrow>
                         do { (r, au) \<leftarrow> au_challenge m (nti_MechToken init) au;
                              Some (case r of
                                Inl _ \<Rightarrow> (Inl (), (c, au))
                              | Inr t \<Rightarrow> (case EncodeNegTokenResp 1 (au_oid m) (Some t) None of
                                  None \<Rightarrow> (Inl (), (c, au)) | Some e \<Rightarrow> (Inr (Some e), (c, au)))) }) })"

text \<open>The token for the client, nil for a bare NTLM message, and the user. Without a selected
  mechanism the call panics.\<close>

definition authenticate ::
  "ber \<Rightarrow> slice \<Rightarrow> 'au spnegoServer \<times> 'au \<Rightarrow> ((unit + bytes option \<times> string) \<times> ('au spnegoServer \<times> 'au)) option" where
  "authenticate b tok st =
     (let (c, au) = st in
      if is_ntlm tok
      then do { m \<leftarrow> sg_selectedMech c;
                (r, au) \<leftarrow> au_authenticate m tok au;
                Some (map_sum id (\<lambda>u. (None, u)) r, (c, au)) }
      else (case DecodeNegTokenResp b tok of
              Inl _ \<Rightarrow> Some (Inl (), (c, au))
            | Inr resp \<Rightarrow>
                (let c = select_first (ntr_SupportedMech resp) c in
                 do { m \<leftarrow> sg_selectedMech c;
                      (r, au) \<leftarrow> au_authenticate m (ntr_ResponseToken resp) au;
                      Some (map_sum id (\<lambda>u. (Some EncodeNegTokenAccepted, u)) r, (c, au)) })))"

definition spnego_sum :: "bytes \<Rightarrow> 'au spnegoServer \<times> 'au \<Rightarrow> (bytes \<times> ('au spnegoServer \<times> 'au)) option" where
  "spnego_sum bs st =
     (let (c, au) = st in
      do { m \<leftarrow> sg_selectedMech c; (r, au) \<leftarrow> au_sum m bs au; Some (r, (c, au)) })"

definition spnego_sessionKey :: "'au spnegoServer \<times> 'au \<Rightarrow> bytes option" where
  "spnego_sessionKey st = (let (c, au) = st in do { m \<leftarrow> sg_selectedMech c; au_sessionKey m au })"

end
