(* ===== verification/ServerSetup.thy ===== *)
theory ServerSetup
  imports FileTree Spnego
begin

text \<open>
  Setting up a connection (src/server/server.go, feature.go): the state of the server and of one
  connection, NEGOTIATE, SESSION_SETUP and the keys of a session, ECHO and LOGOFF. The
  negotiator, with the security negotiation in it, belongs to the server: all connections share it.
\<close>

section \<open>Constants\<close>

definition UnknownSMB :: u16 where "UnknownSMB = 0"
definition SMB2 :: u16 where "SMB2 = 0x2FF"
definition SMB202 :: u16 where "SMB202 = 0x202"
definition SMB210 :: u16 where "SMB210 = 0x210"
definition SMB300 :: u16 where "SMB300 = 0x300"
definition SMB302 :: u16 where "SMB302 = 0x302"
definition AES128CCM :: u16 where "AES128CCM = 1"
definition AES128GCM :: u16 where "AES128GCM = 2"
definition SMB2_NEGOTIATE_SIGNING_ENABLED :: u16 where "SMB2_NEGOTIATE_SIGNING_ENABLED = 1"
definition SMB2_NEGOTIATE_SIGNING_REQUIRED :: u16 where "SMB2_NEGOTIATE_SIGNING_REQUIRED = 2"
definition SMB2_PREAUTH_INTEGRITY_CAPABILITIES :: u16 where "SMB2_PREAUTH_INTEGRITY_CAPABILITIES = 1"
definition SMB2_ENCRYPTION_CAPABILITIES :: u16 where "SMB2_ENCRYPTION_CAPABILITIES = 2"
definition serverCapabilities :: u32 where "serverCapabilities = 0x77"
definition serverMaxTransactSize :: u32 where "serverMaxTransactSize = 0x800000"
definition serverMaxReadSize :: u32 where "serverMaxReadSize = 0x800000"
definition serverMaxWriteSize :: u32 where "serverMaxWriteSize = 0x800000"
definition clientHashAlgorithms :: "u16 list" where "clientHashAlgorithms = [SHA512]"
definition clientCiphers :: "u16 list" where "clientCiphers = [AES128GCM, AES128CCM]"
definition defaultDerverDialect :: u16 where "defaultDerverDialect = SMB311"
definition clientMaxCreditBalance :: u16 where "clientMaxCreditBalance = 128"

lemmas dialect_consts = UnknownSMB_def SMB2_def SMB202_def SMB210_def SMB300_def SMB302_def SMB311_def

section \<open>The server\<close>

text \<open>What does not change while it runs. \<open>strings.ToUpper\<close> of the Go library, with its Unicode
  tables, is a parameter.\<close>

record ('fs, 'au) server =
  sf_cfg :: srv_config
  sf_ber :: ber
  sf_authenticator :: "'au authenticator"
  sf_shares :: "string \<Rightarrow> 'fs vfs option"
  sf_origShares :: "string list"
  sf_requireSigning :: bool
  sf_serverGuid :: bytes
  sf_toUpper :: "string \<Rightarrow> string"

text \<open>\<open>NewServer\<close> stores the shares under their names in upper case; \<open>shares\<close> are the entries of its
  argument in the order Go visits them.\<close>

definition upper_shares :: "(string \<Rightarrow> string) \<Rightarrow> (string \<times> 'fs vfs) list \<Rightarrow> string \<Rightarrow> 'fs vfs option" where
  "upper_shares up shares = fold (\<lambda>(i, v) m. m(up i \<mapsto> v)) shares Map.empty"

definition NewServer ::
  "srv_config \<Rightarrow> ber \<Rightarrow> (string \<Rightarrow> string) \<Rightarrow> bytes \<Rightarrow> 'au authenticator \<Rightarrow> (string \<times> 'fs vfs) list \<Rightarrow> ('fs, 'au) server" where
  "NewServer cfg b up guid a shares =
     \<lparr>sf_cfg = cfg, sf_ber = b, sf_authenticator = a, sf_shares = upper_shares up shares,
      sf_origShares = map fst shares, sf_requireSigning = False, sf_serverGuid = guid, sf_toUpper = up\<rparr>"

text \<open>A connection's state with the parts of the server's it reaches: \<open>sv_specified\<close> and \<open>sv_spnego\<close>
  are the negotiator, \<open>sv_au\<close> the authenticator, \<open>sv_clock\<close> what the clock will show. A tree is
  a pointer into \<open>sv_trees\<close>, where the two maps of the connection and the jobs find it.\<close>

datatype 'fs tree = FileTreeOf "'fs fileTree" bool | IpcTreeOf treeConn "string list" "slice option"

record ('fs, 'au) srv =
  sv_h :: "'fs hst"
  sv_specified :: u16
  sv_spnego :: "'au spnegoServer option"
  sv_au :: 'au
  sv_clock :: "nat \<Rightarrow> int"
  sv_trees :: "'fs tree list"
  sv_byName :: "string \<Rightarrow> nat option"
  sv_byId :: "u32 \<Rightarrow> nat option"
  sv_jobs :: "(nat \<times> job) list"

definition sv_conn :: "('fs, 'au) srv \<Rightarrow> conn" where
  "sv_conn s = h_conn (sv_h s)"

definition set_conn :: "conn \<Rightarrow> ('fs, 'au) srv \<Rightarrow> ('fs, 'au) srv" where
  "set_conn c s = s\<lparr>sv_h := (sv_h s)\<lparr>h_conn := c\<rparr>\<rparr>"

text \<open>\<open>c.sendPacket(rsp, tc, nil)\<close>.\<close>

definition conn_send ::
  "('fs, 'au) server \<Rightarrow> treeConn option \<Rightarrow> packet \<Rightarrow> ('fs, 'au) srv \<Rightarrow> (srv_error option \<times> ('fs, 'au) srv) option" where
  "conn_send sf tc rsp s =
     do { (e, _, c) \<leftarrow> sendPacket (sc_lib (sf_cfg sf)) rsp tc None (sv_conn s); Some (e, set_conn c s) }"

definition blank_header :: PacketHeader where
  "blank_header = \<lparr>ph_CreditCharge = 0, ph_ChannelSequence = 0, ph_Status = 0, ph_Command = 0,
     ph_CreditRequestResponse = 0, ph_Flags = 0, ph_MessageId = 0, ph_AsyncId = 0, ph_TreeId = 0, ph_SessionId = 0\<rparr>"

text \<open>The header of the responses that do not use \<open>PrepareResponse\<close>.\<close>

definition plain_header :: "slice \<Rightarrow> PacketHeader option" where
  "plain_header pkt =
     do { credits \<leftarrow> PacketCodec_CreditRequest pkt;
          msg \<leftarrow> PacketCodec_MessageId pkt;
          Some (blank_header\<lparr>ph_CreditRequestResponse := credits, ph_MessageId := msg, ph_Flags := 1\<rparr>) }"

section \<open>NEGOTIATE\<close>

text \<open>The greatest of the client's dialects between 0x2FF and 3.1.1, even one that does not exist.\<close>

definition highest_dialect :: "u16 list \<Rightarrow> u16" where
  "highest_dialect ds = fold (\<lambda>d m. if m < d \<and> d \<le> SMB311 then d else m) ds SMB2"

definition negotiated_dialect :: "u16 list \<Rightarrow> u16" where
  "negotiated_dialect ds = (if highest_dialect ds = SMB2 then SMB210 else highest_dialect ds)"

definition hash_context :: "u16 list \<Rightarrow> bytes \<Rightarrow> enc" where
  "hash_context algs salt =
     (let h = \<lparr>hc_HashAlgorithms = algs, hc_HashSalt = salt\<rparr>
      in \<lparr>en_size = HashContext_Size h, en_encode = HashContext_Encode h\<rparr>)"

definition cipher_context :: "u16 list \<Rightarrow> enc" where
  "cipher_context ciphers =
     (let c = \<lparr>cc_Ciphers = ciphers\<rparr> in \<lparr>en_size = CipherContext_Size c, en_encode = CipherContext_Encode c\<rparr>)"

definition compression_context :: enc where
  "compression_context =
     (let c = \<lparr>cm_Compressions = [0], cm_Flags = 0\<rparr>
      in \<lparr>en_size = CompressionContext_Size c, en_encode = CompressionContext_Encode c\<rparr>)"

text \<open>\<open>None\<close> inside for an unsupported dialect: the callers ignore the error and use the nil response.\<close>

definition makeResponse ::
  "('fs, 'au) server \<Rightarrow> ('fs, 'au) srv \<Rightarrow> NegotiateResponse option \<times> ('fs, 'au) srv" where
  "makeResponse sf s =
     (let c = sv_conn s; d = sv_specified s;
          rsp = \<lparr>nr_Header = blank_header\<lparr>ph_Flags := 1\<rparr>,
            nr_SecurityMode = (if sf_requireSigning sf then SMB2_NEGOTIATE_SIGNING_REQUIRED else SMB2_NEGOTIATE_SIGNING_ENABLED),
            nr_DialectRevision = (if d = UnknownSMB then defaultDerverDialect else d),
            nr_ServerGuid = sf_serverGuid sf, nr_Capabilities = serverCapabilities,
            nr_MaxTransactSize = serverMaxTransactSize, nr_MaxReadSize = serverMaxReadSize,
            nr_MaxWriteSize = serverMaxWriteSize, nr_SystemTime = Some (NsecToFiletime (sv_clock s 0)),
            nr_ServerStartTime = Some zero_Filetime, nr_SecurityBuffer = [], nr_Contexts = []\<rparr>;
          s = s\<lparr>sv_clock := (\<lambda>i. sv_clock s (Suc i))\<rparr>
      in if d = UnknownSMB then
           (let (salt, c) = rand_Read 32 c
            in (Some (rsp\<lparr>nr_Contexts := [hash_context clientHashAlgorithms salt, cipher_context clientCiphers]\<rparr>), set_conn c s))
         else if d \<in> {SMB2, SMB202, SMB210, SMB300, SMB302} then (Some rsp, s)
         else if d = SMB311 then
           (let (salt, c) = rand_Read 32 c
            in (Some (rsp\<lparr>nr_Contexts := [hash_context [cn_hashId c] salt, cipher_context [cn_cipherId c], compression_context]\<rparr>),
                set_conn c s))
         else (None, s))"

text \<open>The loop over the client's contexts, \<open>n\<close> of them left.\<close>

definition negotiate_context ::
  "library \<Rightarrow> slice \<Rightarrow> slice \<Rightarrow> conn \<Rightarrow> (srv_error option \<times> conn) option" where
  "negotiate_context lib pkt ctx c =
     do { ty \<leftarrow> NegotiateContextDecoder_ContextType ctx;
          if ty = SMB2_PREAUTH_INTEGRITY_CAPABILITIES then
            do { d \<leftarrow> NegotiateContextDecoder_Data ctx;
                 bad \<leftarrow> HashContextDataDecoder_IsInvalid d;
                 if bad then Some (Some InvalidResponseError, c)
                 else do { algs \<leftarrow> HashContextDataDecoder_HashAlgorithms d;
                           case algs of
                             [a] \<Rightarrow> Some (None, calcPreauthHash lib (sbytes pkt) (c\<lparr>cn_preauthIntegrityHashId := a\<rparr>))
                           | _ \<Rightarrow> Some (Some InvalidResponseError, c) } }
          else if ty = SMB2_ENCRYPTION_CAPABILITIES then
            do { d \<leftarrow> NegotiateContextDecoder_Data ctx;
                 bad \<leftarrow> CipherContextDataDecoder_IsInvalid d;
                 if bad then Some (Some InvalidResponseError, c)
                 else do { ciphers \<leftarrow> CipherContextDataDecoder_Ciphers d;
                           let c = (case find (\<lambda>x. x = AES128CCM \<or> x = AES128GCM) ciphers of
                                      None \<Rightarrow> c | Some x \<Rightarrow> c\<lparr>cn_cipherId := x\<rparr>);
                           if cn_cipherId c = AES128CCM \<or> cn_cipherId c = AES128GCM then Some (None, c)
                           else Some (Some InvalidResponseError, c) } }
          else Some (None, c) }"

fun negotiate_contexts ::
  "library \<Rightarrow> slice \<Rightarrow> nat \<Rightarrow> slice \<Rightarrow> conn \<Rightarrow> (srv_error option \<times> conn) option" where
  "negotiate_contexts lib pkt 0 list c = Some (None, c)"
| "negotiate_contexts lib pkt (Suc n) list c =
     do { bad \<leftarrow> NegotiateContextDecoder_IsInvalid list;
          if bad then Some (Some InvalidResponseError, c)
          else do { (e, c) \<leftarrow> negotiate_context lib pkt list c;
          if e \<noteq> None then Some (e, c)
          else do { off \<leftarrow> NegotiateContextDecoder_Next list;
          rest \<leftarrow> (if int (slen list) < off then Some nil_slice else sfrom (nat off) list);
          negotiate_contexts lib pkt n rest c } } }"

text \<open>The last lines of \<open>negotiate\<close>: on a nil response they panic.\<close>

definition negotiate_reply ::
  "('fs, 'au) server \<Rightarrow> slice \<Rightarrow> bytes option \<Rightarrow> ('fs, 'au) srv \<Rightarrow> (srv_error option \<times> ('fs, 'au) srv) option" where
  "negotiate_reply sf pkt token s =
     (let (rsp, s) = makeResponse sf s
      in do { rsp \<leftarrow> rsp;
              hdr \<leftarrow> PrepareResponse pkt 0;
              conn_send sf None (NegotiatePacket (rsp\<lparr>nr_Header := hdr,
                nr_SecurityBuffer := (case token of None \<Rightarrow> [] | Some t \<Rightarrow> t)\<rparr>)) s })"

definition negotiator_negotiate ::
  "('fs, 'au) server \<Rightarrow> slice \<Rightarrow> ('fs, 'au) srv \<Rightarrow> (srv_error option \<times> ('fs, 'au) srv) option" where
  "negotiator_negotiate sf pkt s =
     do { smb1 \<leftarrow> PacketCodec_IsSmb1 pkt;
          if smb1
          then (let (rsp, s) = makeResponse sf (s\<lparr>sv_specified := SMB2\<rparr>)
                in do { rsp \<leftarrow> rsp; conn_send sf None (NegotiatePacket rsp) s })
          else do { (r, err) \<leftarrow> accept SMB2_NEGOTIATE pkt;
          if err \<noteq> None then Some (err, s)
          else do { bad \<leftarrow> NegotiateRequestDecoder_IsInvalid r;
          if bad then Some (Some InvalidResponseError, s)
          else do { dialects \<leftarrow> NegotiateRequestDecoder_Dialects r;
          let d = negotiated_dialect dialects;
          mode \<leftarrow> NegotiateRequestDecoder_SecurityMode r;
          caps \<leftarrow> NegotiateRequestDecoder_Capabilities r;
          let sp = newSpnegoServer [sf_authenticator sf];
          let token = initSecContext sp;
          let c = (sv_conn s)\<lparr>cn_requireSigning := sf_requireSigning sf \<or> mode AND SMB2_NEGOTIATE_SIGNING_REQUIRED \<noteq> 0,
                cn_capabilities := serverCapabilities AND caps, cn_dialect := d,
                cn_maxTransactSize := serverMaxTransactSize, cn_maxReadSize := serverMaxReadSize,
                cn_maxWriteSize := serverMaxWriteSize, cn_sequenceWindow := 1\<rparr>;
          let s = (set_conn c s)\<lparr>sv_specified := d, sv_spnego := Some sp\<rparr>;
          if d \<noteq> SMB311 then negotiate_reply sf pkt token s
          else do { list \<leftarrow> NegotiateRequestDecoder_NegotiateContextList r;
                    count \<leftarrow> NegotiateRequestDecoder_NegotiateContextCount r;
                    (e, c) \<leftarrow> negotiate_contexts (sc_lib (sf_cfg sf)) pkt (unat count) list (sv_conn s);
                    let s = set_conn c s;
                    if e \<noteq> None then Some (e, s) else negotiate_reply sf pkt token s } } } } }"

text \<open>A new negotiation drops the session, not the trees connected under it.\<close>

definition drop_session :: "conn \<Rightarrow> conn" where
  "drop_session c = (resetSession c)\<lparr>cn_session := None, cn_serverState := STATE_NEGOTIATE\<rparr>"

definition negotiate ::
  "('fs, 'au) server \<Rightarrow> slice \<Rightarrow> ('fs, 'au) srv \<Rightarrow> (srv_error option \<times> ('fs, 'au) srv) option" where
  "negotiate sf pkt s =
     (let c = sv_conn s;
          s = (if cn_serverState c \<noteq> STATE_NEGOTIATE \<and> useSession c then set_conn (drop_session c) s else s)
      in negotiator_negotiate sf pkt s)"

section \<open>SESSION_SETUP\<close>

text \<open>\<open>strLabel\<close> with its final zero.\<close>

definition label :: "string \<Rightarrow> bytes" where
  "label l = map of_char l @ [0]"

text \<open>The keys of a session that is neither a guest's nor anonymous.\<close>

definition session_keys :: "library \<Rightarrow> conn \<Rightarrow> bytes \<Rightarrow> session \<Rightarrow> session" where
  "session_keys lib c key se =
     (let derive = kdf (lb_hmac lib) key;
          cmac_with = (\<lambda>k. map_option cmac_of (New (aes_cipher (lb_aes lib) k)))
      in if cn_dialect c \<in> {SMB202, SMB210}
         then se\<lparr>se_signer := Some (lb_hmac lib key), se_verifier := Some (lb_hmac lib key)\<rparr>
         else if cn_dialect c \<in> {SMB300, SMB302}
         then (let signing = derive (label ''SMB2AESCMAC'') (label ''SmbSign'')
               in se\<lparr>se_signer := cmac_with signing, se_verifier := cmac_with signing,
                   se_encrypter := Some (ccm_ops (lb_aes lib) (derive (label ''SMB2AESCCM'') (label ''ServerIn ''))),
                   se_decrypter := Some (ccm_ops (lb_aes lib) (derive (label ''SMB2AESCCM'') (label ''ServerOut'')))\<rparr>)
         else if cn_dialect c = SMB311
         then (let pre = cn_preauthIntegrityHashValue c;
                   signing = derive (label ''SMBSigningKey'') pre;
                   enckey = derive (label ''SMBC2CCipherKey'') pre;
                   deckey = derive (label ''SMBS2SCipherKey'') pre;
                   se = se\<lparr>se_preauth := pre, se_signer := cmac_with signing, se_verifier := cmac_with signing\<rparr>
               in if cn_cipherId c = AES128CCM
                  then se\<lparr>se_encrypter := Some (ccm_ops (lb_aes lib) enckey), se_decrypter := Some (ccm_ops (lb_aes lib) deckey)\<rparr>
                  else if cn_cipherId c = AES128GCM
                  then se\<lparr>se_encrypter := Some (lb_gcm lib enckey), se_decrypter := Some (lb_gcm lib deckey)\<rparr>
                  else se)
         else se)"

definition sessionServerSetup ::
  "('fs, 'au) server \<Rightarrow> slice \<Rightarrow> ('fs, 'au) srv \<Rightarrow> (srv_error option \<times> ('fs, 'au) srv) option" where
  "sessionServerSetup sf pkt s =
     do { (r, err) \<leftarrow> accept SMB2_SESSION_SETUP pkt;
          if err \<noteq> None then Some (err, s)
          else do { let s = set_conn (calcPreauthHash (sc_lib (sf_cfg sf)) (sbytes pkt) (sv_conn s)) s;
          bad \<leftarrow> SessionSetupRequestDecoder_IsInvalid r;
          if bad then Some (Some InvalidRequestError, s)
          else do { tok \<leftarrow> SessionSetupRequestDecoder_SecurityBuffer r;
          sp \<leftarrow> sv_spnego s;
          (t, (sp, au)) \<leftarrow> challenge (sf_ber sf) tok (sp, sv_au s);
          let s = s\<lparr>sv_spnego := Some sp, sv_au := au\<rparr>;
          case t of
            Inl _ \<Rightarrow> Some (Some InvalidRequestError, s)
          | Inr token \<Rightarrow>
              do { hdr \<leftarrow> plain_header pkt;
                   let (id, c) = randint64 (sv_conn s);
                   conn_send sf None (SessionSetupPacket \<lparr>sr_Header = hdr\<lparr>ph_Status := STATUS_MORE_PROCESSING_REQUIRED,
                       ph_SessionId := id\<rparr>, sr_SessionFlags = 0,
                       sr_SecurityBuffer = (case token of None \<Rightarrow> [] | Some t \<Rightarrow> t)\<rparr>)
                     (set_conn (c\<lparr>cn_serverState := STATE_SESSION_SETUP_CHALLENGE\<rparr>) s) } } } }"

text \<open>From the successful authentication on. The session's id is the one the client sent.\<close>

definition establish_session ::
  "('fs, 'au) server \<Rightarrow> slice \<Rightarrow> bytes option \<Rightarrow> ('fs, 'au) srv \<Rightarrow> (srv_error option \<times> ('fs, 'au) srv) option" where
  "establish_session sf pkt token s =
     do { id \<leftarrow> PacketCodec_SessionId pkt;
          hdr \<leftarrow> plain_header pkt;
          let se = \<lparr>se_sessionFlags = (if sc_allowGuest (sf_cfg sf) then SMB2_SESSION_FLAG_IS_GUEST else 0),
                se_sessionId = id, se_preauth = replicate 64 0, se_signer = None, se_verifier = None,
                se_encrypter = None, se_decrypter = None\<rparr>;
          se \<leftarrow> (if must_sign se
                then do { sp \<leftarrow> sv_spnego s; key \<leftarrow> spnego_sessionKey (sp, sv_au s);
                          Some (session_keys (sc_lib (sf_cfg sf)) (sv_conn s) key se) }
                else Some se);
          let c = (sv_conn s)\<lparr>cn_session := Some se, cn_serverState := STATE_SESSION_ACTIVE\<rparr>;
          (e, s) \<leftarrow> conn_send sf None (SessionSetupPacket \<lparr>sr_Header = hdr\<lparr>ph_SessionId := id\<rparr>,
              sr_SessionFlags = se_sessionFlags se,
              sr_SecurityBuffer = (case token of None \<Rightarrow> [] | Some t \<Rightarrow> t)\<rparr>) (set_conn c s);
          Some (e, if e = None then set_conn (enableSession (sv_conn s)) s else s) }"

definition sessionServerSetupChallenge ::
  "('fs, 'au) server \<Rightarrow> slice \<Rightarrow> ('fs, 'au) srv \<Rightarrow> (srv_error option \<times> ('fs, 'au) srv) option" where
  "sessionServerSetupChallenge sf pkt s =
     do { (r, err) \<leftarrow> accept SMB2_SESSION_SETUP pkt;
          if err \<noteq> None then Some (err, s)
          else do { bad \<leftarrow> SessionSetupRequestDecoder_IsInvalid r;
          if bad then Some (Some InvalidResponseError, s)
          else do { let s = set_conn (calcPreauthHash (sc_lib (sf_cfg sf)) (sbytes pkt) (sv_conn s)) s;
          tok \<leftarrow> SessionSetupRequestDecoder_SecurityBuffer r;
          sp \<leftarrow> sv_spnego s;
          (a, (sp, au)) \<leftarrow> authenticate (sf_ber sf) tok (sp, sv_au s);
          let s = s\<lparr>sv_spnego := Some sp, sv_au := au\<rparr>;
          case a of
            Inl _ \<Rightarrow> do { hdr \<leftarrow> PrepareResponse pkt STATUS_ACCESS_DENIED;
                         (_, s) \<leftarrow> conn_send sf None (error_rsp hdr) s;
                         Some (Some InvalidRequestError, s) }
          | Inr (token, user) \<Rightarrow> establish_session sf pkt token s } } }"

definition sessionSetup ::
  "('fs, 'au) server \<Rightarrow> slice \<Rightarrow> ('fs, 'au) srv \<Rightarrow> (srv_error option \<times> ('fs, 'au) srv) option" where
  "sessionSetup sf pkt s =
     (let c = sv_conn s;
          s = (if useSession c then set_conn (drop_session c) s else s)
      in case cn_serverState (sv_conn s) of
           STATE_NEGOTIATE \<Rightarrow> sessionServerSetup sf pkt s
         | STATE_SESSION_SETUP \<Rightarrow> sessionServerSetupChallenge sf pkt s
         | STATE_SESSION_SETUP_CHALLENGE \<Rightarrow> sessionServerSetupChallenge sf pkt s
         | STATE_SESSION_ACTIVE \<Rightarrow> Some (Some InvalidRequestError, s))"

section \<open>ECHO and LOGOFF\<close>

definition echo ::
  "('fs, 'au) server \<Rightarrow> slice \<Rightarrow> ('fs, 'au) srv \<Rightarrow> (srv_error option \<times> ('fs, 'au) srv) option" where
  "echo sf pkt s = do { hdr \<leftarrow> plain_header pkt; conn_send sf None (EchoPacket \<lparr>hr_Header = hdr\<rparr>) s }"

text \<open>The session stays.\<close>

definition logoff ::
  "('fs, 'au) server \<Rightarrow> slice \<Rightarrow> ('fs, 'au) srv \<Rightarrow> (srv_error option \<times> ('fs, 'au) srv) option" where
  "logoff sf pkt s = do { hdr \<leftarrow> plain_header pkt; conn_send sf None (LogoffPacket \<lparr>lr_Header = hdr\<rparr>) s }"

end
