(* ===== verification/ServerTrees.thy ===== *)
theory ServerTrees
  imports ServerSetup IpcTree FileTreeSet
begin

text \<open>
  The trees of a connection and the loop that serves it (\<open>treeConnect\<close>, \<open>treeDisconnect\<close> and
  \<open>Run\<close> of src/server/server.go): which handler a packet goes to, and the goroutines the
  handlers of READ and WRITE leave behind.
\<close>

definition SMB2_SHARE_TYPE_DISK :: u8 where "SMB2_SHARE_TYPE_DISK = 1"
definition SMB2_SHARE_TYPE_PIPE :: u8 where "SMB2_SHARE_TYPE_PIPE = 2"

section \<open>Trees\<close>

fun getTree :: "'fs tree \<Rightarrow> treeConn" where
  "getTree (FileTreeOf t aapl) = ft_tree t"
| "getTree (IpcTreeOf tc shares req) = tc"

text \<open>\<open>c.treeMapById[id]\<close>, with the tree it points to.\<close>

definition tree_by_id :: "u32 \<Rightarrow> ('fs, 'au) srv \<Rightarrow> (nat \<times> 'fs tree) option" where
  "tree_by_id i s =
     (case sv_byId s i of
        Some n \<Rightarrow> if n < length (sv_trees s) then Some (n, sv_trees s ! n) else None
      | None \<Rightarrow> None)"

definition tree_by_name :: "string \<Rightarrow> ('fs, 'au) srv \<Rightarrow> (nat \<times> 'fs tree) option" where
  "tree_by_name name s =
     (case sv_byName s name of
        Some n \<Rightarrow> if n < length (sv_trees s) then Some (n, sv_trees s ! n) else None
      | None \<Rightarrow> None)"

definition add_tree :: "string \<Rightarrow> 'fs tree \<Rightarrow> ('fs, 'au) srv \<Rightarrow> ('fs, 'au) srv" where
  "add_tree name t s =
     (let n = length (sv_trees s)
      in s\<lparr>sv_trees := sv_trees s @ [t], sv_byName := (sv_byName s)(name \<mapsto> n),
           sv_byId := (sv_byId s)(tc_treeId (getTree t) \<mapsto> n)\<rparr>)"

definition disk_access :: u32 where
  "disk_access = SYNCHRONIZE OR WRITE_OWNER OR WRITE_DAC OR READ_CONTROL OR DELETE_ACCESS OR
     FILE_READ_ATTRIBUTES OR FILE_EXECUTE OR FILE_READ_EA OR FILE_READ_DATA"

definition pipe_access :: u32 where
  "pipe_access = disk_access OR FILE_WRITE_ATTRIBUTES OR FILE_WRITE_EA OR FILE_WRITE_DATA OR FILE_DELETE_CHILD"

definition ipc_name :: string where
  "ipc_name = backslash # ''IPC$''"

definition tree_connect_rsp :: "PacketHeader \<Rightarrow> u8 \<Rightarrow> u32 \<Rightarrow> packet" where
  "tree_connect_rsp hdr ty access = TreeConnectPacket \<lparr>tr_Header = hdr, tr_ShareType = ty, tr_ShareFlags = 0,
     tr_Capabilities = 0, tr_MaximalAccess = access\<rparr>"

text \<open>The connection to a tree: one that is there keeps its id, a new one, made by \<open>mk\<close>, gets a
  random one. Whether the client has a session is not asked.\<close>

definition connect_tree ::
  "('fs, 'au) server \<Rightarrow> PacketHeader \<Rightarrow> string \<Rightarrow> u8 \<Rightarrow> u32 \<Rightarrow> (treeConn \<Rightarrow> 'fs tree) \<Rightarrow> ('fs, 'au) srv \<Rightarrow>
   (srv_error option \<times> ('fs, 'au) srv) option" where
  "connect_tree sf hdr name ty access mk s =
     (case tree_by_name name s of
        Some (_, t) \<Rightarrow>
          conn_send sf (Some (getTree t)) (tree_connect_rsp (hdr\<lparr>ph_TreeId := tc_treeId (getTree t)\<rparr>) ty access) s
      | None \<Rightarrow>
          (let (id, c) = randint32 (sv_conn s);
               tc = \<lparr>tc_session = cn_session c, tc_treeId = id, tc_shareFlags = 0, tc_path = name\<rparr>;
               s = add_tree name (mk tc) (set_conn c s)
           in conn_send sf (Some tc) (tree_connect_rsp hdr ty access) s))"

text \<open>A share is found by the last part of the path in upper case, or with a dollar sign after it.\<close>

definition find_share :: "('fs, 'au) server \<Rightarrow> string \<Rightarrow> 'fs vfs option" where
  "find_share sf path =
     (case sf_shares sf (sf_toUpper sf path) of
        Some fs \<Rightarrow> Some fs | None \<Rightarrow> sf_shares sf (sf_toUpper sf path @ ''$''))"

definition has_suffix :: "string \<Rightarrow> string \<Rightarrow> bool" where
  "has_suffix s x \<longleftrightarrow> length x \<le> length s \<and> drop (length s - length x) s = x"

definition treeConnect ::
  "('fs, 'au) server \<Rightarrow> slice \<Rightarrow> ('fs, 'au) srv \<Rightarrow> (srv_error option \<times> ('fs, 'au) srv) option" where
  "treeConnect sf pkt s =
     do { (r, err) \<leftarrow> accept SMB2_TREE_CONNECT pkt;
          if err \<noteq> None then Some (err, s)
          else do { bad \<leftarrow> TreeConnectRequestDecoder_IsInvalid r;
          if bad then Some (Some InvalidResponseError, s)
          else do { runes \<leftarrow> TreeConnectRequestDecoder_Path r;
          let whole = go_string runes;
          hdr \<leftarrow> plain_header pkt;
          if has_suffix whole ipc_name
          then connect_tree sf hdr ipc_name SMB2_SHARE_TYPE_PIPE pipe_access
                 (\<lambda>tc. IpcTreeOf tc (sf_origShares sf) None) s
          else (let path = last (split_on backslash whole)
                in case find_share sf path of
                     None \<Rightarrow> Some (Some InvalidRequestError, s)
                   | Some fs \<Rightarrow> connect_tree sf hdr path SMB2_SHARE_TYPE_DISK disk_access
                       (\<lambda>tc. FileTreeOf \<lparr>ft_tree = tc, ft_fs = fs\<rparr> False) s) } } }"

text \<open>Disconnecting a tree that is not there calls a method of a nil interface.\<close>

definition remove_tree :: "treeConn \<Rightarrow> ('fs, 'au) srv \<Rightarrow> ('fs, 'au) srv" where
  "remove_tree tc s =
     s\<lparr>sv_byName := (sv_byName s)(tc_path tc := None), sv_byId := (sv_byId s)(tc_treeId tc := None)\<rparr>"

definition treeDisconnect ::
  "('fs, 'au) server \<Rightarrow> slice \<Rightarrow> ('fs, 'au) srv \<Rightarrow> (srv_error option \<times> ('fs, 'au) srv) option" where
  "treeDisconnect sf pkt s =
     do { id \<leftarrow> PacketCodec_TreeId pkt;
          (_, t) \<leftarrow> tree_by_id id s;
          hdr \<leftarrow> plain_header pkt;
          conn_send sf (Some (getTree t)) (TreeDisconnectPacket \<lparr>dr_Header = hdr\<rparr>) (remove_tree (getTree t) s) }"

section \<open>Handlers of a tree\<close>

text \<open>A handler runs with the compound context and the fields of its tree; what it changes goes
  back to where it came from, and the goroutines it starts remember the tree.\<close>

definition store_tree :: "nat \<Rightarrow> 'fs tree \<Rightarrow> 'fs hst \<Rightarrow> ('fs, 'au) srv \<Rightarrow> ('fs, 'au) srv" where
  "store_tree n t h s =
     s\<lparr>sv_h := h\<lparr>h_ctx := None, h_jobs := []\<rparr>, sv_trees := (sv_trees s)[n := t],
       sv_jobs := sv_jobs s @ map (Pair n) (h_jobs h)\<rparr>"

definition run_on_tree ::
  "srv_config \<Rightarrow> (srv_config \<Rightarrow> 'fs fileTree \<Rightarrow> ('fs, srv_error option) eff) \<Rightarrow>
   (srv_config \<Rightarrow> ipcTree \<Rightarrow> ('fs, srv_error option) eff) \<Rightarrow> nat \<Rightarrow> compoundContext option \<Rightarrow> ('fs, 'au) srv \<Rightarrow>
   (srv_error option \<times> compoundContext option \<times> ('fs, 'au) srv) option" where
  "run_on_tree cfg file ipc n ctx s =
     (let h = (sv_h s)\<lparr>h_ctx := ctx, h_jobs := []\<rparr>
      in case sv_trees s ! n of
           FileTreeOf t aapl \<Rightarrow>
             do { (e, h) \<leftarrow> file cfg t (h\<lparr>h_aapl := aapl\<rparr>);
                  Some (e, h_ctx h, store_tree n (FileTreeOf t (h_aapl h)) h s) }
         | IpcTreeOf tc shares req \<Rightarrow>
             do { (e, h) \<leftarrow> ipc cfg \<lparr>it_tree = tc, it_shares = shares\<rparr> (h\<lparr>h_dceReq := req\<rparr>);
                  Some (e, h_ctx h, store_tree n (IpcTreeOf tc shares (h_dceReq h)) h s) })"

definition tree_op ::
  "('fs, 'au) server \<Rightarrow> nat \<Rightarrow> compoundContext option \<Rightarrow> slice \<Rightarrow> ('fs, 'au) srv \<Rightarrow>
   (srv_error option \<times> compoundContext option \<times> ('fs, 'au) srv) option" where
  "tree_op sf n ctx pkt =
     run_on_tree (sf_cfg sf) (\<lambda>cfg t. file_tree_op cfg t pkt) (\<lambda>cfg t. ipc_tree_op cfg t pkt) n ctx"

text \<open>After a failed request of a compound the others get its status as an answer, whose error
  is dropped.\<close>

definition forward_status ::
  "('fs, 'au) server \<Rightarrow> 'fs tree \<Rightarrow> compoundContext \<Rightarrow> slice \<Rightarrow> ('fs, 'au) srv \<Rightarrow>
   (srv_error option \<times> compoundContext option \<times> ('fs, 'au) srv) option" where
  "forward_status sf t ctx pkt s =
     do { hdr \<leftarrow> PrepareResponse pkt (cx_lastStatus ctx);
          (_, ctx, c) \<leftarrow> sendPacket (sc_lib (sf_cfg sf)) (error_rsp hdr) (Some (getTree t)) (Some ctx) (sv_conn s);
          Some (None, ctx, set_conn c s) }"

section \<open>The loop's body\<close>

definition no_ctx :: "(srv_error option \<times> ('fs, 'au) srv) option \<Rightarrow> compoundContext option \<Rightarrow>
    (srv_error option \<times> compoundContext option \<times> ('fs, 'au) srv) option" where
  "no_ctx x ctx = map_option (\<lambda>(e, s). (e, ctx, s)) x"

definition run_packet ::
  "('fs, 'au) server \<Rightarrow> compoundContext option \<Rightarrow> slice \<Rightarrow> ('fs, 'au) srv \<Rightarrow>
   (srv_error option \<times> compoundContext option \<times> ('fs, 'au) srv) option" where
  "run_packet sf ctx pkt s =
     do { _ \<leftarrow> PacketCodec_Flags pkt;
          cmd \<leftarrow> PacketCodec_Command pkt;
          if cmd = SMB2_NEGOTIATE \<or> cmd = SMB_COM_NEGOTIATE then no_ctx (negotiate sf pkt s) ctx
          else if cmd = SMB2_SESSION_SETUP then no_ctx (sessionSetup sf pkt s) ctx
          else if cmd = SMB2_LOGOFF then no_ctx (logoff sf pkt s) ctx
          else if cmd = SMB2_TREE_CONNECT then no_ctx (treeConnect sf pkt s) ctx
          else if cmd = SMB2_TREE_DISCONNECT then no_ctx (treeDisconnect sf pkt s) ctx
          else if cmd = SMB2_ECHO then no_ctx (echo sf pkt s) ctx
          else do { id \<leftarrow> PacketCodec_TreeId pkt;
          case tree_by_id id s of
            None \<Rightarrow> Some (Some InvalidRequestError, ctx, s)
          | Some (n, t) \<Rightarrow>
              (case ctx of
                 Some c \<Rightarrow> if cx_lastStatus c \<noteq> 0 then forward_status sf t c pkt s else tree_op sf n ctx pkt s
               | None \<Rightarrow> tree_op sf n ctx pkt s) } }"

section \<open>Goroutines\<close>

text \<open>The two parts of a job, which sends its answers without a compound context. Its error is
  dropped; a job that is blocked for good in a call of the share just never goes on.\<close>

definition job_part ::
  "(srv_config \<Rightarrow> 'fs fileTree \<Rightarrow> job \<Rightarrow> ('fs, srv_error option) eff) \<Rightarrow> ('fs, 'au) server \<Rightarrow> nat \<Rightarrow> job \<Rightarrow>
   ('fs, 'au) srv \<Rightarrow> ('fs, 'au) srv option" where
  "job_part part sf n j s =
     map_option (\<lambda>(e, ctx, s). s) (run_on_tree (sf_cfg sf) (\<lambda>cfg t. part cfg t j) (\<lambda>cfg t s. Some (None, s)) n None s)"

definition start_nth_job :: "('fs, 'au) server \<Rightarrow> nat \<Rightarrow> ('fs, 'au) srv \<Rightarrow> ('fs, 'au) srv option" where
  "start_nth_job sf i s =
     (let (n, j) = sv_jobs s ! i
      in job_part job_pending sf n j (s\<lparr>sv_jobs := (sv_jobs s)[i := (n, j\<lparr>jb_started := True\<rparr>)]\<rparr>))"

definition finish_nth_job :: "('fs, 'au) server \<Rightarrow> nat \<Rightarrow> ('fs, 'au) srv \<Rightarrow> ('fs, 'au) srv option" where
  "finish_nth_job sf i s =
     (let (n, j) = sv_jobs s ! i
      in job_part job_work sf n j (s\<lparr>sv_jobs := take i (sv_jobs s) @ drop (Suc i) (sv_jobs s)\<rparr>))"

end
