(* ===== verification/ServerRun.thy ===== *)
theory ServerRun
  imports ServerTrees
begin

text \<open>
  The server at work (\<open>Serve\<close> of src/server/server.go, \<open>runReciever\<close>, \<open>tryDecrypt\<close>,
  \<open>tryVerify\<close>, \<open>tryHandle\<close> and \<open>outstandingRequests\<close> of conn.go): any number of connections, on
  each a receiver that takes frames apart, the loop that handles packets, and the goroutines of
  READ and WRITE. The channel between receiver and loop has no buffer: the receiver waits until
  its packet is taken. A step of the server is one step of one goroutine, a handler as a whole. A
  goroutine that a call of a share never gives back takes no further step; the others do.
\<close>

section \<open>Connections\<close>

text \<open>The receiver waits for a frame, has the rest of one to take apart (with the compound context
  so far, and what was said of the frame: a session in use, encrypted), or has ended.\<close>

datatype receiver = Waiting | Splitting slice "nat option" bool bool | Stopped

text \<open>\<open>Run\<close> loops, or an error ended it, or it is blocked for good in a call of a share: then it takes no
  request any more, but its socket stays open, and everything else goes on.\<close>

datatype loop = Looping | Ended | Hanging

text \<open>\<open>cl_slot\<close> is the request the receiver offers. Compound contexts are pointers into \<open>cl_ctxs\<close>.\<close>

record 'fs client =
  cl_conn :: conn
  cl_trees :: "'fs tree list"
  cl_byName :: "string \<Rightarrow> nat option"
  cl_byId :: "u32 \<Rightarrow> nat option"
  cl_jobs :: "(nat \<times> job) list"
  cl_ctxs :: "compoundContext list"
  cl_recv :: receiver
  cl_slot :: "(slice \<times> nat option) option"
  cl_loop :: loop

record ('fs, 'au) world =
  w_fs :: 'fs
  w_opens :: "u64 \<Rightarrow> Open_record option"
  w_refId :: u32
  w_specified :: u16
  w_spnego :: "'au spnegoServer option"
  w_au :: 'au
  w_clock :: "nat \<Rightarrow> int"
  w_clients :: "'fs client list"

definition new_client :: "(nat \<Rightarrow> u8) \<Rightarrow> 'fs client option" where
  "new_client rnd =
     do { a \<leftarrow> openAccount clientMaxCreditBalance;
          Some \<lparr>cl_conn = \<lparr>cn_session = None, cn_sequenceWindow = 0, cn_dialect = 0, cn_maxTransactSize = 0,
              cn_maxReadSize = 0, cn_maxWriteSize = 0, cn_requireSigning = False, cn_capabilities = 0,
              cn_preauthIntegrityHashId = 0, cn_preauthIntegrityHashValue = replicate 64 0,
              cn_cipherId = AES128GCM, cn_hashId = SHA512, cn_account = a, cn_username = [],
              cn_useSession = False, cn_serverState = STATE_NEGOTIATE, cn_written = [], cn_random = rnd\<rparr>,
            cl_trees = [], cl_byName = Map.empty, cl_byId = Map.empty, cl_jobs = [], cl_ctxs = [],
            cl_recv = Waiting, cl_slot = None, cl_loop = Looping\<rparr> }"

definition initial_world :: "'fs \<Rightarrow> 'au \<Rightarrow> (nat \<Rightarrow> int) \<Rightarrow> ('fs, 'au) world" where
  "initial_world fs au clock = \<lparr>w_fs = fs, w_opens = Map.empty, w_refId = 0x10000, w_specified = 0,
     w_spnego = None, w_au = au, w_clock = clock, w_clients = []\<rparr>"

section \<open>What a goroutine sees\<close>

definition focus :: "('fs, 'au) world \<Rightarrow> 'fs client \<Rightarrow> ('fs, 'au) srv" where
  "focus w c =
     \<lparr>sv_h = \<lparr>h_fs = w_fs w, h_conn = cl_conn c, h_opens = w_opens w, h_aapl = False, h_dceReq = None,
        h_refId = w_refId w, h_ctx = None, h_jobs = []\<rparr>,
      sv_specified = w_specified w, sv_spnego = w_spnego w, sv_au = w_au w, sv_clock = w_clock w,
      sv_trees = cl_trees c, sv_byName = cl_byName c, sv_byId = cl_byId c, sv_jobs = cl_jobs c\<rparr>"

definition client_of :: "('fs, 'au) srv \<Rightarrow> 'fs client \<Rightarrow> 'fs client" where
  "client_of s c = c\<lparr>cl_conn := sv_conn s, cl_trees := sv_trees s, cl_byName := sv_byName s,
     cl_byId := sv_byId s, cl_jobs := sv_jobs s\<rparr>"

definition unfocus :: "nat \<Rightarrow> ('fs, 'au) srv \<Rightarrow> 'fs client \<Rightarrow> ('fs, 'au) world \<Rightarrow> ('fs, 'au) world" where
  "unfocus i s c w =
     w\<lparr>w_fs := h_fs (sv_h s), w_opens := h_opens (sv_h s), w_refId := h_refId (sv_h s),
       w_specified := sv_specified s, w_spnego := sv_spnego s, w_au := sv_au s, w_clock := sv_clock s,
       w_clients := (w_clients w)[i := client_of s c]\<rparr>"

section \<open>The receiver\<close>

text \<open>An error, or the packet in the clear and whether it was encrypted.\<close>

definition tryDecrypt :: "conn \<Rightarrow> slice \<Rightarrow> (srv_error + slice \<times> bool) option" where
  "tryDecrypt c pkt =
     do { bad \<leftarrow> PacketCodec_IsInvalid pkt;
          if \<not> bad then Some (Inr (pkt, False))
          else do { bad \<leftarrow> TransformCodec_IsInvalid pkt;
          if bad then Some (Inl InvalidResponseError)
          else do { fl \<leftarrow> TransformCodec_Flags pkt;
          if fl \<noteq> Encrypted then Some (Inl InvalidResponseError)
          else do { id \<leftarrow> TransformCodec_SessionId pkt;
          case cn_session c of
            None \<Rightarrow> Some (Inl InvalidResponseError)
          | Some se \<Rightarrow>
              if se_sessionId se \<noteq> id then Some (Inl InvalidResponseError)
              else (case decrypt se pkt of
                      Ok p \<Rightarrow> Some (Inr (of_bytes p, True)) | Err _ \<Rightarrow> Some (Inl InvalidResponseError)
                    | Panic \<Rightarrow> None | Deadlock \<Rightarrow> None) } } } }"

text \<open>The error, and the packet: \<open>verify\<close> leaves the computed signature in it.\<close>

definition tryVerify :: "conn \<Rightarrow> slice \<Rightarrow> bool \<Rightarrow> (srv_error option \<times> slice) option" where
  "tryVerify c pkt isEncrypted =
     do { msg \<leftarrow> PacketCodec_MessageId pkt;
          if msg = 0xFFFFFFFFFFFFFFFF then Some (None, pkt)
          else do { fl \<leftarrow> PacketCodec_Flags pkt;
          if fl AND SMB2_FLAGS_SIGNED \<noteq> 0
          then do { id \<leftarrow> PacketCodec_SessionId pkt;
                    case cn_session c of
                      None \<Rightarrow> Some (Some InvalidResponseError, pkt)
                    | Some se \<Rightarrow>
                        if se_sessionId se \<noteq> id then Some (Some InvalidResponseError, pkt)
                        else do { (ok, pkt) \<leftarrow> verify se pkt;
                                  Some (if ok then None else Some InvalidResponseError, pkt) } }
          else do { id \<leftarrow> PacketCodec_SessionId pkt;
                    Some (if cn_requireSigning c \<and> \<not> isEncrypted \<and>
                             (case cn_session c of None \<Rightarrow> False
                              | Some se \<Rightarrow> must_sign se \<and> se_sessionId se = id)
                          then Some InvalidResponseError else None, pkt) } } }"

text \<open>A frame that came in: skipped, or to be taken apart. The connection's tables of trees inside
  the session are always empty, so that check never applies.\<close>

definition open_frame :: "conn \<Rightarrow> bytes \<Rightarrow> receiver option" where
  "open_frame c b =
     (let pkt = of_bytes b in
      if \<not> useSession c then Some (Splitting pkt None False False)
      else do { r \<leftarrow> tryDecrypt c pkt;
                case r of
                  Inl _ \<Rightarrow> Some Waiting
                | Inr (pkt, enc) \<Rightarrow>
                    (case cn_session c of
                       None \<Rightarrow> Some (Splitting pkt None True enc)
                     | Some se \<Rightarrow>
                         do { cmd \<leftarrow> PacketCodec_Command pkt;
                              id \<leftarrow> PacketCodec_SessionId pkt;
                              if cmd \<noteq> SMB2_NEGOTIATE \<and> cmd \<noteq> SMB2_SESSION_SETUP \<and> se_sessionId se \<noteq> id
                              then Some Waiting else Some (Splitting pkt None True enc) }) })"

definition receive_frame :: "bytes \<Rightarrow> 'fs client \<Rightarrow> 'fs client option" where
  "receive_frame b c = map_option (\<lambda>r. c\<lparr>cl_recv := r\<rparr>) (open_frame (cl_conn c) b)"

definition new_context :: "slice \<Rightarrow> compoundContext option" where
  "new_context pkt =
     do { tree \<leftarrow> PacketCodec_TreeId pkt; session \<leftarrow> PacketCodec_SessionId pkt;
          Some \<lparr>cx_treeId = ucast tree, cx_sessionId = session, cx_fileId = None, cx_lastStatus = 0,
            cx_lastMsgId = 0, cx_rsp = []\<rparr> }"

text \<open>One round of the inner loop; \<open>one\<close> and the rest share an array. What \<open>tryVerify\<close> says is dropped.\<close>

definition next_request :: "'fs client \<Rightarrow> 'fs client option" where
  "next_request c =
     (case cl_recv c of
        Splitting pkt ctx hasSession enc \<Rightarrow>
          do { bad \<leftarrow> PacketCodec_IsInvalid pkt;
               if bad then Some (c\<lparr>cl_recv := Stopped\<rparr>)
               else do { first \<leftarrow> PacketCodec_IsCompoundFirst pkt;
               (ctx, ctxs) \<leftarrow> (if first
                  then map_option (\<lambda>x. (Some (length (cl_ctxs c)), cl_ctxs c @ [x])) (new_context pkt)
                  else Some (ctx, cl_ctxs c));
               isLast \<leftarrow> PacketCodec_IsCompoundLast pkt;
               ctxs \<leftarrow> (if isLast
                  then do { i \<leftarrow> ctx; msg \<leftarrow> PacketCodec_MessageId pkt;
                            Some (ctxs[i := (ctxs ! i)\<lparr>cx_lastMsgId := msg\<rparr>]) }
                  else Some ctxs);
               off \<leftarrow> PacketCodec_NextCommand pkt;
               _ \<leftarrow> sfrom (unat off) pkt;
               one \<leftarrow> (if off = 0 then Some pkt else ssub 0 (unat off) pkt);
               (_, one) \<leftarrow> (if hasSession then tryVerify (cl_conn c) one enc else Some (None, one));
               _ \<leftarrow> PacketCodec_MessageId one;
               _ \<leftarrow> PacketCodec_CreditRequest one;
               recv \<leftarrow> (if off = 0 then Some Waiting
                  else map_option (\<lambda>b. Splitting b ctx hasSession enc) (sfrom (unat off) (Slice (sl_arr one) (slen pkt))));
               Some (c\<lparr>cl_recv := recv, cl_ctxs := ctxs, cl_slot := Some (one, ctx)\<rparr>) } }
      | _ \<Rightarrow> Some c)"

section \<open>The loop\<close>

text \<open>\<open>Run\<close> takes the request from the receiver and handles it; an error ends it and closes the
  socket.\<close>

definition loop_after :: "srv_error option \<Rightarrow> loop" where
  "loop_after e = (case e of None \<Rightarrow> Looping | Some err \<Rightarrow> if err = NeverReturns then Hanging else Ended)"

definition handle_request :: "('fs, 'au) server \<Rightarrow> nat \<Rightarrow> 'fs client \<Rightarrow> slice \<Rightarrow> nat option \<Rightarrow> ('fs, 'au) world \<Rightarrow> ('fs, 'au) world option" where
  "handle_request sf i c pkt ctx w =
     do { (e, x, s) \<leftarrow> run_packet sf (map_option (\<lambda>k. cl_ctxs c ! k) ctx) pkt (focus w c);
          let ctxs = (case (ctx, x) of (Some k, Some x) \<Rightarrow> (cl_ctxs c)[k := x] | _ \<Rightarrow> cl_ctxs c);
          Some (unfocus i s (c\<lparr>cl_ctxs := ctxs, cl_slot := None, cl_loop := loop_after e\<rparr>) w) }"

section \<open>Steps\<close>

definition set_client :: "nat \<Rightarrow> 'fs client \<Rightarrow> ('fs, 'au) world \<Rightarrow> ('fs, 'au) world" where
  "set_client i c w = w\<lparr>w_clients := (w_clients w)[i := c]\<rparr>"

text \<open>A step of a goroutine, with what comes from outside as an argument: a new connection with
  its random bytes, a frame from a client, the goroutine a share finds itself on.\<close>

datatype event =
    Connect "nat \<Rightarrow> u8" | Frame nat bytes | Next nat | Handle nat | StartJob nat nat | FinishJob nat nat
  | Close_socket nat | Schedule string u64

fun enabled :: "('fs, 'au) server \<Rightarrow> event \<Rightarrow> ('fs, 'au) world \<Rightarrow> bool" where
  "enabled sf (Connect rnd) w = True"
| "enabled sf (Frame i b) w = (i < length (w_clients w) \<and> cl_recv (w_clients w ! i) = Waiting \<and>
     cl_slot (w_clients w ! i) = None)"
| "enabled sf (Next i) w = (i < length (w_clients w) \<and> cl_slot (w_clients w ! i) = None \<and>
     (case cl_recv (w_clients w ! i) of Splitting _ _ _ _ \<Rightarrow> True | _ \<Rightarrow> False))"
| "enabled sf (Handle i) w = (i < length (w_clients w) \<and> cl_loop (w_clients w ! i) = Looping \<and> cl_slot (w_clients w ! i) \<noteq> None)"
| "enabled sf (StartJob i k) w = (i < length (w_clients w) \<and> k < length (cl_jobs (w_clients w ! i)) \<and>
     \<not> jb_started (snd (cl_jobs (w_clients w ! i) ! k)))"
| "enabled sf (FinishJob i k) w = (i < length (w_clients w) \<and> k < length (cl_jobs (w_clients w ! i)) \<and>
     jb_started (snd (cl_jobs (w_clients w ! i) ! k)))"
| "enabled sf (Close_socket i) w = (i < length (w_clients w) \<and> cl_loop (w_clients w ! i) = Ended)"
| "enabled sf (Schedule name g) w = (sf_shares sf name \<noteq> None)"

text \<open>\<open>None\<close> is a panic, which ends the process.\<close>

fun perform :: "('fs, 'au) server \<Rightarrow> event \<Rightarrow> ('fs, 'au) world \<Rightarrow> ('fs, 'au) world option" where
  "perform sf (Connect rnd) w = map_option (\<lambda>c. w\<lparr>w_clients := w_clients w @ [c]\<rparr>) (new_client rnd)"
| "perform sf (Frame i b) w = map_option (\<lambda>c. set_client i c w) (receive_frame b (w_clients w ! i))"
| "perform sf (Next i) w = map_option (\<lambda>c. set_client i c w) (next_request (w_clients w ! i))"
| "perform sf (Handle i) w =
     (case cl_slot (w_clients w ! i) of
        None \<Rightarrow> Some w
      | Some (pkt, ctx) \<Rightarrow> handle_request sf i (w_clients w ! i) pkt ctx w)"
| "perform sf (StartJob i k) w =
     map_option (\<lambda>s. unfocus i s (w_clients w ! i) w) (start_nth_job sf k (focus w (w_clients w ! i)))"
| "perform sf (FinishJob i k) w =
     map_option (\<lambda>s. unfocus i s (w_clients w ! i) w) (finish_nth_job sf k (focus w (w_clients w ! i)))"
| "perform sf (Close_socket i) w = Some (set_client i ((w_clients w ! i)\<lparr>cl_recv := Stopped\<rparr>) w)"
| "perform sf (Schedule name g) w =
     (case sf_shares sf name of None \<Rightarrow> Some w | Some V \<Rightarrow> Some (w\<lparr>w_fs := v_Goroutine V g (w_fs w)\<rparr>))"

inductive server_step :: "('fs, 'au) server \<Rightarrow> ('fs, 'au) world \<Rightarrow> ('fs, 'au) world \<Rightarrow> bool" for sf where
  step: "enabled sf ev w \<Longrightarrow> perform sf ev w = Some w' \<Longrightarrow> server_step sf w w'"

inductive server_runs :: "('fs, 'au) server \<Rightarrow> ('fs, 'au) world \<Rightarrow> ('fs, 'au) world \<Rightarrow> bool" for sf where
  stay: "server_runs sf w w"
| more: "server_runs sf w w' \<Longrightarrow> server_step sf w' w'' \<Longrightarrow> server_runs sf w w''"

inductive_cases server_stepE: "server_step sf w w'"

text \<open>A given run.\<close>

fun run_events :: "('fs, 'au) server \<Rightarrow> event list \<Rightarrow> ('fs, 'au) world \<Rightarrow> ('fs, 'au) world option" where
  "run_events sf [] w = Some w"
| "run_events sf (ev # evs) w = (if enabled sf ev w then perform sf ev w \<bind> run_events sf evs else None)"

lemma server_runs_first: "server_runs sf w' w'' \<Longrightarrow> server_step sf w w' \<Longrightarrow> server_runs sf w w''"
  by (induction rule: server_runs.induct) (auto intro: server_runs.intros)

lemma run_events_runs: "run_events sf evs w = Some w' \<Longrightarrow> server_runs sf w w'"
  by (induction evs arbitrary: w)
    (auto intro: server_runs.stay server_runs_first server_step.step split: if_splits bind_splits)

end
