(* ===== verification/ServerKeeps.thy ===== *)
theory ServerKeeps
  imports FileTreeKeeps ServerRun
begin

text \<open>
  What the whole server keeps. \<open>server_keeps\<close> asks of a property \<open>P\<close> of the shares' state, \<open>A\<close> of a
  connection's session and \<open>B\<close> of a tree that the few places where they can change keep them; then
  every step of the server does, on every connection.
\<close>

section \<open>A tree without a session\<close>

lemmas file_tree_handlers = create_def close_def flush_def read_def tree_write_def lock_def ioctl_def cancel_def
  queryDirectory_def changeNotify_def queryInfo_def setInfo_def oplockBreak_def

text \<open>A tree connected before there was a session: each of its handlers panics on its nil session.\<close>

lemma sessionless_tree:
  assumes "tc_session (ft_tree t) = None"
  shows "file_tree_op cfg t pkt s = Some (e, s') \<Longrightarrow> s' = s" and "job_work cfg t j s = None"
  using assms
  by (auto simp: file_tree_op_def file_tree_handlers job_work_def readImpl_def writeImpl_def session_conn_def
      split: if_splits bind_splits)

section \<open>Keeping the session\<close>

text \<open>Sending and the handlers of a tree change neither the session nor, without a method of the
  file system, the shares.\<close>

lemma protect_session: "protect tc pkt c = Some (r, c') \<Longrightarrow> cn_session c' = cn_session c"
  by (auto simp: protect_def rand_Read_def Let_def split: option.splits if_splits outcome.splits bind_splits)

lemma encodePacket_session: "encodePacket req tc c = Some (r, c') \<Longrightarrow> cn_session c' = cn_session c"
  by (auto simp: encodePacket_def number_packet_def Let_def split: prod.splits bind_splits dest!: protect_session)

lemma transmit_session: "cn_session (snd (transmit lib p c)) = cn_session c"
  by (simp add: transmit_def calcPreauthHash_def Let_def split: option.split)

lemma sendPacket_session: "sendPacket lib req tc ctx c = Some (e, x, c') \<Longrightarrow> cn_session c' = cn_session c"
proof -
  have t: "transmit lib p d = (y, c') \<Longrightarrow> cn_session c' = cn_session d" for p d y
    using transmit_session [of lib p d] by simp
  show "sendPacket lib req tc ctx c = Some (e, x, c') \<Longrightarrow> cn_session c' = cn_session c"
    by (auto simp: sendPacket_def Let_def split: bind_splits sum.splits option.splits prod.splits if_splits
        dest!: encodePacket_session t)
qed

text \<open>A property of the shares that survives the methods of one of them, beside the session.\<close>

definition shares_and_session :: "('fs \<Rightarrow> bool) \<Rightarrow> session option \<Rightarrow> 'fs hst \<Rightarrow> bool" where
  "shares_and_session P se s \<longleftrightarrow> P (h_fs s) \<and> cn_session (h_conn s) = se"

interpretation shares: reply_keeps "shares_and_session P se" for P se
proof unfold_locales
  show "shares_and_session P se s \<Longrightarrow> after (shares_and_session P se) (send_on cfg tc rsp s)" for s cfg tc rsp
    by (auto simp: after_def send_on_def shares_and_session_def split: bind_splits dest!: sendPacket_session)
  show "shares_and_session P se s \<Longrightarrow> after (shares_and_session P se) (random_id s)" for s
    by (auto simp: after_def random_id_def randint64_def rand_Read_def shares_and_session_def)
qed (auto simp: shares_and_session_def start_job_def)

lemma tree_keepsI:
  assumes "\<And>fs fs'. P fs \<Longrightarrow> fs_step V fs fs' \<Longrightarrow> P fs'"
  shows "tree_keeps (shares_and_session P se) V"
  by unfold_locales (use assms in \<open>auto simp: shares_and_session_def\<close>)

interpretation honeypot_tree: tree_keeps "shares_and_session (honeypot_since fs0) se" memory_vfs for fs0 se
  by (rule tree_keepsI) (rule honeypot.fs_step_kept)

section \<open>The interface\<close>

text \<open>The security negotiation has the server's authenticator and no other.\<close>

definition spnego_of :: "('fs, 'au) server \<Rightarrow> 'au spnegoServer option \<Rightarrow> bool" where
  "spnego_of sf sp \<longleftrightarrow>
     (\<forall>c. sp = Some c \<longrightarrow> sg_mechs c = [sf_authenticator sf] \<and> set_option (sg_selectedMech c) \<subseteq> {sf_authenticator sf})"

definition srv_inv ::
  "('fs, 'au) server \<Rightarrow> ('fs \<Rightarrow> bool) \<Rightarrow> (session option \<Rightarrow> bool) \<Rightarrow> ('fs tree \<Rightarrow> bool) \<Rightarrow> ('au \<Rightarrow> bool) \<Rightarrow>
   ('fs, 'au) srv \<Rightarrow> bool" where
  "srv_inv sf P A B G s \<longleftrightarrow>
     P (h_fs (sv_h s)) \<and> A (cn_session (sv_conn s)) \<and> list_all B (sv_trees s) \<and> G (sv_au s) \<and> spnego_of sf (sv_spnego s) \<and>
     (\<forall>x \<in> set (sv_jobs s). fst x < length (sv_trees s))"

locale server_keeps =
  fixes sf :: "('fs, 'au) server" and P :: "'fs \<Rightarrow> bool" and A :: "session option \<Rightarrow> bool"
    and B :: "'fs tree \<Rightarrow> bool" and G :: "'au \<Rightarrow> bool"
  assumes no_session: "A None"
    and challenged: "G au \<Longrightarrow> au_challenge (sf_authenticator sf) tok au = Some (r, au') \<Longrightarrow> G au'"
    and authenticated: "G au \<Longrightarrow> au_authenticate (sf_authenticator sf) tok au = Some (a, au') \<Longrightarrow> G au'"
    and accepted: "G au \<Longrightarrow> au_authenticate (sf_authenticator sf) tok au = Some (Inr u, au') \<Longrightarrow> A (Some new)"
    and new_file_tree: "A se \<Longrightarrow> tc_session tc = se \<Longrightarrow> sf_shares sf name = Some V \<Longrightarrow>
      B (FileTreeOf \<lparr>ft_tree = tc, ft_fs = V\<rparr> False)"
    and new_ipc_tree: "A se \<Longrightarrow> tc_session tc = se \<Longrightarrow> B (IpcTreeOf tc (sf_origShares sf) None)"
    and tree_fields: "B (FileTreeOf t y) \<Longrightarrow> B (FileTreeOf t y')" "B (IpcTreeOf tc shares req) \<Longrightarrow> B (IpcTreeOf tc shares req')"
    and share: "B (FileTreeOf t y) \<Longrightarrow> tc_session (ft_tree t) \<noteq> None \<Longrightarrow> P fs \<Longrightarrow> fs_step (ft_fs t) fs fs' \<Longrightarrow> P fs'"
    and rescheduled: "sf_shares sf name = Some V \<Longrightarrow> P fs \<Longrightarrow> P (v_Goroutine V g fs)"

context server_keeps begin

abbreviation I :: "('fs, 'au) srv \<Rightarrow> bool" where
  "I \<equiv> srv_inv sf P A B G"

section \<open>Setting up\<close>

lemma keeps_set_conn: "I s \<Longrightarrow> cn_session c = None \<or> cn_session c = cn_session (sv_conn s) \<Longrightarrow> I (set_conn c s)"
  by (auto simp: srv_inv_def set_conn_def sv_conn_def no_session)

lemma keeps_conn_send: "I s \<Longrightarrow> conn_send sf tc rsp s = Some (e, s') \<Longrightarrow> I s'"
  by (auto simp: conn_send_def keeps_set_conn split: bind_splits dest!: sendPacket_session)

lemma rand_session: "cn_session (snd (rand_Read n c)) = cn_session c" "cn_session (snd (randint64 c)) = cn_session c"
  "cn_session (snd (randint32 c)) = cn_session c"
  by (simp_all add: rand_Read_def randint64_def randint32_def Let_def)

lemma keeps_clock: "I s \<Longrightarrow> I (s\<lparr>sv_clock := k\<rparr>)"
  by (simp add: srv_inv_def sv_conn_def)

lemma makeResponse_shape:
  "snd (makeResponse sf s) = s\<lparr>sv_clock := \<lambda>i. sv_clock s (Suc i)\<rparr> \<or>
   snd (makeResponse sf s) = set_conn (snd (rand_Read 32 (sv_conn s))) (s\<lparr>sv_clock := \<lambda>i. sv_clock s (Suc i)\<rparr>)"
  unfolding makeResponse_def Let_def by (cases "rand_Read 32 (sv_conn s)") simp

lemma keeps_makeResponse: "I s \<Longrightarrow> I (snd (makeResponse sf s))"
  using makeResponse_shape [of s] keeps_clock
  by (auto intro!: keeps_set_conn simp: rand_session) (simp add: sv_conn_def)

lemma keeps_negotiate_reply: "I s \<Longrightarrow> negotiate_reply sf pkt token s = Some (e, s') \<Longrightarrow> I s'"
  using keeps_makeResponse [of s]
  by (auto simp: negotiate_reply_def Let_def split: bind_splits prod.splits intro: keeps_conn_send)

lemma context_session:
  "negotiate_context lib pkt list c = Some (e, c') \<Longrightarrow> cn_session c' = cn_session c"
  by (auto simp: negotiate_context_def calcPreauthHash_def Let_def split: bind_splits if_splits list.splits option.splits)

lemma contexts_session:
  "negotiate_contexts lib pkt n list c = Some (e, c') \<Longrightarrow> cn_session c' = cn_session c"
  by (induction n arbitrary: list c) (auto split: bind_splits if_splits dest: context_session)

lemma new_spnego: "spnego_of sf (Some (newSpnegoServer [sf_authenticator sf]))"
  by (simp add: spnego_of_def newSpnegoServer_def)

lemma keeps_negotiator_fields:
  "I s \<Longrightarrow> spnego_of sf sp \<Longrightarrow> cn_session c = cn_session (sv_conn s) \<Longrightarrow>
   I ((set_conn c s)\<lparr>sv_specified := d, sv_spnego := sp\<rparr>)"
  by (simp add: srv_inv_def set_conn_def sv_conn_def)

lemma conn_of_set [simp]: "sv_conn (set_conn c s) = c" "sv_conn (s\<lparr>sv_specified := d, sv_spnego := sp\<rparr>) = sv_conn s"
  "sv_conn (s\<lparr>sv_spnego := sp, sv_au := au\<rparr>) = sv_conn s"
  by (simp_all add: sv_conn_def set_conn_def)

lemma after_contexts:
  "(\<And>e c'. cn_session c' = cn_session c \<Longrightarrow> after I (k (e, c'))) \<Longrightarrow>
   after I (Option.bind (negotiate_contexts lib pkt n list c) k)"
  by (cases "negotiate_contexts lib pkt n list c") (auto simp: after_def dest: contexts_session)

lemma after_sent:
  "I s \<Longrightarrow> after I (negotiate_reply sf pkt token s)" "I s \<Longrightarrow> after I (conn_send sf tc rsp s)"
  by (auto simp: after_def intro: keeps_negotiate_reply keeps_conn_send)

lemma after_makeResponse:
  "I s \<Longrightarrow> (\<And>rsp s'. I s' \<Longrightarrow> after I (k rsp s')) \<Longrightarrow> after I (case makeResponse sf s of (rsp, s') \<Rightarrow> k rsp s')"
  using keeps_makeResponse [of s] by (simp add: split_beta)

lemma keeps_specified: "I s \<Longrightarrow> I (s\<lparr>sv_specified := d\<rparr>)"
  by (simp add: srv_inv_def sv_conn_def)

lemma keeps_negotiator_negotiate: "I s \<Longrightarrow> after I (negotiator_negotiate sf pkt s)"
  unfolding negotiator_negotiate_def
  by (rule after_contexts after_sent after_makeResponse keeps_specified after_basic(1,2) after_pure
      after_basic(3,4,7,8) | assumption | (simp add: keeps_set_conn keeps_negotiator_fields new_spnego; fail))+

lemma keeps_negotiate: "I s \<Longrightarrow> after I (negotiate sf pkt s)"
  by (auto simp: negotiate_def Let_def drop_session_def intro!: keeps_negotiator_negotiate keeps_set_conn)

lemma select_kept:
  assumes "spnego_of sf (Some c)"
  shows "spnego_of sf (Some (select_first ty c))" and "spnego_of sf (Some (select_offered tys c))"
  using assms by (auto simp: spnego_of_def select_first_def select_offered_def split: option.splits)

lemma selected: "spnego_of sf (Some c) \<Longrightarrow> sg_selectedMech c = Some m \<Longrightarrow> m = sf_authenticator sf"
  by (auto simp: spnego_of_def)

lemma challenge_kept:
  assumes "spnego_of sf (Some c)" and "G au" and "challenge b tok (c, au) = Some (t, (c', au'))"
  shows "spnego_of sf (Some c') \<and> G au'"
  using assms select_kept [OF assms(1)] challenged
  by (auto simp: challenge_def Let_def split: if_splits option.splits sum.splits bind_splits dest!: selected [rotated])

lemma accepted_isl:
  "G au \<Longrightarrow> au_authenticate (sf_authenticator sf) tok au = Some (r, au') \<Longrightarrow> isl r \<or> A (Some new)"
  by (cases r) (auto intro: accepted)

lemma authenticate_kept:
  assumes "spnego_of sf (Some c)" and "G au" and "authenticate b tok (c, au) = Some (a, (c', au'))"
  shows "spnego_of sf (Some c') \<and> G au' \<and> (isl a \<or> A (Some new))"
  using assms select_kept [OF assms(1)] authenticated
  by (auto simp: isl_map_sum authenticate_def Let_def split: if_splits option.splits sum.splits bind_splits dest!: selected [rotated] dest: accepted_isl)

lemma keeps_authenticator: "I s \<Longrightarrow> spnego_of sf (Some sp) \<Longrightarrow> G au \<Longrightarrow> I (s\<lparr>sv_spnego := Some sp, sv_au := au\<rparr>)"
  by (simp add: srv_inv_def sv_conn_def)

lemma after_challenge:
  assumes s: "I s" and k: "\<And>t sp au. I (s\<lparr>sv_spnego := Some sp, sv_au := au\<rparr>) \<Longrightarrow> after I (k t sp au)"
  shows "after I (sv_spnego s \<bind> (\<lambda>sp. challenge b tok (sp, sv_au s) \<bind> (\<lambda>(t, sp, au). k t sp au)))"
proof -
  have "I (s\<lparr>sv_spnego := Some sp, sv_au := au\<rparr>)"
    if "sv_spnego s = Some c" and "challenge b tok (c, sv_au s) = Some (t, sp, au)" for c t sp au
    using s that challenge_kept [of c "sv_au s" b tok t sp au] by (simp add: srv_inv_def keeps_authenticator)
  with k show ?thesis by (auto intro!: after_basic(1) split: bind_splits)
qed

lemma after_authenticate:
  assumes s: "I s" and k: "\<And>a sp au. I (s\<lparr>sv_spnego := Some sp, sv_au := au\<rparr>) \<Longrightarrow>
    isl a \<or> (\<forall>new. A (Some new)) \<Longrightarrow> after I (k a sp au)"
  shows "after I (sv_spnego s \<bind> (\<lambda>sp. authenticate b tok (sp, sv_au s) \<bind> (\<lambda>(a, sp, au). k a sp au)))"
proof -
  have "I (s\<lparr>sv_spnego := Some sp, sv_au := au\<rparr>) \<and> (isl a \<or> (\<forall>new. A (Some new)))"
    if "sv_spnego s = Some c" and "authenticate b tok (c, sv_au s) = Some (a, sp, au)" for c a sp au
    using s that authenticate_kept [of c "sv_au s" b tok a sp au] by (auto simp: srv_inv_def sv_conn_def)
  with k show ?thesis by (auto intro!: after_basic(1) split: bind_splits)
qed

lemma after_reply_and:
  "I s \<Longrightarrow> (\<And>e s'. I s' \<Longrightarrow> after I (k e s')) \<Longrightarrow> after I (conn_send sf tc rsp s \<bind> (\<lambda>(e, s'). k e s'))"
  using keeps_conn_send [of s tc rsp] by (auto intro!: after_basic(1) split: bind_splits)

lemma keeps_establish:
  assumes new: "\<And>new. A (Some new)" and "I s"
  shows "after I (establish_session sf pkt token s)"
proof -
  have set: "I (set_conn ((sv_conn s)\<lparr>cn_session := Some se, cn_serverState := st\<rparr>) s)" for se st
    using assms by (simp add: srv_inv_def set_conn_def sv_conn_def)
  have enable: "I (set_conn (enableSession (sv_conn s')) s')" if "I s'" for s'
    using that by (simp add: keeps_set_conn enableSession_def)
  show ?thesis
    unfolding establish_session_def
    by (rule after_reply_and set after_basic(2) after_pure after_basic(7,8) | assumption | (simp add: enable; fail))+
qed

lemma after_randint64:
  "(\<And>n c. cn_session c = cn_session d \<Longrightarrow> after I (k n c)) \<Longrightarrow> after I (case randint64 d of (n, c) \<Rightarrow> k n c)"
  using rand_session(2) [of d] by (simp add: split_beta)

lemma preauth_session: "cn_session (calcPreauthHash lib x c) = cn_session c"
  by (simp add: calcPreauthHash_def)

lemma keeps_sessionServerSetup: "I s \<Longrightarrow> after I (sessionServerSetup sf pkt s)"
  unfolding sessionServerSetup_def
  by (rule after_challenge after_randint64 after_sent after_basic(1,2) after_pure after_basic(3,4,6,7,8) |
      assumption | (simp add: keeps_set_conn preauth_session; fail))+

lemma after_accepted:
  "isl a \<or> (\<forall>new. A (Some new)) \<Longrightarrow> (\<And>x. after I (f x)) \<Longrightarrow>
   (\<And>y. (\<And>new. A (Some new)) \<Longrightarrow> after I (g y)) \<Longrightarrow> after I (case a of Inl x \<Rightarrow> f x | Inr y \<Rightarrow> g y)"
  by (cases a) auto

lemma keeps_sessionServerSetupChallenge: "I s \<Longrightarrow> after I (sessionServerSetupChallenge sf pkt s)"
  unfolding sessionServerSetupChallenge_def
  by (rule after_authenticate after_accepted keeps_establish after_reply_and after_basic(1,2) after_pure after_basic(3,4,7,8) |
      assumption | (simp add: keeps_set_conn preauth_session; fail))+

lemma keeps_sessionSetup: "I s \<Longrightarrow> after I (sessionSetup sf pkt s)"
  by (auto simp: sessionSetup_def Let_def drop_session_def split: ConnState.split
      intro!: keeps_sessionServerSetup keeps_sessionServerSetupChallenge keeps_set_conn after_basic(2))

lemma keeps_simple: "I s \<Longrightarrow> after I (echo sf pkt s)" "I s \<Longrightarrow> after I (logoff sf pkt s)"
  unfolding echo_def logoff_def by (rule after_sent after_pure | assumption)+

section \<open>Trees\<close>

lemma keeps_add_tree:
  assumes "I s" and "B t"
  shows "I (add_tree name t s)"
  using assms by (auto simp: srv_inv_def add_tree_def sv_conn_def Let_def)

lemma keeps_connect_tree:
  assumes s: "I s" and new: "\<And>tc se. A se \<Longrightarrow> tc_session tc = se \<Longrightarrow> B (mk tc)"
  shows "after I (connect_tree sf hdr name ty access mk s)"
proof -
  have "I (add_tree name (mk tc) (set_conn (snd (randint32 (sv_conn s))) s))"
    if "tc_session tc = cn_session (snd (randint32 (sv_conn s)))" for tc
    using that s by (intro keeps_add_tree keeps_set_conn new [of "cn_session (sv_conn s)"])
      (auto simp: rand_session srv_inv_def)
  then show ?thesis
    unfolding connect_tree_def Let_def split_beta
    by (auto intro!: after_sent s split: option.split)
qed

lemma after_share:
  "after I x \<Longrightarrow> (\<And>V name. sf_shares sf name = Some V \<Longrightarrow> after I (k V)) \<Longrightarrow>
   after I (case find_share sf path of None \<Rightarrow> x | Some V \<Rightarrow> k V)"
  by (auto simp: find_share_def split: option.splits)

lemma keeps_treeConnect: "I s \<Longrightarrow> after I (treeConnect sf pkt s)"
  unfolding treeConnect_def
  by (rule keeps_connect_tree after_share after_basic(1,2) after_pure after_basic(3,4,7,8) | assumption |
      (simp add: new_ipc_tree new_file_tree; fail))+

lemma keeps_treeDisconnect: "I s \<Longrightarrow> after I (treeDisconnect sf pkt s)"
proof -
  assume "I s"
  then have "I (remove_tree tc s)" for tc by (simp add: srv_inv_def remove_tree_def sv_conn_def)
  then show ?thesis
    unfolding treeDisconnect_def by - (rule after_sent after_basic(4,7) after_pure | assumption)+
qed

section \<open>Requests to a tree and their goroutines\<close>

lemma tree_contract: "B (FileTreeOf t y) \<Longrightarrow> tc_session (ft_tree t) \<noteq> None \<Longrightarrow> tree_keeps (shares_and_session P se) (ft_fs t)"
  by (rule tree_keepsI) (rule share)

lemma keeps_file_tree:
  assumes t: "B (FileTreeOf t y)" and h: "shares_and_session P se h"
  shows "after (shares_and_session P se) (file_tree_op cfg t pkt h)"
    and "after (shares_and_session P se) (job_work cfg t j h)"
proof -
  have "after (shares_and_session P se) (file_tree_op cfg t pkt h) \<and> after (shares_and_session P se) (job_work cfg t j h)"
  proof (cases "tc_session (ft_tree t)")
    case None
    then show ?thesis using h by (auto simp: after_def sessionless_tree dest!: sessionless_tree(1))
  next
    case Some
    then have "tree_keeps (shares_and_session P se) (ft_fs t)" using tree_contract [OF t] by simp
    then show ?thesis using tree_keeps.keeps_file_tree_op tree_keeps.keeps_job_work h by blast
  qed
  then show "after (shares_and_session P se) (file_tree_op cfg t pkt h)"
    and "after (shares_and_session P se) (job_work cfg t j h)" by simp_all
qed

lemma keeps_store_tree:
  assumes "I s" and "n < length (sv_trees s)" and "B t" and "shares_and_session P (cn_session (sv_conn s)) h"
  shows "I (store_tree n t h s)"
  using assms
  by (auto simp: srv_inv_def store_tree_def sv_conn_def shares_and_session_def list_all_length nth_list_update)

lemma keeps_run_on_tree:
  assumes s: "I s" and n: "n < length (sv_trees s)"
    and on_file: "\<And>t y h. B (FileTreeOf t y) \<Longrightarrow> shares_and_session P (cn_session (sv_conn s)) h \<Longrightarrow>
      after (shares_and_session P (cn_session (sv_conn s))) (on_file cfg t h)"
    and on_ipc: "\<And>it h. shares_and_session P (cn_session (sv_conn s)) h \<Longrightarrow>
      after (shares_and_session P (cn_session (sv_conn s))) (on_ipc cfg it h)"
    and run: "run_on_tree cfg on_file on_ipc n ctx s = Some (e, x, s')"
  shows "I s'"
proof -
  let ?J = "shares_and_session P (cn_session (sv_conn s))"
  have B: "B (sv_trees s ! n)" using s n by (auto simp: srv_inv_def list_all_length)
  have J: "?J (sv_h s\<lparr>h_ctx := ctx, h_jobs := [], h_aapl := y\<rparr>)" "?J (sv_h s\<lparr>h_ctx := ctx, h_jobs := [], h_dceReq := r\<rparr>)" for y r
    using s by (auto simp: srv_inv_def shares_and_session_def sv_conn_def)
  show ?thesis
  proof (cases "sv_trees s ! n")
    case (FileTreeOf t y)
    with run obtain h where h: "on_file cfg t (sv_h s\<lparr>h_ctx := ctx, h_jobs := [], h_aapl := y\<rparr>) = Some (e, h)"
      and s': "s' = store_tree n (FileTreeOf t (h_aapl h)) h s"
      by (auto simp: run_on_tree_def Let_def split: bind_splits)
    have "?J h" using afterD [OF on_file h] B J FileTreeOf by simp
    then show ?thesis unfolding s' using B FileTreeOf by (intro keeps_store_tree s n) (auto dest: tree_fields)
  next
    case (IpcTreeOf tc shares req)
    with run obtain h where h: "on_ipc cfg \<lparr>it_tree = tc, it_shares = shares\<rparr> (sv_h s\<lparr>h_ctx := ctx, h_jobs := [], h_dceReq := req\<rparr>) = Some (e, h)"
      and s': "s' = store_tree n (IpcTreeOf tc shares (h_dceReq h)) h s"
      by (auto simp: run_on_tree_def Let_def split: bind_splits)
    have "?J h" using afterD [OF on_ipc h] J by simp
    then show ?thesis unfolding s' using B IpcTreeOf by (intro keeps_store_tree s n) (auto dest: tree_fields)
  qed
qed

lemma keeps_tree_op:
  "I s \<Longrightarrow> n < length (sv_trees s) \<Longrightarrow> tree_op sf n ctx pkt s = Some (e, x, s') \<Longrightarrow> I s'"
  unfolding tree_op_def by (rule keeps_run_on_tree) (auto intro: keeps_file_tree(1) shares.keeps_ipc_tree_op)

lemma keeps_job_part:
  assumes "I s" and "n < length (sv_trees s)" and "part = job_pending \<or> part = job_work"
    and "job_part part sf n j s = Some s'"
  shows "I s'"
proof -
  have on_file: "after (shares_and_session P se) (part cfg t j h)"
    if "B (FileTreeOf t y)" and "shares_and_session P se h" for cfg t y h se
    using assms(3) that keeps_file_tree(2) shares.keeps_job_pending by auto
  from assms(4) obtain e x where
    "run_on_tree (sf_cfg sf) (\<lambda>cfg t. part cfg t j) (\<lambda>cfg t s. Some (None, s)) n None s = Some (e, x, s')"
    by (auto simp: job_part_def)
  from keeps_run_on_tree [OF assms(1,2) _ _ this] show ?thesis using on_file by (auto simp: after_def)
qed

lemma keeps_jobs:
  assumes s: "I s" and i: "i < length (sv_jobs s)"
  shows "start_nth_job sf i s = Some s' \<Longrightarrow> I s'" and "finish_nth_job sf i s = Some s' \<Longrightarrow> I s'"
proof -
  obtain n j where nj: "sv_jobs s ! i = (n, j)" by fastforce
  have n: "n < length (sv_trees s)" using s i nj by (force simp: srv_inv_def in_set_conv_nth)
  have "I (s\<lparr>sv_jobs := (sv_jobs s)[i := (n, j')]\<rparr>)" for j'
    using s n by (auto simp: srv_inv_def sv_conn_def dest!: set_update_subset_insert [THEN subsetD])
  from keeps_job_part [OF this] n nj show "start_nth_job sf i s = Some s' \<Longrightarrow> I s'"
    by (simp add: start_nth_job_def) blast
  have "I (s\<lparr>sv_jobs := take i (sv_jobs s) @ drop (Suc i) (sv_jobs s)\<rparr>)"
    using s by (auto simp: srv_inv_def sv_conn_def dest: in_set_takeD in_set_dropD)
  from keeps_job_part [OF this] n nj show "finish_nth_job sf i s = Some s' \<Longrightarrow> I s'"
    by (simp add: finish_nth_job_def) blast
qed

section \<open>The loop\<close>

lemma tree_by_id_bound: "tree_by_id i s = Some (n, t) \<Longrightarrow> n < length (sv_trees s) \<and> t = sv_trees s ! n"
  by (auto simp: tree_by_id_def split: option.splits if_splits)

lemma keeps_forward: "I s \<Longrightarrow> forward_status sf t c pkt s = Some (e, x, s') \<Longrightarrow> I s'"
  by (auto simp: forward_status_def keeps_set_conn split: bind_splits dest!: sendPacket_session)

lemma after_no_ctx: "after I y \<Longrightarrow> no_ctx y ctx = Some (e, x, s') \<Longrightarrow> I s'"
  by (auto simp: no_ctx_def after_def)

lemma keeps_run_packet:
  assumes "I s" and "run_packet sf ctx pkt s = Some (e, x, s')"
  shows "I s'"
  using assms unfolding run_packet_def
  by (auto split: bind_splits if_splits option.splits prod.splits dest!: tree_by_id_bound
      dest: after_no_ctx [rotated] keeps_tree_op [rotated 2] keeps_forward [rotated]
      intro: keeps_negotiate keeps_sessionSetup keeps_simple keeps_treeConnect keeps_treeDisconnect)

section \<open>The whole server\<close>

definition client_inv :: "'fs client \<Rightarrow> bool" where
  "client_inv c \<longleftrightarrow> A (cn_session (cl_conn c)) \<and> list_all B (cl_trees c) \<and> (\<forall>x \<in> set (cl_jobs c). fst x < length (cl_trees c))"

definition world_inv :: "('fs, 'au) world \<Rightarrow> bool" where
  "world_inv w \<longleftrightarrow> P (w_fs w) \<and> G (w_au w) \<and> spnego_of sf (w_spnego w) \<and> list_all client_inv (w_clients w)"

lemma focus_inv: "world_inv w \<Longrightarrow> client_inv c \<Longrightarrow> I (focus w c)"
  by (simp add: world_inv_def client_inv_def srv_inv_def focus_def sv_conn_def)

lemma unfocus_inv:
  assumes "world_inv w" and "I s"
  shows "world_inv (unfocus i s c w)"
  using assms by (auto simp: world_inv_def client_inv_def srv_inv_def unfocus_def client_of_def list_all_iff
      dest!: set_update_subset_insert [THEN subsetD]) fastforce+

lemma set_client_inv: "world_inv w \<Longrightarrow> client_inv c \<Longrightarrow> world_inv (set_client i c w)"
  by (auto simp: world_inv_def set_client_def list_all_iff dest!: set_update_subset_insert [THEN subsetD])

lemma client_at: "world_inv w \<Longrightarrow> i < length (w_clients w) \<Longrightarrow> client_inv (w_clients w ! i)"
  by (simp add: world_inv_def list_all_length)

lemma client_fields: "cl_conn c' = cl_conn c \<Longrightarrow> cl_trees c' = cl_trees c \<Longrightarrow> cl_jobs c' = cl_jobs c \<Longrightarrow>
   client_inv c \<Longrightarrow> client_inv c'"
  by (simp add: client_inv_def)

lemma receiver_fields:
  "receive_frame b c = Some c' \<Longrightarrow> cl_conn c' = cl_conn c \<and> cl_trees c' = cl_trees c \<and> cl_jobs c' = cl_jobs c"
  "next_request c = Some c' \<Longrightarrow> cl_conn c' = cl_conn c \<and> cl_trees c' = cl_trees c \<and> cl_jobs c' = cl_jobs c"
  by (auto simp: receive_frame_def) (auto simp: next_request_def Let_def split: receiver.split_asm bind_split_asm if_split_asm)

lemma keeps_handle_request:
  assumes w: "world_inv w" and i: "i < length (w_clients w)" and run: "handle_request sf i (w_clients w ! i) pkt ctx w = Some w'"
  shows "world_inv w'"
proof -
  let ?c = "w_clients w ! i"
  from run obtain e x s y c where
    r: "run_packet sf y pkt (focus w ?c) = Some (e, x, s)" and w': "w' = unfocus i s c w"
    by (auto simp: handle_request_def Let_def split: bind_splits)
  from keeps_run_packet [OF focus_inv [OF w client_at [OF w i]] r] show ?thesis
    unfolding w' by (rule unfocus_inv [OF w])
qed

lemma new_client_inv: "new_client rnd = Some c \<Longrightarrow> client_inv c"
  by (auto simp: new_client_def client_inv_def no_session split: bind_splits)

lemma world_step: "server_step sf w w' \<Longrightarrow> world_inv w \<Longrightarrow> world_inv w'"
proof (erule server_stepE)
  fix ev
  assume w: "world_inv w" and e: "enabled sf ev w" and p: "perform sf ev w = Some w'"
  show "world_inv w'"
  proof (cases ev)
    case (Connect rnd)
    with p w show ?thesis by (auto simp: world_inv_def new_client_inv)
  next
    case (Frame i b)
    with p e client_at [OF w] show ?thesis
      by (auto intro!: set_client_inv w dest!: receiver_fields(1) intro: client_fields)
  next
    case (Next i)
    with p e client_at [OF w] show ?thesis
      by (auto intro!: set_client_inv w dest!: receiver_fields(2) intro: client_fields)
  next
    case (Handle i)
    with p e w show ?thesis by (auto split: option.splits intro: keeps_handle_request)
  next
    case (StartJob i k)
    with p e keeps_jobs(1) [OF focus_inv [OF w client_at [OF w]]] show ?thesis
      by (auto simp: focus_def intro!: unfocus_inv w)
  next
    case (FinishJob i k)
    with p e keeps_jobs(2) [OF focus_inv [OF w client_at [OF w]]] show ?thesis
      by (auto simp: focus_def intro!: unfocus_inv w)
  next
    case (Close_socket i)
    with p e client_at [OF w] show ?thesis
      by (auto intro!: set_client_inv w intro: client_fields)
  next
    case (Schedule name g)
    with p w show ?thesis by (auto simp: world_inv_def split: option.splits intro: rescheduled)
  qed
qed

lemma world_runs: "server_runs sf w w' \<Longrightarrow> world_inv w \<Longrightarrow> world_inv w'"
  by (induction rule: server_runs.induct) (auto intro: world_step)

end

end
