(* ===== verification/ServerProps.thy ===== *)
theory ServerProps
  imports ServerKeeps MemoryProps "HOL-Library.Code_Target_Numeral"
begin

text \<open>
  Two promises of the whole server, whatever its clients send and however its goroutines are
  scheduled: in honeypot mode no client changes the names, the directories or the stored contents of
  the share, and without an accepted authentication no method of a share is called.
\<close>

section \<open>A honeypot\<close>

text \<open>A server with one \<open>MemoryFS\<close> under any number of names.\<close>

definition memory_server ::
  "srv_config \<Rightarrow> ber \<Rightarrow> (string \<Rightarrow> string) \<Rightarrow> bytes \<Rightarrow> 'au authenticator \<Rightarrow> string list \<Rightarrow> (memory_share, 'au) server" where
  "memory_server cfg b up guid a names = NewServer cfg b up guid a (map (\<lambda>n. (n, memory_vfs)) names)"

definition memory_tree :: "memory_share tree \<Rightarrow> bool" where
  "memory_tree t \<longleftrightarrow> (case t of FileTreeOf f _ \<Rightarrow> ft_fs f = memory_vfs | IpcTreeOf _ _ _ \<Rightarrow> True)"

lemma upper_shares_in: "upper_shares up shares name = Some V \<Longrightarrow> V \<in> snd ` set shares"
proof -
  have "fold (\<lambda>(i, v) m. m(up i \<mapsto> v)) shares m name = Some V \<Longrightarrow> V \<in> snd ` set shares \<or> m name = Some V" for m
  proof (induction shares arbitrary: m)
    case (Cons x shares)
    obtain i v where x: "x = (i, v)" by (cases x)
    from Cons.prems x have "fold (\<lambda>(i, v) m. m(up i \<mapsto> v)) shares (m(up i \<mapsto> v)) name = Some V" by (simp add: fun_upd_def)
    from Cons.IH [OF this] show ?case using x by (auto split: if_splits)
  qed simp
  then show "upper_shares up shares name = Some V \<Longrightarrow> V \<in> snd ` set shares"
    by (auto simp: upper_shares_def)
qed

lemma memory_server_shares: "sf_shares (memory_server cfg b up guid a names) name = Some V \<Longrightarrow> V = memory_vfs"
  by (auto simp: memory_server_def NewServer_def dest!: upper_shares_in)

interpretation honeypot_server:
  server_keeps "memory_server cfg b up guid a names" "honeypot_since fs0" "\<lambda>_. True" memory_tree "\<lambda>_. True"
  for cfg b up guid a names fs0
proof (unfold_locales, goal_cases)
  case (9 t y fs fs')
  then show ?case by (auto simp: memory_tree_def intro: honeypot.fs_step_kept)
next
  case (10 name V fs g)
  then show ?case by (auto dest!: memory_server_shares intro: honeypot.Goroutine)
qed (auto simp: memory_tree_def dest: memory_server_shares)

section \<open>An example\<close>

text \<open>A server with one share, guests allowed and an authenticator that takes everybody or nobody,
  over stand-ins for the cryptography; and the frames of a client that negotiates and logs in.\<close>

definition demo_library :: library where
  "demo_library = \<lparr>lb_sha512 = (\<lambda>_. replicate 64 0), lb_hmac = (\<lambda>k m. replicate 32 0), lb_aes = (\<lambda>k b. b),
     lb_gcm = (\<lambda>k. \<lparr>ae_NonceSize = 12, ae_Seal = (\<lambda>n m a. Ok (Some m)), ae_Open = (\<lambda>n m a. Ok m)\<rparr>)\<rparr>"

definition demo_config :: srv_config where
  "demo_config = \<lparr>sc_lib = demo_library, sc_regexp = (\<lambda>_ _. Some True), sc_xattrs = False, sc_ignoreSetAttrErr = False,
     sc_allowGuest = True, sc_remoteAddr = '''', sc_localAddr = '''',
     sc_srvsvc = \<lparr>fid_Persistent = replicate 8 0, fid_Volatile = replicate 8 0\<rparr>\<rparr>"

definition demo_ber :: ber where
  "demo_ber = \<lparr>br_Init = (\<lambda>_. None), br_Init2 = (\<lambda>_. None), br_Resp = (\<lambda>_. None)\<rparr>"

definition demo_door :: "bool \<Rightarrow> unit authenticator" where
  "demo_door open = \<lparr>au_oid = NlmpOid, au_challenge = (\<lambda>tok a. Some (Inr [], a)),
     au_authenticate = (\<lambda>tok a. Some (if open then Inr ''guest'' else Inl (), a)), au_sum = (\<lambda>b a. Some ([], a)), au_sessionKey = (\<lambda>a. Some [])\<rparr>"

definition demo_server :: "bool \<Rightarrow> (memory_share, unit) server" where
  "demo_server open = memory_server demo_config demo_ber id (replicate 16 0) (demo_door open) [''M'']"

definition demo_share :: "MemoryFS \<Rightarrow> memory_share" where
  "demo_share fs = \<lparr>ms_fs = fs, ms_stuck = (\<lambda>_. None), ms_gid = 1, ms_choices = (\<lambda>i. \<lparr>ch_now = 100, ch_rand = of_nat (10 + i), ch_order = id, ch_xorder = id\<rparr>)\<rparr>"

definition serve :: "bytes list \<Rightarrow> event list" where
  "serve ps = Connect (\<lambda>i. 5) # concat (map (\<lambda>p. [Frame 0 p, Next 0, Handle 0]) ps)"

definition negotiate_frame :: bytes where
  "negotiate_frame =
     [254, 83, 77, 66, 64, 0, 1, 0, 0, 0, 0, 0, 0, 0, 1, 0, 0, 0, 0, 0, 0, 0, 0, 0, 0, 0, 0, 0, 0,
     0, 0, 0, 0, 0, 0, 0, 0, 0, 0, 0, 0, 0, 0, 0, 0, 0, 0, 0, 0, 0, 0, 0, 0, 0, 0, 0, 0, 0, 0, 0, 0,
     0, 0, 0, 36, 0, 1, 0, 1, 0, 0, 0, 0, 0, 0, 0, 0, 0, 0, 0, 0, 0, 0, 0, 0, 0, 0, 0, 0, 0, 0, 0,
     0, 0, 0, 0, 0, 0, 0, 0, 16, 2]"

text \<open>SESSION_SETUP with a token that starts like one of NTLM.\<close>

definition setup_frame :: bytes where
  "setup_frame =
     [254, 83, 77, 66, 64, 0, 1, 0, 0, 0, 0, 0, 1, 0, 1, 0, 0, 0, 0, 0, 0, 0, 0, 0, 1, 0, 0, 0, 0,
     0, 0, 0, 0, 0, 0, 0, 0, 0, 0, 0, 0, 0, 0, 0, 0, 0, 0, 0, 0, 0, 0, 0, 0, 0, 0, 0, 0, 0, 0, 0, 0,
     0, 0, 0, 25, 0, 0, 1, 0, 0, 0, 0, 0, 0, 0, 0, 88, 0, 8, 0, 0, 0, 0, 0, 0, 0, 0, 0, 78, 84, 76,
     77, 83, 83, 80, 0]"

definition written :: "('fs, 'au) world option \<Rightarrow> nat list option" where
  "written x = map_option (\<lambda>w. map (\<lambda>c. length (cn_written (cl_conn c))) (w_clients w)) x"

section \<open>Properties\<close>

text \<open>C1. A server whose shares are one well formed \<open>MemoryFS\<close> in honeypot mode keeps its tree: after
  any run of the server, with any clients, authenticator and schedule, the names in it, which of
  them are directories, and the bytes stored in the files are those at the start. That is all \<open>view\<close> shows:
  modes, times, sizes, extended attributes and the mark of a symbolic link are not among it, and a client
  does change these in honeypot mode (\<open>SetAttr\<close>, \<open>Write\<close>, \<open>Removexattr\<close> and \<open>Symlink\<close> do not ask for it
  or change them all the same). A goroutine that \<open>Symlink\<close> or a lock it left behind blocks for good
  does not end the run.\<close>

theorem honeypot_server_unchanged:
  assumes "wf_fs (ms_fs share)" and "fs_discardWrites (ms_fs share)"
    and "server_runs (memory_server cfg b up guid a names) (initial_world share au clock) w"
  shows "view (ms_fs (w_fs w)) = view (ms_fs share)"
proof -
  have "honeypot_server.world_inv cfg b up guid a names (ms_fs share) (initial_world share au clock)"
    using assms(1,2) by (simp add: honeypot_server.world_inv_def initial_world_def honeypot_since_def frozen_refl spnego_of_def)
  from honeypot_server.world_runs [OF assms(3) this] have "frozen (ms_fs share) (ms_fs (w_fs w))"
    by (simp add: honeypot_server.world_inv_def honeypot_since_def)
  with assms(1) show ?thesis by (rule frozen_view)
qed


lemma demo_negotiates:
  "written (run_events (demo_server True) (serve [negotiate_frame])
     (initial_world (demo_share (SetDiscardWrites True (NewMemoryFS demo_env))) () (\<lambda>_. 0))) = Some [1]"
  by code_simp

theorem honeypot_server_unchanged_witness:
  "\<exists>w :: (memory_share, unit) world. written (Some w) = Some [1] \<and>
     view (ms_fs (w_fs w)) = view (ms_fs (demo_share (SetDiscardWrites True (NewMemoryFS demo_env))))"
proof -
  let ?s = "demo_share (SetDiscardWrites True (NewMemoryFS demo_env))"
  obtain w where w: "run_events (demo_server True) (serve [negotiate_frame]) (initial_world ?s () (\<lambda>_. 0)) = Some w"
    and n: "written (Some w) = Some [1]"
    using demo_negotiates by (auto simp: written_def)
  have "wf_fs (ms_fs ?s)" "fs_discardWrites (ms_fs ?s)"
    using discard_wf [OF NewMemoryFS_wf] by (simp_all add: demo_share_def SetDiscardWrites_def)
  from honeypot_server_unchanged [OF this run_events_runs [OF w [unfolded demo_server_def]]] n show ?thesis by blast
qed

text \<open>C5. As long as the authenticator accepts nobody, no connection has a session
  and no method of a share is ever called, whatever the clients send: the shares' state is at most
  rescheduled, so any property of it that only depends on the methods still holds.\<close>

theorem unauthenticated_untouched:
  assumes refuse: "\<And>tok au u au'. au_authenticate (sf_authenticator sf) tok au \<noteq> Some (Inr u, au')"
    and schedule: "\<And>name V g fs. sf_shares sf name = Some V \<Longrightarrow> P fs \<Longrightarrow> P (v_Goroutine V g fs)"
    and "P fs" and runs: "server_runs sf (initial_world fs au clock) w"
  shows "P (w_fs w) \<and> (\<forall>c \<in> set (w_clients w). cn_session (cl_conn c) = None)"
proof -
  have s: "server_keeps sf P (\<lambda>se. se = None) (\<lambda>t. tc_session (getTree t) = None) (\<lambda>_. True)"
    by unfold_locales (use refuse schedule in auto)
  have "server_keeps.world_inv sf P (\<lambda>se. se = None) (\<lambda>t. tc_session (getTree t) = None) (\<lambda>_. True) (initial_world fs au clock)"
    using assms(3) by (simp add: server_keeps.world_inv_def [OF s] initial_world_def spnego_of_def)
  from server_keeps.world_runs [OF s runs this] show ?thesis
    by (auto simp: server_keeps.world_inv_def [OF s] server_keeps.client_inv_def [OF s] list_all_iff)
qed

lemma demo_refused:
  "written (run_events (demo_server False) (serve [negotiate_frame, setup_frame, setup_frame])
     (initial_world (demo_share (NewMemoryFS demo_env)) () (\<lambda>_. 0))) = Some [3]"
  by code_simp

theorem unauthenticated_untouched_witness:
  "\<exists>w :: (memory_share, unit) world. written (Some w) = Some [3] \<and> ms_fs (w_fs w) = NewMemoryFS demo_env \<and>
     (\<forall>c \<in> set (w_clients w). cn_session (cl_conn c) = None)"
proof -
  let ?s = "demo_share (NewMemoryFS demo_env)"
  obtain w where w: "run_events (demo_server False) (serve [negotiate_frame, setup_frame, setup_frame])
      (initial_world ?s () (\<lambda>_. 0)) = Some w" and n: "written (Some w) = Some [3]"
    using demo_refused by (auto simp: written_def)
  have a: "au_authenticate (sf_authenticator (demo_server False)) tok au \<noteq> Some (Inr u, au')" for tok au u au'
    by (simp add: demo_server_def memory_server_def NewServer_def demo_door_def)
  have g: "ms_fs (v_Goroutine V g s) = NewMemoryFS demo_env"
    if "sf_shares (demo_server False) name = Some V" and "ms_fs s = NewMemoryFS demo_env" for name V g s
    using that by (auto simp: demo_server_def memory_vfs_def dest!: memory_server_shares)
  have "ms_fs (w_fs w) = NewMemoryFS demo_env \<and> (\<forall>c \<in> set (w_clients w). cn_session (cl_conn c) = None)"
  proof (rule unauthenticated_untouched [where P = "\<lambda>s. ms_fs s = NewMemoryFS demo_env"])
    show "ms_fs ?s = NewMemoryFS demo_env" by (simp add: demo_share_def)
    show "server_runs (demo_server False) (initial_world ?s () (\<lambda>_. 0)) w" by (rule run_events_runs [OF w])
  qed (rule a g; assumption)+
  with n show ?thesis by blast
qed

end
