(* ===== verification/Ntlm.thy ===== *)
theory Ntlm
  imports GoStrings
begin

text \<open>
  The common part of NTLMv2 (src/internal/ntlm/ntlm.go) and its sessions (session.go): attribute
  pairs, the response to a challenge, keys, the signature of a message, signing and sealing. The
  hash functions, the checksum and the key stream of RC4 are parameters. A call that may panic
  returns an option.
\<close>

section \<open>Constants\<close>

definition NtLmNegotiate :: u32 where "NtLmNegotiate = 1"
definition NtLmChallenge :: u32 where "NtLmChallenge = 2"
definition NtLmAuthenticate :: u32 where "NtLmAuthenticate = 3"
definition NTLMSSP_NEGOTIATE_UNICODE :: u32 where "NTLMSSP_NEGOTIATE_UNICODE = 0x1"
definition NTLMSSP_REQUEST_TARGET :: u32 where "NTLMSSP_REQUEST_TARGET = 0x4"
definition NTLMSSP_NEGOTIATE_SIGN :: u32 where "NTLMSSP_NEGOTIATE_SIGN = 0x10"
definition NTLMSSP_NEGOTIATE_SEAL :: u32 where "NTLMSSP_NEGOTIATE_SEAL = 0x20"
definition NTLMSSP_NEGOTIATE_DATAGRAM :: u32 where "NTLMSSP_NEGOTIATE_DATAGRAM = 0x40"
definition NTLMSSP_NEGOTIATE_LM_KEY :: u32 where "NTLMSSP_NEGOTIATE_LM_KEY = 0x80"
definition NTLMSSP_NEGOTIATE_NTLM :: u32 where "NTLMSSP_NEGOTIATE_NTLM = 0x200"
definition NTLMSSP_NEGOTIATE_ALWAYS_SIGN :: u32 where "NTLMSSP_NEGOTIATE_ALWAYS_SIGN = 0x8000"
definition NTLMSSP_NEGOTIATE_EXTENDED_SESSIONSECURITY :: u32 where "NTLMSSP_NEGOTIATE_EXTENDED_SESSIONSECURITY = 0x80000"
definition NTLMSSP_NEGOTIATE_TARGET_INFO :: u32 where "NTLMSSP_NEGOTIATE_TARGET_INFO = 0x800000"
definition NTLMSSP_NEGOTIATE_VERSION :: u32 where "NTLMSSP_NEGOTIATE_VERSION = 0x2000000"
definition NTLMSSP_NEGOTIATE_128 :: u32 where "NTLMSSP_NEGOTIATE_128 = 0x20000000"
definition NTLMSSP_NEGOTIATE_KEY_EXCH :: u32 where "NTLMSSP_NEGOTIATE_KEY_EXCH = 0x40000000"
definition NTLMSSP_NEGOTIATE_56 :: u32 where "NTLMSSP_NEGOTIATE_56 = 0x80000000"
definition MsvAvEOL :: u16 where "MsvAvEOL = 0"
definition MsvAvNbComputerName :: u16 where "MsvAvNbComputerName = 1"
definition MsvAvNbDomainName :: u16 where "MsvAvNbDomainName = 2"
definition MsvAvDnsComputerName :: u16 where "MsvAvDnsComputerName = 3"
definition MsvAvDnsDomainName :: u16 where "MsvAvDnsDomainName = 4"
definition MsvAvFlags :: u16 where "MsvAvFlags = 6"
definition MsvAvTimestamp :: u16 where "MsvAvTimestamp = 7"
definition MsvAvTargetName :: u16 where "MsvAvTargetName = 9"
definition MsvAvChannelBindings :: u16 where "MsvAvChannelBindings = 10"

definition defaultFlags :: u32 where
  "defaultFlags = NTLMSSP_NEGOTIATE_56 OR NTLMSSP_NEGOTIATE_KEY_EXCH OR NTLMSSP_NEGOTIATE_128 OR
     NTLMSSP_NEGOTIATE_TARGET_INFO OR NTLMSSP_NEGOTIATE_EXTENDED_SESSIONSECURITY OR
     NTLMSSP_NEGOTIATE_ALWAYS_SIGN OR NTLMSSP_NEGOTIATE_NTLM OR NTLMSSP_NEGOTIATE_SIGN OR
     NTLMSSP_REQUEST_TARGET OR NTLMSSP_NEGOTIATE_UNICODE OR NTLMSSP_NEGOTIATE_VERSION"

definition ntlm_signature :: bytes where "ntlm_signature = map of_char ''NTLMSSP'' @ [0]"
definition ntlm_version :: bytes where "ntlm_version = [0x0a, 0, 0, 0, 0, 0, 0, 0x0f]"

definition has_flag :: "u32 \<Rightarrow> u32 \<Rightarrow> bool" where
  "has_flag flags f \<longleftrightarrow> flags AND f \<noteq> 0"

datatype ntlm_error =
    MessageTooShort | InvalidSignature | InvalidMessageType | InvalidFlags | InvalidFormat
  | NoSuchUser | LoginFailure | CredentialEmpty | KeySizeError

section \<open>The libraries\<close>

text \<open>Hashes, RC4, and \<open>strings.ToUpper\<close> with its tables.\<close>

record ntlm_lib =
  nc_md4 :: "bytes \<Rightarrow> bytes"
  nc_md5 :: "bytes \<Rightarrow> bytes"
  nc_hmac :: "bytes \<Rightarrow> bytes \<Rightarrow> bytes"
  nc_crc32 :: "bytes \<Rightarrow> u32"
  nc_rc4 :: "bytes \<Rightarrow> nat \<Rightarrow> u8"
  nc_toUpper :: "string \<Rightarrow> string"

text \<open>An RC4 cipher: its key and how far its key stream has been used.\<close>

record rc4 =
  rc_key :: bytes
  rc_pos :: nat

definition NewCipher :: "bytes \<Rightarrow> ntlm_error + rc4" where
  "NewCipher key = (if length key < 1 \<or> 256 < length key then Inl KeySizeError else Inr \<lparr>rc_key = key, rc_pos = 0\<rparr>)"

definition XORKeyStream :: "ntlm_lib \<Rightarrow> bytes \<Rightarrow> rc4 \<Rightarrow> bytes \<times> rc4" where
  "XORKeyStream nc src c =
     (map (\<lambda>(i, b). b XOR nc_rc4 nc (rc_key c) (rc_pos c + i)) (enumerate 0 src),
      c\<lparr>rc_pos := rc_pos c + length src\<rparr>)"

definition ntowfv2Hash :: "ntlm_lib \<Rightarrow> bytes \<Rightarrow> bytes \<Rightarrow> bytes \<Rightarrow> bytes" where
  "ntowfv2Hash nc USER h dm = nc_hmac nc h (USER @ dm)"

definition ntowfv2 :: "ntlm_lib \<Rightarrow> bytes \<Rightarrow> bytes \<Rightarrow> bytes \<Rightarrow> bytes" where
  "ntowfv2 nc USER password dm = ntowfv2Hash nc USER (nc_md4 nc password) dm"

section \<open>Attribute pairs\<close>

type_synonym av_map = "u16 \<Rightarrow> (nat \<times> nat) option"

text \<open>\<open>parseAvPairs\<close> maps an id to its last value, a part of the parsed block: where it starts and
  how long it is.\<close>

function av_pairs :: "nat \<Rightarrow> bytes \<Rightarrow> av_map \<Rightarrow> av_map option" where
  "av_pairs off bs m =
     (if bs = [] then Some m
      else if length bs < 4 then None
      else (let n = le_nat (window 2 2 bs)
            in if length bs < 4 + n then None
               else av_pairs (off + 4 + n) (drop (4 + n) bs) (m(of_nat (le_nat (take 2 bs)) \<mapsto> (off + 4, n)))))"
  by pat_completeness auto
termination
  by (relation "measure (\<lambda>(off, bs, m). length bs)") auto

declare av_pairs.simps [simp del]

definition parseAvPairs :: "bytes \<Rightarrow> av_map option" where
  "parseAvPairs bs =
     (if length bs < 4 \<or> drop (length bs - 4) bs \<noteq> replicate 4 0 then None else av_pairs 0 bs Map.empty)"

definition av_value :: "bytes \<Rightarrow> nat \<times> nat \<Rightarrow> bytes" where
  "av_value bs v = window (fst v) (snd v) bs"

text \<open>\<open>TargetInfo\<close> of a challenge.\<close>

type_synonym TargetInfo = "(u16 \<times> bytes) list"

definition TargetInfo_Size :: "TargetInfo \<Rightarrow> nat" where
  "TargetInfo_Size t = (\<Sum>p\<leftarrow>t. 4 + length (snd p))"

fun put_pairs :: "nat \<Rightarrow> TargetInfo \<Rightarrow> bytes \<Rightarrow> bytes option" where
  "put_pairs off [] dst = Some dst"
| "put_pairs off ((i, v) # t) dst =
     do { dst \<leftarrow> put16 off i dst;
          dst \<leftarrow> put16 (off + 2) (of_nat (length v)) dst;
          dst \<leftarrow> copy_from (off + 4) v dst;
          put_pairs (off + 4 + min (length v) (length dst - (off + 4))) t dst }"

definition TargetInfo_Encode :: "TargetInfo \<Rightarrow> bytes \<Rightarrow> bytes option" where
  "TargetInfo_Encode t = put_pairs 0 t"

text \<open>The client's version of the server's block, with the flag that says there is a MIC, empty
  channel bindings and the name of the target.\<close>

record targetInfoEncoder =
  te_Info :: bytes
  te_SPN :: bytes
  te_InfoMap :: av_map

definition newTargetInfoEncoder :: "bytes \<Rightarrow> bytes \<Rightarrow> targetInfoEncoder option" where
  "newTargetInfoEncoder info spn =
     map_option (\<lambda>m. \<lparr>te_Info = info, te_SPN = spn, te_InfoMap = m\<rparr>) (parseAvPairs info)"

definition targetInfoEncoder_size :: "targetInfoEncoder \<Rightarrow> nat" where
  "targetInfoEncoder_size i =
     length (te_Info i) + (if te_InfoMap i MsvAvFlags = None then 8 else 0) + 20 +
     (if te_SPN i \<noteq> [] then 4 + length (te_SPN i) else 0)"

text \<open>Flags that are there are changed in place, in the received message.\<close>

definition with_mic_flag :: "targetInfoEncoder \<Rightarrow> targetInfoEncoder option" where
  "with_mic_flag i =
     (case te_InfoMap i MsvAvFlags of
        None \<Rightarrow> Some i
      | Some (off, n) \<Rightarrow>
          if n < 4 then None
          else Some (i\<lparr>te_Info := copy_at off (le_bytes 4 (unat ((of_nat (le_nat (window off 4 (te_Info i))) :: u32) OR 2))) (te_Info i)\<rparr>))"

definition targetInfoEncoder_encode :: "targetInfoEncoder \<Rightarrow> bytes \<Rightarrow> bytes option" where
  "targetInfoEncoder_encode i dst =
     do { i \<leftarrow> with_mic_flag i;
          let info = take (length (te_Info i) - 4) (te_Info i);
          let dst = copy_at 0 info dst;
          let off = min (length info) (length dst);
          dst \<leftarrow> (if te_InfoMap i MsvAvFlags \<noteq> None then Some dst
                  else seqw [put16 off MsvAvFlags, put16 (off + 2) 4, put32 (off + 4) 2] dst);
          let off = (if te_InfoMap i MsvAvFlags \<noteq> None then off else off + 8);
          dst \<leftarrow> seqw [put16 off MsvAvChannelBindings, put16 (off + 2) 16] dst;
          let off = off + 20;
          dst \<leftarrow> (if te_SPN i = [] then Some dst
                  else seqw [put16 off MsvAvTargetName, put16 (off + 2) (of_nat (length (te_SPN i))),
                    copy_from (off + 4) (te_SPN i)] dst);
          let off = (if te_SPN i = [] then off else off + 4 + length (te_SPN i));
          seqw [put16 off MsvAvEOL, put16 (off + 2) 0] dst }"

section \<open>The response to a challenge\<close>

text \<open>\<open>key\<close> is the key of the HMAC that the caller passes; \<open>info\<close> writes the attribute pairs.\<close>

definition encodeNtlmv2Response ::
  "ntlm_lib \<Rightarrow> bytes \<Rightarrow> bytes \<Rightarrow> bytes \<Rightarrow> bytes \<Rightarrow> (bytes \<Rightarrow> bytes option) \<Rightarrow> bytes \<Rightarrow> bytes option" where
  "encodeNtlmv2Response nc key serverChallenge clientChallenge timeStamp info dst =
     do { dst \<leftarrow> at_off 16 (\<lambda>c. do {
            c \<leftarrow> put8 0 1 c; c \<leftarrow> put8 1 1 c;
            c \<leftarrow> at_range 8 16 (copy_from 0 timeStamp) c;
            c \<leftarrow> at_range 16 24 (copy_from 0 clientChallenge) c;
            at_off 28 info c }) dst;
          Some (copy_at 0 (nc_hmac nc key (serverChallenge @ drop 16 dst)) dst) }"

section \<open>Keys\<close>

definition signKey :: "ntlm_lib \<Rightarrow> u32 \<Rightarrow> bytes \<Rightarrow> bool \<Rightarrow> bytes" where
  "signKey nc flags key fromClient =
     (if has_flag flags NTLMSSP_NEGOTIATE_EXTENDED_SESSIONSECURITY
      then nc_md5 nc (key @ (if fromClient
        then map of_char ''session key to client-to-server signing key magic constant'' @ [0]
        else map of_char ''session key to server-to-client signing key magic constant'' @ [0]))
      else [])"

text \<open>A slice of the key beyond its end panics.\<close>

definition key_part :: "nat \<Rightarrow> bytes \<Rightarrow> bytes option" where
  "key_part n key = (if length key < n then None else Some (take n key))"

definition sealKey :: "ntlm_lib \<Rightarrow> u32 \<Rightarrow> bytes \<Rightarrow> bool \<Rightarrow> bytes option" where
  "sealKey nc flags key fromClient =
     (if has_flag flags NTLMSSP_NEGOTIATE_EXTENDED_SESSIONSECURITY
      then do { part \<leftarrow> (if has_flag flags NTLMSSP_NEGOTIATE_128 then Some key
                         else if has_flag flags NTLMSSP_NEGOTIATE_56 then key_part 7 key else key_part 5 key);
                Some (nc_md5 nc (part @ (if fromClient
                  then map of_char ''session key to client-to-server sealing key magic constant'' @ [0]
                  else map of_char ''session key to server-to-client sealing key magic constant'' @ [0]))) }
      else if has_flag flags NTLMSSP_NEGOTIATE_LM_KEY
      then (if has_flag flags NTLMSSP_NEGOTIATE_56
            then map_option (\<lambda>k. k @ [0xa0]) (key_part 7 key)
            else map_option (\<lambda>k. k @ [0xe5, 0x38, 0xb0]) (key_part 5 key))
      else Some key)"

section \<open>Signatures\<close>

text \<open>The first 16 bytes of a signed message, over \<open>tag\<close>, what was there before; a nil cipher
  panics when its key stream is needed.\<close>

definition mac_plain :: "ntlm_lib \<Rightarrow> u32 \<Rightarrow> rc4 \<Rightarrow> u32 \<Rightarrow> bytes \<Rightarrow> bytes \<Rightarrow> bytes \<times> u32 \<times> rc4" where
  "mac_plain nc flags c seqNum msg tag =
     (let (_, c) = XORKeyStream nc (window 4 4 tag) c;
          (crc, c) = XORKeyStream nc (le_bytes 4 (unat (nc_crc32 nc msg))) c;
          (num, c) = XORKeyStream nc (window 12 4 tag) c
      in ([1, 0, 0, 0, 0, 0, 0, 0] @ crc @ map2 (XOR) num (le_bytes 4 (unat seqNum)),
          if has_flag flags NTLMSSP_NEGOTIATE_DATAGRAM then seqNum else seqNum + 1, c))"

definition ntlm_mac ::
  "ntlm_lib \<Rightarrow> u32 \<Rightarrow> rc4 option \<Rightarrow> bytes \<Rightarrow> u32 \<Rightarrow> bytes \<Rightarrow> bytes \<Rightarrow> (bytes \<times> u32 \<times> rc4 option) option" where
  "ntlm_mac nc flags handle signingKey seqNum msg tag =
     (if \<not> has_flag flags NTLMSSP_NEGOTIATE_EXTENDED_SESSIONSECURITY
      then map_option (\<lambda>c. let (t, n, c) = mac_plain nc flags c seqNum msg tag in (t, n, Some c)) handle
      else (let num = le_bytes 4 (unat seqNum);
                digest = take 8 (nc_hmac nc signingKey (num @ msg))
            in if has_flag flags NTLMSSP_NEGOTIATE_KEY_EXCH
               then map_option (\<lambda>c. let (s, c) = XORKeyStream nc (copy_at 0 digest (window 4 8 tag)) c
                                    in ([1, 0, 0, 0] @ s @ num, seqNum + 1, Some c)) handle
               else Some ([1, 0, 0, 0] @ copy_at 0 digest (window 4 8 tag) @ num, seqNum + 1, handle)))"

section \<open>Sessions\<close>

record ntlm_session =
  ns_isClientSide :: bool
  ns_user :: string
  ns_negotiateFlags :: u32
  ns_exportedSessionKey :: bytes
  ns_clientSigningKey :: bytes
  ns_serverSigningKey :: bytes
  ns_clientHandle :: "rc4 option"
  ns_serverHandle :: "rc4 option"
  ns_infoMap :: "u16 \<Rightarrow> bytes option"

record InfoMap =
  im_NbComputerName :: "rune list"
  im_NbDomainName :: "rune list"
  im_DnsComputerName :: "rune list"
  im_DnsDomainName :: "rune list"
  im_DnsTreeName :: "rune list"

definition Session_InfoMap :: "ntlm_session \<Rightarrow> InfoMap" where
  "Session_InfoMap s =
     (let value = (\<lambda>i. DecodeToString (case ns_infoMap s i of None \<Rightarrow> [] | Some v \<Rightarrow> v))
      in \<lparr>im_NbComputerName = value 1, im_NbDomainName = value 2, im_DnsComputerName = value 3,
          im_DnsDomainName = value 4, im_DnsTreeName = value 5\<rparr>)"

text \<open>The signature under the keys of one direction, whose cipher moves on.\<close>

definition mac_towards ::
  "ntlm_lib \<Rightarrow> bool \<Rightarrow> u32 \<Rightarrow> bytes \<Rightarrow> bytes \<Rightarrow> ntlm_session \<Rightarrow> ((bytes \<times> u32) \<times> ntlm_session) option" where
  "mac_towards nc fromClient seqNum msg tag s =
     (if fromClient
      then do { (t, n, h) \<leftarrow> ntlm_mac nc (ns_negotiateFlags s) (ns_clientHandle s) (ns_clientSigningKey s) seqNum msg tag;
                Some ((t, n), s\<lparr>ns_clientHandle := h\<rparr>) }
      else do { (t, n, h) \<leftarrow> ntlm_mac nc (ns_negotiateFlags s) (ns_serverHandle s) (ns_serverSigningKey s) seqNum msg tag;
                Some ((t, n), s\<lparr>ns_serverHandle := h\<rparr>) })"

text \<open>\<open>None\<close> inside is a nil signature.\<close>

definition Session_Sum ::
  "ntlm_lib \<Rightarrow> bytes \<Rightarrow> u32 \<Rightarrow> ntlm_session \<Rightarrow> ((bytes option \<times> u32) \<times> ntlm_session) option" where
  "Session_Sum nc plaintext seqNum s =
     (if \<not> has_flag (ns_negotiateFlags s) NTLMSSP_NEGOTIATE_SIGN then Some ((None, 0), s)
      else do { ((t, n), s) \<leftarrow> mac_towards nc (ns_isClientSide s) seqNum plaintext (replicate 16 0) s;
                Some ((Some t, n), s) })"

definition Session_CheckSum ::
  "ntlm_lib \<Rightarrow> bytes option \<Rightarrow> bytes \<Rightarrow> u32 \<Rightarrow> ntlm_session \<Rightarrow> ((bool \<times> u32) \<times> ntlm_session) option" where
  "Session_CheckSum nc sm plaintext seqNum s =
     (if \<not> has_flag (ns_negotiateFlags s) NTLMSSP_NEGOTIATE_SIGN then Some ((sm = None, 0), s)
      else do { ((t, n), s) \<leftarrow> mac_towards nc (\<not> ns_isClientSide s) seqNum plaintext (replicate 16 0) s;
                Some (if (case sm of None \<Rightarrow> [] | Some x \<Rightarrow> x) = t then ((True, n), s) else ((False, 0), s)) })"

text \<open>What a handle's key stream makes of a text, for \<open>Seal\<close> the client's and for \<open>Unseal\<close> the server's,
  whichever side the session is on.\<close>

definition stream_on :: "ntlm_lib \<Rightarrow> bool \<Rightarrow> bytes \<Rightarrow> ntlm_session \<Rightarrow> (bytes \<times> ntlm_session) option" where
  "stream_on nc clientHandle src s =
     (if clientHandle
      then map_option (\<lambda>c. let (b, c) = XORKeyStream nc src c in (b, s\<lparr>ns_clientHandle := Some c\<rparr>)) (ns_clientHandle s)
      else map_option (\<lambda>c. let (b, c) = XORKeyStream nc src c in (b, s\<lparr>ns_serverHandle := Some c\<rparr>)) (ns_serverHandle s))"

text \<open>\<open>old\<close> is what the appended part of \<open>dst\<close> holds before, zeros when it was allocated.\<close>

definition Session_Seal ::
  "ntlm_lib \<Rightarrow> bytes \<Rightarrow> bytes \<Rightarrow> u32 \<Rightarrow> ntlm_session \<Rightarrow> ((bytes \<times> u32) \<times> ntlm_session) option" where
  "Session_Seal nc old plaintext seqNum s =
     (if has_flag (ns_negotiateFlags s) NTLMSSP_NEGOTIATE_SEAL
      then do { (c, s) \<leftarrow> stream_on nc True plaintext s;
                ((t, n), s) \<leftarrow> mac_towards nc (ns_isClientSide s) seqNum plaintext (take 16 old) s;
                Some ((t @ c, n), s) }
      else if has_flag (ns_negotiateFlags s) NTLMSSP_NEGOTIATE_SIGN
      then do { ((t, n), s) \<leftarrow> mac_towards nc (ns_isClientSide s) seqNum plaintext (take 16 old) s;
                Some ((t @ plaintext, n), s) }
      else Some ((old, seqNum), s))"

definition Session_Unseal ::
  "ntlm_lib \<Rightarrow> bytes \<Rightarrow> u32 \<Rightarrow> ntlm_session \<Rightarrow> ((ntlm_error + bytes \<times> u32) \<times> ntlm_session) option" where
  "Session_Unseal nc ciphertext seqNum s =
     (if length ciphertext < 16 then None
      else if has_flag (ns_negotiateFlags s) NTLMSSP_NEGOTIATE_SEAL
      then do { (p, s) \<leftarrow> stream_on nc False (drop 16 ciphertext) s;
                ((t, n), s) \<leftarrow> mac_towards nc (\<not> ns_isClientSide s) seqNum p (replicate 16 0) s;
                Some (if take 16 ciphertext \<noteq> t then Inl LoginFailure else Inr (p, n), s) }
      else if has_flag (ns_negotiateFlags s) NTLMSSP_NEGOTIATE_SIGN
      then do { ((t, n), s) \<leftarrow> mac_towards nc (\<not> ns_isClientSide s) seqNum (drop 16 ciphertext) (replicate 16 0) s;
                Some (if take 16 ciphertext \<noteq> t then Inl LoginFailure else Inr (drop 16 ciphertext, n), s) }
      else if take 16 ciphertext \<noteq> replicate 16 0 then Some (Inl LoginFailure, s)
      else Some (Inr (drop 16 ciphertext, seqNum), s))"

end
