(* ===== verification/NtlmMessages.thy ===== *)
theory NtlmMessages
  imports Ntlm Spnego
begin

text \<open>
  The three messages of NTLMv2: the server's side (src/internal/ntlm/server.go), the client's
  (client.go), and the authenticator of src/server/authenticator.go around a server. The clock
  and the random bytes are arguments.
\<close>

definition encode_go :: "string \<Rightarrow> bytes" where
  "encode_go s = EncodeStringToBytes (go_runes s)"

text \<open>A message's field: length, maximal length and offset at \<open>p\<close>. Offset plus length is a sum of
  32 bits, and the slice may reach to the capacity.\<close>

definition msg_field :: "nat \<Rightarrow> slice \<Rightarrow> (ntlm_error + slice) option" where
  "msg_field p m =
     do { len \<leftarrow> get16 p m; mx \<leftarrow> get16 (p + 2) m;
          if mx < len then Some (Inl InvalidFormat)
          else do { off \<leftarrow> get32 (p + 4) m;
                    if slen m < unat (off + ucast len) then Some (Inl InvalidFormat)
                    else map_option Inr (ssub (unat off) (unat (off + ucast len)) m) } }"

definition or_error :: "('e + 'a) option \<Rightarrow> ('a \<Rightarrow> ('e + 'b) option) \<Rightarrow> ('e + 'b) option" where
  "or_error r k = (case r of None \<Rightarrow> None | Some (Inl e) \<Rightarrow> Some (Inl e) | Some (Inr x) \<Rightarrow> k x)"

text \<open>The keys of a session from the exported one.\<close>

definition make_session ::
  "ntlm_lib \<Rightarrow> bool \<Rightarrow> string \<Rightarrow> u32 \<Rightarrow> bytes \<Rightarrow> (u16 \<Rightarrow> bytes option) \<Rightarrow> (ntlm_error + ntlm_session) option" where
  "make_session nc isClient user flags key info =
     do { ck \<leftarrow> sealKey nc flags key True;
          sk \<leftarrow> sealKey nc flags key False;
          Some (case (NewCipher ck, NewCipher sk) of
              (Inl e, _) \<Rightarrow> Inl e | (_, Inl e) \<Rightarrow> Inl e
            | (Inr ch, Inr sh) \<Rightarrow> Inr \<lparr>ns_isClientSide = isClient, ns_user = user, ns_negotiateFlags = flags,
                ns_exportedSessionKey = key, ns_clientSigningKey = signKey nc flags key True,
                ns_serverSigningKey = signKey nc flags key False, ns_clientHandle = Some ch,
                ns_serverHandle = Some sh, ns_infoMap = info\<rparr>) }"

section \<open>The server\<close>

record ntlm_server =
  sn_targetName :: string
  sn_nbName :: string
  sn_nbDomain :: string
  sn_dnsDomain :: string
  sn_dnsName :: string
  sn_accounts :: "string \<Rightarrow> string option"
  sn_allowGuest :: bool
  sn_nmsg :: bytes
  sn_cmsg :: bytes
  sn_session :: "ntlm_session option"

definition ntlm_NewServer :: "string \<Rightarrow> string \<Rightarrow> string \<Rightarrow> string \<Rightarrow> string \<Rightarrow> ntlm_server" where
  "ntlm_NewServer targetName nbName nbDomain dnsName dnsDomain =
     \<lparr>sn_targetName = targetName, sn_nbName = nbName, sn_nbDomain = nbDomain, sn_dnsDomain = dnsDomain,
      sn_dnsName = dnsName, sn_accounts = Map.empty, sn_allowGuest = False, sn_nmsg = [], sn_cmsg = [],
      sn_session = None\<rparr>"

definition AddAccount :: "string \<Rightarrow> string \<Rightarrow> ntlm_server \<Rightarrow> ntlm_server" where
  "AddAccount user password s = s\<lparr>sn_accounts := (sn_accounts s)(user \<mapsto> password)\<rparr>"

definition AllowGuest :: "ntlm_server \<Rightarrow> ntlm_server" where
  "AllowGuest s = s\<lparr>sn_allowGuest := True\<rparr>"

definition av_name :: "u16 \<Rightarrow> string \<Rightarrow> TargetInfo" where
  "av_name i s = (if s = [] then [] else [(i, encode_go s)])"

definition server_info :: "int \<Rightarrow> ntlm_server \<Rightarrow> TargetInfo" where
  "server_info now s =
     (let t = NsecToFiletime now
      in [(MsvAvTimestamp, le_bytes 4 (unat (ft_LowDateTime t)) @ le_bytes 4 (unat (ft_HighDateTime t)))] @
         av_name MsvAvDnsComputerName (sn_dnsName s) @ av_name MsvAvDnsDomainName (sn_dnsDomain s) @
         av_name MsvAvNbComputerName (sn_nbName s) @ av_name MsvAvNbDomainName (sn_nbDomain s) @ [(MsvAvEOL, [])])"

text \<open>The challenge for flags that are already restricted. When there is a target name, the target
  info is written that much further back than the room left for it, over the name.\<close>

definition challenge_message :: "u32 \<Rightarrow> TargetInfo \<Rightarrow> bytes \<Rightarrow> bytes \<Rightarrow> bytes option" where
  "challenge_message flags ti tn rnd =
     (let off = 48 + TargetInfo_Size ti + (if has_flag flags NTLMSSP_NEGOTIATE_VERSION then 8 else 0);
          named = tn \<noteq> [] \<and> has_flag flags NTLMSSP_REQUEST_TARGET;
          off2 = off + (if named then length tn else 0) - TargetInfo_Size ti
      in do { m \<leftarrow> seqw [put 0 ntlm_signature, put32 8 NtLmChallenge, put32 20 flags] (replicate (off + length tn + 4) 0);
              m \<leftarrow> (if named then seqw [copy_from off tn, put16 12 (of_nat (length tn)), put16 14 (of_nat (length tn)),
                       put32 16 (of_nat off)] m else Some m);
              m \<leftarrow> seqw [at_off off2 (TargetInfo_Encode ti), put16 40 (of_nat (TargetInfo_Size ti)),
                     put16 42 (of_nat (TargetInfo_Size ti)), put32 44 (of_nat off2)] m;
              m \<leftarrow> put 24 rnd m;
              if has_flag flags NTLMSSP_NEGOTIATE_VERSION then put 48 ntlm_version m else Some m })"

text \<open>\<open>rnd\<close> are the eight bytes of the challenge.\<close>

definition Server_Challenge ::
  "int \<Rightarrow> bytes \<Rightarrow> slice \<Rightarrow> ntlm_server \<Rightarrow> ((ntlm_error + bytes) \<times> ntlm_server) option" where
  "Server_Challenge now rnd nmsg s =
     (let s = s\<lparr>sn_nmsg := sbytes nmsg\<rparr>
      in if slen nmsg < 32 then Some (Inl MessageTooShort, s)
         else if take 8 (sbytes nmsg) \<noteq> ntlm_signature then Some (Inl InvalidSignature, s)
         else do { ty \<leftarrow> get32 8 nmsg;
                   if ty \<noteq> NtLmNegotiate then Some (Inl InvalidMessageType, s)
                   else do { fl \<leftarrow> get32 12 nmsg;
                             m \<leftarrow> challenge_message (fl AND defaultFlags OR NTLMSSP_NEGOTIATE_TARGET_INFO)
                               (server_info now s) (encode_go (sn_targetName s)) rnd;
                             Some (Inr m, s\<lparr>sn_cmsg := m\<rparr>) } })"

text \<open>Whether the message integrity code is right, or was not asked for. It is zeroed in place,
  beyond the end of a short message up to its capacity.\<close>

definition check_mic :: "ntlm_lib \<Rightarrow> u32 \<Rightarrow> bytes \<Rightarrow> slice \<Rightarrow> slice \<Rightarrow> ntlm_server \<Rightarrow> bool option" where
  "check_mic nc flags key info amsg s =
     (case parseAvPairs (sbytes info) of
        None \<Rightarrow> Some True
      | Some m \<Rightarrow> (case m MsvAvFlags of
          None \<Rightarrow> Some True
        | Some (off, n) \<Rightarrow>
            if n < 4 then None
            else if \<not> has_flag (of_nat (le_nat (window off 4 (sbytes info)))) 2 then Some True
            else (let p = (if has_flag flags NTLMSSP_NEGOTIATE_VERSION then 72 else 64)
                  in do { MIC \<leftarrow> ssub p (p + 16) amsg;
                          let zeroed = Slice (copy_at p (replicate 16 0) (sl_arr amsg)) (slen amsg);
                          Some (sbytes MIC = nc_hmac nc key (sn_nmsg s @ sn_cmsg s @ sbytes zeroed)) })))"

text \<open>The exported key: under key exchange the client's, at most 16 bytes.\<close>

definition exported_key :: "ntlm_lib \<Rightarrow> u32 \<Rightarrow> bytes \<Rightarrow> bytes \<Rightarrow> (ntlm_error + bytes) option" where
  "exported_key nc flags base encrypted =
     (if has_flag flags NTLMSSP_NEGOTIATE_KEY_EXCH
      then (case NewCipher base of
              Inl e \<Rightarrow> Some (Inl e)
            | Inr c \<Rightarrow> if 16 < length encrypted then None
                       else Some (Inr (copy_at 0 (fst (XORKeyStream nc encrypted c)) (replicate 16 0))))
      else Some (Inr base))"

text \<open>A login with a user name: \<open>nt\<close> is the response to the challenge. A user without an account has
  an empty password where guests are allowed.\<close>

definition login ::
  "ntlm_lib \<Rightarrow> u32 \<Rightarrow> slice \<Rightarrow> slice \<Rightarrow> bytes \<Rightarrow> bytes \<Rightarrow> bytes \<Rightarrow> ntlm_server \<Rightarrow> (ntlm_error + ntlm_session) option" where
  "login nc flags amsg nt domain userName encrypted s =
     (let user = go_string (DecodeToString userName)
      in if sn_accounts s user = None \<and> \<not> sn_allowGuest s then Some (Inl NoSuchUser)
         else do { challenge \<leftarrow> sfrom 16 nt;
                   let password = (case sn_accounts s user of None \<Rightarrow> '''' | Some p \<Rightarrow> p);
                   let key = ntowfv2 nc (encode_go (nc_toUpper nc user)) (encode_go password) domain;
                   serverChallenge \<leftarrow> ssub 24 32 (of_bytes (sn_cmsg s));
                   timeStamp \<leftarrow> ssub 8 16 challenge;
                   clientChallenge \<leftarrow> ssub 16 24 challenge;
                   info \<leftarrow> sfrom 28 challenge;
                   expected \<leftarrow> encodeNtlmv2Response nc key (sbytes serverChallenge) (sbytes clientChallenge)
                     (sbytes timeStamp) (copy_from 0 (sbytes info)) (replicate (slen nt) 0);
                   if sbytes nt \<noteq> expected then Some (Inl LoginFailure)
                   else or_error (exported_key nc flags (nc_hmac nc key (take 16 (sbytes nt))) encrypted) (\<lambda>exported.
                     do { ok \<leftarrow> check_mic nc flags exported info amsg s;
                          if \<not> ok then Some (Inl LoginFailure)
                          else make_session nc False user flags exported Map.empty }) })"

definition guest_session :: "u32 \<Rightarrow> ntlm_session" where
  "guest_session flags = \<lparr>ns_isClientSide = False, ns_user = ''guest'', ns_negotiateFlags = flags,
     ns_exportedSessionKey = replicate 16 0, ns_clientSigningKey = [], ns_serverSigningKey = [],
     ns_clientHandle = None, ns_serverHandle = None, ns_infoMap = Map.empty\<rparr>"

definition check_authenticate :: "ntlm_lib \<Rightarrow> slice \<Rightarrow> ntlm_server \<Rightarrow> (ntlm_error + ntlm_session) option" where
  "check_authenticate nc amsg s =
     (if slen amsg < 64 then Some (Inl MessageTooShort)
      else if take 8 (sbytes amsg) \<noteq> ntlm_signature then Some (Inl InvalidSignature)
      else do { ty \<leftarrow> get32 8 amsg;
                if ty \<noteq> NtLmAuthenticate then Some (Inl InvalidMessageType)
                else do { flags \<leftarrow> get32 60 amsg;
                or_error (msg_field 20 amsg) (\<lambda>nt.
                or_error (msg_field 28 amsg) (\<lambda>domain.
                or_error (msg_field 36 amsg) (\<lambda>userName.
                or_error (msg_field 52 amsg) (\<lambda>encrypted.
                  if slen userName \<noteq> 0 \<and> 16 \<le> slen nt
                  then login nc flags amsg nt (sbytes domain) (sbytes userName) (sbytes encrypted) s
                  else if sn_allowGuest s then Some (Inr (guest_session flags))
                  else Some (Inl CredentialEmpty))))) } })"

text \<open>A failed login leaves the session as it was.\<close>

definition Server_Authenticate ::
  "ntlm_lib \<Rightarrow> slice \<Rightarrow> ntlm_server \<Rightarrow> (ntlm_error option \<times> ntlm_server) option" where
  "Server_Authenticate nc amsg s =
     map_option (\<lambda>r. case r of Inl e \<Rightarrow> (Some e, s) | Inr se \<Rightarrow> (None, s\<lparr>sn_session := Some se\<rparr>))
       (check_authenticate nc amsg s)"

section \<open>The client\<close>

record ntlm_client =
  nl_User :: string
  nl_Password :: string
  nl_Hash :: "bytes option"
  nl_Domain :: string
  nl_Workstation :: string
  nl_TargetSPN :: string
  nl_nmsg :: bytes
  nl_session :: "ntlm_session option"

definition Client_Negotiate :: "ntlm_client \<Rightarrow> (bytes \<times> ntlm_client) option" where
  "Client_Negotiate c =
     do { m \<leftarrow> seqw [put 0 ntlm_signature, put32 8 NtLmNegotiate, put32 12 defaultFlags, copy_from 32 ntlm_version]
            (replicate 40 0);
          Some (m, c\<lparr>nl_nmsg := m\<rparr>) }"

definition put_field :: "nat \<Rightarrow> nat \<Rightarrow> bytes \<Rightarrow> bytes \<Rightarrow> bytes option" where
  "put_field p off b =
     seqw [copy_from off b, put16 p (of_nat (length b)), put16 (p + 2) (of_nat (length b)), put32 (p + 4) (of_nat off)]"

definition client_key :: "ntlm_lib \<Rightarrow> bytes \<Rightarrow> ntlm_client \<Rightarrow> bytes" where
  "client_key nc domain c =
     (let USER = encode_go (nc_toUpper nc (nl_User c))
      in case nl_Hash c of Some h \<Rightarrow> ntowfv2Hash nc USER h domain
         | None \<Rightarrow> ntowfv2 nc USER (encode_go (nl_Password c)) domain)"

text \<open>The response with its random challenge and the time of the server's block, or the clock's.\<close>

definition client_response ::
  "ntlm_lib \<Rightarrow> int \<Rightarrow> bytes \<Rightarrow> bytes \<Rightarrow> bytes \<Rightarrow> targetInfoEncoder \<Rightarrow> bytes \<Rightarrow> bytes option" where
  "client_response nc now key serverChallenge rnd info nt =
     do { nt \<leftarrow> put 32 rnd nt;
          let clock = le_bytes 8 (unat (word_of_int (div_trunc now 100 + 116444736000000000) :: u64));
          nt \<leftarrow> (if te_InfoMap info MsvAvTimestamp = None then put 24 clock nt else Some nt);
          let timeStamp = (case te_InfoMap info MsvAvTimestamp of None \<Rightarrow> clock | Some v \<Rightarrow> av_value (te_Info info) v);
          encodeNtlmv2Response nc key serverChallenge rnd timeStamp (targetInfoEncoder_encode info) nt }"

text \<open>Everything from the domain on, which the code keeps in one buffer.\<close>

definition authenticate_message ::
  "ntlm_lib \<Rightarrow> int \<Rightarrow> (nat \<Rightarrow> u8) \<Rightarrow> u32 \<Rightarrow> bytes \<Rightarrow> targetInfoEncoder \<Rightarrow> bytes \<Rightarrow> nat \<Rightarrow> ntlm_client \<Rightarrow>
   ((ntlm_error + bytes) \<times> ntlm_client) option" where
  "authenticate_message nc now rnd flags domain info cmsg info_off c =
     (let user = encode_go (nl_User c); ws = encode_go (nl_Workstation c);
          off1 = 88 + length domain; off2 = off1 + length user; off3 = off2 + length ws;
          total = off3 + 24 + (16 + (28 + targetInfoEncoder_size info + 4)) + 16;
          last = total - 16
      in do { m \<leftarrow> seqw [put 0 ntlm_signature, put32 8 NtLmAuthenticate, put_field 28 88 domain] (replicate total 0);
              m \<leftarrow> (if user = [] then Some m else put_field 36 off1 user m);
              m \<leftarrow> (if ws = [] then Some m else put_field 44 off2 ws m);
              if nl_User c = [] \<and> nl_Password c = [] \<and> nl_Hash c = None then Some (Inr m, c)
              else do {
                let key = client_key nc domain c;
                m \<leftarrow> seqw [put16 12 24, put16 14 24, put32 16 (of_nat off3)] m;
                m \<leftarrow> at_range (off3 + 24) last
                  (client_response nc now key (window 24 8 cmsg) (map rnd [0..<8]) info) m;
                m \<leftarrow> seqw [put16 20 (of_nat (last - (off3 + 24))), put16 22 (of_nat (last - (off3 + 24))),
                  put32 24 (of_nat (off3 + 24))] m;
                info \<leftarrow> with_mic_flag info;
                let cmsg = copy_at info_off (te_Info info) cmsg;
                let base = nc_hmac nc key (window (off3 + 24) 16 m);
                let exchange = has_flag flags NTLMSSP_NEGOTIATE_KEY_EXCH;
                let exported = (if exchange then map rnd [8..<24] else base);
                keyed \<leftarrow> (if exchange
                  then (case NewCipher base of Inl e \<Rightarrow> Some (Inl e) | Inr cipher \<Rightarrow>
                    map_option Inr (seqw [put last (fst (XORKeyStream nc exported cipher)), put16 52 16, put16 54 16,
                      put32 56 (of_nat last)] m))
                  else Some (Inr m));
                case keyed of Inl e \<Rightarrow> Some (Inl e, c) | Inr m \<Rightarrow> do {
                  m \<leftarrow> seqw [put32 60 flags, copy_from 64 ntlm_version] m;
                  m \<leftarrow> put 72 (nc_hmac nc exported (nl_nmsg c @ cmsg @ m)) m;
                  se \<leftarrow> make_session nc True (nl_User c) flags exported (\<lambda>i. map_option (av_value (te_Info info)) (te_InfoMap info i));
                  Some (case se of Inl e \<Rightarrow> (Inl e, c) | Inr se \<Rightarrow> (Inr m, c\<lparr>nl_session := Some se\<rparr>)) } } })"

definition Client_Authenticate ::
  "ntlm_lib \<Rightarrow> int \<Rightarrow> (nat \<Rightarrow> u8) \<Rightarrow> slice \<Rightarrow> ntlm_client \<Rightarrow> ((ntlm_error + bytes) \<times> ntlm_client) option" where
  "Client_Authenticate nc now rnd cmsg c =
     (if slen cmsg < 48 then Some (Inl MessageTooShort, c)
      else if take 8 (sbytes cmsg) \<noteq> ntlm_signature then Some (Inl InvalidSignature, c)
      else do { ty \<leftarrow> get32 8 cmsg;
                if ty \<noteq> NtLmChallenge then Some (Inl InvalidMessageType, c)
                else do { mine \<leftarrow> get32 12 (of_bytes (nl_nmsg c));
                theirs \<leftarrow> get32 20 cmsg;
                let flags = mine AND theirs;
                if \<not> has_flag flags NTLMSSP_REQUEST_TARGET then Some (Inl InvalidFlags, c)
                else do { tn \<leftarrow> msg_field 12 cmsg;
                case tn of Inl e \<Rightarrow> Some (Inl e, c) | Inr targetName \<Rightarrow>
                if \<not> has_flag flags NTLMSSP_NEGOTIATE_TARGET_INFO then Some (Inl InvalidFlags, c)
                else do { ti \<leftarrow> msg_field 40 cmsg;
                case ti of Inl e \<Rightarrow> Some (Inl e, c) | Inr targetInfo \<Rightarrow>
                (case newTargetInfoEncoder (sbytes targetInfo) (encode_go (nl_TargetSPN c)) of
                   None \<Rightarrow> Some (Inl InvalidFormat, c)
                 | Some info \<Rightarrow>
                     do { off \<leftarrow> get32 44 cmsg;
                          authenticate_message nc now rnd flags
                            (if nl_Domain c = [] then sbytes targetName else encode_go (nl_Domain c)) info (sbytes cmsg) (unat off) c }) } } } })"

section \<open>The authenticator\<close>

record NTLMAuthenticator =
  na_UserPassword :: "string \<Rightarrow> string option"
  na_TargetSPN :: string
  na_NbDomain :: string
  na_NbName :: string
  na_DnsName :: string
  na_DnsDomain :: string
  na_AllowGuest :: bool

text \<open>What it keeps: the server of the last challenge, and what the random source and the clock give
  next (an early error moves them on too). The sequence number is never advanced.\<close>

record ntlm_state =
  nt_server :: "ntlm_server option"
  nt_seqNum :: u32
  nt_random :: "nat \<Rightarrow> u8"
  nt_clock :: "nat \<Rightarrow> int"

definition fresh_server :: "NTLMAuthenticator \<Rightarrow> ntlm_server" where
  "fresh_server i =
     (let s = (ntlm_NewServer (na_TargetSPN i) (na_NbName i) (na_NbDomain i) (na_DnsName i) (na_DnsDomain i))
            \<lparr>sn_accounts := na_UserPassword i\<rparr>
      in if na_AllowGuest i then AllowGuest s else s)"

definition ntlm_challenge :: "NTLMAuthenticator \<Rightarrow> slice \<Rightarrow> ntlm_state \<Rightarrow> ((unit + bytes) \<times> ntlm_state) option" where
  "ntlm_challenge i sc st =
     do { (r, s) \<leftarrow> Server_Challenge (nt_clock st 0) (map (nt_random st) [0..<8]) sc (fresh_server i);
          Some (map_sum (\<lambda>_. ()) id r, st\<lparr>nt_server := Some s, nt_random := (\<lambda>k. nt_random st (8 + k)),
            nt_clock := (\<lambda>k. nt_clock st (Suc k))\<rparr>) }"

definition ntlm_authenticate :: "ntlm_lib \<Rightarrow> slice \<Rightarrow> ntlm_state \<Rightarrow> ((unit + string) \<times> ntlm_state) option" where
  "ntlm_authenticate nc sc st =
     do { s \<leftarrow> nt_server st;
          (e, s) \<leftarrow> Server_Authenticate nc sc s;
          let st = st\<lparr>nt_server := Some s\<rparr>;
          if e \<noteq> None then Some (Inl (), st)
          else map_option (\<lambda>se. (Inr (ns_user se), st)) (sn_session s) }"

definition ntlm_sum :: "ntlm_lib \<Rightarrow> bytes \<Rightarrow> ntlm_state \<Rightarrow> (bytes \<times> ntlm_state) option" where
  "ntlm_sum nc bs st =
     do { s \<leftarrow> nt_server st; se \<leftarrow> sn_session s;
          ((mic, _), se) \<leftarrow> Session_Sum nc bs (nt_seqNum st) se;
          Some (case mic of None \<Rightarrow> [] | Some m \<Rightarrow> m, st\<lparr>nt_server := Some (s\<lparr>sn_session := Some se\<rparr>)\<rparr>) }"

definition ntlm_sessionKey :: "ntlm_state \<Rightarrow> bytes option" where
  "ntlm_sessionKey st = do { s \<leftarrow> nt_server st; se \<leftarrow> sn_session s; Some (ns_exportedSessionKey se) }"

definition ntlm_infoMap :: "ntlm_state \<Rightarrow> InfoMap option" where
  "ntlm_infoMap st = do { s \<leftarrow> nt_server st; se \<leftarrow> sn_session s; Some (Session_InfoMap se) }"

definition ntlm_authenticator :: "ntlm_lib \<Rightarrow> NTLMAuthenticator \<Rightarrow> ntlm_state authenticator" where
  "ntlm_authenticator nc i = \<lparr>au_oid = NlmpOid, au_challenge = ntlm_challenge i, au_authenticate = ntlm_authenticate nc,
     au_sum = ntlm_sum nc, au_sessionKey = ntlm_sessionKey\<rparr>"

end
