(* ===== verification/NtlmLayout.thy ===== *)
theory NtlmLayout
  imports NtlmMessages
begin

text \<open>
  Where the messages of NTLMv2 have what: attribute pairs are parsed as they were written, and the
  challenge and the client's message carry their fields where the other side reads them.
\<close>

section \<open>Buffers\<close>

lemma window_replicate: "a + n \<le> k \<Longrightarrow> window a n (replicate k x) = replicate n x"
  by (simp add: window_def)

lemma at_range_whole: "a \<le> b \<Longrightarrow> b \<le> length p \<Longrightarrow> f (window a (b - a) p) = Some t \<Longrightarrow> length t = b - a \<Longrightarrow>
   at_range a b f p = Some (copy_at a t p)"
  by (simp add: at_range_def copy_at_def)

lemma copy_from_ok [simp]: "a \<le> length p \<Longrightarrow> copy_from a xs p = Some (copy_at a xs p)"
  by (simp add: copy_from_def)

lemma copy_at_same: "window a (length xs) p = xs \<Longrightarrow> a + length xs \<le> length p \<Longrightarrow> copy_at a xs p = p"
proof -
  assume w: "window a (length xs) p = xs" and l: "a + length xs \<le> length p"
  have "p = take a p @ window a (length xs) p @ drop (a + length xs) p"
    unfolding window_def by (metis append_take_drop_id drop_drop add.commute)
  then show ?thesis using w l by (simp add: copy_at_def)
qed

lemma copy_at_over: "length ys = length xs \<Longrightarrow> a + length xs \<le> length p \<Longrightarrow> copy_at a xs (copy_at a ys p) = copy_at a xs p"
  by (simp add: copy_at_def)

section \<open>Attribute pairs\<close>

definition enc_pair :: "u16 \<times> bytes \<Rightarrow> bytes" where
  "enc_pair p = le_bytes 2 (unat (fst p)) @ le_bytes 2 (length (snd p)) @ snd p"

definition enc_pairs :: "TargetInfo \<Rightarrow> bytes" where
  "enc_pairs t = concat (map enc_pair t)"

lemma enc_pairs_simps [simp]: "enc_pairs [] = []" "enc_pairs (p # t) = enc_pair p @ enc_pairs t"
  "enc_pairs (t @ u) = enc_pairs t @ enc_pairs u"
  by (simp_all add: enc_pairs_def)

lemma length_enc [simp]: "length (enc_pair p) = 4 + length (snd p)" "length (enc_pairs t) = TargetInfo_Size t"
  by (simp add: enc_pair_def) (induction t; simp add: TargetInfo_Size_def enc_pair_def)

definition pairs_ok :: "TargetInfo \<Rightarrow> bool" where
  "pairs_ok t \<longleftrightarrow> (\<forall>p \<in> set t. length (snd p) < 65536)"

lemma put_pairs_enc:
  "pairs_ok t \<Longrightarrow> off + TargetInfo_Size t \<le> length p \<Longrightarrow> put_pairs off t p = Some (copy_at off (enc_pairs t) p)"
proof (induction t arbitrary: off p)
  case (Cons q t)
  obtain i v where q: "q = (i, v)" by (cases q)
  have v: "length v < 65536" and t: "pairs_ok t" using Cons.prems(1) by (simp_all add: pairs_ok_def q)
  have l: "off + 4 + length v + TargetInfo_Size t \<le> length p"
    using Cons.prems(2) by (simp add: TargetInfo_Size_def q)
  have "copy_at (off + 4) v (copy_at (off + 2) (le_bytes 2 (length v)) (copy_at off (le_bytes 2 (unat i)) p)) =
      copy_at off (enc_pair q) p"
    using copy_at_append [of off "le_bytes 2 (unat i)" "le_bytes 2 (length v)" p]
      copy_at_append [of off "le_bytes 2 (unat i) @ le_bytes 2 (length v)" v p] l
    by (simp add: enc_pair_def q add.assoc)
  moreover have "unat (of_nat (length v) :: u16) = length v" using v by (simp add: unat_of_nat)
  moreover have "put_pairs (off + 4 + length v) t (copy_at off (enc_pair q) p) =
      Some (copy_at (off + 4 + length v) (enc_pairs t) (copy_at off (enc_pair q) p))"
    by (rule Cons.IH [OF t]) (use l in simp)
  moreover have "copy_at (off + 4 + length v) (enc_pairs t) (copy_at off (enc_pair q) p) = copy_at off (enc_pairs (q # t)) p"
    using copy_at_append [of off "enc_pair q" "enc_pairs t" p] l by (simp add: q add.assoc)
  ultimately show ?case using l by (simp add: q puts add.commute)
qed simp

text \<open>Where a parsed block has its values.\<close>

fun pair_map :: "nat \<Rightarrow> TargetInfo \<Rightarrow> av_map \<Rightarrow> av_map" where
  "pair_map off [] m = m"
| "pair_map off ((i, v) # t) m = pair_map (off + 4 + length v) t (m(i \<mapsto> (off + 4, length v)))"

lemma av_pairs_enc:
  "pairs_ok t \<Longrightarrow> av_pairs off (enc_pairs t) m = Some (pair_map off t m)"
proof (induction t arbitrary: off m)
  case Nil
  then show ?case by (simp add: av_pairs.simps)
next
  case (Cons q t)
  obtain i v where q: "q = (i, v)" by (cases q)
  have v: "length v < 65536" and t: "pairs_ok t" using Cons.prems by (simp_all add: pairs_ok_def q)
  have "le_nat (window 2 2 (enc_pair q @ enc_pairs t)) = length v"
    using v by (simp add: enc_pair_def q window_def le_nat_bytes)
  moreover have "(of_nat (le_nat (take 2 (enc_pair q @ enc_pairs t))) :: u16) = i"
    by (simp add: enc_pair_def q of_nat_le_word)
  moreover have "enc_pair q \<noteq> []" using length_enc(1) [of q] by (metis add_is_0 list.size(3) zero_neq_numeral)
  moreover have "drop (4 + length v) (enc_pair q @ enc_pairs t) = enc_pairs t" by (simp add: q)
  ultimately show ?case
    using Cons.IH [OF t] by (simp only: enc_pairs_simps) (subst av_pairs.simps; simp add: Let_def q fun_upd_def)
qed

lemma pair_map_append: "pair_map off (t @ u) m = pair_map (off + TargetInfo_Size t) u (pair_map off t m)"
  by (induction t arbitrary: off m) (auto simp: TargetInfo_Size_def add.assoc)

lemma few_bytes: "le_bytes 2 n = [of_nat (n mod 256), of_nat (n div 256 mod 256)]"
  "replicate 4 (0 :: u8) = [0, 0, 0, 0]" "replicate 6 (0 :: u8) = [0, 0, 0, 0, 0, 0]"
  by (simp add: numeral_2_eq_2, simp_all add: numeral_eq_Suc)

lemma pair_map_other: "i \<notin> fst ` set t \<Longrightarrow> pair_map off t m i = m i"
  by (induction t arbitrary: off m) auto

text \<open>A block that ends with the pair EOL is accepted.\<close>

lemma parse_enc:
  assumes "pairs_ok t"
  shows "parseAvPairs (enc_pairs (t @ [(MsvAvEOL, [])])) = Some (pair_map 0 (t @ [(MsvAvEOL, [])]) Map.empty)"
proof -
  have "enc_pair (MsvAvEOL, []) = replicate 4 0" by (simp add: enc_pair_def MsvAvEOL_def few_bytes)
  moreover have "pairs_ok (t @ [(MsvAvEOL, [])])" using assms by (auto simp: pairs_ok_def)
  ultimately show ?thesis using av_pairs_enc [of "t @ [(MsvAvEOL, [])]" 0 Map.empty]
    by (simp add: parseAvPairs_def)
qed

text \<open>The value of a pair that no later one repeats.\<close>

lemma parsed_value:
  assumes "i \<notin> fst ` set u"
  shows "pair_map 0 (t @ (i, v) # u) m i = Some (TargetInfo_Size t + 4, length v)"
    and "window (TargetInfo_Size t + 4) (length v) (enc_pairs (t @ (i, v) # u)) = v"
  using assms by (simp_all add: pair_map_append pair_map_other window_def enc_pair_def)

section \<open>The response\<close>

text \<open>What is hashed, from the time stamp, the client's challenge and the pairs.\<close>

definition response_body :: "bytes \<Rightarrow> bytes \<Rightarrow> bytes \<Rightarrow> bytes" where
  "response_body ts cc pairs = [1, 1, 0, 0, 0, 0, 0, 0] @ ts @ cc @ [0, 0, 0, 0] @ pairs"

lemma take_window: "take (a + n) p = take a p @ window a n p"
  by (simp add: window_def take_add)

lemma response_layout:
  assumes d: "length ts = 8" "length cc = 8" "44 \<le> length dst" "window 18 6 dst = replicate 6 0" "window 40 4 dst = replicate 4 0"
    and h: "\<And>k m. length (nc_hmac nc k m) = 16"
    and i: "\<And>c. drop 28 c = drop 44 dst \<Longrightarrow> length c = length dst - 16 \<Longrightarrow> info (drop 28 c) = Some pairs" "length pairs = length dst - 44"
  shows "encodeNtlmv2Response nc key sc cc ts info dst =
    Some (nc_hmac nc key (sc @ response_body ts cc pairs) @ response_body ts cc pairs)"
proof -
  define c where "c = drop 16 dst"
  have lc: "length c = length dst - 16" "28 \<le> length c" using d(3) by (simp_all add: c_def)
  have wc: "window 2 6 c = replicate 6 0" "window 24 4 c = replicate 4 0"
    using d(4,5) by (simp_all add: c_def window_def)
  define c4 where "c4 = copy_at 16 cc (copy_at 8 ts (copy_at 0 [1, 1] c))"
  have w4: "window 0 2 c4 = [1, 1]" "window 2 6 c4 = replicate 6 0" "window 8 8 c4 = ts"
      "window 16 8 c4 = cc" "window 24 4 c4 = replicate 4 0" "drop 28 c4 = drop 44 dst" "length c4 = length c"
    using lc d wc by (simp_all add: c4_def windows drop_copy_at) (simp add: c_def add.commute)
  have "take 28 c4 = window 0 2 c4 @ window 2 6 c4 @ window 8 8 c4 @ window 16 8 c4 @ window 24 4 c4"
    using take_window [of 24 4 c4] take_window [of 16 8 c4] take_window [of 8 8 c4] take_window [of 2 6 c4]
    by (simp add: window_def [of 0 2])
  then have t: "take 28 c4 @ pairs = response_body ts cc pairs"
    by (simp add: w4 response_body_def few_bytes)
  have "do { c \<leftarrow> put8 0 1 c; c \<leftarrow> put8 1 1 c; c \<leftarrow> at_range 8 16 (copy_from 0 ts) c;
      c \<leftarrow> at_range 16 24 (copy_from 0 cc) c; at_off 28 info c } = at_off 28 info c4"
    using lc d copy_at_append [of 0 "[1]" "[1]" c] by (simp add: puts c4_def at_range_whole [where t = ts] at_range_whole [where t = cc] copy_at_def window_def)
  also have "\<dots> = Some (response_body ts cc pairs)"
    using i(1) [of c4] w4 lc by (simp add: at_off_def t)
  finally have b: "at_off 16 (\<lambda>c. do { c \<leftarrow> put8 0 1 c; c \<leftarrow> put8 1 1 c; c \<leftarrow> at_range 8 16 (copy_from 0 ts) c;
      c \<leftarrow> at_range 16 24 (copy_from 0 cc) c; at_off 28 info c }) dst = Some (take 16 dst @ response_body ts cc pairs)"
    using d(3) by (simp add: at_off_def c_def)
  show ?thesis
    unfolding encodeNtlmv2Response_def b using h d(3) by (simp add: copy_at_def)
qed

section \<open>The client's attribute pairs\<close>

text \<open>A zeroed buffer of \<open>n\<close> bytes with \<open>xs\<close> at its start.\<close>

definition filled :: "nat \<Rightarrow> bytes \<Rightarrow> bytes" where
  "filled n xs = copy_at 0 xs (replicate n 0)"

lemma filled_whole: "length xs \<le> n \<Longrightarrow> filled n xs = xs @ replicate (n - length xs) 0"
  by (simp add: filled_def copy_at_def)

lemma length_filled [simp]: "length (filled n xs) = n"
  by (simp add: filled_def)

lemma fill_at: "off = length xs \<Longrightarrow> off + length ys \<le> n \<Longrightarrow> copy_at off ys (filled n xs) = filled n (xs @ ys)"
  using copy_at_append [of 0 xs ys "replicate n 0"] by (simp add: filled_def)

lemma fill_put: "off = length xs \<Longrightarrow> off + length ys \<le> n \<Longrightarrow> put off ys (filled n xs) = Some (filled n (xs @ ys))"
  by (simp add: fill_at)

lemma fill_zeros: "length xs + k \<le> n \<Longrightarrow> filled n (xs @ replicate k 0) = filled n xs"
proof -
  assume l: "length xs + k \<le> n"
  then have "replicate k (0 :: u8) @ replicate (n - (length xs + k)) 0 = replicate (n - length xs) 0"
    by (simp flip: replicate_add)
  with l show ?thesis by (simp add: filled_whole)
qed

definition client_pairs :: "TargetInfo \<Rightarrow> bytes \<Rightarrow> TargetInfo" where
  "client_pairs t spn = t @ [(MsvAvFlags, [2, 0, 0, 0]), (MsvAvChannelBindings, replicate 16 0)] @
     (if spn = [] then [] else [(MsvAvTargetName, spn)]) @ [(MsvAvEOL, [])]"

lemma size_append [simp]: "TargetInfo_Size (t @ u) = TargetInfo_Size t + TargetInfo_Size u"
  "TargetInfo_Size [] = 0" "TargetInfo_Size (p # t) = 4 + length (snd p) + TargetInfo_Size t"
  by (simp_all add: TargetInfo_Size_def)

lemma size_client_pairs:
  "TargetInfo_Size (client_pairs t spn) = TargetInfo_Size t + 32 + (if spn = [] then 0 else 4 + length spn)"
  by (simp add: client_pairs_def)

lemma le_consts: "le_bytes 2 0 = [0, 0]" "le_bytes 2 4 = [4, 0]" "le_bytes 4 2 = [2, 0, 0, 0]" "le_bytes 2 16 = [16, 0]"
  by code_simp+

lemma fill_head: "off = length xs \<Longrightarrow> off + 4 \<le> n \<Longrightarrow> k < 65536 \<Longrightarrow>
   seqw [put16 off i, put16 (off + 2) (of_nat k)] (filled n xs) = Some (filled n (xs @ le_bytes 2 (unat i) @ le_bytes 2 k))"
  by (simp add: puts fill_at unat_of_nat)

lemma fill_pair: "off = length xs \<Longrightarrow> off + 4 + length v \<le> n \<Longrightarrow> length v < 65536 \<Longrightarrow>
   seqw [put16 off i, put16 (off + 2) (of_nat (length v)), copy_from (off + 4) v] (filled n xs) =
   Some (filled n (xs @ enc_pair (i, v)))"
  by (simp add: puts fill_at unat_of_nat enc_pair_def)

lemma info_layout:
  assumes "te_Info i = enc_pairs (t @ [(MsvAvEOL, [])])" and "te_InfoMap i MsvAvFlags = None"
    and "length (te_SPN i) < 65536"
  shows "targetInfoEncoder_encode i (replicate (targetInfoEncoder_size i + 4) 0) =
    Some (enc_pairs (client_pairs t (te_SPN i) @ [(MsvAvEOL, [])]))"
proof -
  define N where "N = targetInfoEncoder_size i + 4"
  define S where "S = TargetInfo_Size t"
  have n: "N = TargetInfo_Size (client_pairs t (te_SPN i)) + 4"
    using assms by (simp add: N_def targetInfoEncoder_size_def size_client_pairs)
  then have room: "S + 36 + (if te_SPN i = [] then 0 else 4 + length (te_SPN i)) \<le> N"
    by (simp add: S_def size_client_pairs)
  have room': "S + 28 + 4 \<le> N" "te_SPN i \<noteq> [] \<Longrightarrow> S + 28 + 4 + length (te_SPN i) + 4 \<le> N"
    using room by (simp_all split: if_splits)
  have eol: "enc_pair (MsvAvEOL, []) = replicate 4 0" by (simp add: enc_pair_def MsvAvEOL_def few_bytes)
  have info: "take (length (te_Info i) - 4) (te_Info i) = enc_pairs t" by (simp add: assms(1))
  let ?t2 = "t @ [(MsvAvFlags, [2, 0, 0, 0])]" and ?t3 = "t @ [(MsvAvFlags, [2, 0, 0, 0]), (MsvAvChannelBindings, replicate 16 0)]"
  let ?t4 = "?t3 @ [(MsvAvTargetName, te_SPN i)]"
  have flags: "seqw [put16 S MsvAvFlags, put16 (S + 2) 4, put32 (S + 4) 2] (filled N (enc_pairs t)) =
      Some (filled N (enc_pairs ?t2))"
    using fill_pair [of S "enc_pairs t" "[2, 0, 0, 0]" N MsvAvFlags] room'(1) by (simp add: puts le_consts S_def)
  have bindings: "seqw [put16 (S + 8) MsvAvChannelBindings, put16 (S + 8 + 2) 16] (filled N (enc_pairs ?t2)) =
      Some (filled N (enc_pairs ?t3))"
    using fill_head [of "S + 8" "enc_pairs ?t2" N 16 MsvAvChannelBindings] room'(1)
      fill_zeros [of "enc_pairs ?t2 @ le_bytes 2 (unat MsvAvChannelBindings) @ le_bytes 2 16" 16 N]
    by (simp add: enc_pair_def S_def)
  have name: "seqw [put16 (S + 28) MsvAvTargetName, put16 (S + 28 + 2) (of_nat (length (te_SPN i))),
      copy_from (S + 28 + 4) (te_SPN i)] (filled N (enc_pairs ?t3)) = Some (filled N (enc_pairs ?t4))"
    if "te_SPN i \<noteq> []"
    using fill_pair [of "S + 28" "enc_pairs ?t3" "te_SPN i" N MsvAvTargetName] room'(2) that assms(3)
    by (simp add: S_def)
  have eols: "seqw [put16 off MsvAvEOL, put16 (off + 2) 0] (filled N (enc_pairs u)) =
      Some (filled N (enc_pairs (u @ [(MsvAvEOL, [])])))" if "off = TargetInfo_Size u" "off + 4 \<le> N" for off u
    using fill_head [of off "enc_pairs u" N 0 MsvAvEOL] that by (simp add: enc_pair_def)
  have last: "filled N (enc_pairs (client_pairs t (te_SPN i))) = enc_pairs (client_pairs t (te_SPN i) @ [(MsvAvEOL, [])])"
    using n by (simp add: filled_whole eol)
  have start: "copy_at 0 (enc_pairs t) (replicate N 0) = filled N (enc_pairs t)" by (simp add: filled_def)
  have off: "min (length (enc_pairs t)) (length (filled N (enc_pairs t))) = S"
    using room' by (simp add: S_def)
  have "targetInfoEncoder_encode i (replicate N 0) = Some (filled N (enc_pairs (client_pairs t (te_SPN i))))"
  proof (cases "te_SPN i = []")
    case True
    have "client_pairs t (te_SPN i) = ?t3 @ [(MsvAvEOL, [])]" by (simp add: client_pairs_def True)
    moreover note eols [of "S + 8 + 20" ?t3]
    moreover have "S + 8 + 20 = TargetInfo_Size ?t3" "S + 8 + 20 + 4 \<le> N" using room'(1) by (simp_all add: S_def)
    ultimately show ?thesis
      by (simp only: targetInfoEncoder_encode_def with_mic_flag_def assms(2) option.case Option.bind.bind_lunit Let_def
          info start off flags bindings True simp_thms if_True if_False not_False_eq_True)
  next
    case False
    have "client_pairs t (te_SPN i) = ?t4 @ [(MsvAvEOL, [])]" by (simp add: client_pairs_def False)
    moreover note eols [of "S + 28 + 4 + length (te_SPN i)" ?t4]
    moreover have "S + 28 + 4 + length (te_SPN i) = TargetInfo_Size ?t4" "S + 28 + 4 + length (te_SPN i) + 4 \<le> N"
      using room'(2) [OF False] by (simp_all add: S_def)
    moreover have "S + 8 + 20 = S + 28" by simp
    ultimately show ?thesis using name [OF False]
      by (simp only: targetInfoEncoder_encode_def with_mic_flag_def assms(2) option.case Option.bind.bind_lunit Let_def
          info start off flags bindings False simp_thms if_True if_False not_False_eq_True)
  qed
  then show ?thesis unfolding last unfolding N_def .
qed

section \<open>The challenge\<close>

lemma zero_words: "replicate 2 (0 :: u8) = le_bytes 2 0" "replicate 4 (0 :: u8) = le_bytes 4 0"
  by code_simp+

lemma read_le16: "window a 2 m = le_bytes 2 (unat v) \<Longrightarrow> a + 2 \<le> length m \<Longrightarrow> get16 a (of_bytes m) = Some v"
  and read_le32: "window a 4 m = le_bytes 4 (unat d) \<Longrightarrow> a + 4 \<le> length m \<Longrightarrow> get32 a (of_bytes m) = Some d"
  by (simp_all add: of_bytes_def get_eqs of_nat_le_word)

text \<open>A field as both sides write it.\<close>

definition field_at :: "nat \<Rightarrow> nat \<Rightarrow> nat \<Rightarrow> bytes \<Rightarrow> bool" where
  "field_at p off n m \<longleftrightarrow>
     window p 2 m = le_bytes 2 (unat (of_nat n :: u16)) \<and> window (p + 2) 2 m = le_bytes 2 (unat (of_nat n :: u16)) \<and>
     window (p + 4) 4 m = le_bytes 4 (unat (of_nat off :: u32))"

lemma field_read:
  assumes "field_at p off n m" and "p + 8 \<le> length m" and "off + n \<le> length m" and "n < 65536" and "off + n < 4294967296"
  shows "msg_field p (of_bytes m) = Some (Inr (Slice (drop off m) n))"
proof -
  have "get16 p (of_bytes m) = Some (of_nat n)" "get16 (p + 2) (of_bytes m) = Some (of_nat n)"
      "get32 (p + 4) (of_bytes m) = Some (of_nat off)"
    using assms(1,2) by (simp_all add: field_at_def read_le16 read_le32)
  moreover have "(ucast (of_nat n :: u16) :: u32) = of_nat n"
    by (subst of_nat_unat [symmetric]) (use assms(4) in \<open>simp add: unat_of_nat del: of_nat_unat\<close>)
  then have "unat (of_nat off + ucast (of_nat n :: u16) :: u32) = off + n"
    using assms(5) by (simp add: unat_of_nat flip: of_nat_add)
  moreover have "unat (of_nat off :: u32) = off" using assms(5) by (simp add: unat_of_nat)
  ultimately show ?thesis using assms(3) by (simp add: msg_field_def of_bytes_def)
qed

lemma challenge_layout:
  assumes ti: "pairs_ok ti" "enc_pairs ti \<noteq> []" and r: "length rnd = 8"
    and small: "60 + TargetInfo_Size ti + length tn < 65536"
  shows "\<exists>m. challenge_message defaultFlags ti tn rnd = Some m \<and> length m = 60 + TargetInfo_Size ti + length tn \<and>
    take 8 m = ntlm_signature \<and> window 8 4 m = le_bytes 4 (unat NtLmChallenge) \<and>
    window 20 4 m = le_bytes 4 (unat defaultFlags) \<and> window 24 8 m = rnd \<and>
    field_at 12 (if tn = [] then 0 else 56 + TargetInfo_Size ti) (length tn) m \<and>
    field_at 40 (56 + length tn) (TargetInfo_Size ti) m \<and>
    window (56 + length tn) (TargetInfo_Size ti) m = enc_pairs ti"
proof -
  let ?S = "TargetInfo_Size ti"
  define m0 where "m0 = copy_at 20 (le_bytes 4 (unat defaultFlags)) (copy_at 8 (le_bytes 4 (unat NtLmChallenge))
    (copy_at 0 ntlm_signature (replicate (60 + ?S + length tn) 0)))"
  define m1 where "m1 = (if tn = [] then m0 else copy_at 16 (le_bytes 4 (unat (of_nat (56 + ?S) :: u32)))
    (copy_at 14 (le_bytes 2 (unat (of_nat (length tn) :: u16))) (copy_at 12 (le_bytes 2 (unat (of_nat (length tn) :: u16)))
    (copy_at (56 + ?S) tn m0))))"
  define m2 where "m2 = copy_at 44 (le_bytes 4 (unat (of_nat (56 + length tn) :: u32))) (copy_at 42 (le_bytes 2 (unat (of_nat ?S :: u16)))
    (copy_at 40 (le_bytes 2 (unat (of_nat ?S :: u16))) (copy_at (56 + length tn) (enc_pairs ti) m1)))"
  define m where "m = copy_at 48 ntlm_version (copy_at 24 rnd m2)"
  have flags: "has_flag defaultFlags NTLMSSP_NEGOTIATE_VERSION" "has_flag defaultFlags NTLMSSP_REQUEST_TARGET"
    by code_simp+
  have sig: "length ntlm_signature = 8" "length ntlm_version = 8" by (simp_all add: ntlm_signature_def ntlm_version_def)
  have l: "length m0 = 60 + ?S + length tn" "length m1 = 60 + ?S + length tn" "length m2 = 60 + ?S + length tn"
    by (simp_all add: m0_def m1_def m2_def)
  have a: "at_off (56 + length tn) (TargetInfo_Encode ti) m1 = Some (copy_at (56 + length tn) (enc_pairs ti) m1)"
    using ti(1) l by (simp add: at_off_def TargetInfo_Encode_def put_pairs_enc copy_at_def add.commute)
  have w0: "seqw [put 0 ntlm_signature, put32 8 NtLmChallenge, put32 20 defaultFlags] (replicate (60 + ?S + length tn) 0) = Some m0"
    by (simp add: puts m0_def sig)
  have w1: "(if tn \<noteq> [] then seqw [copy_from (56 + ?S) tn, put16 12 (of_nat (length tn)), put16 14 (of_nat (length tn)),
      put32 16 (of_nat (56 + ?S))] m0 else Some m0) = Some m1"
    using l by (simp add: puts m1_def)
  have w2: "seqw [at_off (56 + length tn) (TargetInfo_Encode ti), put16 40 (of_nat ?S), put16 42 (of_nat ?S),
      put32 44 (of_nat (56 + length tn))] m1 = Some m2"
    using a l by (simp add: puts m2_def)
  have w3: "put 24 rnd m2 = Some (copy_at 24 rnd m2)" "put 48 ntlm_version (copy_at 24 rnd m2) = Some m"
    using l r by (simp_all add: m_def sig)
  have e: "challenge_message defaultFlags ti tn rnd = Some m"
  proof (cases "tn = []")
    case True
    have n: "48 + ?S + 8 + length ([] :: bytes) + 4 = 60 + ?S + length ([] :: bytes)" "48 + ?S + 8 + 0 - ?S = 56 + length ([] :: bytes)" by simp_all
    show ?thesis using w0 w1 w2 w3
      by (simp only: challenge_message_def Let_def flags n True if_True if_False simp_thms Option.bind.bind_lunit)
  next
    case False
    have n: "48 + ?S + 8 = 56 + ?S" "56 + ?S + length tn + 4 = 60 + ?S + length tn" "56 + ?S + length tn - ?S = 56 + length tn" by simp_all
    show ?thesis using w0 w1 w2 w3
      by (simp only: challenge_message_def Let_def flags n False if_True if_False simp_thms Option.bind.bind_lunit)
  qed
  have lm: "length m = 60 + ?S + length tn" using l by (simp add: m_def)
  show ?thesis
  proof (intro exI conjI)
    have "window 0 8 m = ntlm_signature"
      using l r by (auto simp: m_def m2_def m1_def m0_def windows sig)
    then show "take 8 m = ntlm_signature" by (simp add: window_def)
    show "window 8 4 m = le_bytes 4 (unat NtLmChallenge)" "window 20 4 m = le_bytes 4 (unat defaultFlags)"
      using l r by (auto simp: m_def m2_def m1_def m0_def windows sig)
    show "window 24 8 m = rnd" using l r by (simp add: m_def windows)
    show "window (56 + length tn) ?S m = enc_pairs ti" using l r by (simp add: m_def m2_def windows sig)
    show "field_at 40 (56 + length tn) ?S m"
      using l r by (simp add: m_def m2_def windows sig field_at_def)
    show "field_at 12 (if tn = [] then 0 else 56 + ?S) (length tn) m"
      using l r by (auto simp: m_def m2_def m1_def m0_def windows sig field_at_def window_replicate zero_words)
  qed (rule e lm)+
qed

section \<open>The client's message\<close>

lemma client_response_layout:
  assumes info: "te_Info i = enc_pairs (t @ [(MsvAvEOL, [])])" "te_InfoMap i MsvAvFlags = None" "length (te_SPN i) < 65536"
    and time: "te_InfoMap i MsvAvTimestamp = Some v" "av_value (te_Info i) v = ts" "length ts = 8"
    and cc: "length cc = 8" and h: "\<And>k m. length (nc_hmac nc k m) = 16"
  shows "client_response nc now key sc cc i (replicate (44 + (targetInfoEncoder_size i + 4)) 0) =
    (let body = response_body ts cc (enc_pairs (client_pairs t (te_SPN i) @ [(MsvAvEOL, [])]))
     in Some (nc_hmac nc key (sc @ body) @ body))"
proof -
  let ?n = "44 + (targetInfoEncoder_size i + 4)"
  let ?dst = "copy_at 32 cc (replicate ?n 0)"
  have zeros: "drop 44 ?dst = replicate (targetInfoEncoder_size i + 4) 0" using cc by (simp add: drop_copy_at)
  have "encodeNtlmv2Response nc key sc cc ts (targetInfoEncoder_encode i) ?dst =
      Some (nc_hmac nc key (sc @ response_body ts cc (enc_pairs (client_pairs t (te_SPN i) @ [(MsvAvEOL, [])]))) @
        response_body ts cc (enc_pairs (client_pairs t (te_SPN i) @ [(MsvAvEOL, [])])))"
  proof (rule response_layout)
    show "targetInfoEncoder_encode i (drop 28 c) = Some (enc_pairs (client_pairs t (te_SPN i) @ [(MsvAvEOL, [])]))"
      if "drop 28 c = drop 44 ?dst" for c
      using that by (simp only: zeros info_layout [OF info])
    show "length (enc_pairs (client_pairs t (te_SPN i) @ [(MsvAvEOL, [])])) = length ?dst - 44"
      using info by (simp add: targetInfoEncoder_size_def size_client_pairs)
  qed (use cc time h in \<open>simp_all add: windows window_replicate\<close>)
  then show ?thesis using cc time by (simp add: client_response_def Let_def)
qed

text \<open>What the finished message has where.\<close>

definition client_message :: "u32 \<Rightarrow> bytes \<Rightarrow> bytes \<Rightarrow> nat \<Rightarrow> bytes \<Rightarrow> bytes \<Rightarrow> bytes \<Rightarrow> bool" where
  "client_message flags dm user off3 nt enc m \<longleftrightarrow>
     length m = off3 + 24 + length nt + 16 \<and> take 8 m = ntlm_signature \<and> window 8 4 m = le_bytes 4 (unat NtLmAuthenticate) \<and>
     window 60 4 m = le_bytes 4 (unat flags) \<and>
     field_at 20 (off3 + 24) (length nt) m \<and> window (off3 + 24) (length nt) m = nt \<and>
     field_at 28 88 (length dm) m \<and> window 88 (length dm) m = dm \<and>
     field_at 36 (88 + length dm) (length user) m \<and> window (88 + length dm) (length user) m = user \<and>
     field_at 52 (off3 + 24 + length nt) 16 m \<and> window (off3 + 24 + length nt) 16 m = enc"

lemma authenticate_layout:
  fixes dm user ws key i
  defines "off1 \<equiv> 88 + length dm" and "off2 \<equiv> 88 + length dm + length user"
  defines "off3 \<equiv> 88 + length dm + length user + length ws" and "n \<equiv> 44 + (targetInfoEncoder_size i + 4)"
  assumes parts: "encode_go (nl_User c) = user" "user \<noteq> []" "encode_go (nl_Workstation c) = ws" "nl_User c \<noteq> []"
    and key: "client_key nc dm c = key" and h: "\<And>k m. length (nc_hmac nc k m) = 16"
    and info: "te_InfoMap i MsvAvFlags = None" and same: "copy_at info_off (te_Info i) cmsg = cmsg"
    and small: "off3 + 24 + n + 16 < 65536"
    and nt: "client_response nc now key (window 24 8 cmsg) (map rnd [0..<8]) i (replicate n 0) = Some nt" "length nt = n"
    and se: "make_session nc True (nl_User c) defaultFlags (map rnd [8..<24])
      (\<lambda>k. map_option (av_value (te_Info i)) (te_InfoMap i k)) = Some (Inr se)"
  shows "\<exists>m. authenticate_message nc now rnd defaultFlags dm i cmsg info_off c =
       Some (Inr (copy_at 72 (nc_hmac nc (map rnd [8..<24]) (nl_nmsg c @ cmsg @ m)) m), c\<lparr>nl_session := Some se\<rparr>) \<and>
     window 72 16 m = replicate 16 0 \<and>
     client_message defaultFlags dm user off3 nt
       (fst (XORKeyStream nc (map rnd [8..<24]) \<lparr>rc_key = nc_hmac nc key (take 16 nt), rc_pos = 0\<rparr>)) m"
proof -
  define total where "total = off3 + 24 + n + 16"
  define last where "last = off3 + 24 + n"
  let ?f = "\<lambda>p off b m. copy_at (p + 4) (le_bytes 4 (unat (of_nat off :: u32)))
    (copy_at (p + 2) (le_bytes 2 (unat (of_nat (length b) :: u16)))
    (copy_at p (le_bytes 2 (unat (of_nat (length b) :: u16))) (copy_at off b m)))"
  define enc where "enc = fst (XORKeyStream nc (map rnd [8..<24]) \<lparr>rc_key = nc_hmac nc key (take 16 nt), rc_pos = 0\<rparr>)"
  define m1 where "m1 = ?f 28 88 dm (copy_at 8 (le_bytes 4 (unat NtLmAuthenticate)) (copy_at 0 ntlm_signature (replicate total 0)))"
  define m2 where "m2 = ?f 36 off1 user m1"
  define m3 where "m3 = (if ws = [] then m2 else ?f 44 off2 ws m2)"
  define m4 where "m4 = copy_at 16 (le_bytes 4 (unat (of_nat off3 :: u32))) (copy_at 14 (le_bytes 2 24) (copy_at 12 (le_bytes 2 24) m3))"
  define m5 where "m5 = copy_at (off3 + 24) nt m4"
  define m6 where "m6 = copy_at 24 (le_bytes 4 (unat (of_nat (off3 + 24) :: u32)))
    (copy_at 22 (le_bytes 2 (unat (of_nat n :: u16))) (copy_at 20 (le_bytes 2 (unat (of_nat n :: u16))) m5))"
  define m7 where "m7 = copy_at 56 (le_bytes 4 (unat (of_nat last :: u32))) (copy_at 54 (le_bytes 2 16) (copy_at 52 (le_bytes 2 16) (copy_at last enc m6)))"
  define m where "m = copy_at 64 ntlm_version (copy_at 60 (le_bytes 4 (unat defaultFlags)) m7)"
  note offs = off1_def off2_def off3_def n_def total_def last_def
  have sig: "length ntlm_signature = 8" "length ntlm_version = 8" "length enc = 16"
    by (simp_all add: ntlm_signature_def ntlm_version_def enc_def XORKeyStream_def)
  have l: "length m1 = total" "length m2 = total" "length m3 = total" "length m4 = total" "length m5 = total"
      "length m6 = total" "length m7 = total" "length m = total"
    by (simp_all add: m1_def m2_def m3_def m4_def m5_def m6_def m7_def m_def)
  have room: "112 \<le> total" "88 + length dm \<le> total" "off1 + length user \<le> total" "off2 + length ws \<le> total"
      "off3 + 24 \<le> total" "last + 16 \<le> total"
    by (simp_all add: offs)
  have far: "off1 = 88 + length dm" "off2 = off1 + length user" "off3 = off2 + length ws" "last = off3 + 24 + n" "44 < n"
    by (simp_all add: offs)
  have flags: "has_flag defaultFlags NTLMSSP_NEGOTIATE_KEY_EXCH" by code_simp
  have w1: "seqw [put 0 ntlm_signature, put32 8 NtLmAuthenticate, put_field 28 88 dm] (replicate total 0) = Some m1"
    using room by (simp add: puts put_field_def m1_def sig)
  have w2: "put_field 36 off1 user m1 = Some m2"
    using room by (simp add: puts put_field_def m2_def l)
  have w3: "(if ws = [] then Some m2 else put_field 44 off2 ws m2) = Some m3"
    using room by (simp add: puts put_field_def m3_def l)
  have w4: "seqw [put16 12 24, put16 14 24, put32 16 (of_nat off3)] m3 = Some m4"
    using room by (simp add: puts m4_def l)
  have z: "window (off3 + 24) n m4 = replicate n 0"
    using room by (auto simp: m4_def m3_def m2_def m1_def windows window_replicate sig offs)
  have w5: "at_range (off3 + 24) last (client_response nc now key (window 24 8 cmsg) (map rnd [0..<8]) i) m4 = Some m5"
    using nt z l unfolding m5_def by (intro at_range_whole) (simp_all add: last_def total_def)
  have w6: "seqw [put16 20 (of_nat (last - (off3 + 24))), put16 22 (of_nat (last - (off3 + 24))), put32 24 (of_nat (off3 + 24))] m5 = Some m6"
    using room by (simp add: puts m6_def l last_def)
  have w7: "seqw [put last enc, put16 52 16, put16 54 16, put32 56 (of_nat last)] m6 = Some m7"
    using room by (simp add: puts m7_def l sig)
  have w8: "seqw [put32 60 defaultFlags, copy_from 64 ntlm_version] m7 = Some m"
    using room by (simp add: puts m_def l sig)
  have base: "window (off3 + 24) 16 m6 = take 16 nt"
  proof -
    have "window (off3 + 24) 16 m6 = window (off3 + 24) 16 m5" using far by (simp add: m6_def windows)
    also have "\<dots> = take 16 (window (off3 + 24) n m5)" by (simp add: window_def n_def min_def)
    finally show ?thesis using nt(2) l(4) by (simp add: m5_def windows total_def)
  qed
  have cipher: "NewCipher (nc_hmac nc key (take 16 nt)) = Inr \<lparr>rc_key = nc_hmac nc key (take 16 nt), rc_pos = 0\<rparr>"
    by (simp add: NewCipher_def h)
  have mic: "put 72 (nc_hmac nc (map rnd [8..<24]) (nl_nmsg c @ cmsg @ m)) m =
      Some (copy_at 72 (nc_hmac nc (map rnd [8..<24]) (nl_nmsg c @ cmsg @ m)) m)"
    using room by (simp add: h l)
  have fold: "88 + length dm = off1" "off1 + length user = off2" "off2 + length ws = off3"
      "off3 + 24 + (16 + (28 + targetInfoEncoder_size i + 4)) + 16 = total" "total - 16 = last"
    by (simp_all add: offs)
  have e: "authenticate_message nc now rnd defaultFlags dm i cmsg info_off c =
      Some (Inr (copy_at 72 (nc_hmac nc (map rnd [8..<24]) (nl_nmsg c @ cmsg @ m)) m), c\<lparr>nl_session := Some se\<rparr>)"
    by (simp only: authenticate_message_def Let_def parts key fold w1 w2 w3 w4 w5 w6 w7 w8 flags info same with_mic_flag_def
        option.case sum.case base cipher enc_def [symmetric] if_True if_False simp_thms Option.bind.bind_lunit option.map mic se)
  show ?thesis
    unfolding enc_def [symmetric]
  proof (intro exI conjI)
    show "window 72 16 m = replicate 16 0"
      using far by (simp add: m_def m7_def m6_def m5_def m4_def m3_def m2_def m1_def windows window_replicate total_def sig)
    have "window 0 8 m = ntlm_signature" "window 8 4 m = le_bytes 4 (unat NtLmAuthenticate)" "window 60 4 m = le_bytes 4 (unat defaultFlags)"
      using far by (simp_all add: m_def m7_def m6_def m5_def m4_def m3_def m2_def m1_def windows total_def sig)
    moreover have "field_at 20 (off3 + 24) n m" "window (off3 + 24) n m = nt"
      using far by (simp_all add: field_at_def m_def m7_def m6_def m5_def windows l total_def sig nt(2))
    moreover have "field_at 28 88 (length dm) m" "window 88 (length dm) m = dm"
      using far by (simp_all add: field_at_def m_def m7_def m6_def m5_def m4_def m3_def m2_def m1_def windows total_def sig nt(2))
    moreover have "field_at 36 off1 (length user) m" "window off1 (length user) m = user"
      using far by (simp_all add: field_at_def m_def m7_def m6_def m5_def m4_def m3_def m2_def windows l total_def sig nt(2))
    moreover have "field_at 52 last 16 m" "window last 16 m = enc"
      using far by (simp_all add: field_at_def m_def m7_def windows l total_def sig le_consts)
    ultimately show "client_message defaultFlags dm user off3 nt enc m"
      using l far nt(2) by (simp add: client_message_def window_def [of 0 8] total_def)
  qed (rule e)
qed

end
