(* ===== verification/NtlmAgree.thy ===== *)
theory NtlmAgree
  imports NtlmLayout
begin

text \<open>
  Client and server of NTLMv2 understand each other: the server recomputes the client's response,
  both sides end with the same keys, and each accepts what the other signs.
\<close>

section \<open>The server's side\<close>

text \<open>The server computes the response it was sent.\<close>

lemma expected_response:
  assumes "length ts = 8" "length cc = 8" and h: "\<And>k m. length (nc_hmac nc k m) = 16"
  shows "encodeNtlmv2Response nc key sc cc ts (copy_from 0 pairs) (replicate (44 + length pairs) 0) =
    Some (nc_hmac nc key (sc @ response_body ts cc pairs) @ response_body ts cc pairs)"
  by (rule response_layout) (use assms in \<open>auto simp: window_replicate copy_at_def\<close>)

text \<open>Encrypting twice with the same key stream.\<close>

lemma stream_twice: "fst (XORKeyStream nc (fst (XORKeyStream nc xs c)) c) = xs"
proof (rule nth_equalityI)
  fix i assume "i < length (fst (XORKeyStream nc (fst (XORKeyStream nc xs c)) c))"
  then show "fst (XORKeyStream nc (fst (XORKeyStream nc xs c)) c) ! i = xs ! i"
    by (simp add: XORKeyStream_def nth_enumerate_eq ac_simps)
qed (simp add: XORKeyStream_def)

lemma exported_again:
  assumes "length E = 16" and "length base = 16"
  shows "exported_key nc defaultFlags base (fst (XORKeyStream nc E \<lparr>rc_key = base, rc_pos = 0\<rparr>)) = Some (Inr E)"
proof -
  have "has_flag defaultFlags NTLMSSP_NEGOTIATE_KEY_EXCH" by code_simp
  moreover have "length (fst (XORKeyStream nc E \<lparr>rc_key = base, rc_pos = 0\<rparr>)) = 16"
    using assms(1) by (simp add: XORKeyStream_def)
  ultimately show ?thesis
    using assms by (simp add: exported_key_def NewCipher_def stream_twice) (simp add: copy_at_def)
qed

lemma mic_accepted:
  assumes p: "parseAvPairs pairs = Some mp" "mp MsvAvFlags = Some (off, 4)" and i: "sbytes info = pairs"
    and m: "window 72 16 m = replicate 16 0" "88 \<le> length m" and h: "\<And>k m. length (nc_hmac nc k m) = 16"
  shows "check_mic nc defaultFlags key info (of_bytes (copy_at 72 (nc_hmac nc key (sn_nmsg s @ sn_cmsg s @ m)) m)) s = Some True"
proof -
  have "has_flag defaultFlags NTLMSSP_NEGOTIATE_VERSION" by code_simp
  moreover have "copy_at 72 (replicate 16 0) (copy_at 72 (nc_hmac nc key (sn_nmsg s @ sn_cmsg s @ m)) m) = m"
    using copy_at_over [of "nc_hmac nc key (sn_nmsg s @ sn_cmsg s @ m)" "replicate 16 0" 72 m]
      copy_at_same [of 72 "replicate 16 0" m] m h by simp
  moreover have "window 72 16 (copy_at 72 (nc_hmac nc key (sn_nmsg s @ sn_cmsg s @ m)) m) = nc_hmac nc key (sn_nmsg s @ sn_cmsg s @ m)"
    using m h by (simp add: windows)
  ultimately show ?thesis
    using p i m by (simp add: check_mic_def Let_def of_bytes_def window_def [of 72 16] min_def)
qed

lemma login_accepts:
  fixes nt rest pairs
  assumes account: "go_string (DecodeToString un) = u" "sn_accounts s u = Some pw"
    and key: "key = ntowfv2 nc (encode_go (nc_toUpper nc u)) (encode_go pw) dm"
    and challenge: "window 24 8 (sn_cmsg s) = sc" "32 \<le> length (sn_cmsg s)"
    and body: "B = response_body ts cc pairs" "length ts = 8" "length cc = 8"
    and nt: "nt = nc_hmac nc key (sc @ B) @ B" and h: "\<And>k m. length (nc_hmac nc k m) = 16"
    and E: "enc = fst (XORKeyStream nc E \<lparr>rc_key = nc_hmac nc key (take 16 nt), rc_pos = 0\<rparr>)" "length E = 16"
    and flags: "parseAvPairs pairs = Some mp" "mp MsvAvFlags = Some (off, 4)"
    and m: "window 72 16 m = replicate 16 0" "88 \<le> length m"
      "am = copy_at 72 (nc_hmac nc E (sn_nmsg s @ sn_cmsg s @ m)) m"
    and se: "make_session nc False u defaultFlags E Map.empty = Some (Inr se)"
  shows "login nc defaultFlags (of_bytes am) (Slice (nt @ rest) (length nt)) dm un enc s = Some (Inr se)"
proof -
  let ?x = "nt @ rest"
  have l: "length nt = 44 + length pairs" "length B = 28 + length pairs"
    using h body by (simp_all add: nt response_body_def)
  have d: "drop 16 nt = B" "take 16 nt = nc_hmac nc key (sc @ B)" using h by (simp_all add: nt)
  have s1: "sfrom 16 (Slice ?x (length nt)) = Some (Slice (B @ rest) (length B))"
    using l d by simp
  have s2: "ssub 24 32 (of_bytes (sn_cmsg s)) = Some (Slice (drop 24 (sn_cmsg s)) 8)"
    using challenge(2) by (simp add: of_bytes_def)
  have s3: "ssub 8 16 (Slice (B @ rest) (length B)) = Some (Slice (drop 8 (B @ rest)) 8)"
      "ssub 16 24 (Slice (B @ rest) (length B)) = Some (Slice (drop 16 (B @ rest)) 8)"
      "sfrom 28 (Slice (B @ rest) (length B)) = Some (Slice (drop 28 (B @ rest)) (length B - 28))"
    using l by simp_all
  have v: "sbytes (Slice (drop 24 (sn_cmsg s)) 8) = sc" "sbytes (Slice (drop 8 (B @ rest)) 8) = ts"
      "sbytes (Slice (drop 16 (B @ rest)) 8) = cc" "sbytes (Slice (drop 28 (B @ rest)) (length B - 28)) = pairs"
    using challenge body l by (simp_all add: window_def response_body_def)
  have x: "encodeNtlmv2Response nc key sc cc ts (copy_from 0 pairs) (replicate (slen (Slice ?x (length nt))) 0) = Some nt"
    using expected_response [OF body(2,3) h, of key sc pairs] by (simp only: slice.sel l(1)) (simp only: nt body(1))
  have e: "exported_key nc defaultFlags (nc_hmac nc key (take 16 (sbytes (Slice ?x (length nt))))) enc = Some (Inr E)"
    using exported_again [OF E(2) h] l by (simp add: E(1))
  have k: "check_mic nc defaultFlags E (Slice (drop 28 (B @ rest)) (length B - 28)) (of_bytes am) s = Some True"
    unfolding m(3) by (rule mic_accepted [OF flags v(4) m(1,2) h])
  have pw: "(case sn_accounts s u of None \<Rightarrow> [] | Some p \<Rightarrow> p) = pw" by (simp add: account)
  have nts: "sbytes (Slice ?x (length nt)) = nt" by simp
  show ?thesis
    by (simp only: login_def Let_def account(1) pw key [symmetric] s1 s2 s3 v x e [unfolded nts] k nts or_error_def option.case sum.case
        Option.bind.bind_lunit account(2) option.distinct simp_thms if_False if_True se)
qed

lemma authenticate_accepts:
  fixes nt pairs
  assumes msg: "client_message defaultFlags dm un off3 nt enc m" and m: "window 72 16 m = replicate 16 0"
    and small: "length m < 65536" "88 + length dm + length un \<le> off3" "un \<noteq> []"
    and account: "go_string (DecodeToString un) = u" "sn_accounts s u = Some pw"
    and key: "key = ntowfv2 nc (encode_go (nc_toUpper nc u)) (encode_go pw) dm"
    and challenge: "window 24 8 (sn_cmsg s) = sc" "32 \<le> length (sn_cmsg s)"
    and body: "B = response_body ts cc pairs" "length ts = 8" "length cc = 8"
    and nt: "nt = nc_hmac nc key (sc @ B) @ B" and h: "\<And>k m. length (nc_hmac nc k m) = 16"
    and E: "enc = fst (XORKeyStream nc E \<lparr>rc_key = nc_hmac nc key (take 16 nt), rc_pos = 0\<rparr>)" "length E = 16"
    and flags: "parseAvPairs pairs = Some mp" "mp MsvAvFlags = Some (off, 4)"
    and se: "make_session nc False u defaultFlags E Map.empty = Some (Inr se)"
  shows "check_authenticate nc (of_bytes (copy_at 72 (nc_hmac nc E (sn_nmsg s @ sn_cmsg s @ m)) m)) s = Some (Inr se)"
proof -
  let ?M = "nc_hmac nc E (sn_nmsg s @ sn_cmsg s @ m)"
  define am where "am = copy_at 72 ?M m"
  have M: "length ?M = 16" by (rule h)
  have lm: "length m = off3 + 24 + length nt + 16" "88 \<le> length m" using msg small by (simp_all add: client_message_def)
  have la: "length am = length m" by (simp add: am_def)
  have kept: "window a n am = window a n m" if "a + n \<le> 72 \<or> 88 \<le> a" for a n
    unfolding am_def by (rule window_copy_at_other) (use that M in auto)
  have fields: "field_at 20 (off3 + 24) (length nt) am" "field_at 28 88 (length dm) am" "field_at 36 (88 + length dm) (length un) am"
      "field_at 52 (off3 + 24 + length nt) 16 am"
    using msg by (simp_all add: client_message_def field_at_def kept)
  have parts: "window (off3 + 24) (length nt) am = nt" "window 88 (length dm) am = dm"
      "window (88 + length dm) (length un) am = un" "window (off3 + 24 + length nt) 16 am = enc"
    using msg small by (simp_all add: client_message_def kept)
  have head: "take 8 am = ntlm_signature" using msg kept [of 0 8] by (simp add: client_message_def window_def)
  have "drop (off3 + 24) am = nt @ drop (off3 + 24 + length nt) am"
    using parts(1) by (metis window_def append_take_drop_id drop_drop add.commute)
  then have nts: "msg_field 20 (of_bytes am) = Some (Inr (Slice (nt @ drop (off3 + 24 + length nt) am) (length nt)))"
    using field_read [OF fields(1)] lm la small by simp
  have rest: "msg_field 28 (of_bytes am) = Some (Inr (Slice (drop 88 am) (length dm)))"
      "msg_field 36 (of_bytes am) = Some (Inr (Slice (drop (88 + length dm) am) (length un)))"
      "msg_field 52 (of_bytes am) = Some (Inr (Slice (drop (off3 + 24 + length nt) am) 16))"
    using field_read [OF fields(2)] field_read [OF fields(3)] field_read [OF fields(4)] lm la small by simp_all
  have ty: "get32 8 (of_bytes am) = Some NtLmAuthenticate" "get32 60 (of_bytes am) = Some defaultFlags"
    using msg lm la by (simp_all add: client_message_def kept read_le32)
  have "\<not> slen (of_bytes am) < 64" "take 8 (sbytes (of_bytes am)) = ntlm_signature"
    using lm la head by (simp_all add: of_bytes_def)
  moreover have "login nc defaultFlags (of_bytes am) (Slice (nt @ drop (off3 + 24 + length nt) am) (length nt)) dm un enc s = Some (Inr se)"
    by (rule login_accepts [OF account key challenge body nt h E flags m lm(2) am_def se])
  moreover have "16 \<le> length nt" using h by (simp add: nt)
  moreover have "sbytes (Slice (drop 88 am) (length dm)) = dm" "sbytes (Slice (drop (88 + length dm) am) (length un)) = un"
      "sbytes (Slice (drop (off3 + 24 + length nt) am) 16) = enc"
    using parts by (simp_all add: window_def)
  ultimately have "check_authenticate nc (of_bytes am) s = Some (Inr se)"
    using small(3) by (simp add: check_authenticate_def or_error_def ty nts rest del: sbytes.simps)
  then show ?thesis by (simp add: am_def)
qed

section \<open>The whole exchange\<close>

text \<open>The server's end of a client's session.\<close>

definition server_side :: "ntlm_session \<Rightarrow> ntlm_session" where
  "server_side se = se\<lparr>ns_isClientSide := False, ns_infoMap := Map.empty\<rparr>"

lemma make_session_works:
  assumes "\<And>m. length (nc_md5 nc m) = 16"
  shows "\<exists>se. make_session nc True u defaultFlags E im = Some (Inr se) \<and> ns_user se = u \<and> ns_exportedSessionKey se = E \<and>
    make_session nc False u defaultFlags E Map.empty = Some (Inr (server_side se))"
proof -
  have "has_flag defaultFlags NTLMSSP_NEGOTIATE_EXTENDED_SESSIONSECURITY" "has_flag defaultFlags NTLMSSP_NEGOTIATE_128"
    by code_simp+
  moreover have "NewCipher (nc_md5 nc m) = Inr \<lparr>rc_key = nc_md5 nc m, rc_pos = 0\<rparr>" for m
    using assms [of m] by (simp add: NewCipher_def)
  ultimately show ?thesis by (simp add: make_session_def sealKey_def server_side_def)
qed

text \<open>The three messages, and what the last call says.\<close>

definition ntlm_exchange ::
  "ntlm_lib \<Rightarrow> int \<Rightarrow> int \<Rightarrow> bytes \<Rightarrow> (nat \<Rightarrow> u8) \<Rightarrow> ntlm_client \<Rightarrow> ntlm_server \<Rightarrow>
   (ntlm_error option \<times> ntlm_client \<times> ntlm_server) option" where
  "ntlm_exchange nc t1 t2 sc rnd c s =
     do { (n, c) \<leftarrow> Client_Negotiate c;
          (r, s) \<leftarrow> Server_Challenge t1 sc (of_bytes n) s;
          case r of Inl e \<Rightarrow> Some (Some e, c, s)
          | Inr cm \<Rightarrow> do { (r, c) \<leftarrow> Client_Authenticate nc t2 rnd (of_bytes cm) c;
              case r of Inl e \<Rightarrow> Some (Some e, c, s)
              | Inr am \<Rightarrow> map_option (\<lambda>(e, s). (e, c, s)) (Server_Authenticate nc (of_bytes am) s) } }"

text \<open>How long the names are, in UTF-16.\<close>

definition names_size :: "ntlm_client \<Rightarrow> ntlm_server \<Rightarrow> nat" where
  "names_size c s = (\<Sum>n\<leftarrow>[nl_User c, nl_Workstation c, nl_Domain c, nl_TargetSPN c, sn_targetName s, sn_dnsName s,
     sn_dnsDomain s, sn_nbName s, sn_nbDomain s]. length (encode_go n))"

lemma av_name_facts: "fst ` set (av_name i n) \<subseteq> {i}" "TargetInfo_Size (av_name i n) \<le> 4 + length (encode_go n)"
  "length (encode_go n) < 65536 \<Longrightarrow> pairs_ok (av_name i n)"
  by (auto simp: av_name_def pairs_ok_def)

lemma pairs_ok_append: "pairs_ok (t @ u) \<longleftrightarrow> pairs_ok t \<and> pairs_ok u"
  by (auto simp: pairs_ok_def)

lemma server_info_facts:
  assumes "names_size c s < 65000"
  shows "\<exists>ts names. server_info now s = ((MsvAvTimestamp, ts) # names) @ [(MsvAvEOL, [])] \<and> length ts = 8 \<and>
    pairs_ok ((MsvAvTimestamp, ts) # names) \<and> MsvAvFlags \<notin> fst ` set names \<and> MsvAvTimestamp \<notin> fst ` set names \<and>
    TargetInfo_Size names \<le> 16 + length (encode_go (sn_dnsName s)) + length (encode_go (sn_dnsDomain s)) +
      length (encode_go (sn_nbName s)) + length (encode_go (sn_nbDomain s))"
proof -
  define ts where "ts = le_bytes 4 (unat (ft_LowDateTime (NsecToFiletime now))) @ le_bytes 4 (unat (ft_HighDateTime (NsecToFiletime now)))"
  define names where "names = av_name MsvAvDnsComputerName (sn_dnsName s) @ av_name MsvAvDnsDomainName (sn_dnsDomain s) @
    av_name MsvAvNbComputerName (sn_nbName s) @ av_name MsvAvNbDomainName (sn_nbDomain s)"
  have "server_info now s = ((MsvAvTimestamp, ts) # names) @ [(MsvAvEOL, [])]"
    by (simp add: server_info_def Let_def ts_def names_def)
  moreover have "length ts = 8" by (simp add: ts_def)
  moreover have "pairs_ok names" using assms by (auto simp: names_def pairs_ok_append names_size_def intro: av_name_facts(3))
  moreover from this calculation(2) have "pairs_ok ((MsvAvTimestamp, ts) # names)" by (simp add: pairs_ok_def)
  moreover have ids: "fst ` set names \<subseteq> {MsvAvDnsComputerName, MsvAvDnsDomainName, MsvAvNbComputerName, MsvAvNbDomainName}"
    using av_name_facts(1) unfolding names_def by (auto simp: image_Un dest!: subsetD)
  have "MsvAvFlags \<notin> fst ` set names" "MsvAvTimestamp \<notin> fst ` set names"
    using ids by (auto simp: MsvAvFlags_def MsvAvTimestamp_def MsvAvDnsComputerName_def MsvAvDnsDomainName_def
        MsvAvNbComputerName_def MsvAvNbDomainName_def)
  moreover have "TargetInfo_Size names \<le> 16 + length (encode_go (sn_dnsName s)) + length (encode_go (sn_dnsDomain s)) +
      length (encode_go (sn_nbName s)) + length (encode_go (sn_nbDomain s))"
    using av_name_facts(2)[of MsvAvDnsComputerName "sn_dnsName s"] av_name_facts(2)[of MsvAvDnsDomainName "sn_dnsDomain s"]
      av_name_facts(2)[of MsvAvNbComputerName "sn_nbName s"] av_name_facts(2)[of MsvAvNbDomainName "sn_nbDomain s"]
    by (simp add: names_def)
  ultimately show ?thesis by blast
qed

lemma negotiate_layout:
  "\<exists>n. Client_Negotiate c = Some (n, c\<lparr>nl_nmsg := n\<rparr>) \<and> length n = 40 \<and> take 8 n = ntlm_signature \<and>
     get32 8 (of_bytes n) = Some NtLmNegotiate \<and> get32 12 (of_bytes n) = Some defaultFlags"
proof -
  define n where "n = copy_at 32 ntlm_version (copy_at 12 (le_bytes 4 (unat defaultFlags))
    (copy_at 8 (le_bytes 4 (unat NtLmNegotiate)) (copy_at 0 ntlm_signature (replicate 40 0))))"
  have l: "length ntlm_signature = 8" "length ntlm_version = 8" "length n = 40"
    by (simp_all add: ntlm_signature_def ntlm_version_def n_def)
  have "window 0 8 n = ntlm_signature" "window 8 4 n = le_bytes 4 (unat NtLmNegotiate)" "window 12 4 n = le_bytes 4 (unat defaultFlags)"
    by (simp_all add: n_def windows l)
  moreover have "Client_Negotiate c = Some (n, c\<lparr>nl_nmsg := n\<rparr>)"
    by (simp add: Client_Negotiate_def puts n_def l)
  ultimately show ?thesis using l by (auto simp: window_def [of 0 8] read_le32)
qed

lemma challenge_flags: "defaultFlags OR NTLMSSP_NEGOTIATE_TARGET_INFO = defaultFlags"
  "has_flag defaultFlags NTLMSSP_REQUEST_TARGET" "has_flag defaultFlags NTLMSSP_NEGOTIATE_TARGET_INFO"
  by code_simp+

lemma server_challenges:
  assumes n: "length n = 40" "take 8 n = ntlm_signature" "get32 8 (of_bytes n) = Some NtLmNegotiate" "get32 12 (of_bytes n) = Some defaultFlags"
    and cm: "challenge_message defaultFlags (server_info now s) (encode_go (sn_targetName s)) rnd = Some cm"
  shows "Server_Challenge now rnd (of_bytes n) s = Some (Inr cm, s\<lparr>sn_nmsg := n, sn_cmsg := cm\<rparr>)"
proof -
  have "server_info now (s\<lparr>sn_nmsg := n\<rparr>) = server_info now s" by (simp add: server_info_def)
  moreover have "slen (of_bytes n) = 40" "sbytes (of_bytes n) = n" using n(1) by (simp_all add: of_bytes_def)
  ultimately show ?thesis using n cm by (simp add: Server_Challenge_def Let_def challenge_flags)
qed

lemma client_info:
  assumes "pairs_ok ((MsvAvTimestamp, ts) # names)" "length ts = 8" "MsvAvFlags \<notin> fst ` set names" "MsvAvTimestamp \<notin> fst ` set names"
  defines "bs \<equiv> enc_pairs (((MsvAvTimestamp, ts) # names) @ [(MsvAvEOL, [])])"
  shows "\<exists>i. newTargetInfoEncoder bs spn = Some i \<and> te_Info i = bs \<and> te_SPN i = spn \<and> te_InfoMap i MsvAvFlags = None \<and>
    te_InfoMap i MsvAvTimestamp = Some (4, 8) \<and> av_value bs (4, 8) = ts"
proof -
  let ?u = "names @ [(MsvAvEOL, [])]"
  have ids: "MsvAvFlags \<noteq> MsvAvTimestamp" "MsvAvFlags \<noteq> MsvAvEOL" "MsvAvTimestamp \<noteq> MsvAvEOL"
    by (simp_all add: MsvAvFlags_def MsvAvTimestamp_def MsvAvEOL_def)
  have t: "MsvAvTimestamp \<notin> fst ` set ?u" using assms ids by auto
  have "pair_map 0 ((MsvAvTimestamp, ts) # ?u) Map.empty MsvAvFlags = None"
    using assms ids by (subst pair_map_other) auto
  moreover have "pair_map 0 ((MsvAvTimestamp, ts) # ?u) Map.empty MsvAvTimestamp = Some (4, 8)"
    using parsed_value(1) [OF t, of "[]" ts Map.empty] assms(2) by simp
  moreover have "av_value bs (4, 8) = ts"
    using parsed_value(2) [OF t, of "[]" ts] assms(2) by (simp add: av_value_def bs_def)
  ultimately show ?thesis using parse_enc [OF assms(1)] by (simp add: newTargetInfoEncoder_def bs_def)
qed

text \<open>The client's part, on the challenge of a server.\<close>

lemma client_answers:
  fixes c s now cm sc t names ts
  defines "ti \<equiv> ((MsvAvTimestamp, ts) # names) @ [(MsvAvEOL, [])]"
  defines "user \<equiv> encode_go (nl_User c)" and "ws \<equiv> encode_go (nl_Workstation c)" and "tn \<equiv> encode_go (sn_targetName s)"
  assumes cm: "length cm = 60 + TargetInfo_Size ti + length tn" "take 8 cm = ntlm_signature"
      "window 8 4 cm = le_bytes 4 (unat NtLmChallenge)" "window 20 4 cm = le_bytes 4 (unat defaultFlags)" "window 24 8 cm = sc"
      "field_at 12 (if tn = [] then 0 else 56 + TargetInfo_Size ti) (length tn) cm"
      "field_at 40 (56 + length tn) (TargetInfo_Size ti) cm" "window (56 + length tn) (TargetInfo_Size ti) cm = enc_pairs ti"
    and n: "get32 12 (of_bytes (nl_nmsg c)) = Some defaultFlags"
    and ti: "pairs_ok ((MsvAvTimestamp, ts) # names)" "length ts = 8" "MsvAvFlags \<notin> fst ` set names" "MsvAvTimestamp \<notin> fst ` set names"
      "TargetInfo_Size names \<le> 16 + length (encode_go (sn_dnsName s)) + length (encode_go (sn_dnsDomain s)) +
        length (encode_go (sn_nbName s)) + length (encode_go (sn_nbDomain s))"
    and small: "names_size c s < 65000" and user: "user \<noteq> []" "nl_User c \<noteq> []" "nl_Hash c = None"
    and h: "\<And>k m. length (nc_hmac nc k m) = 16" "\<And>m. length (nc_md5 nc m) = 16"
  shows "\<exists>dm off3 nt enc pairs B mp off se m.
    Client_Authenticate nc now rnd (of_bytes cm) c =
      Some (Inr (copy_at 72 (nc_hmac nc (map rnd [8..<24]) (nl_nmsg c @ cm @ m)) m), c\<lparr>nl_session := Some se\<rparr>) \<and>
    client_message defaultFlags dm user off3 nt enc m \<and> window 72 16 m = replicate 16 0 \<and> length m < 65536 \<and>
    88 + length dm + length user \<le> off3 \<and> B = response_body ts (map rnd [0..<8]) pairs \<and>
    nt = nc_hmac nc (client_key nc dm c) (sc @ B) @ B \<and> parseAvPairs pairs = Some mp \<and> mp MsvAvFlags = Some (off, 4) \<and>
    enc = fst (XORKeyStream nc (map rnd [8..<24]) \<lparr>rc_key = nc_hmac nc (client_key nc dm c) (take 16 nt), rc_pos = 0\<rparr>) \<and>
    ns_user se = nl_User c \<and> ns_exportedSessionKey se = map rnd [8..<24] \<and>
    make_session nc False (nl_User c) defaultFlags (map rnd [8..<24]) Map.empty = Some (Inr (server_side se))"
proof -
  let ?S = "TargetInfo_Size ti" and ?spn = "encode_go (nl_TargetSPN c)" and ?E = "map rnd [8..<24]"
  have sizes: "?S \<le> 32 + length (encode_go (sn_dnsName s)) + length (encode_go (sn_dnsDomain s)) +
      length (encode_go (sn_nbName s)) + length (encode_go (sn_nbDomain s))"
    using ti(2,5) by (simp add: ti_def)
  have total: "length user + length ws + length (encode_go (nl_Domain c)) + length ?spn + length tn + ?S < 65032"
    using small sizes by (simp add: names_size_def user_def ws_def tn_def)
  define T where "T = Slice (drop (56 + length tn) cm) ?S"
  have T: "msg_field 40 (of_bytes cm) = Some (Inr T)" "sbytes T = enc_pairs ti"
    using field_read [OF cm(7)] cm(1) total cm(8) by (simp_all add: T_def window_def)
  define off where "off = (if tn = [] then 0 else 56 + ?S)"
  define D where "D = Slice (drop off cm) (length tn)"
  have D: "msg_field 12 (of_bytes cm) = Some (Inr D)" "length (sbytes D) \<le> length tn"
    using field_read [OF cm(6)] cm(1) total by (auto simp: D_def off_def)
  define dm where "dm = (if nl_Domain c = [] then sbytes D else encode_go (nl_Domain c))"
  have dm: "length dm \<le> length tn + length (encode_go (nl_Domain c))" using D(2) by (simp add: dm_def)
  obtain i where i: "newTargetInfoEncoder (enc_pairs ti) ?spn = Some i" "te_Info i = enc_pairs ti" "te_SPN i = ?spn"
      "te_InfoMap i MsvAvFlags = None" "te_InfoMap i MsvAvTimestamp = Some (4, 8)" "av_value (enc_pairs ti) (4, 8) = ts"
    using client_info [OF ti(1-4), of ?spn] unfolding ti_def by blast
  define pairs where "pairs = enc_pairs (client_pairs ((MsvAvTimestamp, ts) # names) ?spn @ [(MsvAvEOL, [])])"
  define B where "B = response_body ts (map rnd [0..<8]) pairs"
  define nt where "nt = nc_hmac nc (client_key nc dm c) (sc @ B) @ B"
  define n where "n = 44 + (targetInfoEncoder_size i + 4)"
  have size: "targetInfoEncoder_size i \<le> ?S + 32 + length ?spn"
    using i(2,3,4) by (simp add: targetInfoEncoder_size_def)
  have nt: "client_response nc now (client_key nc dm c) (window 24 8 cm) (map rnd [0..<8]) i (replicate n 0) = Some nt"
    using client_response_layout [OF i(2)[unfolded ti_def] i(4) _ i(5), of ts "map rnd [0..<8]" nc now "client_key nc dm c" sc] i total ti(2) cm(5) h
    by (simp add: n_def nt_def B_def pairs_def Let_def)
  have ln: "length nt = n"
    using h(1) ti(2) i(2,3,4) by (simp add: nt_def B_def pairs_def n_def response_body_def targetInfoEncoder_size_def size_client_pairs ti_def)
  obtain se where se: "make_session nc True (nl_User c) defaultFlags ?E (\<lambda>k. map_option (av_value (te_Info i)) (te_InfoMap i k)) = Some (Inr se)"
      "ns_user se = nl_User c" "ns_exportedSessionKey se = ?E"
      "make_session nc False (nl_User c) defaultFlags ?E Map.empty = Some (Inr (server_side se))"
    using make_session_works [OF h(2)] by blast
  have same: "copy_at (56 + length tn) (te_Info i) cm = cm"
    using cm(1,8) i(2) by (intro copy_at_same) simp_all
  have small': "88 + length dm + length user + length ws + 24 + n + 16 < 65536"
    using total dm size by (simp add: n_def)
  obtain m where m: "authenticate_message nc now rnd defaultFlags dm i cm (56 + length tn) c =
       Some (Inr (copy_at 72 (nc_hmac nc ?E (nl_nmsg c @ cm @ m)) m), c\<lparr>nl_session := Some se\<rparr>)"
     "window 72 16 m = replicate 16 0"
     "client_message defaultFlags dm user (88 + length dm + length user + length ws) nt
       (fst (XORKeyStream nc ?E \<lparr>rc_key = nc_hmac nc (client_key nc dm c) (take 16 nt), rc_pos = 0\<rparr>)) m"
    using authenticate_layout [of c user ws nc dm "client_key nc dm c" i "56 + length tn" cm now rnd nt se] user h(1) i(4) same small' nt ln se(1)
    by (auto simp: user_def ws_def n_def)
  have gets: "get32 8 (of_bytes cm) = Some NtLmChallenge" "get32 20 (of_bytes cm) = Some defaultFlags"
      "get32 44 (of_bytes cm) = Some (of_nat (56 + length tn))"
    using cm by (simp_all add: read_le32 field_at_def)
  define enc where "enc = fst (XORKeyStream nc ?E \<lparr>rc_key = nc_hmac nc (client_key nc dm c) (take 16 nt), rc_pos = 0\<rparr>)"
  define mp where "mp = pair_map 0 (client_pairs ((MsvAvTimestamp, ts) # names) ?spn @ [(MsvAvEOL, [])]) Map.empty"
  have "unat (of_nat (56 + length tn) :: u32) = 56 + length tn" using total by (simp add: unat_of_nat del: of_nat_add)
  moreover have "slen (of_bytes cm) = length cm" "sbytes (of_bytes cm) = cm" by (simp_all add: of_bytes_def)
  ultimately have c1: "Client_Authenticate nc now rnd (of_bytes cm) c =
      Some (Inr (copy_at 72 (nc_hmac nc ?E (nl_nmsg c @ cm @ m)) m), c\<lparr>nl_session := Some se\<rparr>)"
    using cm(1,2) m(1) by (simp add: Client_Authenticate_def gets n challenge_flags D(1) T i(1) dm_def del: of_nat_add)
  have "MsvAvFlags \<notin> fst ` set ((MsvAvChannelBindings, replicate 16 (0::u8)) # (if ?spn = [] then [] else [(MsvAvTargetName, ?spn)]) @ [(MsvAvEOL, []), (MsvAvEOL, [])])"
    by (auto simp: MsvAvFlags_def MsvAvChannelBindings_def MsvAvTargetName_def MsvAvEOL_def)
  from parsed_value(1) [OF this, of "(MsvAvTimestamp, ts) # names" "[2, 0, 0, 0]" Map.empty]
  have c2: "mp MsvAvFlags = Some (TargetInfo_Size ((MsvAvTimestamp, ts) # names) + 4, 4)"
    by (simp add: mp_def client_pairs_def)
  have "pairs_ok (client_pairs ((MsvAvTimestamp, ts) # names) ?spn)"
    using ti(1) total by (auto simp: client_pairs_def pairs_ok_def)
  then have c3: "parseAvPairs pairs = Some mp"
    unfolding pairs_def mp_def by (rule parse_enc)
  have c4: "length m < 65536" using m(3) small' ln by (simp add: client_message_def)
  show ?thesis
    by (intro exI [of _ dm] exI [of _ "88 + length dm + length user + length ws"] exI [of _ nt] exI [of _ enc] exI [of _ pairs]
        exI [of _ B] exI [of _ mp] exI [of _ "TargetInfo_Size ((MsvAvTimestamp, ts) # names) + 4"] exI [of _ se] exI [of _ m] conjI)
      (rule c1 m(3) [folded enc_def] m(2) c4 le_add1 B_def nt_def c3 c2 enc_def se(2-4))+
qed

text \<open>What the server reads of a valid user name is that name.\<close>

lemma user_name:
  assumes "\<forall>r \<in> set rs. valid_rune r" and "rs \<noteq> []" and "last rs \<noteq> 0"
  shows "go_string (DecodeToString (encode_go (go_string rs))) = go_string rs" and "encode_go (go_string rs) \<noteq> []"
    and "go_string rs \<noteq> []"
proof -
  have e: "encode_go (go_string rs) = EncodeStringToBytes rs" by (simp add: encode_go_def go_runes_string [OF assms(1)])
  have d: "DecodeToString (EncodeStringToBytes rs) = rs"
    by (rule DecodeToString_EncodeStringToBytes [OF assms(1)]) (use assms(3) in simp)
  show "go_string (DecodeToString (encode_go (go_string rs))) = go_string rs" by (simp add: e d)
  show "encode_go (go_string rs) \<noteq> []"
  proof
    assume "encode_go (go_string rs) = []"
    then have "DecodeToString [] = rs" using d unfolding e by (simp only:)
    with DecodeToString_EncodeStringToBytes [of "[]"] assms(2) show False by (simp add: EncodeStringToBytes_def)
  qed
  show "go_string rs \<noteq> []" using go_runes_string [OF assms(1)] assms(2) by (auto simp: go_runes_def utf8_runes.simps)
qed

lemma exchange_works:
  assumes user: "nl_User c = go_string rs" "\<forall>r \<in> set rs. valid_rune r" "rs \<noteq> []" "last rs \<noteq> 0"
    and password: "nl_Hash c = None" "sn_accounts s (nl_User c) = Some (nl_Password c)"
    and h: "\<And>k m. length (nc_hmac nc k m) = 16" "\<And>m. length (nc_md5 nc m) = 16"
    and sc: "length sc = 8" and small: "names_size c s < 65000"
  shows "\<exists>c' s' se. ntlm_exchange nc t1 t2 sc rnd c s = Some (None, c', s') \<and>
    nl_session c' = Some se \<and> sn_session s' = Some (server_side se) \<and>
    ns_user se = nl_User c \<and> ns_exportedSessionKey se = map rnd [8..<24] \<and>
    (\<exists>am s1. check_authenticate nc am s1 = Some (Inr (server_side se)) \<and> sn_allowGuest s1 = sn_allowGuest s)"
proof -
  note un = user_name [OF user(2-4), folded user(1)]
  obtain n where n: "Client_Negotiate c = Some (n, c\<lparr>nl_nmsg := n\<rparr>)" "length n = 40" "take 8 n = ntlm_signature"
      "get32 8 (of_bytes n) = Some NtLmNegotiate" "get32 12 (of_bytes n) = Some defaultFlags"
    using negotiate_layout by blast
  obtain ts names where ti: "server_info t1 s = ((MsvAvTimestamp, ts) # names) @ [(MsvAvEOL, [])]" "length ts = 8"
      "pairs_ok ((MsvAvTimestamp, ts) # names)" "MsvAvFlags \<notin> fst ` set names" "MsvAvTimestamp \<notin> fst ` set names"
      "TargetInfo_Size names \<le> 16 + length (encode_go (sn_dnsName s)) + length (encode_go (sn_dnsDomain s)) +
        length (encode_go (sn_nbName s)) + length (encode_go (sn_nbDomain s))"
    using server_info_facts [OF small] by blast
  let ?ti = "((MsvAvTimestamp, ts) # names) @ [(MsvAvEOL, [])]"
  have "TargetInfo_Size ?ti \<noteq> 0" by simp
  then have ok: "pairs_ok ?ti" "enc_pairs ?ti \<noteq> []"
    using ti(3) by (auto simp only: pairs_ok_append pairs_ok_def length_enc(2) [symmetric] list.size) auto
  have room: "60 + TargetInfo_Size ?ti + length (encode_go (sn_targetName s)) < 65536"
    using ti(2,6) small by (simp add: names_size_def)
  obtain cm where cm: "challenge_message defaultFlags ?ti (encode_go (sn_targetName s)) sc = Some cm"
      "length cm = 60 + TargetInfo_Size ?ti + length (encode_go (sn_targetName s))" "take 8 cm = ntlm_signature"
      "window 8 4 cm = le_bytes 4 (unat NtLmChallenge)" "window 20 4 cm = le_bytes 4 (unat defaultFlags)" "window 24 8 cm = sc"
      "field_at 12 (if encode_go (sn_targetName s) = [] then 0 else 56 + TargetInfo_Size ?ti) (length (encode_go (sn_targetName s))) cm"
      "field_at 40 (56 + length (encode_go (sn_targetName s))) (TargetInfo_Size ?ti) cm"
      "window (56 + length (encode_go (sn_targetName s))) (TargetInfo_Size ?ti) cm = enc_pairs ?ti"
    using challenge_layout [OF ok sc room] by blast
  let ?s = "s\<lparr>sn_nmsg := n, sn_cmsg := cm\<rparr>" and ?c = "c\<lparr>nl_nmsg := n\<rparr>"
  have challenged: "Server_Challenge t1 sc (of_bytes n) s = Some (Inr cm, ?s)"
    by (rule server_challenges [OF n(2-5)]) (simp only: ti(1) cm(1))
  have c: "names_size ?c s < 65000" "encode_go (nl_User ?c) \<noteq> []" "nl_User ?c \<noteq> []" "nl_Hash ?c = None"
      "get32 12 (of_bytes (nl_nmsg ?c)) = Some defaultFlags"
    using small un password n(5) by (simp_all add: names_size_def)
  obtain dm off3 nt enc pairs B mp off se m where a:
      "Client_Authenticate nc t2 rnd (of_bytes cm) ?c =
        Some (Inr (copy_at 72 (nc_hmac nc (map rnd [8..<24]) (nl_nmsg ?c @ cm @ m)) m), ?c\<lparr>nl_session := Some se\<rparr>)"
      "client_message defaultFlags dm (encode_go (nl_User ?c)) off3 nt enc m" "window 72 16 m = replicate 16 0" "length m < 65536"
      "88 + length dm + length (encode_go (nl_User ?c)) \<le> off3" "B = response_body ts (map rnd [0..<8]) pairs"
      "nt = nc_hmac nc (client_key nc dm ?c) (sc @ B) @ B" "parseAvPairs pairs = Some mp" "mp MsvAvFlags = Some (off, 4)"
      "enc = fst (XORKeyStream nc (map rnd [8..<24]) \<lparr>rc_key = nc_hmac nc (client_key nc dm ?c) (take 16 nt), rc_pos = 0\<rparr>)"
      "ns_user se = nl_User ?c" "ns_exportedSessionKey se = map rnd [8..<24]"
      "make_session nc False (nl_User ?c) defaultFlags (map rnd [8..<24]) Map.empty = Some (Inr (server_side se))"
    using client_answers [OF cm(2-9) c(5) ti(3,2,4-6) c(1-4) h, of t2 rnd] by blast
  have key: "client_key nc dm ?c = ntowfv2 nc (encode_go (nc_toUpper nc (nl_User ?c))) (encode_go (nl_Password c)) dm"
    using password(1) by (simp add: client_key_def Let_def)
  have logged_in: "check_authenticate nc (of_bytes (copy_at 72 (nc_hmac nc (map rnd [8..<24]) (sn_nmsg ?s @ sn_cmsg ?s @ m)) m)) ?s = Some (Inr (server_side se))"
    by (rule authenticate_accepts [OF a(2-5) c(2) _ _ key _ _ a(6) _ _ a(7) h(1) a(10) _ a(8,9) a(13)])
      (use un(1) password(2) cm(2,6) ti(2) in simp_all)
  then have "Server_Authenticate nc (of_bytes (copy_at 72 (nc_hmac nc (map rnd [8..<24]) (n @ cm @ m)) m)) ?s =
      Some (None, ?s\<lparr>sn_session := Some (server_side se)\<rparr>)"
    by (simp add: Server_Authenticate_def)
  moreover have "\<exists>am s1. check_authenticate nc am s1 = Some (Inr (server_side se)) \<and> sn_allowGuest s1 = sn_allowGuest s"
    by (intro exI conjI) (rule logged_in, simp)
  ultimately show ?thesis using n(1) challenged a(1,11,12) by (simp add: ntlm_exchange_def)
qed

section \<open>An example\<close>

definition demo_ntlm :: ntlm_lib where
  "demo_ntlm = \<lparr>nc_md4 = (\<lambda>m. replicate 16 (fold (XOR) m 1)), nc_md5 = (\<lambda>m. replicate 16 (fold (XOR) m 2)),
     nc_hmac = (\<lambda>k m. replicate 16 (fold (XOR) m (fold (XOR) k 3))), nc_crc32 = (\<lambda>_. 0), nc_rc4 = (\<lambda>_ _. 7), nc_toUpper = id\<rparr>"

definition bob :: string where "bob = go_string [98, 111, 98]"

definition demo_ntlm_server :: ntlm_server where
  "demo_ntlm_server = AddAccount bob ''pw'' (ntlm_NewServer bob bob bob [] [])"

definition demo_ntlm_client :: ntlm_client where
  "demo_ntlm_client = \<lparr>nl_User = bob, nl_Password = ''pw'', nl_Hash = None, nl_Domain = [], nl_Workstation = bob,
     nl_TargetSPN = [], nl_nmsg = [], nl_session = None\<rparr>"

lemma bob_runes: "\<forall>r \<in> set [98, 111, 98]. valid_rune r" "[98, 111, 98] \<noteq> ([] :: rune list)" "last [98, 111, 98 :: rune] \<noteq> 0"
  by (simp_all add: valid_rune_def is_surrogate_def)

lemma demo_ntlm_account: "nl_User demo_ntlm_client = go_string [98, 111, 98]" "nl_Hash demo_ntlm_client = None"
  "sn_accounts demo_ntlm_server (nl_User demo_ntlm_client) = Some (nl_Password demo_ntlm_client)"
  by (simp_all add: demo_ntlm_client_def demo_ntlm_server_def AddAccount_def bob_def)

lemma demo_ntlm_sizes: "length (nc_hmac demo_ntlm k m) = 16" "length (nc_md5 demo_ntlm m) = 16"
  by (simp_all add: demo_ntlm_def)

lemma demo_ntlm_small: "names_size demo_ntlm_client demo_ntlm_server < 65000"
proof -
  have bob: "encode_go bob = EncodeStringToBytes [98, 111, 98]"
    by (simp only: encode_go_def bob_def go_runes_string [OF bob_runes(1)])
  have "utf8_runes [] = []" by (subst utf8_runes.simps) simp
  then have none: "encode_go [] = []" by (simp add: encode_go_def go_runes_def EncodeStringToBytes_def)
  have "length (encode_go bob) = 6" by (simp add: bob length_EncodeStringToBytes EncodedStringLen_def)
  then show ?thesis
    by (simp add: names_size_def demo_ntlm_client_def demo_ntlm_server_def AddAccount_def ntlm_NewServer_def none)
qed

definition demo_session :: ntlm_session where
  "demo_session = \<lparr>ns_isClientSide = True, ns_user = bob, ns_negotiateFlags = defaultFlags, ns_exportedSessionKey = replicate 16 5,
     ns_clientSigningKey = [1], ns_serverSigningKey = [2], ns_clientHandle = Some \<lparr>rc_key = [1], rc_pos = 0\<rparr>,
     ns_serverHandle = Some \<lparr>rc_key = [2], rc_pos = 0\<rparr>, ns_infoMap = Map.empty\<rparr>"

section \<open>Properties\<close>

text \<open>The two ends of a session.\<close>

definition peers :: "ntlm_session \<Rightarrow> ntlm_session \<Rightarrow> bool" where
  "peers s r \<longleftrightarrow> r = s\<lparr>ns_isClientSide := \<not> ns_isClientSide s, ns_infoMap := ns_infoMap r\<rparr>"

lemma peers_fields: "peers s r \<Longrightarrow> ns_negotiateFlags r = ns_negotiateFlags s \<and> ns_isClientSide r = (\<not> ns_isClientSide s) \<and>
   ns_clientHandle r = ns_clientHandle s \<and> ns_serverHandle r = ns_serverHandle s \<and>
   ns_clientSigningKey r = ns_clientSigningKey s \<and> ns_serverSigningKey r = ns_serverSigningKey s"
  unfolding peers_def by (erule ssubst) simp

lemma mac_peers:
  assumes "peers s r" and "mac_towards nc d n msg tag s = Some (x, s')"
  shows "\<exists>r'. mac_towards nc d n msg tag r = Some (x, r') \<and> peers s' r'"
  using assms by (cases s; cases r; cases d) (auto simp: peers_def mac_towards_def split: bind_splits)

text \<open>C3. A client that knows the password of an account logs in: the three messages are built and
  accepted without a panic, whatever the server's names and the client's domain, target and
  workstation are (up to the length the 16-bit fields allow), and both ends have the same user,
  exported key, signing keys and ciphers; the exported key is the client's random one.\<close>

theorem client_and_server_agree:
  assumes user: "nl_User c = go_string rs" "\<forall>r \<in> set rs. valid_rune r" "rs \<noteq> []" "last rs \<noteq> 0"
    and password: "nl_Hash c = None" "sn_accounts s (nl_User c) = Some (nl_Password c)"
    and h: "\<And>k m. length (nc_hmac nc k m) = 16" "\<And>m. length (nc_md5 nc m) = 16"
    and sc: "length sc = 8" and small: "names_size c s < 65000"
  shows "\<exists>c' s' se. ntlm_exchange nc t1 t2 sc rnd c s = Some (None, c', s') \<and>
    nl_session c' = Some se \<and> sn_session s' = Some (server_side se) \<and>
    ns_user se = nl_User c \<and> ns_exportedSessionKey se = map rnd [8..<24]"
  using exchange_works [OF assms, of t1 t2 rnd] by blast

theorem client_and_server_agree_witness:
  "\<exists>c' s' se. ntlm_exchange demo_ntlm 0 0 (replicate 8 0) (\<lambda>i. of_nat i) demo_ntlm_client demo_ntlm_server = Some (None, c', s') \<and>
     nl_session c' = Some se \<and> sn_session s' = Some (server_side se) \<and> ns_user se = bob"
  using client_and_server_agree [OF demo_ntlm_account(1) bob_runes demo_ntlm_account(2,3) demo_ntlm_sizes _ demo_ntlm_small, of "replicate 8 0" 0 0 "\<lambda>i. of_nat i"] by (auto simp: demo_ntlm_client_def)

text \<open>C40. What one end of a session signs, the other accepts, in both directions, and afterwards their
  ciphers are in step again, so this holds message after message.\<close>

theorem signature_accepted:
  assumes "peers s r" and "Session_Sum nc msg n s = Some ((t, n'), s')"
  shows "\<exists>r'. Session_CheckSum nc t msg n r = Some ((True, n'), r') \<and> peers s' r'"
proof (cases "has_flag (ns_negotiateFlags s) NTLMSSP_NEGOTIATE_SIGN")
  case True
  with assms(2) obtain x where x: "mac_towards nc (ns_isClientSide s) n msg (replicate 16 0) s = Some ((x, n'), s')" "t = Some x"
    by (auto simp: Session_Sum_def split: bind_splits)
  from mac_peers [OF assms(1) x(1)] True assms(1) x(2) show ?thesis
    by (auto simp: Session_CheckSum_def peers_fields)
qed (use assms in \<open>auto simp: Session_Sum_def Session_CheckSum_def peers_fields\<close>)

lemma demo_signs: "\<exists>t n s'. Session_Sum demo_ntlm [1, 2] 0 demo_session = Some ((Some t, n), s')"
proof -
  have "has_flag defaultFlags NTLMSSP_NEGOTIATE_SIGN" "has_flag defaultFlags NTLMSSP_NEGOTIATE_EXTENDED_SESSIONSECURITY"
      "has_flag defaultFlags NTLMSSP_NEGOTIATE_KEY_EXCH"
    by code_simp+
  then show ?thesis
    by (simp add: Session_Sum_def mac_towards_def ntlm_mac_def demo_session_def Let_def split: prod.splits)
qed

theorem signature_accepted_witness:
  "\<exists>t n r'. Session_CheckSum demo_ntlm (Some t) [1, 2] 0 (server_side demo_session) = Some ((True, n), r')"
proof -
  obtain t n s' where t: "Session_Sum demo_ntlm [1, 2] 0 demo_session = Some ((Some t, n), s')"
    using demo_signs by blast
  have "peers demo_session (server_side demo_session)" by (simp add: peers_def server_side_def demo_session_def)
  from signature_accepted [OF this t] obtain r' where
    r: "Session_CheckSum demo_ntlm (Some t) [1, 2] 0 (server_side demo_session) = Some ((True, n), r')" "peers s' r'" by blast
  then show ?thesis by blast
qed

end
