(* ===== verification/NtlmAuth.thy ===== *)
theory NtlmAuth
  imports NtlmAgree ServerProps
begin

text \<open>
  What a login proves: nobody gets a session from the NTLM server without the response only the
  password gives, guests apart; and a server with neither accounts nor guests lets nobody in.
\<close>

section \<open>The response\<close>

lemma or_error_Inr: "or_error r k = Some (Inr y) \<longleftrightarrow> (\<exists>x. r = Some (Inr x) \<and> k x = Some (Inr y))"
  by (auto simp: or_error_def split: option.splits sum.splits)

lemma make_session_user: "make_session nc b user flags key im = Some (Inr se) \<Longrightarrow> ns_user se = user"
  by (auto simp: make_session_def split: bind_splits sum.splits)

text \<open>Whatever is hashed, the hash covers all of the response behind it.\<close>

lemma encoded_response:
  assumes "encodeNtlmv2Response nc key sc cc ts info dst = Some r" and "\<And>k m. length (nc_hmac nc k m) = 16"
  shows "take 16 r = nc_hmac nc key (sc @ drop 16 r)"
proof -
  obtain d where r: "r = copy_at 0 (nc_hmac nc key (sc @ drop 16 d)) d" and l: "16 \<le> length d"
  proof -
    from assms(1) obtain d where d: "at_off 16 (\<lambda>c. do { c \<leftarrow> put8 0 1 c; c \<leftarrow> put8 1 1 c;
        c \<leftarrow> at_range 8 16 (copy_from 0 ts) c; c \<leftarrow> at_range 16 24 (copy_from 0 cc) c; at_off 28 info c }) dst = Some d"
      and "r = copy_at 0 (nc_hmac nc key (sc @ drop 16 d)) d"
      by (auto simp: encodeNtlmv2Response_def split: bind_splits)
    moreover from d have "16 \<le> length d" by (auto simp: at_off_def split: if_splits)
    ultimately show ?thesis using that by blast
  qed
  then have "drop 16 r = drop 16 d" by (simp add: drop_copy_at assms(2))
  with r l show ?thesis by (simp add: copy_at_def assms(2))
qed

text \<open>A response \<open>nt\<close> under the domain name \<open>dm\<close> that shows the password of an account, or that there is
  none where guests are allowed.\<close>

definition shows_password :: "ntlm_lib \<Rightarrow> ntlm_server \<Rightarrow> string \<Rightarrow> bytes \<Rightarrow> bytes \<Rightarrow> bool" where
  "shows_password nc s user dm nt \<longleftrightarrow>
     (\<exists>password. (sn_accounts s user = Some password \<or> sn_accounts s user = None \<and> sn_allowGuest s \<and> password = []) \<and>
        take 16 nt = nc_hmac nc (ntowfv2 nc (encode_go (nc_toUpper nc user)) (encode_go password) dm)
          (window 24 8 (sn_cmsg s) @ drop 16 nt))"

lemma login_shows_password:
  assumes "login nc flags amsg nt dm userName enc s = Some (Inr se)" and "\<And>k m. length (nc_hmac nc k m) = 16"
  shows "ns_user se = go_string (DecodeToString userName)" and "shows_password nc s (ns_user se) dm (sbytes nt)"
proof -
  let ?user = "go_string (DecodeToString userName)"
  let ?pw = "case sn_accounts s ?user of None \<Rightarrow> [] | Some p \<Rightarrow> p"
  let ?key = "ntowfv2 nc (encode_go (nc_toUpper nc ?user)) (encode_go ?pw) dm"
  obtain sc cc ts info where sc: "ssub 24 32 (of_bytes (sn_cmsg s)) = Some sc"
    and e: "encodeNtlmv2Response nc ?key (sbytes sc) cc ts info (replicate (slen nt) 0) = Some (sbytes nt)"
    and known: "\<not> (sn_accounts s ?user = None \<and> \<not> sn_allowGuest s)" and u: "ns_user se = ?user"
    using assms(1)
    by (clarsimp simp: login_def Let_def or_error_Inr Option.bind_eq_Some_conv split: if_splits)
      (blast dest: make_session_user)
  have "sbytes sc = window 24 8 (sn_cmsg s)"
    using sc by (auto simp: of_bytes_def window_def split: if_splits)
  moreover have "sn_accounts s ?user = Some ?pw \<or> sn_accounts s ?user = None \<and> sn_allowGuest s \<and> ?pw = []"
    using known by (auto split: option.splits)
  ultimately show "ns_user se = ?user" and "shows_password nc s (ns_user se) dm (sbytes nt)"
    using encoded_response [OF e assms(2)] u unfolding shows_password_def by auto
qed

section \<open>Properties\<close>

text \<open>C2. The NTLM server gives a session only to a guest, when guests are allowed, or to a user
  whose response in the message is the hash, under the key made of the account's password, of the
  server's own challenge and the rest of the response.\<close>

theorem login_proves_password:
  assumes "check_authenticate nc amsg s = Some (Inr se)" and "\<And>k m. length (nc_hmac nc k m) = 16"
  shows "sn_allowGuest s \<and> (\<exists>flags. se = guest_session flags) \<or>
    (\<exists>nt dm un. msg_field 20 amsg = Some (Inr nt) \<and> msg_field 28 amsg = Some (Inr dm) \<and> msg_field 36 amsg = Some (Inr un) \<and>
       ns_user se = go_string (DecodeToString (sbytes un)) \<and> shows_password nc s (ns_user se) (sbytes dm) (sbytes nt))"
proof -
  define k where "k flags nt dm un enc =
    (if slen un \<noteq> 0 \<and> 16 \<le> slen nt then login nc flags amsg nt (sbytes dm) (sbytes un) (sbytes enc) s
     else if sn_allowGuest s then Some (Inr (guest_session flags)) else Some (Inl CredentialEmpty))" for flags nt dm un enc
  obtain flags nt dm un enc where f: "msg_field 20 amsg = Some (Inr nt)" "msg_field 28 amsg = Some (Inr dm)"
      "msg_field 36 amsg = Some (Inr un)" and g: "k flags nt dm un enc = Some (Inr se)"
    using assms(1) unfolding check_authenticate_def k_def [symmetric]
    by (auto simp: or_error_Inr Option.bind_eq_Some_conv split: if_splits)
  from g have l: "login nc flags amsg nt (sbytes dm) (sbytes un) (sbytes enc) s = Some (Inr se) \<or>
      sn_allowGuest s \<and> se = guest_session flags"
    by (auto simp: k_def split: if_splits)
  from l show ?thesis
  proof
    assume "login nc flags amsg nt (sbytes dm) (sbytes un) (sbytes enc) s = Some (Inr se)"
    from login_shows_password [OF this assms(2)] f show ?thesis by blast
  qed blast
qed

theorem login_proves_password_witness:
  "\<exists>am s se. check_authenticate demo_ntlm am s = Some (Inr se) \<and> ns_user se = bob \<and>
     (\<exists>nt dm un. msg_field 20 am = Some (Inr nt) \<and> msg_field 28 am = Some (Inr dm) \<and> msg_field 36 am = Some (Inr un) \<and>
        shows_password demo_ntlm s bob (sbytes dm) (sbytes nt))"
proof -
  obtain se am s where l: "check_authenticate demo_ntlm am s = Some (Inr (server_side se))" "ns_user se = bob"
    and g: "\<not> sn_allowGuest s"
    using exchange_works [OF demo_ntlm_account(1) bob_runes demo_ntlm_account(2,3) demo_ntlm_sizes _ demo_ntlm_small,
        of "replicate 8 0" 0 0 "\<lambda>i. of_nat i"]
    by (auto simp: demo_ntlm_client_def demo_ntlm_server_def AddAccount_def ntlm_NewServer_def)
  have "ns_user (server_side se) = bob" by (simp add: server_side_def l)
  with login_proves_password [OF l(1) demo_ntlm_sizes(1)] l(1) g show ?thesis
    by (intro exI [of _ am] exI [of _ s] exI [of _ "server_side se"]) auto
qed

section \<open>A server with no accounts\<close>

definition no_accounts :: "ntlm_state \<Rightarrow> bool" where
  "no_accounts st \<longleftrightarrow> (\<forall>s. nt_server st = Some s \<longrightarrow> sn_accounts s = Map.empty \<and> \<not> sn_allowGuest s)"

lemma challenge_accounts: "Server_Challenge now rnd m s = Some (r, s') \<Longrightarrow> sn_accounts s' = sn_accounts s \<and> sn_allowGuest s' = sn_allowGuest s"
  by (auto simp: Server_Challenge_def Let_def split: if_splits bind_splits)

lemma ntlm_challenge_closed:
  "na_UserPassword i = Map.empty \<Longrightarrow> \<not> na_AllowGuest i \<Longrightarrow> ntlm_challenge i tok st = Some (r, st') \<Longrightarrow> no_accounts st'"
  by (auto simp: ntlm_challenge_def no_accounts_def fresh_server_def ntlm_NewServer_def Let_def split: bind_splits dest!: challenge_accounts)

lemma no_login: "sn_accounts s = Map.empty \<Longrightarrow> \<not> sn_allowGuest s \<Longrightarrow> check_authenticate nc amsg s \<noteq> Some (Inr se)"
  by (auto simp: check_authenticate_def login_def or_error_Inr Option.bind_eq_Some_conv Let_def split: if_splits)

lemma ntlm_authenticate_closed:
  assumes "no_accounts st" and "ntlm_authenticate nc tok st = Some (r, st')"
  shows "no_accounts st'" and "r = Inl ()"
proof -
  from assms obtain s where s: "nt_server st = Some s" "sn_accounts s = Map.empty" "\<not> sn_allowGuest s"
    by (auto simp: ntlm_authenticate_def no_accounts_def split: bind_splits)
  obtain e where e: "Server_Authenticate nc tok s = Some (Some e, s)"
    using assms(2) s(1) no_login [OF s(2,3), of nc tok]
    by (cases "check_authenticate nc tok s") (auto simp: ntlm_authenticate_def Server_Authenticate_def split: sum.splits)
  show "no_accounts st'" and "r = Inl ()"
    using assms(2) s e by (auto simp: ntlm_authenticate_def no_accounts_def)
qed

text \<open>C4. A server whose authenticator is the one of NTLM, without accounts and without guests, gives
  no connection a session and calls no method of a share, whatever its clients send and however its
  goroutines are scheduled: the state of the shares is at most rescheduled.\<close>

theorem closed_server_untouched:
  assumes auth: "sf_authenticator sf = ntlm_authenticator nc i" and closed: "na_UserPassword i = Map.empty" "\<not> na_AllowGuest i"
    and schedule: "\<And>name V g fs. sf_shares sf name = Some V \<Longrightarrow> P fs \<Longrightarrow> P (v_Goroutine V g fs)"
    and start: "P fs" "nt_server au = None" and runs: "server_runs sf (initial_world fs au clock) w"
  shows "P (w_fs w) \<and> (\<forall>c \<in> set (w_clients w). cn_session (cl_conn c) = None)"
proof -
  have s: "server_keeps sf P (\<lambda>se. se = None) (\<lambda>t. tc_session (getTree t) = None) no_accounts"
    by unfold_locales (use schedule in \<open>auto simp: auth ntlm_authenticator_def
        dest: ntlm_challenge_closed [OF closed] ntlm_authenticate_closed\<close>)
  have "server_keeps.world_inv sf P (\<lambda>se. se = None) (\<lambda>t. tc_session (getTree t) = None) no_accounts (initial_world fs au clock)"
    using start by (simp add: server_keeps.world_inv_def [OF s] initial_world_def spnego_of_def no_accounts_def)
  from server_keeps.world_runs [OF s runs this] show ?thesis
    by (auto simp: server_keeps.world_inv_def [OF s] server_keeps.client_inv_def [OF s] list_all_iff)
qed

definition closed_door :: NTLMAuthenticator where
  "closed_door = \<lparr>na_UserPassword = Map.empty, na_TargetSPN = [], na_NbDomain = [], na_NbName = [], na_DnsName = [], na_DnsDomain = [],
     na_AllowGuest = False\<rparr>"

definition closed_server :: "(memory_share, ntlm_state) server" where
  "closed_server = memory_server demo_config demo_ber id (replicate 16 0) (ntlm_authenticator demo_ntlm closed_door) [''M'']"

definition no_challenge :: ntlm_state where
  "no_challenge = \<lparr>nt_server = None, nt_seqNum = 0, nt_random = (\<lambda>_. 0), nt_clock = (\<lambda>_. 0)\<rparr>"

lemma closed_refuses:
  "written (run_events closed_server (serve [negotiate_frame, setup_frame])
     (initial_world (demo_share (NewMemoryFS demo_env)) no_challenge (\<lambda>_. 0))) = Some [1]"
  by code_simp

theorem closed_server_untouched_witness:
  "\<exists>w :: (memory_share, ntlm_state) world. written (Some w) = Some [1] \<and> ms_fs (w_fs w) = NewMemoryFS demo_env \<and>
     (\<forall>c \<in> set (w_clients w). cn_session (cl_conn c) = None)"
proof -
  let ?s = "demo_share (NewMemoryFS demo_env)"
  obtain w where w: "run_events closed_server (serve [negotiate_frame, setup_frame])
      (initial_world ?s no_challenge (\<lambda>_. 0)) = Some w" and n: "written (Some w) = Some [1]"
    using closed_refuses by (auto simp: written_def)
  have g: "ms_fs (v_Goroutine V g s) = NewMemoryFS demo_env"
    if "sf_shares closed_server name = Some V" and "ms_fs s = NewMemoryFS demo_env" for name V g s
    using that by (auto simp: closed_server_def memory_vfs_def dest!: memory_server_shares)
  have "ms_fs (w_fs w) = NewMemoryFS demo_env \<and> (\<forall>c \<in> set (w_clients w). cn_session (cl_conn c) = None)"
  proof (rule closed_server_untouched [where P = "\<lambda>s. ms_fs s = NewMemoryFS demo_env"])
    show "sf_authenticator closed_server = ntlm_authenticator demo_ntlm closed_door"
      by (simp add: closed_server_def memory_server_def NewServer_def)
    show "ms_fs ?s = NewMemoryFS demo_env" by (simp add: demo_share_def)
    show "server_runs closed_server (initial_world ?s no_challenge (\<lambda>_. 0)) w" by (rule run_events_runs [OF w])
  qed (simp_all add: closed_door_def no_challenge_def, (rule g; assumption))
  with n show ?thesis by blast
qed

end
