(* ===== verification/Spec2Isabelle.thy ===== *)
theory Spec2Isabelle
  imports GhostProps MemoryProps InfoLemmas Acl Session ServerProps NtlmAuth
begin

text \<open>
  smb-mem-lib is an SMB2/3 server whose share is an in-memory file system with a honeypot mode.
  This library models its core: the file system and its ghost-file registry, the wire format of
  requests and responses, the handlers of a tree, the server with its connections, and both sides of NTLMv2.

  \<^bold>\<open>Parts.\<close> src/memoryshare/memory_fs.go holds the file system (\<open>MemoryFS\<close>). It implements the
  interface of src/vfs, whose attribute records it returns. src/internal/smb2 encodes and decodes
  packets. src/server receives packets, checks and decodes them with that codec and calls the file
  system of the connected share. src/internal/ntlm and src/internal/spnego are its login.

  \<^bold>\<open>Theories.\<close>
  \<^item> \<open>Prelude\<close>: machine integers, outcomes of calls (\<open>Ok\<close>, a Go error, a panic, a call that
    never returns), byte slices, generic lemmas. \<open>GoPath\<close>: the functions of Go's path package the
    code calls.
  \<^item> \<open>VfsAttributes\<close>: src/vfs. A Go struct is a record, a getter that panics returns an option.
  \<^item> \<open>GhostFiles\<close>, \<open>GhostLimits\<close>, \<open>GhostProps\<close>: the registry (\<open>addGhostFile\<close> to
    \<open>GetGhostFileStats\<close>), its accounting invariant \<open>ghost_inv\<close> and the properties of registration,
    eviction, lookup and cleanup. \<open>addGhostFile\<close> returns an option because its second eviction
    loop ends only when the accounting is consistent; the invariant is what makes it end.
  \<^item> \<open>MemoryTree\<close>, \<open>MemoryOps\<close>: the tree of nodes in a store of addresses and every operation of
    \<open>MemoryFS\<close>. A call takes an \<open>env\<close> (goroutine, clock, random handle) and the state.
    \<open>MemoryLocks\<close>: the locks each method takes, and which of them a call leaves locked for ever.
  \<^item> \<open>TreeView\<close>: the locale \<open>linked_tree\<close>, which abstracts a linked structure to a map from
    paths; \<open>MemoryInv\<close> interprets it on the model; \<open>MemoryRefine\<close>, \<open>MemorySpec\<close> prove the
    operations against abstract ones on paths (\<open>a_put\<close>, \<open>a_mkdirs\<close>, \<open>a_remove\<close>, \<open>a_move\<close>).
  \<^item> \<open>Honeypot\<close>, \<open>MemorySizes\<close>, \<open>MemoryProps\<close>: requests as a datatype, the step relation
    \<open>fs_step\<close>, invariants of reachable states, and the file system's properties.
  \<^item> \<open>GoBytes\<close>: received slices with length and capacity, little-endian numbers, buffers an
    encoder fills. \<open>Dtyp\<close>, \<open>DtypLemmas\<close>: FILETIME, SID, FILEID, UTF-16 and the locale
    \<open>encoder\<close>, the Encoder interface of iface.go.
  \<^item> \<open>Packet\<close>, \<open>PacketLemmas\<close>: the packet and transform headers. \<open>NegotiateContexts\<close>,
    \<open>ContextLemmas\<close>: contexts of smb2.go.
  \<^item> \<open>RequestDecoders\<close>, \<open>RequestEncoders\<close>, \<open>RequestLemmas\<close>, \<open>RequestRoundtrips\<close>,
    \<open>RequestInterfaces\<close>: every request of request.go, its round trip, and its interpretation
    of \<open>encoder\<close>.
  \<^item> \<open>ResponseDecoders\<close>, \<open>ResponseEncoders\<close>, \<open>ResponseRoundtrips\<close>, \<open>ResponseInterfaces\<close>: the same
    for every response of response.go and the create contexts the server answers with.
  \<^item> \<open>Fscc\<close>, \<open>InfoFs\<close>, \<open>InfoLemmas\<close>: reparse points, the information classes of fscc.go and
    info_fs.go, and directory listings.
  \<^item> \<open>GoStrings\<close>, \<open>ServerUtil\<close>, \<open>Acl\<close>: strings as bytes and runes; attributes, response headers
    and names of util.go; security descriptors of acl.go.
  \<^item> \<open>BlockMac\<close>, \<open>Ccm\<close>: CBC-MAC, CMAC and CCM over any block cipher, with the locale \<open>aead\<close>.
  \<^item> \<open>Framing\<close>, \<open>Session\<close>: transport.go, compound.go, credit.go, the packet loop of conn.go;
    signing and encryption of session.go over \<open>aead\<close>, and kdf.go.
  \<^item> \<open>ServerConn\<close>: how a connection numbers, protects and writes a response (\<open>sendPacket\<close> of
    conn.go) and checks the body of a request (\<open>accept\<close>). \<open>VfsInterface\<close>: the interface of src/vfs
    that a share implements, \<open>MemoryFS\<close> with its stuck locks as one instance, and the locale
    \<open>vfs_keeps\<close> of properties that every method keeps.
  \<^item> \<open>FileTree\<close>, \<open>FileTreeCreate\<close>, \<open>FileTreeIo\<close>, \<open>FileTreeDir\<close>, \<open>FileTreeInfo\<close>,
    \<open>FileTreeSet\<close>: every handler of src/server/file_tree.go; a handler whose file system never returns is
    \<open>Blocked\<close>, one that panics has no result. \<open>DceRpc\<close>, \<open>IpcTree\<close>: dcerpc.go and the
    pipe tree of ipc_tree.go. \<open>Spnego\<close>: the security tokens and the negotiation above an
    authenticator, which is a record of its methods.
  \<^item> \<open>ServerSetup\<close>, \<open>ServerTrees\<close>, \<open>ServerRun\<close>: server.go and conn.go, from NEGOTIATE to the dispatch
    of a request, and the whole server as a step relation \<open>server_step\<close>: connections, receivers,
    request loops and the goroutines of READ and WRITE, in any order, a handler as one step. A panic
    ends the run; a handler that never returns blocks its own goroutine, and the others go on.
  \<^item> \<open>FileTreeKeeps\<close>, \<open>ServerKeeps\<close>, \<open>ServerProps\<close>: the locales \<open>reply_keeps\<close>, \<open>tree_keeps\<close> and
    \<open>server_keeps\<close> carry a property of the shares, of sessions and of trees through every handler
    and every step; their interpretations and the properties of whole runs, with runs of concrete
    frames evaluated in the kernel.
  \<^item> \<open>Ntlm\<close>, \<open>NtlmMessages\<close>: ntlm.go, session.go, server.go and client.go of src/internal/ntlm and
    the authenticator of src/server/authenticator.go. \<open>NtlmLayout\<close>: where the messages have what;
    \<open>NtlmAgree\<close>: client and server accept and sign for each other; \<open>NtlmAuth\<close>: what a login proves,
    and the NTLM authenticator in the whole server.


  \<^bold>\<open>What the properties show.\<close> C1 and C5: what no run of the server changes, and what nobody
  gets without being let in. C2 to C4: what an NTLM login proves, that client and server agree on
  every key, and that a server without accounts stays closed. C6: in honeypot mode
  no request of a client changes the names, the directories or the stored bytes of the tree; modes,
  times, sizes and symlink marks do change. C7: registering a file returns and keeps the registry's
  accounting right, for sizes below \<open>2 ^ 62\<close>; with a larger one it drifts. C8 to C11: the registry's
  limits, eviction order, expiry and separation of sessions. C12 to C18: the file system's operations implement their abstract
  counterparts. C19 to C21: invariants of all reachable states and the callback's decision. C22: the packet header.
  C23: which accessors are safe on a packet that passed the check, and that a short SMB1 packet
  passes it and makes two of them panic. C24 to C28: what a client encodes is what the server decodes, and exactly
  which requests the server's checks refuse. C29: what a wrapping sum lets through.
  C30 to C33: the same for responses, and what an error response loses. C34 and C35: directory
  listings read back in order, and one misplaced field. C36 to C38: what CCM seals, what a compound
  response chains and what a session encrypts is what the other side gets back. C39: CMAC is the
  standard's. C40: what one end of an NTLM session signs the other accepts.

  \<^bold>\<open>Bounds.\<close> There is no fuel. \<open>evictSession\<close> is proved to terminate, \<open>evictGlobal\<close> is a
  \<open>partial_function\<close> that is proved to return under the registry's invariant. Allocations above
  \<open>2 ^ 48\<close> bytes panic.

  \<^bold>\<open>Not modelled.\<close> Logging, the read-write locks of the file system while they are held for a
  time only: an operation of the file system is one step, and \<open>MemoryLocks\<close> keeps track of the locks
  that are never released; the lock of the callbacks; the operating-system file system of src/fs_impl.go; the hash functions and ciphers of the libraries,
  which are parameters; the generated NT status table; the client side of MS-RPC. The channels and locks of a
  connection are left out: what a handler sends is written when it sends it, what is written after
  the receiver stopped goes nowhere, and the semaphores that bound the goroutines of READ and WRITE
  admit any of them. The socket delivers whole frames.
\<close>

end
